(* ===== verification/Prelude.thy ===== *)
theory Prelude
  imports Main "HOL-Library.AList" "HOL-Library.Word"
begin

text \<open>
  Shared vocabulary of the superkube development.

  \<^item> The result monad in which every effectful function of the program is written: a function
    of type \<open>'w \<Rightarrow> ('e + 'a) \<times> 'w\<close> takes the world, returns either an error (\<open>Inl\<close>)
    or a value (\<open>Inr\<close>) and the world it leaves behind. \<open>bindR\<close> is Rust's \<open>?\<close>
    operator: an error ends the function, and the effects made so far stay.
  \<^item> \<open>keeps f m\<close> (operation \<open>m\<close> leaves the component \<open>f\<close> of the world as it is) and
    \<open>preserves I m\<close> (operation \<open>m\<close> keeps the invariant \<open>I\<close>), with their
    composition rules, collected in \<open>keeps_intros\<close> and \<open>preserves_intros\<close>.
  \<^item> Rust's hash maps as association lists, its fixed-width integers, its string functions
    (\<open>strip_suffix\<close>, \<open>split\<close>, \<open>trim\<close>, decimal and hexadecimal formatting, \<open>parse\<close>).
\<close>

named_theorems keeps_intros "rules that compose frame facts of operations"
named_theorems preserves_intros "rules that compose invariant preservation of operations"

section \<open>Types the whole model uses\<close>

type_synonym uuid = "128 word"       \<comment> \<open>\<open>Uuid::as_u128\<close>\<close>
type_synonym time = int              \<comment> \<open>a \<open>DateTime<Utc>\<close>, as nanoseconds since the epoch\<close>
type_synonym i32 = int               \<comment> \<open>wrap-around written out with \<open>wrap_i32\<close>\<close>
type_synonym smap = "(string \<times> string) list" \<comment> \<open>\<open>HashMap<String, String>\<close>\<close>

section \<open>The result monad\<close>

definition returnR :: "'a \<Rightarrow> 'w \<Rightarrow> ('e + 'a) \<times> 'w" where
  "returnR x w = (Inr x, w)"

definition failR :: "'e \<Rightarrow> 'w \<Rightarrow> ('e + 'a) \<times> 'w" where
  "failR e w = (Inl e, w)"

text \<open>The \<open>?\<close> operator.\<close>

definition bindR :: "('w \<Rightarrow> ('e + 'a) \<times> 'w) \<Rightarrow> ('a \<Rightarrow> 'w \<Rightarrow> ('e + 'b) \<times> 'w) \<Rightarrow> 'w \<Rightarrow> ('e + 'b) \<times> 'w" where
  "bindR m k w = (case m w of (Inl e, w') \<Rightarrow> (Inl e, w') | (Inr x, w') \<Rightarrow> k x w')"

text \<open>\<open>match m { Ok(x) => ..., Err(e) => ... }\<close>: both outcomes are handed on, none ends the function.\<close>

definition tryR :: "('w \<Rightarrow> ('e + 'a) \<times> 'w) \<Rightarrow> ('e + 'a \<Rightarrow> 'w \<Rightarrow> ('f + 'b) \<times> 'w) \<Rightarrow> 'w \<Rightarrow> ('f + 'b) \<times> 'w" where
  "tryR m k w = (case m w of (r, w') \<Rightarrow> k r w')"

text \<open>A loop over a list whose body never ends the function; its accumulator is threaded.\<close>

fun foldR :: "('x \<Rightarrow> 'a \<Rightarrow> 'w \<Rightarrow> ('e + 'a) \<times> 'w) \<Rightarrow> 'x list \<Rightarrow> 'a \<Rightarrow> 'w \<Rightarrow> ('e + 'a) \<times> 'w" where
  "foldR f [] a = returnR a"
| "foldR f (x # xs) a = bindR (f x a) (foldR f xs)"

text \<open>The conversion \<open>?\<close> applies to the error.\<close>

definition mapE :: "('e \<Rightarrow> 'f) \<Rightarrow> ('w \<Rightarrow> ('e + 'a) \<times> 'w) \<Rightarrow> 'w \<Rightarrow> ('f + 'a) \<times> 'w" where
  "mapE f m = tryR m (\<lambda>r. case r of Inl err \<Rightarrow> failR (f err) | Inr x \<Rightarrow> returnR x)"

lemma bindR_returnR [simp]: "bindR (returnR x) k = k x"
  by (simp add: bindR_def returnR_def fun_eq_iff)

lemma bindR_failR [simp]: "bindR (failR e) k = failR e"
  by (simp add: bindR_def failR_def fun_eq_iff)

lemma bindR_assoc: "bindR (bindR m k) l = bindR m (\<lambda>x. bindR (k x) l)"
  by (simp add: bindR_def fun_eq_iff split: prod.split sum.split)

lemma bindR_Inr: "m w = (Inr x, w') \<Longrightarrow> bindR m k w = k x w'"
  by (simp add: bindR_def)

lemma bindR_Inl: "m w = (Inl e, w') \<Longrightarrow> bindR m k w = (Inl e, w')"
  by (simp add: bindR_def)

lemma tryR_eq: "m w = (r, w') \<Longrightarrow> tryR m k w = k r w'"
  by (simp add: tryR_def)

subsection \<open>Frames and invariants\<close>

definition keeps :: "('w \<Rightarrow> 'c) \<Rightarrow> ('w \<Rightarrow> 'r \<times> 'w) \<Rightarrow> bool" where
  "keeps f m \<longleftrightarrow> (\<forall>w. f (snd (m w)) = f w)"

definition preserves :: "('w \<Rightarrow> bool) \<Rightarrow> ('w \<Rightarrow> 'r \<times> 'w) \<Rightarrow> bool" where
  "preserves I m \<longleftrightarrow> (\<forall>w. I w \<longrightarrow> I (snd (m w)))"

lemma keepsI: "(\<And>w. f (snd (m w)) = f w) \<Longrightarrow> keeps f m"
  by (simp add: keeps_def)

lemma keepsD: "keeps f m \<Longrightarrow> m w = (r, w') \<Longrightarrow> f w' = f w"
  by (metis keeps_def snd_conv)

lemma preservesI: "(\<And>w. I w \<Longrightarrow> I (snd (m w))) \<Longrightarrow> preserves I m"
  by (simp add: preserves_def)

lemma preservesD: "preserves I m \<Longrightarrow> I w \<Longrightarrow> m w = (r, w') \<Longrightarrow> I w'"
  by (metis preserves_def snd_conv)

lemma keeps_returnR [keeps_intros]: "keeps f (returnR x)"
  by (simp add: keeps_def returnR_def)

lemma keeps_failR [keeps_intros]: "keeps f (failR e)"
  by (simp add: keeps_def failR_def)

lemma keeps_bindR [keeps_intros]:
  assumes "keeps f m" and "\<And>x. keeps f (k x)"
  shows "keeps f (bindR m k)"
  using assms by (auto simp: keeps_def bindR_def split: prod.split sum.split) (metis snd_conv)+

lemma keeps_tryR [keeps_intros]:
  assumes "keeps f m" and "\<And>r. keeps f (k r)"
  shows "keeps f (tryR m k)"
  using assms by (auto simp: keeps_def tryR_def split: prod.split) (metis snd_conv)

lemma keeps_mapE [keeps_intros]: "keeps f m \<Longrightarrow> keeps f (mapE g m)"
  by (auto simp: mapE_def keeps_def tryR_def failR_def returnR_def split: prod.split sum.split)
     (metis snd_conv)+

lemma keeps_if [keeps_intros]: "keeps f m \<Longrightarrow> keeps f n \<Longrightarrow> keeps f (if b then m else n)"
  by simp

lemma keeps_case_option [keeps_intros]:
  "keeps f m \<Longrightarrow> (\<And>x. keeps f (k x)) \<Longrightarrow> keeps f (case opt of None \<Rightarrow> m | Some x \<Rightarrow> k x)"
  by (cases opt) auto

lemma keeps_case_sum [keeps_intros]:
  "(\<And>x. keeps f (k x)) \<Longrightarrow> (\<And>x. keeps f (l x)) \<Longrightarrow> keeps f (case s of Inl x \<Rightarrow> k x | Inr x \<Rightarrow> l x)"
  by (cases s) auto

lemma keeps_foldR [keeps_intros]: "(\<And>x a. keeps f (g x a)) \<Longrightarrow> keeps f (foldR g xs a)"
  by (induction xs arbitrary: a) (auto intro: keeps_intros)

lemma preserves_returnR [preserves_intros]: "preserves I (returnR x)"
  by (simp add: preserves_def returnR_def)

lemma preserves_failR [preserves_intros]: "preserves I (failR e)"
  by (simp add: preserves_def failR_def)

lemma preserves_bindR [preserves_intros]:
  assumes "preserves I m" and "\<And>x. preserves I (k x)"
  shows "preserves I (bindR m k)"
  using assms by (auto simp: preserves_def bindR_def split: prod.split sum.split)

lemma preserves_tryR [preserves_intros]:
  assumes "preserves I m" and "\<And>r. preserves I (k r)"
  shows "preserves I (tryR m k)"
  using assms by (auto simp: preserves_def tryR_def split: prod.split)

lemma preserves_mapE [preserves_intros]: "preserves I m \<Longrightarrow> preserves I (mapE g m)"
  by (auto simp: mapE_def preserves_def tryR_def failR_def returnR_def split: prod.split sum.split)

lemma preserves_if [preserves_intros]:
  "preserves I m \<Longrightarrow> preserves I n \<Longrightarrow> preserves I (if b then m else n)"
  by simp

lemma preserves_case_option [preserves_intros]:
  "preserves I m \<Longrightarrow> (\<And>x. preserves I (k x)) \<Longrightarrow>
   preserves I (case opt of None \<Rightarrow> m | Some x \<Rightarrow> k x)"
  by (cases opt) auto

lemma preserves_case_sum [preserves_intros]:
  "(\<And>x. preserves I (k x)) \<Longrightarrow> (\<And>x. preserves I (l x)) \<Longrightarrow>
   preserves I (case s of Inl x \<Rightarrow> k x | Inr x \<Rightarrow> l x)"
  by (cases s) auto

lemma preserves_foldR [preserves_intros]:
  "(\<And>x a. preserves I (g x a)) \<Longrightarrow> preserves I (foldR g xs a)"
  by (induction xs arbitrary: a) (auto intro: preserves_intros)

lemma keeps_preserves: "keeps f m \<Longrightarrow> preserves (\<lambda>w. P (f w)) m"
  by (simp add: keeps_def preserves_def)

section \<open>Hash maps\<close>

text \<open>
  A \<open>HashMap\<close> is an association list with distinct keys. The order of the list stands for
  the iteration order, which Rust leaves open.
\<close>

definition hm_get :: "('k \<times> 'v) list \<Rightarrow> 'k \<Rightarrow> 'v option" where
  "hm_get m k = map_of m k"

definition hm_insert :: "'k \<Rightarrow> 'v \<Rightarrow> ('k \<times> 'v) list \<Rightarrow> ('k \<times> 'v) list" where
  "hm_insert k v m = AList.update k v m"

definition hm_remove :: "'k \<Rightarrow> ('k \<times> 'v) list \<Rightarrow> ('k \<times> 'v) list" where
  "hm_remove k m = AList.delete k m"

text \<open>\<open>iter().collect::<HashMap<_, _>>()\<close>: a later pair replaces an earlier one of its key.\<close>

definition hm_collect :: "('k \<times> 'v) list \<Rightarrow> ('k \<times> 'v) list" where
  "hm_collect ps = fold (\<lambda>(k, v). hm_insert k v) ps []"

definition hm_ok :: "('k \<times> 'v) list \<Rightarrow> bool" where
  "hm_ok m \<longleftrightarrow> distinct (map fst m)"

text \<open>\<open>sel.iter().all(|(k, v)| labels.get(k) == Some(v))\<close>, which the scheduler, the repository and
  the controllers all use.\<close>

definition labels_match :: "smap \<Rightarrow> smap \<Rightarrow> bool" where
  "labels_match sel labels \<longleftrightarrow> list_all (\<lambda>(k, v). hm_get labels k = Some v) sel"

lemma hm_get_insert [simp]: "hm_get (hm_insert k v m) k' = (if k' = k then Some v else hm_get m k')"
  by (simp add: hm_get_def hm_insert_def update_conv')

lemma hm_get_remove [simp]: "hm_get (hm_remove k m) k' = (if k' = k then None else hm_get m k')"
  by (simp add: hm_get_def hm_remove_def delete_conv')

lemma hm_ok_insert [simp]: "hm_ok m \<Longrightarrow> hm_ok (hm_insert k v m)"
  by (simp add: hm_ok_def hm_insert_def distinct_update)

lemma hm_ok_remove [simp]: "hm_ok m \<Longrightarrow> hm_ok (hm_remove k m)"
  by (simp add: hm_ok_def hm_remove_def distinct_delete)

lemma labels_match_Nil [simp]: "labels_match [] labels"
  by (simp add: labels_match_def)

lemma labels_match_iff:
  "labels_match sel labels \<longleftrightarrow> (\<forall>(k, v) \<in> set sel. hm_get labels k = Some v)"
  by (simp add: labels_match_def list_all_iff)

lemma labels_match_refl: "hm_ok m \<Longrightarrow> labels_match m m"
  by (auto simp: labels_match_iff hm_ok_def hm_get_def)

section \<open>Fixed-width integers\<close>

definition u64_max :: nat where
  "u64_max = 18446744073709551615"

definition sat_add_u64 :: "nat \<Rightarrow> nat \<Rightarrow> nat" where
  "sat_add_u64 a b = min u64_max (a + b)"

definition wrap_i32 :: "int \<Rightarrow> i32" where
  "wrap_i32 x = (x + 2147483648) mod 4294967296 - 2147483648"

definition i32_ok :: "int \<Rightarrow> bool" where
  "i32_ok x \<longleftrightarrow> -2147483648 \<le> x \<and> x \<le> 2147483647"

lemma u64_max_eq: "u64_max = 2 ^ 64 - 1"
  by (simp add: u64_max_def)

lemma sat_add_u64_le [simp]: "sat_add_u64 a b \<le> u64_max"
  by (simp add: sat_add_u64_def)

lemma sat_add_u64_exact: "a + b \<le> u64_max \<Longrightarrow> sat_add_u64 a b = a + b"
  by (simp add: sat_add_u64_def)

lemma sat_add_u64_assoc: "sat_add_u64 (sat_add_u64 a b) c = sat_add_u64 a (sat_add_u64 b c)"
  by (simp add: sat_add_u64_def min_def)

lemma sat_add_u64_commute: "sat_add_u64 a b = sat_add_u64 b a"
  by (simp add: sat_add_u64_def add.commute)

lemma sat_add_u64_0 [simp]: "a \<le> u64_max \<Longrightarrow> sat_add_u64 a 0 = a"
  by (simp add: sat_add_u64_def)

lemma wrap_i32_ok [simp]: "i32_ok (wrap_i32 x)"
proof -
  have "0 \<le> (x + 2147483648) mod 4294967296" "(x + 2147483648) mod 4294967296 < 4294967296"
    by simp_all
  then show ?thesis by (simp add: i32_ok_def wrap_i32_def)
qed

lemma wrap_i32_id [simp]: "i32_ok x \<Longrightarrow> wrap_i32 x = x"
  by (simp add: i32_ok_def wrap_i32_def)

end
