(* ===== verification/Text.thy ===== *)
theory Text
  imports Prelude
begin

text \<open>
  Rust's string functions, as the program uses them, on strings as lists of ASCII characters:
  \<open>strip_prefix\<close>, \<open>strip_suffix\<close>, \<open>split\<close>, \<open>splitn(2, _)\<close>, \<open>trim\<close>, decimal and
  hexadecimal formatting, and \<open>parse\<close> of unsigned and signed integers (an optional sign,
  at least one digit, out-of-range values rejected). The lemmas show that printing and parsing
  are inverse, that printing is injective, and that splitting and joining are inverse.
\<close>

section \<open>Characters\<close>

definition is_digit :: "char \<Rightarrow> bool" where
  "is_digit c \<longleftrightarrow> 48 \<le> (of_char c :: nat) \<and> (of_char c :: nat) \<le> 57"

definition digit_val :: "char \<Rightarrow> nat" where
  "digit_val c = of_char c - 48"

definition digit_char :: "nat \<Rightarrow> char" where
  "digit_char d = char_of (48 + d)"

text \<open>Lower-case hexadecimal digits: 0-9, then a-f.\<close>

definition hex_char :: "nat \<Rightarrow> char" where
  "hex_char d = (if d < 10 then char_of (48 + d) else char_of (87 + d))"

definition is_ws :: "char \<Rightarrow> bool" where
  "is_ws c \<longleftrightarrow> (let n = of_char c :: nat in n = 32 \<or> (9 \<le> n \<and> n \<le> 13))"

text \<open>\<open>to_ascii_lowercase\<close> on one character.\<close>

definition to_lower :: "char \<Rightarrow> char" where
  "to_lower c = (let n = of_char c :: nat in if 65 \<le> n \<and> n \<le> 90 then char_of (n + 32) else c)"

section \<open>Stripping, splitting, trimming\<close>

definition strip_prefix :: "string \<Rightarrow> string \<Rightarrow> string option" where
  "strip_prefix s pre = (if take (length pre) s = pre then Some (drop (length pre) s) else None)"

definition strip_suffix :: "string \<Rightarrow> string \<Rightarrow> string option" where
  "strip_suffix s suf = (let k = length s - length suf in
     if length suf \<le> length s \<and> drop k s = suf then Some (take k s) else None)"

definition starts_with :: "string \<Rightarrow> string \<Rightarrow> bool" where
  "starts_with s pre \<longleftrightarrow> take (length pre) s = pre"

fun split_on :: "char \<Rightarrow> string \<Rightarrow> string list" where
  "split_on c [] = [[]]"
| "split_on c (x # xs) =
     (if x = c then [] # split_on c xs
      else (case split_on c xs of [] \<Rightarrow> [[x]] | y # ys \<Rightarrow> (x # y) # ys))"

text \<open>\<open>splitn(2, c)\<close>: the part before the first \<open>c\<close> and, if there is one, everything after it.\<close>

definition splitn2 :: "char \<Rightarrow> string \<Rightarrow> string \<times> string option" where
  "splitn2 c s = (case dropWhile (\<lambda>x. x \<noteq> c) s of
       [] \<Rightarrow> (s, None)
     | _ # r \<Rightarrow> (takeWhile (\<lambda>x. x \<noteq> c) s, Some r))"

fun join_with :: "string \<Rightarrow> string list \<Rightarrow> string" where
  "join_with sep [] = []"
| "join_with sep [x] = x"
| "join_with sep (x # y # ys) = x @ sep @ join_with sep (y # ys)"

definition trim :: "string \<Rightarrow> string" where
  "trim s = rev (dropWhile is_ws (rev (dropWhile is_ws s)))"

section \<open>Numbers\<close>

fun show_nat :: "nat \<Rightarrow> string" where
  "show_nat n = (if n < 10 then [digit_char n] else show_nat (n div 10) @ [digit_char (n mod 10)])"

declare show_nat.simps [simp del]

definition show_int :: "int \<Rightarrow> string" where
  "show_int i = (if i < 0 then CHR ''-'' # show_nat (nat (- i)) else show_nat (nat i))"

fun show_hex :: "nat \<Rightarrow> string" where
  "show_hex n = (if n < 16 then [hex_char n] else show_hex (n div 16) @ [hex_char (n mod 16)])"

declare show_hex.simps [simp del]

definition all_digits :: "string \<Rightarrow> bool" where
  "all_digits s \<longleftrightarrow> s \<noteq> [] \<and> list_all is_digit s"

definition dec_val :: "string \<Rightarrow> nat" where
  "dec_val s = foldl (\<lambda>a c. 10 * a + digit_val c) 0 s"

text \<open>\<open>str::parse\<close> for an unsigned integer type whose largest value is \<open>m\<close>.\<close>

definition parse_unsigned :: "nat \<Rightarrow> string \<Rightarrow> nat option" where
  "parse_unsigned m s = (let d = (case s of [] \<Rightarrow> [] | c # r \<Rightarrow> if c = CHR ''+'' then r else s) in
     if all_digits d \<and> dec_val d \<le> m then Some (dec_val d) else None)"

definition parse_u64 :: "string \<Rightarrow> nat option" where
  "parse_u64 s = parse_unsigned u64_max s"

definition parse_u8 :: "string \<Rightarrow> nat option" where
  "parse_u8 s = parse_unsigned 255 s"

text \<open>\<open>str::parse::<i64>\<close>.\<close>

definition parse_i64 :: "string \<Rightarrow> int option" where
  "parse_i64 s = (case s of
      [] \<Rightarrow> None
    | c # r \<Rightarrow>
        if c = CHR ''-'' then
          (if all_digits r \<and> dec_val r \<le> 9223372036854775808 then Some (- int (dec_val r)) else None)
        else map_option int (parse_unsigned 9223372036854775807 s))"

section \<open>Lemmas\<close>

lemma of_char_digit_char: "d < 10 \<Longrightarrow> (of_char (digit_char d) :: nat) = 48 + d"
  by (simp add: digit_char_def)

lemma is_digit_digit_char [simp]: "d < 10 \<Longrightarrow> is_digit (digit_char d)"
  by (simp add: is_digit_def of_char_digit_char)

lemma digit_val_digit_char [simp]: "d < 10 \<Longrightarrow> digit_val (digit_char d) = d"
  by (simp add: digit_val_def of_char_digit_char)

lemma dec_val_snoc [simp]: "dec_val (s @ [c]) = 10 * dec_val s + digit_val c"
  by (simp add: dec_val_def)

lemma show_nat_nonempty [simp]: "show_nat n \<noteq> []"
  by (subst show_nat.simps) simp

lemma digits_show_nat: "list_all is_digit (show_nat n)"
proof (induction n rule: show_nat.induct)
  case (1 n)
  then show ?case by (subst show_nat.simps) simp
qed

lemma all_digits_show_nat [simp]: "all_digits (show_nat n)"
  by (simp add: all_digits_def digits_show_nat)

lemma dec_val_show_nat [simp]: "dec_val (show_nat n) = n"
proof (induction n rule: show_nat.induct)
  case (1 n)
  show ?case
  proof (cases "n < 10")
    case True
    then show ?thesis by (subst show_nat.simps) (simp add: dec_val_def)
  next
    case False
    with "1.IH" have "dec_val (show_nat (n div 10)) = n div 10" by simp
    with False show ?thesis by (subst show_nat.simps) simp
  qed
qed

lemma show_nat_inj [simp]: "show_nat a = show_nat b \<longleftrightarrow> a = b"
  by (metis dec_val_show_nat)

lemma hd_show_nat: "is_digit (hd (show_nat n))"
  using digits_show_nat [of n] show_nat_nonempty [of n]
  by (cases "show_nat n") auto

lemma show_nat_Cons:
  obtains c r where "show_nat n = c # r" "is_digit c"
  using hd_show_nat [of n] show_nat_nonempty [of n] by (cases "show_nat n") auto

lemma not_digit_sign: "\<not> is_digit CHR ''+''" "\<not> is_digit CHR ''-''"
  by (simp_all add: is_digit_def)

lemma parse_unsigned_show_nat [simp]:
  "parse_unsigned m (show_nat n) = (if n \<le> m then Some n else None)"
proof -
  obtain c r where cr: "show_nat n = c # r" "is_digit c" by (rule show_nat_Cons)
  then have "c \<noteq> CHR ''+''" using not_digit_sign by auto
  then have "(case show_nat n of [] \<Rightarrow> [] | c # r \<Rightarrow> if c = CHR ''+'' then r else show_nat n) = show_nat n"
    using cr by simp
  then show ?thesis by (simp add: parse_unsigned_def Let_def)
qed

lemma parse_i64_show_int:
  assumes "-9223372036854775808 \<le> i" "i \<le> 9223372036854775807"
  shows "parse_i64 (show_int i) = Some i"
proof (cases "i < 0")
  case True
  then show ?thesis using assms by (simp add: show_int_def parse_i64_def)
next
  case False
  obtain c r where cr: "show_nat (nat i) = c # r" "is_digit c" by (rule show_nat_Cons)
  then have "c \<noteq> CHR ''-''" using not_digit_sign by auto
  with cr have "parse_i64 (show_nat (nat i)) =
      map_option int (parse_unsigned 9223372036854775807 (show_nat (nat i)))"
    by (simp add: parse_i64_def)
  with False assms show ?thesis by (simp add: show_int_def)
qed

lemma show_int_inj: "show_int a = show_int b \<longleftrightarrow> a = b"
proof
  assume eq: "show_int a = show_int b"
  obtain c r where cr: "show_nat (nat a) = c # r" "is_digit c" by (rule show_nat_Cons)
  obtain c' r' where cr': "show_nat (nat b) = c' # r'" "is_digit c'" by (rule show_nat_Cons)
  have ne: "c \<noteq> CHR ''-''" "c' \<noteq> CHR ''-''" using cr cr' not_digit_sign by auto
  show "a = b"
  proof (cases "a < 0"; cases "b < 0")
    assume "a < 0" "b < 0"
    with eq have "nat (- a) = nat (- b)" by (simp add: show_int_def)
    with \<open>a < 0\<close> \<open>b < 0\<close> show ?thesis by simp
  next
    assume "a < 0" "\<not> b < 0"
    with eq cr' ne show ?thesis by (simp add: show_int_def)
  next
    assume "\<not> a < 0" "b < 0"
    with eq cr ne show ?thesis by (simp add: show_int_def)
  next
    assume "\<not> a < 0" "\<not> b < 0"
    with eq have "nat a = nat b" by (simp add: show_int_def)
    with \<open>\<not> a < 0\<close> \<open>\<not> b < 0\<close> show ?thesis by simp
  qed
qed simp

lemma strip_suffix_append [simp]: "strip_suffix (s @ suf) suf = Some s"
  by (simp add: strip_suffix_def)

lemma strip_prefix_append [simp]: "strip_prefix (pre @ s) pre = Some s"
  by (simp add: strip_prefix_def)

lemma strip_suffix_Some: "strip_suffix s suf = Some r \<longleftrightarrow> s = r @ suf"
proof
  assume *: "strip_suffix s suf = Some r"
  let ?k = "length s - length suf"
  from * have "drop ?k s = suf" "r = take ?k s"
    by (auto simp: strip_suffix_def Let_def split: if_splits)
  then show "s = r @ suf" by (metis append_take_drop_id)
qed simp

lemma split_on_nonempty [simp]: "split_on c s \<noteq> []"
  by (induction s) (auto split: list.split)

lemma split_on_notin: "c \<notin> set s \<Longrightarrow> split_on c s = [s]"
  by (induction s) auto

lemma split_on_append: "c \<notin> set s \<Longrightarrow> split_on c (s @ c # t) = s # split_on c t"
  by (induction s) auto

lemma split_on_join:
  "xs \<noteq> [] \<Longrightarrow> \<forall>x \<in> set xs. c \<notin> set x \<Longrightarrow> split_on c (join_with [c] xs) = xs"
proof (induction xs rule: induct_list012)
  case (3 x y zs)
  then show ?case by (simp add: split_on_append)
qed (auto simp: split_on_notin)

lemma join_with_Cons_char: "join_with sep ((x # y) # ys) = x # join_with sep (y # ys)"
  by (cases ys) auto

lemma join_split_on: "join_with [c] (split_on c s) = s"
proof (induction s)
  case (Cons x xs)
  obtain y ys where "split_on c xs = y # ys" by (cases "split_on c xs") auto
  with Cons show ?case by (simp add: join_with_Cons_char)
qed simp

lemma splitn2_append: "c \<notin> set s \<Longrightarrow> splitn2 c (s @ c # t) = (s, Some t)"
  by (auto simp: splitn2_def takeWhile_append dropWhile_append)

lemma splitn2_notin: "c \<notin> set s \<Longrightarrow> splitn2 c s = (s, None)"
proof -
  assume "c \<notin> set s"
  then have "dropWhile (\<lambda>x. x \<noteq> c) s = []" by (induction s) auto
  then show ?thesis unfolding splitn2_def by (simp only: list.case)
qed

lemma is_digit_not_ws: "is_digit c \<Longrightarrow> \<not> is_ws c"
  by (auto simp: is_digit_def is_ws_def Let_def)

lemma trim_no_ws: "list_all (\<lambda>c. \<not> is_ws c) s \<Longrightarrow> trim s = s"
proof -
  have *: "dropWhile is_ws t = t" if "list_all (\<lambda>c. \<not> is_ws c) t" for t
    using that by (cases t) auto
  assume "list_all (\<lambda>c. \<not> is_ws c) s"
  then show ?thesis by (simp add: trim_def *)
qed

end
