(* ===== verification/Models.thy ===== *)
theory Models
  imports Text
begin

text \<open>
  The data model of superkube: one \<open>record\<close> or \<open>datatype\<close> for every struct and enum of
  \<open>src/src/models/\<close>, with the fields in the order the Rust declarations have them. A field is
  prefixed with a short tag of its struct (\<open>om_\<close> for \<open>ObjectMeta\<close>, \<open>ps_\<close> for
  \<open>PodSpec\<close>, \<open>pt_\<close> for \<open>PodStatus\<close>, ...). The serde attributes only fix the JSON
  spelling and have no counterpart. The methods and \<open>Default\<close> implementations of these
  types follow their records at the end of the theory.
\<close>

type_synonym json_text = string  \<comment> \<open>a \<open>serde_json::Value\<close> the program stores and never inspects\<close>

section \<open>\<open>models/meta.rs\<close>\<close>

record type_meta =
  tm_api_version :: "string option"
  tm_kind :: "string option"

record owner_reference =
  owr_api_version :: string
  owr_kind :: string
  owr_name :: string
  owr_uid :: uuid
  owr_controller :: "bool option"
  owr_block_owner_deletion :: "bool option"

record object_meta =
  om_name :: "string option"
  om_namespace :: "string option"
  om_uid :: "uuid option"
  om_resource_version :: "string option"
  om_labels :: "smap option"
  om_annotations :: "smap option"
  om_creation_timestamp :: "time option"
  om_owner_references :: "owner_reference list option"

record label_selector_requirement =
  lsr_key :: string
  lsr_operator :: string
  lsr_values :: "string list option"

record label_selector =
  ls_match_labels :: "smap option"
  ls_match_expressions :: "label_selector_requirement list option"

record list_meta =
  lm_resource_version :: "string option"
  lm_continue_token :: "string option"

record 't k8s_list =
  li_api_version :: string
  li_kind :: string
  li_metadata :: list_meta
  li_items :: "'t list"

section \<open>\<open>models/affinity.rs\<close>\<close>

record node_selector_requirement =
  nsr_key :: string
  nsr_operator :: string
  nsr_values :: "string list"

record node_selector_term =
  nst_match_expressions :: "node_selector_requirement list"
  nst_match_fields :: "node_selector_requirement list"

record node_selector =
  nsel_node_selector_terms :: "node_selector_term list"

record preferred_scheduling_term =
  pst_weight :: i32
  pst_preference :: node_selector_term

record node_affinity =
  naf_required_during_scheduling_ignored_during_execution :: "node_selector option"
  naf_preferred_during_scheduling_ignored_during_execution :: "preferred_scheduling_term list"

record pod_affinity_term =
  pat_label_selector :: "label_selector option"
  pat_namespaces :: "string list"
  pat_topology_key :: string

record weighted_pod_affinity_term =
  wpat_weight :: i32
  wpat_pod_affinity_term :: pod_affinity_term

record pod_affinity =
  paf_required_during_scheduling_ignored_during_execution :: "pod_affinity_term list"
  paf_preferred_during_scheduling_ignored_during_execution :: "weighted_pod_affinity_term list"

record pod_anti_affinity =
  paaf_required_during_scheduling_ignored_during_execution :: "pod_affinity_term list"
  paaf_preferred_during_scheduling_ignored_during_execution :: "weighted_pod_affinity_term list"

record affinity =
  af_node_affinity :: "node_affinity option"
  af_pod_affinity :: "pod_affinity option"
  af_pod_anti_affinity :: "pod_anti_affinity option"

section \<open>\<open>models/pod.rs\<close>\<close>

datatype image_pull_policy = IPP_Always | IPP_IfNotPresent | IPP_Never

record env_var =
  ev_name :: string
  ev_value :: "string option"

datatype protocol = TCP | UDP

record container_port =
  cp_name :: "string option"
  cp_container_port :: i32
  cp_host_port :: "i32 option"
  cp_protocol :: "protocol option"

record resource_requirements =
  rr_limits :: "smap option"
  rr_requests :: "smap option"

record container =
  co_name :: string
  co_image :: string
  co_image_pull_policy :: "image_pull_policy option"
  co_command :: "string list option"
  co_args :: "string list option"
  co_env :: "env_var list option"
  co_ports :: "container_port list option"
  co_resources :: "resource_requirements option"
  co_working_dir :: "string option"

datatype restart_policy = RP_Always | RP_OnFailure | RP_Never

record pod_spec =
  ps_containers :: "container list"
  ps_restart_policy :: "restart_policy option"
  ps_node_selector :: "smap option"
  ps_node_name :: "string option"
  ps_service_account_name :: "string option"
  ps_host_network :: bool
  ps_affinity :: "affinity option"
  ps_runtime_class_name :: "string option"

datatype pod_phase = Pending | Running | Succeeded | Failed | Unknown

record pod_condition =
  pc_condition_type :: string
  pc_status :: string
  pc_last_probe_time :: "time option"
  pc_last_transition_time :: "time option"
  pc_reason :: "string option"
  pc_message :: "string option"

record pod_ip =
  pip_ip :: string

record container_state_waiting =
  csw_reason :: "string option"
  csw_message :: "string option"

record container_state_running =
  csr_started_at :: "time option"

record container_state_terminated =
  csx_exit_code :: i32
  csx_signal :: "i32 option"
  csx_reason :: "string option"
  csx_message :: "string option"
  csx_started_at :: "time option"
  csx_finished_at :: "time option"
  csx_container_id :: "string option"

record container_state =
  cst_waiting :: "container_state_waiting option"
  cst_running :: "container_state_running option"
  cst_terminated :: "container_state_terminated option"

record container_status =
  cs_name :: string
  cs_ready :: bool
  cs_restart_count :: i32
  cs_image :: string
  cs_image_id :: string
  cs_container_id :: "string option"
  cs_state :: "container_state option"
  cs_last_state :: "container_state option"
  cs_started :: "bool option"

record pod_status =
  pt_phase :: pod_phase
  pt_conditions :: "pod_condition list option"
  pt_pod_ip :: "string option"
  pt_pod_i_ps :: "pod_ip list option"
  pt_host_ip :: "string option"
  pt_start_time :: "time option"
  pt_container_statuses :: "container_status list option"
  pt_message :: "string option"
  pt_reason :: "string option"

record pod =
  pod_type_meta :: type_meta
  pod_metadata :: object_meta
  pod_spec :: pod_spec
  pod_status :: "pod_status option"

record pod_template_spec =
  tpl_metadata :: object_meta
  tpl_spec :: pod_spec

section \<open>\<open>models/deployment.rs\<close>\<close>

datatype deployment_strategy_type = DST_RollingUpdate | DST_Recreate

datatype int_or_string = IS_Int i32 | IS_String string

record rolling_update_deployment =
  rud_max_unavailable :: "int_or_string option"
  rud_max_surge :: "int_or_string option"

record deployment_strategy =
  dst_strategy_type :: deployment_strategy_type
  dst_rolling_update :: "rolling_update_deployment option"

record deployment_spec =
  ds_replicas :: "i32 option"
  ds_selector :: label_selector
  ds_template :: pod_template_spec
  ds_strategy :: "deployment_strategy option"
  ds_min_ready_seconds :: "i32 option"
  ds_revision_history_limit :: "i32 option"
  ds_paused :: bool

record deployment_condition =
  dc_condition_type :: string
  dc_status :: string
  dc_last_update_time :: "time option"
  dc_last_transition_time :: "time option"
  dc_reason :: "string option"
  dc_message :: "string option"

record deployment_status =
  dt_replicas :: i32
  dt_updated_replicas :: i32
  dt_ready_replicas :: i32
  dt_available_replicas :: i32
  dt_unavailable_replicas :: i32
  dt_observed_generation :: "int option"
  dt_conditions :: "deployment_condition list option"

record deployment =
  dep_type_meta :: type_meta
  dep_metadata :: object_meta
  dep_spec :: deployment_spec
  dep_status :: "deployment_status option"

section \<open>\<open>models/statefulset.rs\<close>\<close>

datatype pod_management_policy = OrderedReady | Parallel

record stateful_set_spec =
  ss_replicas :: "i32 option"
  ss_selector :: label_selector
  ss_template :: pod_template_spec
  ss_service_name :: "string option"
  ss_pod_management_policy :: "pod_management_policy option"

record stateful_set_status =
  sst_replicas :: i32
  sst_ready_replicas :: i32
  sst_current_replicas :: i32
  sst_observed_generation :: "int option"
  sst_current_revision :: "string option"
  sst_last_transition_time :: "time option"

record stateful_set =
  sts_type_meta :: type_meta
  sts_metadata :: object_meta
  sts_spec :: stateful_set_spec
  sts_status :: "stateful_set_status option"

section \<open>\<open>models/daemonset.rs\<close>\<close>

record daemon_set_spec =
  dmsp_selector :: label_selector
  dmsp_template :: pod_template_spec
  dmsp_min_ready_seconds :: "i32 option"

record daemon_set_status =
  dmst_desired_number_scheduled :: i32
  dmst_current_number_scheduled :: i32
  dmst_number_ready :: i32
  dmst_updated_number_scheduled :: i32
  dmst_number_misscheduled :: i32
  dmst_number_available :: i32
  dmst_observed_generation :: "int option"
  dmst_last_transition_time :: "time option"

record daemon_set =
  dms_type_meta :: type_meta
  dms_metadata :: object_meta
  dms_spec :: daemon_set_spec
  dms_status :: "daemon_set_status option"

section \<open>\<open>models/service.rs\<close>\<close>

record service_port =
  spt_name :: "string option"
  spt_protocol :: protocol
  spt_port :: i32
  spt_target_port :: "int_or_string option"
  spt_node_port :: "i32 option"

datatype service_type = ST_ClusterIP | ST_NodePort | ST_LoadBalancer | ST_ExternalName

datatype session_affinity = SA_None | SA_ClientIP

record service_spec =
  sp_selector :: "smap option"
  sp_ports :: "service_port list"
  sp_service_type :: service_type
  sp_cluster_ip :: "string option"
  sp_external_i_ps :: "string list option"
  sp_session_affinity :: "session_affinity option"

record load_balancer_ingress =
  lbi_ip :: "string option"
  lbi_hostname :: "string option"

record load_balancer_status =
  lbs_ingress :: "load_balancer_ingress list option"

record service_status =
  svst_load_balancer :: "load_balancer_status option"

record service =
  svc_type_meta :: type_meta
  svc_metadata :: object_meta
  svc_spec :: service_spec
  svc_status :: "service_status option"

record object_reference =
  oref_api_version :: "string option"
  oref_kind :: "string option"
  oref_name :: "string option"
  oref_namespace :: "string option"
  oref_uid :: "uuid option"
  oref_resource_version :: "string option"
  oref_field_path :: "string option"

record endpoint_address =
  ea_ip :: string
  ea_hostname :: "string option"
  ea_node_name :: "string option"
  ea_target_ref :: "object_reference option"

record endpoint_port =
  epp_name :: "string option"
  epp_port :: i32
  epp_protocol :: protocol

record endpoint_subset =
  es_addresses :: "endpoint_address list option"
  es_not_ready_addresses :: "endpoint_address list option"
  es_ports :: "endpoint_port list option"

record endpoints =
  ep_type_meta :: type_meta
  ep_metadata :: object_meta
  ep_subsets :: "endpoint_subset list"

section \<open>\<open>models/node.rs\<close>\<close>

datatype taint_effect = NoSchedule | PreferNoSchedule | NoExecute

record taint =
  ta_key :: string
  ta_value :: "string option"
  ta_effect :: taint_effect
  ta_time_added :: "time option"

record node_spec =
  nsp_pod_cidr :: "string option"
  nsp_provider_id :: "string option"
  nsp_unschedulable :: bool
  nsp_taints :: "taint list option"

datatype node_condition_type = NC_Ready | NC_MemoryPressure | NC_DiskPressure | NC_PIDPressure | NC_NetworkUnavailable

datatype condition_status = CS_True | CS_False | CS_Unknown

record node_condition =
  nc_condition_type :: node_condition_type
  nc_status :: condition_status
  nc_last_heartbeat_time :: "time option"
  nc_last_transition_time :: "time option"
  nc_reason :: "string option"
  nc_message :: "string option"

datatype node_address_type = Hostname | InternalIP | ExternalIP | InternalDNS | ExternalDNS

record node_address =
  na_address_type :: node_address_type
  na_address :: string

record node_system_info =
  ni_machine_id :: "string option"
  ni_system_uuid :: "string option"
  ni_boot_id :: "string option"
  ni_kernel_version :: "string option"
  ni_os_image :: "string option"
  ni_container_runtime_version :: "string option"
  ni_kubelet_version :: "string option"
  ni_kube_proxy_version :: "string option"
  ni_operating_system :: "string option"
  ni_architecture :: "string option"

record container_image =
  ci_names :: "string list"
  ci_size_bytes :: "int option"

datatype node_phase = NP_Pending | NP_Running | NP_Terminated

record node_status =
  nt_capacity :: "smap option"
  nt_allocatable :: "smap option"
  nt_conditions :: "node_condition list option"
  nt_addresses :: "node_address list option"
  nt_node_info :: "node_system_info option"
  nt_images :: "container_image list option"
  nt_phase :: node_phase

record node =
  node_type_meta :: type_meta
  node_metadata :: object_meta
  node_spec :: "node_spec option"
  node_status :: "node_status option"

section \<open>\<open>models/event.rs\<close>\<close>

record event_source =
  evs_component :: "string option"
  evs_host :: "string option"

datatype event_type = ET_Normal | ET_Warning

record event =
  evt_type_meta :: type_meta
  evt_metadata :: object_meta
  evt_involved_object :: object_reference
  evt_reason :: "string option"
  evt_message :: "string option"
  evt_source :: "event_source option"
  evt_first_timestamp :: "time option"
  evt_last_timestamp :: "time option"
  evt_count :: "i32 option"
  evt_event_type :: "event_type option"
  evt_event_time :: "time option"
  evt_action :: "string option"
  evt_reporting_controller :: "string option"
  evt_reporting_instance :: "string option"

record event_list =
  evl_type_meta :: type_meta
  evl_metadata :: list_meta
  evl_items :: "event list"

section \<open>\<open>models/namespace.rs\<close>\<close>

record namespace_spec =
  nss_finalizers :: "string list option"

datatype namespace_phase = NSP_Active | NSP_Terminating

record namespace_condition =
  nsc_condition_type :: string
  nsc_status :: string
  nsc_last_transition_time :: "time option"
  nsc_reason :: "string option"
  nsc_message :: "string option"

record namespace_status =
  nsst_phase :: namespace_phase
  nsst_conditions :: "namespace_condition list option"

record namespace =
  ns_type_meta :: type_meta
  ns_metadata :: object_meta
  ns_spec :: "namespace_spec option"
  ns_status :: "namespace_status option"

section \<open>\<open>models/auth.rs\<close>\<close>

record object_reference_lite =
  orl_name :: "string option"

record service_account =
  sa_type_meta :: type_meta
  sa_metadata :: object_meta
  sa_secrets :: "object_reference_lite list option"
  sa_image_pull_secrets :: "object_reference_lite list option"
  sa_automount_service_account_token :: "bool option"

record secret =
  sec_type_meta :: type_meta
  sec_metadata :: object_meta
  sec_secret_type :: string
  sec_data :: "smap option"
  sec_string_data :: "smap option"
  sec_immutable :: "bool option"

record config_map =
  cm_type_meta :: type_meta
  cm_metadata :: object_meta
  cm_data :: "smap option"
  cm_binary_data :: "smap option"
  cm_immutable :: "bool option"

record policy_rule =
  pr_verbs :: "string list"
  pr_api_groups :: "string list"
  pr_resources :: "string list"
  pr_resource_names :: "string list"
  pr_non_resource_ur_ls :: "string list"

record role =
  role_type_meta :: type_meta
  role_metadata :: object_meta
  role_rules :: "policy_rule list"

record rbac_subject =
  rs_kind :: string
  rs_api_group :: "string option"
  rs_name :: string
  rs_namespace :: "string option"

record role_ref =
  rref_api_group :: string
  rref_kind :: string
  rref_name :: string

record role_binding =
  rb_type_meta :: type_meta
  rb_metadata :: object_meta
  rb_subjects :: "rbac_subject list"
  rb_role_ref :: role_ref

record cluster_role =
  cr_type_meta :: type_meta
  cr_metadata :: object_meta
  cr_rules :: "policy_rule list"
  cr_aggregation_rule :: "json_text option"

record cluster_role_binding =
  crb_type_meta :: type_meta
  crb_metadata :: object_meta
  crb_subjects :: "rbac_subject list"
  crb_role_ref :: role_ref

section \<open>Methods and defaults\<close>

definition meta_name :: "object_meta \<Rightarrow> string" where
  "meta_name m = (case om_name m of Some n \<Rightarrow> n | None \<Rightarrow> [])"

definition meta_namespace :: "object_meta \<Rightarrow> string" where
  "meta_namespace m = (case om_namespace m of Some n \<Rightarrow> n | None \<Rightarrow> ''default'')"

definition meta_labels :: "object_meta \<Rightarrow> smap" where
  "meta_labels m = (case om_labels m of Some l \<Rightarrow> l | None \<Rightarrow> [])"

definition list_new :: "string \<Rightarrow> string \<Rightarrow> 't list \<Rightarrow> 't k8s_list" where
  "list_new api_version kind items =
     \<lparr>li_api_version = api_version, li_kind = kind,
      li_metadata = \<lparr>lm_resource_version = None, lm_continue_token = None\<rparr>, li_items = items\<rparr>"

definition object_meta_default :: object_meta where
  "object_meta_default = \<lparr>om_name = None, om_namespace = None, om_uid = None, om_resource_version = None,
     om_labels = None, om_annotations = None, om_creation_timestamp = None, om_owner_references = None\<rparr>"

definition pod_spec_default :: pod_spec where
  "pod_spec_default = \<lparr>ps_containers = [], ps_restart_policy = None, ps_node_selector = None,
     ps_node_name = None, ps_service_account_name = None, ps_host_network = False, ps_affinity = None,
     ps_runtime_class_name = None\<rparr>"

definition pod_status_default :: pod_status where
  "pod_status_default = \<lparr>pt_phase = Pending, pt_conditions = None, pt_pod_ip = None, pt_pod_i_ps = None,
     pt_host_ip = None, pt_start_time = None, pt_container_statuses = None, pt_message = None,
     pt_reason = None\<rparr>"

definition type_meta_of :: "string \<Rightarrow> string \<Rightarrow> type_meta" where
  "type_meta_of v k = \<lparr>tm_api_version = Some v, tm_kind = Some k\<rparr>"

definition pod_default :: pod where
  "pod_default = \<lparr>pod_type_meta = type_meta_of ''v1'' ''Pod'', pod_metadata = object_meta_default,
     pod_spec = pod_spec_default, pod_status = None\<rparr>"

definition label_selector_default :: label_selector where
  "label_selector_default = \<lparr>ls_match_labels = None, ls_match_expressions = None\<rparr>"

definition pod_template_spec_default :: pod_template_spec where
  "pod_template_spec_default = \<lparr>tpl_metadata = object_meta_default, tpl_spec = pod_spec_default\<rparr>"

definition deployment_default :: deployment where
  "deployment_default = \<lparr>dep_type_meta = type_meta_of ''apps/v1'' ''Deployment'',
     dep_metadata = object_meta_default,
     dep_spec = \<lparr>ds_replicas = None, ds_selector = label_selector_default,
        ds_template = pod_template_spec_default, ds_strategy = None, ds_min_ready_seconds = None,
        ds_revision_history_limit = None, ds_paused = False\<rparr>,
     dep_status = None\<rparr>"

definition stateful_set_default :: stateful_set where
  "stateful_set_default = \<lparr>sts_type_meta = type_meta_of ''apps/v1'' ''StatefulSet'',
     sts_metadata = object_meta_default,
     sts_spec = \<lparr>ss_replicas = None, ss_selector = label_selector_default,
        ss_template = pod_template_spec_default, ss_service_name = None,
        ss_pod_management_policy = None\<rparr>,
     sts_status = None\<rparr>"

definition daemon_set_default :: daemon_set where
  "daemon_set_default = \<lparr>dms_type_meta = type_meta_of ''apps/v1'' ''DaemonSet'',
     dms_metadata = object_meta_default,
     dms_spec = \<lparr>dmsp_selector = label_selector_default, dmsp_template = pod_template_spec_default,
        dmsp_min_ready_seconds = None\<rparr>,
     dms_status = None\<rparr>"

definition service_default :: service where
  "service_default = \<lparr>svc_type_meta = type_meta_of ''v1'' ''Service'', svc_metadata = object_meta_default,
     svc_spec = \<lparr>sp_selector = None, sp_ports = [], sp_service_type = ST_ClusterIP,
        sp_cluster_ip = None, sp_external_i_ps = None, sp_session_affinity = None\<rparr>,
     svc_status = None\<rparr>"

definition endpoints_default :: endpoints where
  "endpoints_default = \<lparr>ep_type_meta = type_meta_of ''v1'' ''Endpoints'',
     ep_metadata = object_meta_default, ep_subsets = []\<rparr>"

definition node_default :: node where
  "node_default = \<lparr>node_type_meta = type_meta_of ''v1'' ''Node'', node_metadata = object_meta_default,
     node_spec = None, node_status = None\<rparr>"

definition namespace_default :: namespace where
  "namespace_default = \<lparr>ns_type_meta = type_meta_of ''v1'' ''Namespace'',
     ns_metadata = object_meta_default, ns_spec = None, ns_status = None\<rparr>"

definition service_account_default :: service_account where
  "service_account_default = \<lparr>sa_type_meta = type_meta_of ''v1'' ''ServiceAccount'',
     sa_metadata = object_meta_default, sa_secrets = None, sa_image_pull_secrets = None,
     sa_automount_service_account_token = None\<rparr>"

definition default_secret_type :: string where
  "default_secret_type = ''Opaque''"

definition secret_default :: secret where
  "secret_default = \<lparr>sec_type_meta = type_meta_of ''v1'' ''Secret'', sec_metadata = object_meta_default,
     sec_secret_type = default_secret_type, sec_data = None, sec_string_data = None,
     sec_immutable = None\<rparr>"

definition config_map_default :: config_map where
  "config_map_default = \<lparr>cm_type_meta = type_meta_of ''v1'' ''ConfigMap'',
     cm_metadata = object_meta_default, cm_data = None, cm_binary_data = None, cm_immutable = None\<rparr>"

definition rbac_v1 :: string where
  "rbac_v1 = ''rbac.authorization.k8s.io/v1''"

definition role_ref_default :: role_ref where
  "role_ref_default = \<lparr>rref_api_group = [], rref_kind = [], rref_name = []\<rparr>"

definition role_default :: role where
  "role_default = \<lparr>role_type_meta = type_meta_of rbac_v1 ''Role'', role_metadata = object_meta_default,
     role_rules = []\<rparr>"

definition role_binding_default :: role_binding where
  "role_binding_default = \<lparr>rb_type_meta = type_meta_of rbac_v1 ''RoleBinding'',
     rb_metadata = object_meta_default, rb_subjects = [], rb_role_ref = role_ref_default\<rparr>"

definition cluster_role_default :: cluster_role where
  "cluster_role_default = \<lparr>cr_type_meta = type_meta_of rbac_v1 ''ClusterRole'',
     cr_metadata = object_meta_default, cr_rules = [], cr_aggregation_rule = None\<rparr>"

definition cluster_role_binding_default :: cluster_role_binding where
  "cluster_role_binding_default = \<lparr>crb_type_meta = type_meta_of rbac_v1 ''ClusterRoleBinding'',
     crb_metadata = object_meta_default, crb_subjects = [], crb_role_ref = role_ref_default\<rparr>"

definition deployment_replicas :: "deployment_spec \<Rightarrow> i32" where
  "deployment_replicas s = (case ds_replicas s of Some n \<Rightarrow> n | None \<Rightarrow> 1)"

definition stateful_set_replicas :: "stateful_set_spec \<Rightarrow> i32" where
  "stateful_set_replicas s = (case ss_replicas s of Some n \<Rightarrow> n | None \<Rightarrow> 1)"

definition is_parallel :: "stateful_set_spec \<Rightarrow> bool" where
  "is_parallel s \<longleftrightarrow> ss_pod_management_policy s = Some Parallel"

fun pod_phase_fmt :: "pod_phase \<Rightarrow> string" where
  "pod_phase_fmt Pending = ''Pending''"
| "pod_phase_fmt Running = ''Running''"
| "pod_phase_fmt Succeeded = ''Succeeded''"
| "pod_phase_fmt Failed = ''Failed''"
| "pod_phase_fmt Unknown = ''Unknown''"

fun namespace_phase_fmt :: "namespace_phase \<Rightarrow> string" where
  "namespace_phase_fmt NSP_Active = ''Active''"
| "namespace_phase_fmt NSP_Terminating = ''Terminating''"

end
