(* ===== verification/Store.thy ===== *)
theory Store
  imports Models
begin

text \<open>
  The error type of the program (\<open>src/src/error.rs\<close>), the state every component shares, and the
  SQL statements the repositories are written with.

  \<^item> \<open>env\<close> collects what the program takes from outside: the stream of random UUIDs
    (\<open>Uuid::new_v4\<close>), the text form of a UUID, the stream of clock readings (\<open>Utc::now\<close>) and
    which of the SQL statements fail. The streams are functions of a counter the world keeps, so an
    operation is a function of the environment and the world, and the theorems quantify over both.
  \<^item> A table is a list of rows in insertion order. A row has the primary key \<open>uid\<close>, the unique
    key (\<open>(namespace, name)\<close>, or \<open>name\<close> in a cluster-scoped table), its own columns, and the two
    timestamps every table has. A column that holds JSON text holds the value the text encodes.
  \<^item> Timestamps are nanoseconds since the epoch; the RFC 3339 texts the program compares are all in
    UTC and their order is the order of time. Rows with equal timestamps keep table order in a
    sorted query, where SQL leaves the order open.
  \<^item> The locale \<open>table_lens\<close> is the interface between a table of the world and the generic
    statements; the lemmas about the statements are proved in it once, and each table of the world
    interprets it.
\<close>

section \<open>Errors\<close>

datatype sql_error = Sql_Fault nat | Sql_Unique

datatype error =
    NotFound string
  | AlreadyExists string
  | BadRequest string
  | Database sql_error
  | Serialization string
  | HttpClient string
  | Internal string

text \<open>The status code, the reason and the message of the HTTP response; \<open>show_sql\<close> is
  \<open>sqlx::Error\<close>'s text form.\<close>

fun into_response :: "(sql_error \<Rightarrow> string) \<Rightarrow> error \<Rightarrow> nat \<times> string \<times> string" where
  "into_response show_sql (NotFound msg) = (404, ''NotFound'', msg)"
| "into_response show_sql (AlreadyExists msg) = (409, ''AlreadyExists'', msg)"
| "into_response show_sql (BadRequest msg) = (400, ''BadRequest'', msg)"
| "into_response show_sql (Database err) = (500, ''InternalError'', show_sql err)"
| "into_response show_sql (Serialization msg) = (400, ''BadRequest'', msg)"
| "into_response show_sql (HttpClient msg) = (502, ''BadGateway'', msg)"
| "into_response show_sql (Internal msg) = (500, ''InternalError'', msg)"

definition quoted :: "string \<Rightarrow> string" where
  "quoted s = [CHR 0x22] @ s @ [CHR 0x22]"

section \<open>Rows and columns\<close>

record ('k, 'c) row =
  r_uid :: uuid
  r_key :: 'k
  r_cols :: 'c
  r_created_at :: time
  r_updated_at :: time

type_synonym nskey = "string \<times> string"  \<comment> \<open>namespace and name\<close>

record pod_cols =
  pr_labels :: "smap option"
  pr_annotations :: "smap option"
  pr_spec :: pod_spec
  pr_status :: string
  pr_node_name :: "string option"
  pr_pod_ip :: "string option"
  pr_host_ip :: "string option"
  pr_container_statuses :: "container_status list option"
  pr_owner_reference :: "owner_reference list option"

record deployment_cols =
  dr_labels :: "smap option"
  dr_annotations :: "smap option"
  dr_spec :: deployment_spec
  dr_replicas :: i32
  dr_ready_replicas :: i32
  dr_available_replicas :: i32

record service_cols =
  sr_labels :: "smap option"
  sr_spec :: service_spec
  sr_service_type :: string
  sr_cluster_ip :: "string option"
  sr_node_port :: "i32 option"

record node_cols =
  nr_labels :: "smap option"
  nr_status :: string
  nr_addresses :: "node_address list option"
  nr_capacity :: "smap option"
  nr_allocatable :: "smap option"
  nr_node_info :: "node_system_info option"

record namespace_cols =
  nmr_labels :: "smap option"
  nmr_annotations :: "smap option"
  nmr_spec :: "namespace_spec option"
  nmr_status :: string

record event_cols =
  er_involved_object :: object_reference
  er_reason :: "string option"
  er_message :: "string option"
  er_source_component :: "string option"
  er_source_host :: "string option"
  er_first_timestamp :: "time option"
  er_last_timestamp :: "time option"
  er_event_time :: "time option"
  er_count :: "i32 option"
  er_event_type :: "string option"
  er_action :: "string option"
  er_reporting_controller :: "string option"
  er_reporting_instance :: "string option"

record stateful_set_cols =
  ssr_labels :: "smap option"
  ssr_annotations :: "smap option"
  ssr_spec :: stateful_set_spec
  ssr_replicas :: i32
  ssr_ready_replicas :: i32
  ssr_current_replicas :: i32

record daemon_set_cols =
  dsr_labels :: "smap option"
  dsr_annotations :: "smap option"
  dsr_spec :: daemon_set_spec
  dsr_desired_number_scheduled :: i32
  dsr_current_number_scheduled :: i32
  dsr_number_ready :: i32

text \<open>The tables of the auth resources store the whole object next to its labels and annotations.\<close>

record 'o object_cols =
  or_labels :: "smap option"
  or_annotations :: "smap option"
  or_object :: 'o

record lease_row =
  lr_name :: string
  lr_holder :: string
  lr_expires_at :: time

text \<open>Objects carried by watch events (\<open>serde_json::Value\<close> in the program).\<close>

datatype kobject =
    KNull
  | KPod pod
  | KService service
  | KNode node
  | KNamespace namespace
  | KConfigMap config_map
  | KSecret secret
  | KServiceAccount service_account
  | KDeployment deployment
  | KStatefulSet stateful_set
  | KDaemonSet daemon_set
  | KRole role
  | KRoleBinding role_binding
  | KClusterRole cluster_role
  | KClusterRoleBinding cluster_role_binding

datatype watch_event_type = Added | Modified | Deleted

record change_event =
  ce_kind :: string
  ce_namespace :: "string option"
  ce_name :: string
  ce_event_type :: watch_event_type
  ce_object :: kobject

record replicator =
  rp_instance_id :: string
  rp_channel :: string

record change_log_row =
  cl_id :: string
  cl_instance_id :: string
  cl_kind :: string
  cl_namespace :: "string option"
  cl_name :: string
  cl_event_type :: string
  cl_object :: kobject
  cl_created_at :: time

section \<open>The environment and the world\<close>

datatype backend = Sqlite | Postgres

record env =
  env_uuid :: "nat \<Rightarrow> uuid"
  env_uuid_str :: "uuid \<Rightarrow> string"
  env_now :: "nat \<Rightarrow> time"
  env_fails :: "nat \<Rightarrow> bool"

type_synonym 'c ns_table = "(nskey, 'c) row list"
type_synonym 'c cl_table = "(string, 'c) row list"

record world =
  w_nodes :: "node_cols cl_table"
  w_pods :: "pod_cols ns_table"
  w_deployments :: "deployment_cols ns_table"
  w_services :: "service_cols ns_table"
  w_endpoints :: "endpoint_subset list ns_table"
  w_namespaces :: "namespace_cols cl_table"
  w_events :: "event_cols ns_table"
  w_statefulsets :: "stateful_set_cols ns_table"
  w_daemonsets :: "daemon_set_cols ns_table"
  w_serviceaccounts :: "service_account object_cols ns_table"
  w_secrets :: "secret object_cols ns_table"
  w_configmaps :: "config_map object_cols ns_table"
  w_clusterroles :: "cluster_role object_cols cl_table"
  w_clusterrolebindings :: "cluster_role_binding object_cols cl_table"
  w_roles :: "role object_cols ns_table"
  w_rolebindings :: "role_binding object_cols ns_table"
  w_leases :: "lease_row list"
  w_change_log :: "change_log_row list"
  w_notifications :: "(string \<times> string) list"    \<comment> \<open>channel and payload of each \<open>pg_notify\<close>\<close>
  w_bus :: "change_event list"                       \<comment> \<open>what was sent on the broadcast channel\<close>
  w_replicator :: "replicator option"
  w_tasks :: "change_event list"                     \<comment> \<open>spawned replications that have not run\<close>
  w_uuids :: nat                                     \<comment> \<open>random UUIDs drawn\<close>
  w_ticks :: nat                                     \<comment> \<open>clock readings made\<close>
  w_stmts :: nat                                     \<comment> \<open>SQL statements executed\<close>

type_synonym 'a prog = "world \<Rightarrow> (error + 'a) \<times> world"

definition new_v4 :: "env \<Rightarrow> uuid prog" where
  "new_v4 e w = (Inr (env_uuid e (w_uuids w)), w\<lparr>w_uuids := Suc (w_uuids w)\<rparr>)"

definition utc_now :: "env \<Rightarrow> time prog" where
  "utc_now e w = (Inr (env_now e (w_ticks w)), w\<lparr>w_ticks := Suc (w_ticks w)\<rparr>)"

text \<open>\<open>meta.uid.unwrap_or_else(Uuid::new_v4)\<close>\<close>

definition uid_or_new :: "env \<Rightarrow> uuid option \<Rightarrow> uuid prog" where
  "uid_or_new e u = (case u of Some x \<Rightarrow> returnR x | None \<Rightarrow> new_v4 e)"

text \<open>A database after its tables were created and before anything was stored.\<close>

definition empty_world :: world where
  "empty_world = \<lparr>w_nodes = [], w_pods = [], w_deployments = [], w_services = [], w_endpoints = [],
     w_namespaces = [], w_events = [], w_statefulsets = [], w_daemonsets = [], w_serviceaccounts = [],
     w_secrets = [], w_configmaps = [], w_clusterroles = [], w_clusterrolebindings = [], w_roles = [],
     w_rolebindings = [], w_leases = [], w_change_log = [], w_notifications = [], w_bus = [],
     w_replicator = None, w_tasks = [], w_uuids = 0, w_ticks = 0, w_stmts = 0\<rparr>"

section \<open>SQL statements\<close>

text \<open>A statement that fails has no effect.\<close>

definition sql_stmt :: "env \<Rightarrow> 'a prog \<Rightarrow> 'a prog" where
  "sql_stmt e f w = (let w' = w\<lparr>w_stmts := Suc (w_stmts w)\<rparr> in
     if env_fails e (w_stmts w) then (Inl (Database (Sql_Fault (w_stmts w))), w') else f w')"

definition find_row :: "'k \<Rightarrow> ('k, 'c) row list \<Rightarrow> ('k, 'c) row option" where
  "find_row k rows = List.find (\<lambda>r. r_key r = k) rows"

text \<open>
  \<open>INSERT ... ON CONFLICT (key) DO UPDATE SET ...\<close>: the row with that key keeps its \<open>uid\<close> and
  \<open>created_at\<close>, takes the new \<open>updated_at\<close> and merges the other columns; without such a row the
  primary key has to be new.
\<close>

definition upsert_rows ::
  "('c \<Rightarrow> 'c \<Rightarrow> 'c) \<Rightarrow> ('k, 'c) row \<Rightarrow> ('k, 'c) row list \<Rightarrow> sql_error + ('k, 'c) row list" where
  "upsert_rows mrg r rows =
     (if list_ex (\<lambda>x. r_key x = r_key r) rows then
        Inr (map (\<lambda>x. if r_key x = r_key r
                       then x\<lparr>r_cols := mrg (r_cols x) (r_cols r), r_updated_at := r_updated_at r\<rparr>
                       else x) rows)
      else if list_ex (\<lambda>x. r_uid x = r_uid r) rows then Inl Sql_Unique
      else Inr (rows @ [r]))"

type_synonym ('k, 'c) getter = "world \<Rightarrow> ('k, 'c) row list"
type_synonym ('k, 'c) putter = "(('k, 'c) row list \<Rightarrow> ('k, 'c) row list) \<Rightarrow> world \<Rightarrow> world"

definition sql_upsert ::
  "env \<Rightarrow> ('k, 'c) getter \<Rightarrow> ('k, 'c) putter \<Rightarrow> ('c \<Rightarrow> 'c \<Rightarrow> 'c) \<Rightarrow> ('k, 'c) row \<Rightarrow> unit prog" where
  "sql_upsert e tbl put mrg r = sql_stmt e (\<lambda>w.
     case upsert_rows mrg r (tbl w) of
       Inl x \<Rightarrow> (Inl (Database x), w)
     | Inr rows \<Rightarrow> (Inr (), put (\<lambda>_. rows) w))"

definition sql_select :: "env \<Rightarrow> (world \<Rightarrow> 'a) \<Rightarrow> 'a prog" where
  "sql_select e q = sql_stmt e (\<lambda>w. (Inr (q w), w))"

text \<open>\<open>DELETE\<close> and \<open>UPDATE\<close> return the number of rows affected.\<close>

definition sql_delete ::
  "env \<Rightarrow> ('k, 'c) getter \<Rightarrow> ('k, 'c) putter \<Rightarrow> (('k, 'c) row \<Rightarrow> bool) \<Rightarrow> nat prog" where
  "sql_delete e tbl put P = sql_stmt e (\<lambda>w.
     (Inr (length (filter P (tbl w))), put (filter (\<lambda>r. \<not> P r)) w))"

definition sql_update ::
  "env \<Rightarrow> ('k, 'c) getter \<Rightarrow> ('k, 'c) putter \<Rightarrow> 'k \<Rightarrow> ('c \<Rightarrow> 'c) \<Rightarrow> time \<Rightarrow> nat prog" where
  "sql_update e tbl put k f t = sql_stmt e (\<lambda>w.
     (Inr (length (filter (\<lambda>r. r_key r = k) (tbl w))),
      put (map (\<lambda>r. if r_key r = k then r\<lparr>r_cols := f (r_cols r), r_updated_at := t\<rparr> else r)) w))"

section \<open>The shape of a repository\<close>

text \<open>
  Every repository of \<open>repository.rs\<close> has the same four operations, up to its columns, its merge
  on conflict and its conversion from a row.
\<close>

definition repo_get ::
  "env \<Rightarrow> ('k, 'c) getter \<Rightarrow> (('k, 'c) row \<Rightarrow> 'a) \<Rightarrow> ('k \<Rightarrow> string) \<Rightarrow> 'k \<Rightarrow> 'a prog" where
  "repo_get e tbl dec nf k =
     bindR (sql_select e (\<lambda>w. find_row k (tbl w)))
       (\<lambda>r. case r of None \<Rightarrow> failR (NotFound (nf k)) | Some x \<Rightarrow> returnR (dec x))"

definition repo_create ::
  "env \<Rightarrow> ('k, 'c) getter \<Rightarrow> ('k, 'c) putter \<Rightarrow> (('k, 'c) row \<Rightarrow> 'a) \<Rightarrow> ('k \<Rightarrow> string) \<Rightarrow>
   ('c \<Rightarrow> 'c \<Rightarrow> 'c) \<Rightarrow> uuid option \<Rightarrow> 'k \<Rightarrow> (uuid \<Rightarrow> 'c) \<Rightarrow> 'a prog" where
  "repo_create e tbl put dec nf mrg uid k cols =
     bindR (uid_or_new e uid) (\<lambda>u.
     bindR (utc_now e) (\<lambda>now.
     bindR (sql_upsert e tbl put mrg
              \<lparr>r_uid = u, r_key = k, r_cols = cols u, r_created_at = now, r_updated_at = now\<rparr>) (\<lambda>_.
     repo_get e tbl dec nf k)))"

definition repo_list ::
  "env \<Rightarrow> ('k, 'c) getter \<Rightarrow> (('k, 'c) row \<Rightarrow> 'a) \<Rightarrow> (('k, 'c) row \<Rightarrow> bool) \<Rightarrow> 'a list prog" where
  "repo_list e tbl dec P =
     bindR (sql_select e (\<lambda>w. sort_key (\<lambda>r. - r_created_at r) (filter P (tbl w))))
       (\<lambda>rows. returnR (map dec rows))"

definition repo_delete ::
  "env \<Rightarrow> ('k, 'c) getter \<Rightarrow> ('k, 'c) putter \<Rightarrow> ('k \<Rightarrow> string) \<Rightarrow> 'k \<Rightarrow> unit prog" where
  "repo_delete e tbl put nf k =
     bindR (sql_delete e tbl put (\<lambda>r. r_key r = k))
       (\<lambda>n. if n = 0 then failR (NotFound (nf k)) else returnR ())"

text \<open>\<open>WHERE namespace = ?\<close>, or no condition.\<close>

definition in_ns :: "string option \<Rightarrow> (nskey, 'c) row \<Rightarrow> bool" where
  "in_ns ns r = (case ns of None \<Rightarrow> True | Some n \<Rightarrow> fst (r_key r) = n)"

end
