(* ===== verification/Tables.thy ===== *)
theory Tables
  imports Store
begin

text \<open>
  The theory of tables: lookup by key, the upsert, and the frames and invariants of the SQL
  statements and of the four operations every repository has. \<open>table_lens\<close> is the interface a
  table of the world offers (reading after writing, and that writing leaves the counters alone);
  its lemmas say what creation, lookup, listing and deletion promise on any table that has it.
\<close>

section \<open>Lemmas about rows\<close>

definition table_ok :: "('k, 'c) row list \<Rightarrow> bool" where
  "table_ok rows \<longleftrightarrow> distinct (map r_key rows) \<and> distinct (map r_uid rows)"

lemma find_row_Nil [simp]: "find_row k [] = None"
  by (simp add: find_row_def)

lemma find_row_Cons [simp]:
  "find_row k (r # rows) = (if r_key r = k then Some r else find_row k rows)"
  by (simp add: find_row_def)

lemma find_row_append:
  "find_row k (xs @ ys) = (case find_row k xs of None \<Rightarrow> find_row k ys | Some r \<Rightarrow> Some r)"
  by (induction xs) auto

lemma find_row_None_iff: "find_row k rows = None \<longleftrightarrow> (\<forall>r \<in> set rows. r_key r \<noteq> k)"
  by (induction rows) auto

lemma find_row_key: "find_row k rows = Some r \<Longrightarrow> r_key r = k"
  by (induction rows) (auto split: if_splits)

lemma find_row_in: "find_row k rows = Some r \<Longrightarrow> r \<in> set rows"
  by (induction rows) (auto split: if_splits)

lemma find_row_SomeI:
  assumes "table_ok rows" "r \<in> set rows"
  shows "find_row (r_key r) rows = Some r"
  using assms by (induction rows) (auto simp: table_ok_def)

lemma find_row_map:
  assumes "\<And>r. r_key (f r) = r_key r"
  shows "find_row k (map f rows) = map_option f (find_row k rows)"
  by (induction rows) (auto simp: assms)

lemma find_row_filter_neq:
  "find_row k (filter (\<lambda>r. \<not> r_key r = k') rows) = (if k = k' then None else find_row k rows)"
  by (induction rows) auto

lemma key_in_find: "list_ex (\<lambda>x. r_key x = k) rows \<longleftrightarrow> find_row k rows \<noteq> None"
  by (induction rows) auto

lemma table_ok_Nil [simp]: "table_ok []"
  by (simp add: table_ok_def)

lemma table_ok_filter: "table_ok rows \<Longrightarrow> table_ok (filter P rows)"
  by (auto simp: table_ok_def distinct_map intro: inj_on_subset)

lemma table_ok_map:
  assumes "\<And>r. r_key (f r) = r_key r" "\<And>r. r_uid (f r) = r_uid r"
  shows "table_ok (map f rows) = table_ok rows"
  by (simp add: table_ok_def comp_def assms)

lemma table_ok_upsert:
  "table_ok rows \<Longrightarrow> upsert_rows mrg r rows = Inr rows' \<Longrightarrow> table_ok rows'"
  by (auto simp: upsert_rows_def table_ok_map split: if_splits)
     (auto simp: table_ok_def list_ex_iff)

text \<open>The row an upsert leaves under the key it was given.\<close>

definition upserted :: "('c \<Rightarrow> 'c \<Rightarrow> 'c) \<Rightarrow> ('k, 'c) row \<Rightarrow> ('k, 'c) row list \<Rightarrow> ('k, 'c) row" where
  "upserted mrg r rows = (case find_row (r_key r) rows of
       None \<Rightarrow> r
     | Some x \<Rightarrow> x\<lparr>r_cols := mrg (r_cols x) (r_cols r), r_updated_at := r_updated_at r\<rparr>)"

lemma find_row_upsert:
  assumes "upsert_rows mrg r rows = Inr rows'"
  shows "find_row k rows' = (if k = r_key r then Some (upserted mrg r rows) else find_row k rows)"
proof (cases "find_row (r_key r) rows")
  case None
  with assms have "rows' = rows @ [r]"
    by (auto simp: upsert_rows_def key_in_find split: if_splits)
  with None show ?thesis
    by (auto simp: find_row_append upserted_def split: option.split)
next
  case (Some x)
  with assms have "rows' = map (\<lambda>x. if r_key x = r_key r
      then x\<lparr>r_cols := mrg (r_cols x) (r_cols r), r_updated_at := r_updated_at r\<rparr> else x) rows"
    by (auto simp: upsert_rows_def key_in_find)
  with Some show ?thesis
    by (subst \<open>rows' = _\<close>, subst find_row_map)
       (auto simp: upserted_def dest: find_row_key intro!: option.map_ident_strong)
qed

lemma uid_notin: "u \<notin> r_uid ` set rows \<Longrightarrow> \<not> list_ex (\<lambda>x. r_uid x = u) rows"
  by (induction rows) auto

lemma upsert_rows_ok:
  assumes "find_row (r_key r) rows \<noteq> None \<or> r_uid r \<notin> r_uid ` set rows"
  obtains rows' where "upsert_rows mrg r rows = Inr rows'"
proof (cases "find_row (r_key r) rows")
  case None
  with assms have "\<not> list_ex (\<lambda>x. r_uid x = r_uid r) rows"
    by (simp add: uid_notin)
  with None show ?thesis using that by (simp add: upsert_rows_def key_in_find)
qed (use that in \<open>simp add: upsert_rows_def key_in_find\<close>)

lemma upsert_rows_fresh:
  assumes "find_row (r_key r) rows = None" "r_uid r \<notin> r_uid ` set rows"
  shows "upsert_rows mrg r rows = Inr (rows @ [r])"
proof -
  from assms(2) have "\<not> list_ex (\<lambda>x. r_uid x = r_uid r) rows" by (rule uid_notin)
  with assms(1) show ?thesis by (simp add: upsert_rows_def key_in_find)
qed

section \<open>Frames of the statements\<close>

text \<open>A function of the world that ignores the three counters.\<close>

definition counter_free :: "(world \<Rightarrow> 'a) \<Rightarrow> bool" where
  "counter_free f \<longleftrightarrow> (\<forall>w n. f (w\<lparr>w_uuids := n\<rparr>) = f w \<and> f (w\<lparr>w_ticks := n\<rparr>) = f w \<and> f (w\<lparr>w_stmts := n\<rparr>) = f w)"

lemma counter_freeI:
  "(\<And>w n. f (w\<lparr>w_uuids := n\<rparr>) = f w) \<Longrightarrow> (\<And>w n. f (w\<lparr>w_ticks := n\<rparr>) = f w) \<Longrightarrow>
   (\<And>w n. f (w\<lparr>w_stmts := n\<rparr>) = f w) \<Longrightarrow> counter_free f"
  by (simp add: counter_free_def)

lemma keeps_new_v4 [keeps_intros]: "counter_free f \<Longrightarrow> keeps f (new_v4 e)"
  by (simp add: keeps_def new_v4_def counter_free_def)

lemma keeps_utc_now [keeps_intros]: "counter_free f \<Longrightarrow> keeps f (utc_now e)"
  by (simp add: keeps_def utc_now_def counter_free_def)

lemma keeps_uid_or_new [keeps_intros]: "counter_free f \<Longrightarrow> keeps f (uid_or_new e u)"
  unfolding uid_or_new_def by (intro keeps_intros)

lemma keeps_sql_stmt:
  assumes "counter_free f" "keeps f m"
  shows "keeps f (sql_stmt e m)"
  using assms by (simp add: keeps_def sql_stmt_def counter_free_def Let_def)

lemma keeps_sql_select [keeps_intros]: "counter_free f \<Longrightarrow> keeps f (sql_select e q)"
  unfolding sql_select_def by (rule keeps_sql_stmt) (simp_all add: keeps_def)

lemma keeps_sql_upsert [keeps_intros]:
  "counter_free f \<Longrightarrow> (\<And>g w. f (put g w) = f w) \<Longrightarrow> keeps f (sql_upsert e tbl put mrg r)"
  unfolding sql_upsert_def by (rule keeps_sql_stmt) (auto simp: keeps_def split: sum.split)

lemma keeps_sql_delete [keeps_intros]:
  "counter_free f \<Longrightarrow> (\<And>g w. f (put g w) = f w) \<Longrightarrow> keeps f (sql_delete e tbl put P)"
  unfolding sql_delete_def by (rule keeps_sql_stmt) (auto simp: keeps_def)

lemma keeps_sql_update [keeps_intros]:
  "counter_free f \<Longrightarrow> (\<And>g w. f (put g w) = f w) \<Longrightarrow> keeps f (sql_update e tbl put k h t)"
  unfolding sql_update_def by (rule keeps_sql_stmt) (auto simp: keeps_def)

lemma keeps_repo_get [keeps_intros]: "counter_free f \<Longrightarrow> keeps f (repo_get e tbl dec nf k)"
  unfolding repo_get_def by (intro keeps_intros)

lemma keeps_repo_list [keeps_intros]: "counter_free f \<Longrightarrow> keeps f (repo_list e tbl dec P)"
  unfolding repo_list_def by (intro keeps_intros)

lemma keeps_repo_create [keeps_intros]:
  "counter_free f \<Longrightarrow> (\<And>g w. f (put g w) = f w) \<Longrightarrow>
   keeps f (repo_create e tbl put dec nf mrg uid k cols)"
  unfolding repo_create_def by (intro keeps_intros)

lemma keeps_repo_delete [keeps_intros]:
  "counter_free f \<Longrightarrow> (\<And>g w. f (put g w) = f w) \<Longrightarrow> keeps f (repo_delete e tbl put nf k)"
  unfolding repo_delete_def by (intro keeps_intros)

text \<open>No statement fails from here on.\<close>

definition no_faults :: "env \<Rightarrow> bool" where
  "no_faults e \<longleftrightarrow> (\<forall>n. \<not> env_fails e n)"

lemma sql_stmt_ok: "no_faults e \<Longrightarrow> sql_stmt e m w = m (w\<lparr>w_stmts := Suc (w_stmts w)\<rparr>)"
  by (simp add: sql_stmt_def no_faults_def Let_def)

section \<open>The interface of a table\<close>

locale table_lens =
  fixes tbl :: "('k, 'c) getter" and put :: "('k, 'c) putter"
  assumes tbl_put [simp]: "tbl (put f w) = f (tbl w)"
    and tbl_counters: "counter_free tbl"
    and put_uuids [simp]: "w_uuids (put f w) = w_uuids w"
    and put_ticks [simp]: "w_ticks (put f w) = w_ticks w"
    and put_stmts [simp]: "w_stmts (put f w) = w_stmts w"
begin

lemma tbl_simps [simp]:
  "tbl (w\<lparr>w_uuids := n\<rparr>) = tbl w" "tbl (w\<lparr>w_ticks := n\<rparr>) = tbl w" "tbl (w\<lparr>w_stmts := n\<rparr>) = tbl w"
  using tbl_counters by (simp_all add: counter_free_def)

lemma get_world: "tbl (snd (repo_get e tbl dec nf k w)) = tbl w"
  by (rule keeps_repo_get [OF tbl_counters, unfolded keeps_def, rule_format])

lemma get_cases:
  obtains (fault) "env_fails e (w_stmts w)"
      "repo_get e tbl dec nf k w = (Inl (Database (Sql_Fault (w_stmts w))), w\<lparr>w_stmts := Suc (w_stmts w)\<rparr>)"
  | (missing) "\<not> env_fails e (w_stmts w)" "find_row k (tbl w) = None"
      "repo_get e tbl dec nf k w = (Inl (NotFound (nf k)), w\<lparr>w_stmts := Suc (w_stmts w)\<rparr>)"
  | (found) r where "\<not> env_fails e (w_stmts w)" "find_row k (tbl w) = Some r"
      "repo_get e tbl dec nf k w = (Inr (dec r), w\<lparr>w_stmts := Suc (w_stmts w)\<rparr>)"
  by (cases "env_fails e (w_stmts w)"; cases "find_row k (tbl w)")
     (auto simp: repo_get_def sql_select_def sql_stmt_def bindR_def failR_def returnR_def Let_def)

text \<open>What a successful creation returns and leaves behind.\<close>

lemma create_ok:
  assumes "repo_create e tbl put dec nf mrg uid k cols w = (Inr x, w')"
  obtains u t where "x = dec (upserted mrg \<lparr>r_uid = u, r_key = k, r_cols = cols u,
                                  r_created_at = t, r_updated_at = t\<rparr> (tbl w))"
    and "upsert_rows mrg \<lparr>r_uid = u, r_key = k, r_cols = cols u, r_created_at = t, r_updated_at = t\<rparr>
           (tbl w) = Inr (tbl w')"
    and "uid = Some u \<or> (uid = None \<and> u = env_uuid e (w_uuids w))"
    and "t = env_now e (w_ticks w)"
proof -
  define u where "u = (case uid of Some x \<Rightarrow> x | None \<Rightarrow> env_uuid e (w_uuids w))"
  define t where "t = env_now e (w_ticks w)"
  define r where "r = \<lparr>r_uid = u, r_key = k, r_cols = cols u, r_created_at = t, r_updated_at = t\<rparr>"
  have u: "uid = Some u \<or> (uid = None \<and> u = env_uuid e (w_uuids w))"
    by (auto simp: u_def split: option.split)
  from assms obtain rows where up: "upsert_rows mrg r (tbl w) = Inr rows"
    and x: "x = dec (upserted mrg r (tbl w))" and w': "tbl w' = rows"
    by (fastforce simp: repo_create_def bindR_def uid_or_new_def new_v4_def returnR_def utc_now_def
        u_def t_def r_def sql_upsert_def sql_stmt_def Let_def repo_get_def sql_select_def failR_def
        find_row_upsert split: option.splits if_splits sum.splits prod.splits)
  show thesis
    using that [of u t] x up w' u by (simp add: r_def t_def)
qed

lemma create_lookup:
  assumes "repo_create e tbl put dec nf mrg uid k cols w = (Inr x, w')"
  obtains r where "find_row k (tbl w') = Some r" "x = dec r"
  using assms by (elim create_ok) (simp add: find_row_upsert)

text \<open>Without failures, a creation succeeds unless it needs a primary key that is taken.\<close>

lemma create_run:
  assumes "no_faults e" "uid = Some u \<or> (uid = None \<and> u = env_uuid e (w_uuids w))"
    and "upsert_rows mrg \<lparr>r_uid = u, r_key = k, r_cols = cols u, r_created_at = env_now e (w_ticks w),
           r_updated_at = env_now e (w_ticks w)\<rparr> (tbl w) = Inr rows"
  shows "\<exists>w'. repo_create e tbl put dec nf mrg uid k cols w =
      (Inr (dec (upserted mrg \<lparr>r_uid = u, r_key = k, r_cols = cols u, r_created_at = env_now e (w_ticks w),
           r_updated_at = env_now e (w_ticks w)\<rparr> (tbl w))), w') \<and>
    tbl w' = rows \<and> w_uuids w' = (if uid = None then Suc (w_uuids w) else w_uuids w)"
  using assms find_row_upsert [OF assms(3), of k]
  by (auto simp: repo_create_def bindR_def uid_or_new_def new_v4_def returnR_def utc_now_def
      sql_upsert_def sql_stmt_ok repo_get_def sql_select_def)

lemma create_succeeds:
  assumes "no_faults e"
    and "find_row k (tbl w) \<noteq> None \<or> (case uid of Some u \<Rightarrow> u | None \<Rightarrow> env_uuid e (w_uuids w)) \<notin> r_uid ` set (tbl w)"
  obtains x w' where "repo_create e tbl put dec nf mrg uid k cols w = (Inr x, w')"
proof -
  define u where "u = (case uid of Some u \<Rightarrow> u | None \<Rightarrow> env_uuid e (w_uuids w))"
  have "uid = Some u \<or> (uid = None \<and> u = env_uuid e (w_uuids w))" by (simp add: u_def split: option.split)
  moreover define r where "r = \<lparr>r_uid = u, r_key = k, r_cols = cols u,
      r_created_at = env_now e (w_ticks w), r_updated_at = env_now e (w_ticks w)\<rparr>"
  moreover have "find_row (r_key r) (tbl w) \<noteq> None \<or> r_uid r \<notin> r_uid ` set (tbl w)"
    using assms(2) by (simp add: r_def u_def)
  then obtain rows where "upsert_rows mrg r (tbl w) = Inr rows" by (rule upsert_rows_ok)
  ultimately show thesis using create_run [OF assms(1)] that by blast
qed

lemma create_fresh:
  assumes "no_faults e" "find_row k (tbl w) = None" "u \<notin> r_uid ` set (tbl w)"
  shows "\<exists>w' t. repo_create e tbl put dec nf mrg (Some u) k cols w =
      (Inr (dec \<lparr>r_uid = u, r_key = k, r_cols = cols u, r_created_at = t, r_updated_at = t\<rparr>), w') \<and>
    tbl w' = tbl w @ [\<lparr>r_uid = u, r_key = k, r_cols = cols u, r_created_at = t, r_updated_at = t\<rparr>] \<and>
    w_uuids w' = w_uuids w"
proof -
  let ?t = "env_now e (w_ticks w)"
  let ?r = "\<lparr>r_uid = u, r_key = k, r_cols = cols u, r_created_at = ?t, r_updated_at = ?t\<rparr>"
  have up: "upsert_rows mrg ?r (tbl w) = Inr (tbl w @ [?r])"
    using assms(2,3) by (intro upsert_rows_fresh) simp_all
  have "upserted mrg ?r (tbl w) = ?r" using assms(2) by (simp add: upserted_def)
  with create_run [of e "Some u" u w mrg k cols "tbl w @ [?r]" dec nf] assms(1) up show ?thesis by auto
qed

lemma create_uuids: "w_uuids (snd (repo_create e tbl put dec nf mrg (Some u) k cols w)) = w_uuids w"
  by (auto simp: repo_create_def bindR_def uid_or_new_def returnR_def utc_now_def sql_upsert_def sql_stmt_def
      Let_def repo_get_def sql_select_def failR_def split: option.splits sum.splits)

lemma delete_run:
  assumes "no_faults e"
  shows "\<exists>res w'. repo_delete e tbl put nf k w = (res, w') \<and>
    tbl w' = filter (\<lambda>r. \<not> r_key r = k) (tbl w) \<and> w_uuids w' = w_uuids w"
  using assms
  by (auto simp: repo_delete_def bindR_def sql_delete_def sql_stmt_ok failR_def returnR_def)

lemma get_run:
  assumes "no_faults e"
  shows "repo_get e tbl dec nf k w =
    ((case find_row k (tbl w) of None \<Rightarrow> Inl (NotFound (nf k)) | Some r \<Rightarrow> Inr (dec r)),
     w\<lparr>w_stmts := Suc (w_stmts w)\<rparr>)"
  using assms
  by (auto simp: repo_get_def bindR_def sql_select_def sql_stmt_ok failR_def returnR_def split: option.split)

lemma list_run:
  assumes "no_faults e"
  shows "repo_list e tbl dec P w =
    (Inr (map dec (sort_key (\<lambda>r. - r_created_at r) (filter P (tbl w)))), w\<lparr>w_stmts := Suc (w_stmts w)\<rparr>)"
  using assms by (simp add: repo_list_def bindR_def sql_select_def sql_stmt_ok returnR_def)

lemma create_others:
  assumes "repo_create e tbl put dec nf mrg uid k cols w = (r, w')" "k' \<noteq> k"
  shows "find_row k' (tbl w') = find_row k' (tbl w)"
  using assms
  by (auto simp: repo_create_def bindR_def uid_or_new_def new_v4_def returnR_def utc_now_def
        sql_upsert_def sql_stmt_def Let_def repo_get_def sql_select_def failR_def find_row_upsert
        split: option.splits if_splits sum.splits prod.splits)

lemma create_table_ok:
  "preserves (\<lambda>w. table_ok (tbl w)) (repo_create e tbl put dec nf mrg uid k cols)"
proof -
  have up: "preserves (\<lambda>w. table_ok (tbl w)) (sql_upsert e tbl put mrg r)" for r
    by (auto simp: preserves_def sql_upsert_def sql_stmt_def Let_def dest: table_ok_upsert
        split: sum.split)
  show ?thesis
    unfolding repo_create_def
    by (intro preserves_intros up keeps_preserves keeps_uid_or_new keeps_utc_now keeps_repo_get
        tbl_counters)
qed

lemma delete_lookup:
  assumes "repo_delete e tbl put nf k w = (Inr x, w')"
  shows "find_row k (tbl w) \<noteq> None"
    and "find_row k' (tbl w') = (if k' = k then None else find_row k' (tbl w))"
proof -
  from assms have "filter (\<lambda>r. r_key r = k) (tbl w) \<noteq> []"
    and w': "tbl w' = filter (\<lambda>r. \<not> r_key r = k) (tbl w)"
    by (auto simp: repo_delete_def bindR_def sql_delete_def sql_stmt_def Let_def failR_def
        returnR_def split: if_splits)
  then show "find_row k (tbl w) \<noteq> None"
    by (metis (mono_tags, lifting) filter_empty_conv find_row_None_iff)
  from w' show "find_row k' (tbl w') = (if k' = k then None else find_row k' (tbl w))"
    by (simp add: find_row_filter_neq)
qed

lemma delete_missing:
  assumes "find_row k (tbl w) = None" "\<not> env_fails e (w_stmts w)"
  shows "fst (repo_delete e tbl put nf k w) = Inl (NotFound (nf k))"
    and "tbl (snd (repo_delete e tbl put nf k w)) = tbl w"
proof -
  from assms(1) have "filter (\<lambda>r. r_key r = k) (tbl w) = []" "filter (\<lambda>r. \<not> r_key r = k) (tbl w) = tbl w"
    by (auto simp: find_row_None_iff filter_empty_conv filter_id_conv)
  with assms(2) show "fst (repo_delete e tbl put nf k w) = Inl (NotFound (nf k))"
    and "tbl (snd (repo_delete e tbl put nf k w)) = tbl w"
    by (simp_all add: repo_delete_def bindR_def sql_delete_def sql_stmt_def Let_def failR_def)
qed

lemma delete_table_ok: "preserves (\<lambda>w. table_ok (tbl w)) (repo_delete e tbl put nf k)"
  by (auto simp: preserves_def repo_delete_def bindR_def sql_delete_def sql_stmt_def Let_def
      failR_def returnR_def intro: table_ok_filter)

lemma update_table_ok: "preserves (\<lambda>w. table_ok (tbl w)) (sql_update e tbl put k f t)"
  by (auto simp: preserves_def sql_update_def sql_stmt_def Let_def table_ok_map)

lemma list_ok:
  assumes "repo_list e tbl dec P w = (Inr xs, w')"
  shows "xs = map dec (sort_key (\<lambda>r. - r_created_at r) (filter P (tbl w)))" and "tbl w' = tbl w"
  using assms
  by (auto simp: repo_list_def bindR_def sql_select_def sql_stmt_def Let_def returnR_def split: if_splits)

lemma list_set:
  assumes "repo_list e tbl dec P w = (Inr xs, w')"
  shows "set xs = dec ` {r \<in> set (tbl w). P r}"
  using list_ok(1) [OF assms] by auto

end

end
