(* ===== verification/Bus.thy ===== *)
theory Bus
  imports Tables
begin

text \<open>
  The watch bus (\<open>src/src/server/bus.rs\<close>), the \<open>change_log\<close> table (\<open>src/src/db/change_log.rs\<close>) and
  the listener and pruner tasks of \<open>src/src/server/mod.rs\<close>.

  Publishing appends to the broadcast of this server and, when the bus has a replicator, spawns a
  replication task; \<open>run_replication\<close> is such a task running, in any order and at any later time.
  \<open>listener_handle\<close> is one turn of the LISTEN loop. The channel's bounded buffer drops only
  subscribers, never events already taken by them, so \<open>w_bus\<close> is the sequence of sends. The object
  of a change-log row is stored as JSON text; the model stores the value.
\<close>

section \<open>Events and filters\<close>

fun as_wire :: "watch_event_type \<Rightarrow> string" where
  "as_wire Added = ''ADDED''"
| "as_wire Modified = ''MODIFIED''"
| "as_wire Deleted = ''DELETED''"

record watch_filter =
  wf_kind :: string
  wf_namespace :: "string option"

definition filter_matches :: "watch_filter \<Rightarrow> change_event \<Rightarrow> bool" where
  "filter_matches f ev \<longleftrightarrow>
     ce_kind ev = wf_kind f \<and>
     (case (wf_namespace f, ce_namespace ev) of
        (None, _) \<Rightarrow> True
      | (Some want, Some got) \<Rightarrow> want = got
      | (Some _, None) \<Rightarrow> False)"

definition default_notify_channel :: string where
  "default_notify_channel = ''kais_changes''"

section \<open>Publishing\<close>

definition publish :: "watch_event_type \<Rightarrow> string \<Rightarrow> string option \<Rightarrow> string \<Rightarrow> kobject \<Rightarrow> unit prog" where
  "publish et kind ns name obj w =
     (let ev = \<lparr>ce_kind = kind, ce_namespace = ns, ce_name = name, ce_event_type = et, ce_object = obj\<rparr>
      in (Inr (), w\<lparr>w_bus := w_bus w @ [ev],
                    w_tasks := (case w_replicator w of None \<Rightarrow> w_tasks w | Some _ \<Rightarrow> w_tasks w @ [ev])\<rparr>))"

definition publish_added :: "string \<Rightarrow> string option \<Rightarrow> string \<Rightarrow> kobject \<Rightarrow> unit prog" where
  "publish_added = publish Added"

definition publish_modified :: "string \<Rightarrow> string option \<Rightarrow> string \<Rightarrow> kobject \<Rightarrow> unit prog" where
  "publish_modified = publish Modified"

definition publish_deleted :: "string \<Rightarrow> string option \<Rightarrow> string \<Rightarrow> kobject \<Rightarrow> unit prog" where
  "publish_deleted = publish Deleted"

definition republish_local :: "change_event \<Rightarrow> unit prog" where
  "republish_local ev w = (Inr (), w\<lparr>w_bus := w_bus w @ [ev]\<rparr>)"

section \<open>The change log\<close>

definition change_log_insert ::
  "env \<Rightarrow> string \<Rightarrow> string \<Rightarrow> string option \<Rightarrow> string \<Rightarrow> string \<Rightarrow> kobject \<Rightarrow> string prog" where
  "change_log_insert e instance_id kind ns name event_type obj =
     bindR (new_v4 e) (\<lambda>u.
     bindR (utc_now e) (\<lambda>now.
     let id = env_uuid_str e u;
         row = \<lparr>cl_id = id, cl_instance_id = instance_id, cl_kind = kind, cl_namespace = ns,
                cl_name = name, cl_event_type = event_type, cl_object = obj, cl_created_at = now\<rparr>
     in sql_stmt e (\<lambda>w.
          if list_ex (\<lambda>r. cl_id r = id) (w_change_log w) then (Inl (Database Sql_Unique), w)
          else (Inr id, w\<lparr>w_change_log := w_change_log w @ [row]\<rparr>))))"

definition change_log_fetch :: "env \<Rightarrow> string \<Rightarrow> change_log_row option prog" where
  "change_log_fetch e payload = sql_select e (\<lambda>w. List.find (\<lambda>r. cl_id r = payload) (w_change_log w))"

text \<open>\<open>ttl_seconds\<close> in seconds; the number of rows pruned.\<close>

definition prune_older_than :: "env \<Rightarrow> int \<Rightarrow> nat prog" where
  "prune_older_than e ttl_seconds =
     bindR (utc_now e) (\<lambda>now.
     let cutoff = now - ttl_seconds * 1000000000
     in sql_stmt e (\<lambda>w.
          (Inr (length (filter (\<lambda>r. cl_created_at r < cutoff) (w_change_log w))),
           w\<lparr>w_change_log := filter (\<lambda>r. \<not> cl_created_at r < cutoff) (w_change_log w)\<rparr>)))"

definition prune_ttl_secs :: int where
  "prune_ttl_secs = 300"

text \<open>One tick of the pruner: an error is logged.\<close>

definition pruner_tick :: "env \<Rightarrow> unit prog" where
  "pruner_tick e = tryR (prune_older_than e prune_ttl_secs) (\<lambda>_. returnR ())"

definition replicate_event ::
  "env \<Rightarrow> replicator \<Rightarrow> string \<Rightarrow> string option \<Rightarrow> string \<Rightarrow> string \<Rightarrow> kobject \<Rightarrow> unit prog" where
  "replicate_event e rep kind ns name event_type obj =
     bindR (change_log_insert e (rp_instance_id rep) kind ns name event_type obj) (\<lambda>id.
     sql_stmt e (\<lambda>w. (Inr (), w\<lparr>w_notifications := w_notifications w @ [(rp_channel rep, id)]\<rparr>)))"

text \<open>The \<open>i\<close>-th spawned replication runs to its end; an error is logged.\<close>

definition run_replication :: "env \<Rightarrow> nat \<Rightarrow> unit prog" where
  "run_replication e i w =
     (if i < length (w_tasks w) then
        (let ev = w_tasks w ! i;
             w' = w\<lparr>w_tasks := take i (w_tasks w) @ drop (Suc i) (w_tasks w)\<rparr>
         in case w_replicator w of
              None \<Rightarrow> (Inr (), w')
            | Some rep \<Rightarrow>
                tryR (replicate_event e rep (ce_kind ev) (ce_namespace ev) (ce_name ev)
                        (as_wire (ce_event_type ev)) (ce_object ev)) (\<lambda>_. returnR ()) w')
      else (Inr (), w))"

section \<open>The listener\<close>

fun event_type_of_wire :: "string \<Rightarrow> watch_event_type option" where
  "event_type_of_wire s =
     (if s = ''ADDED'' then Some Added
      else if s = ''MODIFIED'' then Some Modified
      else if s = ''DELETED'' then Some Deleted
      else None)"

definition listener_kinds :: "string list" where
  "listener_kinds = [''Pod'', ''Service'', ''Node'', ''Namespace'', ''ConfigMap'', ''Secret'',
     ''ServiceAccount'', ''Deployment'', ''StatefulSet'', ''DaemonSet'', ''Role'', ''RoleBinding'',
     ''ClusterRole'', ''ClusterRoleBinding'']"

definition listener_handle :: "env \<Rightarrow> string \<Rightarrow> string \<Rightarrow> unit prog" where
  "listener_handle e instance_id payload =
     tryR (change_log_fetch e payload) (\<lambda>res. case res of
         Inl _ \<Rightarrow> returnR ()
       | Inr None \<Rightarrow> returnR ()
       | Inr (Some row) \<Rightarrow>
           if cl_instance_id row = instance_id then returnR ()
           else (case event_type_of_wire (cl_event_type row) of
                   None \<Rightarrow> returnR ()
                 | Some et \<Rightarrow>
                     if cl_kind row \<in> set listener_kinds then
                       republish_local \<lparr>ce_kind = cl_kind row, ce_namespace = cl_namespace row,
                         ce_name = cl_name row, ce_event_type = et, ce_object = cl_object row\<rparr>
                     else returnR ()))"

section \<open>Lemmas\<close>

lemma event_type_of_wire_as_wire [simp]: "event_type_of_wire (as_wire et) = Some et"
  by (cases et) simp_all

lemma keeps_publish [keeps_intros]:
  assumes "\<And>w g. f (w\<lparr>w_bus := g\<rparr>) = f w" "\<And>w g. f (w\<lparr>w_tasks := g\<rparr>) = f w"
  shows "keeps f (publish et kind ns name obj)"
  using assms by (simp add: keeps_def publish_def Let_def) 

lemma keeps_publish_kinds [keeps_intros]:
  assumes "\<And>w g. f (w\<lparr>w_bus := g\<rparr>) = f w" "\<And>w g. f (w\<lparr>w_tasks := g\<rparr>) = f w"
  shows "keeps f (publish_added kind ns name obj)"
    and "keeps f (publish_modified kind ns name obj)"
    and "keeps f (publish_deleted kind ns name obj)"
  unfolding publish_added_def publish_modified_def publish_deleted_def
  by (intro keeps_intros assms)+

lemma publish_effect [simp]:
  "publish et kind ns name obj w =
     (Inr (), w\<lparr>w_bus := w_bus w @ [\<lparr>ce_kind = kind, ce_namespace = ns, ce_name = name,
                                       ce_event_type = et, ce_object = obj\<rparr>],
                w_tasks := (case w_replicator w of None \<Rightarrow> w_tasks w
                  | Some _ \<Rightarrow> w_tasks w @ [\<lparr>ce_kind = kind, ce_namespace = ns, ce_name = name,
                                             ce_event_type = et, ce_object = obj\<rparr>])\<rparr>)"
  by (simp add: publish_def Let_def)

lemma replicate_event_ok:
  assumes nf: "\<not> env_fails e (w_stmts w)" "\<not> env_fails e (Suc (w_stmts w))"
    and fresh: "\<not> list_ex (\<lambda>r. cl_id r = env_uuid_str e (env_uuid e (w_uuids w))) (w_change_log w)"
  shows "replicate_event e rep kind ns name et obj w =
    (let id = env_uuid_str e (env_uuid e (w_uuids w));
         row = \<lparr>cl_id = id, cl_instance_id = rp_instance_id rep, cl_kind = kind, cl_namespace = ns,
                cl_name = name, cl_event_type = et, cl_object = obj,
                cl_created_at = env_now e (w_ticks w)\<rparr>
     in (Inr (), w\<lparr>w_change_log := w_change_log w @ [row],
                   w_notifications := w_notifications w @ [(rp_channel rep, id)],
                   w_uuids := Suc (w_uuids w), w_ticks := Suc (w_ticks w),
                   w_stmts := Suc (Suc (w_stmts w))\<rparr>))"
  using assms
  by (simp add: replicate_event_def change_log_insert_def bindR_def new_v4_def utc_now_def
      sql_stmt_def Let_def)

lemma find_append_fresh:
  "\<not> list_ex (\<lambda>r. cl_id r = cl_id row) rows \<Longrightarrow>
   List.find (\<lambda>r. cl_id r = cl_id row) (rows @ [row]) = Some row"
  by (induction rows) auto

lemma keeps_listener [keeps_intros]:
  assumes "counter_free f" "\<And>w g. f (w\<lparr>w_bus := g\<rparr>) = f w"
  shows "keeps f (listener_handle e inst payload)"
  unfolding listener_handle_def change_log_fetch_def
  by (intro keeps_intros assms(1)) (simp add: keeps_def republish_local_def assms(2))

section \<open>Properties\<close>

text \<open>
  Replication delivers every event exactly once and never echoes: when the spawned task of an
  event has run, a peer that handles its notification sends exactly this event to its own watchers
  and spawns no replication in turn, and the server the event came from, when it hears its own
  notification, sends nothing. The peer's world has the shared tables and its own bus.
\<close>

theorem replication_delivers_once:
  assumes "i < length (w_tasks w)" "w_replicator w = Some rep" "no_faults e"
    and "\<not> list_ex (\<lambda>r. cl_id r = env_uuid_str e (env_uuid e (w_uuids w))) (w_change_log w)"
    and "ce_kind (w_tasks w ! i) \<in> set listener_kinds"
    and "peer = (snd (run_replication e i w))\<lparr>w_bus := bus, w_tasks := ts, w_replicator := Some rep'\<rparr>"
  shows "\<exists>payload. w_notifications (snd (run_replication e i w)) = w_notifications w @ [(rp_channel rep, payload)] \<and>
    w_bus (snd (listener_handle e (rp_instance_id rep') payload peer)) =
      bus @ (if rp_instance_id rep' = rp_instance_id rep then [] else [w_tasks w ! i]) \<and>
    w_tasks (snd (listener_handle e (rp_instance_id rep') payload peer)) = ts"
proof -
  let ?ev = "w_tasks w ! i" and ?id = "env_uuid_str e (env_uuid e (w_uuids w))"
  let ?w1 = "w\<lparr>w_tasks := take i (w_tasks w) @ drop (Suc i) (w_tasks w)\<rparr>"
  let ?row = "\<lparr>cl_id = ?id, cl_instance_id = rp_instance_id rep, cl_kind = ce_kind ?ev, cl_namespace = ce_namespace ?ev,
      cl_name = ce_name ?ev, cl_event_type = as_wire (ce_event_type ?ev), cl_object = ce_object ?ev,
      cl_created_at = env_now e (w_ticks w)\<rparr>"
  have nf: "\<not> env_fails e n" for n using assms(3) by (simp add: no_faults_def)
  have run: "snd (run_replication e i w) = ?w1\<lparr>w_change_log := w_change_log w @ [?row],
      w_notifications := w_notifications w @ [(rp_channel rep, ?id)],
      w_uuids := Suc (w_uuids w), w_ticks := Suc (w_ticks w), w_stmts := Suc (Suc (w_stmts w))\<rparr>"
    using replicate_event_ok [of e ?w1 rep "ce_kind ?ev" "ce_namespace ?ev" "ce_name ?ev" "as_wire (ce_event_type ?ev)" "ce_object ?ev"]
      assms(1,2,4) nf by (simp add: run_replication_def Let_def tryR_def returnR_def)
  have "List.find (\<lambda>r. cl_id r = ?id) (w_change_log w @ [?row]) = Some ?row"
    using find_append_fresh [of ?row "w_change_log w"] assms(4) by simp
  then have fetch: "change_log_fetch e ?id peer = (Inr (Some ?row), peer\<lparr>w_stmts := Suc (w_stmts peer)\<rparr>)"
    using nf by (simp add: change_log_fetch_def sql_select_def sql_stmt_def Let_def assms(6) run)
  have ev: "\<lparr>ce_kind = ce_kind ?ev, ce_namespace = ce_namespace ?ev, ce_name = ce_name ?ev,
      ce_event_type = ce_event_type ?ev, ce_object = ce_object ?ev\<rparr> = ?ev" by simp
  have "w_bus peer = bus" "w_tasks peer = ts" by (simp_all add: assms(6))
  then show ?thesis
    using assms(5) ev
    by (intro exI [of _ ?id])
       (simp add: run listener_handle_def tryR_def fetch returnR_def republish_local_def del: event_type_of_wire.simps)
qed

definition pod_added :: change_event where
  "pod_added = \<lparr>ce_kind = ''Pod'', ce_namespace = Some ''default'', ce_name = ''web'', ce_event_type = Added, ce_object = KNull\<rparr>"

definition bus_env :: env where
  "bus_env = \<lparr>env_uuid = word_of_nat, env_uuid_str = (\<lambda>u. ''id''), env_now = int, env_fails = (\<lambda>_. False)\<rparr>"

definition bus_world :: world where
  "bus_world = empty_world\<lparr>w_tasks := [pod_added], w_replicator := Some \<lparr>rp_instance_id = ''a'', rp_channel = ''c''\<rparr>\<rparr>"

theorem replication_delivers_once_witness:
  "\<exists>payload. w_bus (snd (listener_handle bus_env ''b'' payload ((snd (run_replication bus_env 0 bus_world))
     \<lparr>w_bus := [], w_tasks := [], w_replicator := Some \<lparr>rp_instance_id = ''b'', rp_channel = ''c''\<rparr>\<rparr>))) = [pod_added]"
proof -
  have "0 < length (w_tasks bus_world)" "w_replicator bus_world = Some \<lparr>rp_instance_id = ''a'', rp_channel = ''c''\<rparr>"
    "no_faults bus_env" "\<not> list_ex (\<lambda>r. cl_id r = env_uuid_str bus_env (env_uuid bus_env (w_uuids bus_world))) (w_change_log bus_world)"
    "ce_kind (w_tasks bus_world ! 0) \<in> set listener_kinds"
    by (simp_all add: bus_world_def bus_env_def no_faults_def empty_world_def pod_added_def listener_kinds_def)
  from replication_delivers_once [OF this refl, of "\<lparr>rp_instance_id = ''b'', rp_channel = ''c''\<rparr>" "[]" "[]"]
  show ?thesis by (auto simp: bus_world_def)
qed

text \<open>
  The pruner removes exactly the change-log rows older than five minutes, and nothing when its
  statement fails.
\<close>

theorem pruner_exact:
  "w_change_log (snd (pruner_tick e w)) = (if env_fails e (w_stmts w) then w_change_log w
     else filter (\<lambda>r. env_now e (w_ticks w) - 300 * 1000000000 \<le> cl_created_at r) (w_change_log w))"
  by (auto simp: pruner_tick_def prune_older_than_def prune_ttl_secs_def tryR_def bindR_def utc_now_def
      sql_stmt_def Let_def returnR_def not_less intro!: filter_cong)

end
