(* ===== verification/Responses.thy ===== *)
theory Responses
  imports Bus
begin

text \<open>
  Responses to list and get requests (\<open>src/src/server/table.rs\<close>) and the middleware that marks
  watch requests (\<open>src/src/server/routes.rs\<close>).

  A response body is a plain list, a \<open>Table\<close>, a single object, or a stream of watch lines. The
  stream of a live watch is the state \<open>live_watch\<close> of its two tasks, the forwarder of bus events
  and the keep-alive, with the lines they have queued for the client; \<open>live_recv\<close> and
  \<open>live_keepalive\<close> are one turn of the tasks' loops, and \<open>watch_step\<close> interleaves them with
  publications and with the client going away. The theorems: a live watch delivers the snapshot and
  then exactly the matching events, in order and once each; it catches up unless it lags; after a
  lag it is silent but stays open.
\<close>

section \<open>Requests\<close>

type_synonym header_map = "(string \<times> string) list"  \<comment> \<open>lower-case names with their values\<close>

text \<open>\<open>HeaderValue::to_str\<close> succeeds on visible ASCII and tabs.\<close>

definition to_str_ok :: "string \<Rightarrow> bool" where
  "to_str_ok v \<longleftrightarrow> list_all (\<lambda>c. let n = of_char c :: nat in n = 9 \<or> (32 \<le> n \<and> n < 127)) v"

fun str_contains :: "string \<Rightarrow> string \<Rightarrow> bool" where
  "str_contains [] p = (p = [])"
| "str_contains (c # s) p = (starts_with (c # s) p \<or> str_contains s p)"

definition wants_table :: "header_map \<Rightarrow> bool" where
  "wants_table headers \<longleftrightarrow>
     list_ex (\<lambda>(k, v). k = ''accept'' \<and> to_str_ok v \<and> str_contains v ''as=Table'') headers"

definition watch_header :: string where
  "watch_header = ''x-kais-watch''"

definition wants_watch :: "header_map \<Rightarrow> bool" where
  "wants_watch headers \<longleftrightarrow> list_ex (\<lambda>(k, v). k = watch_header) headers"

fun watch_pairs :: "string list \<Rightarrow> bool" where
  "watch_pairs [] = False"
| "watch_pairs (pair # rest) =
     (let (k, v) = splitn2 (CHR ''='') pair in
      if k = ''watch'' then
        (case v of
           None \<Rightarrow> True
         | Some x \<Rightarrow> if x = ''1'' \<or> x = ''true'' then True else watch_pairs rest)
      else watch_pairs rest)"

definition has_watch_flag :: "string \<Rightarrow> bool" where
  "has_watch_flag query = watch_pairs (split_on (CHR ''&'') query)"

text \<open>The middleware: \<open>HeaderMap::insert\<close> replaces earlier values of the header.\<close>

definition watch_middleware :: "string option \<Rightarrow> header_map \<Rightarrow> header_map" where
  "watch_middleware query headers = (case query of
       Some q \<Rightarrow> if has_watch_flag q
                 then filter (\<lambda>(k, v). k \<noteq> watch_header) headers @ [(watch_header, ''1'')]
                 else headers
     | None \<Rightarrow> headers)"

section \<open>Tables\<close>

record column =
  col_name :: string
  col_kind :: string
  col_priority :: i32

definition column_new :: "string \<Rightarrow> string \<Rightarrow> column" where
  "column_new name kind = \<lparr>col_name = name, col_kind = kind, col_priority = 0\<rparr>"

definition column_wide :: "string \<Rightarrow> string \<Rightarrow> column" where
  "column_wide name kind = \<lparr>col_name = name, col_kind = kind, col_priority = 1\<rparr>"

datatype cell = Str_Cell string | Int_Cell int

text \<open>One line of a watch stream: a snapshot object, a bookmark, or an event of the bus.\<close>

datatype 't watch_line = Snapshot_Line 't | Bookmark_Line | Event_Line string kobject

record 't live_watch =
  lw_filter :: watch_filter
  lw_next :: nat                        \<comment> \<open>position of the receiver in the bus\<close>
  lw_forwarding :: bool                 \<comment> \<open>the forwarder task runs and holds a sender\<close>
  lw_keepalive :: bool                  \<comment> \<open>the keep-alive task runs and holds a sender\<close>
  lw_connected :: bool                  \<comment> \<open>the client still reads\<close>
  lw_lines :: "'t watch_line list"

datatype 't body =
    Json_List string string "'t list"
  | Json_Table "column list" "(cell list \<times> 't) list"
  | Json_Item 't
  | Watch_Stream "'t watch_line list"
  | Live_Stream "'t live_watch"

fun mapR :: "('x \<Rightarrow> 'w \<Rightarrow> ('e + 'y) \<times> 'w) \<Rightarrow> 'x list \<Rightarrow> 'w \<Rightarrow> ('e + 'y list) \<times> 'w" where
  "mapR f [] = returnR []"
| "mapR f (x # xs) = bindR (f x) (\<lambda>y. bindR (mapR f xs) (\<lambda>ys. returnR (y # ys)))"

definition build_table :: "column list \<Rightarrow> 't list \<Rightarrow> ('t \<Rightarrow> cell list prog) \<Rightarrow> 't body prog" where
  "build_table columns items row_for =
     bindR (mapR (\<lambda>item. bindR (row_for item) (\<lambda>cells. returnR (cells, item))) items)
       (\<lambda>rows. returnR (Json_Table columns rows))"

text \<open>\<open>Duration::num_seconds\<close> truncates towards zero; negative ages are shown as zero.\<close>

definition format_age :: "time \<Rightarrow> string" where
  "format_age d =
     (let secs = nat (max 0 (d div 1000000000));
          mins = secs div 60;
          hrs = mins div 60;
          days = hrs div 24
      in if secs < 60 then show_nat secs @ ''s''
         else if mins < 60 then show_nat mins @ ''m''
         else if hrs < 48 then show_nat hrs @ ''h''
         else show_nat days @ ''d'')"

definition age_str :: "env \<Rightarrow> time option \<Rightarrow> string prog" where
  "age_str e ts = (case ts of
       Some t \<Rightarrow> bindR (utc_now e) (\<lambda>now. returnR (format_age (now - t)))
     | None \<Rightarrow> returnR ''<unknown>'')"

section \<open>Watch streams\<close>

text \<open>The snapshot, the bookmark that ends it, and sixty keep-alives.\<close>

definition watch_response :: "'t list \<Rightarrow> 't body" where
  "watch_response items =
     Watch_Stream (map Snapshot_Line items @ [Bookmark_Line] @ replicate 60 Bookmark_Line)"

text \<open>\<open>next\<close> is where the receiver starts: \<open>Bus::subscribe\<close> sees what is sent afterwards.\<close>

definition live_watch_response :: "'t list \<Rightarrow> watch_filter \<Rightarrow> nat \<Rightarrow> 't live_watch" where
  "live_watch_response items flt next =
     \<lparr>lw_filter = flt, lw_next = next, lw_forwarding = True, lw_keepalive = True, lw_connected = True,
      lw_lines = map Snapshot_Line items @ [Bookmark_Line]\<rparr>"

definition bus_capacity :: nat where
  "bus_capacity = 1024"

text \<open>
  One turn of the forwarder. \<open>recv\<close> waits when there is nothing to receive and reports a lag when
  the channel has dropped events the receiver has not seen; a send fails when the client is gone.
\<close>

definition live_recv :: "change_event list \<Rightarrow> 't live_watch \<Rightarrow> 't live_watch" where
  "live_recv bus lw =
     (if \<not> lw_forwarding lw \<or> length bus \<le> lw_next lw then lw
      else if bus_capacity < length bus - lw_next lw then lw\<lparr>lw_forwarding := False\<rparr>
      else let ev = bus ! lw_next lw; lw' = lw\<lparr>lw_next := Suc (lw_next lw)\<rparr> in
        if \<not> filter_matches (lw_filter lw) ev then lw'
        else if lw_connected lw
        then lw'\<lparr>lw_lines := lw_lines lw @ [Event_Line (as_wire (ce_event_type ev)) (ce_object ev)]\<rparr>
        else lw'\<lparr>lw_forwarding := False\<rparr>)"

definition live_keepalive :: "'t live_watch \<Rightarrow> 't live_watch" where
  "live_keepalive lw =
     (if \<not> lw_keepalive lw then lw
      else if lw_connected lw then lw\<lparr>lw_lines := lw_lines lw @ [Bookmark_Line]\<rparr>
      else lw\<lparr>lw_keepalive := False\<rparr>)"

text \<open>The body ends when no task holds a sender any more.\<close>

definition stream_ended :: "'t live_watch \<Rightarrow> bool" where
  "stream_ended lw \<longleftrightarrow> \<not> lw_forwarding lw \<and> \<not> lw_keepalive lw"

definition subscribe :: "nat prog" where
  "subscribe w = (Inr (length (w_bus w)), w)"

section \<open>The three kinds of response\<close>

definition list_response ::
  "header_map \<Rightarrow> string \<Rightarrow> string \<Rightarrow> 't list \<Rightarrow> column list \<Rightarrow> ('t \<Rightarrow> cell list prog) \<Rightarrow> 't body prog" where
  "list_response headers api_version list_kind items columns row_for =
     (if wants_watch headers then returnR (watch_response items)
      else if wants_table headers then build_table columns items row_for
      else returnR (Json_List api_version list_kind items))"

definition list_response_live ::
  "header_map \<Rightarrow> string \<Rightarrow> string \<Rightarrow> 't list \<Rightarrow> column list \<Rightarrow> ('t \<Rightarrow> cell list prog) \<Rightarrow>
   watch_filter \<Rightarrow> 't body prog" where
  "list_response_live headers api_version list_kind items columns row_for flt =
     (if wants_watch headers then
        bindR subscribe (\<lambda>next. returnR (Live_Stream (live_watch_response items flt next)))
      else if wants_table headers then build_table columns items row_for
      else returnR (Json_List api_version list_kind items))"

definition item_response ::
  "header_map \<Rightarrow> 't \<Rightarrow> column list \<Rightarrow> ('t \<Rightarrow> cell list prog) \<Rightarrow> 't body prog" where
  "item_response headers item columns row_for =
     (if wants_watch headers then returnR (watch_response [item])
      else if wants_table headers then build_table columns [item] row_for
      else returnR (Json_Item item))"

section \<open>The watch as a state machine\<close>

inductive watch_step :: "change_event list \<times> 't live_watch \<Rightarrow> change_event list \<times> 't live_watch \<Rightarrow> bool" where
  step_publish: "watch_step (bus, lw) (bus @ [ev], lw)"
| step_recv: "watch_step (bus, lw) (bus, live_recv bus lw)"
| step_keepalive: "watch_step (bus, lw) (bus, live_keepalive lw)"
| step_disconnect: "watch_step (bus, lw) (bus, lw\<lparr>lw_connected := False\<rparr>)"

inductive_cases watch_stepE: "watch_step (bus, lw) s"

text \<open>What a client that drops bookmarks sees.\<close>

definition payload_lines :: "'t watch_line list \<Rightarrow> 't watch_line list" where
  "payload_lines ls = filter (\<lambda>l. l \<noteq> Bookmark_Line) ls"

definition event_line :: "change_event \<Rightarrow> 't watch_line" where
  "event_line ev = Event_Line (as_wire (ce_event_type ev)) (ce_object ev)"

text \<open>The specification: the snapshot, then the matching events among those sent since \<open>start\<close>.\<close>

definition expected_lines ::
  "'t list \<Rightarrow> watch_filter \<Rightarrow> nat \<Rightarrow> nat \<Rightarrow> change_event list \<Rightarrow> 't watch_line list" where
  "expected_lines items flt start next bus =
     map Snapshot_Line items @ map event_line (filter (filter_matches flt) (drop start (take next bus)))"

lemma payload_lines_append [simp]: "payload_lines (xs @ ys) = payload_lines xs @ payload_lines ys"
  by (simp add: payload_lines_def)

lemma payload_lines_simps [simp]:
  "payload_lines [] = []" "payload_lines (Bookmark_Line # ls) = payload_lines ls"
  "payload_lines [Event_Line t obj] = [Event_Line t obj]"
  "payload_lines (map Snapshot_Line items) = map Snapshot_Line items"
  by (simp_all add: payload_lines_def filter_id_conv)

lemma expected_lines_publish:
  "next \<le> length bus \<Longrightarrow> expected_lines items flt start next (bus @ [ev]) = expected_lines items flt start next bus"
  by (simp add: expected_lines_def)

lemma expected_lines_Suc:
  assumes "start \<le> next" "next < length bus"
  shows "expected_lines items flt start (Suc next) bus =
    expected_lines items flt start next bus @
      (if filter_matches flt (bus ! next) then [event_line (bus ! next)] else [])"
  using assms by (simp add: expected_lines_def take_Suc_conv_app_nth)

definition watch_inv :: "'t list \<Rightarrow> watch_filter \<Rightarrow> nat \<Rightarrow> change_event list \<times> 't live_watch \<Rightarrow> bool" where
  "watch_inv items flt start s \<longleftrightarrow> (case s of (bus, lw) \<Rightarrow>
     lw_filter lw = flt \<and> start \<le> lw_next lw \<and> lw_next lw \<le> length bus \<and>
     (lw_connected lw \<longrightarrow> lw_keepalive lw \<and>
        payload_lines (lw_lines lw) = expected_lines items flt start (lw_next lw) bus))"

lemma watch_inv_init: "watch_inv items flt (length bus) (bus, live_watch_response items flt (length bus))"
  by (simp add: watch_inv_def live_watch_response_def expected_lines_def)

lemma watch_inv_recv:
  assumes "watch_inv items flt start (bus, lw)"
  shows "watch_inv items flt start (bus, live_recv bus lw)"
  using assms
  by (auto simp: watch_inv_def live_recv_def Let_def event_line_def expected_lines_Suc)

lemma watch_inv_step:
  assumes "watch_step s s'" "watch_inv items flt start s"
  shows "watch_inv items flt start s'"
  using assms
proof cases
  case (step_recv bus lw)
  with assms(2) show ?thesis by (simp add: watch_inv_recv)
qed (auto simp: watch_inv_def live_keepalive_def expected_lines_publish)

lemma watch_inv_reachable:
  assumes "watch_step\<^sup>*\<^sup>* s s'" "watch_inv items flt start s"
  shows "watch_inv items flt start s'"
  using assms by (induction rule: rtranclp_induct) (auto intro: watch_inv_step)

text \<open>
  C13. At every moment, whatever is published and however the tasks interleave, a client that is
  still connected to a live watch has been sent the snapshot of the list and then exactly the events
  published since the subscription that match the filter, in the order they were published and once
  each, up to the receiver's position in the bus (bookmarks apart).
\<close>

theorem live_watch_exact:
  assumes "watch_step\<^sup>*\<^sup>* (bus0, live_watch_response items flt (length bus0)) (bus, lw)" "lw_connected lw"
  shows "payload_lines (lw_lines lw) = expected_lines items flt (length bus0) (lw_next lw) bus \<and>
    length bus0 \<le> lw_next lw \<and> lw_next lw \<le> length bus"
  using watch_inv_reachable [OF assms(1) watch_inv_init] assms(2) by (simp add: watch_inv_def)

section \<open>Catching up and lagging\<close>

lemma live_recv_next:
  assumes "lw_forwarding lw" "lw_connected lw" "lw_next lw < length bus"
    and "length bus - lw_next lw \<le> bus_capacity"
  shows "lw_next (live_recv bus lw) = Suc (lw_next lw)" "lw_forwarding (live_recv bus lw)"
    "lw_connected (live_recv bus lw)"
  using assms by (simp_all add: live_recv_def Let_def)

lemma live_recv_catches_up:
  assumes "lw_forwarding lw" "lw_connected lw" "length bus = lw_next lw + n" "n \<le> bus_capacity"
    and "watch_inv items flt start (bus, lw)"
  shows "lw_next ((live_recv bus ^^ n) lw) = length bus \<and> lw_connected ((live_recv bus ^^ n) lw) \<and>
    lw_forwarding ((live_recv bus ^^ n) lw) \<and> watch_inv items flt start (bus, (live_recv bus ^^ n) lw)"
  using assms
proof (induction n arbitrary: lw)
  case 0
  then show ?case by simp
next
  case (Suc n)
  let ?lw = "live_recv bus lw"
  have turn: "lw_next ?lw = Suc (lw_next lw)" "lw_forwarding ?lw" "lw_connected ?lw"
    using live_recv_next [of lw bus] Suc.prems by simp_all
  have "lw_next ((live_recv bus ^^ n) ?lw) = length bus \<and> lw_connected ((live_recv bus ^^ n) ?lw) \<and>
      lw_forwarding ((live_recv bus ^^ n) ?lw) \<and> watch_inv items flt start (bus, (live_recv bus ^^ n) ?lw)"
    using turn Suc.prems watch_inv_recv [of items flt start bus lw] by (intro Suc.IH) simp_all
  then show ?case by (simp only: funpow_Suc_right comp_def)
qed

text \<open>
  A live watch catches up: when its receiver is at most a buffer behind, as many turns of the
  forwarder as there are pending events leave the connected client with the snapshot and every
  matching event published since the subscription, and the forwarder ready for the next one.
\<close>

theorem live_watch_catches_up:
  assumes "watch_step\<^sup>*\<^sup>* (bus0, live_watch_response items flt (length bus0)) (bus, lw)"
    and "lw_connected lw" "lw_forwarding lw" "length bus - lw_next lw \<le> bus_capacity"
  shows "payload_lines (lw_lines ((live_recv bus ^^ (length bus - lw_next lw)) lw)) =
      map Snapshot_Line items @ map event_line (filter (filter_matches flt) (drop (length bus0) bus)) \<and>
    lw_forwarding ((live_recv bus ^^ (length bus - lw_next lw)) lw)"
proof -
  have inv: "watch_inv items flt (length bus0) (bus, lw)"
    by (rule watch_inv_reachable [OF assms(1) watch_inv_init])
  then have "length bus = lw_next lw + (length bus - lw_next lw)" by (simp add: watch_inv_def)
  from live_recv_catches_up [OF assms(3,2) this assms(4) inv] show ?thesis
    by (simp add: watch_inv_def expected_lines_def)
qed

lemma stopped_step:
  assumes "watch_step s s'" "\<not> lw_forwarding (snd s)" "lw_connected (snd s')" "lw_keepalive (snd s)"
  shows "\<not> lw_forwarding (snd s') \<and> lw_connected (snd s) \<and> lw_keepalive (snd s') \<and>
    payload_lines (lw_lines (snd s')) = payload_lines (lw_lines (snd s))"
  using assms by cases (auto simp: live_recv_def live_keepalive_def split: if_splits)

lemma connected_back:
  assumes "watch_step s s'" "lw_connected (snd s')"
  shows "lw_connected (snd s)"
  using assms by cases (auto simp: live_recv_def live_keepalive_def Let_def split: if_splits)

lemma stopped_reachable:
  assumes "watch_step\<^sup>*\<^sup>* s s'" "\<not> lw_forwarding (snd s)" "lw_keepalive (snd s)" "lw_connected (snd s')"
  shows "\<not> lw_forwarding (snd s') \<and> lw_keepalive (snd s') \<and>
    payload_lines (lw_lines (snd s')) = payload_lines (lw_lines (snd s))"
  using assms
proof (induction rule: rtranclp_induct)
  case base
  then show ?case by simp
next
  case (step y z)
  from connected_back [OF step.hyps(2) step.prems(3)] step.IH step.prems
  have y: "\<not> lw_forwarding (snd y)" "lw_keepalive (snd y)"
    "payload_lines (lw_lines (snd y)) = payload_lines (lw_lines (snd s))" by simp_all
  from stopped_step [OF step.hyps(2) y(1) step.prems(3) y(2)] y(3) show ?case by simp
qed

text \<open>
  A watch whose receiver has fallen more than the bus's buffer behind is not closed: the
  forwarder stops, but the keep-alive task still holds a sender, so as long as the client stays
  connected the stream does not end, and the client is sent nothing but bookmarks from then on,
  whatever is published.
\<close>

theorem live_watch_lag_silent:
  assumes "bus_capacity < length bus - lw_next lw" "lw_keepalive lw"
    and "watch_step\<^sup>*\<^sup>* (bus, live_recv bus lw) (bus', lw')" "lw_connected lw'"
  shows "\<not> stream_ended lw' \<and> payload_lines (lw_lines lw') = payload_lines (lw_lines lw)"
proof -
  have "\<not> lw_forwarding (live_recv bus lw)" "lw_keepalive (live_recv bus lw)"
    "lw_lines (live_recv bus lw) = lw_lines lw"
    using assms(1,2) by (auto simp: live_recv_def)
  with stopped_reachable [OF assms(3)] assms(4) show ?thesis by (simp add: stream_ended_def)
qed

section \<open>Examples\<close>

lemma rtranclp_two_steps: "R a b \<Longrightarrow> R b c \<Longrightarrow> R\<^sup>*\<^sup>* a c"
  by (meson converse_rtranclp_into_rtranclp r_into_rtranclp)

definition pod_event :: "watch_event_type \<Rightarrow> string \<Rightarrow> string \<Rightarrow> change_event" where
  "pod_event et ns name = \<lparr>ce_kind = ''Pod'', ce_namespace = Some ns, ce_name = name,
     ce_event_type = et, ce_object = KNull\<rparr>"

definition default_pods :: watch_filter where
  "default_pods = \<lparr>wf_kind = ''Pod'', wf_namespace = Some ''default''\<rparr>"

theorem live_watch_exact_witness:
  "\<exists>lw :: nat live_watch.
     watch_step\<^sup>*\<^sup>* ([], live_watch_response [7] default_pods 0) ([pod_event Added ''default'' ''a''], lw) \<and>
     lw_connected lw \<and>
     payload_lines (lw_lines lw) = [Snapshot_Line 7, Event_Line ''ADDED'' KNull]"
proof -
  let ?ev = "pod_event Added ''default'' ''a''"
  let ?init = "live_watch_response [7] default_pods 0 :: nat live_watch"
  let ?lw = "live_recv [?ev] ?init"
  have "watch_step ([], ?init) ([] @ [?ev], ?init)" by (rule step_publish)
  moreover have "watch_step ([?ev], ?init) ([?ev], ?lw)" by (rule step_recv)
  ultimately have r: "watch_step\<^sup>*\<^sup>* ([], live_watch_response [7] default_pods (length ([] :: change_event list))) ([?ev], ?lw)"
    by (simp add: rtranclp_two_steps)
  have c: "lw_connected ?lw" "lw_next ?lw = 1" by code_simp+
  have "expected_lines [7 :: nat] default_pods 0 1 [?ev] = [Snapshot_Line 7, Event_Line ''ADDED'' KNull]" by code_simp
  with live_watch_exact [OF r] r c show ?thesis by auto
qed

theorem live_watch_catches_up_witness:
  "payload_lines (lw_lines ((live_recv [pod_event Added ''other'' ''b'', pod_event Deleted ''default'' ''a''] ^^ 2)
       (live_watch_response [7] default_pods 0 :: nat live_watch))) =
     [Snapshot_Line 7, Event_Line ''DELETED'' KNull]"
proof -
  let ?a = "pod_event Added ''other'' ''b''" and ?b = "pod_event Deleted ''default'' ''a''"
  let ?lw = "live_watch_response [7] default_pods 0 :: nat live_watch"
  have "watch_step ([], ?lw) ([] @ [?a], ?lw)" by (rule step_publish)
  moreover have "watch_step ([?a], ?lw) ([?a] @ [?b], ?lw)" by (rule step_publish)
  ultimately have r: "watch_step\<^sup>*\<^sup>* ([], live_watch_response [7] default_pods (length ([] :: change_event list))) ([?a, ?b], ?lw)"
    by (simp add: rtranclp_two_steps)
  have c: "lw_connected ?lw" "lw_forwarding ?lw" "lw_next ?lw = 0" by (simp_all add: live_watch_response_def)
  have "map event_line (filter (filter_matches default_pods) [?a, ?b]) = [Event_Line ''DELETED'' KNull :: nat watch_line]"
    by code_simp
  with live_watch_catches_up [OF r] c show ?thesis by (simp add: bus_capacity_def numeral_2_eq_2)
qed

theorem live_watch_lag_silent_witness:
  "\<not> stream_ended (live_recv (replicate 1025 (pod_event Added ''default'' ''a''))
       (live_watch_response [7] default_pods 0 :: nat live_watch))"
proof -
  let ?bus = "replicate 1025 (pod_event Added ''default'' ''a'')"
  let ?lw = "live_watch_response [7] default_pods 0 :: nat live_watch"
  have "watch_step\<^sup>*\<^sup>* (?bus, live_recv ?bus ?lw) (?bus, live_recv ?bus ?lw)" by simp
  moreover have "lw_connected (live_recv ?bus ?lw)" "lw_keepalive ?lw" "bus_capacity < length ?bus - lw_next ?lw"
    by (simp_all add: live_recv_def live_watch_response_def bus_capacity_def)
  ultimately show ?thesis using live_watch_lag_silent by blast
qed

end
