(* ===== verification/Repositories.thy ===== *)
theory Repositories
  imports Tables
begin

text \<open>
  The repositories of \<open>src/src/db/repository.rs\<close> for pods, deployments, services, nodes,
  endpoints, namespaces, events, stateful sets and daemon sets: for each the columns \<open>create\<close>
  inserts, the merge of its \<open>ON CONFLICT\<close> clause, the conversion from a row, and one definition
  per operation. Arithmetic on \<open>i32\<close> wraps, as in a release build.
\<close>

definition not_found_msg :: "string \<Rightarrow> string \<Rightarrow> string" where
  "not_found_msg resource name = resource @ '' '' @ quoted name @ '' not found''"

definition meta_key :: "object_meta \<Rightarrow> nskey" where
  "meta_key m = (meta_namespace m, meta_name m)"

text \<open>The metadata every \<open>row_to_...\<close> starts from.\<close>

definition ns_row_meta :: "(nskey, 'c) row \<Rightarrow> object_meta" where
  "ns_row_meta r = object_meta_default
     \<lparr>om_name := Some (snd (r_key r)), om_namespace := Some (fst (r_key r)), om_uid := Some (r_uid r),
      om_creation_timestamp := Some (r_created_at r)\<rparr>"

definition cl_row_meta :: "(string, 'c) row \<Rightarrow> object_meta" where
  "cl_row_meta r = object_meta_default
     \<lparr>om_name := Some (r_key r), om_uid := Some (r_uid r),
      om_creation_timestamp := Some (r_created_at r)\<rparr>"

definition replace_cols :: "'c \<Rightarrow> 'c \<Rightarrow> 'c" where
  "replace_cols old new = new"

section \<open>Pods\<close>

definition pod_cols_of :: "pod \<Rightarrow> pod_cols" where
  "pod_cols_of p = \<lparr>
     pr_labels = om_labels (pod_metadata p),
     pr_annotations = om_annotations (pod_metadata p),
     pr_spec = pod_spec p,
     pr_status = (case pod_status p of Some s \<Rightarrow> pod_phase_fmt (pt_phase s) | None \<Rightarrow> ''Pending''),
     pr_node_name = ps_node_name (pod_spec p),
     pr_pod_ip = Option.bind (pod_status p) pt_pod_ip,
     pr_host_ip = Option.bind (pod_status p) pt_host_ip,
     pr_container_statuses = (case pod_status p of Some s \<Rightarrow> pt_container_statuses s | None \<Rightarrow> Some []),
     pr_owner_reference = om_owner_references (pod_metadata p)\<rparr>"

definition pod_phase_of :: "string \<Rightarrow> pod_phase" where
  "pod_phase_of s =
     (if s = ''Running'' then Running
      else if s = ''Succeeded'' then Succeeded
      else if s = ''Failed'' then Failed
      else if s = ''Unknown'' then Unknown
      else Pending)"

definition row_to_pod :: "(nskey, pod_cols) row \<Rightarrow> pod" where
  "row_to_pod r = (let c = r_cols r in \<lparr>
     pod_type_meta = type_meta_of ''v1'' ''Pod'',
     pod_metadata = (ns_row_meta r)\<lparr>om_labels := pr_labels c, om_annotations := pr_annotations c,
                       om_owner_references := pr_owner_reference c\<rparr>,
     pod_spec = (case pr_node_name c of
                   Some n \<Rightarrow> (pr_spec c)\<lparr>ps_node_name := Some n\<rparr> | None \<Rightarrow> pr_spec c),
     pod_status = Some (pod_status_default
                    \<lparr>pt_phase := pod_phase_of (pr_status c), pt_pod_ip := pr_pod_ip c,
                     pt_host_ip := pr_host_ip c, pt_container_statuses := pr_container_statuses c\<rparr>)\<rparr>)"

definition pod_nf :: "nskey \<Rightarrow> string" where
  "pod_nf k = not_found_msg ''pods'' (snd k)"

definition pod_get :: "env \<Rightarrow> string \<Rightarrow> string \<Rightarrow> pod prog" where
  "pod_get e ns name = repo_get e w_pods row_to_pod pod_nf (ns, name)"

definition pod_create :: "env \<Rightarrow> pod \<Rightarrow> pod prog" where
  "pod_create e p = repo_create e w_pods w_pods_update row_to_pod pod_nf replace_cols
     (om_uid (pod_metadata p)) (meta_key (pod_metadata p)) (\<lambda>_. pod_cols_of p)"

text \<open>A selector never matches a pod that has no labels at all.\<close>

definition pod_selected :: "smap option \<Rightarrow> pod \<Rightarrow> bool" where
  "pod_selected sel p = (case sel of
       None \<Rightarrow> True
     | Some s \<Rightarrow> (case om_labels (pod_metadata p) of Some l \<Rightarrow> labels_match s l | None \<Rightarrow> False))"

definition pod_list :: "env \<Rightarrow> string option \<Rightarrow> smap option \<Rightarrow> pod list prog" where
  "pod_list e ns sel = bindR (repo_list e w_pods row_to_pod (in_ns ns))
     (\<lambda>ps. returnR (filter (pod_selected sel) ps))"

definition pod_delete :: "env \<Rightarrow> string \<Rightarrow> string \<Rightarrow> unit prog" where
  "pod_delete e ns name = repo_delete e w_pods w_pods_update pod_nf (ns, name)"

definition pod_update_status :: "env \<Rightarrow> string \<Rightarrow> string \<Rightarrow> pod_status \<Rightarrow> unit prog" where
  "pod_update_status e ns name st =
     bindR (utc_now e) (\<lambda>now.
     bindR (sql_update e w_pods w_pods_update (ns, name)
              (\<lambda>c. c\<lparr>pr_status := pod_phase_fmt (pt_phase st), pr_pod_ip := pt_pod_ip st,
                     pr_host_ip := pt_host_ip st, pr_container_statuses := pt_container_statuses st\<rparr>) now)
       (\<lambda>_. returnR ()))"

definition pod_bind_to_node :: "env \<Rightarrow> string \<Rightarrow> string \<Rightarrow> string \<Rightarrow> unit prog" where
  "pod_bind_to_node e ns name node =
     bindR (utc_now e) (\<lambda>now.
     bindR (sql_update e w_pods w_pods_update (ns, name) (\<lambda>c. c\<lparr>pr_node_name := Some node\<rparr>) now)
       (\<lambda>_. returnR ()))"

definition unscheduled_row :: "(nskey, pod_cols) row \<Rightarrow> bool" where
  "unscheduled_row r \<longleftrightarrow> pr_node_name (r_cols r) = None \<and> pr_status (r_cols r) = ''Pending''"

definition pod_list_unscheduled :: "env \<Rightarrow> pod list prog" where
  "pod_list_unscheduled e =
     bindR (sql_select e (\<lambda>w. sort_key r_created_at (filter unscheduled_row (w_pods w))))
       (\<lambda>rows. returnR (map row_to_pod rows))"

section \<open>Deployments\<close>

definition deployment_cols_of :: "deployment \<Rightarrow> deployment_cols" where
  "deployment_cols_of d = \<lparr>
     dr_labels = om_labels (dep_metadata d), dr_annotations = om_annotations (dep_metadata d),
     dr_spec = dep_spec d, dr_replicas = deployment_replicas (dep_spec d),
     dr_ready_replicas = 0, dr_available_replicas = 0\<rparr>"

text \<open>The status columns are not in the \<open>SET\<close> list, so a conflict keeps them.\<close>

definition deployment_merge :: "deployment_cols \<Rightarrow> deployment_cols \<Rightarrow> deployment_cols" where
  "deployment_merge old new = new\<lparr>dr_ready_replicas := dr_ready_replicas old,
     dr_available_replicas := dr_available_replicas old\<rparr>"

definition row_to_deployment :: "(nskey, deployment_cols) row \<Rightarrow> deployment" where
  "row_to_deployment r = (let c = r_cols r in \<lparr>
     dep_type_meta = type_meta_of ''apps/v1'' ''Deployment'',
     dep_metadata = (ns_row_meta r)\<lparr>om_labels := dr_labels c, om_annotations := dr_annotations c\<rparr>,
     dep_spec = dr_spec c,
     dep_status = Some \<lparr>dt_replicas = dr_replicas c, dt_updated_replicas = dr_ready_replicas c,
        dt_ready_replicas = dr_ready_replicas c, dt_available_replicas = dr_available_replicas c,
        dt_unavailable_replicas = max 0 (wrap_i32 (dr_replicas c - dr_available_replicas c)),
        dt_observed_generation = None, dt_conditions = None\<rparr>\<rparr>)"

definition deployment_nf :: "nskey \<Rightarrow> string" where
  "deployment_nf k = not_found_msg ''deployments.apps'' (snd k)"

definition deployment_get :: "env \<Rightarrow> string \<Rightarrow> string \<Rightarrow> deployment prog" where
  "deployment_get e ns name = repo_get e w_deployments row_to_deployment deployment_nf (ns, name)"

definition deployment_create :: "env \<Rightarrow> deployment \<Rightarrow> deployment prog" where
  "deployment_create e d = repo_create e w_deployments w_deployments_update row_to_deployment
     deployment_nf deployment_merge (om_uid (dep_metadata d)) (meta_key (dep_metadata d))
     (\<lambda>_. deployment_cols_of d)"

definition deployment_list :: "env \<Rightarrow> string option \<Rightarrow> deployment list prog" where
  "deployment_list e ns = repo_list e w_deployments row_to_deployment (in_ns ns)"

definition deployment_delete :: "env \<Rightarrow> string \<Rightarrow> string \<Rightarrow> unit prog" where
  "deployment_delete e ns name = repo_delete e w_deployments w_deployments_update deployment_nf (ns, name)"

definition deployment_update_status :: "env \<Rightarrow> string \<Rightarrow> string \<Rightarrow> i32 \<Rightarrow> i32 \<Rightarrow> unit prog" where
  "deployment_update_status e ns name ready available =
     bindR (utc_now e) (\<lambda>now.
     bindR (sql_update e w_deployments w_deployments_update (ns, name)
              (\<lambda>c. c\<lparr>dr_ready_replicas := ready, dr_available_replicas := available\<rparr>) now)
       (\<lambda>_. returnR ()))"

section \<open>Services\<close>

fun service_type_str :: "service_type \<Rightarrow> string" where
  "service_type_str ST_ClusterIP = ''ClusterIP''"
| "service_type_str ST_NodePort = ''NodePort''"
| "service_type_str ST_LoadBalancer = ''LoadBalancer''"
| "service_type_str ST_ExternalName = ''ExternalName''"

definition auto_node_port :: "uuid \<Rightarrow> i32" where
  "auto_node_port u = 30000 + int (unat u mod 2768)"

definition service_node_port :: "service_spec \<Rightarrow> uuid \<Rightarrow> i32 option" where
  "service_node_port sp u =
     (if sp_service_type sp = ST_NodePort then
        (case sp_ports sp of
           p # _ \<Rightarrow> (case spt_node_port p of Some n \<Rightarrow> Some n | None \<Rightarrow> Some (auto_node_port u))
         | [] \<Rightarrow> Some (auto_node_port u))
      else None)"

definition service_cols_of :: "service \<Rightarrow> uuid \<Rightarrow> service_cols" where
  "service_cols_of s u = \<lparr>
     sr_labels = om_labels (svc_metadata s), sr_spec = svc_spec s,
     sr_service_type = service_type_str (sp_service_type (svc_spec s)),
     sr_cluster_ip = sp_cluster_ip (svc_spec s),
     sr_node_port = service_node_port (svc_spec s) u\<rparr>"

definition set_first_node_port :: "i32 option \<Rightarrow> service_port list \<Rightarrow> service_port list" where
  "set_first_node_port np ports = (case (np, ports) of
       (Some n, p # ps) \<Rightarrow> p\<lparr>spt_node_port := Some n\<rparr> # ps
     | _ \<Rightarrow> ports)"

definition row_to_service :: "(nskey, service_cols) row \<Rightarrow> service" where
  "row_to_service r = (let c = r_cols r in \<lparr>
     svc_type_meta = type_meta_of ''v1'' ''Service'',
     svc_metadata = (ns_row_meta r)\<lparr>om_labels := sr_labels c\<rparr>,
     svc_spec = (sr_spec c)\<lparr>sp_cluster_ip := sr_cluster_ip c,
                  sp_ports := set_first_node_port (sr_node_port c) (sp_ports (sr_spec c))\<rparr>,
     svc_status = None\<rparr>)"

definition service_nf :: "nskey \<Rightarrow> string" where
  "service_nf k = not_found_msg ''services'' (snd k)"

definition service_get :: "env \<Rightarrow> string \<Rightarrow> string \<Rightarrow> service prog" where
  "service_get e ns name = repo_get e w_services row_to_service service_nf (ns, name)"

definition service_create :: "env \<Rightarrow> service \<Rightarrow> service prog" where
  "service_create e s = repo_create e w_services w_services_update row_to_service service_nf
     replace_cols (om_uid (svc_metadata s)) (meta_key (svc_metadata s)) (service_cols_of s)"

definition service_list :: "env \<Rightarrow> string option \<Rightarrow> service list prog" where
  "service_list e ns = repo_list e w_services row_to_service (in_ns ns)"

definition service_delete :: "env \<Rightarrow> string \<Rightarrow> string \<Rightarrow> unit prog" where
  "service_delete e ns name = repo_delete e w_services w_services_update service_nf (ns, name)"

section \<open>Nodes\<close>

definition node_cols_of :: "node \<Rightarrow> node_cols" where
  "node_cols_of n = \<lparr>
     nr_labels = om_labels (node_metadata n),
     nr_status = (case node_status n of Some _ \<Rightarrow> ''Ready'' | None \<Rightarrow> ''NotReady''),
     nr_addresses = (case node_status n of Some s \<Rightarrow> nt_addresses s | None \<Rightarrow> Some []),
     nr_capacity = (case node_status n of Some s \<Rightarrow> nt_capacity s | None \<Rightarrow> Some []),
     nr_allocatable = (case node_status n of Some s \<Rightarrow> nt_allocatable s | None \<Rightarrow> Some []),
     nr_node_info = Option.bind (node_status n) nt_node_info\<rparr>"

definition row_to_node :: "bool \<Rightarrow> (string, node_cols) row \<Rightarrow> node" where
  "row_to_node with_conditions r = (let c = r_cols r in \<lparr>
     node_type_meta = type_meta_of ''v1'' ''Node'',
     node_metadata = (cl_row_meta r)\<lparr>om_labels := nr_labels c\<rparr>,
     node_spec = None,
     node_status = Some \<lparr>nt_capacity = nr_capacity c, nt_allocatable = nr_allocatable c,
        nt_conditions =
          (if with_conditions then
             Some [\<lparr>nc_condition_type = NC_Ready,
                    nc_status = (if nr_status c = ''Ready'' then CS_True else CS_False),
                    nc_last_heartbeat_time = Some (r_updated_at r),
                    nc_last_transition_time = Some (r_created_at r),
                    nc_reason = Some ''KubeletReady'',
                    nc_message = Some ''kubelet is posting ready status''\<rparr>]
           else None),
        nt_addresses = nr_addresses c, nt_node_info = nr_node_info c, nt_images = None,
        nt_phase = NP_Running\<rparr>\<rparr>)"

definition node_nf :: "string \<Rightarrow> string" where
  "node_nf k = not_found_msg ''nodes'' k"

definition node_get :: "env \<Rightarrow> string \<Rightarrow> node prog" where
  "node_get e name = repo_get e w_nodes (row_to_node True) node_nf name"

definition node_create :: "env \<Rightarrow> node \<Rightarrow> node prog" where
  "node_create e n = repo_create e w_nodes w_nodes_update (row_to_node True) node_nf replace_cols
     (om_uid (node_metadata n)) (meta_name (node_metadata n)) (\<lambda>_. node_cols_of n)"

definition node_list :: "env \<Rightarrow> node list prog" where
  "node_list e = repo_list e w_nodes (row_to_node True) (\<lambda>_. True)"

definition node_delete :: "env \<Rightarrow> string \<Rightarrow> unit prog" where
  "node_delete e name = repo_delete e w_nodes w_nodes_update node_nf name"

definition node_list_ready :: "env \<Rightarrow> node list prog" where
  "node_list_ready e = repo_list e w_nodes (row_to_node False) (\<lambda>r. nr_status (r_cols r) = ''Ready'')"

section \<open>Endpoints\<close>

definition row_to_endpoints :: "(nskey, endpoint_subset list) row \<Rightarrow> endpoints" where
  "row_to_endpoints r = \<lparr>ep_type_meta = type_meta_of ''v1'' ''Endpoints'',
     ep_metadata = ns_row_meta r, ep_subsets = r_cols r\<rparr>"

definition endpoints_nf :: "nskey \<Rightarrow> string" where
  "endpoints_nf k = not_found_msg ''endpoints'' (snd k)"

definition endpoints_get :: "env \<Rightarrow> string \<Rightarrow> string \<Rightarrow> endpoints prog" where
  "endpoints_get e ns name = repo_get e w_endpoints row_to_endpoints endpoints_nf (ns, name)"

definition endpoints_create_or_update :: "env \<Rightarrow> endpoints \<Rightarrow> endpoints prog" where
  "endpoints_create_or_update e x = repo_create e w_endpoints w_endpoints_update row_to_endpoints
     endpoints_nf replace_cols (om_uid (ep_metadata x)) (meta_key (ep_metadata x)) (\<lambda>_. ep_subsets x)"

section \<open>Namespaces\<close>

definition namespace_cols_of :: "namespace \<Rightarrow> namespace_cols" where
  "namespace_cols_of n = \<lparr>
     nmr_labels = om_labels (ns_metadata n), nmr_annotations = om_annotations (ns_metadata n),
     nmr_spec = ns_spec n,
     nmr_status = (case ns_status n of Some s \<Rightarrow> namespace_phase_fmt (nsst_phase s) | None \<Rightarrow> ''Active'')\<rparr>"

definition row_to_namespace :: "(string, namespace_cols) row \<Rightarrow> namespace" where
  "row_to_namespace r = (let c = r_cols r in \<lparr>
     ns_type_meta = type_meta_of ''v1'' ''Namespace'',
     ns_metadata = (cl_row_meta r)\<lparr>om_labels := nmr_labels c, om_annotations := nmr_annotations c\<rparr>,
     ns_spec = nmr_spec c,
     ns_status = Some \<lparr>nsst_phase = (if nmr_status c = ''Terminating'' then NSP_Terminating else NSP_Active),
                       nsst_conditions = None\<rparr>\<rparr>)"

definition namespace_nf :: "string \<Rightarrow> string" where
  "namespace_nf k = not_found_msg ''namespaces'' k"

definition namespace_get :: "env \<Rightarrow> string \<Rightarrow> namespace prog" where
  "namespace_get e name = repo_get e w_namespaces row_to_namespace namespace_nf name"

definition namespace_create :: "env \<Rightarrow> namespace \<Rightarrow> namespace prog" where
  "namespace_create e n = repo_create e w_namespaces w_namespaces_update row_to_namespace namespace_nf
     replace_cols (om_uid (ns_metadata n)) (meta_name (ns_metadata n)) (\<lambda>_. namespace_cols_of n)"

text \<open>Namespaces are listed oldest first.\<close>

definition namespace_list :: "env \<Rightarrow> namespace list prog" where
  "namespace_list e = bindR (sql_select e (\<lambda>w. sort_key r_created_at (w_namespaces w)))
     (\<lambda>rows. returnR (map row_to_namespace rows))"

definition system_namespace :: "string \<Rightarrow> bool" where
  "system_namespace name \<longleftrightarrow>
     name = ''default'' \<or> name = ''kube-system'' \<or> name = ''kube-public'' \<or> name = ''kube-node-lease''"

definition namespace_delete :: "env \<Rightarrow> string \<Rightarrow> unit prog" where
  "namespace_delete e name =
     (if system_namespace name then
        failR (BadRequest (''namespace '' @ quoted name @ '' is a system namespace and cannot be deleted''))
      else
        bindR (sql_select e (\<lambda>w. length (filter (in_ns (Some name)) (w_pods w)))) (\<lambda>n.
        if n > 0 then
          failR (BadRequest (''namespace '' @ quoted name @ '' still has '' @ show_nat n @ '' pods''))
        else repo_delete e w_namespaces w_namespaces_update namespace_nf name))"

section \<open>Events\<close>

fun event_type_str :: "event_type \<Rightarrow> string" where
  "event_type_str ET_Normal = ''Normal''"
| "event_type_str ET_Warning = ''Warning''"

definition event_cols_of :: "event \<Rightarrow> event_cols" where
  "event_cols_of v = \<lparr>
     er_involved_object = evt_involved_object v,
     er_reason = evt_reason v, er_message = evt_message v,
     er_source_component = Option.bind (evt_source v) evs_component,
     er_source_host = Option.bind (evt_source v) evs_host,
     er_first_timestamp = evt_first_timestamp v, er_last_timestamp = evt_last_timestamp v,
     er_event_time = evt_event_time v,
     er_count = Some (case evt_count v of Some n \<Rightarrow> n | None \<Rightarrow> 1),
     er_event_type = Some (case evt_event_type v of Some t \<Rightarrow> event_type_str t | None \<Rightarrow> ''Normal''),
     er_action = evt_action v, er_reporting_controller = evt_reporting_controller v,
     er_reporting_instance = evt_reporting_instance v\<rparr>"

text \<open>A repeated event counts up, and takes the new message and last timestamp.\<close>

definition event_merge :: "event_cols \<Rightarrow> event_cols \<Rightarrow> event_cols" where
  "event_merge old new = old\<lparr>er_last_timestamp := er_last_timestamp new,
     er_count := map_option (\<lambda>n. n + 1) (er_count old), er_message := er_message new\<rparr>"

definition row_to_event :: "(nskey, event_cols) row \<Rightarrow> event" where
  "row_to_event r = (let c = r_cols r in \<lparr>
     evt_type_meta = type_meta_of ''v1'' ''Event'', evt_metadata = ns_row_meta r,
     evt_involved_object = er_involved_object c, evt_reason = er_reason c, evt_message = er_message c,
     evt_source = (if er_source_component c \<noteq> None \<or> er_source_host c \<noteq> None
                   then Some \<lparr>evs_component = er_source_component c, evs_host = er_source_host c\<rparr>
                   else None),
     evt_first_timestamp = er_first_timestamp c, evt_last_timestamp = er_last_timestamp c,
     evt_count = er_count c,
     evt_event_type = map_option (\<lambda>t. if t = ''Warning'' then ET_Warning else ET_Normal) (er_event_type c),
     evt_event_time = er_event_time c, evt_action = er_action c,
     evt_reporting_controller = er_reporting_controller c,
     evt_reporting_instance = er_reporting_instance c\<rparr>)"

definition event_nf :: "nskey \<Rightarrow> string" where
  "event_nf k = not_found_msg ''events'' (snd k)"

definition event_get :: "env \<Rightarrow> string \<Rightarrow> string \<Rightarrow> event prog" where
  "event_get e ns name = repo_get e w_events row_to_event event_nf (ns, name)"

definition event_create :: "env \<Rightarrow> event \<Rightarrow> event prog" where
  "event_create e v = repo_create e w_events w_events_update row_to_event event_nf event_merge
     (om_uid (evt_metadata v)) (meta_key (evt_metadata v)) (\<lambda>_. event_cols_of v)"

text \<open>\<open>ORDER BY last_timestamp DESC\<close>: SQLite sorts NULL last, PostgreSQL first.\<close>

definition order_by_last_timestamp :: "backend \<Rightarrow> event_cols ns_table \<Rightarrow> event_cols ns_table" where
  "order_by_last_timestamp be rows =
     (let ts = (\<lambda>r. er_last_timestamp (r_cols r));
          dated = sort_key (\<lambda>r. - the (ts r)) (filter (\<lambda>r. ts r \<noteq> None) rows);
          nulls = filter (\<lambda>r. ts r = None) rows
      in case be of Sqlite \<Rightarrow> dated @ nulls | Postgres \<Rightarrow> nulls @ dated)"

definition event_list_where :: "string option \<Rightarrow> string option \<Rightarrow> string option \<Rightarrow> (nskey, event_cols) row \<Rightarrow> bool" where
  "event_list_where ns obj_name obj_kind r = (case ns of
       None \<Rightarrow> True
     | Some n \<Rightarrow> fst (r_key r) = n \<and>
         (case (obj_name, obj_kind) of
            (Some x, Some k) \<Rightarrow> oref_name (er_involved_object (r_cols r)) = Some x \<and>
                               oref_kind (er_involved_object (r_cols r)) = Some k
          | _ \<Rightarrow> True))"

definition event_list_all ::
  "env \<Rightarrow> backend \<Rightarrow> string option \<Rightarrow> string option \<Rightarrow> string option \<Rightarrow> event list prog" where
  "event_list_all e be ns obj_name obj_kind =
     bindR (sql_select e (\<lambda>w. order_by_last_timestamp be
              (filter (event_list_where ns obj_name obj_kind) (w_events w))))
       (\<lambda>rows. returnR (map row_to_event rows))"

definition event_delete :: "env \<Rightarrow> string \<Rightarrow> string \<Rightarrow> unit prog" where
  "event_delete e ns name = repo_delete e w_events w_events_update event_nf (ns, name)"

section \<open>Stateful sets\<close>

definition stateful_set_cols_of :: "stateful_set \<Rightarrow> stateful_set_cols" where
  "stateful_set_cols_of s = \<lparr>
     ssr_labels = om_labels (sts_metadata s), ssr_annotations = om_annotations (sts_metadata s),
     ssr_spec = sts_spec s, ssr_replicas = stateful_set_replicas (sts_spec s),
     ssr_ready_replicas = 0, ssr_current_replicas = 0\<rparr>"

definition stateful_set_merge :: "stateful_set_cols \<Rightarrow> stateful_set_cols \<Rightarrow> stateful_set_cols" where
  "stateful_set_merge old new = new\<lparr>ssr_ready_replicas := ssr_ready_replicas old,
     ssr_current_replicas := ssr_current_replicas old\<rparr>"

definition row_to_statefulset :: "(nskey, stateful_set_cols) row \<Rightarrow> stateful_set" where
  "row_to_statefulset r = (let c = r_cols r in \<lparr>
     sts_type_meta = type_meta_of ''apps/v1'' ''StatefulSet'',
     sts_metadata = (ns_row_meta r)\<lparr>om_labels := ssr_labels c, om_annotations := ssr_annotations c\<rparr>,
     sts_spec = ssr_spec c,
     sts_status = Some \<lparr>sst_replicas = ssr_replicas c, sst_ready_replicas = ssr_ready_replicas c,
        sst_current_replicas = ssr_current_replicas c, sst_observed_generation = None,
        sst_current_revision = None, sst_last_transition_time = None\<rparr>\<rparr>)"

definition stateful_set_nf :: "nskey \<Rightarrow> string" where
  "stateful_set_nf k = not_found_msg ''statefulsets.apps'' (snd k)"

definition stateful_set_get :: "env \<Rightarrow> string \<Rightarrow> string \<Rightarrow> stateful_set prog" where
  "stateful_set_get e ns name = repo_get e w_statefulsets row_to_statefulset stateful_set_nf (ns, name)"

definition stateful_set_create :: "env \<Rightarrow> stateful_set \<Rightarrow> stateful_set prog" where
  "stateful_set_create e s = repo_create e w_statefulsets w_statefulsets_update row_to_statefulset
     stateful_set_nf stateful_set_merge (om_uid (sts_metadata s)) (meta_key (sts_metadata s))
     (\<lambda>_. stateful_set_cols_of s)"

definition stateful_set_list :: "env \<Rightarrow> string option \<Rightarrow> stateful_set list prog" where
  "stateful_set_list e ns = repo_list e w_statefulsets row_to_statefulset (in_ns ns)"

definition stateful_set_delete :: "env \<Rightarrow> string \<Rightarrow> string \<Rightarrow> unit prog" where
  "stateful_set_delete e ns name =
     repo_delete e w_statefulsets w_statefulsets_update stateful_set_nf (ns, name)"

definition stateful_set_update_status :: "env \<Rightarrow> string \<Rightarrow> string \<Rightarrow> i32 \<Rightarrow> i32 \<Rightarrow> unit prog" where
  "stateful_set_update_status e ns name ready current =
     bindR (utc_now e) (\<lambda>now.
     bindR (sql_update e w_statefulsets w_statefulsets_update (ns, name)
              (\<lambda>c. c\<lparr>ssr_ready_replicas := ready, ssr_current_replicas := current\<rparr>) now)
       (\<lambda>_. returnR ()))"

section \<open>Daemon sets\<close>

definition daemon_set_cols_of :: "daemon_set \<Rightarrow> daemon_set_cols" where
  "daemon_set_cols_of d = \<lparr>
     dsr_labels = om_labels (dms_metadata d), dsr_annotations = om_annotations (dms_metadata d),
     dsr_spec = dms_spec d, dsr_desired_number_scheduled = 0, dsr_current_number_scheduled = 0,
     dsr_number_ready = 0\<rparr>"

definition daemon_set_merge :: "daemon_set_cols \<Rightarrow> daemon_set_cols \<Rightarrow> daemon_set_cols" where
  "daemon_set_merge old new = new
     \<lparr>dsr_desired_number_scheduled := dsr_desired_number_scheduled old,
      dsr_current_number_scheduled := dsr_current_number_scheduled old,
      dsr_number_ready := dsr_number_ready old\<rparr>"

definition row_to_daemonset :: "(nskey, daemon_set_cols) row \<Rightarrow> daemon_set" where
  "row_to_daemonset r = (let c = r_cols r in \<lparr>
     dms_type_meta = type_meta_of ''apps/v1'' ''DaemonSet'',
     dms_metadata = (ns_row_meta r)\<lparr>om_labels := dsr_labels c, om_annotations := dsr_annotations c\<rparr>,
     dms_spec = dsr_spec c,
     dms_status = Some \<lparr>dmst_desired_number_scheduled = dsr_desired_number_scheduled c,
        dmst_current_number_scheduled = dsr_current_number_scheduled c,
        dmst_number_ready = dsr_number_ready c,
        dmst_updated_number_scheduled = dsr_current_number_scheduled c,
        dmst_number_misscheduled = 0, dmst_number_available = dsr_number_ready c,
        dmst_observed_generation = None, dmst_last_transition_time = None\<rparr>\<rparr>)"

definition daemon_set_nf :: "nskey \<Rightarrow> string" where
  "daemon_set_nf k = not_found_msg ''daemonsets.apps'' (snd k)"

definition daemon_set_get :: "env \<Rightarrow> string \<Rightarrow> string \<Rightarrow> daemon_set prog" where
  "daemon_set_get e ns name = repo_get e w_daemonsets row_to_daemonset daemon_set_nf (ns, name)"

definition daemon_set_create :: "env \<Rightarrow> daemon_set \<Rightarrow> daemon_set prog" where
  "daemon_set_create e d = repo_create e w_daemonsets w_daemonsets_update row_to_daemonset
     daemon_set_nf daemon_set_merge (om_uid (dms_metadata d)) (meta_key (dms_metadata d))
     (\<lambda>_. daemon_set_cols_of d)"

definition daemon_set_list :: "env \<Rightarrow> string option \<Rightarrow> daemon_set list prog" where
  "daemon_set_list e ns = repo_list e w_daemonsets row_to_daemonset (in_ns ns)"

definition daemon_set_delete :: "env \<Rightarrow> string \<Rightarrow> string \<Rightarrow> unit prog" where
  "daemon_set_delete e ns name = repo_delete e w_daemonsets w_daemonsets_update daemon_set_nf (ns, name)"

definition daemon_set_update_status :: "env \<Rightarrow> string \<Rightarrow> string \<Rightarrow> i32 \<Rightarrow> i32 \<Rightarrow> i32 \<Rightarrow> unit prog" where
  "daemon_set_update_status e ns name desired current ready =
     bindR (utc_now e) (\<lambda>now.
     bindR (sql_update e w_daemonsets w_daemonsets_update (ns, name)
              (\<lambda>c. c\<lparr>dsr_desired_number_scheduled := desired, dsr_current_number_scheduled := current,
                     dsr_number_ready := ready\<rparr>) now)
       (\<lambda>_. returnR ()))"

end
