(* ===== verification/Printers.thy ===== *)
theory Printers
  imports Responses Repositories "HOL-Library.List_Lexorder" "HOL-Library.Char_ord"
begin

text \<open>
  The columns and row builders of \<open>src/src/server/printers.rs\<close>, one pair per kind. A row builder
  reads the clock for the age column, so it is an operation. \<open>DateTime::to_rfc3339\<close> is the parameter
  \<open>rfc\<close>; the keys of a label map come in the order of the map, and \<open>entries.sort()\<close> orders strings
  lexicographically. The theorem: every table has one row per item, in order, and every row has a
  cell of the declared type for every column.
\<close>

definition or_none :: "string option \<Rightarrow> string" where
  "or_none s = (case s of Some x \<Rightarrow> x | None \<Rightarrow> ''<none>'')"

definition or_unknown :: "string option \<Rightarrow> string" where
  "or_unknown s = (case s of Some x \<Rightarrow> x | None \<Rightarrow> ''<unknown>'')"

definition or_zero :: "i32 option \<Rightarrow> i32" where
  "or_zero n = (case n of Some x \<Rightarrow> x | None \<Rightarrow> 0)"

definition meta_age :: "env \<Rightarrow> object_meta \<Rightarrow> string prog" where
  "meta_age e m = age_str e (om_creation_timestamp m)"

text \<open>\<open>k=v\<close> pairs, sorted and joined; an empty selector is shown as none.\<close>

definition selector_str :: "smap option \<Rightarrow> string" where
  "selector_str sel = (case sel of
       None \<Rightarrow> ''<none>''
     | Some m \<Rightarrow> let s = join_with '','' (sort (map (\<lambda>(k, v). k @ ''='' @ v) m))
                in if s = [] then ''<none>'' else s)"

section \<open>Pods\<close>

definition pod_columns :: "column list" where
  "pod_columns =
     [column_new ''Name'' ''string'',
      column_new ''Ready'' ''string'',
      column_new ''Status'' ''string'',
      column_new ''Restarts'' ''integer'',
      column_new ''Age'' ''string'',
      column_wide ''IP'' ''string'',
      column_wide ''Node'' ''string'',
      column_wide ''Nominated Node'' ''string'',
      column_wide ''Readiness Gates'' ''string'']"

definition pod_row :: "env \<Rightarrow> pod \<Rightarrow> cell list prog" where
  "pod_row e p =
     (let cs = Option.bind (pod_status p) pt_container_statuses;
          total = length (ps_containers (pod_spec p));
          ready = (case cs of Some l \<Rightarrow> length (filter cs_ready l) | None \<Rightarrow> 0);
          restarts = (case cs of Some l \<Rightarrow> foldl (\<lambda>a c. wrap_i32 (a + cs_restart_count c)) 0 l | None \<Rightarrow> 0);
          phase = (case pod_status p of Some s \<Rightarrow> pod_phase_fmt (pt_phase s) | None \<Rightarrow> ''Pending'');
          pod_ip = or_none (Option.bind (pod_status p) pt_pod_ip);
          node = or_none (ps_node_name (pod_spec p))
      in bindR (meta_age e (pod_metadata p)) (\<lambda>age. returnR
           [Str_Cell (meta_name (pod_metadata p)),
            Str_Cell (show_nat ready @ ''/'' @ show_nat total),
            Str_Cell phase, Int_Cell restarts, Str_Cell age, Str_Cell pod_ip, Str_Cell node,
            Str_Cell ''<none>'', Str_Cell ''<none>'']))"

section \<open>Nodes\<close>

definition node_columns :: "column list" where
  "node_columns =
     [column_new ''Name'' ''string'',
      column_new ''Status'' ''string'',
      column_new ''Roles'' ''string'',
      column_new ''Age'' ''string'',
      column_new ''Version'' ''string'',
      column_wide ''Internal-IP'' ''string'',
      column_wide ''External-IP'' ''string'',
      column_wide ''OS-Image'' ''string'',
      column_wide ''Kernel-Version'' ''string'',
      column_wide ''Container-Runtime'' ''string'']"

definition node_ready_shown :: "node \<Rightarrow> bool" where
  "node_ready_shown n =
     (case Option.bind (Option.bind (node_status n) nt_conditions)
             (List.find (\<lambda>c. nc_condition_type c = NC_Ready)) of
        Some c \<Rightarrow> nc_status c = CS_True
      | None \<Rightarrow> False)"

definition node_roles :: "node \<Rightarrow> string" where
  "node_roles n = (case om_labels (node_metadata n) of
       None \<Rightarrow> ''<none>''
     | Some l \<Rightarrow>
         let collected = List.map_filter (\<lambda>(k, v). strip_prefix k ''node-role.kubernetes.io/'') l
         in if collected = [] then ''<none>'' else join_with '','' collected)"

definition node_address_of :: "node_address_type \<Rightarrow> node \<Rightarrow> string option" where
  "node_address_of t n = map_option na_address
     (Option.bind (Option.bind (node_status n) nt_addresses) (List.find (\<lambda>a. na_address_type a = t)))"

definition node_row :: "env \<Rightarrow> node \<Rightarrow> cell list prog" where
  "node_row e n =
     (let info = Option.bind (node_status n) nt_node_info
      in bindR (meta_age e (node_metadata n)) (\<lambda>age. returnR
           [Str_Cell (meta_name (node_metadata n)),
            Str_Cell (if node_ready_shown n then ''Ready'' else ''NotReady''),
            Str_Cell (node_roles n), Str_Cell age,
            Str_Cell (or_unknown (Option.bind info ni_kubelet_version)),
            Str_Cell (or_none (node_address_of InternalIP n)),
            Str_Cell (or_none (node_address_of ExternalIP n)),
            Str_Cell (or_unknown (Option.bind info ni_os_image)),
            Str_Cell (or_unknown (Option.bind info ni_kernel_version)),
            Str_Cell (or_unknown (Option.bind info ni_container_runtime_version))]))"

section \<open>Deployments\<close>

definition deployment_columns :: "column list" where
  "deployment_columns =
     [column_new ''Name'' ''string'',
      column_new ''Ready'' ''string'',
      column_new ''Up-to-date'' ''integer'',
      column_new ''Available'' ''integer'',
      column_new ''Age'' ''string'']"

definition deployment_row :: "env \<Rightarrow> deployment \<Rightarrow> cell list prog" where
  "deployment_row e d =
     (let s = dep_status d;
          ready = or_zero (map_option dt_ready_replicas s);
          updated = or_zero (map_option dt_updated_replicas s);
          available = or_zero (map_option dt_available_replicas s);
          desired = deployment_replicas (dep_spec d)
      in bindR (meta_age e (dep_metadata d)) (\<lambda>age. returnR
           [Str_Cell (meta_name (dep_metadata d)),
            Str_Cell (show_int ready @ ''/'' @ show_int desired),
            Int_Cell updated, Int_Cell available, Str_Cell age]))"

section \<open>StatefulSets\<close>

definition statefulset_columns :: "column list" where
  "statefulset_columns =
     [column_new ''Name'' ''string'',
      column_new ''Ready'' ''string'',
      column_new ''Age'' ''string'']"

definition statefulset_row :: "env \<Rightarrow> stateful_set \<Rightarrow> cell list prog" where
  "statefulset_row e s =
     (let ready = or_zero (map_option sst_ready_replicas (sts_status s));
          desired = stateful_set_replicas (sts_spec s)
      in bindR (meta_age e (sts_metadata s)) (\<lambda>age. returnR
           [Str_Cell (meta_name (sts_metadata s)),
            Str_Cell (show_int ready @ ''/'' @ show_int desired), Str_Cell age]))"

section \<open>DaemonSets\<close>

definition daemonset_columns :: "column list" where
  "daemonset_columns =
     [column_new ''Name'' ''string'',
      column_new ''Desired'' ''integer'',
      column_new ''Current'' ''integer'',
      column_new ''Ready'' ''integer'',
      column_new ''Up-to-date'' ''integer'',
      column_new ''Available'' ''integer'',
      column_new ''Node Selector'' ''string'',
      column_new ''Age'' ''string'']"

definition daemonset_row :: "env \<Rightarrow> daemon_set \<Rightarrow> cell list prog" where
  "daemonset_row e d =
     (let s = dms_status d;
          selector = selector_str (ps_node_selector (tpl_spec (dmsp_template (dms_spec d))))
      in bindR (meta_age e (dms_metadata d)) (\<lambda>age. returnR
           [Str_Cell (meta_name (dms_metadata d)),
            Int_Cell (or_zero (map_option dmst_desired_number_scheduled s)),
            Int_Cell (or_zero (map_option dmst_current_number_scheduled s)),
            Int_Cell (or_zero (map_option dmst_number_ready s)),
            Int_Cell (or_zero (map_option dmst_updated_number_scheduled s)),
            Int_Cell (or_zero (map_option dmst_number_available s)),
            Str_Cell selector, Str_Cell age]))"

section \<open>Services\<close>

definition service_columns :: "column list" where
  "service_columns =
     [column_new ''Name'' ''string'',
      column_new ''Type'' ''string'',
      column_new ''Cluster-IP'' ''string'',
      column_new ''External-IP'' ''string'',
      column_new ''Ports'' ''string'',
      column_new ''Age'' ''string'',
      column_wide ''Selector'' ''string'']"

definition service_port_str :: "service_port \<Rightarrow> string" where
  "service_port_str p =
     (let proto = (case spt_protocol p of UDP \<Rightarrow> ''UDP'' | TCP \<Rightarrow> ''TCP'') in
      case spt_node_port p of
        Some np \<Rightarrow> show_int (spt_port p) @ '':'' @ show_int np @ ''/'' @ proto
      | None \<Rightarrow> show_int (spt_port p) @ ''/'' @ proto)"

definition service_row :: "env \<Rightarrow> service \<Rightarrow> cell list prog" where
  "service_row e s =
     (let spec = svc_spec s;
          ports = join_with '','' (map service_port_str (sp_ports spec))
      in bindR (meta_age e (svc_metadata s)) (\<lambda>age. returnR
           [Str_Cell (meta_name (svc_metadata s)),
            Str_Cell (service_type_str (sp_service_type spec)),
            Str_Cell (or_none (sp_cluster_ip spec)),
            Str_Cell (if sp_service_type spec = ST_LoadBalancer then ''<pending>'' else ''<none>''),
            Str_Cell (if ports = [] then ''<none>'' else ports),
            Str_Cell age,
            Str_Cell (selector_str (sp_selector spec))]))"

section \<open>Namespaces\<close>

definition namespace_columns :: "column list" where
  "namespace_columns =
     [column_new ''Name'' ''string'',
      column_new ''Status'' ''string'',
      column_new ''Age'' ''string'']"

definition namespace_row :: "env \<Rightarrow> namespace \<Rightarrow> cell list prog" where
  "namespace_row e n =
     (let phase = (case ns_status n of Some s \<Rightarrow> namespace_phase_fmt (nsst_phase s) | None \<Rightarrow> ''Active'')
      in bindR (meta_age e (ns_metadata n)) (\<lambda>age. returnR
           [Str_Cell (meta_name (ns_metadata n)), Str_Cell phase, Str_Cell age]))"

section \<open>Events\<close>

definition event_columns :: "column list" where
  "event_columns =
     [column_new ''Last Seen'' ''string'',
      column_new ''Type'' ''string'',
      column_new ''Reason'' ''string'',
      column_new ''Object'' ''string'',
      column_new ''Message'' ''string'']"

definition opt_or :: "'a option \<Rightarrow> 'a option \<Rightarrow> 'a option" where
  "opt_or a b = (case a of Some x \<Rightarrow> Some x | None \<Rightarrow> b)"

definition or_empty :: "string option \<Rightarrow> string" where
  "or_empty s = (case s of Some x \<Rightarrow> x | None \<Rightarrow> [])"

definition event_row :: "env \<Rightarrow> event \<Rightarrow> cell list prog" where
  "event_row e ev =
     (let last = opt_or (opt_or (evt_last_timestamp ev) (evt_first_timestamp ev)) (evt_event_time ev)
      in bindR (age_str e last) (\<lambda>last_seen. returnR
           [Str_Cell last_seen,
            Str_Cell (case evt_event_type ev of Some t \<Rightarrow> event_type_str t | None \<Rightarrow> ''Normal''),
            Str_Cell (or_empty (evt_reason ev)),
            Str_Cell (map to_lower (or_empty (oref_kind (evt_involved_object ev))) @ ''/'' @
                      or_empty (oref_name (evt_involved_object ev))),
            Str_Cell (or_empty (evt_message ev))]))"

section \<open>ServiceAccounts\<close>

definition serviceaccount_columns :: "column list" where
  "serviceaccount_columns =
     [column_new ''Name'' ''string'',
      column_new ''Secrets'' ''integer'',
      column_new ''Age'' ''string'']"

definition opt_len :: "'a list option \<Rightarrow> nat" where
  "opt_len l = (case l of Some xs \<Rightarrow> length xs | None \<Rightarrow> 0)"

definition serviceaccount_row :: "env \<Rightarrow> service_account \<Rightarrow> cell list prog" where
  "serviceaccount_row e sa =
     bindR (meta_age e (sa_metadata sa)) (\<lambda>age. returnR
       [Str_Cell (meta_name (sa_metadata sa)), Int_Cell (int (opt_len (sa_secrets sa))), Str_Cell age])"

section \<open>Secrets\<close>

definition secret_columns :: "column list" where
  "secret_columns =
     [column_new ''Name'' ''string'',
      column_new ''Type'' ''string'',
      column_new ''Data'' ''integer'',
      column_new ''Age'' ''string'']"

definition secret_row :: "env \<Rightarrow> secret \<Rightarrow> cell list prog" where
  "secret_row e s =
     bindR (meta_age e (sec_metadata s)) (\<lambda>age. returnR
       [Str_Cell (meta_name (sec_metadata s)), Str_Cell (sec_secret_type s),
        Int_Cell (int (opt_len (sec_data s) + opt_len (sec_string_data s))), Str_Cell age])"

section \<open>ConfigMaps\<close>

definition configmap_columns :: "column list" where
  "configmap_columns =
     [column_new ''Name'' ''string'',
      column_new ''Data'' ''integer'',
      column_new ''Age'' ''string'']"

definition configmap_row :: "env \<Rightarrow> config_map \<Rightarrow> cell list prog" where
  "configmap_row e cm =
     bindR (meta_age e (cm_metadata cm)) (\<lambda>age. returnR
       [Str_Cell (meta_name (cm_metadata cm)),
        Int_Cell (int (opt_len (cm_data cm) + opt_len (cm_binary_data cm))), Str_Cell age])"

section \<open>ClusterRoles\<close>

definition clusterrole_columns :: "column list" where
  "clusterrole_columns =
     [column_new ''Name'' ''string'',
      column_new ''Created At'' ''string'']"

definition clusterrole_row :: "(time \<Rightarrow> string) \<Rightarrow> cluster_role \<Rightarrow> cell list prog" where
  "clusterrole_row rfc cr = returnR
     [Str_Cell (meta_name (cr_metadata cr)),
      Str_Cell (or_unknown (map_option rfc (om_creation_timestamp (cr_metadata cr))))]"

section \<open>ClusterRoleBindings\<close>

definition clusterrolebinding_columns :: "column list" where
  "clusterrolebinding_columns =
     [column_new ''Name'' ''string'',
      column_new ''Role'' ''string'',
      column_new ''Age'' ''string'']"

definition clusterrolebinding_row :: "env \<Rightarrow> cluster_role_binding \<Rightarrow> cell list prog" where
  "clusterrolebinding_row e b =
     bindR (meta_age e (crb_metadata b)) (\<lambda>age. returnR
       [Str_Cell (meta_name (crb_metadata b)),
        Str_Cell (rref_kind (crb_role_ref b) @ ''/'' @ rref_name (crb_role_ref b)), Str_Cell age])"

section \<open>Roles\<close>

definition role_columns :: "column list" where
  "role_columns =
     [column_new ''Name'' ''string'',
      column_new ''Created At'' ''string'']"

definition role_row :: "(time \<Rightarrow> string) \<Rightarrow> role \<Rightarrow> cell list prog" where
  "role_row rfc r = returnR
     [Str_Cell (meta_name (role_metadata r)),
      Str_Cell (or_unknown (map_option rfc (om_creation_timestamp (role_metadata r))))]"

section \<open>RoleBindings\<close>

definition rolebinding_columns :: "column list" where
  "rolebinding_columns =
     [column_new ''Name'' ''string'',
      column_new ''Role'' ''string'',
      column_new ''Age'' ''string'']"

definition rolebinding_row :: "env \<Rightarrow> role_binding \<Rightarrow> cell list prog" where
  "rolebinding_row e b =
     bindR (meta_age e (rb_metadata b)) (\<lambda>age. returnR
       [Str_Cell (meta_name (rb_metadata b)),
        Str_Cell (rref_kind (rb_role_ref b) @ ''/'' @ rref_name (rb_role_ref b)), Str_Cell age])"

section \<open>Tables are well-formed\<close>

definition cell_fits :: "column \<Rightarrow> cell \<Rightarrow> bool" where
  "cell_fits c v = (case v of Str_Cell _ \<Rightarrow> col_kind c = ''string'' | Int_Cell _ \<Rightarrow> col_kind c = ''integer'')"

text \<open>Building a table never fails; it has the items in order, and its rows fit its columns.\<close>

definition tabulates :: "column list \<Rightarrow> ('t \<Rightarrow> cell list prog) \<Rightarrow> bool" where
  "tabulates columns row_for \<longleftrightarrow> (\<forall>items w. \<exists>rows w'.
     build_table columns items row_for w = (Inr (Json_Table columns rows), w') \<and>
     map snd rows = items \<and> (\<forall>r \<in> set rows. list_all2 cell_fits columns (fst r)))"

text \<open>The contract of a row builder, and what it gives for whole tables.\<close>

locale row_builder =
  fixes columns :: "column list" and row_for :: "'t \<Rightarrow> cell list prog"
  assumes row_fits: "\<exists>cells w'. row_for x w = (Inr cells, w') \<and> list_all2 cell_fits columns cells"
begin

lemma rows_fit:
  "\<exists>rows w'. mapR (\<lambda>item. bindR (row_for item) (\<lambda>cells. returnR (cells, item))) items w = (Inr rows, w') \<and>
     map snd rows = items \<and> (\<forall>r \<in> set rows. list_all2 cell_fits columns (fst r))"
proof (induction items arbitrary: w)
  case Nil
  show ?case by (simp add: returnR_def)
next
  case (Cons x xs)
  obtain cells w1 where x: "row_for x w = (Inr cells, w1)" "list_all2 cell_fits columns cells"
    using row_fits by blast
  obtain rows w2 where xs: "mapR (\<lambda>item. bindR (row_for item) (\<lambda>cells. returnR (cells, item))) xs w1 = (Inr rows, w2)"
    "map snd rows = xs" "\<forall>r \<in> set rows. list_all2 cell_fits columns (fst r)"
    using Cons.IH by blast
  let ?row = "\<lambda>item. bindR (row_for item) (\<lambda>cells. returnR (cells, item))"
  have "?row x w = (Inr (cells, x), w1)" using x by (simp add: bindR_def returnR_def)
  then have "mapR ?row (x # xs) w = bindR (mapR ?row xs) (\<lambda>ys. returnR ((cells, x) # ys)) w1"
    by (simp add: bindR_Inr)
  also have "\<dots> = (Inr ((cells, x) # rows), w2)" by (subst bindR_Inr, rule xs(1)) (simp add: returnR_def)
  finally show ?case using x xs by auto
qed

lemma table_fits: "tabulates columns row_for"
  unfolding tabulates_def
proof (intro allI)
  fix items w
  obtain rows w' where "mapR (\<lambda>item. bindR (row_for item) (\<lambda>cells. returnR (cells, item))) items w = (Inr rows, w')"
    "map snd rows = items" "\<forall>r \<in> set rows. list_all2 cell_fits columns (fst r)"
    using rows_fit by blast
  then show "\<exists>rows w'. build_table columns items row_for w = (Inr (Json_Table columns rows), w') \<and>
      map snd rows = items \<and> (\<forall>r \<in> set rows. list_all2 cell_fits columns (fst r))"
    by (simp add: build_table_def bindR_def returnR_def)
qed

end

lemmas row_simps = Let_def meta_age_def age_str_def utc_now_def bindR_def returnR_def cell_fits_def
  column_new_def column_wide_def

interpretation pod_printer: row_builder pod_columns "pod_row e" for e
  by unfold_locales (simp add: pod_row_def pod_columns_def row_simps split: option.split)

interpretation node_printer: row_builder node_columns "node_row e" for e
  by unfold_locales (simp add: node_row_def node_columns_def row_simps split: option.split)

interpretation deployment_printer: row_builder deployment_columns "deployment_row e" for e
  by unfold_locales (simp add: deployment_row_def deployment_columns_def row_simps split: option.split)

interpretation statefulset_printer: row_builder statefulset_columns "statefulset_row e" for e
  by unfold_locales (simp add: statefulset_row_def statefulset_columns_def row_simps split: option.split)

interpretation daemonset_printer: row_builder daemonset_columns "daemonset_row e" for e
  by unfold_locales (simp add: daemonset_row_def daemonset_columns_def row_simps split: option.split)

interpretation service_printer: row_builder service_columns "service_row e" for e
  by unfold_locales (simp add: service_row_def service_columns_def row_simps split: option.split)

interpretation namespace_printer: row_builder namespace_columns "namespace_row e" for e
  by unfold_locales (simp add: namespace_row_def namespace_columns_def row_simps split: option.split)

interpretation event_printer: row_builder event_columns "event_row e" for e
  by unfold_locales (simp add: event_row_def event_columns_def row_simps split: option.split)

interpretation serviceaccount_printer: row_builder serviceaccount_columns "serviceaccount_row e" for e
  by unfold_locales (simp add: serviceaccount_row_def serviceaccount_columns_def row_simps split: option.split)

interpretation secret_printer: row_builder secret_columns "secret_row e" for e
  by unfold_locales (simp add: secret_row_def secret_columns_def row_simps split: option.split)

interpretation configmap_printer: row_builder configmap_columns "configmap_row e" for e
  by unfold_locales (simp add: configmap_row_def configmap_columns_def row_simps split: option.split)

interpretation clusterrole_printer: row_builder clusterrole_columns "clusterrole_row rfc" for rfc
  by unfold_locales (simp add: clusterrole_row_def clusterrole_columns_def row_simps split: option.split)

interpretation clusterrolebinding_printer: row_builder clusterrolebinding_columns "clusterrolebinding_row e" for e
  by unfold_locales (simp add: clusterrolebinding_row_def clusterrolebinding_columns_def row_simps split: option.split)

interpretation role_printer: row_builder role_columns "role_row rfc" for rfc
  by unfold_locales (simp add: role_row_def role_columns_def row_simps split: option.split)

interpretation rolebinding_printer: row_builder rolebinding_columns "rolebinding_row e" for e
  by unfold_locales (simp add: rolebinding_row_def rolebinding_columns_def row_simps split: option.split)


end
