(* ===== verification/Auth_Repositories.thy ===== *)
theory Auth_Repositories
  imports Repositories
begin

text \<open>
  The repositories of the auth resources of \<open>src/src/db/repository.rs\<close>: service accounts, secrets,
  config maps, cluster roles, cluster role bindings, roles and role bindings. Each stores the whole
  object as JSON and, on the way back, overwrites the identity in its metadata with the row's. The
  \<open>secret_type\<close> column of the secrets table repeats a field of the stored object and is never read,
  so it has no counterpart.
\<close>

definition object_cols_of :: "object_meta \<Rightarrow> 'o \<Rightarrow> 'o object_cols" where
  "object_cols_of m x = \<lparr>or_labels = om_labels m, or_annotations = om_annotations m, or_object = x\<rparr>"

text \<open>\<open>x.metadata.name = ...\<close> and the assignments that follow it in each \<open>row_to\<close>.\<close>

definition ns_identity :: "(nskey, 'c) row \<Rightarrow> object_meta \<Rightarrow> object_meta" where
  "ns_identity r m = m\<lparr>om_name := Some (snd (r_key r)), om_namespace := Some (fst (r_key r)),
     om_uid := Some (r_uid r), om_creation_timestamp := Some (r_created_at r)\<rparr>"

definition cl_identity :: "(string, 'c) row \<Rightarrow> object_meta \<Rightarrow> object_meta" where
  "cl_identity r m = m\<lparr>om_name := Some (r_key r), om_uid := Some (r_uid r),
     om_creation_timestamp := Some (r_created_at r)\<rparr>"

section \<open>Service accounts\<close>

definition row_to_service_account :: "(nskey, service_account object_cols) row \<Rightarrow> service_account" where
  "row_to_service_account r = (let x = or_object (r_cols r) in x\<lparr>sa_metadata := ns_identity r (sa_metadata x)\<rparr>)"

definition service_account_nf :: "nskey \<Rightarrow> string" where
  "service_account_nf k = not_found_msg ''serviceaccounts'' (snd k)"

definition service_account_get :: "env \<Rightarrow> string \<Rightarrow> string \<Rightarrow> service_account prog" where
  "service_account_get e ns name = repo_get e w_serviceaccounts row_to_service_account service_account_nf (ns, name)"

definition service_account_create :: "env \<Rightarrow> service_account \<Rightarrow> service_account prog" where
  "service_account_create e x = repo_create e w_serviceaccounts w_serviceaccounts_update row_to_service_account service_account_nf replace_cols
     (om_uid (sa_metadata x)) (meta_key (sa_metadata x)) (\<lambda>_. object_cols_of (sa_metadata x) x)"

definition service_account_list :: "env \<Rightarrow> string option \<Rightarrow> service_account list prog" where
  "service_account_list e ns = repo_list e w_serviceaccounts row_to_service_account (in_ns ns)"

definition service_account_delete :: "env \<Rightarrow> string \<Rightarrow> string \<Rightarrow> unit prog" where
  "service_account_delete e ns name = repo_delete e w_serviceaccounts w_serviceaccounts_update service_account_nf (ns, name)"

section \<open>Secrets\<close>

definition row_to_secret :: "(nskey, secret object_cols) row \<Rightarrow> secret" where
  "row_to_secret r = (let x = or_object (r_cols r) in x\<lparr>sec_metadata := ns_identity r (sec_metadata x)\<rparr>)"

definition secret_nf :: "nskey \<Rightarrow> string" where
  "secret_nf k = not_found_msg ''secrets'' (snd k)"

definition secret_get :: "env \<Rightarrow> string \<Rightarrow> string \<Rightarrow> secret prog" where
  "secret_get e ns name = repo_get e w_secrets row_to_secret secret_nf (ns, name)"

definition secret_create :: "env \<Rightarrow> secret \<Rightarrow> secret prog" where
  "secret_create e x = repo_create e w_secrets w_secrets_update row_to_secret secret_nf replace_cols
     (om_uid (sec_metadata x)) (meta_key (sec_metadata x)) (\<lambda>_. object_cols_of (sec_metadata x) x)"

definition secret_list :: "env \<Rightarrow> string option \<Rightarrow> secret list prog" where
  "secret_list e ns = repo_list e w_secrets row_to_secret (in_ns ns)"

definition secret_delete :: "env \<Rightarrow> string \<Rightarrow> string \<Rightarrow> unit prog" where
  "secret_delete e ns name = repo_delete e w_secrets w_secrets_update secret_nf (ns, name)"

section \<open>Config maps\<close>

definition row_to_config_map :: "(nskey, config_map object_cols) row \<Rightarrow> config_map" where
  "row_to_config_map r = (let x = or_object (r_cols r) in x\<lparr>cm_metadata := ns_identity r (cm_metadata x)\<rparr>)"

definition config_map_nf :: "nskey \<Rightarrow> string" where
  "config_map_nf k = not_found_msg ''configmaps'' (snd k)"

definition config_map_get :: "env \<Rightarrow> string \<Rightarrow> string \<Rightarrow> config_map prog" where
  "config_map_get e ns name = repo_get e w_configmaps row_to_config_map config_map_nf (ns, name)"

definition config_map_create :: "env \<Rightarrow> config_map \<Rightarrow> config_map prog" where
  "config_map_create e x = repo_create e w_configmaps w_configmaps_update row_to_config_map config_map_nf replace_cols
     (om_uid (cm_metadata x)) (meta_key (cm_metadata x)) (\<lambda>_. object_cols_of (cm_metadata x) x)"

definition config_map_list :: "env \<Rightarrow> string option \<Rightarrow> config_map list prog" where
  "config_map_list e ns = repo_list e w_configmaps row_to_config_map (in_ns ns)"

definition config_map_delete :: "env \<Rightarrow> string \<Rightarrow> string \<Rightarrow> unit prog" where
  "config_map_delete e ns name = repo_delete e w_configmaps w_configmaps_update config_map_nf (ns, name)"

section \<open>Cluster roles\<close>

definition row_to_cluster_role :: "(string, cluster_role object_cols) row \<Rightarrow> cluster_role" where
  "row_to_cluster_role r = (let x = or_object (r_cols r) in x\<lparr>cr_metadata := cl_identity r (cr_metadata x)\<rparr>)"

definition cluster_role_nf :: "string \<Rightarrow> string" where
  "cluster_role_nf k = not_found_msg ''clusterroles.rbac.authorization.k8s.io'' k"

definition cluster_role_delete_nf :: "string \<Rightarrow> string" where
  "cluster_role_delete_nf k = not_found_msg ''clusterroles'' k"

definition cluster_role_get :: "env \<Rightarrow> string \<Rightarrow> cluster_role prog" where
  "cluster_role_get e name = repo_get e w_clusterroles row_to_cluster_role cluster_role_nf name"

definition cluster_role_create :: "env \<Rightarrow> cluster_role \<Rightarrow> cluster_role prog" where
  "cluster_role_create e x = repo_create e w_clusterroles w_clusterroles_update row_to_cluster_role cluster_role_nf replace_cols
     (om_uid (cr_metadata x)) (meta_name (cr_metadata x)) (\<lambda>_. object_cols_of (cr_metadata x) x)"

definition cluster_role_list :: "env \<Rightarrow> cluster_role list prog" where
  "cluster_role_list e = repo_list e w_clusterroles row_to_cluster_role (\<lambda>_. True)"

definition cluster_role_delete :: "env \<Rightarrow> string \<Rightarrow> unit prog" where
  "cluster_role_delete e name = repo_delete e w_clusterroles w_clusterroles_update cluster_role_delete_nf name"

section \<open>Cluster role bindings\<close>

definition row_to_cluster_role_binding :: "(string, cluster_role_binding object_cols) row \<Rightarrow> cluster_role_binding" where
  "row_to_cluster_role_binding r = (let x = or_object (r_cols r) in x\<lparr>crb_metadata := cl_identity r (crb_metadata x)\<rparr>)"

definition cluster_role_binding_nf :: "string \<Rightarrow> string" where
  "cluster_role_binding_nf k = not_found_msg ''clusterrolebindings.rbac.authorization.k8s.io'' k"

definition cluster_role_binding_delete_nf :: "string \<Rightarrow> string" where
  "cluster_role_binding_delete_nf k = not_found_msg ''clusterrolebindings'' k"

definition cluster_role_binding_get :: "env \<Rightarrow> string \<Rightarrow> cluster_role_binding prog" where
  "cluster_role_binding_get e name = repo_get e w_clusterrolebindings row_to_cluster_role_binding cluster_role_binding_nf name"

definition cluster_role_binding_create :: "env \<Rightarrow> cluster_role_binding \<Rightarrow> cluster_role_binding prog" where
  "cluster_role_binding_create e x = repo_create e w_clusterrolebindings w_clusterrolebindings_update row_to_cluster_role_binding cluster_role_binding_nf replace_cols
     (om_uid (crb_metadata x)) (meta_name (crb_metadata x)) (\<lambda>_. object_cols_of (crb_metadata x) x)"

definition cluster_role_binding_list :: "env \<Rightarrow> cluster_role_binding list prog" where
  "cluster_role_binding_list e = repo_list e w_clusterrolebindings row_to_cluster_role_binding (\<lambda>_. True)"

definition cluster_role_binding_delete :: "env \<Rightarrow> string \<Rightarrow> unit prog" where
  "cluster_role_binding_delete e name = repo_delete e w_clusterrolebindings w_clusterrolebindings_update cluster_role_binding_delete_nf name"

section \<open>Roles\<close>

definition row_to_role :: "(nskey, role object_cols) row \<Rightarrow> role" where
  "row_to_role r = (let x = or_object (r_cols r) in x\<lparr>role_metadata := ns_identity r (role_metadata x)\<rparr>)"

definition role_nf :: "nskey \<Rightarrow> string" where
  "role_nf k = not_found_msg ''roles.rbac.authorization.k8s.io'' (snd k)"

definition role_delete_nf :: "nskey \<Rightarrow> string" where
  "role_delete_nf k = not_found_msg ''roles'' (snd k)"

definition role_get :: "env \<Rightarrow> string \<Rightarrow> string \<Rightarrow> role prog" where
  "role_get e ns name = repo_get e w_roles row_to_role role_nf (ns, name)"

definition role_create :: "env \<Rightarrow> role \<Rightarrow> role prog" where
  "role_create e x = repo_create e w_roles w_roles_update row_to_role role_nf replace_cols
     (om_uid (role_metadata x)) (meta_key (role_metadata x)) (\<lambda>_. object_cols_of (role_metadata x) x)"

definition role_list :: "env \<Rightarrow> string option \<Rightarrow> role list prog" where
  "role_list e ns = repo_list e w_roles row_to_role (in_ns ns)"

definition role_delete :: "env \<Rightarrow> string \<Rightarrow> string \<Rightarrow> unit prog" where
  "role_delete e ns name = repo_delete e w_roles w_roles_update role_delete_nf (ns, name)"

section \<open>Role bindings\<close>

definition row_to_role_binding :: "(nskey, role_binding object_cols) row \<Rightarrow> role_binding" where
  "row_to_role_binding r = (let x = or_object (r_cols r) in x\<lparr>rb_metadata := ns_identity r (rb_metadata x)\<rparr>)"

definition role_binding_nf :: "nskey \<Rightarrow> string" where
  "role_binding_nf k = not_found_msg ''rolebindings.rbac.authorization.k8s.io'' (snd k)"

definition role_binding_delete_nf :: "nskey \<Rightarrow> string" where
  "role_binding_delete_nf k = not_found_msg ''rolebindings'' (snd k)"

definition role_binding_get :: "env \<Rightarrow> string \<Rightarrow> string \<Rightarrow> role_binding prog" where
  "role_binding_get e ns name = repo_get e w_rolebindings row_to_role_binding role_binding_nf (ns, name)"

definition role_binding_create :: "env \<Rightarrow> role_binding \<Rightarrow> role_binding prog" where
  "role_binding_create e x = repo_create e w_rolebindings w_rolebindings_update row_to_role_binding role_binding_nf replace_cols
     (om_uid (rb_metadata x)) (meta_key (rb_metadata x)) (\<lambda>_. object_cols_of (rb_metadata x) x)"

definition role_binding_list :: "env \<Rightarrow> string option \<Rightarrow> role_binding list prog" where
  "role_binding_list e ns = repo_list e w_rolebindings row_to_role_binding (in_ns ns)"

definition role_binding_delete :: "env \<Rightarrow> string \<Rightarrow> string \<Rightarrow> unit prog" where
  "role_binding_delete e ns name = repo_delete e w_rolebindings w_rolebindings_update role_binding_delete_nf (ns, name)"

end
