(* ===== verification/Api.thy ===== *)
theory Api
  imports Printers Auth_Repositories
begin

text \<open>
  The handlers of the core and apps groups in \<open>src/src/server/api.rs\<close>: pods, services, nodes,
  endpoints, deployments, namespaces, events, stateful sets and daemon sets, in the order of the file.
  A handler takes what axum extracts (path segments, query parameters, headers, body) and returns the
  response or the error that \<open>into_response\<close> turns into one; the successful creations carry the
  status code 201. The pool and the bus of \<open>AppState\<close> are parts of the world, its service CIDR is an
  argument. Logging is left out.
\<close>

section \<open>Request parameters\<close>

definition service_cidr_prefix :: "string \<Rightarrow> string" where
  "service_cidr_prefix cidr =
     (let addr_part = hd (split_on (CHR ''/'') cidr);
          octets = split_on (CHR ''.'') addr_part
      in if length octets = 4 \<and> list_all (\<lambda>x. parse_u8 x \<noteq> None) octets
         then octets ! 0 @ ''.'' @ octets ! 1 @ ''.'' @ octets ! 2
         else ''10.96.0'')"

record list_params =
  lp_label_selector :: "string option"
  lp_field_selector :: "string option"
  lp_limit :: "int option"
  lp_continue_token :: "string option"

definition label_pair :: "string \<Rightarrow> (string \<times> string) option" where
  "label_pair pair = (case splitn2 (CHR ''='') pair of (k, Some v) \<Rightarrow> Some (k, v) | (k, None) \<Rightarrow> None)"

definition parse_label_selector :: "list_params \<Rightarrow> smap option" where
  "parse_label_selector params =
     map_option (\<lambda>s. hm_collect (List.map_filter label_pair (split_on (CHR '','') s))) (lp_label_selector params)"

record status_doc =  \<comment> \<open>the \<open>Status\<close> document a deletion returns\<close>
  sd_status :: string
  sd_name :: string
  sd_group :: "string option"
  sd_kind :: string

definition deleted_status :: "string \<Rightarrow> string option \<Rightarrow> string \<Rightarrow> status_doc" where
  "deleted_status name grp kind = \<lparr>sd_status = ''Success'', sd_name = name, sd_group = grp, sd_kind = kind\<rparr>"

text \<open>\<open>if metadata.namespace.is_none() { metadata.namespace = Some(namespace) }\<close>\<close>

definition default_namespace :: "string \<Rightarrow> object_meta \<Rightarrow> object_meta" where
  "default_namespace ns m = (case om_namespace m of None \<Rightarrow> m\<lparr>om_namespace := Some ns\<rparr> | Some _ \<Rightarrow> m)"

section \<open>Pods\<close>

definition list_pods :: "env \<Rightarrow> string \<Rightarrow> list_params \<Rightarrow> header_map \<Rightarrow> pod body prog" where
  "list_pods e namespace params headers =
     bindR (pod_list e (Some namespace) (parse_label_selector params)) (\<lambda>items.
       list_response_live headers ''v1'' ''PodList'' items pod_columns (pod_row e)
         \<lparr>wf_kind = ''Pod'', wf_namespace = Some namespace\<rparr>)"

definition list_all_pods :: "env \<Rightarrow> list_params \<Rightarrow> header_map \<Rightarrow> pod body prog" where
  "list_all_pods e params headers =
     bindR (pod_list e None (parse_label_selector params)) (\<lambda>items.
       list_response_live headers ''v1'' ''PodList'' items pod_columns (pod_row e)
         \<lparr>wf_kind = ''Pod'', wf_namespace = None\<rparr>)"

definition get_pod :: "env \<Rightarrow> string \<Rightarrow> string \<Rightarrow> header_map \<Rightarrow> pod body prog" where
  "get_pod e namespace name headers =
     bindR (pod_get e namespace name) (\<lambda>item. item_response headers item pod_columns (pod_row e))"

definition create_pod :: "env \<Rightarrow> string \<Rightarrow> pod \<Rightarrow> (nat \<times> pod) prog" where
  "create_pod e namespace x =
     (let x' = x\<lparr>pod_metadata := default_namespace namespace (pod_metadata x)\<rparr>;
          name = meta_name (pod_metadata x)
      in bindR (pod_create e x') (\<lambda>created.
         bindR (publish_added ''Pod'' (Some namespace) name (KPod created)) (\<lambda>_.
         returnR (201, created))))"

definition update_pod :: "env \<Rightarrow> string \<Rightarrow> string \<Rightarrow> pod \<Rightarrow> pod prog" where
  "update_pod e namespace name x =
     bindR (pod_create e (x\<lparr>pod_metadata := (pod_metadata x)\<lparr>om_namespace := Some namespace, om_name := Some name\<rparr>\<rparr>)) (\<lambda>updated.
     bindR (publish_modified ''Pod'' (Some namespace) name (KPod updated)) (\<lambda>_.
     returnR updated))"

definition delete_pod :: "env \<Rightarrow> string \<Rightarrow> string \<Rightarrow> status_doc prog" where
  "delete_pod e namespace name =
     tryR (pod_get e namespace name) (\<lambda>pre.
     bindR (pod_delete e namespace name) (\<lambda>_.
     bindR (case pre of
              Inr obj \<Rightarrow> publish_deleted ''Pod'' (Some namespace) name (KPod obj)
            | Inl _ \<Rightarrow> returnR ()) (\<lambda>_.
     returnR (deleted_status name None ''pods''))))"

definition get_pod_status :: "env \<Rightarrow> string \<Rightarrow> string \<Rightarrow> pod prog" where
  "get_pod_status e namespace name = pod_get e namespace name"

definition update_pod_status :: "env \<Rightarrow> string \<Rightarrow> string \<Rightarrow> pod \<Rightarrow> pod prog" where
  "update_pod_status e namespace name p =
     bindR (case pod_status p of
              Some status \<Rightarrow> pod_update_status e namespace name status
            | None \<Rightarrow> returnR ()) (\<lambda>_.
     bindR (pod_get e namespace name) (\<lambda>updated.
     bindR (publish_modified ''Pod'' (Some namespace) name (KPod updated)) (\<lambda>_.
     returnR updated)))"

section \<open>Services\<close>

definition list_services :: "env \<Rightarrow> string \<Rightarrow> header_map \<Rightarrow> service body prog" where
  "list_services e namespace headers =
     bindR (service_list e (Some namespace)) (\<lambda>items.
       list_response_live headers ''v1'' ''ServiceList'' items service_columns (service_row e)
         \<lparr>wf_kind = ''Service'', wf_namespace = Some namespace\<rparr>)"

definition list_all_services :: "env \<Rightarrow> header_map \<Rightarrow> service body prog" where
  "list_all_services e headers =
     bindR (service_list e None) (\<lambda>items.
       list_response_live headers ''v1'' ''ServiceList'' items service_columns (service_row e)
         \<lparr>wf_kind = ''Service'', wf_namespace = None\<rparr>)"

definition get_service :: "env \<Rightarrow> string \<Rightarrow> string \<Rightarrow> header_map \<Rightarrow> service body prog" where
  "get_service e namespace name headers =
     bindR (service_get e namespace name) (\<lambda>item. item_response headers item service_columns (service_row e))"

text \<open>\<open>(uid.as_u128() % 254 + 1) as u8\<close>\<close>

definition cluster_ip_octet :: "uuid \<Rightarrow> nat" where
  "cluster_ip_octet uid = unat uid mod 254 + 1"

definition assign_cluster_ip :: "env \<Rightarrow> string \<Rightarrow> service \<Rightarrow> service prog" where
  "assign_cluster_ip e service_cidr s =
     (if sp_cluster_ip (svc_spec s) = None \<and> sp_service_type (svc_spec s) \<noteq> ST_ExternalName then
        bindR (uid_or_new e (om_uid (svc_metadata s))) (\<lambda>uid.
        returnR (s\<lparr>svc_spec := (svc_spec s)\<lparr>sp_cluster_ip :=
          Some (service_cidr_prefix service_cidr @ ''.'' @ show_nat (cluster_ip_octet uid))\<rparr>\<rparr>))
      else returnR s)"

definition create_service :: "env \<Rightarrow> string \<Rightarrow> string \<Rightarrow> service \<Rightarrow> (nat \<times> service) prog" where
  "create_service e service_cidr namespace x =
     (let x' = x\<lparr>svc_metadata := default_namespace namespace (svc_metadata x)\<rparr>;
          name = meta_name (svc_metadata x)
      in bindR (assign_cluster_ip e service_cidr x') (\<lambda>s.
         bindR (service_create e s) (\<lambda>created.
         bindR (publish_added ''Service'' (Some namespace) name (KService created)) (\<lambda>_.
         returnR (201, created)))))"

definition update_service :: "env \<Rightarrow> string \<Rightarrow> string \<Rightarrow> service \<Rightarrow> service prog" where
  "update_service e namespace name x =
     bindR (service_create e (x\<lparr>svc_metadata := (svc_metadata x)\<lparr>om_namespace := Some namespace, om_name := Some name\<rparr>\<rparr>)) (\<lambda>updated.
     bindR (publish_modified ''Service'' (Some namespace) name (KService updated)) (\<lambda>_.
     returnR updated))"

definition delete_service :: "env \<Rightarrow> string \<Rightarrow> string \<Rightarrow> status_doc prog" where
  "delete_service e namespace name =
     tryR (service_get e namespace name) (\<lambda>pre.
     bindR (service_delete e namespace name) (\<lambda>_.
     bindR (case pre of
              Inr obj \<Rightarrow> publish_deleted ''Service'' (Some namespace) name (KService obj)
            | Inl _ \<Rightarrow> returnR ()) (\<lambda>_.
     returnR (deleted_status name None ''services''))))"

section \<open>Nodes\<close>

definition list_nodes :: "env \<Rightarrow> header_map \<Rightarrow> node body prog" where
  "list_nodes e headers =
     bindR (node_list e) (\<lambda>items.
       list_response_live headers ''v1'' ''NodeList'' items node_columns (node_row e)
         \<lparr>wf_kind = ''Node'', wf_namespace = None\<rparr>)"

definition get_node :: "env \<Rightarrow> string \<Rightarrow> header_map \<Rightarrow> node body prog" where
  "get_node e name headers =
     bindR (node_get e name) (\<lambda>item. item_response headers item node_columns (node_row e))"

definition create_node :: "env \<Rightarrow> node \<Rightarrow> (nat \<times> node) prog" where
  "create_node e x =
     bindR (node_create e x) (\<lambda>created.
     bindR (publish_added ''Node'' None (meta_name (node_metadata x)) (KNode created)) (\<lambda>_.
     returnR (201, created)))"

definition update_node :: "env \<Rightarrow> string \<Rightarrow> node \<Rightarrow> node prog" where
  "update_node e name x =
     bindR (node_create e (x\<lparr>node_metadata := (node_metadata x)\<lparr>om_name := Some name\<rparr>\<rparr>)) (\<lambda>updated.
     bindR (publish_modified ''Node'' None name (KNode updated)) (\<lambda>_.
     returnR updated))"

definition delete_node :: "env \<Rightarrow> string \<Rightarrow> status_doc prog" where
  "delete_node e name =
     tryR (node_get e name) (\<lambda>pre.
     bindR (node_delete e name) (\<lambda>_.
     bindR (case pre of
              Inr obj \<Rightarrow> publish_deleted ''Node'' None name (KNode obj)
            | Inl _ \<Rightarrow> returnR ()) (\<lambda>_.
     returnR (deleted_status name None ''nodes''))))"

section \<open>Endpoints\<close>

definition list_endpoints :: "string \<Rightarrow> endpoints k8s_list" where
  "list_endpoints namespace = list_new ''v1'' ''EndpointsList'' []"

definition get_endpoints :: "env \<Rightarrow> string \<Rightarrow> string \<Rightarrow> endpoints prog" where
  "get_endpoints e namespace name = endpoints_get e namespace name"

section \<open>Deployments\<close>

definition list_deployments :: "env \<Rightarrow> string \<Rightarrow> header_map \<Rightarrow> deployment body prog" where
  "list_deployments e namespace headers =
     bindR (deployment_list e (Some namespace)) (\<lambda>items.
       list_response_live headers ''apps/v1'' ''DeploymentList'' items deployment_columns (deployment_row e)
         \<lparr>wf_kind = ''Deployment'', wf_namespace = Some namespace\<rparr>)"

definition list_all_deployments :: "env \<Rightarrow> header_map \<Rightarrow> deployment body prog" where
  "list_all_deployments e headers =
     bindR (deployment_list e None) (\<lambda>items.
       list_response_live headers ''apps/v1'' ''DeploymentList'' items deployment_columns (deployment_row e)
         \<lparr>wf_kind = ''Deployment'', wf_namespace = None\<rparr>)"

definition get_deployment :: "env \<Rightarrow> string \<Rightarrow> string \<Rightarrow> header_map \<Rightarrow> deployment body prog" where
  "get_deployment e namespace name headers =
     bindR (deployment_get e namespace name) (\<lambda>item. item_response headers item deployment_columns (deployment_row e))"

definition create_deployment :: "env \<Rightarrow> string \<Rightarrow> deployment \<Rightarrow> (nat \<times> deployment) prog" where
  "create_deployment e namespace x =
     (let x' = x\<lparr>dep_metadata := default_namespace namespace (dep_metadata x)\<rparr>;
          name = meta_name (dep_metadata x)
      in bindR (deployment_create e x') (\<lambda>created.
         bindR (publish_added ''Deployment'' (Some namespace) name (KDeployment created)) (\<lambda>_.
         returnR (201, created))))"

definition update_deployment :: "env \<Rightarrow> string \<Rightarrow> string \<Rightarrow> deployment \<Rightarrow> deployment prog" where
  "update_deployment e namespace name x =
     bindR (deployment_create e (x\<lparr>dep_metadata := (dep_metadata x)\<lparr>om_namespace := Some namespace, om_name := Some name\<rparr>\<rparr>)) (\<lambda>updated.
     bindR (publish_modified ''Deployment'' (Some namespace) name (KDeployment updated)) (\<lambda>_.
     returnR updated))"

text \<open>One pod of the cascade: both the lookup and the deletion may fail without consequence.\<close>

definition cascade_delete_pod :: "env \<Rightarrow> string \<Rightarrow> pod \<Rightarrow> unit prog" where
  "cascade_delete_pod e namespace p = (case om_name (pod_metadata p) of
       None \<Rightarrow> returnR ()
     | Some pod_name \<Rightarrow>
         tryR (pod_get e namespace pod_name) (\<lambda>pod_pre.
         tryR (pod_delete e namespace pod_name) (\<lambda>_.
         case pod_pre of
           Inr p' \<Rightarrow> publish_deleted ''Pod'' (Some namespace) pod_name (KPod p')
         | Inl _ \<Rightarrow> returnR ())))"

definition delete_deployment :: "env \<Rightarrow> string \<Rightarrow> string \<Rightarrow> status_doc prog" where
  "delete_deployment e namespace name =
     bindR (deployment_get e namespace name) (\<lambda>d.
     bindR (case ls_match_labels (ds_selector (dep_spec d)) of
              None \<Rightarrow> returnR ()
            | Some selector \<Rightarrow>
                bindR (pod_list e (Some namespace) (Some selector)) (\<lambda>pods.
                foldR (\<lambda>p _. cascade_delete_pod e namespace p) pods ())) (\<lambda>_.
     bindR (deployment_delete e namespace name) (\<lambda>_.
     bindR (publish_deleted ''Deployment'' (Some namespace) name (KDeployment d)) (\<lambda>_.
     returnR (deleted_status name (Some ''apps'') ''deployments'')))))"

section \<open>Namespaces\<close>

definition list_namespaces :: "env \<Rightarrow> header_map \<Rightarrow> namespace body prog" where
  "list_namespaces e headers =
     bindR (namespace_list e) (\<lambda>items.
       list_response_live headers ''v1'' ''NamespaceList'' items namespace_columns (namespace_row e)
         \<lparr>wf_kind = ''Namespace'', wf_namespace = None\<rparr>)"

definition get_namespace :: "env \<Rightarrow> string \<Rightarrow> header_map \<Rightarrow> namespace body prog" where
  "get_namespace e name headers =
     bindR (namespace_get e name) (\<lambda>item. item_response headers item namespace_columns (namespace_row e))"

definition create_namespace :: "env \<Rightarrow> namespace \<Rightarrow> (nat \<times> namespace) prog" where
  "create_namespace e x =
     bindR (namespace_create e x) (\<lambda>created.
     bindR (publish_added ''Namespace'' None (meta_name (ns_metadata x)) (KNamespace created)) (\<lambda>_.
     returnR (201, created)))"

definition update_namespace :: "env \<Rightarrow> string \<Rightarrow> namespace \<Rightarrow> namespace prog" where
  "update_namespace e name x =
     bindR (namespace_create e (x\<lparr>ns_metadata := (ns_metadata x)\<lparr>om_name := Some name\<rparr>\<rparr>)) (\<lambda>updated.
     bindR (publish_modified ''Namespace'' None name (KNamespace updated)) (\<lambda>_.
     returnR updated))"

definition delete_namespace :: "env \<Rightarrow> string \<Rightarrow> status_doc prog" where
  "delete_namespace e name =
     tryR (namespace_get e name) (\<lambda>pre.
     bindR (namespace_delete e name) (\<lambda>_.
     bindR (case pre of
              Inr obj \<Rightarrow> publish_deleted ''Namespace'' None name (KNamespace obj)
            | Inl _ \<Rightarrow> returnR ()) (\<lambda>_.
     returnR (deleted_status name None ''namespaces''))))"

section \<open>Events\<close>

record event_list_params =
  elp_field_selector :: "string option"

definition involved_pair :: "string \<Rightarrow> string option \<times> string option \<Rightarrow> string option \<times> string option" where
  "involved_pair pair acc = (case splitn2 (CHR ''='') pair of
       (k, Some v) \<Rightarrow>
         if k = ''involvedObject.name'' then (Some v, snd acc)
         else if k = ''involvedObject.kind'' then (fst acc, Some v)
         else acc
     | (k, None) \<Rightarrow> acc)"

definition parse_involved_object :: "event_list_params \<Rightarrow> string option \<times> string option" where
  "parse_involved_object params = (case elp_field_selector params of
       None \<Rightarrow> (None, None)
     | Some selector \<Rightarrow> fold involved_pair (split_on (CHR '','') selector) (None, None))"

definition list_events :: "env \<Rightarrow> backend \<Rightarrow> string \<Rightarrow> event_list_params \<Rightarrow> header_map \<Rightarrow> event body prog" where
  "list_events e be namespace params headers =
     (let (obj_name, obj_kind) = parse_involved_object params in
      bindR (event_list_all e be (Some namespace) obj_name obj_kind) (\<lambda>events.
      list_response headers ''v1'' ''EventList'' events event_columns (event_row e)))"

definition list_all_events :: "env \<Rightarrow> backend \<Rightarrow> event_list_params \<Rightarrow> header_map \<Rightarrow> event body prog" where
  "list_all_events e be params headers =
     (let (obj_name, obj_kind) = parse_involved_object params in
      bindR (event_list_all e be None obj_name obj_kind) (\<lambda>events.
      list_response headers ''v1'' ''EventList'' events event_columns (event_row e)))"

definition get_event :: "env \<Rightarrow> string \<Rightarrow> string \<Rightarrow> header_map \<Rightarrow> event body prog" where
  "get_event e namespace name headers =
     bindR (event_get e namespace name) (\<lambda>item. item_response headers item event_columns (event_row e))"

definition create_event :: "env \<Rightarrow> string \<Rightarrow> event \<Rightarrow> (nat \<times> event) prog" where
  "create_event e namespace x =
     bindR (event_create e (x\<lparr>evt_metadata := default_namespace namespace (evt_metadata x)\<rparr>)) (\<lambda>created.
     returnR (201, created))"

definition delete_event :: "env \<Rightarrow> string \<Rightarrow> string \<Rightarrow> status_doc prog" where
  "delete_event e namespace name =
     bindR (event_delete e namespace name) (\<lambda>_. returnR (deleted_status name None ''events''))"

section \<open>Stateful sets\<close>

definition list_statefulsets :: "env \<Rightarrow> string \<Rightarrow> header_map \<Rightarrow> stateful_set body prog" where
  "list_statefulsets e namespace headers =
     bindR (stateful_set_list e (Some namespace)) (\<lambda>items.
       list_response_live headers ''apps/v1'' ''StatefulSetList'' items statefulset_columns (statefulset_row e)
         \<lparr>wf_kind = ''StatefulSet'', wf_namespace = Some namespace\<rparr>)"

definition list_all_statefulsets :: "env \<Rightarrow> header_map \<Rightarrow> stateful_set body prog" where
  "list_all_statefulsets e headers =
     bindR (stateful_set_list e None) (\<lambda>items.
       list_response_live headers ''apps/v1'' ''StatefulSetList'' items statefulset_columns (statefulset_row e)
         \<lparr>wf_kind = ''StatefulSet'', wf_namespace = None\<rparr>)"

definition get_statefulset :: "env \<Rightarrow> string \<Rightarrow> string \<Rightarrow> header_map \<Rightarrow> stateful_set body prog" where
  "get_statefulset e namespace name headers =
     bindR (stateful_set_get e namespace name) (\<lambda>item. item_response headers item statefulset_columns (statefulset_row e))"

definition create_statefulset :: "env \<Rightarrow> string \<Rightarrow> stateful_set \<Rightarrow> (nat \<times> stateful_set) prog" where
  "create_statefulset e namespace x =
     (let x' = x\<lparr>sts_metadata := default_namespace namespace (sts_metadata x)\<rparr>;
          name = meta_name (sts_metadata x)
      in bindR (stateful_set_create e x') (\<lambda>created.
         bindR (publish_added ''StatefulSet'' (Some namespace) name (KStatefulSet created)) (\<lambda>_.
         returnR (201, created))))"

definition update_statefulset :: "env \<Rightarrow> string \<Rightarrow> string \<Rightarrow> stateful_set \<Rightarrow> stateful_set prog" where
  "update_statefulset e namespace name x =
     bindR (stateful_set_create e (x\<lparr>sts_metadata := (sts_metadata x)\<lparr>om_namespace := Some namespace, om_name := Some name\<rparr>\<rparr>)) (\<lambda>updated.
     bindR (publish_modified ''StatefulSet'' (Some namespace) name (KStatefulSet updated)) (\<lambda>_.
     returnR updated))"

text \<open>The cascade of stateful and daemon sets publishes the listed pod whether or not it was deleted.\<close>

definition cascade_listed_pod :: "env \<Rightarrow> string \<Rightarrow> pod \<Rightarrow> unit prog" where
  "cascade_listed_pod e namespace p = (case om_name (pod_metadata p) of
       None \<Rightarrow> returnR ()
     | Some pod_name \<Rightarrow>
         tryR (pod_delete e namespace pod_name) (\<lambda>_.
         publish_deleted ''Pod'' (Some namespace) pod_name (KPod p)))"

definition cascade_selected :: "env \<Rightarrow> string \<Rightarrow> smap option \<Rightarrow> unit prog" where
  "cascade_selected e namespace sel = (case sel of
       None \<Rightarrow> returnR ()
     | Some selector \<Rightarrow>
         tryR (pod_list e (Some namespace) (Some selector)) (\<lambda>res. case res of
           Inr pods \<Rightarrow> foldR (\<lambda>p _. cascade_listed_pod e namespace p) pods ()
         | Inl _ \<Rightarrow> returnR ()))"

definition delete_statefulset :: "env \<Rightarrow> string \<Rightarrow> string \<Rightarrow> status_doc prog" where
  "delete_statefulset e namespace name =
     tryR (stateful_set_get e namespace name) (\<lambda>ss_pre.
     bindR (case ss_pre of
              Inr ss \<Rightarrow> cascade_selected e namespace (ls_match_labels (ss_selector (sts_spec ss)))
            | Inl _ \<Rightarrow> returnR ()) (\<lambda>_.
     bindR (stateful_set_delete e namespace name) (\<lambda>_.
     bindR (case ss_pre of
              Inr ss \<Rightarrow> publish_deleted ''StatefulSet'' (Some namespace) name (KStatefulSet ss)
            | Inl _ \<Rightarrow> returnR ()) (\<lambda>_.
     returnR (deleted_status name (Some ''apps'') ''statefulsets'')))))"

section \<open>Daemon sets\<close>

definition list_daemonsets :: "env \<Rightarrow> string \<Rightarrow> header_map \<Rightarrow> daemon_set body prog" where
  "list_daemonsets e namespace headers =
     bindR (daemon_set_list e (Some namespace)) (\<lambda>items.
       list_response_live headers ''apps/v1'' ''DaemonSetList'' items daemonset_columns (daemonset_row e)
         \<lparr>wf_kind = ''DaemonSet'', wf_namespace = Some namespace\<rparr>)"

definition list_all_daemonsets :: "env \<Rightarrow> header_map \<Rightarrow> daemon_set body prog" where
  "list_all_daemonsets e headers =
     bindR (daemon_set_list e None) (\<lambda>items.
       list_response_live headers ''apps/v1'' ''DaemonSetList'' items daemonset_columns (daemonset_row e)
         \<lparr>wf_kind = ''DaemonSet'', wf_namespace = None\<rparr>)"

definition get_daemonset :: "env \<Rightarrow> string \<Rightarrow> string \<Rightarrow> header_map \<Rightarrow> daemon_set body prog" where
  "get_daemonset e namespace name headers =
     bindR (daemon_set_get e namespace name) (\<lambda>item. item_response headers item daemonset_columns (daemonset_row e))"

definition create_daemonset :: "env \<Rightarrow> string \<Rightarrow> daemon_set \<Rightarrow> (nat \<times> daemon_set) prog" where
  "create_daemonset e namespace x =
     (let x' = x\<lparr>dms_metadata := default_namespace namespace (dms_metadata x)\<rparr>;
          name = meta_name (dms_metadata x)
      in bindR (daemon_set_create e x') (\<lambda>created.
         bindR (publish_added ''DaemonSet'' (Some namespace) name (KDaemonSet created)) (\<lambda>_.
         returnR (201, created))))"

definition update_daemonset :: "env \<Rightarrow> string \<Rightarrow> string \<Rightarrow> daemon_set \<Rightarrow> daemon_set prog" where
  "update_daemonset e namespace name x =
     bindR (daemon_set_create e (x\<lparr>dms_metadata := (dms_metadata x)\<lparr>om_namespace := Some namespace, om_name := Some name\<rparr>\<rparr>)) (\<lambda>updated.
     bindR (publish_modified ''DaemonSet'' (Some namespace) name (KDaemonSet updated)) (\<lambda>_.
     returnR updated))"

definition delete_daemonset :: "env \<Rightarrow> string \<Rightarrow> string \<Rightarrow> status_doc prog" where
  "delete_daemonset e namespace name =
     tryR (daemon_set_get e namespace name) (\<lambda>ds_pre.
     bindR (case ds_pre of
              Inr ds \<Rightarrow> cascade_selected e namespace (ls_match_labels (dmsp_selector (dms_spec ds)))
            | Inl _ \<Rightarrow> returnR ()) (\<lambda>_.
     bindR (daemon_set_delete e namespace name) (\<lambda>_.
     bindR (case ds_pre of
              Inr ds \<Rightarrow> publish_deleted ''DaemonSet'' (Some namespace) name (KDaemonSet ds)
            | Inl _ \<Rightarrow> returnR ()) (\<lambda>_.
     returnR (deleted_status name (Some ''apps'') ''daemonsets'')))))"

end
