(* ===== verification/Auth_Api.thy ===== *)
theory Auth_Api
  imports Api
begin

text \<open>
  The handlers of \<open>src/src/server/api.rs\<close> for service accounts, secrets, config maps and the RBAC
  objects, and the stubs that answer \<open>kubectl get all\<close> with empty lists. \<open>rfc\<close> stands for
  \<open>DateTime::to_rfc3339\<close>.
\<close>

section \<open>Service accounts\<close>

definition list_service_accounts :: "env \<Rightarrow> string \<Rightarrow> header_map \<Rightarrow> service_account body prog" where
  "list_service_accounts e namespace headers =
     bindR (service_account_list e (Some namespace)) (\<lambda>items.
       list_response_live headers ''v1'' ''ServiceAccountList'' items serviceaccount_columns (serviceaccount_row e)
         \<lparr>wf_kind = ''ServiceAccount'', wf_namespace = Some namespace\<rparr>)"

definition list_all_service_accounts :: "env \<Rightarrow> header_map \<Rightarrow> service_account body prog" where
  "list_all_service_accounts e headers =
     bindR (service_account_list e None) (\<lambda>items.
       list_response_live headers ''v1'' ''ServiceAccountList'' items serviceaccount_columns (serviceaccount_row e)
         \<lparr>wf_kind = ''ServiceAccount'', wf_namespace = None\<rparr>)"

definition get_service_account :: "env \<Rightarrow> string \<Rightarrow> string \<Rightarrow> header_map \<Rightarrow> service_account body prog" where
  "get_service_account e namespace name headers =
     bindR (service_account_get e namespace name) (\<lambda>item. item_response headers item serviceaccount_columns (serviceaccount_row e))"

definition create_service_account :: "env \<Rightarrow> string \<Rightarrow> service_account \<Rightarrow> (nat \<times> service_account) prog" where
  "create_service_account e namespace x =
     (let x' = x\<lparr>sa_metadata := default_namespace namespace (sa_metadata x)\<rparr>;
          name = meta_name (sa_metadata x)
      in bindR (service_account_create e x') (\<lambda>created.
         bindR (publish_added ''ServiceAccount'' (Some namespace) name (KServiceAccount created)) (\<lambda>_.
         returnR (201, created))))"

definition update_service_account :: "env \<Rightarrow> string \<Rightarrow> string \<Rightarrow> service_account \<Rightarrow> service_account prog" where
  "update_service_account e namespace name x =
     bindR (service_account_create e (x\<lparr>sa_metadata := (sa_metadata x)\<lparr>om_namespace := Some namespace, om_name := Some name\<rparr>\<rparr>)) (\<lambda>updated.
     bindR (publish_modified ''ServiceAccount'' (Some namespace) name (KServiceAccount updated)) (\<lambda>_.
     returnR updated))"

definition delete_service_account :: "env \<Rightarrow> string \<Rightarrow> string \<Rightarrow> status_doc prog" where
  "delete_service_account e namespace name =
     tryR (service_account_get e namespace name) (\<lambda>pre.
     bindR (service_account_delete e namespace name) (\<lambda>_.
     bindR (case pre of
              Inr obj \<Rightarrow> publish_deleted ''ServiceAccount'' (Some namespace) name (KServiceAccount obj)
            | Inl _ \<Rightarrow> returnR ()) (\<lambda>_.
     returnR (deleted_status name None ''serviceaccounts''))))"

section \<open>Secrets\<close>

definition list_secrets :: "env \<Rightarrow> string \<Rightarrow> header_map \<Rightarrow> secret body prog" where
  "list_secrets e namespace headers =
     bindR (secret_list e (Some namespace)) (\<lambda>items.
       list_response_live headers ''v1'' ''SecretList'' items secret_columns (secret_row e)
         \<lparr>wf_kind = ''Secret'', wf_namespace = Some namespace\<rparr>)"

definition list_all_secrets :: "env \<Rightarrow> header_map \<Rightarrow> secret body prog" where
  "list_all_secrets e headers =
     bindR (secret_list e None) (\<lambda>items.
       list_response_live headers ''v1'' ''SecretList'' items secret_columns (secret_row e)
         \<lparr>wf_kind = ''Secret'', wf_namespace = None\<rparr>)"

definition get_secret :: "env \<Rightarrow> string \<Rightarrow> string \<Rightarrow> header_map \<Rightarrow> secret body prog" where
  "get_secret e namespace name headers =
     bindR (secret_get e namespace name) (\<lambda>item. item_response headers item secret_columns (secret_row e))"

definition create_secret :: "env \<Rightarrow> string \<Rightarrow> secret \<Rightarrow> (nat \<times> secret) prog" where
  "create_secret e namespace x =
     (let x' = x\<lparr>sec_metadata := default_namespace namespace (sec_metadata x)\<rparr>;
          name = meta_name (sec_metadata x)
      in bindR (secret_create e x') (\<lambda>created.
         bindR (publish_added ''Secret'' (Some namespace) name (KSecret created)) (\<lambda>_.
         returnR (201, created))))"

definition update_secret :: "env \<Rightarrow> string \<Rightarrow> string \<Rightarrow> secret \<Rightarrow> secret prog" where
  "update_secret e namespace name x =
     bindR (secret_create e (x\<lparr>sec_metadata := (sec_metadata x)\<lparr>om_namespace := Some namespace, om_name := Some name\<rparr>\<rparr>)) (\<lambda>updated.
     bindR (publish_modified ''Secret'' (Some namespace) name (KSecret updated)) (\<lambda>_.
     returnR updated))"

definition delete_secret :: "env \<Rightarrow> string \<Rightarrow> string \<Rightarrow> status_doc prog" where
  "delete_secret e namespace name =
     tryR (secret_get e namespace name) (\<lambda>pre.
     bindR (secret_delete e namespace name) (\<lambda>_.
     bindR (case pre of
              Inr obj \<Rightarrow> publish_deleted ''Secret'' (Some namespace) name (KSecret obj)
            | Inl _ \<Rightarrow> returnR ()) (\<lambda>_.
     returnR (deleted_status name None ''secrets''))))"

section \<open>Config maps\<close>

definition list_config_maps :: "env \<Rightarrow> string \<Rightarrow> header_map \<Rightarrow> config_map body prog" where
  "list_config_maps e namespace headers =
     bindR (config_map_list e (Some namespace)) (\<lambda>items.
       list_response_live headers ''v1'' ''ConfigMapList'' items configmap_columns (configmap_row e)
         \<lparr>wf_kind = ''ConfigMap'', wf_namespace = Some namespace\<rparr>)"

definition list_all_config_maps :: "env \<Rightarrow> header_map \<Rightarrow> config_map body prog" where
  "list_all_config_maps e headers =
     bindR (config_map_list e None) (\<lambda>items.
       list_response_live headers ''v1'' ''ConfigMapList'' items configmap_columns (configmap_row e)
         \<lparr>wf_kind = ''ConfigMap'', wf_namespace = None\<rparr>)"

definition get_config_map :: "env \<Rightarrow> string \<Rightarrow> string \<Rightarrow> header_map \<Rightarrow> config_map body prog" where
  "get_config_map e namespace name headers =
     bindR (config_map_get e namespace name) (\<lambda>item. item_response headers item configmap_columns (configmap_row e))"

definition create_config_map :: "env \<Rightarrow> string \<Rightarrow> config_map \<Rightarrow> (nat \<times> config_map) prog" where
  "create_config_map e namespace x =
     (let x' = x\<lparr>cm_metadata := default_namespace namespace (cm_metadata x)\<rparr>;
          name = meta_name (cm_metadata x)
      in bindR (config_map_create e x') (\<lambda>created.
         bindR (publish_added ''ConfigMap'' (Some namespace) name (KConfigMap created)) (\<lambda>_.
         returnR (201, created))))"

definition update_config_map :: "env \<Rightarrow> string \<Rightarrow> string \<Rightarrow> config_map \<Rightarrow> config_map prog" where
  "update_config_map e namespace name x =
     bindR (config_map_create e (x\<lparr>cm_metadata := (cm_metadata x)\<lparr>om_namespace := Some namespace, om_name := Some name\<rparr>\<rparr>)) (\<lambda>updated.
     bindR (publish_modified ''ConfigMap'' (Some namespace) name (KConfigMap updated)) (\<lambda>_.
     returnR updated))"

definition delete_config_map :: "env \<Rightarrow> string \<Rightarrow> string \<Rightarrow> status_doc prog" where
  "delete_config_map e namespace name =
     tryR (config_map_get e namespace name) (\<lambda>pre.
     bindR (config_map_delete e namespace name) (\<lambda>_.
     bindR (case pre of
              Inr obj \<Rightarrow> publish_deleted ''ConfigMap'' (Some namespace) name (KConfigMap obj)
            | Inl _ \<Rightarrow> returnR ()) (\<lambda>_.
     returnR (deleted_status name None ''configmaps''))))"

section \<open>Cluster roles\<close>

definition list_cluster_roles :: "env \<Rightarrow> (time \<Rightarrow> string) \<Rightarrow> header_map \<Rightarrow> cluster_role body prog" where
  "list_cluster_roles e rfc headers =
     bindR (cluster_role_list e) (\<lambda>items.
       list_response_live headers rbac_v1 ''ClusterRoleList'' items clusterrole_columns (clusterrole_row rfc)
         \<lparr>wf_kind = ''ClusterRole'', wf_namespace = None\<rparr>)"

definition get_cluster_role :: "env \<Rightarrow> (time \<Rightarrow> string) \<Rightarrow> string \<Rightarrow> header_map \<Rightarrow> cluster_role body prog" where
  "get_cluster_role e rfc name headers =
     bindR (cluster_role_get e name) (\<lambda>item. item_response headers item clusterrole_columns (clusterrole_row rfc))"

definition create_cluster_role :: "env \<Rightarrow> cluster_role \<Rightarrow> (nat \<times> cluster_role) prog" where
  "create_cluster_role e x =
     bindR (cluster_role_create e x) (\<lambda>created.
     bindR (publish_added ''ClusterRole'' None (meta_name (cr_metadata x)) (KClusterRole created)) (\<lambda>_.
     returnR (201, created)))"

definition update_cluster_role :: "env \<Rightarrow> string \<Rightarrow> cluster_role \<Rightarrow> cluster_role prog" where
  "update_cluster_role e name x =
     bindR (cluster_role_create e (x\<lparr>cr_metadata := (cr_metadata x)\<lparr>om_name := Some name\<rparr>\<rparr>)) (\<lambda>updated.
     bindR (publish_modified ''ClusterRole'' None name (KClusterRole updated)) (\<lambda>_.
     returnR updated))"

definition delete_cluster_role :: "env \<Rightarrow> string \<Rightarrow> status_doc prog" where
  "delete_cluster_role e name =
     tryR (cluster_role_get e name) (\<lambda>pre.
     bindR (cluster_role_delete e name) (\<lambda>_.
     bindR (case pre of
              Inr obj \<Rightarrow> publish_deleted ''ClusterRole'' None name (KClusterRole obj)
            | Inl _ \<Rightarrow> returnR ()) (\<lambda>_.
     returnR (deleted_status name (Some ''rbac.authorization.k8s.io'') ''clusterroles''))))"

section \<open>Cluster role bindings\<close>

definition list_cluster_role_bindings :: "env \<Rightarrow> header_map \<Rightarrow> cluster_role_binding body prog" where
  "list_cluster_role_bindings e headers =
     bindR (cluster_role_binding_list e) (\<lambda>items.
       list_response_live headers rbac_v1 ''ClusterRoleBindingList'' items clusterrolebinding_columns (clusterrolebinding_row e)
         \<lparr>wf_kind = ''ClusterRoleBinding'', wf_namespace = None\<rparr>)"

definition get_cluster_role_binding :: "env \<Rightarrow> string \<Rightarrow> header_map \<Rightarrow> cluster_role_binding body prog" where
  "get_cluster_role_binding e name headers =
     bindR (cluster_role_binding_get e name) (\<lambda>item. item_response headers item clusterrolebinding_columns (clusterrolebinding_row e))"

definition create_cluster_role_binding :: "env \<Rightarrow> cluster_role_binding \<Rightarrow> (nat \<times> cluster_role_binding) prog" where
  "create_cluster_role_binding e x =
     bindR (cluster_role_binding_create e x) (\<lambda>created.
     bindR (publish_added ''ClusterRoleBinding'' None (meta_name (crb_metadata x)) (KClusterRoleBinding created)) (\<lambda>_.
     returnR (201, created)))"

definition update_cluster_role_binding :: "env \<Rightarrow> string \<Rightarrow> cluster_role_binding \<Rightarrow> cluster_role_binding prog" where
  "update_cluster_role_binding e name x =
     bindR (cluster_role_binding_create e (x\<lparr>crb_metadata := (crb_metadata x)\<lparr>om_name := Some name\<rparr>\<rparr>)) (\<lambda>updated.
     bindR (publish_modified ''ClusterRoleBinding'' None name (KClusterRoleBinding updated)) (\<lambda>_.
     returnR updated))"

definition delete_cluster_role_binding :: "env \<Rightarrow> string \<Rightarrow> status_doc prog" where
  "delete_cluster_role_binding e name =
     tryR (cluster_role_binding_get e name) (\<lambda>pre.
     bindR (cluster_role_binding_delete e name) (\<lambda>_.
     bindR (case pre of
              Inr obj \<Rightarrow> publish_deleted ''ClusterRoleBinding'' None name (KClusterRoleBinding obj)
            | Inl _ \<Rightarrow> returnR ()) (\<lambda>_.
     returnR (deleted_status name (Some ''rbac.authorization.k8s.io'') ''clusterrolebindings''))))"

section \<open>Replication controllers and replica sets\<close>

definition rc_columns :: "column list" where
  "rc_columns =
     [column_new ''Name'' ''string'',
      column_new ''Desired'' ''integer'',
      column_new ''Current'' ''integer'',
      column_new ''Ready'' ''integer'',
      column_new ''Age'' ''string'']"

definition empty_rc_response :: "header_map \<Rightarrow> json_text body prog" where
  "empty_rc_response headers =
     list_response headers ''v1'' ''ReplicationControllerList'' [] rc_columns (\<lambda>_. returnR [])"

definition list_replication_controllers :: "string \<Rightarrow> header_map \<Rightarrow> json_text body prog" where
  "list_replication_controllers namespace headers = empty_rc_response headers"

definition list_all_replication_controllers :: "header_map \<Rightarrow> json_text body prog" where
  "list_all_replication_controllers headers = empty_rc_response headers"

definition rs_columns :: "column list" where
  "rs_columns =
     [column_new ''Name'' ''string'',
      column_new ''Desired'' ''integer'',
      column_new ''Current'' ''integer'',
      column_new ''Ready'' ''integer'',
      column_new ''Age'' ''string'']"

definition empty_rs_response :: "header_map \<Rightarrow> json_text body prog" where
  "empty_rs_response headers =
     list_response headers ''apps/v1'' ''ReplicaSetList'' [] rs_columns (\<lambda>_. returnR [])"

definition list_replica_sets :: "string \<Rightarrow> header_map \<Rightarrow> json_text body prog" where
  "list_replica_sets namespace headers = empty_rs_response headers"

definition list_all_replica_sets :: "header_map \<Rightarrow> json_text body prog" where
  "list_all_replica_sets headers = empty_rs_response headers"

section \<open>Roles\<close>

definition list_roles :: "env \<Rightarrow> (time \<Rightarrow> string) \<Rightarrow> string \<Rightarrow> header_map \<Rightarrow> role body prog" where
  "list_roles e rfc namespace headers =
     bindR (role_list e (Some namespace)) (\<lambda>items.
       list_response_live headers rbac_v1 ''RoleList'' items role_columns (role_row rfc)
         \<lparr>wf_kind = ''Role'', wf_namespace = Some namespace\<rparr>)"

definition list_all_roles :: "env \<Rightarrow> (time \<Rightarrow> string) \<Rightarrow> header_map \<Rightarrow> role body prog" where
  "list_all_roles e rfc headers =
     bindR (role_list e None) (\<lambda>items.
       list_response_live headers rbac_v1 ''RoleList'' items role_columns (role_row rfc)
         \<lparr>wf_kind = ''Role'', wf_namespace = None\<rparr>)"

definition get_role :: "env \<Rightarrow> (time \<Rightarrow> string) \<Rightarrow> string \<Rightarrow> string \<Rightarrow> header_map \<Rightarrow> role body prog" where
  "get_role e rfc namespace name headers =
     bindR (role_get e namespace name) (\<lambda>item. item_response headers item role_columns (role_row rfc))"

definition create_role :: "env \<Rightarrow> string \<Rightarrow> role \<Rightarrow> (nat \<times> role) prog" where
  "create_role e namespace x =
     (let x' = x\<lparr>role_metadata := default_namespace namespace (role_metadata x)\<rparr>;
          name = meta_name (role_metadata x)
      in bindR (role_create e x') (\<lambda>created.
         bindR (publish_added ''Role'' (Some namespace) name (KRole created)) (\<lambda>_.
         returnR (201, created))))"

definition update_role :: "env \<Rightarrow> string \<Rightarrow> string \<Rightarrow> role \<Rightarrow> role prog" where
  "update_role e namespace name x =
     bindR (role_create e (x\<lparr>role_metadata := (role_metadata x)\<lparr>om_namespace := Some namespace, om_name := Some name\<rparr>\<rparr>)) (\<lambda>updated.
     bindR (publish_modified ''Role'' (Some namespace) name (KRole updated)) (\<lambda>_.
     returnR updated))"

definition delete_role :: "env \<Rightarrow> string \<Rightarrow> string \<Rightarrow> status_doc prog" where
  "delete_role e namespace name =
     tryR (role_get e namespace name) (\<lambda>pre.
     bindR (role_delete e namespace name) (\<lambda>_.
     bindR (case pre of
              Inr obj \<Rightarrow> publish_deleted ''Role'' (Some namespace) name (KRole obj)
            | Inl _ \<Rightarrow> returnR ()) (\<lambda>_.
     returnR (deleted_status name (Some ''rbac.authorization.k8s.io'') ''roles''))))"

section \<open>Role bindings\<close>

definition list_role_bindings :: "env \<Rightarrow> string \<Rightarrow> header_map \<Rightarrow> role_binding body prog" where
  "list_role_bindings e namespace headers =
     bindR (role_binding_list e (Some namespace)) (\<lambda>items.
       list_response_live headers rbac_v1 ''RoleBindingList'' items rolebinding_columns (rolebinding_row e)
         \<lparr>wf_kind = ''RoleBinding'', wf_namespace = Some namespace\<rparr>)"

definition list_all_role_bindings :: "env \<Rightarrow> header_map \<Rightarrow> role_binding body prog" where
  "list_all_role_bindings e headers =
     bindR (role_binding_list e None) (\<lambda>items.
       list_response_live headers rbac_v1 ''RoleBindingList'' items rolebinding_columns (rolebinding_row e)
         \<lparr>wf_kind = ''RoleBinding'', wf_namespace = None\<rparr>)"

definition get_role_binding :: "env \<Rightarrow> string \<Rightarrow> string \<Rightarrow> header_map \<Rightarrow> role_binding body prog" where
  "get_role_binding e namespace name headers =
     bindR (role_binding_get e namespace name) (\<lambda>item. item_response headers item rolebinding_columns (rolebinding_row e))"

definition create_role_binding :: "env \<Rightarrow> string \<Rightarrow> role_binding \<Rightarrow> (nat \<times> role_binding) prog" where
  "create_role_binding e namespace x =
     (let x' = x\<lparr>rb_metadata := default_namespace namespace (rb_metadata x)\<rparr>;
          name = meta_name (rb_metadata x)
      in bindR (role_binding_create e x') (\<lambda>created.
         bindR (publish_added ''RoleBinding'' (Some namespace) name (KRoleBinding created)) (\<lambda>_.
         returnR (201, created))))"

definition update_role_binding :: "env \<Rightarrow> string \<Rightarrow> string \<Rightarrow> role_binding \<Rightarrow> role_binding prog" where
  "update_role_binding e namespace name x =
     bindR (role_binding_create e (x\<lparr>rb_metadata := (rb_metadata x)\<lparr>om_namespace := Some namespace, om_name := Some name\<rparr>\<rparr>)) (\<lambda>updated.
     bindR (publish_modified ''RoleBinding'' (Some namespace) name (KRoleBinding updated)) (\<lambda>_.
     returnR updated))"

definition delete_role_binding :: "env \<Rightarrow> string \<Rightarrow> string \<Rightarrow> status_doc prog" where
  "delete_role_binding e namespace name =
     tryR (role_binding_get e namespace name) (\<lambda>pre.
     bindR (role_binding_delete e namespace name) (\<lambda>_.
     bindR (case pre of
              Inr obj \<Rightarrow> publish_deleted ''RoleBinding'' (Some namespace) name (KRoleBinding obj)
            | Inl _ \<Rightarrow> returnR ()) (\<lambda>_.
     returnR (deleted_status name (Some ''rbac.authorization.k8s.io'') ''rolebindings''))))"

end
