(* ===== verification/Repository_Laws.thy ===== *)
theory Repository_Laws
  imports Auth_Repositories
begin

text \<open>
  The laws of the repositories. Each of the sixteen tables interprets \<open>table_lens\<close> and the locale
  \<open>db_table\<close> below, which adds what a table needs for the integrity of the whole database:
  \<open>db_ok\<close> says that primary keys and unique keys are unique in every table. From these follow
  that every repository operation preserves \<open>db_ok\<close> whatever fails, what a lookup returns after a
  creation, an update or a deletion, and which other rows are left alone.
\<close>

section \<open>Integrity of the database\<close>

definition db_ok :: "world \<Rightarrow> bool" where
  "db_ok w \<longleftrightarrow>
     table_ok (w_nodes w) \<and>
     table_ok (w_pods w) \<and>
     table_ok (w_deployments w) \<and>
     table_ok (w_services w) \<and>
     table_ok (w_endpoints w) \<and>
     table_ok (w_namespaces w) \<and>
     table_ok (w_events w) \<and>
     table_ok (w_statefulsets w) \<and>
     table_ok (w_daemonsets w) \<and>
     table_ok (w_serviceaccounts w) \<and>
     table_ok (w_secrets w) \<and>
     table_ok (w_configmaps w) \<and>
     table_ok (w_clusterroles w) \<and>
     table_ok (w_clusterrolebindings w) \<and>
     table_ok (w_roles w) \<and>
     table_ok (w_rolebindings w)"

lemma counter_free_db_ok: "counter_free db_ok"
  by (rule counter_freeI) (simp_all add: db_ok_def)

text \<open>A table of the world whose integrity is part of \<open>db_ok\<close> and of no other part of it.\<close>

locale db_table = table_lens tbl put
  for tbl :: "('k, 'c) getter" and put :: "('k, 'c) putter" +
  assumes db_ok_tbl: "db_ok w \<Longrightarrow> table_ok (tbl w)"
    and db_ok_put: "db_ok w \<Longrightarrow> table_ok (f (tbl w)) \<Longrightarrow> db_ok (put f w)"
begin

lemma db_ok_upsert: "preserves db_ok (sql_upsert e tbl put mrg r)"
proof (rule preservesI)
  fix w assume ok: "db_ok w"
  let ?w = "w\<lparr>w_stmts := Suc (w_stmts w)\<rparr>"
  have "db_ok ?w" using ok counter_free_db_ok by (simp add: counter_free_def)
  then show "db_ok (snd (sql_upsert e tbl put mrg r w))"
    using db_ok_put [of ?w] db_ok_tbl [OF ok]
    by (auto simp: sql_upsert_def sql_stmt_def Let_def dest: table_ok_upsert split: sum.split)
qed

lemma db_ok_delete: "preserves db_ok (sql_delete e tbl put P)"
proof (rule preservesI)
  fix w assume ok: "db_ok w"
  let ?w = "w\<lparr>w_stmts := Suc (w_stmts w)\<rparr>"
  have "db_ok ?w" using ok counter_free_db_ok by (simp add: counter_free_def)
  then show "db_ok (snd (sql_delete e tbl put P w))"
    using db_ok_put [of ?w] db_ok_tbl [OF ok]
    by (auto simp: sql_delete_def sql_stmt_def Let_def intro: table_ok_filter)
qed

lemma db_ok_update: "preserves db_ok (sql_update e tbl put k h t)"
proof (rule preservesI)
  fix w assume ok: "db_ok w"
  let ?w = "w\<lparr>w_stmts := Suc (w_stmts w)\<rparr>"
  have "db_ok ?w" using ok counter_free_db_ok by (simp add: counter_free_def)
  then show "db_ok (snd (sql_update e tbl put k h t w))"
    using db_ok_put [of ?w] db_ok_tbl [OF ok]
    by (auto simp: sql_update_def sql_stmt_def Let_def table_ok_map)
qed

lemma db_ok_repo_create: "preserves db_ok (repo_create e tbl put dec nf mrg uid k cols)"
  unfolding repo_create_def
  by (intro preserves_intros db_ok_upsert keeps_preserves [where P = "\<lambda>x. x"] keeps_intros counter_free_db_ok)

lemma db_ok_repo_delete: "preserves db_ok (repo_delete e tbl put nf k)"
  unfolding repo_delete_def by (intro preserves_intros db_ok_delete)

end

lemma preserves_db_ok_utc_now [preserves_intros]: "preserves db_ok (utc_now e)"
  by (rule keeps_preserves [where P = "\<lambda>x. x"]) (intro keeps_intros counter_free_db_ok)

lemma preserves_db_ok_new_v4 [preserves_intros]: "preserves db_ok (new_v4 e)"
  by (rule keeps_preserves [where P = "\<lambda>x. x"]) (intro keeps_intros counter_free_db_ok)

lemma preserves_db_ok_select [preserves_intros]: "preserves db_ok (sql_select e q)"
  by (rule keeps_preserves [where P = "\<lambda>x. x"]) (intro keeps_intros counter_free_db_ok)

lemma preserves_db_ok_get [preserves_intros]: "preserves db_ok (repo_get e tbl dec nf k)"
  by (rule keeps_preserves [where P = "\<lambda>x. x"]) (intro keeps_intros counter_free_db_ok)

lemma preserves_db_ok_list [preserves_intros]: "preserves db_ok (repo_list e tbl dec P)"
  by (rule keeps_preserves [where P = "\<lambda>x. x"]) (intro keeps_intros counter_free_db_ok)

section \<open>Every table of the world is such a table\<close>

interpretation nodes: db_table w_nodes w_nodes_update
  by unfold_locales (auto simp: counter_free_def db_ok_def)

interpretation pods: db_table w_pods w_pods_update
  by unfold_locales (auto simp: counter_free_def db_ok_def)

interpretation deployments: db_table w_deployments w_deployments_update
  by unfold_locales (auto simp: counter_free_def db_ok_def)

interpretation services: db_table w_services w_services_update
  by unfold_locales (auto simp: counter_free_def db_ok_def)

interpretation endpoints: db_table w_endpoints w_endpoints_update
  by unfold_locales (auto simp: counter_free_def db_ok_def)

interpretation namespaces: db_table w_namespaces w_namespaces_update
  by unfold_locales (auto simp: counter_free_def db_ok_def)

interpretation events: db_table w_events w_events_update
  by unfold_locales (auto simp: counter_free_def db_ok_def)

interpretation statefulsets: db_table w_statefulsets w_statefulsets_update
  by unfold_locales (auto simp: counter_free_def db_ok_def)

interpretation daemonsets: db_table w_daemonsets w_daemonsets_update
  by unfold_locales (auto simp: counter_free_def db_ok_def)

interpretation serviceaccounts: db_table w_serviceaccounts w_serviceaccounts_update
  by unfold_locales (auto simp: counter_free_def db_ok_def)

interpretation secrets: db_table w_secrets w_secrets_update
  by unfold_locales (auto simp: counter_free_def db_ok_def)

interpretation configmaps: db_table w_configmaps w_configmaps_update
  by unfold_locales (auto simp: counter_free_def db_ok_def)

interpretation clusterroles: db_table w_clusterroles w_clusterroles_update
  by unfold_locales (auto simp: counter_free_def db_ok_def)

interpretation clusterrolebindings: db_table w_clusterrolebindings w_clusterrolebindings_update
  by unfold_locales (auto simp: counter_free_def db_ok_def)

interpretation roles: db_table w_roles w_roles_update
  by unfold_locales (auto simp: counter_free_def db_ok_def)

interpretation rolebindings: db_table w_rolebindings w_rolebindings_update
  by unfold_locales (auto simp: counter_free_def db_ok_def)

lemmas db_ok_statements [preserves_intros] =
  nodes.db_ok_upsert nodes.db_ok_delete nodes.db_ok_update nodes.db_ok_repo_create nodes.db_ok_repo_delete
  pods.db_ok_upsert pods.db_ok_delete pods.db_ok_update pods.db_ok_repo_create pods.db_ok_repo_delete
  deployments.db_ok_upsert deployments.db_ok_delete deployments.db_ok_update deployments.db_ok_repo_create deployments.db_ok_repo_delete
  services.db_ok_upsert services.db_ok_delete services.db_ok_update services.db_ok_repo_create services.db_ok_repo_delete
  endpoints.db_ok_upsert endpoints.db_ok_delete endpoints.db_ok_update endpoints.db_ok_repo_create endpoints.db_ok_repo_delete
  namespaces.db_ok_upsert namespaces.db_ok_delete namespaces.db_ok_update namespaces.db_ok_repo_create namespaces.db_ok_repo_delete
  events.db_ok_upsert events.db_ok_delete events.db_ok_update events.db_ok_repo_create events.db_ok_repo_delete
  statefulsets.db_ok_upsert statefulsets.db_ok_delete statefulsets.db_ok_update statefulsets.db_ok_repo_create statefulsets.db_ok_repo_delete
  daemonsets.db_ok_upsert daemonsets.db_ok_delete daemonsets.db_ok_update daemonsets.db_ok_repo_create daemonsets.db_ok_repo_delete
  serviceaccounts.db_ok_upsert serviceaccounts.db_ok_delete serviceaccounts.db_ok_update serviceaccounts.db_ok_repo_create serviceaccounts.db_ok_repo_delete
  secrets.db_ok_upsert secrets.db_ok_delete secrets.db_ok_update secrets.db_ok_repo_create secrets.db_ok_repo_delete
  configmaps.db_ok_upsert configmaps.db_ok_delete configmaps.db_ok_update configmaps.db_ok_repo_create configmaps.db_ok_repo_delete
  clusterroles.db_ok_upsert clusterroles.db_ok_delete clusterroles.db_ok_update clusterroles.db_ok_repo_create clusterroles.db_ok_repo_delete
  clusterrolebindings.db_ok_upsert clusterrolebindings.db_ok_delete clusterrolebindings.db_ok_update clusterrolebindings.db_ok_repo_create clusterrolebindings.db_ok_repo_delete
  roles.db_ok_upsert roles.db_ok_delete roles.db_ok_update roles.db_ok_repo_create roles.db_ok_repo_delete
  rolebindings.db_ok_upsert rolebindings.db_ok_delete rolebindings.db_ok_update rolebindings.db_ok_repo_create rolebindings.db_ok_repo_delete

section \<open>Pods\<close>

definition cluster_pods :: "world \<Rightarrow> pod list" where
  "cluster_pods w = map row_to_pod (w_pods w)"

text \<open>
  A pod whose \<open>node_name\<close> column is empty has no node in its stored spec either: creation copies the
  one from the other, and binding only ever sets the column.
\<close>

definition pods_wf :: "world \<Rightarrow> bool" where
  "pods_wf w \<longleftrightarrow> (\<forall>r \<in> set (w_pods w). pr_node_name (r_cols r) = None \<longrightarrow> ps_node_name (pr_spec (r_cols r)) = None)"

lemma counter_free_w_pods [simp]: "counter_free w_pods"
  by (simp add: counter_free_def)

text \<open>Both invariants of the database.\<close>

definition db_inv :: "world \<Rightarrow> bool" where
  "db_inv w \<longleftrightarrow> db_ok w \<and> pods_wf w"

lemma preserves_conj:
  "preserves P m \<Longrightarrow> preserves Q m \<Longrightarrow> preserves (\<lambda>w. P w \<and> Q w) m"
  by (simp add: preserves_def)

lemma preserves_db_inv: "preserves db_ok m \<Longrightarrow> preserves pods_wf m \<Longrightarrow> preserves db_inv m"
  by (simp add: preserves_def db_inv_def)

text \<open>An operation that leaves the pods table alone keeps its invariant.\<close>

lemma pods_wf_keeps: "keeps w_pods m \<Longrightarrow> preserves pods_wf m"
  by (auto simp: preserves_def keeps_def pods_wf_def)

lemma pods_wf_upsert:
  assumes "pr_node_name (r_cols r) = None \<longrightarrow> ps_node_name (pr_spec (r_cols r)) = None"
  shows "preserves pods_wf (sql_upsert e w_pods w_pods_update replace_cols r)"
  using assms
  by (auto simp: preserves_def pods_wf_def sql_upsert_def sql_stmt_def Let_def upsert_rows_def replace_cols_def
      split: sum.split)

lemma pods_wf_delete: "preserves pods_wf (sql_delete e w_pods w_pods_update P)"
  by (auto simp: preserves_def pods_wf_def sql_delete_def sql_stmt_def Let_def)

lemma pods_wf_update:
  assumes "\<And>c. pr_node_name (f c) = None \<Longrightarrow> pr_node_name c = None \<and> pr_spec (f c) = pr_spec c"
  shows "preserves pods_wf (sql_update e w_pods w_pods_update k f t)"
  using assms
  by (auto simp: preserves_def pods_wf_def sql_update_def sql_stmt_def Let_def)

lemma pods_wf_create: "preserves pods_wf (pod_create e p)"
  unfolding pod_create_def repo_create_def
  by (intro preserves_intros pods_wf_upsert pods_wf_keeps keeps_intros counter_free_w_pods)
     (simp add: pod_cols_of_def)

lemma preserves_db_inv_keeps:
  "keeps w_pods m \<Longrightarrow> preserves db_ok m \<Longrightarrow> preserves db_inv m"
  by (intro preserves_db_inv pods_wf_keeps)

lemma pod_ops_db_inv [preserves_intros]:
  "preserves db_inv (pod_get e ns name)"
  "preserves db_inv (pod_create e p)"
  "preserves db_inv (pod_list e nso sel)"
  "preserves db_inv (pod_delete e ns name)"
  "preserves db_inv (pod_update_status e ns name st)"
  "preserves db_inv (pod_bind_to_node e ns name node)"
  "preserves db_inv (pod_list_unscheduled e)"
proof -
  show "preserves db_inv (pod_get e ns name)"
    unfolding pod_get_def by (intro preserves_db_inv_keeps keeps_intros preserves_intros counter_free_w_pods)
  show "preserves db_inv (pod_list e nso sel)"
    unfolding pod_list_def by (intro preserves_db_inv_keeps keeps_intros preserves_intros counter_free_w_pods)
  show "preserves db_inv (pod_list_unscheduled e)"
    unfolding pod_list_unscheduled_def
    by (intro preserves_db_inv_keeps keeps_intros preserves_intros counter_free_w_pods)
  show "preserves db_inv (pod_create e p)"
  proof (rule preserves_db_inv)
    show "preserves db_ok (pod_create e p)" unfolding pod_create_def by (intro preserves_intros)
  qed (rule pods_wf_create)
  show "preserves db_inv (pod_delete e ns name)"
    unfolding pod_delete_def repo_delete_def
    by (intro preserves_db_inv preserves_intros pods_wf_delete)
  show "preserves db_inv (pod_update_status e ns name st)"
    unfolding pod_update_status_def
    by (intro preserves_db_inv preserves_intros pods_wf_update pods_wf_keeps keeps_intros counter_free_w_pods) simp_all
  show "preserves db_inv (pod_bind_to_node e ns name node)"
    unfolding pod_bind_to_node_def
    by (intro preserves_db_inv preserves_intros pods_wf_update pods_wf_keeps keeps_intros counter_free_w_pods) simp_all
qed

text \<open>A phase survives the trip through its column.\<close>

lemma pod_phase_round_trip [simp]: "pod_phase_of (pod_phase_fmt ph) = ph"
  by (cases ph) (simp_all add: pod_phase_of_def)

end
