(* ===== verification/Recorder.thy ===== *)
theory Recorder
  imports Repository_Laws
begin

text \<open>
  The event recorder of \<open>src/src/server/controller.rs\<close>, which the controllers and the scheduler use.
  A failed write is logged, so recording never fails, and it touches nothing but the events table.
\<close>

definition event_name_of :: "string \<Rightarrow> uuid \<Rightarrow> string" where
  "event_name_of obj_name u =
     (if obj_name = [] then ''object'' else obj_name) @ ''.'' @ show_hex (unat (take_bit 32 u))"

definition emit_event ::
  "env \<Rightarrow> object_reference \<Rightarrow> string \<Rightarrow> event_type \<Rightarrow> string \<Rightarrow> string \<Rightarrow> string \<Rightarrow> unit prog" where
  "emit_event e involved ns typ reason message component =
     bindR (utc_now e) (\<lambda>now.
     bindR (new_v4 e) (\<lambda>name_id.
     bindR (new_v4 e) (\<lambda>uid.
     let obj_name = (case oref_name involved of Some n \<Rightarrow> n | None \<Rightarrow> []);
         ev = \<lparr>evt_type_meta = type_meta_of ''v1'' ''Event'',
               evt_metadata = object_meta_default
                 \<lparr>om_name := Some (event_name_of obj_name name_id), om_namespace := Some ns, om_uid := Some uid\<rparr>,
               evt_involved_object = involved, evt_reason = Some reason, evt_message = Some message,
               evt_source = Some \<lparr>evs_component = Some component, evs_host = None\<rparr>,
               evt_first_timestamp = Some now, evt_last_timestamp = Some now, evt_count = Some 1,
               evt_event_type = Some typ, evt_event_time = Some now, evt_action = None,
               evt_reporting_controller = Some (''superkube/'' @ component),
               evt_reporting_instance = None\<rparr>
     in tryR (event_create e ev) (\<lambda>_. returnR ()))))"

lemma emit_event_returns: "fst (emit_event e involved ns typ reason message component w) = Inr ()"
  by (simp add: emit_event_def bindR_def utc_now_def new_v4_def tryR_def returnR_def Let_def
      split: prod.split)

lemma keeps_emit_event [keeps_intros]:
  assumes "counter_free f" "\<And>g w. f (w_events_update g w) = f w"
  shows "keeps f (emit_event e involved ns typ reason message component)"
  unfolding emit_event_def event_create_def Let_def
  by (intro keeps_intros assms)

lemma preserves_emit_event [preserves_intros]:
  "preserves db_ok (emit_event e involved ns typ reason message component)"
  unfolding emit_event_def event_create_def Let_def by (intro preserves_intros)

end
