(* ===== verification/Lease.thy ===== *)
theory Lease
  imports Tables
begin

text \<open>
  Leader election through the \<open>leases\<close> table (\<open>src/src/db/lease.rs\<close>). \<open>try_acquire\<close> is the
  code's operation on the world; \<open>lease_upsert\<close> is its single SQL statement. The second half is a
  step relation for several masters that share one table and read clocks which are off from true
  time by at most \<open>d\<close>; its invariant gives mutual exclusion.
\<close>

definition backend_from_url :: "string \<Rightarrow> backend" where
  "backend_from_url url = (if starts_with url ''sqlite:'' then Sqlite else Postgres)"

record lease_manager =
  lm_holder :: string
  lm_backend :: backend

definition lease_manager_new :: "env \<Rightarrow> backend \<Rightarrow> lease_manager prog" where
  "lease_manager_new e be = bindR (new_v4 e) (\<lambda>u. returnR \<lparr>lm_holder = env_uuid_str e u, lm_backend = be\<rparr>)"

text \<open>Nanoseconds; a duration longer than \<open>i64::MAX\<close> milliseconds is replaced by thirty seconds.\<close>

definition lease_duration :: "nat \<Rightarrow> int" where
  "lease_duration ttl =
     (if ttl \<le> 9223372036854775807 * 1000000 then int ttl else 30 * 1000000000)"

definition lease_find :: "string \<Rightarrow> lease_row list \<Rightarrow> lease_row option" where
  "lease_find name rows = List.find (\<lambda>r. lr_name r = name) rows"

text \<open>The rows affected and the table after the conditional upsert.\<close>

definition lease_upsert :: "string \<Rightarrow> string \<Rightarrow> time \<Rightarrow> time \<Rightarrow> lease_row list \<Rightarrow> nat \<times> lease_row list" where
  "lease_upsert name holder expires now rows = (case lease_find name rows of
       None \<Rightarrow> (1, rows @ [\<lparr>lr_name = name, lr_holder = holder, lr_expires_at = expires\<rparr>])
     | Some r \<Rightarrow>
         if lr_holder r = holder \<or> lr_expires_at r < now then
           (1, map (\<lambda>x. if lr_name x = name
                        then x\<lparr>lr_holder := holder, lr_expires_at := expires\<rparr> else x) rows)
         else (0, rows))"

definition try_acquire :: "env \<Rightarrow> lease_manager \<Rightarrow> string \<Rightarrow> nat \<Rightarrow> bool prog" where
  "try_acquire e lm name ttl =
     (if lm_backend lm = Sqlite then returnR True
      else
        bindR (utc_now e) (\<lambda>now.
        tryR (sql_stmt e (\<lambda>w.
                case lease_upsert name (lm_holder lm) (now + lease_duration ttl) now (w_leases w) of
                  (n, rows) \<Rightarrow> (Inr n, w\<lparr>w_leases := rows\<rparr>)))
          (\<lambda>res. case res of Inr n \<Rightarrow> returnR (n > 0) | Inl _ \<Rightarrow> returnR False)))"

section \<open>The statement\<close>

lemma lease_find_map:
  "lease_find n (map (\<lambda>x. if lr_name x = name then x\<lparr>lr_holder := h, lr_expires_at := t\<rparr> else x) rows)
   = map_option (\<lambda>x. if n = name then x\<lparr>lr_holder := h, lr_expires_at := t\<rparr> else x) (lease_find n rows)"
  by (induction rows) (auto simp: lease_find_def)

lemma lease_find_append:
  "lease_find n (rows @ [r]) = (case lease_find n rows of None \<Rightarrow> if lr_name r = n then Some r else None | Some x \<Rightarrow> Some x)"
  by (induction rows) (auto simp: lease_find_def)

lemma lease_find_name: "lease_find n rows = Some r \<Longrightarrow> lr_name r = n"
  by (induction rows) (auto simp: lease_find_def split: if_splits)

text \<open>The four cases the comment of \<open>try_acquire\<close> lists.\<close>

lemma lease_upsert_cases:
  assumes "lease_upsert name h x now rows = (n, rows')"
  shows "n > 0 \<longleftrightarrow> (case lease_find name rows of None \<Rightarrow> True
           | Some r \<Rightarrow> lr_holder r = h \<or> lr_expires_at r < now)"
    and "n > 0 \<Longrightarrow> lease_find name rows' = Some \<lparr>lr_name = name, lr_holder = h, lr_expires_at = x\<rparr>"
    and "n = 0 \<Longrightarrow> rows' = rows"
    and "m \<noteq> name \<Longrightarrow> lease_find m rows' = lease_find m rows"
proof -
  show "n > 0 \<longleftrightarrow> (case lease_find name rows of None \<Rightarrow> True
           | Some r \<Rightarrow> lr_holder r = h \<or> lr_expires_at r < now)"
    and "n = 0 \<Longrightarrow> rows' = rows"
    using assms by (auto simp: lease_upsert_def split: option.splits if_splits)
  show "lease_find name rows' = Some \<lparr>lr_name = name, lr_holder = h, lr_expires_at = x\<rparr>" if "n > 0"
  proof (cases "lease_find name rows")
    case None
    with assms that show ?thesis by (auto simp: lease_upsert_def lease_find_append)
  next
    case (Some r)
    with assms that lease_find_name [OF Some] show ?thesis
      by (auto simp: lease_upsert_def lease_find_map intro!: lease_row.equality split: if_splits)
  qed
  show "m \<noteq> name \<Longrightarrow> lease_find m rows' = lease_find m rows"
    using assms
    by (auto simp: lease_upsert_def lease_find_append lease_find_map option.map_ident
        split: option.splits if_splits)
qed

lemma try_acquire_postgres:
  assumes "lm_backend lm = Postgres" "\<not> env_fails e (w_stmts w)"
  shows "try_acquire e lm name ttl w =
    (case lease_upsert name (lm_holder lm) (env_now e (w_ticks w) + lease_duration ttl)
            (env_now e (w_ticks w)) (w_leases w) of
       (n, rows) \<Rightarrow> (Inr (n > 0), w\<lparr>w_leases := rows, w_ticks := Suc (w_ticks w), w_stmts := Suc (w_stmts w)\<rparr>))"
  using assms
  by (auto simp: try_acquire_def bindR_def tryR_def utc_now_def sql_stmt_def Let_def returnR_def
      split: prod.split)

lemma try_acquire_returns: "\<exists>b. fst (try_acquire e lm name ttl w) = Inr b"
  by (auto simp: try_acquire_def bindR_def tryR_def utc_now_def sql_stmt_def Let_def returnR_def
      split: prod.split)

lemma keeps_try_acquire [keeps_intros]:
  assumes "counter_free f" "\<And>w g. f (w\<lparr>w_leases := g\<rparr>) = f w"
  shows "keeps f (try_acquire e lm name ttl)"
  unfolding try_acquire_def
  by (intro keeps_intros keeps_sql_stmt assms(1)) (auto simp: keeps_def assms(2) split: prod.split)

section \<open>Several masters\<close>

text \<open>
  A system of masters contending for one lease. An attempt of holder \<open>h\<close> at true time \<open>t\<close> reads
  a clock \<open>c\<close> with \<open>\<bar>c - t\<bar> \<le> d\<close> and runs the statement of \<open>try_acquire\<close>; other leases live in the
  same table, and an attempt whose statement fails leaves it alone. The history collects the
  successful attempts, newest first.
\<close>

record lease_sys =
  ls_rows :: "lease_row list"
  ls_time :: time
  ls_hist :: "(string \<times> time) list"

inductive lease_step :: "string \<Rightarrow> int \<Rightarrow> int \<Rightarrow> lease_sys \<Rightarrow> lease_sys \<Rightarrow> bool" for name ttl d where
  attempt:
    "\<lbrakk>ls_time s \<le> t; \<bar>c - t\<bar> \<le> d; lease_upsert name h (c + ttl) c (ls_rows s) = (n, rows)\<rbrakk> \<Longrightarrow>
     lease_step name ttl d s
       \<lparr>ls_rows = rows, ls_time = t, ls_hist = (if n > 0 then (h, t) # ls_hist s else ls_hist s)\<rparr>"
| other:
    "\<lbrakk>ls_time s \<le> t; name' \<noteq> name; lease_upsert name' h x c (ls_rows s) = (n, rows)\<rbrakk> \<Longrightarrow>
     lease_step name ttl d s (s\<lparr>ls_rows := rows, ls_time := t\<rparr>)"
| idle: "ls_time s \<le> t \<Longrightarrow> lease_step name ttl d s (s\<lparr>ls_time := t\<rparr>)"

inductive_cases lease_stepE: "lease_step name ttl d s s'"

inductive lease_run :: "string \<Rightarrow> int \<Rightarrow> int \<Rightarrow> lease_sys \<Rightarrow> lease_sys \<Rightarrow> bool" for name ttl d where
  run_start: "lease_run name ttl d s s"
| run_step: "\<lbrakk>lease_run name ttl d s s'; lease_step name ttl d s' s''\<rbrakk> \<Longrightarrow> lease_run name ttl d s s''"

text \<open>Successes of different holders are at least \<open>ttl - 2d\<close> apart.\<close>

fun spaced :: "int \<Rightarrow> (string \<times> time) list \<Rightarrow> bool" where
  "spaced gap [] = True"
| "spaced gap ((h, t) # hist) = ((\<forall>(h', t') \<in> set hist. h' \<noteq> h \<longrightarrow> t' + gap < t) \<and> spaced gap hist)"

definition lease_inv :: "string \<Rightarrow> int \<Rightarrow> int \<Rightarrow> lease_sys \<Rightarrow> bool" where
  "lease_inv name ttl d s \<longleftrightarrow>
     spaced (ttl - 2 * d) (ls_hist s) \<and>
     (\<forall>(h, t) \<in> set (ls_hist s). t \<le> ls_time s \<and>
        (\<exists>r. lease_find name (ls_rows s) = Some r \<and>
          (if lr_holder r = h then t - d + ttl \<le> lr_expires_at r else t + (ttl - 2 * d) < ls_time s)))"

lemma lease_inv_init: "lease_inv name ttl d \<lparr>ls_rows = rows, ls_time = t, ls_hist = []\<rparr>"
  by (simp add: lease_inv_def)

lemma lease_inv_fail:
  assumes "lease_inv name ttl d s" "ls_time s \<le> t"
  shows "lease_inv name ttl d (s\<lparr>ls_time := t\<rparr>)"
  using assms by (fastforce simp: lease_inv_def split: if_splits)

lemma lease_inv_rows:
  assumes "lease_inv name ttl d s" "lease_find name rows = lease_find name (ls_rows s)"
  shows "lease_inv name ttl d (s\<lparr>ls_rows := rows\<rparr>)"
proof -
  let ?s = "s\<lparr>ls_rows := rows\<rparr>"
  have eq: "lease_find name (ls_rows ?s) = lease_find name (ls_rows s)" "ls_hist ?s = ls_hist s" "ls_time ?s = ls_time s"
    using assms(2) by simp_all
  show ?thesis using assms(1) unfolding lease_inv_def eq .
qed

lemma lease_inv_win:
  assumes inv: "lease_inv name ttl d s" and t: "ls_time s \<le> t" "\<bar>c - t\<bar> \<le> d"
    and up: "lease_upsert name h (c + ttl) c (ls_rows s) = (n, rows)" and n: "n > 0"
  shows "lease_inv name ttl d \<lparr>ls_rows = rows, ls_time = t, ls_hist = (h, t) # ls_hist s\<rparr>"
proof -
  have row: "lease_find name rows = Some \<lparr>lr_name = name, lr_holder = h, lr_expires_at = c + ttl\<rparr>"
    using lease_upsert_cases(2) [OF up n] .
  have past: "t' \<le> t \<and> (h' \<noteq> h \<longrightarrow> t' + (ttl - 2 * d) < t)" if "(h', t') \<in> set (ls_hist s)" for h' t'
  proof -
    from inv that obtain r where r: "lease_find name (ls_rows s) = Some r" "t' \<le> ls_time s"
      and cs: "if lr_holder r = h' then t' - d + ttl \<le> lr_expires_at r else t' + (ttl - 2 * d) < ls_time s"
      by (fastforce simp: lease_inv_def)
    have free: "lr_holder r = h \<or> lr_expires_at r < c"
      using lease_upsert_cases(1) [OF up] n r(1) by simp
    show ?thesis using cs free r(2) t by (auto split: if_splits)
  qed
  moreover have "spaced (ttl - 2 * d) (ls_hist s)" using inv by (simp add: lease_inv_def)
  ultimately show ?thesis
    using row t by (fastforce simp: lease_inv_def)
qed

lemma lease_inv_step: "lease_inv name ttl d s \<Longrightarrow> lease_step name ttl d s s' \<Longrightarrow> lease_inv name ttl d s'"
proof (erule lease_stepE)
  fix t c h n rows
  assume inv: "lease_inv name ttl d s" and t: "ls_time s \<le> t" "\<bar>c - t\<bar> \<le> d"
    and up: "lease_upsert name h (c + ttl) c (ls_rows s) = (n, rows)"
    and s': "s' = \<lparr>ls_rows = rows, ls_time = t, ls_hist = (if 0 < n then (h, t) # ls_hist s else ls_hist s)\<rparr>"
  show "lease_inv name ttl d s'"
  proof (cases "n > 0")
    case True
    with lease_inv_win [OF inv t up] s' show ?thesis by simp
  next
    case False
    with up have "rows = ls_rows s" using lease_upsert_cases(3) by fastforce
    with False s' have "s' = s\<lparr>ls_time := t\<rparr>" by simp
    with lease_inv_fail [OF inv t(1)] show ?thesis by simp
  qed
next
  fix t name' h x c n rows
  assume inv: "lease_inv name ttl d s" and t: "ls_time s \<le> t" and m: "name' \<noteq> name"
    and up: "lease_upsert name' h x c (ls_rows s) = (n, rows)" and s': "s' = s\<lparr>ls_rows := rows, ls_time := t\<rparr>"
  have "lease_find name rows = lease_find name (ls_rows s)" by (rule lease_upsert_cases(4) [OF up m [symmetric]])
  from lease_inv_fail [OF lease_inv_rows [OF inv this], of t] t show "lease_inv name ttl d s'" by (simp add: s')
qed (auto intro: lease_inv_fail)

lemma lease_inv_run: "lease_run name ttl d s s' \<Longrightarrow> lease_inv name ttl d s \<Longrightarrow> lease_inv name ttl d s'"
  by (induction rule: lease_run.induct) (auto intro: lease_inv_step)

lemma spaced_nth:
  assumes "spaced gap hist" "i < j" "j < length hist" "fst (hist ! i) \<noteq> fst (hist ! j)"
  shows "snd (hist ! j) + gap < snd (hist ! i)"
  using assms
proof (induction hist arbitrary: i j)
  case (Cons a hist)
  obtain h t where a: "a = (h, t)" by force
  show ?case
  proof (cases i)
    case 0
    with Cons.prems obtain j' where j: "j = Suc j'" "j' < length hist" by (cases j) auto
    then have "hist ! j' \<in> set hist" by simp
    with Cons.prems 0 a j show ?thesis by (fastforce simp: case_prod_beta)
  next
    case (Suc i')
    with Cons.prems obtain j' where "j = Suc j'" by (cases j) auto
    with Suc Cons a show ?thesis by auto
  qed
qed simp

section \<open>Properties\<close>

text \<open>
  C2. Mutual exclusion: in every run of any number of masters whose clocks are within \<open>d\<close> of true
  time, two successes of different masters are more than \<open>ttl - 2d\<close> apart, so a master that
  succeeded can work that long undisturbed.
\<close>

theorem lease_mutual_exclusion:
  assumes "lease_run name ttl d \<lparr>ls_rows = rows, ls_time = t0, ls_hist = []\<rparr> s"
    and "i < j" "j < length (ls_hist s)" "fst (ls_hist s ! i) \<noteq> fst (ls_hist s ! j)"
  shows "snd (ls_hist s ! j) + (ttl - 2 * d) < snd (ls_hist s ! i)"
proof -
  have "lease_inv name ttl d s" using assms(1) lease_inv_init by (rule lease_inv_run)
  then have "spaced (ttl - 2 * d) (ls_hist s)" by (simp add: lease_inv_def)
  from spaced_nth [OF this assms(2-4)] show ?thesis .
qed

text \<open>Two masters, the second taking over at time 40 a lease of 30.\<close>

definition takeover :: lease_sys where
  "takeover = \<lparr>ls_rows = [\<lparr>lr_name = ''l'', lr_holder = ''b'', lr_expires_at = 70\<rparr>], ls_time = 40,
     ls_hist = [(''b'', 40), (''a'', 0)]\<rparr>"

lemma takeover_run: "lease_run ''l'' 30 1 \<lparr>ls_rows = [], ls_time = 0, ls_hist = []\<rparr> takeover"
proof -
  let ?s0 = "\<lparr>ls_rows = [], ls_time = 0, ls_hist = []\<rparr> :: lease_sys"
  let ?s1 = "\<lparr>ls_rows = [\<lparr>lr_name = ''l'', lr_holder = ''a'', lr_expires_at = 30\<rparr>], ls_time = 0, ls_hist = [(''a'', 0)]\<rparr> :: lease_sys"
  have "lease_step ''l'' 30 1 ?s0 ?s1"
    using lease_step.attempt [of ?s0 0 0 1 "''l''" "''a''" 30] by (simp add: lease_upsert_def lease_find_def)
  moreover have "lease_step ''l'' 30 1 ?s1 takeover"
    using lease_step.attempt [of ?s1 40 40 1 "''l''" "''b''" 30]
    by (simp add: lease_upsert_def lease_find_def takeover_def)
  ultimately show ?thesis by (intro run_step [OF run_step [OF run_start]])
qed

theorem lease_mutual_exclusion_witness:
  "snd (ls_hist takeover ! 1) + 28 < snd (ls_hist takeover ! 0)"
  using lease_mutual_exclusion [OF takeover_run, of 0 1] by (simp add: takeover_def)

text \<open>
  C15. \<open>try_acquire\<close> implements the steps of that system: with the Postgres backend every call, with
  whatever outcome of its statement, is a step at the time it is made, and it adds a success of its
  holder exactly when it returns true.
\<close>

theorem try_acquire_refines:
  assumes "lm_backend lm = Postgres" "try_acquire e lm name ttl w = (Inr b, w')"
    and "ls_rows s = w_leases w" "ls_time s \<le> t" "\<bar>env_now e (w_ticks w) - t\<bar> \<le> d"
  shows "lease_step name (lease_duration ttl) d s
    \<lparr>ls_rows = w_leases w', ls_time = t, ls_hist = (if b then (lm_holder lm, t) # ls_hist s else ls_hist s)\<rparr>"
proof (cases "env_fails e (w_stmts w)")
  case True
  with assms(1,2) have "b = False" "w_leases w' = w_leases w"
    by (auto simp: try_acquire_def bindR_def tryR_def utc_now_def sql_stmt_def Let_def returnR_def)
  with lease_step.idle [OF assms(4), of name "lease_duration ttl" d] assms(3) show ?thesis
    by (metis (full_types) lease_sys.surjective lease_sys.update_convs(2) old.unit.exhaust)
next
  case False
  obtain n rows where up: "lease_upsert name (lm_holder lm) (env_now e (w_ticks w) + lease_duration ttl)
      (env_now e (w_ticks w)) (ls_rows s) = (n, rows)" by force
  with try_acquire_postgres [OF assms(1) False, of name ttl] assms(2,3) have "b = (n > 0)" "w_leases w' = rows" by auto
  with lease_step.attempt [OF assms(4,5) up] show ?thesis by simp
qed

definition master :: lease_manager where
  "master = \<lparr>lm_holder = ''a'', lm_backend = Postgres\<rparr>"

definition clock_env :: env where
  "clock_env = \<lparr>env_uuid = word_of_nat, env_uuid_str = (\<lambda>_. ''u''), env_now = int, env_fails = (\<lambda>_. False)\<rparr>"

lemma master_acquires: "\<exists>w'. try_acquire clock_env master ''l'' 30 empty_world = (Inr True, w') \<and> w_leases w' \<noteq> []"
  by (simp add: try_acquire_postgres master_def clock_env_def lease_upsert_def lease_find_def empty_world_def)

theorem try_acquire_refines_witness:
  "\<exists>w'. try_acquire clock_env master ''l'' 30 empty_world = (Inr True, w') \<and>
     lease_step ''l'' 30 0 \<lparr>ls_rows = [], ls_time = 0, ls_hist = []\<rparr>
       \<lparr>ls_rows = w_leases w', ls_time = 0, ls_hist = [(''a'', 0)]\<rparr>"
proof -
  obtain w' where a: "try_acquire clock_env master ''l'' 30 empty_world = (Inr True, w')" using master_acquires by blast
  have "lm_backend master = Postgres" by (simp add: master_def)
  from try_acquire_refines [OF this a, of "\<lparr>ls_rows = [], ls_time = 0, ls_hist = []\<rparr>" 0 0] a show ?thesis
    by (simp add: empty_world_def clock_env_def master_def lease_duration_def)
qed

text \<open>
  The decision of \<open>try_acquire\<close> when its statement runs: it returns true exactly when nobody has
  the lease, the caller has it, or it has expired; then the caller has it until \<open>now + ttl\<close>, and
  otherwise the table is unchanged. No other lease is touched.
\<close>

theorem try_acquire_decides:
  assumes "lm_backend lm = Postgres" "\<not> env_fails e (w_stmts w)" "try_acquire e lm name ttl w = (Inr b, w')"
  shows "(b \<longleftrightarrow> (case lease_find name (w_leases w) of None \<Rightarrow> True
        | Some r \<Rightarrow> lr_holder r = lm_holder lm \<or> lr_expires_at r < env_now e (w_ticks w))) \<and>
    lease_find name (w_leases w') = (if b
       then Some \<lparr>lr_name = name, lr_holder = lm_holder lm, lr_expires_at = env_now e (w_ticks w) + lease_duration ttl\<rparr>
       else lease_find name (w_leases w)) \<and>
    (\<forall>m. m \<noteq> name \<longrightarrow> lease_find m (w_leases w') = lease_find m (w_leases w))"
proof -
  obtain n rows where up: "lease_upsert name (lm_holder lm) (env_now e (w_ticks w) + lease_duration ttl)
      (env_now e (w_ticks w)) (w_leases w) = (n, rows)" by force
  with try_acquire_postgres [OF assms(1,2), of name ttl] assms(3) have "b = (n > 0)" "w_leases w' = rows" by auto
  with lease_upsert_cases [OF up] show ?thesis by auto
qed

theorem try_acquire_decides_witness:
  "\<exists>w'. try_acquire clock_env master ''l'' 30 empty_world = (Inr True, w') \<and>
     lease_find ''l'' (w_leases w') = Some \<lparr>lr_name = ''l'', lr_holder = ''a'', lr_expires_at = 30\<rparr>"
proof -
  obtain w' where a: "try_acquire clock_env master ''l'' 30 empty_world = (Inr True, w')" using master_acquires by blast
  have "lm_backend master = Postgres" "\<not> env_fails clock_env (w_stmts empty_world)"
    by (simp_all add: master_def clock_env_def)
  from try_acquire_decides [OF this a] a show ?thesis
    by (simp add: empty_world_def clock_env_def master_def lease_duration_def)
qed

end
