(* ===== verification/Controller.thy ===== *)
theory Controller
  imports Recorder Bus Lease
begin

text \<open>
  The controller manager (\<open>src/src/server/controller.rs\<close>): one reconciliation per workload kind, the
  pod controller, and the loop that runs each under its lease. Log lines have no counterpart;
  everything that reads or writes the database, draws a UUID, reads the clock or publishes is in the
  order of the code. An \<open>if let Err(e)\<close> that only logs is a \<open>tryR\<close> that goes on.
\<close>

definition lease_ttl :: nat where
  "lease_ttl = 30 * 1000000000"

section \<open>Object references\<close>

definition ref_to :: "string \<Rightarrow> string \<Rightarrow> object_meta \<Rightarrow> object_reference" where
  "ref_to api_version kind m = \<lparr>oref_api_version = Some api_version, oref_kind = Some kind,
     oref_name = om_name m, oref_namespace = om_namespace m, oref_uid = om_uid m,
     oref_resource_version = None, oref_field_path = None\<rparr>"

definition pod_ref :: "pod \<Rightarrow> object_reference" where
  "pod_ref p = ref_to ''v1'' ''Pod'' (pod_metadata p)"

definition deployment_ref :: "deployment \<Rightarrow> object_reference" where
  "deployment_ref d = ref_to ''apps/v1'' ''Deployment'' (dep_metadata d)"

definition statefulset_ref :: "stateful_set \<Rightarrow> object_reference" where
  "statefulset_ref s = ref_to ''apps/v1'' ''StatefulSet'' (sts_metadata s)"

definition daemonset_ref :: "daemon_set \<Rightarrow> object_reference" where
  "daemonset_ref d = ref_to ''apps/v1'' ''DaemonSet'' (dms_metadata d)"

section \<open>Pods built from a template\<close>

definition owner_ref :: "string \<Rightarrow> string \<Rightarrow> uuid \<Rightarrow> owner_reference" where
  "owner_ref kind name uid = \<lparr>owr_api_version = ''apps/v1'', owr_kind = kind, owr_name = name,
     owr_uid = uid, owr_controller = Some True, owr_block_owner_deletion = Some True\<rparr>"

definition pod_from_template ::
  "pod_template_spec \<Rightarrow> string \<Rightarrow> string \<Rightarrow> uuid \<Rightarrow> owner_reference \<Rightarrow> pod" where
  "pod_from_template template ns pod_name uid owner = \<lparr>
     pod_type_meta = type_meta_of ''v1'' ''Pod'',
     pod_metadata = object_meta_default
       \<lparr>om_name := Some pod_name, om_namespace := Some ns, om_uid := Some uid,
        om_labels := om_labels (tpl_metadata template),
        om_annotations := om_annotations (tpl_metadata template),
        om_owner_references := Some [owner]\<rparr>,
     pod_spec = tpl_spec template,
     pod_status = Some (pod_status_default\<lparr>pt_phase := Pending\<rparr>)\<rparr>"

definition pod_for_statefulset :: "env \<Rightarrow> stateful_set \<Rightarrow> uuid \<Rightarrow> string \<Rightarrow> pod prog" where
  "pod_for_statefulset e ss ss_uid pod_name =
     bindR (new_v4 e) (\<lambda>uid.
     returnR (pod_from_template (ss_template (sts_spec ss)) (meta_namespace (sts_metadata ss)) pod_name uid
       (owner_ref ''StatefulSet'' (meta_name (sts_metadata ss)) ss_uid)))"

text \<open>Daemon pods are bound to their node from the start.\<close>

definition pod_for_daemonset :: "env \<Rightarrow> daemon_set \<Rightarrow> uuid \<Rightarrow> string \<Rightarrow> string \<Rightarrow> pod prog" where
  "pod_for_daemonset e ds ds_uid pod_name node_name =
     bindR (new_v4 e) (\<lambda>uid.
     let p = pod_from_template (dmsp_template (dms_spec ds)) (meta_namespace (dms_metadata ds)) pod_name uid
               (owner_ref ''DaemonSet'' (meta_name (dms_metadata ds)) ds_uid)
     in returnR (p\<lparr>pod_spec := (pod_spec p)\<lparr>ps_node_name := Some node_name\<rparr>\<rparr>))"

section \<open>Shared tests\<close>

definition owned_by :: "uuid option \<Rightarrow> pod \<Rightarrow> bool" where
  "owned_by uid p = (case om_owner_references (pod_metadata p) of
       Some refs \<Rightarrow> list_ex (\<lambda>r. Some (owr_uid r) = uid) refs | None \<Rightarrow> False)"

definition is_running :: "pod \<Rightarrow> bool" where
  "is_running p = (case pod_status p of Some s \<Rightarrow> pt_phase s = Running | None \<Rightarrow> False)"

text \<open>\<open>len() as i32\<close> and \<open>x as usize\<close>.\<close>

definition len_i32 :: "'a list \<Rightarrow> i32" where
  "len_i32 xs = wrap_i32 (int (length xs))"

definition as_usize :: "i32 \<Rightarrow> nat" where
  "as_usize z = (if z < 0 then nat (z + 18446744073709551616) else nat z)"

text \<open>The first eight characters of a fresh UUID.\<close>

definition pod_suffix :: "env \<Rightarrow> string prog" where
  "pod_suffix e = bindR (new_v4 e) (\<lambda>u. returnR (take 8 (env_uuid_str e u)))"

text \<open>Run the body on each element; its error is logged.\<close>

definition for_each_logged :: "('x \<Rightarrow> 'b prog) \<Rightarrow> 'x list \<Rightarrow> unit prog" where
  "for_each_logged body xs = foldR (\<lambda>x _. tryR (body x) (\<lambda>_. returnR ())) xs ()"

section \<open>Deployments\<close>

definition create_pod_for_deployment :: "env \<Rightarrow> deployment \<Rightarrow> unit prog" where
  "create_pod_for_deployment e d =
     bindR (uid_or_new e (om_uid (dep_metadata d))) (\<lambda>deployment_uid.
     bindR (pod_suffix e) (\<lambda>suffix.
     bindR (new_v4 e) (\<lambda>uid.
     let ns = meta_namespace (dep_metadata d); name = meta_name (dep_metadata d);
         pod_name = name @ ''-'' @ suffix;
         pod = pod_from_template (ds_template (dep_spec d)) ns pod_name uid
                 (owner_ref ''Deployment'' name deployment_uid)
     in bindR (pod_create e pod) (\<lambda>_.
        publish_added ''Pod'' (Some ns) pod_name (KPod pod)))))"

definition deployment_selector :: "deployment \<Rightarrow> smap" where
  "deployment_selector d =
     (let selector = (case ls_match_labels (ds_selector (dep_spec d)) of Some s \<Rightarrow> s | None \<Rightarrow> [])
      in if selector = [] then
           (case om_labels (tpl_metadata (ds_template (dep_spec d))) of Some l \<Rightarrow> l | None \<Rightarrow> [])
         else selector)"

definition scale_message :: "string \<Rightarrow> string \<Rightarrow> i32 \<Rightarrow> i32 \<Rightarrow> string" where
  "scale_message dir name current desired =
     ''Scaled '' @ dir @ '' replica set '' @ name @ '' from '' @ show_int current @ '' to '' @ show_int desired"

definition delete_and_publish :: "env \<Rightarrow> string \<Rightarrow> pod \<Rightarrow> unit prog" where
  "delete_and_publish e ns pod = (case om_name (pod_metadata pod) of
       None \<Rightarrow> returnR ()
     | Some name \<Rightarrow>
         tryR (pod_delete e ns name) (\<lambda>_. publish_deleted ''Pod'' (Some ns) name (KPod pod)))"

definition scale_deployment :: "env \<Rightarrow> deployment \<Rightarrow> pod list \<Rightarrow> unit prog" where
  "scale_deployment e d owned =
     (let ns = meta_namespace (dep_metadata d); name = meta_name (dep_metadata d);
          desired = deployment_replicas (dep_spec d); current = len_i32 owned
      in if current < desired then
           bindR (emit_event e (deployment_ref d) ns ET_Normal ''ScalingReplicaSet''
                    (scale_message ''up'' name current desired) ''deployment-controller'') (\<lambda>_.
           for_each_logged (\<lambda>_. create_pod_for_deployment e d) [0 ..< nat (wrap_i32 (desired - current))])
         else if current > desired then
           bindR (emit_event e (deployment_ref d) ns ET_Normal ''ScalingReplicaSet''
                    (scale_message ''down'' name current desired) ''deployment-controller'') (\<lambda>_.
           for_each_logged (delete_and_publish e ns) (take (as_usize (wrap_i32 (current - desired))) owned))
         else returnR ())"

definition reconcile_deployment :: "env \<Rightarrow> deployment \<Rightarrow> unit prog" where
  "reconcile_deployment e d =
     (let ns = meta_namespace (dep_metadata d); name = meta_name (dep_metadata d);
          selector = deployment_selector d
      in bindR (pod_list e (Some ns) (if selector = [] then None else Some selector)) (\<lambda>pods.
         let owned = filter (owned_by (om_uid (dep_metadata d))) pods;
             ready = len_i32 (filter is_running owned)
         in bindR (scale_deployment e d owned) (\<lambda>_.
            deployment_update_status e ns name ready ready)))"

definition reconcile_deployments :: "env \<Rightarrow> unit prog" where
  "reconcile_deployments e = bindR (deployment_list e None) (for_each_logged (reconcile_deployment e))"

section \<open>Stateful sets\<close>

definition sts_pod_name :: "stateful_set \<Rightarrow> int \<Rightarrow> string" where
  "sts_pod_name ss i = meta_name (sts_metadata ss) @ ''-'' @ show_int i"

text \<open>
  The loop over the indices: the accumulator is \<open>(current, ready)\<close>, and leaving the loop early is
  returning it. Every error of the lookup counts as a missing pod.
\<close>

fun statefulset_loop :: "env \<Rightarrow> stateful_set \<Rightarrow> uuid \<Rightarrow> int list \<Rightarrow> i32 \<times> i32 \<Rightarrow> (i32 \<times> i32) prog" where
  "statefulset_loop e ss ss_uid [] acc = returnR acc"
| "statefulset_loop e ss ss_uid (i # rest) acc =
     (let ns = meta_namespace (sts_metadata ss); pod_name = sts_pod_name ss i;
          parallel = is_parallel (sts_spec ss)
      in tryR (pod_get e ns pod_name) (\<lambda>res. case res of
           Inr pod \<Rightarrow>
             if is_running pod then statefulset_loop e ss ss_uid rest (fst acc + 1, snd acc + 1)
             else if \<not> parallel then returnR (fst acc + 1, snd acc)
             else statefulset_loop e ss ss_uid rest (fst acc + 1, snd acc)
         | Inl _ \<Rightarrow>
             bindR (pod_for_statefulset e ss ss_uid pod_name) (\<lambda>pod.
             tryR (pod_create e pod) (\<lambda>cres. case cres of
                 Inl _ \<Rightarrow> returnR acc
               | Inr _ \<Rightarrow>
                   bindR (publish_added ''Pod'' (Some ns) pod_name (KPod pod)) (\<lambda>_.
                   bindR (emit_event e (statefulset_ref ss) ns ET_Normal ''SuccessfulCreate''
                            (''create Pod '' @ pod_name @ '' in StatefulSet '' @ meta_name (sts_metadata ss)
                             @ '' successful'') ''statefulset-controller'') (\<lambda>_.
                   if \<not> parallel then returnR acc
                   else statefulset_loop e ss ss_uid rest acc))))))"

text \<open>\<open>(desired..desired + 32).rev()\<close>\<close>

definition trim_indices :: "i32 \<Rightarrow> int list" where
  "trim_indices desired = rev [desired .. wrap_i32 (desired + 32) - 1]"

definition trim_statefulset_pod :: "env \<Rightarrow> stateful_set \<Rightarrow> int \<Rightarrow> unit prog" where
  "trim_statefulset_pod e ss i =
     (let ns = meta_namespace (sts_metadata ss); pod_name = sts_pod_name ss i
      in tryR (pod_get e ns pod_name) (\<lambda>res. case res of
           Inl _ \<Rightarrow> returnR ()
         | Inr pre \<Rightarrow> tryR (pod_delete e ns pod_name) (\<lambda>_.
             publish_deleted ''Pod'' (Some ns) pod_name (KPod pre))))"

definition reconcile_statefulset :: "env \<Rightarrow> stateful_set \<Rightarrow> unit prog" where
  "reconcile_statefulset e ss =
     (let desired = stateful_set_replicas (sts_spec ss)
      in bindR (uid_or_new e (om_uid (sts_metadata ss))) (\<lambda>ss_uid.
         bindR (statefulset_loop e ss ss_uid [0 .. desired - 1] (0, 0)) (\<lambda>(current, ready).
         bindR (for_each_logged (trim_statefulset_pod e ss) (trim_indices desired)) (\<lambda>_.
         stateful_set_update_status e (meta_namespace (sts_metadata ss)) (meta_name (sts_metadata ss))
           ready current))))"

definition reconcile_statefulsets :: "env \<Rightarrow> unit prog" where
  "reconcile_statefulsets e = bindR (stateful_set_list e None) (for_each_logged (reconcile_statefulset e))"

section \<open>Daemon sets\<close>

definition target_node :: "daemon_set \<Rightarrow> node \<Rightarrow> bool" where
  "target_node ds n = (case ps_node_selector (tpl_spec (dmsp_template (dms_spec ds))) of
       Some sel \<Rightarrow> labels_match sel (meta_labels (node_metadata n)) | None \<Rightarrow> True)"

definition daemonset_selector :: "daemon_set \<Rightarrow> smap" where
  "daemonset_selector ds = (case ls_match_labels (dmsp_selector (dms_spec ds)) of
       Some s \<Rightarrow> s
     | None \<Rightarrow> (case om_labels (tpl_metadata (dmsp_template (dms_spec ds))) of Some l \<Rightarrow> l | None \<Rightarrow> []))"

definition create_daemon_pod :: "env \<Rightarrow> daemon_set \<Rightarrow> uuid \<Rightarrow> string list \<Rightarrow> node \<Rightarrow> unit prog" where
  "create_daemon_pod e ds ds_uid covered node =
     (let ns = meta_namespace (dms_metadata ds); name = meta_name (dms_metadata ds);
          node_name = meta_name (node_metadata node)
      in if node_name \<in> set covered then returnR ()
         else
           bindR (pod_suffix e) (\<lambda>suffix.
           let pod_name = name @ ''-'' @ suffix in
           bindR (pod_for_daemonset e ds ds_uid pod_name node_name) (\<lambda>pod.
           tryR (pod_create e pod) (\<lambda>res. case res of
               Inl _ \<Rightarrow> returnR ()
             | Inr _ \<Rightarrow>
                 bindR (publish_added ''Pod'' (Some ns) pod_name (KPod pod)) (\<lambda>_.
                 emit_event e (daemonset_ref ds) ns ET_Normal ''SuccessfulCreate''
                   (''Created pod: '' @ pod_name) ''daemonset-controller'')))))"

text \<open>This deletion publishes nothing.\<close>

definition delete_daemon_pod :: "env \<Rightarrow> daemon_set \<Rightarrow> string list \<Rightarrow> pod \<Rightarrow> unit prog" where
  "delete_daemon_pod e ds targets pod = (case ps_node_name (pod_spec pod) of
       None \<Rightarrow> returnR ()
     | Some node_name \<Rightarrow>
         if node_name \<in> set targets then returnR ()
         else (case om_name (pod_metadata pod) of
                 None \<Rightarrow> returnR ()
               | Some pod_name \<Rightarrow>
                   tryR (pod_delete e (meta_namespace (dms_metadata ds)) pod_name) (\<lambda>_. returnR ())))"

definition reconcile_daemonset :: "env \<Rightarrow> node list \<Rightarrow> daemon_set \<Rightarrow> unit prog" where
  "reconcile_daemonset e nodes ds =
     (let ns = meta_namespace (dms_metadata ds); name = meta_name (dms_metadata ds);
          target_nodes = filter (target_node ds) nodes;
          targets = map (\<lambda>n. meta_name (node_metadata n)) target_nodes;
          selector = daemonset_selector ds
      in bindR (uid_or_new e (om_uid (dms_metadata ds))) (\<lambda>ds_uid.
         bindR (if selector = [] then returnR [] else pod_list e (Some ns) (Some selector)) (\<lambda>existing.
         let owned = filter (owned_by (om_uid (dms_metadata ds))) existing;
             covered = List.map_filter (\<lambda>p. ps_node_name (pod_spec p)) owned
         in bindR (for_each_logged (create_daemon_pod e ds ds_uid covered) target_nodes) (\<lambda>_.
            bindR (for_each_logged (delete_daemon_pod e ds targets) owned) (\<lambda>_.
            daemon_set_update_status e ns name (len_i32 target_nodes) (len_i32 owned)
              (len_i32 (filter is_running owned)))))))"

definition reconcile_daemonsets :: "env \<Rightarrow> unit prog" where
  "reconcile_daemonsets e =
     bindR (daemon_set_list e None) (\<lambda>sets.
     if sets = [] then returnR ()
     else bindR (node_list_ready e) (\<lambda>nodes. for_each_logged (reconcile_daemonset e nodes) sets))"

section \<open>Pods\<close>

definition phase_of :: "pod \<Rightarrow> pod_phase" where
  "phase_of p = (case pod_status p of Some s \<Rightarrow> pt_phase s | None \<Rightarrow> Pending)"

text \<open>A Running pod on a node that is not Ready is marked Failed.\<close>

definition mark_failed :: "env \<Rightarrow> string list \<Rightarrow> pod \<Rightarrow> unit prog" where
  "mark_failed e ready_nodes pod = (case ps_node_name (pod_spec pod) of
       None \<Rightarrow> returnR ()
     | Some node_name \<Rightarrow>
         if node_name \<notin> set ready_nodes \<and> phase_of pod = Running then
           (let ns = meta_namespace (pod_metadata pod); pod_name = meta_name (pod_metadata pod);
                new_status = pod_status_default\<lparr>pt_phase := Failed, pt_pod_ip := None,
                               pt_host_ip := Option.bind (pod_status pod) pt_host_ip\<rparr>
            in tryR (pod_update_status e ns pod_name new_status) (\<lambda>_.
               tryR (pod_get e ns pod_name) (\<lambda>res.
               bindR (case res of
                        Inr updated \<Rightarrow> publish_modified ''Pod'' (Some ns) pod_name (KPod updated)
                      | Inl _ \<Rightarrow> returnR ()) (\<lambda>_.
               emit_event e (pod_ref pod) ns ET_Warning ''NodeNotReady''
                 (''Node '' @ node_name @ '' stopped reporting ready, pod marked Failed'') ''node-controller''))))
         else returnR ())"

definition pod_owned :: "pod \<Rightarrow> bool" where
  "pod_owned p = (case om_owner_references (pod_metadata p) of Some refs \<Rightarrow> refs \<noteq> [] | None \<Rightarrow> False)"

definition restart_always :: "pod \<Rightarrow> bool" where
  "restart_always p = (case ps_restart_policy (pod_spec p) of Some pol \<Rightarrow> pol = RP_Always | None \<Rightarrow> True)"

text \<open>A Failed pod without an owner is deleted and created again, Pending and unbound.\<close>

definition respawn :: "env \<Rightarrow> pod \<Rightarrow> unit prog" where
  "respawn e pod =
     (if \<not> pod_owned pod \<and> phase_of pod = Failed \<and> restart_always pod then
        (let ns = meta_namespace (pod_metadata pod); pod_name = meta_name (pod_metadata pod)
         in tryR (pod_delete e ns pod_name) (\<lambda>_.
            bindR (publish_deleted ''Pod'' (Some ns) pod_name (KPod pod)) (\<lambda>_.
            bindR (new_v4 e) (\<lambda>uid.
            let respun = pod\<lparr>pod_spec := (pod_spec pod)\<lparr>ps_node_name := None\<rparr>,
                             pod_metadata := (pod_metadata pod)\<lparr>om_uid := Some uid\<rparr>,
                             pod_status := Some (pod_status_default\<lparr>pt_phase := Pending\<rparr>)\<rparr>
            in tryR (pod_create e respun) (\<lambda>_.
               publish_added ''Pod'' (Some ns) pod_name (KPod respun))))))
      else returnR ())"

definition reconcile_pod :: "env \<Rightarrow> string list \<Rightarrow> pod \<Rightarrow> unit prog" where
  "reconcile_pod e ready_nodes pod = bindR (mark_failed e ready_nodes pod) (\<lambda>_. respawn e pod)"

definition reconcile_pods :: "env \<Rightarrow> unit prog" where
  "reconcile_pods e =
     bindR (pod_list e None None) (\<lambda>pods.
     bindR (node_list_ready e) (\<lambda>nodes.
     for_each_logged (reconcile_pod e (map (\<lambda>n. meta_name (node_metadata n)) nodes)) pods))"

section \<open>Services\<close>

definition endpoint_address_of :: "pod \<Rightarrow> endpoint_address option" where
  "endpoint_address_of p =
     (if phase_of p \<noteq> Running then None
      else (case Option.bind (pod_status p) pt_pod_ip of
              None \<Rightarrow> None
            | Some ip \<Rightarrow> Some \<lparr>ea_ip = ip, ea_hostname = None, ea_node_name = ps_node_name (pod_spec p),
                             ea_target_ref = Some (ref_to ''v1'' ''Pod'' (pod_metadata p))\<rparr>))"

definition endpoint_port_of :: "service_port \<Rightarrow> endpoint_port" where
  "endpoint_port_of sp = \<lparr>epp_name = spt_name sp,
     epp_port = (case spt_target_port sp of Some (IS_Int p) \<Rightarrow> p | Some (IS_String _) \<Rightarrow> spt_port sp | None \<Rightarrow> spt_port sp),
     epp_protocol = spt_protocol sp\<rparr>"

definition endpoint_subsets :: "service_port list \<Rightarrow> pod list \<Rightarrow> endpoint_subset list" where
  "endpoint_subsets ports pods =
     (let addresses = List.map_filter endpoint_address_of pods
      in if addresses = [] then []
         else [\<lparr>es_addresses = Some addresses, es_not_ready_addresses = None,
                es_ports = Some (map endpoint_port_of ports)\<rparr>])"

definition reconcile_service :: "env \<Rightarrow> service \<Rightarrow> unit prog" where
  "reconcile_service e svc =
     (let ns = meta_namespace (svc_metadata svc); name = meta_name (svc_metadata svc)
      in case sp_selector (svc_spec svc) of
           None \<Rightarrow> returnR ()
         | Some sel \<Rightarrow>
             if sel = [] then returnR ()
             else
               bindR (pod_list e (Some ns) (Some sel)) (\<lambda>pods.
               bindR (new_v4 e) (\<lambda>uid.
               bindR (endpoints_create_or_update e \<lparr>ep_type_meta = type_meta_of ''v1'' ''Endpoints'',
                        ep_metadata = object_meta_default
                          \<lparr>om_name := Some name, om_namespace := Some ns, om_uid := Some uid\<rparr>,
                        ep_subsets = endpoint_subsets (sp_ports (svc_spec svc)) pods\<rparr>) (\<lambda>_.
               returnR ()))))"

definition reconcile_services :: "env \<Rightarrow> unit prog" where
  "reconcile_services e = bindR (service_list e None) (for_each_logged (reconcile_service e))"

section \<open>The loop\<close>

definition under_lease :: "env \<Rightarrow> lease_manager \<Rightarrow> string \<Rightarrow> unit prog \<Rightarrow> unit prog" where
  "under_lease e lm name work =
     bindR (try_acquire e lm name lease_ttl) (\<lambda>owned.
     if owned then tryR work (\<lambda>_. returnR ()) else returnR ())"

definition controller_tick :: "env \<Rightarrow> lease_manager \<Rightarrow> unit prog" where
  "controller_tick e lm =
     bindR (under_lease e lm ''controller/deployment'' (reconcile_deployments e)) (\<lambda>_.
     bindR (under_lease e lm ''controller/statefulset'' (reconcile_statefulsets e)) (\<lambda>_.
     bindR (under_lease e lm ''controller/daemonset'' (reconcile_daemonsets e)) (\<lambda>_.
     bindR (under_lease e lm ''controller/pod'' (reconcile_pods e)) (\<lambda>_.
     under_lease e lm ''controller/service'' (reconcile_services e)))))"

end
