(* ===== verification/F64.thy ===== *)
theory F64
  imports Text "HOL-Library.Log_Nat" Complex_Main
begin

text \<open>
  The part of Rust's \<open>f64\<close> the scheduler uses. A finite value is the rational it denotes; \<open>rnd\<close>
  rounds a non-negative rational to the nearest 53-bit binary floating-point number, ties to even,
  with the exponent range of IEEE 754 binary64 (subnormals included), so each operation is the exact
  result followed by \<open>rnd\<close>. \<open>parse_f64\<close> is \<open>str::parse::<f64>\<close>: its grammar, and a correctly rounded
  value. The sign of zero is not kept: no operation of the program distinguishes it.
\<close>

section \<open>Rounding\<close>

text \<open>The exponent of a positive rational: \<open>2 powi flog2 q \<le> q < 2 powi (flog2 q + 1)\<close>.\<close>

definition flog2 :: "rat \<Rightarrow> int" where
  "flog2 q = (case quotient_of q of (a, b) \<Rightarrow>
     let k = bitlen a - bitlen b in if 2 powi k \<le> q then k else k - 1)"

text \<open>The distance between neighbouring floating-point numbers around \<open>q\<close>.\<close>

definition ulp :: "rat \<Rightarrow> rat" where
  "ulp q = 2 powi (max (flog2 q) (-1022) - 52)"

definition round_half_even :: "rat \<Rightarrow> int" where
  "round_half_even q = (let f = \<lfloor>q\<rfloor>; d = q - of_int f in
     if d < 1/2 then f else if d > 1/2 then f + 1 else if even f then f else f + 1)"

definition rnd :: "rat \<Rightarrow> rat" where
  "rnd q = (if q \<le> 0 then 0 else of_int (round_half_even (q / ulp q)) * ulp q)"

text \<open>\<open>f64::round\<close> of a non-negative value: halves go away from zero.\<close>

definition round_half_up :: "rat \<Rightarrow> int" where
  "round_half_up q = \<lfloor>q + 1/2\<rfloor>"

datatype f64 = F64 rat | F64_Inf bool | F64_NaN   \<comment> \<open>\<open>F64_Inf True\<close> is minus infinity\<close>

text \<open>The value with sign \<open>neg\<close> and magnitude \<open>q\<close>.\<close>

definition to_f64 :: "bool \<Rightarrow> rat \<Rightarrow> f64" where
  "to_f64 neg q = (let r = rnd q in
     if r > 0 \<and> 1024 \<le> flog2 r then F64_Inf neg else F64 (if neg then - r else r))"

section \<open>Parsing\<close>

definition is_exp_char :: "char \<Rightarrow> bool" where
  "is_exp_char c \<longleftrightarrow> c = CHR ''e'' \<or> c = CHR ''E''"

definition split_sign :: "string \<Rightarrow> bool \<times> string" where
  "split_sign s = (case s of
       [] \<Rightarrow> (False, [])
     | c # r \<Rightarrow> if c = CHR ''-'' then (True, r) else if c = CHR ''+'' then (False, r) else (False, s))"

text \<open>An optional exponent: nothing, or a letter, an optional sign and digits.\<close>

definition parse_exponent :: "string \<Rightarrow> int option" where
  "parse_exponent s = (case s of
       [] \<Rightarrow> Some 0
     | _ # r \<Rightarrow> (case split_sign r of (neg, ds) \<Rightarrow>
         if all_digits ds then Some (if neg then - int (dec_val ds) else int (dec_val ds)) else None))"

text \<open>The digits of the mantissa and how many of them follow the point.\<close>

definition parse_mantissa :: "string \<Rightarrow> (nat \<times> nat) option" where
  "parse_mantissa s = (case splitn2 CHR ''.'' s of
       (ip, None) \<Rightarrow> if all_digits ip then Some (dec_val ip, 0) else None
     | (ip, Some fp) \<Rightarrow>
         if all_digits (ip @ fp) then Some (dec_val (ip @ fp), length fp) else None)"

definition parse_f64 :: "string \<Rightarrow> f64 option" where
  "parse_f64 s = (case split_sign s of (neg, body) \<Rightarrow>
     let lower = map to_lower body in
     if lower = ''inf'' \<or> lower = ''infinity'' then Some (F64_Inf neg)
     else if lower = ''nan'' then Some F64_NaN
     else (case (parse_mantissa (takeWhile (\<lambda>c. \<not> is_exp_char c) body),
                 parse_exponent (dropWhile (\<lambda>c. \<not> is_exp_char c) body)) of
             (Some (m, k), Some x) \<Rightarrow> Some (to_f64 neg (of_nat m * 10 powi (x - int k)))
           | _ \<Rightarrow> None))"

section \<open>Lemmas on rounding\<close>

lemma powi2_pos [simp]: "(0 :: rat) < 2 powi k"
  by (simp add: zero_less_power_int)

lemma powi2_add: "(2 :: rat) powi (a + b) = 2 powi a * 2 powi b"
  by (simp add: power_int_add)

lemma powi2_mono: "a \<le> b \<Longrightarrow> (2 :: rat) powi a \<le> 2 powi b"
  by (simp add: power_int_increasing)

lemma powi2_nat: "(2 :: rat) powi (int n) = 2 ^ n"
  by simp

lemma powi2_split: "(2 :: rat) powi k = of_int (2 ^ n) * 2 powi (k - int n)"
  by (simp add: power_int_diff)

lemma powi2_strict: "(2 :: rat) powi a < 2 powi b \<longleftrightarrow> a < b"
  by (meson linorder_not_less powi2_mono power_int_strict_increasing one_less_numeral_iff semiring_norm(76))

lemma bitlen_rat_bounds:
  assumes "0 < a"
  shows "(2 :: rat) powi (bitlen a - 1) \<le> of_int a" "of_int a < (2 :: rat) powi (bitlen a)"
proof -
  have b: "2 ^ nat (bitlen a - 1) \<le> a" "a < 2 ^ nat (bitlen a)" using bitlen_bounds [OF assms] by auto
  have p: "1 \<le> bitlen a" using assms bitlen_nonneg [of a] bitlen_eq_zero_iff [of a] by linarith
  have "(2 :: rat) powi (bitlen a - 1) = of_int (2 ^ nat (bitlen a - 1))"
    using p by (simp add: power_int_def)
  with b(1) show "(2 :: rat) powi (bitlen a - 1) \<le> of_int a" by (metis of_int_le_iff)
  have "(2 :: rat) powi (bitlen a) = of_int (2 ^ nat (bitlen a))"
    using p by (simp add: power_int_def)
  with b(2) show "of_int a < (2 :: rat) powi (bitlen a)" by (metis of_int_less_iff)
qed

lemma flog2_bounds:
  assumes "0 < q"
  shows "2 powi (flog2 q) \<le> q" "q < 2 powi (flog2 q + 1)"
proof -
  obtain a b where ab: "quotient_of q = (a, b)" by (cases "quotient_of q")
  have b0: "0 < b" using quotient_of_denom_pos [OF ab] .
  have q: "q = of_int a / of_int b" using quotient_of_div [OF ab] .
  have a0: "0 < a" using assms q b0 by (simp add: zero_less_divide_iff)
  define k where "k = bitlen a - bitlen b"
  note A = bitlen_rat_bounds [OF a0] and B = bitlen_rat_bounds [OF b0]
  have up: "q < 2 powi (k + 1)"
  proof -
    have "of_int a < (2 :: rat) powi (k + 1) * 2 powi (bitlen b - 1)"
      using A(2) by (simp add: k_def flip: powi2_add)
    also have "\<dots> \<le> 2 powi (k + 1) * of_int b" using B(1) by simp
    finally show ?thesis using b0 by (simp add: q divide_less_eq)
  qed
  have lo: "2 powi (k - 1) \<le> q"
  proof -
    have "2 powi (k - 1) * of_int b \<le> (2 :: rat) powi (k - 1) * 2 powi (bitlen b)" using B(2) by simp
    also have "\<dots> = 2 powi (bitlen a - 1)" by (simp add: k_def flip: powi2_add)
    also have "\<dots> \<le> of_int a" using A(1) .
    finally show ?thesis using b0 by (simp add: q le_divide_eq)
  qed
  show "2 powi (flog2 q) \<le> q" "q < 2 powi (flog2 q + 1)"
    using up lo by (auto simp: flog2_def ab k_def Let_def)
qed

lemma flog2_unique:
  assumes "2 powi k \<le> q" "q < 2 powi (k + 1)"
  shows "flog2 q = k"
proof -
  have "0 < q" using assms(1) powi2_pos [of k] by linarith
  from flog2_bounds [OF this] assms have "2 powi k < (2 :: rat) powi (flog2 q + 1)" "2 powi (flog2 q) < (2 :: rat) powi (k + 1)"
    by linarith+
  then show ?thesis by (simp add: powi2_strict)
qed

lemma flog2_mono: "0 < x \<Longrightarrow> x \<le> y \<Longrightarrow> flog2 x \<le> flog2 y"
proof -
  assume "0 < x" "x \<le> y"
  with flog2_bounds [of x] flog2_bounds [of y] have "2 powi (flog2 x) < (2 :: rat) powi (flog2 y + 1)" by linarith
  then show ?thesis by (simp add: powi2_strict)
qed

lemma flog2_scale: "0 < q \<Longrightarrow> flog2 (q * 2 powi k) = flog2 q + k"
  using flog2_bounds [of q] by (intro flog2_unique) (simp_all add: powi2_add algebra_simps)

lemma ulp_pos [simp]: "0 < ulp q"
  by (simp add: ulp_def)

lemma round_half_even_of_int [simp]: "round_half_even (of_int z) = z"
  by (simp add: round_half_even_def Let_def)

lemma round_half_even_mono: "x \<le> y \<Longrightarrow> round_half_even x \<le> round_half_even y"
proof -
  assume le: "x \<le> y"
  then have f: "\<lfloor>x\<rfloor> \<le> \<lfloor>y\<rfloor>" by (rule floor_mono)
  show ?thesis
  proof (cases "\<lfloor>x\<rfloor> = \<lfloor>y\<rfloor>")
    case True
    with le show ?thesis by (auto simp: round_half_even_def Let_def)
  next
    case False
    with f show ?thesis by (auto simp: round_half_even_def Let_def)
  qed
qed

lemma rnd_nonneg [simp]: "0 \<le> rnd q"
proof (cases "q \<le> 0")
  case False
  then have "round_half_even 0 \<le> round_half_even (q / ulp q)"
    by (intro round_half_even_mono) (simp add: less_imp_le)
  then have "0 \<le> round_half_even (q / ulp q)" using round_half_even_of_int [of 0] by simp
  then show ?thesis by (simp add: rnd_def less_imp_le)
qed (simp add: rnd_def)

lemma rnd_0 [simp]: "rnd 0 = 0"
  by (simp add: rnd_def)

text \<open>A multiple of its own ulp is exact.\<close>

lemma rnd_exact: "0 \<le> q \<Longrightarrow> q / ulp q = of_int z \<Longrightarrow> rnd q = q"
proof -
  assume q: "0 \<le> q" "q / ulp q = of_int z"
  have "ulp q \<noteq> 0" using ulp_pos [of q] by linarith
  with q have "of_int z * ulp q = q" by (simp add: field_simps)
  with q show ?thesis by (simp add: rnd_def)
qed

lemma rnd_below:
  assumes "0 < x" "-1022 \<le> k" "x < 2 powi (k + 1)"
  shows "rnd x \<le> 2 powi (k + 1)"
proof -
  define j where "j = max (flog2 x) (-1022)"
  have "flog2 x \<le> k"
  proof -
    have "2 powi (flog2 x) < (2 :: rat) powi (k + 1)" using flog2_bounds(1) [OF assms(1)] assms(3) by linarith
    then show ?thesis by (simp add: powi2_strict)
  qed
  then have jk: "j \<le> k" using assms(2) by (simp add: j_def)
  have u: "ulp x = 2 powi (j - 52)" by (simp add: ulp_def j_def)
  have xj: "x < 2 powi (j + 1)"
    using flog2_bounds(2) [OF assms(1)] powi2_mono [of "flog2 x + 1" "j + 1"] by (simp add: j_def)
  have split: "(2 :: rat) powi (j + 1) = of_int (2 ^ 53) * 2 powi (j - 52)"
    using powi2_split [of "j + 1" 53] by simp
  have "x / ulp x \<le> of_int (2 ^ 53)" using xj by (simp add: u split divide_le_eq)
  then have "round_half_even (x / ulp x) \<le> 2 ^ 53"
    by (metis round_half_even_mono round_half_even_of_int)
  then have "of_int (round_half_even (x / ulp x)) \<le> (of_int (2 ^ 53) :: rat)" by (simp only: of_int_le_iff)
  then have "rnd x \<le> of_int (2 ^ 53) * 2 powi (j - 52)"
    using assms(1) by (simp add: rnd_def u)
  also have "\<dots> = 2 powi (j + 1)" using split by simp
  also have "\<dots> \<le> 2 powi (k + 1)" using jk by (intro powi2_mono) simp
  finally show ?thesis .
qed

lemma rnd_above:
  assumes "-1022 \<le> flog2 y" "0 < y"
  shows "2 powi (flog2 y) \<le> rnd y"
proof -
  have u: "ulp y = 2 powi (flog2 y - 52)" using assms(1) by (simp add: ulp_def)
  have split: "(2 :: rat) powi (flog2 y) = of_int (2 ^ 52) * 2 powi (flog2 y - 52)"
    using powi2_split [of "flog2 y" 52] by simp
  have "of_int (2 ^ 52) \<le> y / ulp y"
    using flog2_bounds(1) [OF assms(2)] by (simp add: u split le_divide_eq)
  then have "2 ^ 52 \<le> round_half_even (y / ulp y)"
    by (metis round_half_even_mono round_half_even_of_int)
  then have "of_int (2 ^ 52) \<le> (of_int (round_half_even (y / ulp y)) :: rat)" by (simp only: of_int_le_iff)
  then show ?thesis using assms(2) by (simp add: rnd_def u split)
qed

lemma rnd_mono: "x \<le> y \<Longrightarrow> rnd x \<le> rnd y"
proof (cases "0 < x")
  case True
  assume le: "x \<le> y"
  with True have y: "0 < y" by simp
  define j where "j = max (flog2 x) (-1022)"
  have fl: "flog2 x \<le> flog2 y" using flog2_mono [OF True le] .
  show ?thesis
  proof (cases "j = max (flog2 y) (-1022)")
    case same: True
    then have "ulp x = ulp y" by (simp add: ulp_def j_def)
    moreover from this le have "round_half_even (x / ulp x) \<le> round_half_even (y / ulp y)"
      by (intro round_half_even_mono) (simp add: divide_right_mono less_imp_le)
    ultimately show ?thesis using True y by (simp add: rnd_def mult_right_mono less_imp_le)
  next
    case False
    with fl have lt: "j + 1 \<le> flog2 y" "-1022 \<le> flog2 y" by (auto simp: j_def)
    have "x < 2 powi (j + 1)"
      using flog2_bounds(2) [OF True] powi2_mono [of "flog2 x + 1" "j + 1"] by (simp add: j_def)
    then have "rnd x \<le> 2 powi (j + 1)" by (intro rnd_below True) (simp_all add: j_def)
    also have "\<dots> \<le> 2 powi (flog2 y)" using lt(1) by (rule powi2_mono)
    also have "\<dots> \<le> rnd y" using lt(2) y by (rule rnd_above)
    finally show ?thesis .
  qed
next
  case False
  then have "rnd x = 0" by (simp add: rnd_def)
  then show ?thesis by simp
qed

text \<open>Integers up to \<open>2 ^ 53\<close>, and their products with powers of two, are exact.\<close>

lemma rnd_nat_scaled:
  assumes "n \<le> 2 ^ 53"
  shows "rnd (of_nat n * 2 ^ k) = of_nat n * 2 ^ k"
proof (cases "n = 0")
  case False
  define q :: rat where "q = of_nat n * 2 ^ k"
  have q0: "0 < q" using False by (simp add: q_def)
  have n1: "1 \<le> (of_nat n :: rat)" using False by simp
  have fk: "int k \<le> flog2 q"
  proof -
    have "2 powi (int k) \<le> q" using n1 by (simp add: q_def mult_le_cancel_right)
    with flog2_bounds(2) [OF q0] have "2 powi (int k) < (2 :: rat) powi (flog2 q + 1)" by linarith
    then have "int k < flog2 q + 1" by (simp only: powi2_strict)
    then show ?thesis by simp
  qed
  have u: "ulp q = 2 powi (flog2 q - 52)" using fk by (simp add: ulp_def)
  have "(of_nat n :: rat) \<le> 2 ^ 53" using assms by (metis of_nat_le_iff of_nat_numeral of_nat_power)
  then have le53: "q \<le> 2 powi (53 + int k)"
    using powi2_split [of "53 + int k" 53] by (simp add: q_def)
  with flog2_bounds(1) [OF q0] have "(2 :: rat) powi flog2 q \<le> 2 powi (53 + int k)" by linarith
  then have f53: "flog2 q \<le> 53 + int k" by (meson powi2_strict linorder_not_less)
  show ?thesis
  proof (cases "flog2 q \<le> 52 + int k")
    case True
    have "q / ulp q = of_nat n * 2 powi (int k - (flog2 q - 52))"
      unfolding u by (simp add: q_def power_int_diff)
    also have "\<dots> = of_nat n * 2 ^ nat (int k - (flog2 q - 52))" using True by (simp add: power_int_def)
    also have "\<dots> = of_int (int n * 2 ^ nat (int k - (flog2 q - 52)))" by simp
    finally show ?thesis using rnd_exact [of q] q0 by (simp only: q_def less_imp_le)
  next
    case False
    with f53 have f: "flog2 q = 53 + int k" by simp
    then have uq: "ulp q = 2 powi (1 + int k)" by (simp add: u)
    from f flog2_bounds(1) [OF q0] le53 have qe: "q = 2 powi (53 + int k)" by simp
    have "q = of_int (2 ^ 52) * ulp q"
      unfolding uq using qe powi2_split [of "53 + int k" 52] by simp
    moreover have "ulp q \<noteq> 0" using ulp_pos [of q] by linarith
    ultimately have "q / ulp q = of_int (2 ^ 52)" by (metis nonzero_mult_div_cancel_right)
    then show ?thesis using rnd_exact [of q] q0 by (simp only: q_def less_imp_le)
  qed
qed simp

lemma rnd_nat: "n \<le> 2 ^ 53 \<Longrightarrow> rnd (of_nat n) = of_nat n"
  using rnd_nat_scaled [of n 0] by simp

lemma round_half_up_of_nat [simp]: "round_half_up (of_nat n) = int n"
  by (simp add: round_half_up_def) linarith

lemma round_half_up_mono: "x \<le> y \<Longrightarrow> round_half_up x \<le> round_half_up y"
  by (simp add: round_half_up_def floor_mono)

section \<open>Parsing printed numbers\<close>

lemma digit_not_special:
  assumes "is_digit c"
  shows "\<not> is_exp_char c" "c \<noteq> CHR ''.''" "c \<noteq> CHR ''-''" "c \<noteq> CHR ''+''" "to_lower c = c"
    "c \<noteq> CHR ''i''" "c \<noteq> CHR ''n''"
  using assms by (auto simp: is_digit_def is_exp_char_def to_lower_def Let_def)

lemma split_sign_digit: "is_digit c \<Longrightarrow> split_sign (c # r) = (False, c # r)"
  by (simp add: split_sign_def digit_not_special)

lemma parse_f64_show_nat: "parse_f64 (show_nat n) = Some (to_f64 False (of_nat n))"
proof -
  obtain c r where cr: "show_nat n = c # r" "is_digit c" by (rule show_nat_Cons)
  have ds: "\<And>x. x \<in> set (show_nat n) \<Longrightarrow> is_digit x" using digits_show_nat [of n] by (simp add: list_all_iff)
  have tw: "takeWhile (\<lambda>c. \<not> is_exp_char c) (show_nat n) = show_nat n"
    using ds digit_not_special(1) by (simp add: takeWhile_eq_all_conv)
  have dw: "dropWhile (\<lambda>c. \<not> is_exp_char c) (show_nat n) = []"
    using ds digit_not_special(1) by (simp add: dropWhile_eq_Nil_conv)
  have "CHR ''.'' \<notin> set (show_nat n)" using ds digit_not_special(2) by blast
  then have m: "parse_mantissa (show_nat n) = Some (n, 0)"
    by (simp add: parse_mantissa_def splitn2_notin)
  have lc: "to_lower c \<noteq> CHR ''i''" "to_lower c \<noteq> CHR ''n''" using digit_not_special [OF cr(2)] by auto
  then have low: "map to_lower (show_nat n) \<noteq> ''inf''" "map to_lower (show_nat n) \<noteq> ''infinity''"
    "map to_lower (show_nat n) \<noteq> ''nan''" by (auto simp: cr(1))
  show ?thesis
    using tw dw m low lc split_sign_digit [OF cr(2), of r] cr(1)
    by (simp add: parse_f64_def parse_exponent_def Let_def)
qed

end
