(* ===== verification/Quantity.thy ===== *)
theory Quantity
  imports F64
begin

text \<open>
  Kubernetes resource quantities: \<open>parse_cpu_millicores\<close> and \<open>parse_memory_bytes\<close> of
  \<open>src/src/server/scheduler.rs\<close>, and \<open>format_quantity\<close> of \<open>src/src/node/agent.rs\<close>, which prints the
  memory a node reports. The lemmas give the range of the results, the meaning of the suffixes and
  that what a node prints is what the scheduler reads.
\<close>

text \<open>\<open>x as u64\<close> for a rounded non-negative value: saturating.\<close>

definition as_u64 :: "int \<Rightarrow> nat" where
  "as_u64 z = min u64_max (nat z)"

definition parse_cpu_millicores :: "string \<Rightarrow> nat option" where
  "parse_cpu_millicores s0 = (let s = trim s0 in
     case strip_suffix s ''m'' of
       Some num \<Rightarrow> parse_u64 (trim num)
     | None \<Rightarrow> (case parse_f64 s of
         Some (F64 cores) \<Rightarrow>
           if cores < 0 then None
           else (case to_f64 False (cores * 1000) of
                   F64 x \<Rightarrow> Some (as_u64 (round_half_up x))
                 | _ \<Rightarrow> Some u64_max)
       | _ \<Rightarrow> None))"

text \<open>The multipliers in the order the code tests the suffixes.\<close>

definition memory_suffixes :: "(string \<times> nat) list" where
  "memory_suffixes =
     [(''Ki'', 1024), (''Mi'', 1024 ^ 2), (''Gi'', 1024 ^ 3), (''Ti'', 1024 ^ 4), (''Pi'', 1024 ^ 5),
      (''Ei'', 1024 ^ 6), (''k'', 1000), (''M'', 1000000), (''G'', 1000000000), (''T'', 1000000000000),
      (''P'', 1000000000000000), (''E'', 1000000000000000000)]"

fun split_suffix :: "(string \<times> nat) list \<Rightarrow> string \<Rightarrow> string \<times> nat" where
  "split_suffix [] s = (s, 1)"
| "split_suffix ((suf, m) # sufs) s =
     (case strip_suffix s suf of Some r \<Rightarrow> (r, m) | None \<Rightarrow> split_suffix sufs s)"

definition parse_memory_bytes :: "string \<Rightarrow> nat option" where
  "parse_memory_bytes s = (case split_suffix memory_suffixes (trim s) of (num_part, mult) \<Rightarrow>
     (case parse_f64 (trim num_part) of
        Some (F64 num) \<Rightarrow>
          if num < 0 then None
          else (case to_f64 False (num * rnd (of_nat mult)) of
                  F64 x \<Rightarrow>
                    if of_int (round_half_up x) > rnd (of_nat u64_max) then None
                    else Some (as_u64 (round_half_up x))
                | _ \<Rightarrow> None)
      | _ \<Rightarrow> None))"

definition format_quantity :: "nat \<Rightarrow> string" where
  "format_quantity bytes =
     (if bytes mod 1024 ^ 4 = 0 then show_nat (bytes div 1024 ^ 4) @ ''Ti''
      else if bytes mod 1024 ^ 3 = 0 then show_nat (bytes div 1024 ^ 3) @ ''Gi''
      else if bytes mod 1024 ^ 2 = 0 then show_nat (bytes div 1024 ^ 2) @ ''Mi''
      else if bytes mod 1024 = 0 then show_nat (bytes div 1024) @ ''Ki''
      else show_nat bytes)"

section \<open>Ranges\<close>

lemma as_u64_le [simp]: "as_u64 z \<le> u64_max"
  by (simp add: as_u64_def)

lemma parse_cpu_le: "parse_cpu_millicores s = Some c \<Longrightarrow> c \<le> u64_max"
  by (auto simp: parse_cpu_millicores_def Let_def parse_u64_def parse_unsigned_def
      split: option.splits f64.splits if_splits)

lemma parse_memory_le: "parse_memory_bytes s = Some b \<Longrightarrow> b \<le> u64_max"
  by (auto simp: parse_memory_bytes_def split: option.splits f64.splits if_splits prod.splits)

section \<open>Values\<close>

text \<open>Finite values below \<open>2 ^ 1024\<close>.\<close>

lemma flog2_less: "0 < q \<Longrightarrow> q < 2 ^ n \<Longrightarrow> flog2 q < int n"
proof -
  assume "0 < q" "q < 2 ^ n"
  with flog2_bounds(1) [of q] have "(2 :: rat) powi flog2 q < 2 powi (int n)" by simp
  then show ?thesis by (simp only: powi2_strict)
qed

lemma to_f64_exact:
  assumes "rnd q = q" "0 \<le> q" "q < 2 ^ 1024"
  shows "to_f64 False q = F64 q"
proof (cases "q = 0")
  case True
  then show ?thesis by (simp add: to_f64_def Let_def)
next
  case False
  with assms have "flog2 q < 1024" using flog2_less [of q 1024] by simp
  with assms show ?thesis by (simp add: to_f64_def Let_def)
qed

lemma rnd_u64_max: "rnd (of_nat u64_max) = 2 ^ 64"
proof -
  let ?q = "of_nat u64_max :: rat"
  have v: "?q = 18446744073709551615" by (simp add: u64_max_def)
  have f: "flog2 ?q = 63" by (rule flog2_unique) (simp_all add: v power_int_def)
  have u: "ulp ?q = 2048" by (simp add: ulp_def f power_int_def)
  have fl: "\<lfloor>18446744073709551615 / (2048 :: rat)\<rfloor> = 9007199254740991"
    by (simp add: floor_unique)
  have "round_half_even (?q / 2048) = 9007199254740992"
    unfolding v round_half_even_def fl Let_def by simp
  then show ?thesis unfolding rnd_def u by (simp add: v)
qed

lemma show_nat_no_ws: "list_all (\<lambda>c. \<not> is_ws c) (show_nat n)"
  using digits_show_nat [of n] by (auto simp: list_all_iff is_digit_not_ws)

lemma trim_show_nat [simp]: "trim (show_nat n) = show_nat n"
  by (rule trim_no_ws) (rule show_nat_no_ws)

lemma trim_show_nat_suffix:
  "list_all (\<lambda>c. \<not> is_ws c) suf \<Longrightarrow> trim (show_nat n @ suf) = show_nat n @ suf"
  by (rule trim_no_ws) (simp add: show_nat_no_ws)

text \<open>A suffix that ends in a letter is no suffix of a printed number.\<close>

lemma strip_suffix_last:
  assumes "s \<noteq> []" "suf \<noteq> []" "last s \<noteq> last suf"
  shows "strip_suffix s suf = None"
proof (rule ccontr)
  assume "strip_suffix s suf \<noteq> None"
  then obtain r where "s = r @ suf" by (auto simp: strip_suffix_Some)
  with assms show False by simp
qed

lemma is_digit_last_show_nat: "is_digit (last (show_nat n))"
  using digits_show_nat [of n] show_nat_nonempty [of n] by (simp add: list_all_iff)

lemma strip_suffix_show_nat:
  "suf \<noteq> [] \<Longrightarrow> \<not> is_digit (last suf) \<Longrightarrow> strip_suffix (show_nat n) suf = None"
  using is_digit_last_show_nat [of n] by (intro strip_suffix_last) auto

text \<open>Two suffixes of the same length.\<close>

lemma strip_suffix_other:
  "length suf = length suf' \<Longrightarrow> suf \<noteq> suf' \<Longrightarrow> strip_suffix (s @ suf) suf' = None"
  using strip_suffix_Some by (metis append_eq_append_conv option.exhaust)

lemma split_suffix_plain: "split_suffix memory_suffixes (show_nat n) = (show_nat n, 1)"
  by (simp add: memory_suffixes_def strip_suffix_show_nat is_digit_def)

lemma split_suffix_binary:
  "split_suffix memory_suffixes (show_nat n @ ''Ki'') = (show_nat n, 1024)"
  "split_suffix memory_suffixes (show_nat n @ ''Mi'') = (show_nat n, 1024 ^ 2)"
  "split_suffix memory_suffixes (show_nat n @ ''Gi'') = (show_nat n, 1024 ^ 3)"
  "split_suffix memory_suffixes (show_nat n @ ''Ti'') = (show_nat n, 1024 ^ 4)"
  by (simp_all add: memory_suffixes_def strip_suffix_other)

text \<open>Reading a number \<open>n\<close> with a binary multiplier.\<close>

lemma parse_memory_scaled:
  assumes split: "split_suffix memory_suffixes (trim s) = (show_nat n, 2 ^ k)"
    and n: "n \<le> 2 ^ 53" "n * 2 ^ k \<le> u64_max"
  shows "parse_memory_bytes s = Some (n * 2 ^ k)"
proof -
  have small: "(of_nat n :: rat) < 2 ^ 1024"
  proof -
    have "n < 2 ^ 54" using n(1) by (rule le_less_trans) simp
    then have "(of_nat n :: rat) < of_nat (2 ^ 54)" by (simp only: of_nat_less_iff)
    also have "\<dots> \<le> 2 ^ 1024" by simp
    finally show ?thesis .
  qed
  have p: "parse_f64 (show_nat n) = Some (F64 (of_nat n))"
    using to_f64_exact [OF rnd_nat [OF n(1)] _ small] by (simp add: parse_f64_show_nat)
  have u: "(of_nat (n * 2 ^ k) :: rat) \<le> of_nat u64_max" using n(2) by (simp only: of_nat_le_iff)
  have m: "rnd (of_nat (2 ^ k)) = 2 ^ k" using rnd_nat_scaled [of 1 k] by simp
  have x: "to_f64 False (of_nat n * 2 ^ k) = F64 (of_nat (n * 2 ^ k))"
  proof -
    have "(of_nat n * 2 ^ k :: rat) < 2 ^ 1024" using u by (simp add: u64_max_def)
    with rnd_nat_scaled [OF n(1), of k] show ?thesis by (simp add: to_f64_exact)
  qed
  have "(of_nat u64_max :: rat) \<le> 2 ^ 64" by (simp add: u64_max_def)
  then have "\<not> (rnd (of_nat u64_max) :: rat) < of_nat (n * 2 ^ k)"
    using u unfolding rnd_u64_max by linarith
  then show ?thesis
    using n(2) unfolding parse_memory_bytes_def split
    by (simp add: p m x as_u64_def round_half_up_of_nat del: of_nat_mult of_nat_power)
qed

section \<open>What a node reports is what the scheduler reads\<close>

lemma parse_cpu_millis: "n \<le> u64_max \<Longrightarrow> parse_cpu_millicores (show_nat n @ ''m'') = Some n"
  by (simp add: parse_cpu_millicores_def Let_def trim_show_nat_suffix is_ws_def parse_u64_def)

lemma parse_cpu_cores:
  assumes "1000 * n \<le> 2 ^ 53"
  shows "parse_cpu_millicores (show_nat n) = Some (1000 * n)"
proof -
  have n: "n \<le> 2 ^ 53" using assms by simp
  have less: "(of_nat (1000 * n) :: rat) < 2 ^ 1024"
  proof -
    have "1000 * n < 2 ^ 54" using assms by (rule le_less_trans) simp
    then have "(of_nat (1000 * n) :: rat) < of_nat (2 ^ 54)" by (simp only: of_nat_less_iff)
    also have "\<dots> \<le> 2 ^ 1024" by simp
    finally show ?thesis .
  qed
  then have small: "(of_nat n :: rat) < 2 ^ 1024" by simp
  have p: "parse_f64 (show_nat n) = Some (F64 (of_nat n))"
    using to_f64_exact [OF rnd_nat [OF n] _ small] by (simp add: parse_f64_show_nat)
  have x: "to_f64 False (of_nat n * 1000) = F64 (of_nat (1000 * n))"
    using to_f64_exact [OF rnd_nat [OF assms] _ less] by (simp add: mult.commute)
  have "1000 * n \<le> u64_max" using assms by (simp add: u64_max_def)
  then show ?thesis
    using strip_suffix_show_nat [of "''m''" n]
    by (simp add: parse_cpu_millicores_def Let_def p x as_u64_def round_half_up_of_nat is_digit_def
        del: of_nat_mult)
qed

lemma parse_format_memory:
  assumes "b \<le> 2 ^ 53"
  shows "parse_memory_bytes (format_quantity b) = Some b"
proof -
  have scaled: "parse_memory_bytes (show_nat (b div 2 ^ k) @ suf) = Some b"
    if "b mod 2 ^ k = 0" "list_all (\<lambda>c. \<not> is_ws c) suf"
      "split_suffix memory_suffixes (show_nat (b div 2 ^ k) @ suf) = (show_nat (b div 2 ^ k), 2 ^ k)"
    for k suf
  proof -
    have b: "b div 2 ^ k * 2 ^ k = b" using that(1) by (metis add.right_neutral div_mult_mod_eq)
    have "b div 2 ^ k \<le> 2 ^ 53" using assms div_le_dividend le_trans by blast
    moreover have "b div 2 ^ k * 2 ^ k \<le> u64_max" using assms by (simp add: b u64_max_def)
    moreover have "split_suffix memory_suffixes (trim (show_nat (b div 2 ^ k) @ suf)) =
        (show_nat (b div 2 ^ k), 2 ^ k)" using that(2,3) by (simp add: trim_show_nat_suffix)
    ultimately show ?thesis using parse_memory_scaled b by metis
  qed
  note S = scaled [of 40 "''Ti''"] scaled [of 30 "''Gi''"] scaled [of 20 "''Mi''"] scaled [of 10 "''Ki''"]
    scaled [of 0 "[]"]
  show ?thesis
    using S split_suffix_binary split_suffix_plain [of b]
    by (simp add: format_quantity_def is_ws_def)
qed

text \<open>
  The memory a node reports is the memory the scheduler reads: for any byte count up to
  \<open>2 ^ 53\<close>, \<open>parse_memory_bytes\<close> inverts \<open>format_quantity\<close>, whichever unit was chosen.
\<close>

theorem format_parse_memory:
  assumes "b \<le> 2 ^ 53"
  shows "parse_memory_bytes (format_quantity b) = Some b"
  using assms by (rule parse_format_memory)

theorem format_parse_memory_witness:
  "parse_memory_bytes (format_quantity 16777216) = Some 16777216 \<and> (16777216 :: nat) \<le> 2 ^ 53"
  using format_parse_memory [of 16777216] by simp

text \<open>
  CPU quantities: \<open>n\<close> cores (as a node reports them) and \<open>1000 * n\<close> millicores with the suffix
  \<open>m\<close> are the same amount for the scheduler.
\<close>

theorem cpu_units_agree:
  assumes "1000 * n \<le> 2 ^ 53"
  shows "parse_cpu_millicores (show_nat n) = Some (1000 * n) \<and>
         parse_cpu_millicores (show_nat (1000 * n) @ ''m'') = Some (1000 * n)"
proof -
  have "1000 * n \<le> u64_max" using assms by (simp add: u64_max_def)
  with parse_cpu_cores [OF assms] parse_cpu_millis show ?thesis by simp
qed

theorem cpu_units_agree_witness:
  "parse_cpu_millicores (show_nat 8) = Some 8000 \<and>
   parse_cpu_millicores (show_nat 8000 @ ''m'') = Some 8000"
  using cpu_units_agree [of 8] by simp

end
