(* ===== verification/Scheduler.thy ===== *)
theory Scheduler
  imports Recorder Quantity Bus Lease
begin

text \<open>
  The scheduler (\<open>src/src/server/scheduler.rs\<close>): the predicates a candidate node has to pass, the
  score that ranks the candidates, and the loop that binds pending pods. The order of the
  definitions is that of a call: requests, use, fit, score, affinity, selection, binding.
\<close>

datatype scoring_strategy = LeastAllocated | MostAllocated

text \<open>The value of \<open>SUPERKUBE_SCHEDULER_SCORING\<close>, if set.\<close>

definition strategy_from_env :: "string option \<Rightarrow> scoring_strategy" where
  "strategy_from_env var = (case var of
       None \<Rightarrow> LeastAllocated
     | Some v \<Rightarrow> (let s = map to_lower (trim v) in
         if s = ''most'' \<or> s = ''mostallocated'' \<or> s = ''most-allocated'' \<or> s = ''binpack'' \<or> s = ''bin-pack''
         then MostAllocated else LeastAllocated))"

definition scheduler_lease_ttl :: nat where
  "scheduler_lease_ttl = 30 * 1000000000"

section \<open>Resources\<close>

definition container_requests :: "container \<Rightarrow> smap option" where
  "container_requests c = Option.bind (co_resources c) rr_requests"

definition request_of :: "(string \<Rightarrow> nat option) \<Rightarrow> string \<Rightarrow> container \<Rightarrow> nat" where
  "request_of parse key c = (case container_requests c of
       None \<Rightarrow> 0
     | Some reqs \<Rightarrow> (case hm_get reqs key of
         None \<Rightarrow> 0
       | Some v \<Rightarrow> (case parse v of Some n \<Rightarrow> n | None \<Rightarrow> 0)))"

definition sat_sum :: "nat list \<Rightarrow> nat" where
  "sat_sum xs = foldl sat_add_u64 0 xs"

definition sum_pod_requests :: "pod \<Rightarrow> nat \<times> nat" where
  "sum_pod_requests p =
     (sat_sum (map (request_of parse_cpu_millicores ''cpu'') (ps_containers (pod_spec p))),
      sat_sum (map (request_of parse_memory_bytes ''memory'') (ps_containers (pod_spec p))))"

text \<open>Bound to the node and not terminal.\<close>

definition uses_node :: "string \<Rightarrow> pod \<Rightarrow> bool" where
  "uses_node node_name p \<longleftrightarrow>
     ps_node_name (pod_spec p) = Some node_name \<and>
     (case pod_status p of Some s \<Rightarrow> pt_phase s \<noteq> Succeeded \<and> pt_phase s \<noteq> Failed | None \<Rightarrow> True)"

definition sum_used_on_node :: "node \<Rightarrow> pod list \<Rightarrow> nat \<times> nat" where
  "sum_used_on_node node existing =
     (let ps = filter (uses_node (meta_name (node_metadata node))) existing in
      (sat_sum (map (\<lambda>p. fst (sum_pod_requests p)) ps), sat_sum (map (\<lambda>p. snd (sum_pod_requests p)) ps)))"

definition node_allocatable :: "(string \<Rightarrow> nat option) \<Rightarrow> string \<Rightarrow> node \<Rightarrow> nat option" where
  "node_allocatable parse key node =
     Option.bind (Option.bind (Option.bind (node_status node) nt_allocatable) (\<lambda>a. hm_get a key)) parse"

definition node_fits :: "node \<Rightarrow> pod list \<Rightarrow> nat \<Rightarrow> nat \<Rightarrow> bool" where
  "node_fits node existing pod_cpu_m pod_mem_b =
     (case sum_used_on_node node existing of (used_cpu_m, used_mem_b) \<Rightarrow>
        (pod_cpu_m > 0 \<longrightarrow>
           (case node_allocatable parse_cpu_millicores ''cpu'' node of
              Some alloc \<Rightarrow> sat_add_u64 used_cpu_m pod_cpu_m \<le> alloc | None \<Rightarrow> True)) \<and>
        (pod_mem_b > 0 \<longrightarrow>
           (case node_allocatable parse_memory_bytes ''memory'' node of
              Some alloc \<Rightarrow> sat_add_u64 used_mem_b pod_mem_b \<le> alloc | None \<Rightarrow> True)))"

text \<open>One resource's contribution to the score, as the code computes it in \<open>f64\<close>.\<close>

definition used_pct :: "nat \<Rightarrow> nat \<Rightarrow> nat \<Rightarrow> rat" where
  "used_pct used req alloc =
     rnd (rnd (rnd (of_nat (min (sat_add_u64 used req) alloc)) / rnd (of_nat alloc)) * 100)"

definition resource_score :: "scoring_strategy \<Rightarrow> nat \<Rightarrow> nat \<Rightarrow> nat \<Rightarrow> rat" where
  "resource_score strategy used req alloc = (case strategy of
       LeastAllocated \<Rightarrow> rnd (100 - used_pct used req alloc)
     | MostAllocated \<Rightarrow> used_pct used req alloc)"

definition add_score :: "scoring_strategy \<Rightarrow> nat option \<Rightarrow> nat \<Rightarrow> nat \<Rightarrow> rat \<times> nat \<Rightarrow> rat \<times> nat" where
  "add_score strategy alloc used req acc = (case (alloc, acc) of
       (Some c, (s, n)) \<Rightarrow> if c > 0 then (rnd (s + resource_score strategy used req c), n + 1) else (s, n)
     | (None, _) \<Rightarrow> acc)"

definition score_node :: "node \<Rightarrow> pod list \<Rightarrow> nat \<Rightarrow> nat \<Rightarrow> scoring_strategy \<Rightarrow> int" where
  "score_node node existing pod_cpu_m pod_mem_b strategy =
     (case sum_used_on_node node existing of (used_cpu_m, used_mem_b) \<Rightarrow>
        (case add_score strategy (node_allocatable parse_memory_bytes ''memory'' node) used_mem_b pod_mem_b
                (add_score strategy (node_allocatable parse_cpu_millicores ''cpu'' node) used_cpu_m pod_cpu_m (0, 0)) of
           (s, n) \<Rightarrow> if n = 0 then 0 else round_half_up (rnd (s / of_nat n))))"

section \<open>Predicates\<close>

definition is_node_ready :: "node \<Rightarrow> bool" where
  "is_node_ready node = (case Option.bind (node_status node) nt_conditions of
       Some conds \<Rightarrow> list_ex (\<lambda>c. nc_condition_type c = NC_Ready \<and> nc_status c = CS_True) conds
     | None \<Rightarrow> True)"

definition compare_i64 :: "(int \<Rightarrow> int \<Rightarrow> bool) \<Rightarrow> string option \<Rightarrow> string list \<Rightarrow> bool" where
  "compare_i64 cmp val values =
     (case (Option.bind val parse_i64, (case values of x # _ \<Rightarrow> parse_i64 x | [] \<Rightarrow> None)) of
        (Some a, Some b) \<Rightarrow> cmp a b | _ \<Rightarrow> False)"

text \<open>The four operators node and pod selectors share; another operator gives \<open>None\<close>.\<close>

definition set_operator :: "string \<Rightarrow> string option \<Rightarrow> string list \<Rightarrow> bool option" where
  "set_operator opr val values =
     (if opr = ''In'' then Some (case val of Some v \<Rightarrow> v \<in> set values | None \<Rightarrow> False)
      else if opr = ''NotIn'' then Some (case val of Some v \<Rightarrow> v \<notin> set values | None \<Rightarrow> True)
      else if opr = ''Exists'' then Some (val \<noteq> None)
      else if opr = ''DoesNotExist'' then Some (val = None)
      else None)"

definition match_expression :: "node_selector_requirement \<Rightarrow> smap \<Rightarrow> bool" where
  "match_expression req labels = (let val = hm_get labels (nsr_key req) in
     case set_operator (nsr_operator req) val (nsr_values req) of
       Some b \<Rightarrow> b
     | None \<Rightarrow>
         if nsr_operator req = ''Gt'' then compare_i64 (\<lambda>a b. a > b) val (nsr_values req)
         else if nsr_operator req = ''Lt'' then compare_i64 (\<lambda>a b. a < b) val (nsr_values req)
         else True)"

definition node_matches_term :: "node \<Rightarrow> node_selector_term \<Rightarrow> bool" where
  "node_matches_term node term =
     list_all (\<lambda>req. match_expression req (meta_labels (node_metadata node))) (nst_match_expressions term)"

definition topology_value :: "node \<Rightarrow> string \<Rightarrow> string option" where
  "topology_value node key = hm_get (meta_labels (node_metadata node)) key"

definition selector_matches :: "label_selector option \<Rightarrow> smap \<Rightarrow> bool" where
  "selector_matches selector labels = (case selector of
       None \<Rightarrow> True
     | Some s \<Rightarrow>
         (case ls_match_labels s of Some ml \<Rightarrow> labels_match ml labels | None \<Rightarrow> True) \<and>
         (case ls_match_expressions s of
            Some exprs \<Rightarrow> list_all (\<lambda>req.
              case set_operator (lsr_operator req) (hm_get labels (lsr_key req))
                     (case lsr_values req of Some vs \<Rightarrow> vs | None \<Rightarrow> []) of
                Some b \<Rightarrow> b | None \<Rightarrow> True) exprs
          | None \<Rightarrow> True))"

text \<open>An existing pod matches the term and sits in the candidate's topology domain.\<close>

definition affinity_match :: "node \<Rightarrow> node list \<Rightarrow> pod_affinity_term \<Rightarrow> string \<Rightarrow> pod \<Rightarrow> bool" where
  "affinity_match candidate nodes term pod_namespace p =
     (let key = pat_topology_key term;
          node_topo = hm_collect (map (\<lambda>n. (meta_name (node_metadata n), topology_value n key)) nodes);
          allowed_ns = (if pat_namespaces term = [] then [pod_namespace] else pat_namespaces term)
      in meta_namespace (pod_metadata p) \<in> set allowed_ns \<and>
         selector_matches (pat_label_selector term) (meta_labels (pod_metadata p)) \<and>
         (case ps_node_name (pod_spec p) of
            None \<Rightarrow> False
          | Some pod_node \<Rightarrow>
              (case (Option.bind (hm_get node_topo pod_node) (\<lambda>x. x), topology_value candidate key) of
                 (Some a, Some b) \<Rightarrow> a = b | _ \<Rightarrow> False)))"

definition pod_affinity_satisfied ::
  "node \<Rightarrow> node list \<Rightarrow> pod list \<Rightarrow> pod_affinity_term \<Rightarrow> string \<Rightarrow> bool \<Rightarrow> bool" where
  "pod_affinity_satisfied candidate nodes existing term pod_namespace affinity =
     (let any_match = list_ex (affinity_match candidate nodes term pod_namespace) existing
      in if affinity then any_match else \<not> any_match)"

text \<open>The body of the candidate loop of \<open>find_node_for_pod\<close>.\<close>

definition node_feasible :: "pod \<Rightarrow> node list \<Rightarrow> pod list \<Rightarrow> node \<Rightarrow> bool" where
  "node_feasible pod nodes existing node \<longleftrightarrow>
     is_node_ready node \<and>
     (case ps_node_selector (pod_spec pod) of
        Some sel \<Rightarrow> labels_match sel (meta_labels (node_metadata node)) | None \<Rightarrow> True) \<and>
     (case Option.bind (Option.bind (ps_affinity (pod_spec pod)) af_node_affinity)
             naf_required_during_scheduling_ignored_during_execution of
        Some required \<Rightarrow> list_ex (node_matches_term node) (nsel_node_selector_terms required)
      | None \<Rightarrow> True) \<and>
     (case Option.bind (ps_affinity (pod_spec pod)) af_pod_affinity of
        Some pa \<Rightarrow> list_all (\<lambda>t. pod_affinity_satisfied node nodes existing t
                               (meta_namespace (pod_metadata pod)) True)
                     (paf_required_during_scheduling_ignored_during_execution pa)
      | None \<Rightarrow> True) \<and>
     (case Option.bind (ps_affinity (pod_spec pod)) af_pod_anti_affinity of
        Some paa \<Rightarrow> list_all (\<lambda>t. pod_affinity_satisfied node nodes existing t
                                (meta_namespace (pod_metadata pod)) False)
                      (paaf_required_during_scheduling_ignored_during_execution paa)
      | None \<Rightarrow> True) \<and>
     (case sum_pod_requests pod of (cpu, mem) \<Rightarrow> node_fits node existing cpu mem)"

section \<open>Selection\<close>

text \<open>\<open>Iterator::max_by_key\<close>: of several maxima, the last.\<close>

fun max_by_key :: "('a \<Rightarrow> int) \<Rightarrow> 'a list \<Rightarrow> 'a option" where
  "max_by_key key [] = None"
| "max_by_key key (x # xs) = (case max_by_key key xs of
     None \<Rightarrow> Some x | Some y \<Rightarrow> if key x > key y then Some x else Some y)"

definition find_node_for_pod :: "pod \<Rightarrow> node list \<Rightarrow> pod list \<Rightarrow> scoring_strategy \<Rightarrow> string + node" where
  "find_node_for_pod pod nodes existing strategy =
     (case sum_pod_requests pod of (cpu, mem) \<Rightarrow>
        (case max_by_key (\<lambda>n. score_node n existing cpu mem strategy)
                (filter (node_feasible pod nodes existing) nodes) of
           Some n \<Rightarrow> Inr n
         | None \<Rightarrow> Inl ''No suitable node found for pod''))"

section \<open>Binding\<close>

type_synonym anyhow = "string + error"

definition scheduled_pod_ref :: "pod \<Rightarrow> object_reference" where
  "scheduled_pod_ref p = \<lparr>oref_api_version = Some ''v1'', oref_kind = Some ''Pod'',
     oref_name = om_name (pod_metadata p), oref_namespace = om_namespace (pod_metadata p),
     oref_uid = om_uid (pod_metadata p), oref_resource_version = None, oref_field_path = None\<rparr>"

definition schedule_pod ::
  "env \<Rightarrow> scoring_strategy \<Rightarrow> pod \<Rightarrow> node list \<Rightarrow> pod list \<Rightarrow> world \<Rightarrow> (anyhow + string) \<times> world" where
  "schedule_pod e strategy pod nodes existing =
     (case find_node_for_pod pod nodes existing strategy of
        Inl msg \<Rightarrow> failR (Inl msg)
      | Inr node \<Rightarrow>
          (let ns = meta_namespace (pod_metadata pod); pod_name = meta_name (pod_metadata pod);
               node_name = meta_name (node_metadata node) in
           mapE Inr
             (bindR (pod_bind_to_node e ns pod_name node_name) (\<lambda>_.
              bindR (tryR (pod_get e ns pod_name) (\<lambda>res. case res of
                       Inr updated \<Rightarrow> publish_modified ''Pod'' (Some ns) pod_name (KPod updated)
                     | Inl _ \<Rightarrow> returnR ())) (\<lambda>_.
              bindR (emit_event e (scheduled_pod_ref pod) ns ET_Normal ''Scheduled''
                       (''Successfully assigned '' @ ns @ ''/'' @ pod_name @ '' to '' @ node_name) ''scheduler'') (\<lambda>_.
              returnR node_name))))))"

text \<open>The loop over the pending pods; the accumulator is \<open>existing_pods\<close>.\<close>

definition schedule_one ::
  "env \<Rightarrow> scoring_strategy \<Rightarrow> node list \<Rightarrow> pod \<Rightarrow> pod list \<Rightarrow> pod list prog" where
  "schedule_one e strategy nodes pod existing =
     tryR (schedule_pod e strategy pod nodes existing) (\<lambda>res. case res of
         Inr node_name \<Rightarrow> returnR (existing @ [pod\<lparr>pod_spec := (pod_spec pod)\<lparr>ps_node_name := Some node_name\<rparr>\<rparr>])
       | Inl _ \<Rightarrow> returnR existing)"

definition schedule_pending_pods :: "env \<Rightarrow> scoring_strategy \<Rightarrow> unit prog" where
  "schedule_pending_pods e strategy =
     bindR (pod_list_unscheduled e) (\<lambda>pods.
     if pods = [] then returnR ()
     else
       bindR (node_list_ready e) (\<lambda>nodes.
       if nodes = [] then returnR ()
       else
         tryR (pod_list e None None) (\<lambda>res.
         bindR (foldR (schedule_one e strategy nodes) pods
                  (case res of Inr ps \<Rightarrow> ps | Inl _ \<Rightarrow> [])) (\<lambda>_.
         returnR ()))))"

text \<open>One turn of \<open>run\<close>: the lease first, then the work, whose error is logged.\<close>

definition scheduler_tick :: "env \<Rightarrow> lease_manager \<Rightarrow> scoring_strategy \<Rightarrow> unit prog" where
  "scheduler_tick e lm strategy =
     bindR (try_acquire e lm ''scheduler'' scheduler_lease_ttl) (\<lambda>owned.
     if owned then tryR (schedule_pending_pods e strategy) (\<lambda>_. returnR ()) else returnR ())"

end
