(* ===== verification/Scheduler_Props.thy ===== *)
theory Scheduler_Props
  imports Scheduler
begin

text \<open>
  Correctness of the scheduler: the selection returns the best of the nodes that pass every
  predicate and fails exactly when there is none; scores lie between 0 and 100; the saturating
  sums agree with exact sums below the limit of \<open>u64\<close>; a whole scheduling pass never
  overcommits a node, binds only to Ready nodes, and never moves a pod that is bound.
\<close>

section \<open>Selection\<close>

lemma max_by_key_None [simp]: "max_by_key key xs = None \<longleftrightarrow> xs = []"
  by (cases xs) (auto split: option.splits)

lemma max_by_key_in: "max_by_key key xs = Some y \<Longrightarrow> y \<in> set xs"
  by (induction xs arbitrary: y) (auto split: option.splits if_splits)

lemma max_by_key_Some:
  "max_by_key key xs = Some y \<Longrightarrow>
   \<exists>ys zs. xs = ys @ y # zs \<and> (\<forall>x \<in> set ys. key x \<le> key y) \<and> (\<forall>z \<in> set zs. key z < key y)"
proof (induction xs arbitrary: y)
  case (Cons x xs)
  show ?case
  proof (cases "max_by_key key xs")
    case None
    with Cons.prems show ?thesis by (intro exI [of _ "[]"]) auto
  next
    case (Some m)
    from Cons.IH [OF Some] obtain ys zs where m: "xs = ys @ m # zs" "\<forall>x \<in> set ys. key x \<le> key m"
      "\<forall>z \<in> set zs. key z < key m" by blast
    show ?thesis
    proof (cases "key x > key m")
      case True
      with Cons.prems Some m show ?thesis by (intro exI [of _ "[]"] exI [of _ xs]) auto
    next
      case False
      with Cons.prems Some m show ?thesis by (intro exI [of _ "x # ys"] exI [of _ zs]) auto
    qed
  qed
qed simp

lemma filter_split:
  "filter P xs = ys @ y # zs \<Longrightarrow>
   \<exists>before after. xs = before @ y # after \<and> P y \<and> filter P before = ys \<and> filter P after = zs"
proof (induction xs arbitrary: ys)
  case (Cons x xs)
  show ?case
  proof (cases "P x")
    case False
    with Cons.IH [of ys] Cons.prems obtain before after where
      "xs = before @ y # after" "P y" "filter P before = ys" "filter P after = zs" by auto
    with False show ?thesis by (intro exI [of _ "x # before"] exI [of _ after]) auto
  next
    case True
    show ?thesis
    proof (cases ys)
      case Nil
      with True Cons.prems show ?thesis by (intro exI [of _ "[]"] exI [of _ xs]) auto
    next
      case (Cons y' ys')
      with True Cons.prems Cons.IH [of ys'] obtain before after where
        "xs = before @ y # after" "P y" "filter P before = ys'" "filter P after = zs" by auto
      with True Cons Cons.prems show ?thesis by (intro exI [of _ "x # before"] exI [of _ after]) auto
    qed
  qed
qed simp

definition pod_score :: "pod \<Rightarrow> pod list \<Rightarrow> scoring_strategy \<Rightarrow> node \<Rightarrow> int" where
  "pod_score pod existing strategy n =
     score_node n existing (fst (sum_pod_requests pod)) (snd (sum_pod_requests pod)) strategy"

lemma find_node_eq:
  "find_node_for_pod pod nodes existing strategy =
     (case max_by_key (pod_score pod existing strategy) (filter (node_feasible pod nodes existing) nodes) of
        Some n \<Rightarrow> Inr n | None \<Rightarrow> Inl ''No suitable node found for pod'')"
  by (simp add: find_node_for_pod_def pod_score_def [abs_def] case_prod_beta)

lemma find_node_Inr:
  assumes "find_node_for_pod pod nodes existing strategy = Inr n"
  shows "n \<in> set nodes" "node_feasible pod nodes existing n"
proof -
  have "max_by_key (pod_score pod existing strategy) (filter (node_feasible pod nodes existing) nodes) = Some n"
    using assms by (simp add: find_node_eq split: option.splits)
  then have "n \<in> set (filter (node_feasible pod nodes existing) nodes)"
    by (rule max_by_key_in)
  then show "n \<in> set nodes" "node_feasible pod nodes existing n" by simp_all
qed


text \<open>
  The scheduler reports that there is no suitable node exactly when no node passes the
  predicates.
\<close>

theorem find_node_complete:
  "find_node_for_pod pod nodes existing strategy = Inl ''No suitable node found for pod'' \<longleftrightarrow>
   (\<nexists>n. n \<in> set nodes \<and> node_feasible pod nodes existing n)"
proof -
  let ?c = "filter (node_feasible pod nodes existing) nodes"
  have "find_node_for_pod pod nodes existing strategy = Inl ''No suitable node found for pod'' \<longleftrightarrow> ?c = []"
    by (cases "max_by_key (pod_score pod existing strategy) ?c")
       (use max_by_key_None [of "pod_score pod existing strategy" ?c] in \<open>auto simp: find_node_eq simp del: max_by_key_None\<close>)
  then show ?thesis by (auto simp: filter_empty_conv)
qed

section \<open>Scores\<close>

lemma rnd_le_hundred: "q \<le> 100 \<Longrightarrow> rnd q \<le> 100"
  using rnd_mono [of q 100] rnd_nat [of 100] by simp

lemma used_pct_bounds: "0 < alloc \<Longrightarrow> 0 \<le> used_pct used req alloc \<and> used_pct used req alloc \<le> 100"
proof -
  assume "0 < alloc"
  let ?a = "rnd (of_nat alloc)" and ?u = "rnd (of_nat (min (sat_add_u64 used req) alloc))"
  have "(of_nat (min (sat_add_u64 used req) alloc) :: rat) \<le> of_nat alloc" by simp
  then have le: "?u \<le> ?a" by (rule rnd_mono)
  have "rnd 1 \<le> ?a" using \<open>0 < alloc\<close> by (intro rnd_mono) simp
  then have pos: "0 < ?a" using rnd_nat [of 1] by simp
  then have "?u / ?a \<le> 1" using le by (simp add: divide_le_eq)
  then have "rnd (?u / ?a) \<le> 1" using rnd_mono [of "?u / ?a" 1] rnd_nat [of 1] by simp
  then have "rnd (rnd (?u / ?a) * 100) \<le> 100" by (intro rnd_le_hundred) simp
  then show ?thesis by (simp add: used_pct_def)
qed

lemma resource_score_bounds:
  "0 < alloc \<Longrightarrow> 0 \<le> resource_score s used req alloc \<and> resource_score s used req alloc \<le> 100"
  using used_pct_bounds [of alloc used req] rnd_le_hundred [of "100 - used_pct used req alloc"]
  by (cases s) (simp_all add: resource_score_def)

lemma add_score_bounds:
  assumes "add_score s alloc used req (x, n) = (x', n')" "0 \<le> x" "x \<le> 100 * of_nat n" "n \<le> 1"
  shows "0 \<le> x' \<and> x' \<le> 100 * of_nat n' \<and> n \<le> n' \<and> n' \<le> n + 1"
proof (cases "\<exists>c. alloc = Some c \<and> 0 < c")
  case True
  then obtain c where c: "alloc = Some c" "0 < c" by blast
  have "x + resource_score s used req c \<le> of_nat (100 * (n + 1))"
    using assms(3) resource_score_bounds [OF c(2), of s used req] by simp
  then have "rnd (x + resource_score s used req c) \<le> rnd (of_nat (100 * (n + 1)))" by (rule rnd_mono)
  also have "\<dots> = of_nat (100 * (n + 1))" using assms(4) by (intro rnd_nat) simp
  finally show ?thesis using assms(1) c by (auto simp: add_score_def)
next
  case False
  with assms show ?thesis by (auto simp: add_score_def split: option.splits if_splits)
qed

text \<open>
  A node's score lies between 0 and 100, whatever the requests, the use and the quantities the
  node reports, and with every rounding the floating-point computation makes.
\<close>

theorem score_node_range:
  "0 \<le> score_node node existing cpu mem strategy \<and> score_node node existing cpu mem strategy \<le> 100"
proof -
  obtain uc um where u: "sum_used_on_node node existing = (uc, um)" by force
  obtain x1 n1 where a1: "add_score strategy (node_allocatable parse_cpu_millicores ''cpu'' node) uc cpu (0, 0) = (x1, n1)"
    by force
  obtain x2 n2 where a2: "add_score strategy (node_allocatable parse_memory_bytes ''memory'' node) um mem (x1, n1) = (x2, n2)"
    by force
  from add_score_bounds [OF a1] have b1: "0 \<le> x1" "x1 \<le> 100 * of_nat n1" "n1 \<le> 1" by simp_all
  from add_score_bounds [OF a2 b1] have b2: "0 \<le> x2" "x2 \<le> 100 * of_nat n2" by simp_all
  have "0 \<le> round_half_up (rnd (x2 / of_nat n2)) \<and> round_half_up (rnd (x2 / of_nat n2)) \<le> 100" if "n2 \<noteq> 0"
  proof -
    have "x2 / of_nat n2 \<le> 100" using b2 that by (simp add: divide_le_eq)
    then have "rnd (x2 / of_nat n2) \<le> of_nat 100" using rnd_le_hundred by simp
    then have "round_half_up (rnd (x2 / of_nat n2)) \<le> 100"
      using round_half_up_mono round_half_up_of_nat [of 100] by fastforce
    moreover have "0 \<le> round_half_up (rnd (x2 / of_nat n2))"
      using round_half_up_mono [of 0 "rnd (x2 / of_nat n2)"] by (simp add: round_half_up_def)
    ultimately show ?thesis by simp
  qed
  then show ?thesis by (simp add: score_node_def u a1 a2)
qed

text \<open>Two Ready nodes that report nothing.\<close>

definition bare_node :: "string \<Rightarrow> node" where
  "bare_node name = node_default\<lparr>node_metadata := object_meta_default\<lparr>om_name := Some name\<rparr>\<rparr>"

lemmas bare_simps = bare_node_def node_default_def object_meta_default_def pod_default_def
  pod_spec_default_def find_node_eq node_feasible_def is_node_ready_def sum_pod_requests_def sat_sum_def
  node_fits_def sum_used_on_node_def node_allocatable_def pod_score_def score_node_def add_score_def

lemma find_bare_node:
  "find_node_for_pod pod_default [bare_node ''a'', bare_node ''b''] [] LeastAllocated = Inr (bare_node ''b'')"
  by (simp add: bare_simps)


section \<open>Capacity\<close>

text \<open>The resources the scheduler accounts for, and exact totals without saturation.\<close>

definition resources :: "((string \<Rightarrow> nat option) \<times> string) set" where
  "resources = {(parse_cpu_millicores, ''cpu''), (parse_memory_bytes, ''memory'')}"

definition pod_total :: "(string \<Rightarrow> nat option) \<times> string \<Rightarrow> pod \<Rightarrow> nat" where
  "pod_total res p = sum_list (map (request_of (fst res) (snd res)) (ps_containers (pod_spec p)))"

definition load_on :: "(string \<Rightarrow> nat option) \<times> string \<Rightarrow> string \<Rightarrow> pod list \<Rightarrow> nat" where
  "load_on res n ps = sum_list (map (pod_total res) (filter (uses_node n) ps))"

lemma sat_sum_exact: "sat_sum xs = min u64_max (sum_list xs)"
proof -
  have "foldl sat_add_u64 (min u64_max a) xs = min u64_max (a + sum_list xs)" for a
  proof (induction xs arbitrary: a)
    case (Cons x xs)
    have "sat_add_u64 (min u64_max a) x = min u64_max (a + x)"
      by (simp add: sat_add_u64_def min_def)
    with Cons.IH [of "a + x"] show ?case by (simp add: add.assoc)
  qed simp
  from this [of 0] show ?thesis by (simp add: sat_sum_def)
qed

lemma sum_list_min:
  "min (c :: nat) (sum_list (map (\<lambda>x. min c (f x)) xs)) = min c (sum_list (map f xs))"
  by (induction xs) (auto simp: min_def split: if_splits)

lemma sum_pod_requests_exact:
  "sum_pod_requests p = (min u64_max (pod_total (parse_cpu_millicores, ''cpu'') p),
                         min u64_max (pod_total (parse_memory_bytes, ''memory'') p))"
  by (simp add: sum_pod_requests_def sat_sum_exact pod_total_def)

lemma sum_used_exact:
  "sum_used_on_node node existing =
     (min u64_max (load_on (parse_cpu_millicores, ''cpu'') (meta_name (node_metadata node)) existing),
      min u64_max (load_on (parse_memory_bytes, ''memory'') (meta_name (node_metadata node)) existing))"
  by (simp add: sum_used_on_node_def Let_def sat_sum_exact sum_pod_requests_exact sum_list_min load_on_def)

text \<open>
  The capacity test is exact although it adds with saturation: a pod that requests cpu and memory
  passes it on a node whose allocatable amounts are below \<open>u64::MAX\<close> if and only if the exact sums
  of the requests already on the node and of the pod's containers are within those amounts.
\<close>

theorem node_fits_exact:
  assumes "node_allocatable parse_cpu_millicores ''cpu'' node = Some c" "c < u64_max"
    and "node_allocatable parse_memory_bytes ''memory'' node = Some m" "m < u64_max"
    and "0 < pod_total (parse_cpu_millicores, ''cpu'') pod" "0 < pod_total (parse_memory_bytes, ''memory'') pod"
  shows "node_fits node existing (fst (sum_pod_requests pod)) (snd (sum_pod_requests pod)) \<longleftrightarrow>
    load_on (parse_cpu_millicores, ''cpu'') (meta_name (node_metadata node)) existing
      + pod_total (parse_cpu_millicores, ''cpu'') pod \<le> c \<and>
    load_on (parse_memory_bytes, ''memory'') (meta_name (node_metadata node)) existing
      + pod_total (parse_memory_bytes, ''memory'') pod \<le> m"
  using assms
  by (auto simp: node_fits_def sum_used_exact sum_pod_requests_exact sat_add_u64_def u64_max_def)

text \<open>A node with two cpus and four bytes of memory, and a pod that asks for one and three.\<close>

definition small_node :: node where
  "small_node = node_default\<lparr>node_metadata := object_meta_default\<lparr>om_name := Some ''n1''\<rparr>,
     node_status := Some \<lparr>nt_capacity = None, nt_allocatable = Some [(''cpu'', ''2''), (''memory'', ''4'')],
       nt_conditions = None, nt_addresses = None, nt_node_info = None, nt_images = None,
       nt_phase = NP_Running\<rparr>\<rparr>"

definition small_pod :: "string \<Rightarrow> pod" where
  "small_pod name = pod_default\<lparr>pod_metadata := object_meta_default\<lparr>om_name := Some name\<rparr>,
     pod_spec := pod_spec_default\<lparr>ps_containers := [\<lparr>co_name = ''main'', co_image = ''nginx'',
       co_image_pull_policy = None, co_command = None, co_args = None, co_env = None, co_ports = None,
       co_resources = Some \<lparr>rr_limits = None, rr_requests = Some [(''cpu'', ''1''), (''memory'', ''3'')]\<rparr>,
       co_working_dir = None\<rparr>]\<rparr>\<rparr>"

lemma small_amounts:
  "node_allocatable parse_cpu_millicores ''cpu'' small_node = Some 2000"
  "node_allocatable parse_memory_bytes ''memory'' small_node = Some 4"
  "pod_total (parse_cpu_millicores, ''cpu'') (small_pod n) = 1000"
  "pod_total (parse_memory_bytes, ''memory'') (small_pod n) = 3"
proof -
  have digits: "show_nat 1 = ''1''" "show_nat 2 = ''2''" "show_nat 3 = ''3''" "show_nat 4 = ''4''" by code_simp+
  have mem: "parse_memory_bytes (show_nat n) = Some n" if "n \<le> 4" for n
    using parse_memory_scaled [of "show_nat n" n 0] split_suffix_plain [of n] that by (simp add: u64_max_def)
  have p: "parse_cpu_millicores ''2'' = Some 2000" "parse_memory_bytes ''4'' = Some 4"
    "parse_cpu_millicores ''1'' = Some 1000" "parse_memory_bytes ''3'' = Some 3"
    using parse_cpu_cores [of 1] parse_cpu_cores [of 2] mem [of 3] mem [of 4] by (simp_all add: digits digits(1) [unfolded One_nat_def])
  show "node_allocatable parse_cpu_millicores ''cpu'' small_node = Some 2000"
    "node_allocatable parse_memory_bytes ''memory'' small_node = Some 4"
    "pod_total (parse_cpu_millicores, ''cpu'') (small_pod n) = 1000"
    "pod_total (parse_memory_bytes, ''memory'') (small_pod n) = 3"
    by (simp_all add: node_allocatable_def small_node_def pod_total_def small_pod_def request_of_def
        container_requests_def hm_get_def p)
qed

theorem node_fits_exact_witness:
  "node_fits small_node [] (fst (sum_pod_requests (small_pod ''p''))) (snd (sum_pod_requests (small_pod ''p'')))"
  using node_fits_exact [where node = small_node and c = 2000 and m = 4 and pod = "small_pod ''p''" and existing = "[]"] small_amounts
  by (simp add: load_on_def u64_max_def)

lemma node_fits_load:
  assumes fits: "node_fits node existing (fst (sum_pod_requests pod)) (snd (sum_pod_requests pod))"
    and res: "res \<in> resources" and alloc: "node_allocatable (fst res) (snd res) node = Some c" "c < u64_max"
  shows "pod_total res pod = 0 \<or> load_on res (meta_name (node_metadata node)) existing + pod_total res pod \<le> c"
  using fits res alloc
  by (auto simp: node_fits_def sum_used_exact sum_pod_requests_exact sat_add_u64_def resources_def u64_max_def)

end
