(* ===== verification/Repository_Props.thy ===== *)
theory Repository_Props
  imports Repository_Laws
begin

text \<open>
  What the repositories promise: what is stored is what is read back, identities survive updates,
  deletion removes one object, the guards of namespace deletion, the range of assigned node ports,
  and how repeated events accumulate. \<open>sample_env\<close> is an environment in which nothing fails; the
  witnesses run the operations in it.
\<close>

definition sample_env :: env where
  "sample_env = \<lparr>env_uuid = (\<lambda>n. word_of_nat (n + 1)), env_uuid_str = (\<lambda>u. show_nat (unat u)),
     env_now = int, env_fails = (\<lambda>_. False)\<rparr>"

lemma no_faults_sample [simp]: "no_faults sample_env"
  by (simp add: no_faults_def sample_env_def)

lemma sample_env_fails [simp]: "\<not> env_fails sample_env n"
  by (simp add: sample_env_def)

lemma db_ok_empty [simp]: "db_ok empty_world"
  by (simp add: db_ok_def empty_world_def)

lemma pods_wf_empty [simp]: "pods_wf empty_world"
  by (simp add: pods_wf_def empty_world_def)

section \<open>Pods\<close>

definition named_pod :: "string \<Rightarrow> pod" where
  "named_pod name = pod_default\<lparr>pod_metadata := object_meta_default\<lparr>om_name := Some name\<rparr>\<rparr>"

text \<open>The pod a row holds when it was created from \<open>p\<close>.\<close>

definition stored_as :: "pod \<Rightarrow> pod \<Rightarrow> bool" where
  "stored_as p q \<longleftrightarrow>
     pod_spec q = pod_spec p \<and>
     meta_key (pod_metadata q) = meta_key (pod_metadata p) \<and>
     om_labels (pod_metadata q) = om_labels (pod_metadata p) \<and>
     om_annotations (pod_metadata q) = om_annotations (pod_metadata p) \<and>
     om_owner_references (pod_metadata q) = om_owner_references (pod_metadata p) \<and>
     (\<forall>s. pod_status p = Some s \<longrightarrow> (\<exists>t. pod_status q = Some t \<and> pt_phase t = pt_phase s \<and>
        pt_pod_ip t = pt_pod_ip s \<and> pt_host_ip t = pt_host_ip s \<and>
        pt_container_statuses t = pt_container_statuses s))"

lemma stored_as_row:
  assumes "r_cols r = pod_cols_of p" "r_key r = meta_key (pod_metadata p)"
  shows "stored_as p (row_to_pod r)"
proof -
  have "pod_spec (row_to_pod r) = pod_spec p"
    using assms(1) by (auto simp: row_to_pod_def Let_def pod_cols_of_def split: option.split)
  moreover have "meta_key (pod_metadata (row_to_pod r)) = meta_key (pod_metadata p)"
    using assms(2) by (simp add: row_to_pod_def Let_def meta_key_def ns_row_meta_def meta_namespace_def meta_name_def)
  ultimately show ?thesis
    using assms by (auto simp: stored_as_def row_to_pod_def Let_def pod_cols_of_def ns_row_meta_def pod_status_default_def)
qed

lemma upserted_replace:
  "r_cols (upserted replace_cols r rows) = r_cols r" "r_key (upserted mrg r rows) = r_key r"
  by (auto simp: upserted_def replace_cols_def dest: find_row_key split: option.split)

lemma upserted_uid:
  "r_uid (upserted mrg r rows) = (case find_row (r_key r) rows of Some x \<Rightarrow> r_uid x | None \<Rightarrow> r_uid r)"
  "r_created_at (upserted mrg r rows) = (case find_row (r_key r) rows of Some x \<Rightarrow> r_created_at x | None \<Rightarrow> r_created_at r)"
  by (simp_all add: upserted_def split: option.split)

text \<open>
  Storing a pod and reading it back: the pod that \<open>create\<close> returns has the name, namespace,
  labels, annotations, owners, spec and status of the pod it was given, and a later \<open>get\<close> returns
  the same pod. If a pod of that name existed, the new one keeps its uid and creation time.
\<close>

theorem pod_create_get:
  assumes "pod_create e p w = (Inr q, w')" "\<not> env_fails e (w_stmts w')"
  shows "stored_as p q \<and>
    fst (pod_get e (meta_namespace (pod_metadata p)) (meta_name (pod_metadata p)) w') = Inr q \<and>
    (case find_row (meta_key (pod_metadata p)) (w_pods w) of
       Some r \<Rightarrow> om_uid (pod_metadata q) = Some (r_uid r) \<and>
                om_creation_timestamp (pod_metadata q) = Some (r_created_at r)
     | None \<Rightarrow> om_uid (pod_metadata p) \<noteq> None \<longrightarrow> om_uid (pod_metadata q) = om_uid (pod_metadata p))"
proof -
  from assms(1) obtain u t where
    q: "q = row_to_pod (upserted replace_cols \<lparr>r_uid = u, r_key = meta_key (pod_metadata p),
          r_cols = pod_cols_of p, r_created_at = t, r_updated_at = t\<rparr> (w_pods w))" (is "q = row_to_pod ?r")
    and u: "om_uid (pod_metadata p) = Some u \<or> om_uid (pod_metadata p) = None"
    unfolding pod_create_def by (auto elim!: pods.create_ok)
  have s: "stored_as p q" unfolding q by (rule stored_as_row) (simp_all add: upserted_replace)
  from assms(1) obtain r where r: "find_row (meta_key (pod_metadata p)) (w_pods w') = Some r" "q = row_to_pod r"
    unfolding pod_create_def by (rule pods.create_lookup)
  have "fst (pod_get e (meta_namespace (pod_metadata p)) (meta_name (pod_metadata p)) w') = Inr q"
    unfolding pod_get_def
    by (rule pods.get_cases [of e w' row_to_pod pod_nf "meta_key (pod_metadata p)"])
       (use assms(2) r in \<open>simp_all add: meta_key_def\<close>)
  moreover have "om_uid (pod_metadata q) = Some (r_uid ?r)" "om_creation_timestamp (pod_metadata q) = Some (r_created_at ?r)"
    unfolding q by (simp_all add: row_to_pod_def Let_def ns_row_meta_def)
  ultimately show ?thesis using s u by (auto simp: upserted_uid split: option.split)
qed

lemma named_pod_key: "meta_key (pod_metadata (named_pod n)) = (''default'', n)"
  by (simp add: named_pod_def meta_key_def meta_namespace_def meta_name_def object_meta_default_def)

lemma sample_create: "\<exists>q w'. pod_create sample_env (named_pod n) empty_world = (Inr q, w')"
  unfolding pod_create_def
  by (rule pods.create_succeeds [of sample_env _ empty_world]) (auto simp: empty_world_def)

theorem pod_create_get_witness:
  "\<exists>q w'. pod_create sample_env (named_pod ''web'') empty_world = (Inr q, w') \<and>
     stored_as (named_pod ''web'') q \<and> fst (pod_get sample_env ''default'' ''web'' w') = Inr q"
proof -
  obtain q w' where c: "pod_create sample_env (named_pod ''web'') empty_world = (Inr q, w')"
    using sample_create by blast
  from pod_create_get [OF c] c named_pod_key [of "''web''"] show ?thesis by (auto simp: meta_key_def)
qed

text \<open>
  Deleting a pod removes exactly that pod: afterwards it is not found, and every other pod is
  found as before. Deleting a pod that does not exist is reported as such and changes nothing.
\<close>

theorem pod_delete_exact:
  assumes "pod_delete e ns name w = (res, w')" "\<not> env_fails e (w_stmts w)"
  shows "res = (if find_row (ns, name) (w_pods w) = None then Inl (NotFound (pod_nf (ns, name))) else Inr ()) \<and>
    (\<forall>k. find_row k (w_pods w') = (if k = (ns, name) then None else find_row k (w_pods w)))"
proof (cases "find_row (ns, name) (w_pods w) = None")
  case True
  from pods.delete_missing [OF this assms(2), of pod_nf] assms(1) True
  show ?thesis by (auto simp: pod_delete_def)
next
  case False
  then have "filter (\<lambda>r. r_key r = (ns, name)) (w_pods w) \<noteq> []"
    by (auto simp: filter_empty_conv find_row_None_iff)
  then have ok: "res = Inr ()"
    using assms by (auto simp: pod_delete_def repo_delete_def bindR_def sql_delete_def sql_stmt_def Let_def returnR_def)
  with assms(1) pods.delete_lookup(2) False show ?thesis by (auto simp: pod_delete_def)
qed

theorem pod_delete_exact_witness:
  "fst (pod_delete sample_env ''default'' ''web'' empty_world) = Inl (NotFound (pod_nf (''default'', ''web'')))"
  using pod_delete_exact [of sample_env "''default''" "''web''" empty_world
      "fst (pod_delete sample_env ''default'' ''web'' empty_world)"
      "snd (pod_delete sample_env ''default'' ''web'' empty_world)"]
  by (simp add: empty_world_def)

lemma pod_list_rows:
  assumes "pod_list e ns sel w = (Inr ps, w')"
  shows "ps = filter (pod_selected sel) (map row_to_pod (sort_key (\<lambda>r. - r_created_at r) (filter (in_ns ns) (w_pods w))))"
  using assms by (auto simp: pod_list_def bindR_def returnR_def split: prod.splits sum.splits dest!: pods.list_ok(1))

lemma pod_list_set:
  assumes "pod_list e ns sel w = (Inr ps, w')"
  shows "set ps = {p \<in> set (cluster_pods w). (ns = None \<or> ns = om_namespace (pod_metadata p)) \<and> pod_selected sel p}"
proof -
  have "om_namespace (pod_metadata (row_to_pod r)) = Some (fst (r_key r))" for r
    by (simp add: row_to_pod_def Let_def ns_row_meta_def)
  then have "in_ns ns r \<longleftrightarrow> (ns = None \<or> ns = om_namespace (pod_metadata (row_to_pod r)))" for r
    by (cases ns) (auto simp: in_ns_def)
  then show ?thesis unfolding pod_list_rows [OF assms] cluster_pods_def by auto
qed

text \<open>
  Listing pods returns exactly the stored pods of the namespace (or of all) that have every
  label of the selector, newest first.
\<close>

theorem pod_list_exact:
  assumes "pod_list e ns sel w = (Inr ps, w')"
  shows "set ps = {p \<in> set (cluster_pods w). (ns = None \<or> ns = om_namespace (pod_metadata p)) \<and> pod_selected sel p} \<and>
    sorted (map (\<lambda>p. - the (om_creation_timestamp (pod_metadata p))) ps)"
proof -
  let ?rows = "sort_key (\<lambda>r. - r_created_at r) (filter (in_ns ns) (w_pods w))"
  have ts: "the (om_creation_timestamp (pod_metadata (row_to_pod r))) = r_created_at r" for r
    by (simp add: row_to_pod_def Let_def ns_row_meta_def)
  have "sorted (map (\<lambda>r. - r_created_at r) ?rows)" by simp
  then have "sorted (map (\<lambda>p. - the (om_creation_timestamp (pod_metadata p))) (map row_to_pod ?rows))"
    by (simp add: comp_def ts)
  then have "sorted (map (\<lambda>p. - the (om_creation_timestamp (pod_metadata p))) ps)"
    unfolding pod_list_rows [OF assms] by (rule sorted_filter)
  with pod_list_set [OF assms] show ?thesis by blast
qed

theorem pod_list_exact_witness:
  "\<exists>ps w'. pod_list sample_env None None empty_world = (Inr ps, w') \<and> set ps = {}"
proof -
  obtain ps w' where l: "pod_list sample_env None None empty_world = (Inr ps, w')"
    by (simp add: pod_list_def repo_list_def bindR_def sql_select_def sql_stmt_def Let_def returnR_def)
  from pod_list_exact [OF l] l show ?thesis by (auto simp: cluster_pods_def empty_world_def)
qed

section \<open>Namespaces\<close>

text \<open>
  A namespace is deleted only if it is not a system namespace, exists and holds no pods; then
  it is gone, and no pod and no other namespace is touched.
\<close>

theorem namespace_delete_guarded:
  assumes "namespace_delete e name w = (Inr x, w')"
  shows "\<not> system_namespace name \<and> find_row name (w_namespaces w) \<noteq> None \<and>
    (\<nexists>p. p \<in> set (cluster_pods w) \<and> om_namespace (pod_metadata p) = Some name) \<and>
    w_pods w' = w_pods w \<and>
    (\<forall>n. find_row n (w_namespaces w') = (if n = name then None else find_row n (w_namespaces w)))"
proof -
  let ?w = "w\<lparr>w_stmts := Suc (w_stmts w)\<rparr>"
  from assms have sys: "\<not> system_namespace name"
    by (auto simp: namespace_delete_def failR_def split: if_splits)
  from assms sys have cnt: "length (filter (in_ns (Some name)) (w_pods w)) = 0"
    and del: "repo_delete e w_namespaces w_namespaces_update namespace_nf name ?w = (Inr x, w')"
    by (auto simp: namespace_delete_def bindR_def sql_select_def sql_stmt_def Let_def failR_def split: if_splits)
  from cnt have "fst (r_key r) \<noteq> name" if "r \<in> set (w_pods w)" for r
    using that by (auto simp: filter_empty_conv in_ns_def)
  then have "\<nexists>p. p \<in> set (cluster_pods w) \<and> om_namespace (pod_metadata p) = Some name"
    by (auto simp: cluster_pods_def row_to_pod_def Let_def ns_row_meta_def)
  moreover have "keeps w_pods (repo_delete e w_namespaces w_namespaces_update namespace_nf name)"
    by (intro keeps_intros counter_free_w_pods) simp
  then have "w_pods w' = w_pods ?w" using del by (rule keepsD)
  ultimately show ?thesis using sys namespaces.delete_lookup [OF del] by simp
qed

definition team_world :: world where
  "team_world = empty_world\<lparr>w_namespaces := [\<lparr>r_uid = 1, r_key = ''team'', r_cols =
     \<lparr>nmr_labels = None, nmr_annotations = None, nmr_spec = None, nmr_status = ''Active''\<rparr>,
     r_created_at = 0, r_updated_at = 0\<rparr>]\<rparr>"

theorem namespace_delete_guarded_witness:
  "\<exists>w'. namespace_delete sample_env ''team'' team_world = (Inr (), w') \<and> find_row ''team'' (w_namespaces w') = None"
proof -
  obtain w' where d: "namespace_delete sample_env ''team'' team_world = (Inr (), w')"
    by (simp add: namespace_delete_def system_namespace_def bindR_def sql_select_def sql_stmt_def Let_def
        repo_delete_def sql_delete_def returnR_def team_world_def empty_world_def)
  from namespace_delete_guarded [OF d] d show ?thesis by auto
qed

section \<open>Services\<close>

lemma auto_node_port_range: "30000 \<le> auto_node_port u \<and> auto_node_port u \<le> 32767"
proof -
  have "unat u mod 2768 < 2768" by simp
  then show ?thesis by (simp add: auto_node_port_def del: mod_less_divisor)
qed

text \<open>
  The first port of a stored NodePort service always has a node port: the one requested, or one
  between 30000 and 32767 chosen from the uid of the request.
\<close>

theorem service_node_port_assigned:
  assumes "service_create e s w = (Inr s', w')" "sp_service_type (svc_spec s) = ST_NodePort"
    and "sp_ports (svc_spec s) = p # ps"
  shows "\<exists>p'. sp_ports (svc_spec s') = p' # ps \<and>
    (case spt_node_port p of
       Some n \<Rightarrow> spt_node_port p' = Some n
     | None \<Rightarrow> \<exists>n. spt_node_port p' = Some n \<and> 30000 \<le> n \<and> n \<le> 32767)"
proof -
  from assms(1) obtain u t where
    "s' = row_to_service (upserted replace_cols \<lparr>r_uid = u, r_key = meta_key (svc_metadata s),
          r_cols = service_cols_of s u, r_created_at = t, r_updated_at = t\<rparr> (w_services w))"
    unfolding service_create_def by (auto elim!: services.create_ok)
  then have "sp_ports (svc_spec s') = set_first_node_port (service_node_port (svc_spec s) u) (p # ps)"
    using assms(3) by (simp add: row_to_service_def Let_def upserted_replace service_cols_of_def)
  then show ?thesis
    using assms(2,3) auto_node_port_range [of u]
    by (auto simp: set_first_node_port_def service_node_port_def split: option.split)
qed

definition node_port_service :: "uuid option \<Rightarrow> service" where
  "node_port_service u = service_default\<lparr>
     svc_metadata := object_meta_default\<lparr>om_name := Some ''web'', om_uid := u\<rparr>,
     svc_spec := (svc_spec service_default)\<lparr>sp_service_type := ST_NodePort,
       sp_ports := [\<lparr>spt_name = None, spt_protocol = TCP, spt_port = 80, spt_target_port = None,
                     spt_node_port = None\<rparr>]\<rparr>\<rparr>"

theorem service_node_port_assigned_witness:
  "\<exists>s' w' p'. service_create sample_env (node_port_service None) empty_world = (Inr s', w') \<and>
     sp_ports (svc_spec s') = [p'] \<and> (\<exists>n. spt_node_port p' = Some n \<and> 30000 \<le> n \<and> n \<le> 32767)"
proof -
  obtain s' w' where c: "service_create sample_env (node_port_service None) empty_world = (Inr s', w')"
    unfolding service_create_def
    by (rule services.create_succeeds [of sample_env _ empty_world]) (auto simp: empty_world_def)
  from service_node_port_assigned [OF c] c show ?thesis by (simp add: node_port_service_def)
qed

section \<open>Deployments and events\<close>

text \<open>
  Applying a deployment again replaces its spec, labels and annotations and keeps its identity
  and the status the controller last wrote.
\<close>

theorem deployment_reapply_keeps_status:
  assumes "deployment_create e d w = (Inr d', w')"
    and "find_row (meta_key (dep_metadata d)) (w_deployments w) = Some r"
  shows "dep_spec d' = dep_spec d \<and> om_labels (dep_metadata d') = om_labels (dep_metadata d) \<and>
    om_uid (dep_metadata d') = Some (r_uid r) \<and>
    om_creation_timestamp (dep_metadata d') = Some (r_created_at r) \<and>
    map_option dt_ready_replicas (dep_status d') = Some (dr_ready_replicas (r_cols r)) \<and>
    map_option dt_available_replicas (dep_status d') = Some (dr_available_replicas (r_cols r)) \<and>
    map_option dt_replicas (dep_status d') = Some (deployment_replicas (dep_spec d))"
  using assms
  by (auto simp: deployment_create_def upserted_def row_to_deployment_def Let_def deployment_merge_def
      deployment_cols_of_def ns_row_meta_def elim!: deployments.create_ok)

definition deployed_world :: world where
  "deployed_world = empty_world\<lparr>w_deployments := [\<lparr>r_uid = 9, r_key = (''default'', ''web''),
     r_cols = (deployment_cols_of deployment_default)\<lparr>dr_ready_replicas := 2\<rparr>,
     r_created_at = 0, r_updated_at = 0\<rparr>]\<rparr>"

definition web_deployment :: deployment where
  "web_deployment = deployment_default\<lparr>dep_metadata := object_meta_default\<lparr>om_name := Some ''web''\<rparr>\<rparr>"

theorem deployment_reapply_keeps_status_witness:
  "\<exists>d' w'. deployment_create sample_env web_deployment deployed_world = (Inr d', w') \<and>
     map_option dt_ready_replicas (dep_status d') = Some 2 \<and> om_uid (dep_metadata d') = Some 9"
proof -
  let ?r = "\<lparr>r_uid = 9, r_key = (''default'', ''web''),
     r_cols = (deployment_cols_of deployment_default)\<lparr>dr_ready_replicas := 2\<rparr>,
     r_created_at = 0, r_updated_at = 0\<rparr>"
  have k: "meta_key (dep_metadata web_deployment) = (''default'', ''web'')"
    by (simp add: web_deployment_def meta_key_def meta_namespace_def meta_name_def object_meta_default_def)
  have f: "find_row (meta_key (dep_metadata web_deployment)) (w_deployments deployed_world) = Some ?r"
    unfolding k by (simp add: deployed_world_def)
  obtain d' w' where c: "deployment_create sample_env web_deployment deployed_world = (Inr d', w')"
    unfolding deployment_create_def
    by (rule deployments.create_succeeds [of sample_env _ deployed_world]) (use f in auto)
  from deployment_reapply_keeps_status [OF c f] c show ?thesis by auto
qed

text \<open>
  Recording an event that exists counts it once more and takes the new message and last
  timestamp, and keeps when, about what and for what reason it was first recorded.
\<close>

theorem event_repeat_counts:
  assumes "event_create e v w = (Inr v', w')"
    and "find_row (meta_key (evt_metadata v)) (w_events w) = Some r" "er_count (r_cols r) = Some n"
  shows "evt_count v' = Some (n + 1) \<and> evt_message v' = evt_message v \<and>
    evt_last_timestamp v' = evt_last_timestamp v \<and>
    evt_first_timestamp v' = er_first_timestamp (r_cols r) \<and>
    evt_involved_object v' = er_involved_object (r_cols r) \<and> evt_reason v' = er_reason (r_cols r)"
  using assms
  by (auto simp: event_create_def upserted_def row_to_event_def Let_def event_merge_def event_cols_of_def
      elim!: events.create_ok)

definition sample_event :: event where
  "sample_event = \<lparr>evt_type_meta = type_meta_of ''v1'' ''Event'',
     evt_metadata = object_meta_default\<lparr>om_name := Some ''web.1''\<rparr>,
     evt_involved_object = \<lparr>oref_api_version = None, oref_kind = None, oref_name = None, oref_namespace = None,
        oref_uid = None, oref_resource_version = None, oref_field_path = None\<rparr>,
     evt_reason = None, evt_message = None, evt_source = None, evt_first_timestamp = None,
     evt_last_timestamp = Some 5, evt_count = None, evt_event_type = None, evt_event_time = None,
     evt_action = None, evt_reporting_controller = None, evt_reporting_instance = None\<rparr>"

definition event_world :: world where
  "event_world = empty_world\<lparr>w_events := [\<lparr>r_uid = 7, r_key = (''default'', ''web.1''),
     r_cols = event_cols_of sample_event, r_created_at = 0, r_updated_at = 0\<rparr>]\<rparr>"

theorem event_repeat_counts_witness:
  "\<exists>v' w'. event_create sample_env sample_event event_world = (Inr v', w') \<and> evt_count v' = Some 2"
proof -
  have k: "meta_key (evt_metadata sample_event) = (''default'', ''web.1'')"
    by (simp add: sample_event_def meta_key_def meta_namespace_def meta_name_def object_meta_default_def)
  have f: "find_row (meta_key (evt_metadata sample_event)) (w_events event_world) =
      Some \<lparr>r_uid = 7, r_key = (''default'', ''web.1''), r_cols = event_cols_of sample_event,
            r_created_at = 0, r_updated_at = 0\<rparr>"
    unfolding k by (simp add: event_world_def)
  obtain v' w' where c: "event_create sample_env sample_event event_world = (Inr v', w')"
    unfolding event_create_def
    by (rule events.create_succeeds [of sample_env _ event_world]) (use f in auto)
  from event_repeat_counts [OF c f] c show ?thesis by (simp add: event_cols_of_def sample_event_def)
qed

end
