(* ===== verification/Scheduler_Pass.thy ===== *)
theory Scheduler_Pass
  imports Scheduler_Props Repository_Props "HOL-Library.Multiset"
begin

text \<open>
  A whole scheduling pass over the database. \<open>bound_step\<close> is what a pass may do to one row of the
  pods table: leave it, or bind an unscheduled pod to one of the Ready nodes. \<open>pass_inv\<close> is the
  invariant of the loop over the pending pods. The theorems hold under any pattern of failing
  statements, except that the capacity theorem needs the listing of all pods to succeed.
\<close>

section \<open>Binding one pod\<close>

definition bind_row :: "string \<Rightarrow> time \<Rightarrow> (nskey, pod_cols) row \<Rightarrow> (nskey, pod_cols) row" where
  "bind_row node t r = r\<lparr>r_cols := (r_cols r)\<lparr>pr_node_name := Some node\<rparr>, r_updated_at := t\<rparr>"

definition bind_rows :: "nskey \<Rightarrow> string \<Rightarrow> time \<Rightarrow> pod_cols ns_table \<Rightarrow> pod_cols ns_table" where
  "bind_rows k node t rows = map (\<lambda>r. if r_key r = k then bind_row node t r else r) rows"

definition pod_key :: "pod \<Rightarrow> nskey" where
  "pod_key p = meta_key (pod_metadata p)"

lemma bind_row_simps [simp]:
  "r_key (bind_row node t r) = r_key r" "r_uid (bind_row node t r) = r_uid r"
  "\<not> unscheduled_row (bind_row node t r)"
  by (simp_all add: bind_row_def unscheduled_row_def)

lemma pod_key_row [simp]: "pod_key (row_to_pod r) = r_key r"
  by (simp add: pod_key_def row_to_pod_def Let_def meta_key_def meta_namespace_def meta_name_def ns_row_meta_def)

lemma row_to_pod_bind:
  "row_to_pod (bind_row node t r) =
     (row_to_pod r)\<lparr>pod_spec := (pod_spec (row_to_pod r))\<lparr>ps_node_name := Some node\<rparr>\<rparr>"
  by (simp add: bind_row_def row_to_pod_def Let_def ns_row_meta_def split: option.split)

lemma pod_bind_to_node_cases:
  assumes "pod_bind_to_node e ns name node w = (res, w')"
  obtains (fault) err where "res = Inl err" "w_pods w' = w_pods w"
  | (bound) t where "res = Inr ()" "w_pods w' = bind_rows (ns, name) node t (w_pods w)"
proof (cases "env_fails e (w_stmts w)")
  case True
  with assms show ?thesis
    by (intro fault) (auto simp: pod_bind_to_node_def bindR_def utc_now_def sql_update_def sql_stmt_def Let_def)
next
  case False
  with assms show ?thesis
    by (intro bound [of "env_now e (w_ticks w)"])
       (auto simp: pod_bind_to_node_def bindR_def utc_now_def sql_update_def sql_stmt_def Let_def
         returnR_def bind_rows_def bind_row_def [abs_def])
qed

text \<open>After the binding, nothing can fail and the pods table is left alone.\<close>

lemma after_bind:
  fixes m :: "unit prog" and x :: string
  assumes "keeps w_pods m" "\<And>w. \<exists>u. fst (m w) = Inr u"
  shows "\<exists>w'. bindR m (\<lambda>_. bindR (emit_event e ref ns typ reason msg cmpt) (\<lambda>_. returnR x)) w = (Inr x, w') \<and>
    w_pods w' = w_pods w"
proof -
  obtain w1 where m: "m w = (Inr (), w1)" using assms(2) [of w] by (metis eq_fst_iff unit_eq)
  obtain w2 where ev: "emit_event e ref ns typ reason msg cmpt w1 = (Inr (), w2)"
    using emit_event_returns by (metis eq_fst_iff)
  have "keeps w_pods (emit_event e ref ns typ reason msg cmpt)"
    by (intro keeps_intros counter_free_w_pods) simp
  then have "w_pods w2 = w_pods w1" using ev by (rule keepsD)
  moreover have "w_pods w1 = w_pods w" using keepsD [OF assms(1) m] .
  ultimately show ?thesis by (simp add: bindR_def m ev returnR_def)
qed

lemma schedule_pod_cases:
  assumes "schedule_pod e strategy pod nodes existing w = (res, w')"
  obtains (failed) err where "res = Inl err" "w_pods w' = w_pods w"
  | (bound) node t where "find_node_for_pod pod nodes existing strategy = Inr node"
      "res = Inr (meta_name (node_metadata node))"
      "w_pods w' = bind_rows (pod_key pod) (meta_name (node_metadata node)) t (w_pods w)"
proof (cases "find_node_for_pod pod nodes existing strategy")
  case (Inl msg)
  with assms show ?thesis by (intro failed [of "Inl msg"]) (auto simp: schedule_pod_def failR_def)
next
  case (Inr node)
  let ?ns = "meta_namespace (pod_metadata pod)" and ?name = "meta_name (pod_metadata pod)"
  let ?node = "meta_name (node_metadata node)"
  let ?pub = "tryR (pod_get e ?ns ?name) (\<lambda>res. case res of
      Inr updated \<Rightarrow> publish_modified ''Pod'' (Some ?ns) ?name (KPod updated) | Inl _ \<Rightarrow> returnR ())"
  obtain r1 w1 where b: "pod_bind_to_node e ?ns ?name ?node w = (r1, w1)" by force
  have pub: "keeps w_pods ?pub"
    unfolding pod_get_def by (intro keeps_intros counter_free_w_pods) simp_all
  have "\<exists>u. fst (?pub w) = Inr u" for w
    by (simp add: tryR_def publish_modified_def returnR_def split: prod.split sum.split)
  note rest = after_bind [OF pub this]
  show ?thesis
  proof (rule pod_bind_to_node_cases [OF b])
    fix err assume "r1 = Inl err" "w_pods w1 = w_pods w"
    with assms Inr b show ?thesis
      by (intro failed [of "Inr err"]) (auto simp: schedule_pod_def Let_def mapE_def tryR_def bindR_def failR_def)
  next
    fix t assume ok: "r1 = Inr ()" "w_pods w1 = bind_rows (?ns, ?name) ?node t (w_pods w)"
    obtain w2 where "bindR ?pub (\<lambda>_. bindR (emit_event e (scheduled_pod_ref pod) ?ns ET_Normal ''Scheduled''
          (''Successfully assigned '' @ ?ns @ ''/'' @ ?name @ '' to '' @ ?node) ''scheduler'') (\<lambda>_. returnR ?node)) w1 =
          (Inr ?node, w2)" "w_pods w2 = w_pods w1"
      using rest by blast
    with assms Inr b ok show ?thesis
      by (intro bound [of node t])
         (auto simp: schedule_pod_def Let_def mapE_def tryR_def bindR_Inr returnR_def pod_key_def meta_key_def)
  qed
qed

section \<open>The loop\<close>

definition pass_inv :: "pod list \<Rightarrow> world \<Rightarrow> bool" where
  "pass_inv todo w \<longleftrightarrow> table_ok (w_pods w) \<and> distinct (map pod_key todo) \<and>
     (\<forall>p \<in> set todo. \<exists>r \<in> set (w_pods w). unscheduled_row r \<and> row_to_pod r = p)"

definition bound_step :: "string set \<Rightarrow> (nskey, pod_cols) row \<Rightarrow> (nskey, pod_cols) row \<Rightarrow> bool" where
  "bound_step names r r' \<longleftrightarrow> r' = r \<or> (unscheduled_row r \<and> (\<exists>n t. n \<in> names \<and> r' = bind_row n t r))"

definition node_names :: "node list \<Rightarrow> string set" where
  "node_names nodes = (\<lambda>n. meta_name (node_metadata n)) ` set nodes"

lemma bound_step_trans: "bound_step N a b \<Longrightarrow> bound_step N b c \<Longrightarrow> bound_step N a c"
  by (auto simp: bound_step_def)

lemma bound_steps_trans:
  "list_all2 (bound_step N) a b \<Longrightarrow> list_all2 (bound_step N) b c \<Longrightarrow> list_all2 (bound_step N) a c"
  using list_all2_trans [of "bound_step N" "bound_step N" "bound_step N" a b c] bound_step_trans [of N]
  by simp

lemma schedule_one_cases:
  assumes "schedule_one e strategy nodes p existing w = (res, w')"
  obtains (skipped) "res = Inr existing" "w_pods w' = w_pods w"
  | (bound) node t where "find_node_for_pod p nodes existing strategy = Inr node"
      "res = Inr (existing @ [p\<lparr>pod_spec := (pod_spec p)\<lparr>ps_node_name := Some (meta_name (node_metadata node))\<rparr>\<rparr>])"
      "w_pods w' = bind_rows (pod_key p) (meta_name (node_metadata node)) t (w_pods w)"
proof -
  obtain r1 w1 where s: "schedule_pod e strategy p nodes existing w = (r1, w1)" by force
  show ?thesis
    using s by (rule schedule_pod_cases)
      (use assms s in \<open>auto simp: schedule_one_def tryR_def returnR_def intro: skipped bound\<close>)
qed

lemma pass_inv_skip: "pass_inv (p # todo) w \<Longrightarrow> w_pods w' = w_pods w \<Longrightarrow> pass_inv todo w'"
  by (simp add: pass_inv_def)

lemma pass_inv_bind:
  assumes inv: "pass_inv (p # todo) w" and w': "w_pods w' = bind_rows (pod_key p) n t (w_pods w)"
  shows "pass_inv todo w'"
proof -
  have "table_ok (w_pods w')" using inv w' by (simp add: pass_inv_def bind_rows_def table_ok_map)
  moreover have "\<exists>r \<in> set (w_pods w'). unscheduled_row r \<and> row_to_pod r = q" if q: "q \<in> set todo" for q
  proof -
    from inv q obtain r where r: "r \<in> set (w_pods w)" "unscheduled_row r" "row_to_pod r = q"
      by (auto simp: pass_inv_def)
    moreover have "r_key r \<noteq> pod_key p"
      using inv q r(3) pod_key_row [of r] by (force simp: pass_inv_def)
    ultimately show ?thesis using w' by (intro bexI [of _ r]) (auto simp: bind_rows_def)
  qed
  ultimately show ?thesis using inv by (simp add: pass_inv_def)
qed

lemma bind_rows_bound_step:
  assumes inv: "pass_inv (p # todo) w" and n: "n \<in> N"
  shows "list_all2 (bound_step N) (w_pods w) (bind_rows (pod_key p) n t (w_pods w))"
proof -
  from inv obtain r0 where r0: "r0 \<in> set (w_pods w)" "unscheduled_row r0" "row_to_pod r0 = p"
    by (auto simp: pass_inv_def)
  have "bound_step N r (if r_key r = pod_key p then bind_row n t r else r)" if "r \<in> set (w_pods w)" for r
  proof (cases "r_key r = pod_key p")
    case True
    have ok: "table_ok (w_pods w)" using inv by (simp add: pass_inv_def)
    have "r_key r = r_key r0" using True by (simp flip: r0(3))
    with find_row_SomeI [OF ok that] find_row_SomeI [OF ok r0(1)] have "Some r = Some r0" by metis
    then have "r = r0" by (rule option.inject [THEN iffD1])
    with r0 n show ?thesis by (auto simp: bound_step_def)
  qed (simp add: bound_step_def)
  then show ?thesis
    unfolding bind_rows_def list_all2_map2 by (simp add: list_all2_same)
qed

lemma pass_frame:
  assumes "foldR (schedule_one e strategy nodes) todo existing w = (res, w')" "pass_inv todo w"
  shows "list_all2 (bound_step (node_names nodes)) (w_pods w) (w_pods w')"
  using assms
proof (induction todo arbitrary: existing w)
  case Nil
  then show ?case by (simp add: returnR_def list_all2_same bound_step_def)
next
  case (Cons p todo)
  obtain r1 w1 where s: "schedule_one e strategy nodes p existing w = (r1, w1)" by force
  from s show ?case
  proof (rule schedule_one_cases)
    assume "r1 = Inr existing" "w_pods w1 = w_pods w"
    moreover from this s Cons.prems(1) have "foldR (schedule_one e strategy nodes) todo existing w1 = (res, w')"
      by (simp add: bindR_def)
    ultimately show ?thesis using Cons.IH pass_inv_skip [OF Cons.prems(2)] by metis
  next
    fix node :: node and t
    let ?n = "meta_name (node_metadata node)"
    assume f: "find_node_for_pod p nodes existing strategy = Inr node"
      and r1: "r1 = Inr (existing @ [p\<lparr>pod_spec := (pod_spec p)\<lparr>ps_node_name := Some ?n\<rparr>\<rparr>])"
      and w1: "w_pods w1 = bind_rows (pod_key p) ?n t (w_pods w)"
    have "?n \<in> node_names nodes" using find_node_Inr(1) [OF f] by (simp add: node_names_def)
    from bind_rows_bound_step [OF Cons.prems(2) this]
    have "list_all2 (bound_step (node_names nodes)) (w_pods w) (w_pods w1)" by (simp add: w1)
    moreover have "list_all2 (bound_step (node_names nodes)) (w_pods w1) (w_pods w')"
      using Cons s r1 pass_inv_bind [OF Cons.prems(2) w1] by (auto simp: bindR_def)
    ultimately show ?thesis by (rule bound_steps_trans)
  qed
qed

section \<open>Load\<close>

lemma load_on_sum:
  "load_on res n (map row_to_pod rows) =
     sum_list (map (\<lambda>r. if uses_node n (row_to_pod r) then pod_total res (row_to_pod r) else 0) rows)"
  by (induction rows) (auto simp: load_on_def)

lemma load_on_snoc:
  "load_on res n (ps @ [p]) = load_on res n ps + (if uses_node n p then pod_total res p else 0)"
  by (simp add: load_on_def)

lemma load_on_perm: "mset xs = mset ys \<Longrightarrow> load_on res n xs = load_on res n ys"
  by (metis load_on_def mset_filter mset_map sum_mset_sum_list)

lemma unscheduled_uses_node:
  assumes "unscheduled_row r" "pr_node_name (r_cols r) = None \<longrightarrow> ps_node_name (pr_spec (r_cols r)) = None"
  shows "\<not> uses_node n (row_to_pod r)"
    and "uses_node n (row_to_pod (bind_row m t r)) \<longleftrightarrow> n = m"
  using assms
  by (auto simp: unscheduled_row_def uses_node_def row_to_pod_def bind_row_def Let_def pod_phase_of_def
      pod_status_default_def)

lemma pod_total_node_name [simp]:
  "pod_total res (p\<lparr>pod_spec := (pod_spec p)\<lparr>ps_node_name := x\<rparr>\<rparr>) = pod_total res p"
  by (simp add: pod_total_def)

lemma pod_total_bind [simp]: "pod_total res (row_to_pod (bind_row m t r)) = pod_total res (row_to_pod r)"
  by (simp add: row_to_pod_bind)

lemma sum_list_update_key:
  fixes f :: "'a \<Rightarrow> nat"
  assumes "distinct (map key xs)" "x \<in> set xs"
  shows "sum_list (map f (map (\<lambda>y. if key y = key x then g y else y) xs)) + f x =
         sum_list (map f xs) + f (g x)"
  using assms
proof (induction xs)
  case (Cons a xs)
  show ?case
  proof (cases "key a = key x")
    case True
    with Cons.prems have "a = x" by (metis distinct.simps(2) image_eqI list.set_map list.simps(9) set_ConsD)
    have "key y \<noteq> key x" if "y \<in> set xs" for y
      using Cons.prems(1) \<open>a = x\<close> that by (simp add: image_iff) metis
    then have "map (\<lambda>y. if key y = key x then g y else y) xs = xs"
      by (intro map_idI) auto
    with True \<open>a = x\<close> show ?thesis by (simp add: comp_def del: map_map)
  next
    case False
    with Cons show ?thesis by auto
  qed
qed simp

lemma load_bind_rows:
  assumes inv: "pass_inv (p # todo) w" and wf: "pods_wf w"
  shows "load_on res n (map row_to_pod (bind_rows (pod_key p) m t (w_pods w))) =
    load_on res n (cluster_pods w) + (if n = m then pod_total res p else 0)"
proof -
  from inv obtain r where r: "r \<in> set (w_pods w)" "unscheduled_row r" "row_to_pod r = p"
    by (auto simp: pass_inv_def)
  have wfr: "pr_node_name (r_cols r) = None \<longrightarrow> ps_node_name (pr_spec (r_cols r)) = None"
    using wf r(1) by (simp add: pods_wf_def)
  let ?f = "\<lambda>r. if uses_node n (row_to_pod r) then pod_total res (row_to_pod r) else 0"
  have k: "pod_key p = r_key r" by (simp flip: r(3))
  have "sum_list (map ?f (map (\<lambda>y. if r_key y = r_key r then bind_row m t y else y) (w_pods w))) + ?f r =
      sum_list (map ?f (w_pods w)) + ?f (bind_row m t r)"
    using inv r(1) by (intro sum_list_update_key) (simp_all add: pass_inv_def table_ok_def)
  moreover have "?f r = 0" "?f (bind_row m t r) = (if n = m then pod_total res p else 0)"
    using unscheduled_uses_node [OF r(2) wfr] r(3) by simp_all
  ultimately show ?thesis
    unfolding bind_rows_def cluster_pods_def load_on_sum k by simp
qed

lemma pods_wf_bind: "pods_wf w \<Longrightarrow> w_pods w' = bind_rows k m t (w_pods w) \<Longrightarrow> pods_wf w'"
  by (auto simp: pods_wf_def bind_rows_def bind_row_def)

lemma bound_uses_node:
  assumes "pass_inv (p # todo) w" "pods_wf w"
  shows "uses_node n (p\<lparr>pod_spec := (pod_spec p)\<lparr>ps_node_name := Some m\<rparr>\<rparr>) \<longleftrightarrow> n = m"
proof -
  from assms obtain r where r: "unscheduled_row r" "row_to_pod r = p"
    "pr_node_name (r_cols r) = None \<longrightarrow> ps_node_name (pr_spec (r_cols r)) = None"
    by (auto simp: pass_inv_def pods_wf_def)
  from unscheduled_uses_node(2) [OF r(1,3), of n m t for t] r(2) show ?thesis by (simp add: row_to_pod_bind)
qed

text \<open>The chosen node has room for the pod.\<close>

lemma chosen_node_room:
  assumes "find_node_for_pod p nodes existing strategy = Inr node" "res \<in> resources" "c < u64_max"
    and "\<And>nd. nd \<in> set nodes \<Longrightarrow> meta_name (node_metadata nd) = meta_name (node_metadata node) \<Longrightarrow>
           node_allocatable (fst res) (snd res) nd = Some c"
  shows "pod_total res p = 0 \<or> load_on res (meta_name (node_metadata node)) existing + pod_total res p \<le> c"
proof -
  have "node_fits node existing (fst (sum_pod_requests p)) (snd (sum_pod_requests p))"
    using find_node_Inr(2) [OF assms(1)] by (simp add: node_feasible_def case_prod_beta)
  from node_fits_load [OF this assms(2) _ assms(3)] assms(4) find_node_Inr(1) [OF assms(1)] show ?thesis by simp
qed

lemma pass_load:
  assumes "foldR (schedule_one e strategy nodes) todo existing w = (out, w')"
    and "pass_inv todo w" "pods_wf w" "load_on res n existing = load_on res n (cluster_pods w)"
    and "load_on res n (cluster_pods w) \<le> c"
    and res: "res \<in> resources" "c < u64_max"
    and alloc: "\<And>nd. nd \<in> set nodes \<Longrightarrow> meta_name (node_metadata nd) = n \<Longrightarrow>
                  node_allocatable (fst res) (snd res) nd = Some c"
  shows "load_on res n (cluster_pods w') \<le> c"
  using assms(1-5)
proof (induction todo arbitrary: existing w)
  case Nil
  then show ?case by (simp add: returnR_def)
next
  case (Cons p todo)
  obtain r1 w1 where s: "schedule_one e strategy nodes p existing w = (r1, w1)" by force
  from s show ?case
  proof (rule schedule_one_cases)
    assume r1: "r1 = Inr existing" and w1: "w_pods w1 = w_pods w"
    have "foldR (schedule_one e strategy nodes) todo existing w1 = (out, w')"
      using Cons.prems(1) s r1 by (simp add: bindR_def)
    moreover have "cluster_pods w1 = cluster_pods w" "pods_wf w1"
      using w1 Cons.prems(3) by (simp_all add: cluster_pods_def pods_wf_def)
    ultimately show ?thesis
      using Cons.IH [of existing w1] Cons.prems pass_inv_skip [OF Cons.prems(2) w1] by simp
  next
    fix node :: node and t
    let ?m = "meta_name (node_metadata node)"
    let ?b = "p\<lparr>pod_spec := (pod_spec p)\<lparr>ps_node_name := Some ?m\<rparr>\<rparr>"
    assume f: "find_node_for_pod p nodes existing strategy = Inr node"
      and r1: "r1 = Inr (existing @ [?b])" and w1: "w_pods w1 = bind_rows (pod_key p) ?m t (w_pods w)"
    have fold: "foldR (schedule_one e strategy nodes) todo (existing @ [?b]) w1 = (out, w')"
      using Cons.prems(1) s r1 by (simp add: bindR_def)
    have load: "load_on res n (cluster_pods w1) =
        load_on res n (cluster_pods w) + (if n = ?m then pod_total res p else 0)"
      using load_bind_rows [OF Cons.prems(2,3)] by (simp add: cluster_pods_def w1)
    have ex: "load_on res n (existing @ [?b]) = load_on res n (cluster_pods w1)"
      using Cons.prems(4) load bound_uses_node [OF Cons.prems(2,3)] by (simp add: load_on_snoc)
    have "load_on res n (cluster_pods w1) \<le> c"
    proof (cases "n = ?m")
      case True
      have "pod_total res p = 0 \<or> load_on res n existing + pod_total res p \<le> c"
        using chosen_node_room [OF f res] alloc True by simp
      with load True Cons.prems(4,5) show ?thesis by auto
    qed (use load Cons.prems(5) in simp)
    with Cons.IH [OF fold pass_inv_bind [OF Cons.prems(2) w1] pods_wf_bind [OF Cons.prems(3) w1] ex]
    show ?thesis .
  qed
qed

section \<open>The whole pass\<close>

definition ready_names :: "world \<Rightarrow> string set" where
  "ready_names w = {r_key r | r. r \<in> set (w_nodes w) \<and> nr_status (r_cols r) = ''Ready''}"

lemma row_to_node_name [simp]: "meta_name (node_metadata (row_to_node b r)) = r_key r"
  by (simp add: row_to_node_def Let_def meta_name_def cl_row_meta_def)

lemma node_names_ready:
  "node_names (map (row_to_node False) (sort_key k (filter (\<lambda>r. nr_status (r_cols r) = ''Ready'') (w_nodes w)))) =
   ready_names w"
  by (auto simp: node_names_def ready_names_def image_iff)

text \<open>How a pass starts: what it has read when the loop begins.\<close>

lemma schedule_pending_pods_cases:
  assumes "schedule_pending_pods e strategy w = (res, w')"
  obtains (nothing) "w_pods w' = w_pods w"
  | (pass) existing w1 out where
      "foldR (schedule_one e strategy
         (map (row_to_node False) (sort_key (\<lambda>r. - r_created_at r) (filter (\<lambda>r. nr_status (r_cols r) = ''Ready'') (w_nodes w)))))
         (map row_to_pod (sort_key r_created_at (filter unscheduled_row (w_pods w)))) existing w1 = (out, w')"
      "w_pods w1 = w_pods w"
      "\<not> env_fails e (Suc (Suc (w_stmts w))) \<Longrightarrow> existing = map row_to_pod (sort_key (\<lambda>r. - r_created_at r) (w_pods w))"
proof -
  let ?f0 = "env_fails e (w_stmts w)" and ?f1 = "env_fails e (Suc (w_stmts w))" and ?f2 = "env_fails e (Suc (Suc (w_stmts w)))"
  let ?todo = "map row_to_pod (sort_key r_created_at (filter unscheduled_row (w_pods w)))"
  let ?nodes = "map (row_to_node False) (sort_key (\<lambda>r. - r_created_at r) (filter (\<lambda>r. nr_status (r_cols r) = ''Ready'') (w_nodes w)))"
  let ?w = "w\<lparr>w_stmts := Suc (Suc (Suc (w_stmts w)))\<rparr>"
  let ?ex = "if ?f2 then [] else map row_to_pod (sort_key (\<lambda>r. - r_created_at r) (w_pods w))"
  have eq: "schedule_pending_pods e strategy w =
      bindR (foldR (schedule_one e strategy ?nodes) ?todo ?ex) (\<lambda>_. returnR ()) ?w"
    if "\<not> ?f0" "\<not> ?f1" "?todo \<noteq> []" "?nodes \<noteq> []"
    using that
    by (simp add: schedule_pending_pods_def pod_list_unscheduled_def node_list_ready_def repo_list_def pod_list_def
        bindR_def sql_select_def sql_stmt_def Let_def returnR_def tryR_def in_ns_def [abs_def] pod_selected_def [abs_def])
  show ?thesis
  proof (cases "?f0 \<or> ?f1 \<or> ?todo = [] \<or> ?nodes = []")
    case True
    with assms have "w_pods w' = w_pods w"
      by (auto simp: schedule_pending_pods_def pod_list_unscheduled_def node_list_ready_def repo_list_def
          bindR_def sql_select_def sql_stmt_def Let_def returnR_def split: if_splits)
    then show ?thesis by (rule nothing)
  next
    case False
    obtain out w2 where fd: "foldR (schedule_one e strategy ?nodes) ?todo ?ex ?w = (out, w2)" by force
    with eq False assms have "w2 = w'" by (auto simp: bindR_def returnR_def split: sum.splits)
    with fd show ?thesis by (intro pass [of ?ex ?w out]) auto
  qed
qed

lemma pass_inv_init:
  assumes "table_ok (w_pods w)" "w_pods w1 = w_pods w"
  shows "pass_inv (map row_to_pod (sort_key r_created_at (filter unscheduled_row (w_pods w)))) w1"
proof -
  have "table_ok (filter unscheduled_row (w_pods w))" using assms(1) by (rule table_ok_filter)
  then have "distinct (map r_key (sort_key r_created_at (filter unscheduled_row (w_pods w))))"
    by (simp add: table_ok_def distinct_map)
  then show ?thesis using assms by (auto simp: pass_inv_def comp_def)
qed

text \<open>
  A scheduling pass only binds: each row of the pods table is left exactly as it was, or is
  that of a Pending pod without a node and is bound to a node the database lists as Ready. No pod
  is moved, none is created or deleted, whichever statements fail on the way.
\<close>

theorem schedule_pass_only_binds:
  assumes "db_ok w" "schedule_pending_pods e strategy w = (res, w')"
  shows "list_all2 (bound_step (ready_names w)) (w_pods w) (w_pods w')"
  using assms(2)
proof (rule schedule_pending_pods_cases)
  assume "w_pods w' = w_pods w"
  then show ?thesis by (simp add: list_all2_same bound_step_def)
next
  fix existing w1 out
  let ?nodes = "map (row_to_node False) (sort_key (\<lambda>r. - r_created_at r) (filter (\<lambda>r. nr_status (r_cols r) = ''Ready'') (w_nodes w)))"
  assume fd: "foldR (schedule_one e strategy ?nodes)
      (map row_to_pod (sort_key r_created_at (filter unscheduled_row (w_pods w)))) existing w1 = (out, w')"
    and w1: "w_pods w1 = w_pods w"
  from pass_frame [OF fd pass_inv_init [OF pods.db_ok_tbl [OF assms(1)] w1]]
  show ?thesis by (simp only: node_names_ready w1)
qed

text \<open>One Ready node and one Pending pod.\<close>

definition small_world :: world where
  "small_world = empty_world\<lparr>
     w_nodes := [\<lparr>r_uid = 1, r_key = ''n1'', r_cols = (node_cols_of small_node), r_created_at = 0, r_updated_at = 0\<rparr>],
     w_pods := [\<lparr>r_uid = 2, r_key = (''default'', ''p''), r_cols = pod_cols_of (small_pod ''p''),
                 r_created_at = 0, r_updated_at = 0\<rparr>]\<rparr>"

lemma small_world_ok: "db_ok small_world" "pods_wf small_world"
  by (simp_all add: small_world_def empty_world_def db_ok_def table_ok_def pods_wf_def pod_cols_of_def small_pod_def)

theorem schedule_pass_only_binds_witness:
  "list_all2 (bound_step {''n1''}) (w_pods small_world)
     (w_pods (snd (schedule_pending_pods sample_env LeastAllocated small_world)))"
proof -
  have "ready_names small_world = {''n1''}"
    by (simp add: ready_names_def small_world_def node_cols_of_def small_node_def)
  with schedule_pass_only_binds [OF small_world_ok(1) prod.collapse [symmetric]] show ?thesis by metis
qed

text \<open>
  C1. A scheduling pass never overcommits a node: if the pods bound to a node request, in exact
  sums, no more of a resource than its allocatable amount (below \<open>u64::MAX\<close>), then so do the pods
  bound to it after the pass, however many of the pending pods it placed there. The only statement
  that has to succeed is the listing of all pods, the third of the pass.
\<close>

theorem schedule_pass_no_overcommit:
  assumes "db_ok w" "pods_wf w" and pass: "schedule_pending_pods e strategy w = (out, w')"
    and list_ok: "\<not> env_fails e (Suc (Suc (w_stmts w)))"
    and node: "nr \<in> set (w_nodes w)" and res: "res \<in> resources" "c < u64_max"
    and alloc: "node_allocatable (fst res) (snd res) (row_to_node False nr) = Some c"
    and before: "load_on res (r_key nr) (cluster_pods w) \<le> c"
  shows "load_on res (r_key nr) (cluster_pods w') \<le> c"
  using pass
proof (rule schedule_pending_pods_cases)
  assume "w_pods w' = w_pods w"
  with before show ?thesis by (simp add: cluster_pods_def)
next
  fix existing w1 out1
  let ?nodes = "map (row_to_node False) (sort_key (\<lambda>r. - r_created_at r) (filter (\<lambda>r. nr_status (r_cols r) = ''Ready'') (w_nodes w)))"
  assume fd: "foldR (schedule_one e strategy ?nodes)
      (map row_to_pod (sort_key r_created_at (filter unscheduled_row (w_pods w)))) existing w1 = (out1, w')"
    and w1: "w_pods w1 = w_pods w"
    and ex: "\<not> env_fails e (Suc (Suc (w_stmts w))) \<Longrightarrow> existing = map row_to_pod (sort_key (\<lambda>r. - r_created_at r) (w_pods w))"
  have cp: "cluster_pods w1 = cluster_pods w" "pods_wf w1"
    using w1 assms(2) by (simp_all add: cluster_pods_def pods_wf_def)
  have eq: "load_on res (r_key nr) existing = load_on res (r_key nr) (cluster_pods w1)"
    using ex [OF list_ok] by (intro load_on_perm) (simp add: cluster_pods_def w1)
  have al: "node_allocatable (fst res) (snd res) nd = Some c"
    if "nd \<in> set ?nodes" "meta_name (node_metadata nd) = r_key nr" for nd
  proof -
    from that obtain r where r: "r \<in> set (w_nodes w)" "nd = row_to_node False r" "r_key r = r_key nr" by auto
    note ok = nodes.db_ok_tbl [OF assms(1)]
    have "Some r = Some nr"
      using find_row_SomeI [OF ok r(1)] find_row_SomeI [OF ok node] unfolding r(3) by (rule trans [OF sym])
    then have "r = nr" by (rule option.inject [THEN iffD1])
    then show ?thesis unfolding r(2) by (simp only: alloc)
  qed
  have b: "load_on res (r_key nr) (cluster_pods w1) \<le> c" using before by (simp only: cp(1))
  show ?thesis
    by (rule pass_load [OF fd pass_inv_init [OF pods.db_ok_tbl [OF assms(1)] w1] cp(2) eq b res]) (rule al)
qed

theorem schedule_pass_no_overcommit_witness:
  "load_on (parse_cpu_millicores, ''cpu'') ''n1''
     (cluster_pods (snd (schedule_pending_pods sample_env LeastAllocated small_world))) \<le> 2000"
proof -
  let ?nr = "\<lparr>r_uid = 1, r_key = ''n1'', r_cols = (node_cols_of small_node), r_created_at = 0, r_updated_at = 0\<rparr>"
  have "node_status (row_to_node False ?nr) = node_status small_node"
    by (simp add: row_to_node_def Let_def node_cols_of_def small_node_def)
  then have a: "node_allocatable parse_cpu_millicores ''cpu'' (row_to_node False ?nr) = Some 2000"
    using small_amounts(1) by (simp add: node_allocatable_def)
  have u: "\<not> uses_node ''n1'' (row_to_pod \<lparr>r_uid = 2, r_key = (''default'', ''p''),
      r_cols = pod_cols_of (small_pod ''p''), r_created_at = 0, r_updated_at = 0\<rparr>)"
    by (simp add: uses_node_def row_to_pod_def Let_def pod_cols_of_def small_pod_def pod_spec_default_def)
  have "load_on (parse_cpu_millicores, ''cpu'') (r_key ?nr)
     (cluster_pods (snd (schedule_pending_pods sample_env LeastAllocated small_world))) \<le> 2000"
    by (rule schedule_pass_no_overcommit [OF small_world_ok prod.collapse [symmetric]])
       (use a u in \<open>simp_all add: small_world_def resources_def u64_max_def cluster_pods_def load_on_def sample_env_def\<close>)
  then show ?thesis by simp
qed

end
