(* ===== verification/Controller_Inv.thy ===== *)
theory Controller_Inv
  imports Controller Scheduler_Pass Repository_Props
begin

text \<open>
  The database invariant \<open>db_inv\<close> (unique keys in every table, and node columns that agree with
  the stored specs) is kept by everything the server's background tasks do, whichever statements
  fail: the controllers, the scheduler, the leases, the replication tasks, the listener and the
  pruner.
\<close>

lemma counter_free_db_inv: "counter_free db_inv"
  by (simp add: counter_free_def db_inv_def db_ok_def pods_wf_def)

lemma db_inv_frame:
  "db_inv (w\<lparr>w_bus := b\<rparr>) = db_inv w" "db_inv (w\<lparr>w_tasks := ts\<rparr>) = db_inv w"
  "db_inv (w\<lparr>w_leases := l\<rparr>) = db_inv w" "db_inv (w\<lparr>w_change_log := cl\<rparr>) = db_inv w"
  "db_inv (w\<lparr>w_notifications := nt\<rparr>) = db_inv w"
  by (simp_all add: db_inv_def db_ok_def pods_wf_def)

lemma db_inv_keeps: "keeps db_inv m \<Longrightarrow> preserves db_inv m"
  by (simp add: keeps_def preserves_def)

lemma db_inv_basic [preserves_intros]:
  "preserves db_inv (utc_now e)" "preserves db_inv (new_v4 e)" "preserves db_inv (uid_or_new e u)"
  "preserves db_inv (sql_select e q)" "preserves db_inv (publish et kind ns name obj)"
  "preserves db_inv (try_acquire e lm lname ttl)"
  "preserves db_inv (listener_handle e inst payload)"
  by (intro db_inv_keeps keeps_intros counter_free_db_inv db_inv_frame)+

lemma db_inv_publish [preserves_intros]:
  "preserves db_inv (publish_added kind ns name obj)" "preserves db_inv (publish_modified kind ns name obj)"
  "preserves db_inv (publish_deleted kind ns name obj)"
  by (intro db_inv_keeps keeps_intros db_inv_frame)+

lemma db_inv_emit_event [preserves_intros]:
  "preserves db_inv (emit_event e ref ns typ reason msg cmpt)"
  by (rule preserves_db_inv_keeps; (intro keeps_intros preserves_intros counter_free_w_pods; simp))

text \<open>The other repositories, as far as the background tasks use them.\<close>

lemma db_inv_repositories [preserves_intros]:
  "preserves db_inv (deployment_list e nso)" "preserves db_inv (deployment_update_status e ns name a b)"
  "preserves db_inv (stateful_set_list e nso)" "preserves db_inv (stateful_set_update_status e ns name a b)"
  "preserves db_inv (daemon_set_list e nso)" "preserves db_inv (daemon_set_update_status e ns name a b c)"
  "preserves db_inv (service_list e nso)" "preserves db_inv (node_list_ready e)"
  "preserves db_inv (endpoints_create_or_update e ep)"
  unfolding deployment_list_def deployment_update_status_def stateful_set_list_def
    stateful_set_update_status_def daemon_set_list_def daemon_set_update_status_def service_list_def
    node_list_ready_def endpoints_create_or_update_def
  by (rule preserves_db_inv_keeps; (intro keeps_intros preserves_intros counter_free_w_pods; simp))+

lemma db_inv_for_each [preserves_intros]:
  "(\<And>x. preserves I (body x)) \<Longrightarrow> preserves I (for_each_logged body xs)"
  unfolding for_each_logged_def by (intro preserves_intros)

section \<open>The controllers\<close>

lemma db_inv_builders [preserves_intros]:
  "preserves db_inv (pod_suffix e)" "preserves db_inv (pod_for_statefulset e ss u n)"
  "preserves db_inv (pod_for_daemonset e ds u n nn)"
  unfolding pod_suffix_def pod_for_statefulset_def pod_for_daemonset_def Let_def
  by (intro preserves_intros)+

lemma db_inv_create_pod_for_deployment [preserves_intros]:
  "preserves db_inv (create_pod_for_deployment e d)"
  unfolding create_pod_for_deployment_def Let_def by (intro preserves_intros)

lemma db_inv_delete_and_publish [preserves_intros]: "preserves db_inv (delete_and_publish e ns p)"
  unfolding delete_and_publish_def by (intro preserves_intros)

lemma db_inv_reconcile_deployments [preserves_intros]: "preserves db_inv (reconcile_deployments e)"
  unfolding reconcile_deployments_def reconcile_deployment_def scale_deployment_def Let_def
  by (intro preserves_intros)

lemma db_inv_statefulset_loop [preserves_intros]: "preserves db_inv (statefulset_loop e ss u is acc)"
proof (induction "is" arbitrary: acc)
  case Nil
  show ?case by (simp add: preserves_returnR)
next
  case (Cons i "is")
  show ?case
    unfolding statefulset_loop.simps Let_def
    by (intro preserves_intros Cons)
qed

lemma db_inv_reconcile_statefulsets [preserves_intros]: "preserves db_inv (reconcile_statefulsets e)"
  unfolding reconcile_statefulsets_def reconcile_statefulset_def trim_statefulset_pod_def Let_def split_def
  by (intro preserves_intros)

lemma db_inv_reconcile_daemonsets [preserves_intros]: "preserves db_inv (reconcile_daemonsets e)"
  unfolding reconcile_daemonsets_def reconcile_daemonset_def create_daemon_pod_def delete_daemon_pod_def Let_def
  by (intro preserves_intros)

lemma db_inv_reconcile_pods [preserves_intros]: "preserves db_inv (reconcile_pods e)"
  unfolding reconcile_pods_def reconcile_pod_def mark_failed_def respawn_def Let_def
  by (intro preserves_intros)

lemma db_inv_reconcile_services [preserves_intros]: "preserves db_inv (reconcile_services e)"
  unfolding reconcile_services_def reconcile_service_def Let_def by (intro preserves_intros)

lemma db_inv_controller_tick [preserves_intros]: "preserves db_inv (controller_tick e lm)"
  unfolding controller_tick_def under_lease_def by (intro preserves_intros)

section \<open>The scheduler and the bus\<close>

lemma db_inv_scheduler_tick [preserves_intros]: "preserves db_inv (scheduler_tick e lm strategy)"
  unfolding scheduler_tick_def schedule_pending_pods_def schedule_one_def schedule_pod_def Let_def
  by (intro preserves_intros)

lemma db_inv_pruner_tick [preserves_intros]: "preserves db_inv (pruner_tick e)"
proof -
  have "keeps db_inv (prune_older_than e t)" for t
    unfolding prune_older_than_def Let_def
    by (intro keeps_intros keeps_sql_stmt counter_free_db_inv) (simp add: keeps_def db_inv_frame)
  then show ?thesis unfolding pruner_tick_def by (intro preserves_intros db_inv_keeps)
qed

lemma db_inv_run_replication [preserves_intros]: "preserves db_inv (run_replication e i)"
proof -
  have rep: "keeps db_inv (replicate_event e rep kind ns name et obj)" for rep kind ns name et obj
    unfolding replicate_event_def change_log_insert_def Let_def
    by (intro keeps_intros keeps_sql_stmt counter_free_db_inv) (simp_all add: keeps_def db_inv_frame)
  show ?thesis
    using rep by (auto simp: preserves_def run_replication_def Let_def tryR_def returnR_def keeps_def db_inv_frame
        split: option.split prod.split) (metis db_inv_frame(2) snd_conv)
qed

end
