(* ===== verification/Api_Inv.thy ===== *)
theory Api_Inv
  imports Auth_Api Controller_Inv
begin

text \<open>
  Every handler of the API keeps the database invariant \<open>db_inv\<close>, whatever the request holds and
  whichever statements fail.
\<close>

section \<open>Repositories\<close>

lemma db_inv_service_ops [preserves_intros]:
  "preserves db_inv (service_get e ns name)" "preserves db_inv (service_create e x)"
  "preserves db_inv (service_list e nso)" "preserves db_inv (service_delete e ns name)"
  unfolding service_get_def service_create_def service_list_def service_delete_def
  by (rule preserves_db_inv_keeps; (intro keeps_intros preserves_intros counter_free_w_pods; simp))+

lemma db_inv_deployment_ops [preserves_intros]:
  "preserves db_inv (deployment_get e ns name)" "preserves db_inv (deployment_create e x)"
  "preserves db_inv (deployment_list e nso)" "preserves db_inv (deployment_delete e ns name)"
  unfolding deployment_get_def deployment_create_def deployment_list_def deployment_delete_def
  by (rule preserves_db_inv_keeps; (intro keeps_intros preserves_intros counter_free_w_pods; simp))+

lemma db_inv_stateful_set_ops [preserves_intros]:
  "preserves db_inv (stateful_set_get e ns name)" "preserves db_inv (stateful_set_create e x)"
  "preserves db_inv (stateful_set_list e nso)" "preserves db_inv (stateful_set_delete e ns name)"
  unfolding stateful_set_get_def stateful_set_create_def stateful_set_list_def stateful_set_delete_def
  by (rule preserves_db_inv_keeps; (intro keeps_intros preserves_intros counter_free_w_pods; simp))+

lemma db_inv_daemon_set_ops [preserves_intros]:
  "preserves db_inv (daemon_set_get e ns name)" "preserves db_inv (daemon_set_create e x)"
  "preserves db_inv (daemon_set_list e nso)" "preserves db_inv (daemon_set_delete e ns name)"
  unfolding daemon_set_get_def daemon_set_create_def daemon_set_list_def daemon_set_delete_def
  by (rule preserves_db_inv_keeps; (intro keeps_intros preserves_intros counter_free_w_pods; simp))+

lemma db_inv_service_account_ops [preserves_intros]:
  "preserves db_inv (service_account_get e ns name)" "preserves db_inv (service_account_create e x)"
  "preserves db_inv (service_account_list e nso)" "preserves db_inv (service_account_delete e ns name)"
  unfolding service_account_get_def service_account_create_def service_account_list_def service_account_delete_def
  by (rule preserves_db_inv_keeps; (intro keeps_intros preserves_intros counter_free_w_pods; simp))+

lemma db_inv_secret_ops [preserves_intros]:
  "preserves db_inv (secret_get e ns name)" "preserves db_inv (secret_create e x)"
  "preserves db_inv (secret_list e nso)" "preserves db_inv (secret_delete e ns name)"
  unfolding secret_get_def secret_create_def secret_list_def secret_delete_def
  by (rule preserves_db_inv_keeps; (intro keeps_intros preserves_intros counter_free_w_pods; simp))+

lemma db_inv_config_map_ops [preserves_intros]:
  "preserves db_inv (config_map_get e ns name)" "preserves db_inv (config_map_create e x)"
  "preserves db_inv (config_map_list e nso)" "preserves db_inv (config_map_delete e ns name)"
  unfolding config_map_get_def config_map_create_def config_map_list_def config_map_delete_def
  by (rule preserves_db_inv_keeps; (intro keeps_intros preserves_intros counter_free_w_pods; simp))+

lemma db_inv_role_ops [preserves_intros]:
  "preserves db_inv (role_get e ns name)" "preserves db_inv (role_create e x)"
  "preserves db_inv (role_list e nso)" "preserves db_inv (role_delete e ns name)"
  unfolding role_get_def role_create_def role_list_def role_delete_def
  by (rule preserves_db_inv_keeps; (intro keeps_intros preserves_intros counter_free_w_pods; simp))+

lemma db_inv_role_binding_ops [preserves_intros]:
  "preserves db_inv (role_binding_get e ns name)" "preserves db_inv (role_binding_create e x)"
  "preserves db_inv (role_binding_list e nso)" "preserves db_inv (role_binding_delete e ns name)"
  unfolding role_binding_get_def role_binding_create_def role_binding_list_def role_binding_delete_def
  by (rule preserves_db_inv_keeps; (intro keeps_intros preserves_intros counter_free_w_pods; simp))+

lemma db_inv_node_ops [preserves_intros]:
  "preserves db_inv (node_get e name)" "preserves db_inv (node_create e x)"
  "preserves db_inv (node_list e)" "preserves db_inv (node_delete e name)"
  unfolding node_get_def node_create_def node_list_def node_delete_def
  by (rule preserves_db_inv_keeps; (intro keeps_intros preserves_intros counter_free_w_pods; simp))+

lemma db_inv_namespace_ops [preserves_intros]:
  "preserves db_inv (namespace_get e name)" "preserves db_inv (namespace_create e y)"
  "preserves db_inv (namespace_list e)" "preserves db_inv (namespace_delete e name)"
  unfolding namespace_get_def namespace_create_def namespace_list_def namespace_delete_def
  by (rule preserves_db_inv_keeps; (intro keeps_intros preserves_intros counter_free_w_pods; simp))+

lemma db_inv_cluster_role_ops [preserves_intros]:
  "preserves db_inv (cluster_role_get e name)" "preserves db_inv (cluster_role_create e x)"
  "preserves db_inv (cluster_role_list e)" "preserves db_inv (cluster_role_delete e name)"
  unfolding cluster_role_get_def cluster_role_create_def cluster_role_list_def cluster_role_delete_def
  by (rule preserves_db_inv_keeps; (intro keeps_intros preserves_intros counter_free_w_pods; simp))+

lemma db_inv_cluster_role_binding_ops [preserves_intros]:
  "preserves db_inv (cluster_role_binding_get e name)" "preserves db_inv (cluster_role_binding_create e x)"
  "preserves db_inv (cluster_role_binding_list e)" "preserves db_inv (cluster_role_binding_delete e name)"
  unfolding cluster_role_binding_get_def cluster_role_binding_create_def cluster_role_binding_list_def cluster_role_binding_delete_def
  by (rule preserves_db_inv_keeps; (intro keeps_intros preserves_intros counter_free_w_pods; simp))+

lemma db_inv_event_ops [preserves_intros]:
  "preserves db_inv (event_get e ns name)" "preserves db_inv (event_create e x)"
  "preserves db_inv (event_list_all e be nso a b)" "preserves db_inv (event_delete e ns name)"
  unfolding event_get_def event_create_def event_list_all_def event_delete_def
  by (rule preserves_db_inv_keeps; (intro keeps_intros preserves_intros counter_free_w_pods; simp))+

lemma db_inv_endpoints_get [preserves_intros]: "preserves db_inv (endpoints_get e ns name)"
  unfolding endpoints_get_def
  by (rule preserves_db_inv_keeps; (intro keeps_intros preserves_intros counter_free_w_pods; simp))

section \<open>Responses\<close>

lemma preserves_mapR [preserves_intros]: "(\<And>x. preserves I (f x)) \<Longrightarrow> preserves I (mapR f xs)"
  by (induction xs) (auto intro!: preserves_intros)

lemma preserves_response [preserves_intros]:
  assumes "\<And>x. preserves I (row_for x)"
  shows "preserves I (list_response headers v k items columns row_for)"
    and "preserves I (list_response_live headers v k items columns row_for flt)"
    and "preserves I (item_response headers item columns row_for)"
proof -
  have sub: "preserves I subscribe" by (simp add: preserves_def subscribe_def)
  show "preserves I (list_response headers v k items columns row_for)"
    unfolding list_response_def build_table_def by (intro preserves_intros assms)
  show "preserves I (list_response_live headers v k items columns row_for flt)"
    unfolding list_response_live_def build_table_def by (intro preserves_intros assms sub)
  show "preserves I (item_response headers item columns row_for)"
    unfolding item_response_def build_table_def by (intro preserves_intros assms)
qed

lemma db_inv_age [preserves_intros]: "preserves db_inv (age_str e ts)" "preserves db_inv (meta_age e m)"
  unfolding meta_age_def age_str_def by (intro preserves_intros)+

lemma db_inv_rows [preserves_intros]:
  "preserves db_inv (pod_row e pod_x)"
  "preserves db_inv (node_row e node_x)"
  "preserves db_inv (deployment_row e deployment_x)"
  "preserves db_inv (statefulset_row e statefulset_x)"
  "preserves db_inv (daemonset_row e daemonset_x)"
  "preserves db_inv (service_row e service_x)"
  "preserves db_inv (namespace_row e namespace_x)"
  "preserves db_inv (event_row e event_x)"
  "preserves db_inv (serviceaccount_row e serviceaccount_x)"
  "preserves db_inv (secret_row e secret_x)"
  "preserves db_inv (configmap_row e configmap_x)"
  "preserves db_inv (clusterrolebinding_row e clusterrolebinding_x)"
  "preserves db_inv (rolebinding_row e rolebinding_x)"
  "preserves db_inv (clusterrole_row rfc cr)" "preserves db_inv (role_row rfc r)"
  unfolding pod_row_def node_row_def deployment_row_def statefulset_row_def daemonset_row_def service_row_def namespace_row_def event_row_def serviceaccount_row_def secret_row_def configmap_row_def clusterrolebinding_row_def rolebinding_row_def clusterrole_row_def role_row_def Let_def
  by (intro preserves_intros)+

section \<open>Handlers\<close>

lemma db_inv_cascades [preserves_intros]:
  "preserves db_inv (cascade_delete_pod e ns p)" "preserves db_inv (cascade_listed_pod e ns p)"
  "preserves db_inv (cascade_selected e ns sel)"
  unfolding cascade_delete_pod_def cascade_selected_def cascade_listed_pod_def by (intro preserves_intros)+

lemma db_inv_assign_cluster_ip [preserves_intros]: "preserves db_inv (assign_cluster_ip e cidr s)"
  unfolding assign_cluster_ip_def by (intro preserves_intros)

lemma db_inv_pod_handlers [preserves_intros]:
  "preserves db_inv (list_pods e ns params hs)"
  "preserves db_inv (list_all_pods e params hs)"
  "preserves db_inv (get_pod e ns name hs)"
  "preserves db_inv (create_pod e ns x)"
  "preserves db_inv (update_pod e ns name x)"
  "preserves db_inv (delete_pod e ns name)"
  unfolding list_pods_def list_all_pods_def get_pod_def create_pod_def update_pod_def delete_pod_def Let_def
  by (intro preserves_intros)+

lemma db_inv_service_handlers [preserves_intros]:
  "preserves db_inv (list_services e ns hs)"
  "preserves db_inv (list_all_services e hs)"
  "preserves db_inv (get_service e ns name hs)"
  "preserves db_inv (create_service e cidr ns x)"
  "preserves db_inv (update_service e ns name x)"
  "preserves db_inv (delete_service e ns name)"
  unfolding list_services_def list_all_services_def get_service_def create_service_def update_service_def delete_service_def Let_def
  by (intro preserves_intros)+

lemma db_inv_deployment_handlers [preserves_intros]:
  "preserves db_inv (list_deployments e ns hs)"
  "preserves db_inv (list_all_deployments e hs)"
  "preserves db_inv (get_deployment e ns name hs)"
  "preserves db_inv (create_deployment e ns x)"
  "preserves db_inv (update_deployment e ns name x)"
  "preserves db_inv (delete_deployment e ns name)"
  unfolding list_deployments_def list_all_deployments_def get_deployment_def create_deployment_def update_deployment_def delete_deployment_def Let_def
  by (intro preserves_intros)+

lemma db_inv_statefulset_handlers [preserves_intros]:
  "preserves db_inv (list_statefulsets e ns hs)"
  "preserves db_inv (list_all_statefulsets e hs)"
  "preserves db_inv (get_statefulset e ns name hs)"
  "preserves db_inv (create_statefulset e ns x)"
  "preserves db_inv (update_statefulset e ns name x)"
  "preserves db_inv (delete_statefulset e ns name)"
  unfolding list_statefulsets_def list_all_statefulsets_def get_statefulset_def create_statefulset_def update_statefulset_def delete_statefulset_def Let_def
  by (intro preserves_intros)+

lemma db_inv_daemonset_handlers [preserves_intros]:
  "preserves db_inv (list_daemonsets e ns hs)"
  "preserves db_inv (list_all_daemonsets e hs)"
  "preserves db_inv (get_daemonset e ns name hs)"
  "preserves db_inv (create_daemonset e ns x)"
  "preserves db_inv (update_daemonset e ns name x)"
  "preserves db_inv (delete_daemonset e ns name)"
  unfolding list_daemonsets_def list_all_daemonsets_def get_daemonset_def create_daemonset_def update_daemonset_def delete_daemonset_def Let_def
  by (intro preserves_intros)+

lemma db_inv_service_account_handlers [preserves_intros]:
  "preserves db_inv (list_service_accounts e ns hs)"
  "preserves db_inv (list_all_service_accounts e hs)"
  "preserves db_inv (get_service_account e ns name hs)"
  "preserves db_inv (create_service_account e ns x)"
  "preserves db_inv (update_service_account e ns name x)"
  "preserves db_inv (delete_service_account e ns name)"
  unfolding list_service_accounts_def list_all_service_accounts_def get_service_account_def create_service_account_def update_service_account_def delete_service_account_def Let_def
  by (intro preserves_intros)+

lemma db_inv_secret_handlers [preserves_intros]:
  "preserves db_inv (list_secrets e ns hs)"
  "preserves db_inv (list_all_secrets e hs)"
  "preserves db_inv (get_secret e ns name hs)"
  "preserves db_inv (create_secret e ns x)"
  "preserves db_inv (update_secret e ns name x)"
  "preserves db_inv (delete_secret e ns name)"
  unfolding list_secrets_def list_all_secrets_def get_secret_def create_secret_def update_secret_def delete_secret_def Let_def
  by (intro preserves_intros)+

lemma db_inv_config_map_handlers [preserves_intros]:
  "preserves db_inv (list_config_maps e ns hs)"
  "preserves db_inv (list_all_config_maps e hs)"
  "preserves db_inv (get_config_map e ns name hs)"
  "preserves db_inv (create_config_map e ns x)"
  "preserves db_inv (update_config_map e ns name x)"
  "preserves db_inv (delete_config_map e ns name)"
  unfolding list_config_maps_def list_all_config_maps_def get_config_map_def create_config_map_def update_config_map_def delete_config_map_def Let_def
  by (intro preserves_intros)+

lemma db_inv_role_handlers [preserves_intros]:
  "preserves db_inv (list_roles e rfc ns hs)"
  "preserves db_inv (list_all_roles e rfc hs)"
  "preserves db_inv (get_role e rfc ns name hs)"
  "preserves db_inv (create_role e ns x)"
  "preserves db_inv (update_role e ns name x)"
  "preserves db_inv (delete_role e ns name)"
  unfolding list_roles_def list_all_roles_def get_role_def create_role_def update_role_def delete_role_def Let_def
  by (intro preserves_intros)+

lemma db_inv_role_binding_handlers [preserves_intros]:
  "preserves db_inv (list_role_bindings e ns hs)"
  "preserves db_inv (list_all_role_bindings e hs)"
  "preserves db_inv (get_role_binding e ns name hs)"
  "preserves db_inv (create_role_binding e ns x)"
  "preserves db_inv (update_role_binding e ns name x)"
  "preserves db_inv (delete_role_binding e ns name)"
  unfolding list_role_bindings_def list_all_role_bindings_def get_role_binding_def create_role_binding_def update_role_binding_def delete_role_binding_def Let_def
  by (intro preserves_intros)+

lemma db_inv_node_handlers [preserves_intros]:
  "preserves db_inv (list_nodes e hs)"
  "preserves db_inv (get_node e name hs)"
  "preserves db_inv (create_node e x)"
  "preserves db_inv (update_node e name x)"
  "preserves db_inv (delete_node e name)"
  unfolding list_nodes_def get_node_def create_node_def update_node_def delete_node_def
  by (intro preserves_intros)+

lemma db_inv_namespace_handlers [preserves_intros]:
  "preserves db_inv (list_namespaces e hs)"
  "preserves db_inv (get_namespace e name hs)"
  "preserves db_inv (create_namespace e y)"
  "preserves db_inv (update_namespace e name y)"
  "preserves db_inv (delete_namespace e name)"
  unfolding list_namespaces_def get_namespace_def create_namespace_def update_namespace_def delete_namespace_def
  by (intro preserves_intros)+

lemma db_inv_cluster_role_handlers [preserves_intros]:
  "preserves db_inv (list_cluster_roles e rfc hs)"
  "preserves db_inv (get_cluster_role e rfc name hs)"
  "preserves db_inv (create_cluster_role e x)"
  "preserves db_inv (update_cluster_role e name x)"
  "preserves db_inv (delete_cluster_role e name)"
  unfolding list_cluster_roles_def get_cluster_role_def create_cluster_role_def update_cluster_role_def delete_cluster_role_def
  by (intro preserves_intros)+

lemma db_inv_cluster_role_binding_handlers [preserves_intros]:
  "preserves db_inv (list_cluster_role_bindings e hs)"
  "preserves db_inv (get_cluster_role_binding e name hs)"
  "preserves db_inv (create_cluster_role_binding e x)"
  "preserves db_inv (update_cluster_role_binding e name x)"
  "preserves db_inv (delete_cluster_role_binding e name)"
  unfolding list_cluster_role_bindings_def get_cluster_role_binding_def create_cluster_role_binding_def update_cluster_role_binding_def delete_cluster_role_binding_def
  by (intro preserves_intros)+

lemma db_inv_pod_status_handlers [preserves_intros]:
  "preserves db_inv (get_pod_status e ns name)" "preserves db_inv (update_pod_status e ns name p)"
  "preserves db_inv (get_endpoints e ns name)"
  unfolding get_pod_status_def update_pod_status_def get_endpoints_def by (intro preserves_intros)+

lemma db_inv_event_handlers [preserves_intros]:
  "preserves db_inv (list_events e be ns params hs)" "preserves db_inv (list_all_events e be params hs)"
  "preserves db_inv (get_event e ns name hs)" "preserves db_inv (create_event e ns x)"
  "preserves db_inv (delete_event e ns name)"
  unfolding list_events_def list_all_events_def get_event_def create_event_def delete_event_def Let_def split_def
  by (intro preserves_intros)+

end
