(* ===== verification/Api_Props.thy ===== *)
theory Api_Props
  imports Api_Inv
begin

text \<open>
  What the API promises its clients and watchers: a write that succeeds is announced by exactly one
  event that carries the stored object, and one that fails is not announced; a deletion removes one
  object and announces its last state; deleting a deployment removes the pods its selector matches;
  services get a ClusterIP; and what a watch does not see.
\<close>

section \<open>Writes are announced\<close>

definition announcement :: "watch_event_type \<Rightarrow> string \<Rightarrow> string option \<Rightarrow> string \<Rightarrow> kobject \<Rightarrow> change_event" where
  "announcement et kind ns name obj =
     \<lparr>ce_kind = kind, ce_namespace = ns, ce_name = name, ce_event_type = et, ce_object = obj\<rparr>"

text \<open>\<open>obj\<close> is what the event carries, as a function of the result.\<close>

definition announces ::
  "watch_event_type \<Rightarrow> string \<Rightarrow> string option \<Rightarrow> string \<Rightarrow> ('a \<Rightarrow> kobject) \<Rightarrow> 'a prog \<Rightarrow> bool" where
  "announces et kind ns name obj m \<longleftrightarrow> (\<forall>w res w'. m w = (res, w') \<longrightarrow>
     w_bus w' = (case res of
        Inr x \<Rightarrow> w_bus w @ [announcement et kind ns name (obj x)]
      | Inl _ \<Rightarrow> w_bus w))"

lemma counter_free_w_bus [simp]: "counter_free w_bus"
  by (simp add: counter_free_def)

lemma announces_published:
  assumes "keeps w_bus m" "\<And>x. obj (g x) = K x"
  shows "announces et kind ns name obj (bindR m (\<lambda>x. bindR (publish et kind ns name (K x)) (\<lambda>_. returnR (g x))))"
proof -
  have "w_bus w1 = w_bus w" if "m w = (r, w1)" for w r w1
    using keepsD [OF assms(1) that] .
  then show ?thesis
    unfolding announces_def announcement_def
    by (auto simp: bindR_def publish_def returnR_def Let_def assms(2) split: prod.splits sum.splits)
qed

lemma bus_pod_create [keeps_intros]: "keeps w_bus (pod_create e x)"
  unfolding pod_create_def by (intro keeps_intros counter_free_w_bus) simp

lemma bus_service_create [keeps_intros]: "keeps w_bus (service_create e x)"
  unfolding service_create_def by (intro keeps_intros counter_free_w_bus) simp

lemma bus_deployment_create [keeps_intros]: "keeps w_bus (deployment_create e x)"
  unfolding deployment_create_def by (intro keeps_intros counter_free_w_bus) simp

lemma bus_stateful_set_create [keeps_intros]: "keeps w_bus (stateful_set_create e x)"
  unfolding stateful_set_create_def by (intro keeps_intros counter_free_w_bus) simp

lemma bus_daemon_set_create [keeps_intros]: "keeps w_bus (daemon_set_create e x)"
  unfolding daemon_set_create_def by (intro keeps_intros counter_free_w_bus) simp

lemma bus_service_account_create [keeps_intros]: "keeps w_bus (service_account_create e x)"
  unfolding service_account_create_def by (intro keeps_intros counter_free_w_bus) simp

lemma bus_secret_create [keeps_intros]: "keeps w_bus (secret_create e x)"
  unfolding secret_create_def by (intro keeps_intros counter_free_w_bus) simp

lemma bus_config_map_create [keeps_intros]: "keeps w_bus (config_map_create e x)"
  unfolding config_map_create_def by (intro keeps_intros counter_free_w_bus) simp

lemma bus_role_create [keeps_intros]: "keeps w_bus (role_create e x)"
  unfolding role_create_def by (intro keeps_intros counter_free_w_bus) simp

lemma bus_role_binding_create [keeps_intros]: "keeps w_bus (role_binding_create e x)"
  unfolding role_binding_create_def by (intro keeps_intros counter_free_w_bus) simp

lemma bus_node_create [keeps_intros]: "keeps w_bus (node_create e x)"
  unfolding node_create_def by (intro keeps_intros counter_free_w_bus) simp

lemma bus_namespace_create [keeps_intros]: "keeps w_bus (namespace_create e y)"
  unfolding namespace_create_def by (intro keeps_intros counter_free_w_bus) simp

lemma bus_cluster_role_create [keeps_intros]: "keeps w_bus (cluster_role_create e x)"
  unfolding cluster_role_create_def by (intro keeps_intros counter_free_w_bus) simp

lemma bus_cluster_role_binding_create [keeps_intros]: "keeps w_bus (cluster_role_binding_create e x)"
  unfolding cluster_role_binding_create_def by (intro keeps_intros counter_free_w_bus) simp

lemma bus_assign_cluster_ip [keeps_intros]: "keeps w_bus (assign_cluster_ip e cidr s)"
  unfolding assign_cluster_ip_def by (intro keeps_intros counter_free_w_bus)


section \<open>Deletions\<close>

text \<open>
  A deletion of the object with key \<open>k\<close> in table \<open>tbl\<close>: on success the object was there, is gone, every
  other object is as before, and one DELETED event carries its last state; otherwise it was not
  there and nothing changed.
\<close>

definition removes ::
  "('k, 'c) getter \<Rightarrow> (('k, 'c) row \<Rightarrow> kobject) \<Rightarrow> string \<Rightarrow> string option \<Rightarrow> string \<Rightarrow> 'k \<Rightarrow> 'a prog \<Rightarrow> bool" where
  "removes tbl obj kind ns name k m \<longleftrightarrow> (\<forall>w res w'. m w = (res, w') \<longrightarrow> (case res of
     Inr _ \<Rightarrow> \<exists>r. find_row k (tbl w) = Some r \<and>
       (\<forall>k'. find_row k' (tbl w') = (if k' = k then None else find_row k' (tbl w))) \<and>
       w_bus w' = w_bus w @ [announcement Deleted kind ns name (obj r)]
   | Inl _ \<Rightarrow> find_row k (tbl w) = None \<and> tbl w' = tbl w \<and> w_bus w' = w_bus w))"

lemma removesD:
  "removes tbl obj kind ns name k m \<Longrightarrow> m w = (res, w') \<Longrightarrow> (case res of
     Inr _ \<Rightarrow> \<exists>r. find_row k (tbl w) = Some r \<and>
       (\<forall>k'. find_row k' (tbl w') = (if k' = k then None else find_row k' (tbl w))) \<and>
       w_bus w' = w_bus w @ [announcement Deleted kind ns name (obj r)]
   | Inl _ \<Rightarrow> find_row k (tbl w) = None \<and> tbl w' = tbl w \<and> w_bus w' = w_bus w)"
  by (simp add: removes_def)

context table_lens
begin

lemma removes_deletion:
  assumes "no_faults e" "\<And>f w. w_bus (put f w) = w_bus w" "\<And>f w. tbl (w\<lparr>w_bus := f\<rparr>) = tbl w"
    and "\<And>f w. tbl (w\<lparr>w_tasks := f\<rparr>) = tbl w"
  shows "removes tbl (\<lambda>r. K (dec r)) kind ns name k
    (tryR (repo_get e tbl dec nf k) (\<lambda>pre. bindR (repo_delete e tbl put nf' k) (\<lambda>_.
     bindR (case pre of Inr obj \<Rightarrow> publish Deleted kind ns name (K obj) | Inl _ \<Rightarrow> returnR ()) (\<lambda>_. returnR d))))"
  unfolding removes_def
proof (intro allI impI)
  fix w :: world and res w'
  let ?w = "w\<lparr>w_stmts := Suc (w_stmts w)\<rparr>"
  assume run: "tryR (repo_get e tbl dec nf k) (\<lambda>pre. bindR (repo_delete e tbl put nf' k) (\<lambda>_.
      bindR (case pre of Inr obj \<Rightarrow> publish Deleted kind ns name (K obj) | Inl _ \<Rightarrow> returnR ()) (\<lambda>_. returnR d))) w
      = (res, w')"
  show "case res of
      Inr _ \<Rightarrow> \<exists>r. find_row k (tbl w) = Some r \<and>
        (\<forall>k'. find_row k' (tbl w') = (if k' = k then None else find_row k' (tbl w))) \<and>
        w_bus w' = w_bus w @ [announcement Deleted kind ns name (K (dec r))]
    | Inl _ \<Rightarrow> find_row k (tbl w) = None \<and> tbl w' = tbl w \<and> w_bus w' = w_bus w"
  proof (cases "find_row k (tbl w)")
    case None
    then have "filter (\<lambda>r. r_key r = k) (tbl w) = []" "filter (\<lambda>r. \<not> r_key r = k) (tbl w) = tbl w"
      by (auto simp: find_row_None_iff filter_empty_conv filter_id_conv)
    with run None show ?thesis
      by (auto simp: tryR_def get_run [OF assms(1)] bindR_def repo_delete_def sql_delete_def
          sql_stmt_ok [OF assms(1)] failR_def assms(2))
  next
    case (Some r)
    then have ne: "filter (\<lambda>r. r_key r = k) (tbl w) \<noteq> []"
      by (auto simp: filter_empty_conv dest: find_row_key find_row_in)
    with run Some show ?thesis
      by (auto simp: tryR_def get_run [OF assms(1)] bindR_def repo_delete_def sql_delete_def returnR_def
          sql_stmt_ok [OF assms(1)] publish_def Let_def announcement_def assms find_row_filter_neq)
  qed
qed

end

text \<open>
  C35. Deleting an object through the API, for each of the ten kinds deleted without a cascade and
  when no statement fails: if the object is stored, exactly it is removed and exactly one DELETED
  event with its last stored state is sent; if it is not stored, the handler reports an error and
  neither the table nor the bus changes.
\<close>

theorem deletions_exact:
  assumes "no_faults e"
  shows "removes w_pods (\<lambda>r. KPod (row_to_pod r)) ''Pod'' (Some ns) name (ns, name) (delete_pod e ns name) \<and>
   removes w_services (\<lambda>r. KService (row_to_service r)) ''Service'' (Some ns) name (ns, name) (delete_service e ns name) \<and>
   removes w_serviceaccounts (\<lambda>r. KServiceAccount (row_to_service_account r)) ''ServiceAccount'' (Some ns) name (ns, name) (delete_service_account e ns name) \<and>
   removes w_secrets (\<lambda>r. KSecret (row_to_secret r)) ''Secret'' (Some ns) name (ns, name) (delete_secret e ns name) \<and>
   removes w_configmaps (\<lambda>r. KConfigMap (row_to_config_map r)) ''ConfigMap'' (Some ns) name (ns, name) (delete_config_map e ns name) \<and>
   removes w_roles (\<lambda>r. KRole (row_to_role r)) ''Role'' (Some ns) name (ns, name) (delete_role e ns name) \<and>
   removes w_rolebindings (\<lambda>r. KRoleBinding (row_to_role_binding r)) ''RoleBinding'' (Some ns) name (ns, name) (delete_role_binding e ns name) \<and>
   removes w_nodes (\<lambda>r. KNode (row_to_node True r)) ''Node'' None name name (delete_node e name) \<and>
   removes w_clusterroles (\<lambda>r. KClusterRole (row_to_cluster_role r)) ''ClusterRole'' None name name (delete_cluster_role e name) \<and>
   removes w_clusterrolebindings (\<lambda>r. KClusterRoleBinding (row_to_cluster_role_binding r)) ''ClusterRoleBinding'' None name name (delete_cluster_role_binding e name)"
  unfolding delete_pod_def pod_get_def pod_delete_def
    delete_service_def service_get_def service_delete_def
    delete_service_account_def service_account_get_def service_account_delete_def
    delete_secret_def secret_get_def secret_delete_def
    delete_config_map_def config_map_get_def config_map_delete_def
    delete_role_def role_get_def role_delete_def
    delete_role_binding_def role_binding_get_def role_binding_delete_def
    delete_node_def node_get_def node_delete_def
    delete_cluster_role_def cluster_role_get_def cluster_role_delete_def
    delete_cluster_role_binding_def cluster_role_binding_get_def cluster_role_binding_delete_def
    publish_deleted_def
  by (intro conjI pods.removes_deletion services.removes_deletion serviceaccounts.removes_deletion secrets.removes_deletion configmaps.removes_deletion roles.removes_deletion rolebindings.removes_deletion nodes.removes_deletion clusterroles.removes_deletion clusterrolebindings.removes_deletion)
     (simp_all add: assms)

theorem deletions_exact_witness:
  "\<exists>q w' st w''. create_pod sample_env ''default'' (named_pod ''web'') empty_world = (Inr (201, q), w') \<and>
     delete_pod sample_env ''default'' ''web'' w' = (Inr st, w'') \<and> find_row (''default'', ''web'') (w_pods w'') = None"
proof -
  have key: "meta_key (pod_metadata (named_pod ''web''\<lparr>pod_metadata :=
      default_namespace ''default'' (pod_metadata (named_pod ''web''))\<rparr>)) = (''default'', ''web'')"
    by code_simp
  obtain q w1 where c: "pod_create sample_env (named_pod ''web''\<lparr>pod_metadata :=
      default_namespace ''default'' (pod_metadata (named_pod ''web''))\<rparr>) empty_world = (Inr q, w1)"
    unfolding pod_create_def by (rule pods.create_succeeds [of sample_env _ empty_world]) (auto simp: empty_world_def)
  obtain w2 where w2: "create_pod sample_env ''default'' (named_pod ''web'') empty_world = (Inr (201, q), w2)"
    "w_pods w2 = w_pods w1"
    using c by (auto simp: create_pod_def Let_def bindR_def publish_added_def publish_def returnR_def)
  from c obtain r where r: "find_row (''default'', ''web'') (w_pods w1) = Some r"
    unfolding pod_create_def key by (rule pods.create_lookup)
  obtain res w3 where d: "delete_pod sample_env ''default'' ''web'' w2 = (res, w3)" by fastforce
  have "removes w_pods (\<lambda>r. KPod (row_to_pod r)) ''Pod'' (Some ''default'') ''web'' (''default'', ''web'')
      (delete_pod sample_env ''default'' ''web'')"
    using deletions_exact [of sample_env] by simp
  from removesD [OF this d] r w2 have "\<exists>st. res = Inr st" "find_row (''default'', ''web'') (w_pods w3) = None"
    by (cases res; auto)+
  with w2 d show ?thesis by blast
qed

section \<open>Cascading deletion\<close>

definition deleted_pod_event :: "string \<Rightarrow> (nskey, pod_cols) row \<Rightarrow> change_event" where
  "deleted_pod_event ns r = announcement Deleted ''Pod'' (Some ns) (snd (r_key r)) (KPod (row_to_pod r))"

lemma row_to_pod_name [simp]: "om_name (pod_metadata (row_to_pod r)) = Some (snd (r_key r))"
  "om_namespace (pod_metadata (row_to_pod r)) = Some (fst (r_key r))"
  by (simp_all add: row_to_pod_def Let_def ns_row_meta_def)

lemma cascade_delete_pod_run:
  assumes "no_faults e" "find_row (r_key r) (w_pods w) = Some r" "fst (r_key r) = ns"
  shows "\<exists>w'. cascade_delete_pod e ns (row_to_pod r) w = (Inr (), w') \<and>
    w_pods w' = filter (\<lambda>x. r_key x \<noteq> r_key r) (w_pods w) \<and>
    w_bus w' = w_bus w @ [deleted_pod_event ns r] \<and> w_deployments w' = w_deployments w"
proof -
  from assms(3) have k: "(ns, snd (r_key r)) = r_key r" by auto
  have "filter (\<lambda>x. r_key x = r_key r) (w_pods w) \<noteq> []"
    using find_row_in [OF assms(2)] by (auto simp: filter_empty_conv)
  with assms(1,2) k show ?thesis
    by (simp add: cascade_delete_pod_def tryR_def pod_get_def pods.get_run pod_delete_def repo_delete_def
        bindR_def sql_delete_def sql_stmt_ok returnR_def publish_deleted_def publish_def Let_def
        deleted_pod_event_def announcement_def)
qed

lemma cascade_run:
  assumes "no_faults e" "table_ok (w_pods w)" "distinct (map r_key rs)" "set rs \<subseteq> set (w_pods w)"
    and "\<And>r. r \<in> set rs \<Longrightarrow> fst (r_key r) = ns"
  shows "\<exists>w'. foldR (\<lambda>p _. cascade_delete_pod e ns p) (map row_to_pod rs) () w = (Inr (), w') \<and>
    w_pods w' = filter (\<lambda>x. r_key x \<notin> r_key ` set rs) (w_pods w) \<and>
    w_bus w' = w_bus w @ map (deleted_pod_event ns) rs \<and> w_deployments w' = w_deployments w"
  using assms(2-)
proof (induction rs arbitrary: w)
  case Nil
  then show ?case by (simp add: returnR_def)
next
  case (Cons r rs)
  have "find_row (r_key r) (w_pods w) = Some r"
    using Cons.prems by (auto intro: find_row_SomeI simp: table_ok_def)
  then obtain w1 where w1: "cascade_delete_pod e ns (row_to_pod r) w = (Inr (), w1)"
    "w_pods w1 = filter (\<lambda>x. r_key x \<noteq> r_key r) (w_pods w)"
    "w_bus w1 = w_bus w @ [deleted_pod_event ns r]" "w_deployments w1 = w_deployments w"
    using cascade_delete_pod_run [OF assms(1)] Cons.prems(4) by (metis list.set_intros(1))
  have "table_ok (w_pods w1)" "set rs \<subseteq> set (w_pods w1)" "distinct (map r_key rs)"
    using Cons.prems w1(2) by (auto intro: table_ok_filter) (metis image_eqI)
  then obtain w2 where w2: "foldR (\<lambda>p _. cascade_delete_pod e ns p) (map row_to_pod rs) () w1 = (Inr (), w2)"
    "w_pods w2 = filter (\<lambda>x. r_key x \<notin> r_key ` set rs) (w_pods w1)"
    "w_bus w2 = w_bus w1 @ map (deleted_pod_event ns) rs" "w_deployments w2 = w_deployments w1"
    using Cons.IH [of w1] Cons.prems(4) by auto
  have "foldR (\<lambda>p _. cascade_delete_pod e ns p) (map row_to_pod (r # rs)) () w = (Inr (), w2)"
    using w1(1) w2(1) by (simp add: bindR_def)
  then show ?case using w1 w2 by (auto intro!: filter_cong)
qed

text \<open>The rows of the pods a deployment's deletion takes along, in the order it does.\<close>

definition selected_rows :: "string \<Rightarrow> smap \<Rightarrow> world \<Rightarrow> (nskey, pod_cols) row list" where
  "selected_rows ns sel w = filter (\<lambda>r. pod_selected (Some sel) (row_to_pod r))
     (sort_key (\<lambda>r. - r_created_at r) (filter (in_ns (Some ns)) (w_pods w)))"

lemma set_selected_rows:
  "set (selected_rows ns sel w) = {r \<in> set (w_pods w). fst (r_key r) = ns \<and> pod_selected (Some sel) (row_to_pod r)}"
  by (auto simp: selected_rows_def in_ns_def)

lemma distinct_selected_rows:
  assumes "table_ok (w_pods w)"
  shows "distinct (map r_key (selected_rows ns sel w))"
proof -
  from assms have "distinct (w_pods w)" "inj_on r_key (set (w_pods w))"
    by (simp_all add: table_ok_def distinct_map)
  moreover from this(1) have "distinct (selected_rows ns sel w)" by (simp add: selected_rows_def)
  ultimately show ?thesis by (auto simp: distinct_map set_selected_rows intro: inj_on_subset)
qed

lemma pod_list_selected:
  assumes "no_faults e"
  shows "pod_list e (Some ns) (Some sel) w =
    (Inr (map row_to_pod (selected_rows ns sel w)), w\<lparr>w_stmts := Suc (w_stmts w)\<rparr>)"
  by (simp add: pod_list_def bindR_def pods.list_run [OF assms] returnR_def selected_rows_def filter_map comp_def)

text \<open>
  Deleting a deployment succeeds when no statement fails, and takes along exactly the pods of its
  namespace that carry every label of its selector, whoever owns them: no such pod is left, every
  other pod stays, the deployment is gone, and the watch bus gets a DELETED event for each of those
  pods and then one for the deployment.
\<close>

theorem delete_deployment_cascades:
  assumes "no_faults e" "db_inv w" "find_row (ns, name) (w_deployments w) = Some r"
    and "ls_match_labels (ds_selector (dr_spec (r_cols r))) = Some sel"
  shows "\<exists>st w'. delete_deployment e ns name w = (Inr st, w') \<and>
    w_pods w' = filter (\<lambda>x. \<not> (fst (r_key x) = ns \<and> pod_selected (Some sel) (row_to_pod x))) (w_pods w) \<and>
    find_row (ns, name) (w_deployments w') = None \<and>
    w_bus w' = w_bus w @ map (deleted_pod_event ns) (selected_rows ns sel w) @
      [announcement Deleted ''Deployment'' (Some ns) name (KDeployment (row_to_deployment r))]"
proof -
  let ?rs = "selected_rows ns sel w"
  let ?w = "w\<lparr>w_stmts := Suc (Suc (w_stmts w))\<rparr>"
  have ok: "table_ok (w_pods w)" using assms(2) by (simp add: db_inv_def db_ok_def)
  have sub: "set ?rs \<subseteq> set (w_pods ?w)" "\<And>x. x \<in> set ?rs \<Longrightarrow> fst (r_key x) = ns"
    by (auto simp: set_selected_rows)
  obtain w1 where w1: "foldR (\<lambda>p _. cascade_delete_pod e ns p) (map row_to_pod ?rs) () ?w = (Inr (), w1)"
    "w_pods w1 = filter (\<lambda>x. r_key x \<notin> r_key ` set ?rs) (w_pods w)"
    "w_bus w1 = w_bus w @ map (deleted_pod_event ns) ?rs" "w_deployments w1 = w_deployments w"
    using cascade_run [OF assms(1) _ distinct_selected_rows [OF ok] sub] ok by auto
  have inj: "inj_on r_key (set (w_pods w))" using ok by (simp add: table_ok_def distinct_map)
  have "r_key x \<in> r_key ` set ?rs \<longleftrightarrow> fst (r_key x) = ns \<and> pod_selected (Some sel) (row_to_pod x)"
    if "x \<in> set (w_pods w)" for x
    using that inj by (auto simp: set_selected_rows dest: inj_onD)
  then have pods: "w_pods w1 = filter (\<lambda>x. \<not> (fst (r_key x) = ns \<and> pod_selected (Some sel) (row_to_pod x))) (w_pods w)"
    unfolding w1(2) by (intro filter_cong) auto
  have "filter (\<lambda>x. r_key x = (ns, name)) (w_deployments w1) \<noteq> []"
    using find_row_in [OF assms(3)] find_row_key [OF assms(3)] w1(4) by (auto simp: filter_empty_conv)
  then obtain w2 where w2: "deployment_delete e ns name w1 = (Inr (), w2)" "w_pods w2 = w_pods w1"
    "w_bus w2 = w_bus w1" "w_deployments w2 = filter (\<lambda>x. \<not> r_key x = (ns, name)) (w_deployments w1)"
    using assms(1) by (simp add: deployment_delete_def repo_delete_def bindR_def sql_delete_def sql_stmt_ok returnR_def)
  have sel: "ls_match_labels (ds_selector (dep_spec (row_to_deployment r))) = Some sel"
    using assms(4) by (simp add: row_to_deployment_def Let_def)
  have "find_row (ns, name) (w_deployments w2) = None" by (simp add: w2(4) find_row_filter_neq)
  then show ?thesis
    using w1 w2 pods
    by (simp add: delete_deployment_def bindR_def deployment_get_def deployments.get_run [OF assms(1)] assms(3) sel
        pod_list_selected [OF assms(1)] selected_rows_def publish_deleted_def publish_def Let_def returnR_def
        announcement_def)
qed

definition bare_pod_row :: "smap \<Rightarrow> (nskey, pod_cols) row" where
  "bare_pod_row labels = \<lparr>r_uid = 7, r_key = (''default'', ''bare''), r_cols =
     \<lparr>pr_labels = Some labels, pr_annotations = None, pr_spec = pod_spec_default, pr_status = ''Pending'',
      pr_node_name = None, pr_pod_ip = None, pr_host_ip = None, pr_container_statuses = None,
      pr_owner_reference = None\<rparr>, r_created_at = 0, r_updated_at = 0\<rparr>"

definition web_deployment_row :: "smap \<Rightarrow> (nskey, deployment_cols) row" where
  "web_deployment_row sel = \<lparr>r_uid = 1, r_key = (''default'', ''web''), r_cols =
     \<lparr>dr_labels = None, dr_annotations = None,
      dr_spec = (dep_spec deployment_default)\<lparr>ds_selector := \<lparr>ls_match_labels = Some sel, ls_match_expressions = None\<rparr>\<rparr>,
      dr_replicas = 1, dr_ready_replicas = 0, dr_available_replicas = 0\<rparr>,
     r_created_at = 0, r_updated_at = 0\<rparr>"

definition cascade_world :: world where
  "cascade_world = empty_world\<lparr>w_deployments := [web_deployment_row [(''app'', ''web'')]],
     w_pods := [bare_pod_row [(''app'', ''web'')]]\<rparr>"

lemma db_inv_cascade_world: "db_inv cascade_world"
  by (simp add: db_inv_def db_ok_def pods_wf_def cascade_world_def empty_world_def table_ok_def bare_pod_row_def
      pod_spec_default_def)

theorem delete_deployment_cascades_witness:
  "\<exists>st w'. delete_deployment sample_env ''default'' ''web'' cascade_world = (Inr st, w') \<and> w_pods w' = []"
proof -
  have "pod_selected (Some [(''app'', ''web'')]) (row_to_pod (bare_pod_row [(''app'', ''web'')]))" by code_simp
  moreover have "find_row (''default'', ''web'') (w_deployments cascade_world) = Some (web_deployment_row [(''app'', ''web'')])"
    by (simp add: cascade_world_def web_deployment_row_def)
  ultimately show ?thesis
    using delete_deployment_cascades [OF no_faults_sample db_inv_cascade_world, of "''default''" "''web''" _ "[(''app'', ''web'')]"]
    by (fastforce simp: cascade_world_def web_deployment_row_def bare_pod_row_def)
qed

section \<open>Cluster addresses of services\<close>

lemma cluster_ip_octet_range: "1 \<le> cluster_ip_octet u \<and> cluster_ip_octet u \<le> 254"
proof -
  have "unat u mod 254 < 254" by simp
  then show ?thesis by (simp add: cluster_ip_octet_def del: mod_less_divisor)
qed

text \<open>
  A service created through the API has a ClusterIP unless it is of type ExternalName: the one
  it asked for, or else the prefix of the service CIDR followed by an octet between 1 and 254. An
  ExternalName service keeps what it asked for.
\<close>

theorem cluster_ip_assigned:
  assumes "create_service e cidr ns s w = (Inr (code, s'), w')"
  shows "case sp_cluster_ip (svc_spec s) of
      Some ip \<Rightarrow> sp_cluster_ip (svc_spec s') = Some ip
    | None \<Rightarrow> if sp_service_type (svc_spec s) = ST_ExternalName then sp_cluster_ip (svc_spec s') = None
        else \<exists>n. 1 \<le> n \<and> n \<le> 254 \<and>
          sp_cluster_ip (svc_spec s') = Some (service_cidr_prefix cidr @ ''.'' @ show_nat n)"
proof -
  let ?x = "s\<lparr>svc_metadata := default_namespace ns (svc_metadata s)\<rparr>"
  from assms obtain y w1 w2 where y: "assign_cluster_ip e cidr ?x w = (Inr y, w1)"
    and c: "service_create e y w1 = (Inr s', w2)"
    by (auto simp: create_service_def Let_def bindR_def returnR_def split: prod.splits sum.splits)
  from c obtain u t where "s' = row_to_service (upserted replace_cols \<lparr>r_uid = u, r_key = meta_key (svc_metadata y),
      r_cols = service_cols_of y u, r_created_at = t, r_updated_at = t\<rparr> (w_services w1))"
    unfolding service_create_def by (auto elim!: services.create_ok)
  then have "sp_cluster_ip (svc_spec s') = sp_cluster_ip (svc_spec y)"
    by (simp add: row_to_service_def Let_def upserted_replace service_cols_of_def)
  with y show ?thesis
    using cluster_ip_octet_range
    by (fastforce simp: assign_cluster_ip_def bindR_def returnR_def split: prod.splits sum.splits if_splits option.splits)
qed

theorem cluster_ip_assigned_witness:
  "\<exists>n. 1 \<le> n \<and> n \<le> 254 \<and>
     (\<exists>s' w'. create_service sample_env ''10.96.0.0/12'' ''default'' (node_port_service (Some 9)) empty_world =
        (Inr (201, s'), w') \<and> sp_cluster_ip (svc_spec s') = Some (''10.96.0.'' @ show_nat n))"
proof -
  let ?s = "(node_port_service (Some 9))\<lparr>svc_metadata := default_namespace ''default'' (svc_metadata (node_port_service (Some 9)))\<rparr>"
  obtain y w1 where y: "assign_cluster_ip sample_env ''10.96.0.0/12'' ?s empty_world = (Inr y, w1)" "w_services w1 = []"
    by (simp add: assign_cluster_ip_def node_port_service_def service_default_def bindR_def uid_or_new_def
        default_namespace_def object_meta_default_def returnR_def empty_world_def)
  obtain s' w2 where s': "service_create sample_env y w1 = (Inr s', w2)"
    unfolding service_create_def
    by (rule services.create_succeeds [of sample_env _ w1]) (auto simp: y(2))
  obtain w3 where run: "create_service sample_env ''10.96.0.0/12'' ''default'' (node_port_service (Some 9)) empty_world = (Inr (201, s'), w3)"
    using y s' by (auto simp: create_service_def Let_def bindR_def publish_added_def publish_def returnR_def)
  have "service_cidr_prefix ''10.96.0.0/12'' = ''10.96.0''" by code_simp
  with cluster_ip_assigned [OF run] run show ?thesis
    by (auto simp: node_port_service_def service_default_def)
qed

definition plain_service :: "string \<Rightarrow> uuid \<Rightarrow> service" where
  "plain_service name u = service_default\<lparr>svc_metadata := object_meta_default\<lparr>om_name := Some name, om_uid := Some u\<rparr>\<rparr>"

text \<open>
  Nothing keeps two services from being given the same address: here two creations one after the
  other, whose uids agree modulo 254.
\<close>

theorem cluster_ips_collide:
  "\<exists>a b w1 w2. create_service sample_env ''10.96.0.0/12'' ''default'' (plain_service ''a'' 1) empty_world = (Inr (201, a), w1) \<and>
     create_service sample_env ''10.96.0.0/12'' ''default'' (plain_service ''b'' 255) w1 = (Inr (201, b), w2) \<and>
     sp_cluster_ip (svc_spec a) = Some ''10.96.0.2'' \<and> sp_cluster_ip (svc_spec b) = Some ''10.96.0.2''"
proof -
  obtain r1 w1 where e1: "create_service sample_env ''10.96.0.0/12'' ''default'' (plain_service ''a'' 1) empty_world = (r1, w1)"
    by fastforce
  obtain r2 w2 where e2: "create_service sample_env ''10.96.0.0/12'' ''default'' (plain_service ''b'' 255) w1 = (r2, w2)"
    by fastforce
  have "case create_service sample_env ''10.96.0.0/12'' ''default'' (plain_service ''a'' 1) empty_world of
      (Inr (c, a), w1) \<Rightarrow> (case create_service sample_env ''10.96.0.0/12'' ''default'' (plain_service ''b'' 255) w1 of
          (Inr (d, b), w2) \<Rightarrow> c = 201 \<and> d = 201 \<and> sp_cluster_ip (svc_spec a) = Some ''10.96.0.2'' \<and>
             sp_cluster_ip (svc_spec b) = Some ''10.96.0.2''
        | (Inl _, w2) \<Rightarrow> False)
    | (Inl _, w1) \<Rightarrow> False"
    by code_simp
  then show ?thesis unfolding e1 using e1 e2 by (cases r1; cases r2) (auto split: prod.splits)
qed

section \<open>What a watch misses\<close>

lemma pod_list_keys:
  assumes "pod_list e ns sel w = (Inr items, w1)" "q \<in> set items"
  shows "find_row (meta_key (pod_metadata q)) (w_pods w) \<noteq> None"
proof -
  from assms obtain r where "r \<in> set (w_pods w)" "q = row_to_pod r"
    unfolding pod_list_rows [OF assms(1)] by auto
  then show ?thesis
    by (auto simp: find_row_None_iff meta_key_def meta_namespace_def meta_name_def)
qed

text \<open>
  A list request with \<open>watch\<close> reads the snapshot first and subscribes to the bus afterwards. A
  pod created between the two is missed: it is in neither the snapshot nor the stream, although it is
  stored, as long as no later event repeats it; the client stays connected and never learns of it.
\<close>

theorem watch_misses_concurrent_create:
  assumes snapshot: "pod_list e (Some ns) sel w = (Inr items, w1)"
    and created: "create_pod e ns p w1 = (Inr (code, q), w2)"
    and "find_row (meta_key (pod_metadata q)) (w_pods w) = None"
    and subscribed: "watch_step\<^sup>*\<^sup>* (w_bus w2, live_watch_response items flt (length (w_bus w2))) (bus, lw)"
    and "lw_connected lw" and "\<forall>ev \<in> set (drop (length (w_bus w2)) bus). ce_object ev \<noteq> KPod q"
  shows "find_row (meta_key (pod_metadata q)) (w_pods w2) \<noteq> None \<and>
    Snapshot_Line q \<notin> set (lw_lines lw) \<and> Event_Line t (KPod q) \<notin> set (lw_lines lw)"
proof -
  let ?p = "p\<lparr>pod_metadata := default_namespace ns (pod_metadata p)\<rparr>"
  from created obtain w' where c: "pod_create e ?p w1 = (Inr q, w')" and "w_pods w2 = w_pods w'"
    by (auto simp: create_pod_def Let_def bindR_def publish_added_def publish_def returnR_def
        split: prod.splits sum.splits)
  moreover from c obtain r where "find_row (meta_key (pod_metadata ?p)) (w_pods w') = Some r" "q = row_to_pod r"
    unfolding pod_create_def by (rule pods.create_lookup)
  then have "find_row (meta_key (pod_metadata q)) (w_pods w') \<noteq> None"
    using find_row_key by (fastforce simp: meta_key_def meta_namespace_def meta_name_def)
  moreover have "q \<notin> set items" using pod_list_keys [OF snapshot] assms(3) by blast
  moreover have "payload_lines (lw_lines lw) = expected_lines items flt (length (w_bus w2)) (lw_next lw) bus"
    using watch_inv_reachable [OF subscribed watch_inv_init] assms(5) by (simp add: watch_inv_def)
  moreover have "l \<in> set (lw_lines lw) \<Longrightarrow> l \<noteq> Bookmark_Line \<Longrightarrow> l \<in> set (payload_lines (lw_lines lw))" for l
    by (simp add: payload_lines_def)
  ultimately show ?thesis
    using assms(6) set_take_subset [of "lw_next lw - length (w_bus w2)" "drop (length (w_bus w2)) bus"]
    by (fastforce simp: expected_lines_def event_line_def drop_take)
qed

theorem watch_misses_concurrent_create_witness:
  "\<exists>q w1 w2. pod_list sample_env (Some ''default'') None empty_world = (Inr [], w1) \<and>
     create_pod sample_env ''default'' (named_pod ''web'') w1 = (Inr (201, q), w2) \<and>
     find_row (''default'', ''web'') (w_pods w2) \<noteq> None \<and>
     Event_Line ''ADDED'' (KPod q) \<notin> set (lw_lines (live_watch_response [] default_pods (length (w_bus w2)) :: pod live_watch))"
proof -
  have ls: "pod_list sample_env (Some ''default'') None empty_world = (Inr [], empty_world\<lparr>w_stmts := 1\<rparr>)"
    by (simp add: pod_list_def bindR_def pods.list_run returnR_def empty_world_def)
  let ?w1 = "empty_world\<lparr>w_stmts := 1\<rparr>"
  let ?p = "(named_pod ''web'')\<lparr>pod_metadata := default_namespace ''default'' (pod_metadata (named_pod ''web''))\<rparr>"
  have key: "meta_key (pod_metadata ?p) = (''default'', ''web'')" by code_simp
  obtain q w' where c: "pod_create sample_env ?p ?w1 = (Inr q, w')"
    unfolding pod_create_def by (rule pods.create_succeeds [of sample_env _ ?w1]) (auto simp: empty_world_def)
  from c obtain r where "find_row (''default'', ''web'') (w_pods w') = Some r" "q = row_to_pod r"
    unfolding pod_create_def key by (rule pods.create_lookup)
  then have q: "meta_key (pod_metadata q) = (''default'', ''web'')"
    using find_row_key by (fastforce simp: meta_key_def meta_namespace_def meta_name_def)
  obtain w2 where run: "create_pod sample_env ''default'' (named_pod ''web'') ?w1 = (Inr (201, q), w2)"
    using c by (auto simp: create_pod_def Let_def bindR_def publish_added_def publish_def returnR_def)
  let ?lw = "live_watch_response [] default_pods (length (w_bus w2)) :: pod live_watch"
  have "watch_step\<^sup>*\<^sup>* (w_bus w2, ?lw) (w_bus w2, ?lw)" by simp
  with watch_misses_concurrent_create [OF ls run] q ls run show ?thesis
    by (fastforce simp: empty_world_def live_watch_response_def)
qed

end
