(* ===== verification/Engines.thy ===== *)
theory Engines
  imports Models
begin

text \<open>
  The container engines of a node (\<open>src/src/node/runtime/mod.rs\<close>) and the in-memory engine
  (\<open>src/src/node/runtime/mock.rs\<close>).

  A \<open>Box<dyn Runtime>\<close> is a value of a type \<open>'r\<close> together with the record \<open>runtime_ops\<close> of the
  trait's methods, which the definitions take as their first argument. The errors are the texts of
  \<open>anyhow::Error\<close>. An engine that needs a random UUID or the time is given them. A stream is the
  list of the items it delivers, an exec session its output and how its exit code becomes known. The
  constructors of the engines (which reach Docker, libcontainer or wasmtime) are a parameter of
  \<open>select_engine\<close> and \<open>engines_build\<close>.
\<close>

section \<open>The interface\<close>

record log_options =
  lo_tail_lines :: "int option"
  lo_timestamps :: bool
  lo_since_time :: "time option"
  lo_limit_bytes :: "int option"

record port_mapping =
  pm_container_port :: i32
  pm_host_port :: nat
  pm_protocol :: string

record container_info =
  cinf_id :: string
  cinf_running :: bool
  cinf_restart_count :: i32
  cinf_started_at :: "time option"
  cinf_exit_code :: "i32 option"
  cinf_ip :: "string option"
  cinf_port_mappings :: "port_mapping list"

text \<open>A chunk of output, or the error that ends it.\<close>

type_synonym chunk = "string + 8 word list"

text \<open>\<open>xs_exit\<close>: \<open>None\<close> if the engine cannot tell, \<open>Some None\<close> if no code arrives in time.\<close>

record exec_session =
  xs_output :: "chunk list"
  xs_exit :: "i32 option option"

record 'r runtime_ops =
  rt_create :: "uuid \<Rightarrow> time \<Rightarrow> string \<Rightarrow> container \<Rightarrow> 'r \<Rightarrow> (string + string) \<times> 'r"
  rt_find :: "string \<Rightarrow> 'r \<Rightarrow> string + container_info option"
  rt_remove :: "string \<Rightarrow> 'r \<Rightarrow> (string + unit) \<times> 'r"
  rt_logs :: "string \<Rightarrow> log_options \<Rightarrow> 'r \<Rightarrow> string + string"
  rt_stream :: "string \<Rightarrow> log_options \<Rightarrow> 'r \<Rightarrow> string + chunk list"
  rt_exec :: "string \<Rightarrow> string list \<Rightarrow> bool \<Rightarrow> 'r \<Rightarrow> string + exec_session"
  rt_name :: "'r \<Rightarrow> string"

text \<open>The defaults of the trait: the logs as one chunk, no exec, nothing to clean up.\<close>

definition bytes_of :: "string \<Rightarrow> 8 word list" where
  "bytes_of s = map of_char s"

definition default_stream_logs ::
  "(string \<Rightarrow> log_options \<Rightarrow> 'r \<Rightarrow> string + string) \<Rightarrow> string \<Rightarrow> log_options \<Rightarrow> 'r \<Rightarrow> string + chunk list" where
  "default_stream_logs logs cid options r =
     (case logs cid options r of Inl err \<Rightarrow> Inl err | Inr s \<Rightarrow> Inr [Inr (bytes_of s)])"

definition default_exec :: "string \<Rightarrow> string \<Rightarrow> string list \<Rightarrow> bool \<Rightarrow> 'r \<Rightarrow> string + exec_session" where
  "default_exec nm cid cmd tty r = Inl (''exec not supported by '' @ nm @ '' runtime'')"

definition default_remove :: "string \<Rightarrow> 'r \<Rightarrow> (string + unit) \<times> 'r" where
  "default_remove name r = (Inr (), r)"

section \<open>All engines of a node\<close>

record 'r engines =
  eng_default :: string
  eng_list :: "(string \<times> 'r) list"

definition engine_names :: "'r engines \<Rightarrow> string list" where
  "engine_names es = map fst (eng_list es)"

fun position_of :: "string \<Rightarrow> (string \<times> 'r) list \<Rightarrow> nat option" where
  "position_of n [] = None"
| "position_of n ((m, r) # rest) = (if m = n then Some 0 else map_option Suc (position_of n rest))"

text \<open>\<open>{:?}\<close> of a string.\<close>

definition debug_char :: "char \<Rightarrow> string" where
  "debug_char c =
     (let n = of_char c :: nat; esc = (\<lambda>k. [CHR 0x5C, char_of (k :: nat)]) in
      if n = 0 then esc 48 else if n = 9 then esc 116 else if n = 10 then esc 110 else if n = 13 then esc 114
      else if n = 34 then esc 34 else if n = 92 then esc 92
      else if n < 32 \<or> n = 127 then [CHR 0x5C] @ ''u{'' @ show_hex n @ ''}''
      else [c])"

definition debug_quoted :: "string \<Rightarrow> string" where
  "debug_quoted s = [CHR 0x22] @ concat (map debug_char s) @ [CHR 0x22]"

text \<open>The position of the engine a pod asks for.\<close>

definition for_class :: "string option \<Rightarrow> 'r engines \<Rightarrow> string + nat" where
  "for_class cls es =
     (let want = (case cls of Some c \<Rightarrow> c | None \<Rightarrow> eng_default es) in
      case position_of want (eng_list es) of
        Some i \<Rightarrow> Inr i
      | None \<Rightarrow> Inl (''no engine named '' @ debug_quoted want @ '' on this node (have: '' @
                    join_with '', '' (engine_names es) @ '')''))"

text \<open>\<open>split_once\<close>: what precedes the first \<open>://\<close>, if there is one.\<close>

fun scheme_of :: "string \<Rightarrow> string option" where
  "scheme_of [] = None"
| "scheme_of (c # s) = (if starts_with (c # s) ''://'' then Some [] else map_option ((#) c) (scheme_of s))"

definition engine_of_scheme :: "string \<Rightarrow> string" where
  "engine_of_scheme s = (if s = ''containerd'' then ''mock'' else s)"

definition by_id :: "string \<Rightarrow> 'r engines \<Rightarrow> string + 'r" where
  "by_id cid es =
     (let scheme = (case scheme_of cid of Some s \<Rightarrow> s | None \<Rightarrow> []) in
      case List.find (\<lambda>(n, r). n = engine_of_scheme scheme) (eng_list es) of
        Some (n, r) \<Rightarrow> Inr r
      | None \<Rightarrow> Inl (''container '' @ cid @ '': no engine for scheme '' @ debug_quoted scheme @ '' on this node''))"

definition engine_create ::
  "'r runtime_ops \<Rightarrow> string option \<Rightarrow> uuid \<Rightarrow> time \<Rightarrow> string \<Rightarrow> container \<Rightarrow> 'r engines \<Rightarrow> (string + string) \<times> 'r engines" where
  "engine_create rt cls uid now name c es = (case for_class cls es of
       Inl err \<Rightarrow> (Inl err, es)
     | Inr i \<Rightarrow>
         let (n, r) = eng_list es ! i; (res, r') = rt_create rt uid now name c r
         in (res, es\<lparr>eng_list := (eng_list es)[i := (n, r')]\<rparr>))"

text \<open>The first engine's failures are the node's; a peer's are skipped.\<close>

fun find_container_in :: "'r runtime_ops \<Rightarrow> string \<Rightarrow> bool \<Rightarrow> (string \<times> 'r) list \<Rightarrow> string + container_info option" where
  "find_container_in rt name is_default [] = Inr None"
| "find_container_in rt name is_default ((n, r) # rest) = (case rt_find rt name r of
       Inr (Some info) \<Rightarrow> Inr (Some info)
     | Inr None \<Rightarrow> find_container_in rt name False rest
     | Inl err \<Rightarrow> if is_default then Inl err else find_container_in rt name False rest)"

definition engines_find :: "'r runtime_ops \<Rightarrow> string \<Rightarrow> 'r engines \<Rightarrow> string + container_info option" where
  "engines_find rt name es = find_container_in rt name True (eng_list es)"

fun remove_in :: "'r runtime_ops \<Rightarrow> string \<Rightarrow> (string \<times> 'r) list \<Rightarrow> string option \<Rightarrow> string option \<times> (string \<times> 'r) list" where
  "remove_in rt name [] first_err = (first_err, [])"
| "remove_in rt name ((n, r) # rest) first_err =
     (let (res, r') = rt_remove rt name r;
          err = (case (first_err, res) of (None, Inl x) \<Rightarrow> Some x | _ \<Rightarrow> first_err);
          (final, rest') = remove_in rt name rest err
      in (final, (n, r') # rest'))"

definition engines_remove :: "'r runtime_ops \<Rightarrow> string \<Rightarrow> 'r engines \<Rightarrow> (string + unit) \<times> 'r engines" where
  "engines_remove rt name es =
     (let (err, l) = remove_in rt name (eng_list es) None
      in ((case err of Some x \<Rightarrow> Inl x | None \<Rightarrow> Inr ()), es\<lparr>eng_list := l\<rparr>))"

definition engines_logs :: "'r runtime_ops \<Rightarrow> string \<Rightarrow> log_options \<Rightarrow> 'r engines \<Rightarrow> string + string" where
  "engines_logs rt cid options es = (case by_id cid es of Inl err \<Rightarrow> Inl err | Inr r \<Rightarrow> rt_logs rt cid options r)"

definition engines_stream ::
  "'r runtime_ops \<Rightarrow> string \<Rightarrow> log_options \<Rightarrow> 'r engines \<Rightarrow> string + chunk list" where
  "engines_stream rt cid options es = (case by_id cid es of Inl err \<Rightarrow> Inl err | Inr r \<Rightarrow> rt_stream rt cid options r)"

definition engines_exec ::
  "'r runtime_ops \<Rightarrow> string \<Rightarrow> string list \<Rightarrow> bool \<Rightarrow> 'r engines \<Rightarrow> string + exec_session" where
  "engines_exec rt cid cmd tty es = (case by_id cid es of Inl err \<Rightarrow> Inl err | Inr r \<Rightarrow> rt_exec rt cid cmd tty r)"

section \<open>Choosing engines\<close>

datatype target_os = Linux | MacOS | Other_OS

text \<open>\<open>new\<close> is what constructing the engine of a name gives on this host.\<close>

definition auto_select :: "target_os \<Rightarrow> (string \<Rightarrow> string + 'r) \<Rightarrow> string + 'r" where
  "auto_select os new = (case os of
       MacOS \<Rightarrow> (case new ''docker'' of Inr r \<Rightarrow> Inr r | Inl _ \<Rightarrow> new ''mock'')
     | Linux \<Rightarrow> (case new ''embedded'' of Inr r \<Rightarrow> Inr r | Inl _ \<Rightarrow> new ''mock'')
     | Other_OS \<Rightarrow> new ''mock'')"

definition select_engine :: "target_os \<Rightarrow> (string \<Rightarrow> string + 'r) \<Rightarrow> string \<Rightarrow> string + 'r" where
  "select_engine os new name =
     (let want = map to_lower (trim name) in
      if want = ''auto'' then auto_select os new
      else if want = ''docker'' then
        (if os = MacOS then new ''docker'' else Inl ''docker runtime is only compiled on macOS in this build'')
      else if want = ''embedded'' then
        (if os = Linux then new ''embedded'' else Inl ''embedded runtime is Linux-only'')
      else if want = ''mock'' then new ''mock''
      else if want = ''wasm'' then new ''wasm''
      else Inl (''unknown --runtime: '' @ want @ '' (expected auto/docker/embedded/mock/wasm)''))"

definition add_peer :: "(string \<Rightarrow> string + 'r) \<Rightarrow> string \<Rightarrow> (string \<times> 'r) list \<Rightarrow> (string \<times> 'r) list" where
  "add_peer new name l =
     (if list_ex (\<lambda>(n, r). n = name) l then l
      else (case new name of Inr r \<Rightarrow> l @ [(name, r)] | Inl _ \<Rightarrow> l))"

definition engines_build ::
  "'r runtime_ops \<Rightarrow> target_os \<Rightarrow> (string \<Rightarrow> string + 'r) \<Rightarrow> string \<Rightarrow> string + 'r engines" where
  "engines_build rt os new default_kind = (case select_engine os new default_kind of
       Inl err \<Rightarrow> Inl err
     | Inr r \<Rightarrow>
         let dflt = rt_name rt r;
             l = add_peer new ''wasm'' [(dflt, r)];
             l' = (if os = MacOS then add_peer new ''docker'' l else l)
         in Inr \<lparr>eng_default = dflt, eng_list = l'\<rparr>)"

section \<open>The in-memory engine\<close>

record mock_container =
  mc_id :: string
  mc_running :: bool
  mc_started_at :: time
  mc_logs :: "(time \<times> string) list"

record mock_runtime =
  mk_containers :: "(string \<times> mock_container) list"
  mk_by_name :: "(string \<times> string) list"

definition mock_new :: mock_runtime where
  "mock_new = \<lparr>mk_containers = [], mk_by_name = []\<rparr>"

text \<open>\<open>show_uuid\<close> is the text form of a UUID. Creation never fails.\<close>

definition mock_create ::
  "(uuid \<Rightarrow> string) \<Rightarrow> uuid \<Rightarrow> time \<Rightarrow> string \<Rightarrow> container \<Rightarrow> mock_runtime \<Rightarrow> (string + string) \<times> mock_runtime" where
  "mock_create show_uuid uid now name c m =
     (let cid = ''containerd://'' @ show_uuid uid;
          logs = [(now, ''Starting container '' @ name @ '' with image '' @ co_image c),
                  (now + 100000000, ''Initializing application...''),
                  (now + 200000000, ''Application started successfully''),
                  (now + 300000000, ''Listening for connections...'')]
      in (Inr cid,
          \<lparr>mk_containers = hm_insert cid \<lparr>mc_id = cid, mc_running = True, mc_started_at = now, mc_logs = logs\<rparr> (mk_containers m),
           mk_by_name = hm_insert name cid (mk_by_name m)\<rparr>))"

definition mock_find :: "string \<Rightarrow> mock_runtime \<Rightarrow> string + container_info option" where
  "mock_find name m = Inr (case hm_get (mk_by_name m) name of
       None \<Rightarrow> None
     | Some cid \<Rightarrow> (case hm_get (mk_containers m) cid of
         None \<Rightarrow> None
       | Some c \<Rightarrow> Some \<lparr>cinf_id = mc_id c, cinf_running = mc_running c, cinf_restart_count = 0,
                        cinf_started_at = Some (mc_started_at c), cinf_exit_code = None,
                        cinf_ip = None, cinf_port_mappings = []\<rparr>))"

text \<open>\<open>as usize\<close> on an \<open>i64\<close>: a negative count becomes a huge one.\<close>

definition i64_as_usize :: "int \<Rightarrow> nat" where
  "i64_as_usize n = nat (n mod 18446744073709551616)"

definition log_tail :: "int option \<Rightarrow> 'a list \<Rightarrow> 'a list" where
  "log_tail tail_n xs = (case tail_n of
       None \<Rightarrow> xs
     | Some n \<Rightarrow> (if length xs > i64_as_usize n then drop (length xs - i64_as_usize n) xs else xs))"

definition log_limit :: "int option \<Rightarrow> string \<Rightarrow> string" where
  "log_limit lim out = (case lim of
       None \<Rightarrow> out
     | Some n \<Rightarrow> (if length out > i64_as_usize n then take (i64_as_usize n) out else out))"

text \<open>\<open>fmt\<close> renders a timestamp.\<close>

definition mock_logs :: "(time \<Rightarrow> string) \<Rightarrow> string \<Rightarrow> log_options \<Rightarrow> mock_runtime \<Rightarrow> string + string" where
  "mock_logs fmt cid options m = (case hm_get (mk_containers m) cid of
       None \<Rightarrow> Inl (''Container '' @ cid @ '' not found'')
     | Some c \<Rightarrow>
         let since = (case lo_since_time options of
                        None \<Rightarrow> mc_logs c | Some t \<Rightarrow> filter (\<lambda>(ts, msg). t \<le> ts) (mc_logs c));
             entries = log_tail (lo_tail_lines options) since;
             out = concat (map (\<lambda>(ts, msg). (if lo_timestamps options then fmt ts @ '' '' else []) @ msg @ [CHR 0x0A]) entries)
         in Inr (log_limit (lo_limit_bytes options) out))"

definition mock_ops :: "(uuid \<Rightarrow> string) \<Rightarrow> (time \<Rightarrow> string) \<Rightarrow> mock_runtime runtime_ops" where
  "mock_ops show_uuid fmt = \<lparr>rt_create = mock_create show_uuid, rt_find = mock_find, rt_remove = default_remove,
     rt_logs = mock_logs fmt, rt_stream = default_stream_logs (mock_logs fmt), rt_exec = default_exec ''mock'', rt_name = (\<lambda>_. ''mock'')\<rparr>"

section \<open>Properties\<close>

lemma position_of_Some:
  "position_of n l = Some i \<Longrightarrow> i < length l \<and> fst (l ! i) = n"
  by (induction l arbitrary: i rule: position_of.induct) (auto split: if_splits)

lemma scheme_of_prefix:
  assumes "CHR '':'' \<notin> set s"
  shows "scheme_of (s @ ''://'' @ x) = Some s"
  using assms by (induction s) (auto simp: starts_with_def)

lemma find_by_name:
  assumes "distinct (map fst l)" "(n, r) \<in> set l"
  shows "List.find (\<lambda>(m, s). m = n) l = Some (n, r)"
  using assms by (induction l) (auto simp: rev_image_eqI)

lemma add_peer_names: "distinct (map fst l) \<Longrightarrow> distinct (map fst (add_peer new name l))"
  by (auto simp: add_peer_def list_ex_iff split: sum.split)

lemma add_peer_hd: "l \<noteq> [] \<Longrightarrow> hd (add_peer new name l) = hd l \<and> add_peer new name l \<noteq> []"
  by (auto simp: add_peer_def split: sum.split)

lemma engines_build_names:
  assumes "engines_build rt os new kind = Inr es"
  shows "distinct (engine_names es)" "engine_names es \<noteq> []" "hd (engine_names es) = eng_default es"
proof -
  from assms obtain r where es: "es = \<lparr>eng_default = rt_name rt r, eng_list =
      (if os = MacOS then add_peer new ''docker'' (add_peer new ''wasm'' [(rt_name rt r, r)])
       else add_peer new ''wasm'' [(rt_name rt r, r)])\<rparr>"
    by (auto simp: engines_build_def Let_def split: sum.splits)
  show "distinct (engine_names es)" by (simp add: es engine_names_def add_peer_names)
  have "hd (eng_list es) = (rt_name rt r, r) \<and> eng_list es \<noteq> []"
    using add_peer_hd [of "[(rt_name rt r, r)]"] add_peer_hd [of "add_peer new ''wasm'' [(rt_name rt r, r)]"]
    by (simp add: es)
  then show "engine_names es \<noteq> []" "hd (engine_names es) = eng_default es"
    by (simp_all add: engine_names_def hd_map es)
qed

text \<open>
  Requests find their way back to the engine that minted a container. In the engines a node
  builds, names are unique; so when a pod of some class has a container created, and the engine
  names its ids with its own scheme (\<open>containerd\<close> for the in-memory engine), a later request for
  that id is routed to that very engine, in the state the creation left it.
\<close>

theorem created_container_routed:
  assumes "engines_build rt os new kind = Inr es0" "engine_names es = engine_names es0"
    and "for_class cls es = Inr i" "eng_list es ! i = (n, r)"
    and "engine_create rt cls uid now name c es = (Inr cid, es')"
    and "cid = scheme @ ''://'' @ x" "engine_of_scheme scheme = n" "CHR '':'' \<notin> set scheme"
  shows "by_id cid es' = Inr (snd (rt_create rt uid now name c r))"
proof -
  from assms(3) have i: "i < length (eng_list es)"
    by (auto simp: for_class_def Let_def dest: position_of_Some split: option.splits)
  let ?r' = "snd (rt_create rt uid now name c r)"
  from assms(3-5) have es': "eng_list es' = (eng_list es)[i := (n, ?r')]"
    by (auto simp: engine_create_def Let_def split: prod.splits)
  have "map fst (eng_list es') = map fst (eng_list es)"
    using assms(4) i by (simp add: es' map_update list_update_same_conv)
  then have "distinct (map fst (eng_list es'))"
    using engines_build_names(1) [OF assms(1)] assms(2) by (simp add: engine_names_def)
  moreover have "(n, ?r') \<in> set (eng_list es')" using i by (simp add: es' set_update_memI)
  ultimately have "List.find (\<lambda>(m, s). m = n) (eng_list es') = Some (n, ?r')" by (rule find_by_name)
  then show ?thesis
    using assms(6-8) scheme_of_prefix [of scheme x] by (simp add: by_id_def)
qed

definition sample_container :: container where
  "sample_container = \<lparr>co_name = ''c'', co_image = ''nginx'', co_image_pull_policy = None, co_command = None,
     co_args = None, co_env = None, co_ports = None, co_resources = None, co_working_dir = None\<rparr>"

theorem created_container_routed_witness:
  "\<exists>es cid es'. engines_build (mock_ops (\<lambda>_. ''u1'') show_int) Other_OS
       (\<lambda>n. if n = ''mock'' then Inr mock_new else Inl ''none'') ''auto'' = Inr es \<and>
     engine_create (mock_ops (\<lambda>_. ''u1'') show_int) None 1 0 ''web-c'' sample_container es = (Inr cid, es') \<and>
     by_id cid es' = Inr (snd (mock_create (\<lambda>_. ''u1'') 1 0 ''web-c'' sample_container mock_new))"
proof -
  let ?rt = "mock_ops (\<lambda>_. ''u1'') show_int"
  let ?new = "\<lambda>n. if n = ''mock'' then Inr mock_new else Inl ''none''"
  let ?es = "\<lparr>eng_default = ''mock'', eng_list = [(''mock'', mock_new)]\<rparr>"
  have "map to_lower (trim ''auto'') = ''auto''" by code_simp
  then have b: "engines_build ?rt Other_OS ?new ''auto'' = Inr ?es"
    by (simp add: engines_build_def select_engine_def auto_select_def add_peer_def mock_ops_def Let_def)
  have f: "for_class None ?es = Inr 0" by (simp add: for_class_def)
  obtain es' where c: "engine_create ?rt None 1 0 ''web-c'' sample_container ?es = (Inr (''containerd'' @ ''://'' @ ''u1''), es')"
    by (simp add: engine_create_def f mock_ops_def mock_create_def Let_def)
  have n: "eng_list ?es ! 0 = (''mock'', mock_new)" by simp
  have "by_id (''containerd'' @ ''://'' @ ''u1'') es' = Inr (snd (rt_create ?rt 1 0 ''web-c'' sample_container mock_new))"
    by (rule created_container_routed [OF b refl f n c refl]) (simp_all add: engine_of_scheme_def)
  with b c show ?thesis by (auto simp: mock_ops_def)
qed

section \<open>The contract of an engine\<close>

text \<open>
  What the agent relies on: a container that was created is found under its name, with the id the
  creation returned.
\<close>

locale container_runtime =
  fixes rt :: "'r runtime_ops"
  assumes create_find: "rt_create rt uid now name c r = (Inr cid, r') \<Longrightarrow>
      \<exists>info. rt_find rt name r' = Inr (Some info) \<and> cinf_id info = cid"
begin

lemma find_in_created:
  assumes "find_container_in rt name b l = Inr None" "i < length l" "l ! i = (n, r)"
    and "rt_find rt name r' = Inr (Some info)"
  shows "find_container_in rt name b (l[i := (n, r')]) = Inr (Some info)"
  using assms
proof (induction l arbitrary: i b)
  case (Cons x l)
  obtain m r0 where x: "x = (m, r0)" by fastforce
  show ?case
  proof (cases i)
    case 0
    then show ?thesis using Cons.prems(4) by simp
  next
    case (Suc j)
    have "find_container_in rt name False l = Inr None"
      using Cons.prems(1) by (auto simp: x split: sum.splits option.splits if_splits)
    moreover have "rt_find rt name r0 = Inr None \<or> (\<exists>err. rt_find rt name r0 = Inl err \<and> \<not> b)"
      using Cons.prems(1) by (auto simp: x split: sum.splits option.splits if_splits)
    ultimately show ?thesis using Cons.IH [of False j] Cons.prems(2-4) by (auto simp: x Suc)
  qed
qed simp

text \<open>A container no engine knew is found once it has been created.\<close>

lemma created_found:
  assumes "engines_find rt name es = Inr None" "engine_create rt cls uid now name c es = (Inr cid, es')"
  shows "\<exists>info. engines_find rt name es' = Inr (Some info) \<and> cinf_id info = cid"
proof -
  from assms(2) obtain i n r r' where i: "for_class cls es = Inr i" and e: "eng_list es ! i = (n, r)"
    and c: "rt_create rt uid now name c r = (Inr cid, r')" and l: "eng_list es' = (eng_list es)[i := (n, r')]"
    by (auto simp: engine_create_def Let_def split: sum.splits prod.splits)
  from i have "i < length (eng_list es)"
    by (auto simp: for_class_def Let_def dest: position_of_Some split: option.splits)
  with create_find [OF c] find_in_created [OF assms(1) [unfolded engines_find_def] _ e] show ?thesis
    by (auto simp: engines_find_def l)
qed

end

lemma mock_create_find:
  assumes "mock_create show_uuid uid now name c m = (Inr cid, m')"
  shows "mock_find name m' = Inr (Some \<lparr>cinf_id = cid, cinf_running = True, cinf_restart_count = 0,
    cinf_started_at = Some now, cinf_exit_code = None, cinf_ip = None, cinf_port_mappings = []\<rparr>)"
  using assms by (auto simp: mock_create_def mock_find_def Let_def)

interpretation mock: container_runtime "mock_ops show_uuid fmt"
proof unfold_locales
  fix uid now name c r cid r'
  assume "rt_create (mock_ops show_uuid fmt) uid now name c r = (Inr cid, r')"
  then have "mock_create show_uuid uid now name c r = (Inr cid, r')" by (simp add: mock_ops_def)
  from mock_create_find [OF this]
  show "\<exists>info. rt_find (mock_ops show_uuid fmt) name r' = Inr (Some info) \<and> cinf_id info = cid"
    by (simp add: mock_ops_def)
qed

end
