(* ===== verification/Utf8.thy ===== *)
theory Utf8
  imports Text
begin

text \<open>
  Rust's \<open>String\<close> as the bytes it holds: UTF-8 validity as the standard library checks it
  (\<open>std::str::from_utf8\<close>), the lossy conversion that replaces every maximal ill-formed sequence by the
  replacement character, character boundaries, \<open>truncate\<close> (which panics inside a character),
  \<open>lines\<close> and \<open>split_once\<close>. The engines that capture the output of containers use them; a string
  of this theory is a list of bytes.
\<close>

section \<open>Well-formed sequences\<close>

text \<open>The number of continuation bytes a first byte calls for.\<close>

definition utf8_width :: "char \<Rightarrow> nat option" where
  "utf8_width b = (let n = of_char b :: nat in
     if n < 128 then Some 0
     else if 194 \<le> n \<and> n \<le> 223 then Some 1
     else if 224 \<le> n \<and> n \<le> 239 then Some 2
     else if 240 \<le> n \<and> n \<le> 244 then Some 3
     else None)"

text \<open>The range of the second byte, which excludes overlong forms, surrogates and values that are too large.\<close>

definition second_range :: "char \<Rightarrow> nat \<times> nat" where
  "second_range b = (let n = of_char b :: nat in
     if n = 224 then (160, 191)
     else if n = 237 then (128, 159)
     else if n = 240 then (144, 191)
     else if n = 244 then (128, 143)
     else (128, 191))"

definition is_cont :: "char \<Rightarrow> bool" where
  "is_cont c \<longleftrightarrow> 128 \<le> (of_char c :: nat) \<and> (of_char c :: nat) \<le> 191"

text \<open>How many of the \<open>w\<close> continuation bytes are there, the first of them in the given range.\<close>

fun conts :: "nat \<Rightarrow> nat \<times> nat \<Rightarrow> string \<Rightarrow> nat" where
  "conts 0 rng s = 0"
| "conts (Suc w) rng [] = 0"
| "conts (Suc w) (lo, hi) (c # s) =
     (if lo \<le> of_char c \<and> of_char c \<le> hi then Suc (conts w (128, 191) s) else 0)"

function utf8_valid :: "string \<Rightarrow> bool" where
  "utf8_valid [] = True"
| "utf8_valid (b # s) = (case utf8_width b of
     None \<Rightarrow> False
   | Some w \<Rightarrow> conts w (second_range b) s = w \<and> utf8_valid (drop w s))"
  by pat_completeness auto
termination by (relation "measure length") auto

text \<open>The replacement character U+FFFD.\<close>

definition fffd :: string where
  "fffd = [CHR 0xEF, CHR 0xBF, CHR 0xBD]"

function from_utf8_lossy :: "string \<Rightarrow> string" where
  "from_utf8_lossy [] = []"
| "from_utf8_lossy (b # s) = (case utf8_width b of
     None \<Rightarrow> fffd @ from_utf8_lossy s
   | Some w \<Rightarrow>
       if conts w (second_range b) s = w then b # take w s @ from_utf8_lossy (drop w s)
       else fffd @ from_utf8_lossy (drop (conts w (second_range b) s) s))"
  by pat_completeness auto
termination by (relation "measure length") auto

definition from_utf8 :: "string \<Rightarrow> string option" where
  "from_utf8 s = (if utf8_valid s then Some s else None)"

section \<open>Boundaries\<close>

definition is_char_boundary :: "string \<Rightarrow> nat \<Rightarrow> bool" where
  "is_char_boundary s i \<longleftrightarrow> i = 0 \<or> (if i \<ge> length s then i = length s else \<not> is_cont (s ! i))"

text \<open>\<open>String::truncate\<close>: nothing to do beyond the end, a panic (\<open>None\<close>) inside a character.\<close>

definition truncate_str :: "nat \<Rightarrow> string \<Rightarrow> string option" where
  "truncate_str n s = (if n \<le> length s then (if is_char_boundary s n then Some (take n s) else None) else Some s)"

text \<open>\<open>max(0) as usize\<close> of an \<open>i64\<close>.\<close>

definition nonneg :: "int \<Rightarrow> nat" where
  "nonneg n = nat (max n 0)"

section \<open>Lines\<close>

text \<open>\<open>str::lines\<close>: a line ends with a newline or a carriage return and a newline; a last line may lack them.\<close>

definition strip_cr :: "string \<Rightarrow> string" where
  "strip_cr s = (case strip_suffix s [CHR 0x0D] of Some r \<Rightarrow> r | None \<Rightarrow> s)"

definition lines :: "string \<Rightarrow> string list" where
  "lines s = (let ps = split_on (CHR 0x0A) s in
     map strip_cr (butlast ps) @ (if last ps = [] then [] else [last ps]))"

definition str_split_once :: "char \<Rightarrow> string \<Rightarrow> (string \<times> string) option" where
  "str_split_once c s = (case splitn2 c s of (a, Some b) \<Rightarrow> Some (a, b) | (a, None) \<Rightarrow> None)"

section \<open>Lemmas\<close>

lemma conts_le: "conts w rng s \<le> w" "conts w rng s \<le> length s"
  by (induction w rng s rule: conts.induct) auto

lemma conts_full_append: "conts w rng s = w \<Longrightarrow> conts w rng (s @ t) = w"
  by (induction w rng s rule: conts.induct) (auto split: if_splits)

lemma conts_full_take: "conts w rng s = w \<Longrightarrow> conts w rng (take w s) = w"
  by (induction w rng s rule: conts.induct) (auto split: if_splits)

lemma conts_full_cont: "conts w rng s = w \<Longrightarrow> 128 \<le> fst rng \<Longrightarrow> snd rng \<le> 191 \<Longrightarrow> i < w \<Longrightarrow> is_cont (s ! i)"
proof (induction w rng s arbitrary: i rule: conts.induct)
  case (3 w lo hi c s)
  then show ?case by (cases i) (auto simp: is_cont_def split: if_splits)
qed auto

lemma second_range_cont: "128 \<le> fst (second_range b)" "snd (second_range b) \<le> 191"
  by (auto simp: second_range_def Let_def)

lemma utf8_width_le: "utf8_width b = Some w \<Longrightarrow> w \<le> 3"
  by (auto simp: utf8_width_def Let_def split: if_splits)

lemma utf8_width_lead: "utf8_width b = Some w \<Longrightarrow> \<not> is_cont b"
  by (auto simp: utf8_width_def is_cont_def Let_def split: if_splits)

lemma utf8_valid_append: "utf8_valid s \<Longrightarrow> utf8_valid (s @ t) \<longleftrightarrow> utf8_valid t"
proof (induction s rule: utf8_valid.induct)
  case (2 b s)
  then obtain w where w: "utf8_width b = Some w" "conts w (second_range b) s = w" "utf8_valid (drop w s)"
    by (auto split: option.splits)
  have "w \<le> length s" using conts_le(2) [of w "second_range b" s] w(2) by simp
  then show ?case using w "2.IH" conts_full_append [OF w(2)] by simp
qed simp

lemma fffd_valid: "utf8_valid fffd"
  by (simp add: fffd_def utf8_width_def second_range_def numeral_2_eq_2)

lemma utf8_valid_char:
  assumes "utf8_width b = Some w" "conts w (second_range b) s = w"
  shows "utf8_valid (b # take w s)"
proof -
  have "length (take w s) = w" using conts_le(2) [of w "second_range b" s] assms(2) by simp
  then show ?thesis using assms(1) conts_full_take [OF assms(2)] by simp
qed

lemma from_utf8_lossy_valid: "utf8_valid (from_utf8_lossy s)"
proof (induction s rule: from_utf8_lossy.induct)
  case (2 b s)
  show ?case
  proof (cases "utf8_width b")
    case None
    then show ?thesis using 2 by (simp add: utf8_valid_append fffd_valid)
  next
    case (Some w)
    show ?thesis
    proof (cases "conts w (second_range b) s = w")
      case True
      have "utf8_valid ((b # take w s) @ from_utf8_lossy (drop w s))"
        using "2.IH"(2) [OF Some True] by (simp only: utf8_valid_append [OF utf8_valid_char [OF Some True]])
      then show ?thesis using Some True by simp
    next
      case False
      then show ?thesis using "2.IH"(3) [OF Some False] Some by (simp add: utf8_valid_append fffd_valid)
    qed
  qed
qed simp

lemma from_utf8_lossy_id: "utf8_valid s \<Longrightarrow> from_utf8_lossy s = s"
  by (induction s rule: utf8_valid.induct) (auto split: option.splits)

lemma utf8_valid_ascii: "(of_char c :: nat) < 128 \<Longrightarrow> utf8_valid (c # s) \<longleftrightarrow> utf8_valid s"
  by (simp add: utf8_width_def)

lemma ascii_valid: "list_all (\<lambda>c. (of_char c :: nat) < 128) s \<Longrightarrow> utf8_valid s"
  by (induction s) (auto simp: utf8_width_def)

text \<open>Cutting a well-formed string at a character boundary gives two well-formed strings.\<close>

lemma boundary_split:
  assumes "utf8_valid s" "is_char_boundary s i"
  shows "utf8_valid (take i s) \<and> utf8_valid (drop i s)"
  using assms
proof (induction s arbitrary: i rule: utf8_valid.induct)
  case (2 b s)
  then obtain w where w: "utf8_width b = Some w" "conts w (second_range b) s = w" "utf8_valid (drop w s)"
    by (auto split: option.splits)
  have wl: "w \<le> length s" using conts_le(2) [of w "second_range b" s] w(2) by simp
  show ?case
  proof (cases i)
    case 0
    then show ?thesis using "2.prems" by simp
  next
    case (Suc j)
    have "\<not> j < w"
    proof
      assume j: "j < w"
      then have "is_cont (s ! j)" using conts_full_cont [OF w(2)] second_range_cont by simp
      then show False using "2.prems"(2) j wl by (simp add: is_char_boundary_def Suc)
    qed
    then obtain k where k: "j = w + k" using le_Suc_ex not_less by blast
    have "is_char_boundary (drop w s) k"
      using "2.prems"(2) wl by (auto simp: is_char_boundary_def Suc k split: if_splits)
    then have ih: "utf8_valid (take k (drop w s)) \<and> utf8_valid (drop k (drop w s))"
      using "2.IH" [OF w(1)] w(2,3) by simp
    have "take i (b # s) = (b # take w s) @ take k (drop w s)" by (simp add: Suc k take_add)
    then have "utf8_valid (take i (b # s))"
      using utf8_valid_append [OF utf8_valid_char [OF w(1,2)]] ih by simp
    then show ?thesis using ih by (simp add: Suc k add.commute)
  qed
qed simp

text \<open>A boundary is never more than three bytes back.\<close>

lemma boundary_near:
  assumes "utf8_valid s" "i \<le> length s"
  shows "\<exists>j\<le>i. i \<le> j + 3 \<and> is_char_boundary s j"
  using assms
proof (induction s arbitrary: i rule: utf8_valid.induct)
  case (2 b s)
  then obtain w where w: "utf8_width b = Some w" "conts w (second_range b) s = w" "utf8_valid (drop w s)"
    by (auto split: option.splits)
  have wl: "w \<le> length s" using conts_le(2) [of w "second_range b" s] w(2) by simp
  show ?case
  proof (cases "i \<le> w")
    case True
    then show ?thesis using utf8_width_le [OF w(1)] by (intro exI [of _ 0]) (simp add: is_char_boundary_def)
  next
    case False
    then obtain k where k: "i = Suc w + k" using less_imp_add_positive by (metis not_le add_Suc_right add_Suc less_iff_Suc_add)
    then have "k \<le> length (drop w s)" using "2.prems"(2) by simp
    then obtain j where j: "j \<le> k" "k \<le> j + 3" "is_char_boundary (drop w s) j" using "2.IH" [OF w(1)] w(2,3) by auto
    have "is_char_boundary (b # s) (Suc w + j)"
    proof (cases "drop w s")
      case Nil
      then show ?thesis using j(3) wl by (auto simp: is_char_boundary_def split: if_splits)
    next
      case (Cons c r)
      then have "utf8_width c \<noteq> None" using w(3) by (auto split: option.splits)
      then have "\<not> is_cont c" using utf8_width_lead by blast
      moreover have "c = s ! w" using Cons wl by (metis hd_drop_conv_nth length_drop list.sel(1) list.size(3) drop_all not_le list.discI)
      ultimately show ?thesis using j(3) wl by (cases j) (auto simp: is_char_boundary_def split: if_splits)
    qed
    then show ?thesis using j(1,2) by (intro exI [of _ "Suc w + j"]) (simp add: k)
  qed
qed (simp add: is_char_boundary_def)

section \<open>Lines and separators\<close>

lemma str_split_once_append:
  assumes "c \<notin> set a"
  shows "str_split_once c (a @ c # b) = Some (a, b)"
proof -
  have "dropWhile (\<lambda>x. x \<noteq> c) (a @ c # b) = c # b" using assms by (induction a) auto
  moreover have "takeWhile (\<lambda>x. x \<noteq> c) (a @ c # b) = a" using assms by (induction a) auto
  ultimately show ?thesis by (simp add: str_split_once_def splitn2_def)
qed

lemma lines_line: "CHR 0x0A \<notin> set l \<Longrightarrow> lines (l @ CHR 0x0A # s) = strip_cr l # lines s"
  by (simp add: lines_def Let_def split_on_append)

lemma lines_Nil: "lines [] = []"
  by (simp add: lines_def)

lemma lines_concat:
  assumes "\<forall>l\<in>set ls. CHR 0x0A \<notin> set l"
  shows "lines (concat (map (\<lambda>l. l @ [CHR 0x0A]) ls)) = map strip_cr ls"
  using assms by (induction ls) (simp_all add: lines_line lines_Nil)

lemma strip_cr_id: "l = [] \<or> last l \<noteq> CHR 0x0D \<Longrightarrow> strip_cr l = l"
  by (cases l rule: rev_cases) (auto simp: strip_cr_def strip_suffix_def Let_def)

lemma strip_cr_snoc: "strip_cr (l @ [CHR 0x0D]) = l"
  by (simp add: strip_cr_def strip_suffix_def Let_def)

lemma splitn2_key: "splitn2 c s = (a, Some b) \<Longrightarrow> s = a @ c # b \<and> c \<notin> set a"
proof -
  assume "splitn2 c s = (a, Some b)"
  then obtain x where d: "dropWhile (\<lambda>x. x \<noteq> c) s = x # b" and a: "a = takeWhile (\<lambda>x. x \<noteq> c) s"
    by (auto simp: splitn2_def split: list.splits)
  have "x = c" using d by (metis (mono_tags, lifting) dropWhile_eq_Cons_conv)
  then show ?thesis using d a takeWhile_dropWhile_id [of "\<lambda>x. x \<noteq> c" s] set_takeWhileD by force
qed

lemma str_split_once_key: "str_split_once c s = Some (a, b) \<Longrightarrow> s = a @ c # b \<and> c \<notin> set a"
  using splitn2_key [of c s a b] by (auto simp: str_split_once_def split: prod.splits option.splits)

section \<open>Parts of well-formed strings\<close>

text \<open>A well-formed string may be taken apart at an ASCII character.\<close>

lemma utf8_valid_split:
  assumes "utf8_valid (a @ c # b)" "(of_char c :: nat) < 128"
  shows "utf8_valid a" "utf8_valid b"
proof -
  have "is_char_boundary (a @ c # b) (length a)" using assms(2) by (simp add: is_char_boundary_def is_cont_def)
  from boundary_split [OF assms(1) this] have "utf8_valid a" "utf8_valid (c # b)" by auto
  then show "utf8_valid a" "utf8_valid b" using assms(2) by (simp_all add: utf8_width_def)
qed

lemma utf8_valid_split_on:
  assumes "utf8_valid s" "(of_char c :: nat) < 128" "p \<in> set (split_on c s)"
  shows "utf8_valid p"
  using assms(1,3)
proof (induction s rule: length_induct)
  case (1 s)
  show ?case
  proof (cases "c \<in> set s")
    case True
    then obtain a b where s: "s = a @ c # b" "c \<notin> set a" using split_list_first by fastforce
    then have "split_on c s = a # split_on c b" by (simp add: split_on_append)
    then consider "p = a" | "p \<in> set (split_on c b)" using "1.prems"(2) by auto
    then show ?thesis
    proof cases
      case 1
      then show ?thesis using utf8_valid_split(1) [OF _ assms(2)] "1.prems"(1) s(1) by blast
    next
      case 2
      have "utf8_valid b" using utf8_valid_split(2) [OF _ assms(2)] "1.prems"(1) s(1) by blast
      then show ?thesis using "1.IH" [rule_format, of b] 2 s(1) by simp
    qed
  qed (use "1.prems" in \<open>simp add: split_on_notin\<close>)
qed

lemma utf8_valid_strip_cr: "utf8_valid s \<Longrightarrow> utf8_valid (strip_cr s)"
proof (cases s rule: rev_cases)
  case (snoc t c)
  assume "utf8_valid s"
  then show ?thesis
  proof (cases "c = CHR 0x0D")
    case True
    with \<open>utf8_valid s\<close> have "utf8_valid (t @ CHR 0x0D # [])" by (simp add: snoc)
    then have "utf8_valid t" by (rule utf8_valid_split) simp
    then show ?thesis by (simp add: snoc True strip_cr_snoc)
  qed (simp add: snoc strip_cr_id)
qed (simp add: strip_cr_id)

lemma utf8_valid_lines:
  assumes "utf8_valid s" "l \<in> set (lines s)"
  shows "utf8_valid l"
proof -
  have "utf8_valid p" if "p \<in> set (split_on (CHR 0x0A) s)" for p
    by (rule utf8_valid_split_on [OF assms(1) _ that]) simp
  then show ?thesis using assms(2)
    by (auto simp: lines_def Let_def utf8_valid_strip_cr dest: in_set_butlastD split: if_splits)
qed

text \<open>No byte of a well-formed string is larger than 244.\<close>

lemma conts_bytes: "conts w rng s = w \<Longrightarrow> snd rng \<le> 191 \<Longrightarrow> \<forall>c\<in>set (take w s). (of_char c :: nat) \<le> 191"
  by (induction w rng s rule: conts.induct) (auto split: if_splits)

lemma utf8_valid_bytes: "utf8_valid s \<Longrightarrow> c \<in> set s \<Longrightarrow> (of_char c :: nat) \<le> 244"
proof (induction s rule: utf8_valid.induct)
  case (2 b s)
  then obtain w where w: "utf8_width b = Some w" "conts w (second_range b) s = w" "utf8_valid (drop w s)"
    by (auto split: option.splits)
  have "set s = set (take w s) \<union> set (drop w s)" by (metis append_take_drop_id set_append)
  then consider "c = b" | "c \<in> set (take w s)" | "c \<in> set (drop w s)" using "2.prems"(2) by auto
  then show ?case
  proof cases
    case 1
    then show ?thesis using w(1) by (auto simp: utf8_width_def Let_def split: if_splits)
  next
    case 2
    then show ?thesis using conts_bytes [OF w(2)] second_range_cont(2) by fastforce
  next
    case 3
    then show ?thesis using "2.IH" [OF w(1)] w(2,3) by blast
  qed
qed simp

end
