(* ===== verification/Node_Report.thy ===== *)
theory Node_Report
  imports Quantity Engines Utf8
begin

text \<open>
  What a node says about itself (\<open>src/src/node/agent.rs\<close>): the probes of the host and the \<open>Node\<close>
  object built from them. A probe is a function of what the program it runs or the file it reads
  delivered; the record \<open>host\<close> holds these texts, \<open>None\<close> for a failure. Release builds are modelled,
  so \<open>u64\<close> multiplication wraps.
\<close>

section \<open>Text\<close>

text \<open>\<open>split_whitespace\<close> and \<open>trim_matches\<close>.\<close>

fun words_from :: "string \<Rightarrow> string \<Rightarrow> string list" where
  "words_from acc [] = (if acc = [] then [] else [rev acc])"
| "words_from acc (c # s) =
     (if is_ws c then (if acc = [] then words_from [] s else rev acc # words_from [] s)
      else words_from (c # acc) s)"

definition split_whitespace :: "string \<Rightarrow> string list" where
  "split_whitespace s = words_from [] s"

definition trim_matches :: "char \<Rightarrow> string \<Rightarrow> string" where
  "trim_matches c s = rev (dropWhile (\<lambda>x. x = c) (rev (dropWhile (\<lambda>x. x = c) s)))"

definition nth_opt :: "nat \<Rightarrow> 'a list \<Rightarrow> 'a option" where
  "nth_opt i xs = (if i < length xs then Some (xs ! i) else None)"

section \<open>Probes\<close>

record host =
  h_os :: target_os
  h_os_name :: string                     \<comment> \<open>\<open>std::env::consts::OS\<close>\<close>
  h_arch :: string
  h_parallelism :: "nat option"
  h_meminfo :: "string option"            \<comment> \<open>\<open>/proc/meminfo\<close>\<close>
  h_sysctl_memsize :: "string option"     \<comment> \<open>\<open>sysctl -n hw.memsize\<close>\<close>
  h_df :: "string option"                 \<comment> \<open>\<open>df -Pk /\<close>\<close>
  h_uname_r :: "string option"
  h_os_release :: "string option"         \<comment> \<open>\<open>/etc/os-release\<close>\<close>
  h_sw_vers :: "string option"
  h_local_ip :: "string option"           \<comment> \<open>the address a UDP socket towards 8.8.8.8 gets\<close>

definition times_1024 :: "nat \<Rightarrow> nat" where
  "times_1024 kb = kb * 1024 mod (u64_max + 1)"

definition detect_ephemeral_storage :: "host \<Rightarrow> string option" where
  "detect_ephemeral_storage h =
     Option.bind (h_df h) (\<lambda>s.
     Option.bind (nth_opt 1 (lines s)) (\<lambda>line.
     Option.bind (nth_opt 1 (split_whitespace line)) (\<lambda>f.
     map_option (\<lambda>kb. format_quantity (times_1024 kb)) (parse_u64 f))))"

definition uname_field :: "string option \<Rightarrow> string option" where
  "uname_field out = Option.bind out (\<lambda>s. if trim s = [] then None else Some (trim s))"

fun pretty_name :: "string list \<Rightarrow> string option" where
  "pretty_name [] = None"
| "pretty_name (line # rest) = (case strip_prefix line ''PRETTY_NAME='' of
       Some r \<Rightarrow> Some (trim_matches (CHR 0x22) r)
     | None \<Rightarrow> pretty_name rest)"

definition detect_os_image :: "host \<Rightarrow> string" where
  "detect_os_image h =
     (let found = (case h_os h of
        Linux \<Rightarrow> Option.bind (h_os_release h) (\<lambda>c. pretty_name (lines c))
      | MacOS \<Rightarrow> map_option (\<lambda>v. ''macOS '' @ trim v) (h_sw_vers h)
      | Other_OS \<Rightarrow> None)
      in case found of Some s \<Rightarrow> s | None \<Rightarrow> h_os_name h)"

definition detect_cpu_count :: "host \<Rightarrow> nat" where
  "detect_cpu_count h = (case h_parallelism h of Some n \<Rightarrow> n | None \<Rightarrow> 1)"

text \<open>The first \<open>MemTotal\<close> line decides; if it does not parse there is no result.\<close>

fun mem_total :: "string list \<Rightarrow> nat option" where
  "mem_total [] = None"
| "mem_total (line # rest) = (case strip_prefix line ''MemTotal:'' of
       Some r \<Rightarrow> Option.bind (nth_opt 0 (split_whitespace r)) (\<lambda>f. map_option times_1024 (parse_u64 f))
     | None \<Rightarrow> mem_total rest)"

definition read_total_memory_bytes :: "host \<Rightarrow> nat option" where
  "read_total_memory_bytes h = (case h_os h of
       Linux \<Rightarrow> Option.bind (h_meminfo h) (\<lambda>c. mem_total (lines c))
     | MacOS \<Rightarrow> Option.bind (h_sysctl_memsize h) (\<lambda>s. parse_u64 (trim s))
     | Other_OS \<Rightarrow> None)"

definition detect_memory_capacity :: "host \<Rightarrow> string" where
  "detect_memory_capacity h = (case read_total_memory_bytes h of
       Some b \<Rightarrow> format_quantity b | None \<Rightarrow> ''8Gi'')"

section \<open>The node object\<close>

definition pkg_version :: string where
  "pkg_version = ''0.1.0''"

definition node_capacity :: "host \<Rightarrow> smap" where
  "node_capacity h =
     (let capacity = [(''cpu'', show_nat (detect_cpu_count h)), (''memory'', detect_memory_capacity h), (''pods'', ''110'')]
      in case detect_ephemeral_storage h of
           Some disk \<Rightarrow> hm_insert ''ephemeral-storage'' disk capacity
         | None \<Rightarrow> capacity)"

definition node_info_of :: "host \<Rightarrow> node_system_info" where
  "node_info_of h = \<lparr>ni_machine_id = None, ni_system_uuid = None, ni_boot_id = None,
     ni_kernel_version = Some (case uname_field (h_uname_r h) of Some r \<Rightarrow> r | None \<Rightarrow> ''unknown''),
     ni_os_image = Some (detect_os_image h),
     ni_container_runtime_version = Some (''superkube://'' @ pkg_version),
     ni_kubelet_version = Some (''superkube/'' @ pkg_version), ni_kube_proxy_version = None,
     ni_operating_system = Some (h_os_name h), ni_architecture = Some (h_arch h)\<rparr>"

text \<open>The two clock readings stamp the heartbeat and the transition; the UUID is the node's.\<close>

definition build_node_object :: "host \<Rightarrow> time \<Rightarrow> time \<Rightarrow> uuid \<Rightarrow> string \<Rightarrow> smap \<Rightarrow> node" where
  "build_node_object h now1 now2 uid name labels =
     \<lparr>node_type_meta = type_meta_of ''v1'' ''Node'',
      node_metadata = object_meta_default\<lparr>om_name := Some name, om_uid := Some uid,
        om_labels := (if labels = [] then None else Some labels)\<rparr>,
      node_spec = Some \<lparr>nsp_pod_cidr = None, nsp_provider_id = None, nsp_unschedulable = False, nsp_taints = None\<rparr>,
      node_status = Some \<lparr>nt_capacity = Some (node_capacity h), nt_allocatable = Some (node_capacity h),
        nt_conditions = Some [\<lparr>nc_condition_type = NC_Ready, nc_status = CS_True,
          nc_last_heartbeat_time = Some now1, nc_last_transition_time = Some now2,
          nc_reason = Some ''KubeletReady'', nc_message = Some ''kubelet is posting ready status''\<rparr>],
        nt_addresses = Some [\<lparr>na_address_type = Hostname, na_address = name\<rparr>,
          \<lparr>na_address_type = InternalIP,
           na_address = (case h_local_ip h of Some ip \<Rightarrow> ip | None \<Rightarrow> ''127.0.0.1'')\<rparr>],
        nt_node_info = Some (node_info_of h), nt_images = None, nt_phase = NP_Running\<rparr>\<rparr>"

text \<open>The first three octets of the pod CIDR.\<close>

definition pod_cidr_to_prefix :: "string \<Rightarrow> string" where
  "pod_cidr_to_prefix cidr =
     (let addr_part = hd (split_on (CHR ''/'') cidr);
          octets = split_on (CHR ''.'') addr_part
      in if length octets = 4 \<and> list_all (\<lambda>x. parse_u8 x \<noteq> None) octets
         then octets ! 0 @ ''.'' @ octets ! 1 @ ''.'' @ octets ! 2
         else ''10.244.0'')"

end
