(* ===== verification/Pod_Access.thy ===== *)
theory Pod_Access
  imports Api
begin

text \<open>
  Logs, exec and port-forward (\<open>src/src/server/api.rs\<close>): how the server finds the node agent that
  runs a pod and what it asks it, and the relays between the client's and the agent's web sockets.
  The HTTP client's answer and the URL encoding and decoding of \<open>serde_urlencoded\<close> are parameters;
  a relay is a function of the frames that arrive and of how many sends the other side accepts.
\<close>

section \<open>Errors as text\<close>

fun error_fmt :: "(sql_error \<Rightarrow> string) \<Rightarrow> error \<Rightarrow> string" where
  "error_fmt show_sql (NotFound m) = ''Resource not found: '' @ m"
| "error_fmt show_sql (AlreadyExists m) = ''Resource already exists: '' @ m"
| "error_fmt show_sql (BadRequest m) = ''Invalid request: '' @ m"
| "error_fmt show_sql (Database x) = ''Database error: '' @ show_sql x"
| "error_fmt show_sql (Serialization m) = ''Serialization error: '' @ m"
| "error_fmt show_sql (HttpClient m) = ''HTTP client error: '' @ m"
| "error_fmt show_sql (Internal m) = ''Internal error: '' @ m"

definition newline :: string where
  "newline = [CHR 0x0A]"

section \<open>Logs\<close>

record log_params =
  lgp_container :: "string option"
  lgp_follow :: bool
  lgp_previous :: bool
  lgp_tail_lines :: "int option"
  lgp_timestamps :: bool
  lgp_since_seconds :: "int option"
  lgp_limit_bytes :: "int option"

text \<open>The container asked for, or the only one; \<open>Inl\<close> is the message of the bad request.\<close>

definition choose_container :: "string \<Rightarrow> string \<Rightarrow> string option \<Rightarrow> pod \<Rightarrow> string + string" where
  "choose_container prefix name container p = (case container of
       Some c \<Rightarrow> Inr c
     | None \<Rightarrow> (case ps_containers (pod_spec p) of
         [] \<Rightarrow> Inl ''pod has no containers''
       | [c] \<Rightarrow> Inr (co_name c)
       | cs \<Rightarrow> Inl (prefix @ ''container name must be specified for pod '' @ name @ '', choose one of: ['' @
                  join_with '', '' (map co_name cs) @ '']'')))"

definition internal_ip :: "node \<Rightarrow> string option" where
  "internal_ip n = map_option na_address
     (Option.bind (Option.bind (node_status n) nt_addresses)
        (List.find (\<lambda>a. na_address_type a = InternalIP)))"

definition opt_query :: "string \<Rightarrow> int option \<Rightarrow> (string \<times> string) list" where
  "opt_query k v = (case v of Some n \<Rightarrow> [(k, show_int n)] | None \<Rightarrow> [])"

definition flag_query :: "string \<Rightarrow> bool \<Rightarrow> (string \<times> string) list" where
  "flag_query k b = (if b then [(k, ''true'')] else [])"

record agent_request =
  aq_url :: string
  aq_query :: "(string \<times> string) list"

definition log_request :: "string \<Rightarrow> string \<Rightarrow> string \<Rightarrow> string \<Rightarrow> log_params \<Rightarrow> agent_request" where
  "log_request node_addr namespace name container params =
     \<lparr>aq_url = ''http://'' @ node_addr @ '':10250/logs/'' @ namespace @ ''/'' @ name @ ''/'' @ container,
      aq_query = opt_query ''tailLines'' (lgp_tail_lines params) @ flag_query ''timestamps'' (lgp_timestamps params) @
        flag_query ''previous'' (lgp_previous params) @ opt_query ''sinceSeconds'' (lgp_since_seconds params) @
        opt_query ''limitBytes'' (lgp_limit_bytes params) @ flag_query ''follow'' (lgp_follow params)\<rparr>"

text \<open>What the HTTP client reports: no connection, or a status and a body that may fail to be read.\<close>

datatype agent_reply = No_Connection string | Agent_Reply nat "string + string"

datatype log_response =
    Plain_Text nat string
  | Piped_Stream   \<comment> \<open>the agent's body, passed through as it comes\<close>

definition plain_text :: "string \<Rightarrow> log_response" where
  "plain_text s = Plain_Text 200 s"

definition log_reply :: "string \<Rightarrow> bool \<Rightarrow> agent_reply \<Rightarrow> log_response" where
  "log_reply node_name follow reply = (case reply of
       No_Connection err \<Rightarrow> plain_text (''Cannot connect to node agent on '' @ node_name @ '': '' @ err @ newline @
                             ''Make sure the node agent is running.'' @ newline)
     | Agent_Reply status body \<Rightarrow>
         if \<not> (200 \<le> status \<and> status \<le> 299)
         then Plain_Text status (case body of Inr t \<Rightarrow> t | Inl _ \<Rightarrow> [])
         else if follow then Piped_Stream
         else (case body of
                 Inr logs \<Rightarrow> plain_text logs
               | Inl err \<Rightarrow> plain_text (''Failed to read logs from node: '' @ err @ newline)))"

definition get_pod_logs ::
  "env \<Rightarrow> (agent_request \<Rightarrow> agent_reply) \<Rightarrow> string \<Rightarrow> string \<Rightarrow> log_params \<Rightarrow> log_response prog" where
  "get_pod_logs e send namespace name params =
     bindR (pod_get e namespace name) (\<lambda>p.
     case choose_container ''a]'' name (lgp_container params) p of
       Inl msg \<Rightarrow> failR (BadRequest msg)
     | Inr container \<Rightarrow> (case ps_node_name (pod_spec p) of
         None \<Rightarrow> returnR (plain_text (''Pod '' @ name @ '' is not yet scheduled to a node'' @ newline))
       | Some node_name \<Rightarrow> tryR (node_get e node_name) (\<lambda>res. case res of
           Inl _ \<Rightarrow> returnR (plain_text (''Node '' @ node_name @ '' not found, cannot retrieve logs'' @ newline))
         | Inr n \<Rightarrow> (case internal_ip n of
             None \<Rightarrow> returnR (plain_text (''Node '' @ node_name @
                        '' has no internal IP address, cannot retrieve logs'' @ newline))
           | Some addr \<Rightarrow> returnR (log_reply node_name (lgp_follow params)
                        (send (log_request addr namespace name container params)))))))"

section \<open>Exec\<close>

record exec_params =
  xp_container :: "string option"
  xp_command :: "string list"
  xp_stdin :: bool
  xp_stdout :: bool
  xp_stderr :: bool
  xp_tty :: bool

definition flag_value :: "string \<Rightarrow> bool" where
  "flag_value v \<longleftrightarrow> v = ''true'' \<or> v = ''1''"

definition exec_param :: "string \<times> string \<Rightarrow> exec_params \<Rightarrow> exec_params" where
  "exec_param kv p = (case kv of (k, v) \<Rightarrow>
     if k = ''container'' then p\<lparr>xp_container := Some v\<rparr>
     else if k = ''command'' then p\<lparr>xp_command := xp_command p @ [v]\<rparr>
     else if k = ''stdin'' then p\<lparr>xp_stdin := flag_value v\<rparr>
     else if k = ''stdout'' then p\<lparr>xp_stdout := flag_value v\<rparr>
     else if k = ''stderr'' then p\<lparr>xp_stderr := flag_value v\<rparr>
     else if k = ''tty'' then p\<lparr>xp_tty := flag_value v\<rparr>
     else p)"

text \<open>\<open>decode\<close> is \<open>serde_urlencoded::from_str(q).unwrap_or_default()\<close>.\<close>

definition exec_from_query :: "(string \<Rightarrow> (string \<times> string) list) \<Rightarrow> string \<Rightarrow> exec_params" where
  "exec_from_query decode q = fold exec_param (decode q)
     \<lparr>xp_container = None, xp_command = [], xp_stdin = False, xp_stdout = True, xp_stderr = True, xp_tty = False\<rparr>"

definition show_bool :: "bool \<Rightarrow> string" where
  "show_bool b = (if b then ''true'' else ''false'')"

definition exec_query :: "exec_params \<Rightarrow> (string \<times> string) list" where
  "exec_query p =
     (if xp_command p = [] then [(''command'', ''sh'')] else map (\<lambda>c. (''command'', c)) (xp_command p)) @
     [(''stdin'', show_bool (xp_stdin p)), (''stdout'', show_bool (xp_stdout p)),
      (''stderr'', show_bool (xp_stderr p)), (''tty'', show_bool (xp_tty p))]"

text \<open>An error response, or the upgrade to a web socket that is relayed to the URL.\<close>

datatype ws_response = Ws_Error nat string | Ws_Upgrade string

definition exec_protocols :: "string list" where
  "exec_protocols = [''v5.channel.k8s.io'', ''v4.channel.k8s.io'', ''v3.channel.k8s.io'',
     ''v2.channel.k8s.io'', ''channel.k8s.io'']"

text \<open>The address of the node agent of a pod, or the error response.\<close>

definition agent_address :: "env \<Rightarrow> string \<Rightarrow> pod \<Rightarrow> (ws_response + string) prog" where
  "agent_address e name p = (case ps_node_name (pod_spec p) of
       None \<Rightarrow> returnR (Inl (Ws_Error 400 (''Pod '' @ name @ '' is not yet scheduled to a node'')))
     | Some node_name \<Rightarrow> tryR (node_get e node_name) (\<lambda>res. case res of
         Inl _ \<Rightarrow> returnR (Inl (Ws_Error 404 (''Node '' @ node_name @ '' not found'')))
       | Inr n \<Rightarrow> (case internal_ip n of
           None \<Rightarrow> returnR (Inl (Ws_Error 500 (''Node '' @ node_name @ '' has no internal IP address'')))
         | Some addr \<Rightarrow> returnR (Inr addr))))"

definition exec_pod ::
  "env \<Rightarrow> (sql_error \<Rightarrow> string) \<Rightarrow> (string \<Rightarrow> (string \<times> string) list) \<Rightarrow> ((string \<times> string) list \<Rightarrow> string) \<Rightarrow>
   string \<Rightarrow> string \<Rightarrow> string option \<Rightarrow> ws_response prog" where
  "exec_pod e show_sql decode encode namespace name raw_query =
     (let params = exec_from_query decode (case raw_query of Some q \<Rightarrow> q | None \<Rightarrow> []) in
      tryR (pod_get e namespace name) (\<lambda>res. case res of
        Inl err \<Rightarrow> returnR (Ws_Error 404 (''Pod '' @ namespace @ ''/'' @ name @ '' not found: '' @ error_fmt show_sql err))
      | Inr p \<Rightarrow> (case choose_container [] name (xp_container params) p of
          Inl msg \<Rightarrow> returnR (Ws_Error 400 msg)
        | Inr container \<Rightarrow> bindR (agent_address e name p) (\<lambda>a. case a of
            Inl resp \<Rightarrow> returnR resp
          | Inr addr \<Rightarrow> returnR (Ws_Upgrade (''ws://'' @ addr @ '':10250/exec/'' @ namespace @ ''/'' @ name @ ''/'' @
                          container @ ''?'' @ encode (exec_query params)))))))"

section \<open>Port-forward\<close>

definition port_forward_pod ::
  "env \<Rightarrow> (sql_error \<Rightarrow> string) \<Rightarrow> string \<Rightarrow> string \<Rightarrow> string option \<Rightarrow> ws_response prog" where
  "port_forward_pod e show_sql namespace name ports =
     tryR (pod_get e namespace name) (\<lambda>res. case res of
        Inl err \<Rightarrow> returnR (Ws_Error 404 (''Pod '' @ namespace @ ''/'' @ name @ '' not found: '' @ error_fmt show_sql err))
      | Inr p \<Rightarrow> bindR (agent_address e name p) (\<lambda>a. case a of
            Inl resp \<Rightarrow> returnR resp
          | Inr addr \<Rightarrow>
              let pod_ip = (case Option.bind (pod_status p) pt_pod_ip of Some ip \<Rightarrow> ip | None \<Rightarrow> ''127.0.0.1'') in
              returnR (Ws_Upgrade (''ws://'' @ addr @ '':10250/portforward/'' @ namespace @ ''/'' @ name @ ''/'' @
                        pod_ip @ ''?ports='' @ (case ports of Some x \<Rightarrow> x | None \<Rightarrow> [])))))"

section \<open>Web socket relays\<close>

datatype frame = Text_Frame string | Binary_Frame "8 word list" | Close_Frame "(nat \<times> string) option" | Ping_Frame

text \<open>\<open>Inl\<close> is a receive error. \<open>room\<close> is the number of sends that succeed before one fails.\<close>

fun exec_client_to_node :: "nat \<Rightarrow> (unit + frame) list \<Rightarrow> frame list" where
  "exec_client_to_node room [] = []"
| "exec_client_to_node room (Inl _ # ms) = []"
| "exec_client_to_node room (Inr (Text_Frame t) # ms) =
     (case room of 0 \<Rightarrow> [] | Suc k \<Rightarrow> Text_Frame t # exec_client_to_node k ms)"
| "exec_client_to_node room (Inr (Binary_Frame b) # ms) =
     (case room of 0 \<Rightarrow> [] | Suc k \<Rightarrow> Binary_Frame b # exec_client_to_node k ms)"
| "exec_client_to_node room (Inr (Close_Frame c) # ms) = (case room of 0 \<Rightarrow> [] | Suc k \<Rightarrow> [Close_Frame None])"
| "exec_client_to_node room (Inr Ping_Frame # ms) = exec_client_to_node room ms"

fun exec_node_to_client :: "nat \<Rightarrow> (unit + frame) list \<Rightarrow> frame list" where
  "exec_node_to_client room [] = []"
| "exec_node_to_client room (Inl _ # ms) = []"
| "exec_node_to_client room (Inr (Text_Frame t) # ms) =
     (case room of 0 \<Rightarrow> [] | Suc k \<Rightarrow> Text_Frame t # exec_node_to_client k ms)"
| "exec_node_to_client room (Inr (Binary_Frame b) # ms) =
     (case room of 0 \<Rightarrow> [] | Suc k \<Rightarrow> Binary_Frame b # exec_node_to_client k ms)"
| "exec_node_to_client room (Inr (Close_Frame c) # ms) =
     (case room of 0 \<Rightarrow> [] | Suc k \<Rightarrow> [Close_Frame (Some (1000, ''exec complete''))])"
| "exec_node_to_client room (Inr Ping_Frame # ms) = exec_node_to_client room ms"

text \<open>Both directions of a port-forward pass binary frames only and stop at a close.\<close>

fun portforward_relay :: "nat \<Rightarrow> (unit + frame) list \<Rightarrow> frame list" where
  "portforward_relay room [] = []"
| "portforward_relay room (Inl _ # ms) = []"
| "portforward_relay room (Inr (Binary_Frame b) # ms) =
     (case room of 0 \<Rightarrow> [] | Suc k \<Rightarrow> Binary_Frame b # portforward_relay k ms)"
| "portforward_relay room (Inr (Close_Frame c) # ms) = []"
| "portforward_relay room (Inr (Text_Frame t) # ms) = portforward_relay room ms"
| "portforward_relay room (Inr Ping_Frame # ms) = portforward_relay room ms"

definition error_channel_frame :: "8 word list \<Rightarrow> 8 word list" where
  "error_channel_frame msg = 3 # msg"

end
