(* ===== verification/Agent.thy ===== *)
theory Agent
  imports Node_Report Pod_Access
begin

text \<open>
  The node agent (\<open>src/src/node/agent.rs\<close>): registration and heartbeats, the pass that makes the
  containers of a node follow the pods assigned to it, the events and statuses it reports, and the
  requests for logs, exec and port-forward it answers.

  The state is the record \<open>node_world\<close>: the server's \<open>world\<close>, the agent's \<open>AgentState\<close> and the number
  of HTTP requests the agent has sent. The agent's requests run the handlers of theory Api; for the
  \<open>n\<close>-th of them the argument \<open>net\<close> says what everybody else does to the server before it arrives, and
  whether it arrives, is lost, or is carried out with the answer lost. Bodies are passed as values
  (JSON encoding is serde's) and names as path segments. The agent draws its UUIDs and clock readings
  from the same \<open>env\<close> as the server. The engines are those of theory Engines.
\<close>

section \<open>State\<close>

record 'r agent =
  ag_name :: string
  ag_labels :: smap
  ag_server_url :: string
  ag_runtime :: "'r engines"
  ag_pod_cidr_prefix :: string
  ag_containers :: "(uuid \<times> string) list"
  ag_pod_containers :: "((string \<times> string \<times> string) \<times> string) list"
  ag_pod_ports :: "((string \<times> string) \<times> port_mapping list) list"
  ag_pod_ips :: "((string \<times> string) \<times> string) list"

record 'r node_world =
  nw_world :: world
  nw_agent :: "'r agent"
  nw_sent :: nat

type_synonym ('r, 'a) node_prog = "'r node_world \<Rightarrow> (string + 'a) \<times> 'r node_world"

definition trim_end_matches :: "char \<Rightarrow> string \<Rightarrow> string" where
  "trim_end_matches c s = rev (dropWhile (\<lambda>x. x = c) (rev s))"

definition agent_new ::
  "'r runtime_ops \<Rightarrow> target_os \<Rightarrow> (string \<Rightarrow> string + 'r) \<Rightarrow> string \<Rightarrow> string \<Rightarrow> smap \<Rightarrow> string \<Rightarrow> string \<Rightarrow>
   string + 'r agent" where
  "agent_new rt os new name server_url labels pod_cidr runtime_kind =
     (case engines_build rt os new runtime_kind of
        Inl err \<Rightarrow> Inl err
      | Inr es \<Rightarrow> Inr \<lparr>ag_name = name, ag_labels = labels,
          ag_server_url = trim_end_matches (CHR ''/'') server_url, ag_runtime = es,
          ag_pod_cidr_prefix = pod_cidr_to_prefix pod_cidr, ag_containers = [], ag_pod_containers = [],
          ag_pod_ports = [], ag_pod_ips = []\<rparr>)"

section \<open>The network\<close>

datatype delivery = Delivered | Request_Lost string | Reply_Lost string

record network =
  net_meanwhile :: "nat \<Rightarrow> world \<Rightarrow> world"
  net_delivery :: "nat \<Rightarrow> delivery"

definition server_call :: "network \<Rightarrow> 'a prog \<Rightarrow> ('r, error + 'a) node_prog" where
  "server_call net m s =
     (let i = nw_sent s; w = net_meanwhile net i (nw_world s); (res, w') = m w in
      case net_delivery net i of
        Delivered \<Rightarrow> (Inr res, s\<lparr>nw_world := w', nw_sent := Suc i\<rparr>)
      | Reply_Lost err \<Rightarrow> (Inl err, s\<lparr>nw_world := w', nw_sent := Suc i\<rparr>)
      | Request_Lost err \<Rightarrow> (Inl err, s\<lparr>nw_world := w, nw_sent := Suc i\<rparr>))"

definition read_agent :: "('r agent \<Rightarrow> 'a) \<Rightarrow> ('r, 'a) node_prog" where
  "read_agent f s = (Inr (f (nw_agent s)), s)"

definition modify_agent :: "('r agent \<Rightarrow> 'r agent) \<Rightarrow> ('r, unit) node_prog" where
  "modify_agent g s = (Inr (), s\<lparr>nw_agent := g (nw_agent s)\<rparr>)"

definition agent_uuid :: "env \<Rightarrow> ('r, uuid) node_prog" where
  "agent_uuid e s = (Inr (env_uuid e (w_uuids (nw_world s))),
     s\<lparr>nw_world := (nw_world s)\<lparr>w_uuids := Suc (w_uuids (nw_world s))\<rparr>\<rparr>)"

definition agent_now :: "env \<Rightarrow> ('r, time) node_prog" where
  "agent_now e s = (Inr (env_now e (w_ticks (nw_world s))),
     s\<lparr>nw_world := (nw_world s)\<lparr>w_ticks := Suc (w_ticks (nw_world s))\<rparr>\<rparr>)"

section \<open>Registration and heartbeat\<close>

definition current_node :: "env \<Rightarrow> host \<Rightarrow> ('r, node) node_prog" where
  "current_node e h =
     bindR (agent_now e) (\<lambda>now1.
     bindR (agent_now e) (\<lambda>now2.
     bindR (agent_uuid e) (\<lambda>uid.
     bindR (read_agent (\<lambda>ag. (ag_name ag, ag_labels ag))) (\<lambda>(name, labels).
     returnR (build_node_object h now1 now2 uid name labels)))))"

text \<open>An error response to the registration is only logged.\<close>

definition register_node :: "env \<Rightarrow> network \<Rightarrow> host \<Rightarrow> ('r, unit) node_prog" where
  "register_node e net h =
     bindR (current_node e h) (\<lambda>n.
     bindR (server_call net (create_node e n)) (\<lambda>_. returnR ()))"

text \<open>\<open>show_err\<close> renders the status and body of an error response.\<close>

definition send_heartbeat :: "env \<Rightarrow> network \<Rightarrow> (error \<Rightarrow> string) \<Rightarrow> host \<Rightarrow> ('r, unit) node_prog" where
  "send_heartbeat e net show_err h =
     bindR (current_node e h) (\<lambda>n.
     bindR (server_call net (update_node e (meta_name (node_metadata n)) n)) (\<lambda>res. case res of
       Inr _ \<Rightarrow> returnR ()
     | Inl err \<Rightarrow> failR (''Heartbeat failed with '' @ show_err err)))"

section \<open>Events and statuses\<close>

definition agent_emit_event :: "env \<Rightarrow> network \<Rightarrow> pod \<Rightarrow> event_type \<Rightarrow> string \<Rightarrow> string \<Rightarrow> ('r, unit) node_prog" where
  "agent_emit_event e net pod typ reason message =
     (let namespace = meta_namespace (pod_metadata pod); pod_name = meta_name (pod_metadata pod) in
      bindR (read_agent ag_name) (\<lambda>node_name.
      bindR (agent_now e) (\<lambda>now.
      bindR (agent_uuid e) (\<lambda>name_id.
      bindR (agent_uuid e) (\<lambda>uid.
      let ev = \<lparr>evt_type_meta = type_meta_of ''v1'' ''Event'',
            evt_metadata = object_meta_default
              \<lparr>om_name := Some (pod_name @ ''.'' @ show_hex (unat (take_bit 32 name_id))),
               om_namespace := Some namespace, om_uid := Some uid\<rparr>,
            evt_involved_object = \<lparr>oref_api_version = Some ''v1'', oref_kind = Some ''Pod'', oref_name = Some pod_name,
              oref_namespace = Some namespace, oref_uid = om_uid (pod_metadata pod), oref_resource_version = None,
              oref_field_path = None\<rparr>,
            evt_reason = Some reason, evt_message = Some message,
            evt_source = Some \<lparr>evs_component = Some ''kubelet'', evs_host = Some node_name\<rparr>,
            evt_first_timestamp = Some now, evt_last_timestamp = Some now, evt_count = Some 1,
            evt_event_type = Some typ, evt_event_time = Some now, evt_action = None,
            evt_reporting_controller = Some ''superkube/kubelet'', evt_reporting_instance = Some node_name\<rparr>
      in tryR (server_call net (create_event e namespace ev)) (\<lambda>_. returnR ()))))))"

definition publish_pod_status ::
  "env \<Rightarrow> network \<Rightarrow> (error \<Rightarrow> string) \<Rightarrow> string \<Rightarrow> string \<Rightarrow> pod_phase \<Rightarrow> string option \<Rightarrow> container_status list \<Rightarrow>
   time option \<Rightarrow> ('r, unit) node_prog" where
  "publish_pod_status e net show_err namespace name phase pod_ip container_statuses start_time =
     bindR (case start_time of
              Some t \<Rightarrow> returnR (Some t)
            | None \<Rightarrow> bindR (agent_now e) (\<lambda>now. returnR (Some now))) (\<lambda>start.
     let status = pod_status_default\<lparr>pt_phase := phase, pt_pod_ip := pod_ip, pt_host_ip := Some ''127.0.0.1'',
           pt_start_time := start, pt_container_statuses := Some container_statuses\<rparr>;
         p = \<lparr>pod_type_meta = type_meta_of ''v1'' ''Pod'',
              pod_metadata = object_meta_default\<lparr>om_name := Some name, om_namespace := Some namespace\<rparr>,
              pod_spec = pod_spec_default, pod_status = Some status\<rparr>
     in bindR (server_call net (update_pod_status e namespace name p)) (\<lambda>res. case res of
          Inr _ \<Rightarrow> returnR ()
        | Inl err \<Rightarrow> failR (''Failed to update pod status: '' @ show_err err)))"

definition state_waiting :: "string \<Rightarrow> string option \<Rightarrow> container_state" where
  "state_waiting reason msg =
     \<lparr>cst_waiting = Some \<lparr>csw_reason = Some reason, csw_message = msg\<rparr>, cst_running = None, cst_terminated = None\<rparr>"

definition container_state_of :: "container_info \<Rightarrow> container_state" where
  "container_state_of info =
     (if cinf_running info then
        \<lparr>cst_waiting = None, cst_running = Some \<lparr>csr_started_at = cinf_started_at info\<rparr>, cst_terminated = None\<rparr>
      else case cinf_exit_code info of
        Some exit \<Rightarrow> \<lparr>cst_waiting = None, cst_running = None, cst_terminated = Some
          \<lparr>csx_exit_code = exit, csx_signal = None,
           csx_reason = Some (if exit = 0 then ''Completed'' else ''Error''), csx_message = None,
           csx_started_at = cinf_started_at info, csx_finished_at = None, csx_container_id = Some (cinf_id info)\<rparr>\<rparr>
      | None \<Rightarrow> state_waiting ''ContainerCreating'' None)"

definition failed_container_status :: "container \<Rightarrow> string \<Rightarrow> container_status" where
  "failed_container_status c err =
     \<lparr>cs_name = co_name c, cs_ready = False, cs_restart_count = 0, cs_image = co_image c, cs_image_id = co_image c,
      cs_container_id = None, cs_state = Some (state_waiting ''CreateContainerError'' (Some err)),
      cs_last_state = None, cs_started = Some False\<rparr>"

definition observed_container_status :: "container \<Rightarrow> container_info \<Rightarrow> container_status" where
  "observed_container_status c info =
     \<lparr>cs_name = co_name c, cs_ready = cinf_running info, cs_restart_count = cinf_restart_count info,
      cs_image = co_image c, cs_image_id = co_image c, cs_container_id = Some (cinf_id info),
      cs_state = Some (container_state_of info), cs_last_state = None, cs_started = Some (cinf_running info)\<rparr>"

section \<open>Reconciling a pod\<close>

text \<open>What the loop over a pod's containers accumulates.\<close>

record pod_observation =
  po_statuses :: "container_status list"
  po_all_running :: bool
  po_any_failed :: bool
  po_earliest_start :: "time option"
  po_runtime_ip :: "string option"

definition no_observation :: pod_observation where
  "no_observation = \<lparr>po_statuses = [], po_all_running = True, po_any_failed = False,
     po_earliest_start = None, po_runtime_ip = None\<rparr>"

definition earlier :: "time option \<Rightarrow> time option \<Rightarrow> time option" where
  "earlier started earliest = (case started of
       None \<Rightarrow> earliest
     | Some t \<Rightarrow> Some (case earliest of None \<Rightarrow> t | Some cur \<Rightarrow> min cur t))"

text \<open>
  A container counts by what the engine says of it. Its start time counts whether or not it runs,
  unless it was created just now (\<open>fresh\<close>).
\<close>

definition observe_container :: "bool \<Rightarrow> container \<Rightarrow> container_info \<Rightarrow> pod_observation \<Rightarrow> pod_observation" where
  "observe_container fresh c info po =
     \<lparr>po_statuses = po_statuses po @ [observed_container_status c info],
      po_all_running = (po_all_running po \<and> cinf_running info),
      po_any_failed = (po_any_failed po \<or>
        (\<not> cinf_running info \<and> (case cinf_exit_code info of Some code \<Rightarrow> code | None \<Rightarrow> 0) \<noteq> 0)),
      po_earliest_start = (if fresh \<and> \<not> cinf_running info then po_earliest_start po
                           else earlier (cinf_started_at info) (po_earliest_start po)),
      po_runtime_ip = (case po_runtime_ip po of None \<Rightarrow> cinf_ip info | Some ip \<Rightarrow> Some ip)\<rparr>"

definition observe_failure :: "container \<Rightarrow> string \<Rightarrow> pod_observation \<Rightarrow> pod_observation" where
  "observe_failure c err po = po\<lparr>po_any_failed := True,
     po_statuses := po_statuses po @ [failed_container_status c err]\<rparr>"

definition runtime_name :: "string \<Rightarrow> string \<Rightarrow> string" where
  "runtime_name pod_name container_name = pod_name @ ''-'' @ container_name"

text \<open>The indexes for logs and exec and for the service proxy.\<close>

definition index_container :: "uuid \<Rightarrow> string \<Rightarrow> string \<Rightarrow> string \<Rightarrow> container_info \<Rightarrow> 'r agent \<Rightarrow> 'r agent" where
  "index_container uid namespace pod_name cname info ag = ag
     \<lparr>ag_containers := hm_insert uid (cinf_id info) (ag_containers ag),
      ag_pod_containers := hm_insert (namespace, pod_name, cname) (cinf_id info) (ag_pod_containers ag),
      ag_pod_ports := (if cinf_port_mappings info = [] then ag_pod_ports ag
        else hm_insert (namespace, pod_name)
               ((case hm_get (ag_pod_ports ag) (namespace, pod_name) of Some l \<Rightarrow> l | None \<Rightarrow> []) @ cinf_port_mappings info)
               (ag_pod_ports ag))\<rparr>"

text \<open>The engine's answer, and the state it leaves; the engine is handed a UUID and a clock reading.\<close>

definition agent_create ::
  "env \<Rightarrow> 'r runtime_ops \<Rightarrow> string option \<Rightarrow> string \<Rightarrow> container \<Rightarrow> ('r, string + string) node_prog" where
  "agent_create e rt cls name c =
     bindR (agent_uuid e) (\<lambda>uid.
     bindR (agent_now e) (\<lambda>now s.
       let (res, es) = engine_create rt cls uid now name c (ag_runtime (nw_agent s))
       in (Inr res, s\<lparr>nw_agent := (nw_agent s)\<lparr>ag_runtime := es\<rparr>\<rparr>)))"

definition agent_find :: "'r runtime_ops \<Rightarrow> string \<Rightarrow> ('r, container_info option) node_prog" where
  "agent_find rt name s = (engines_find rt name (ag_runtime (nw_agent s)), s)"

definition start_container ::
  "env \<Rightarrow> network \<Rightarrow> 'r runtime_ops \<Rightarrow> pod \<Rightarrow> uuid \<Rightarrow> container \<Rightarrow> pod_observation \<Rightarrow> ('r, pod_observation) node_prog" where
  "start_container e net rt pod uid c po =
     (let namespace = meta_namespace (pod_metadata pod); pod_name = meta_name (pod_metadata pod);
          docker_name = runtime_name pod_name (co_name c); quote = [CHR 0x22] in
      bindR (agent_emit_event e net pod ET_Normal ''Pulling'' (''Pulling image '' @ quote @ co_image c @ quote)) (\<lambda>_.
      bindR (agent_create e rt (ps_runtime_class_name (pod_spec pod)) docker_name c) (\<lambda>started. case started of
        Inr _ \<Rightarrow>
          bindR (agent_find rt docker_name) (\<lambda>found. case found of
            None \<Rightarrow> failR (''created container '' @ docker_name @ '' but cannot find it'')
          | Some info \<Rightarrow>
              bindR (agent_emit_event e net pod ET_Normal ''Pulled'' (''Successfully pulled image '' @ quote @ co_image c @ quote)) (\<lambda>_.
              bindR (agent_emit_event e net pod ET_Normal ''Created'' (''Created container '' @ co_name c)) (\<lambda>_.
              bindR (agent_emit_event e net pod ET_Normal ''Started'' (''Started container '' @ co_name c)) (\<lambda>_.
              bindR (modify_agent (index_container uid namespace pod_name (co_name c) info)) (\<lambda>_.
              returnR (observe_container True c info po))))))
      | Inl err \<Rightarrow>
          bindR (agent_emit_event e net pod ET_Warning ''Failed'' (''Failed to start container '' @ co_name c @ '': '' @ err)) (\<lambda>_.
          returnR (observe_failure c err po)))))"

definition reconcile_container ::
  "env \<Rightarrow> network \<Rightarrow> 'r runtime_ops \<Rightarrow> pod \<Rightarrow> uuid \<Rightarrow> container \<Rightarrow> pod_observation \<Rightarrow> ('r, pod_observation) node_prog" where
  "reconcile_container e net rt pod uid c po =
     (let namespace = meta_namespace (pod_metadata pod); pod_name = meta_name (pod_metadata pod) in
      bindR (agent_find rt (runtime_name pod_name (co_name c))) (\<lambda>observed. case observed of
        Some info \<Rightarrow>
          bindR (modify_agent (index_container uid namespace pod_name (co_name c) info)) (\<lambda>_.
          returnR (observe_container False c info po))
      | None \<Rightarrow> start_container e net rt pod uid c po))"

definition observed_phase :: "pod_observation \<Rightarrow> pod_phase" where
  "observed_phase po = (if po_any_failed po then Failed
     else if po_all_running po \<and> po_statuses po \<noteq> [] then Running
     else Pending)"

text \<open>\<open>(pod_uid.as_u128() % 254 + 1) as u8\<close>\<close>

definition synthetic_ip :: "string \<Rightarrow> uuid \<Rightarrow> string" where
  "synthetic_ip prefix uid = prefix @ ''.'' @ show_nat (unat uid mod 254 + 1)"

definition choose_pod_ip :: "string \<Rightarrow> string \<Rightarrow> uuid \<Rightarrow> string option \<Rightarrow> ('r, string) node_prog" where
  "choose_pod_ip namespace pod_name uid runtime_ip = (case runtime_ip of
       Some ip \<Rightarrow>
         bindR (modify_agent (\<lambda>ag. ag\<lparr>ag_pod_ips := hm_insert (namespace, pod_name) ip (ag_pod_ips ag)\<rparr>)) (\<lambda>_. returnR ip)
     | None \<Rightarrow> read_agent (\<lambda>ag. synthetic_ip (ag_pod_cidr_prefix ag) uid))"

definition agent_reconcile_pod ::
  "env \<Rightarrow> network \<Rightarrow> (error \<Rightarrow> string) \<Rightarrow> 'r runtime_ops \<Rightarrow> pod \<Rightarrow> ('r, unit) node_prog" where
  "agent_reconcile_pod e net show_err rt pod =
     (let namespace = meta_namespace (pod_metadata pod); pod_name = meta_name (pod_metadata pod) in
      case om_uid (pod_metadata pod) of
        None \<Rightarrow> failR ''Pod has no UID''
      | Some uid \<Rightarrow>
          if ps_containers (pod_spec pod) = [] then returnR ()
          else
            bindR (foldR (reconcile_container e net rt pod uid) (ps_containers (pod_spec pod)) no_observation) (\<lambda>po.
            bindR (choose_pod_ip namespace pod_name uid (po_runtime_ip po)) (\<lambda>ip.
            publish_pod_status e net show_err namespace pod_name (observed_phase po) (Some ip) (po_statuses po)
              (po_earliest_start po))))"

section \<open>The sync pass\<close>

definition remove_orphan ::
  "'r runtime_ops \<Rightarrow> (string \<times> string \<times> string) \<times> string \<Rightarrow> 'r agent \<Rightarrow> 'r agent" where
  "remove_orphan rt orphan ag = (case orphan of ((ns, pod_name, cname), cid) \<Rightarrow>
     let es = snd (engines_remove rt (runtime_name pod_name cname) (ag_runtime ag)) in
     ag\<lparr>ag_runtime := es,
        ag_pod_containers := hm_remove (ns, pod_name, cname) (ag_pod_containers ag),
        ag_pod_ports := hm_remove (ns, pod_name) (ag_pod_ports ag),
        ag_pod_ips := hm_remove (ns, pod_name) (ag_pod_ips ag),
        ag_containers := filter (\<lambda>(_, v). v \<noteq> cid) (ag_containers ag)\<rparr>)"

definition orphans_of :: "(string \<times> string) list \<Rightarrow> 'r agent \<Rightarrow> ((string \<times> string \<times> string) \<times> string) list" where
  "orphans_of desired ag = filter (\<lambda>((ns, pod_name, _), _). (ns, pod_name) \<notin> set desired) (ag_pod_containers ag)"

definition sweep_orphans :: "'r runtime_ops \<Rightarrow> (string \<times> string) list \<Rightarrow> 'r agent \<Rightarrow> 'r agent" where
  "sweep_orphans rt desired ag = fold (remove_orphan rt) (orphans_of desired ag) ag"

definition pods_of_node :: "string \<Rightarrow> list_params" where
  "pods_of_node name = \<lparr>lp_label_selector = None, lp_field_selector = Some (''spec.nodeName='' @ name),
     lp_limit = None, lp_continue_token = None\<rparr>"

definition client_headers :: header_map where
  "client_headers = [(''accept'', ''*/*'')]"

text \<open>The body decoded as a \<open>List<Pod>\<close>.\<close>

definition list_items :: "'t body \<Rightarrow> string + 't list" where
  "list_items b = (case b of Json_List _ _ items \<Rightarrow> Inr items | _ \<Rightarrow> Inl ''error decoding response body'')"

definition sync_pod ::
  "env \<Rightarrow> network \<Rightarrow> (error \<Rightarrow> string) \<Rightarrow> 'r runtime_ops \<Rightarrow> string \<Rightarrow> pod \<Rightarrow> (string \<times> string) list \<Rightarrow>
   ('r, (string \<times> string) list) node_prog" where
  "sync_pod e net show_err rt name pod desired =
     (if ps_node_name (pod_spec pod) \<noteq> Some name then returnR desired
      else tryR (agent_reconcile_pod e net show_err rt pod) (\<lambda>_.
           returnR ((meta_namespace (pod_metadata pod), meta_name (pod_metadata pod)) # desired)))"

definition sync_pods :: "env \<Rightarrow> network \<Rightarrow> (error \<Rightarrow> string) \<Rightarrow> 'r runtime_ops \<Rightarrow> ('r, unit) node_prog" where
  "sync_pods e net show_err rt =
     bindR (read_agent ag_name) (\<lambda>name.
     bindR (server_call net (list_all_pods e (pods_of_node name) client_headers)) (\<lambda>res. case res of
       Inl err \<Rightarrow> failR (''Failed to fetch pods: '' @ show_err err)
     | Inr body \<Rightarrow> (case list_items body of
         Inl err \<Rightarrow> failR err
       | Inr items \<Rightarrow>
           bindR (foldR (sync_pod e net show_err rt name) items []) (\<lambda>desired.
           modify_agent (sweep_orphans rt desired)))))"

text \<open>The main loop: after the registration, heartbeats and passes in any order; a failure is logged.\<close>

inductive agent_step ::
  "env \<Rightarrow> network \<Rightarrow> (error \<Rightarrow> string) \<Rightarrow> 'r runtime_ops \<Rightarrow> 'r node_world \<Rightarrow> 'r node_world \<Rightarrow> bool"
  for e net show_err rt where
  step_heartbeat: "agent_step e net show_err rt s (snd (send_heartbeat e net show_err h s))"
| step_sync: "agent_step e net show_err rt s (snd (sync_pods e net show_err rt s))"

end
