(* ===== verification/Agent_Http.thy ===== *)
theory Agent_Http
  imports Agent
begin

text \<open>
  The HTTP server of the node agent (\<open>src/src/node/agent.rs\<close>): logs, exec and port-forward. The handlers
  only read the agent's state. Parameters stand for chrono's subtraction of seconds (\<open>None\<close> is its
  panic on overflow), for serde's decoding of a query string and of a resize message, and for the
  rendering of the error document. A web socket is the list of messages received and the number
  \<open>room\<close> of sends (or writes) that succeed before one fails.
\<close>

section \<open>Logs\<close>

record log_query =
  lq_tail_lines :: "int option"
  lq_timestamps :: bool
  lq_follow :: bool
  lq_since_seconds :: "int option"
  lq_limit_bytes :: "int option"

text \<open>
  The derived \<open>Deserialize\<close> on the decoded pairs: a field may be given once and has to parse, unknown
  names are ignored. \<open>None\<close> is the rejection of the request.
\<close>

definition query_field :: "string \<Rightarrow> (string \<Rightarrow> 'a option) \<Rightarrow> (string \<times> string) list \<Rightarrow> 'a option option" where
  "query_field k parse pairs = (case filter (\<lambda>(k', _). k' = k) pairs of
       [] \<Rightarrow> Some None
     | [(_, v)] \<Rightarrow> map_option Some (parse v)
     | _ \<Rightarrow> None)"

definition parse_bool :: "string \<Rightarrow> bool option" where
  "parse_bool s = (if s = ''true'' then Some True else if s = ''false'' then Some False else None)"

definition log_query_of :: "(string \<times> string) list \<Rightarrow> log_query option" where
  "log_query_of pairs =
     Option.bind (query_field ''tailLines'' parse_i64 pairs) (\<lambda>tail_lines.
     Option.bind (query_field ''timestamps'' parse_bool pairs) (\<lambda>timestamps.
     Option.bind (query_field ''follow'' parse_bool pairs) (\<lambda>follow.
     Option.bind (query_field ''sinceSeconds'' parse_i64 pairs) (\<lambda>since_seconds.
     Option.bind (query_field ''limitBytes'' parse_i64 pairs) (\<lambda>limit_bytes.
     Some \<lparr>lq_tail_lines = tail_lines, lq_timestamps = (timestamps = Some True), lq_follow = (follow = Some True),
           lq_since_seconds = since_seconds, lq_limit_bytes = limit_bytes\<rparr>)))))"

text \<open>\<open>Inl\<close> are the statuses and texts of the error responses.\<close>

definition known_containers :: "'r agent \<Rightarrow> string" where
  "known_containers ag =
     (let known = map (\<lambda>((ns, p, c), _). ns @ ''/'' @ p @ ''/'' @ c) (ag_pod_containers ag)
      in if known = [] then ''none'' else join_with '', '' known)"

definition resolve_container ::
  "(string \<Rightarrow> string) \<Rightarrow> (string \<Rightarrow> string) \<Rightarrow> string \<Rightarrow> string \<Rightarrow> string \<Rightarrow> 'r agent \<Rightarrow> (nat \<times> string) + string" where
  "resolve_container not_found_text multiple_text namespace pod_name container ag =
     (case hm_get (ag_pod_containers ag) (namespace, pod_name, container) of
        Some cid \<Rightarrow> Inr cid
      | None \<Rightarrow>
          (case filter (\<lambda>((ns, p, _), _). ns = namespace \<and> p = pod_name) (ag_pod_containers ag) of
             [] \<Rightarrow> Inl (404, not_found_text (known_containers ag))
           | [(_, cid)] \<Rightarrow> Inr cid
           | matching \<Rightarrow> Inl (400, multiple_text (join_with '', '' (map (\<lambda>((_, _, c), _). c) matching)))))"

datatype agent_response =
    Agent_Text nat string
  | Agent_Stream "chunk list"    \<comment> \<open>200, \<open>text/plain; charset=utf-8\<close>, \<open>no-cache\<close>\<close>
  | Agent_Panic                  \<comment> \<open>the task of the request dies\<close>

definition log_options_of :: "(time \<Rightarrow> int \<Rightarrow> time option) \<Rightarrow> time \<Rightarrow> log_query \<Rightarrow> log_options option" where
  "log_options_of minus_seconds now q =
     (case lq_since_seconds q of
        None \<Rightarrow> Some \<lparr>lo_tail_lines = lq_tail_lines q, lo_timestamps = lq_timestamps q, lo_since_time = None,
                      lo_limit_bytes = lq_limit_bytes q\<rparr>
      | Some secs \<Rightarrow> map_option (\<lambda>t. \<lparr>lo_tail_lines = lq_tail_lines q, lo_timestamps = lq_timestamps q,
                      lo_since_time = Some t, lo_limit_bytes = lq_limit_bytes q\<rparr>) (minus_seconds now secs))"

definition handle_follow_logs ::
  "'r runtime_ops \<Rightarrow> (time \<Rightarrow> int \<Rightarrow> time option) \<Rightarrow> time \<Rightarrow> string \<Rightarrow> string \<Rightarrow> string \<Rightarrow> log_query \<Rightarrow> 'r agent \<Rightarrow> agent_response" where
  "handle_follow_logs rt minus_seconds now namespace pod_name container q ag =
     (case resolve_container
             (\<lambda>known. ''Container '' @ container @ '' not found in pod '' @ namespace @ ''/'' @ pod_name @
                ''. Known: '' @ known @ newline)
             (\<lambda>names. ''Multiple containers in pod. Specify one of: '' @ names @ newline)
             namespace pod_name container ag of
        Inl (status, msg) \<Rightarrow> Agent_Text status msg
      | Inr cid \<Rightarrow> (case log_options_of minus_seconds now q of
          None \<Rightarrow> Agent_Panic
        | Some options \<Rightarrow> (case engines_stream rt cid options (ag_runtime ag) of
            Inr stream \<Rightarrow> Agent_Stream stream
          | Inl err \<Rightarrow> Agent_Text 500 (''Failed to start log stream: '' @ err @ newline))))"

definition handle_logs ::
  "'r runtime_ops \<Rightarrow> (time \<Rightarrow> int \<Rightarrow> time option) \<Rightarrow> time \<Rightarrow> string \<Rightarrow> string \<Rightarrow> string \<Rightarrow> log_query \<Rightarrow> 'r agent \<Rightarrow> agent_response" where
  "handle_logs rt minus_seconds now namespace pod_name container q ag =
     (if lq_follow q then handle_follow_logs rt minus_seconds now namespace pod_name container q ag
      else case resolve_container
             (\<lambda>known. ''Container '' @ container @ '' not found in pod '' @ namespace @ ''/'' @ pod_name @
                ''. Pod may not be running on this node or hasn'' @ [CHR 0x27] @ ''t been synced yet.'' @ newline @
                ''Known containers: '' @ known @ newline)
             (\<lambda>names. ''Multiple containers in pod '' @ namespace @ ''/'' @ pod_name @ ''. Please specify one of: '' @ names @ newline)
             namespace pod_name container ag of
        Inl (status, msg) \<Rightarrow> Agent_Text status msg
      | Inr cid \<Rightarrow> (case log_options_of minus_seconds now q of
          None \<Rightarrow> Agent_Panic
        | Some options \<Rightarrow> (case engines_logs rt cid options (ag_runtime ag) of
            Inr logs \<Rightarrow> Agent_Text 200 logs
          | Inl err \<Rightarrow> Agent_Text 500 (''Failed to get logs: '' @ err @ newline))))"

section \<open>Exec\<close>

definition parse_exec_query :: "(string \<Rightarrow> (string \<times> string) list) \<Rightarrow> string \<Rightarrow> string list \<times> bool" where
  "parse_exec_query decode q =
     (let pairs = decode q;
          cmd = map snd (filter (\<lambda>(k, _). k = ''command'') pairs);
          tty = (case List.find (\<lambda>(k, _). k = ''tty'') pairs of Some (_, v) \<Rightarrow> v = ''true'' \<or> v = ''1'' | None \<Rightarrow> False)
      in (if cmd = [] then [''sh''] else cmd, tty))"

datatype exec_response =
    Exec_Error nat string
  | Exec_Upgrade string "string list" bool   \<comment> \<open>container id, command, tty\<close>

definition handle_exec ::
  "(string \<Rightarrow> (string \<times> string) list) \<Rightarrow> string \<Rightarrow> string \<Rightarrow> string \<Rightarrow> string option \<Rightarrow> 'r agent \<Rightarrow> exec_response" where
  "handle_exec decode namespace pod_name container raw_query ag =
     (case hm_get (ag_pod_containers ag) (namespace, pod_name, container) of
        None \<Rightarrow> Exec_Error 404 (''Container '' @ container @ '' not found in pod '' @ namespace @ ''/'' @ pod_name)
      | Some cid \<Rightarrow>
          let (cmd, tty) = parse_exec_query decode (case raw_query of Some q \<Rightarrow> q | None \<Rightarrow> [])
          in Exec_Upgrade cid cmd tty)"

text \<open>\<open>error_doc\<close> renders the failure \<open>Status\<close> document of a message.\<close>

definition error_frame :: "(string \<Rightarrow> string) \<Rightarrow> string \<Rightarrow> 8 word list" where
  "error_frame error_doc msg = 3 # bytes_of (error_doc msg)"

definition dquote :: string where
  "dquote = [CHR 0x22]"

definition json_field :: "string \<Rightarrow> string \<Rightarrow> string" where
  "json_field k v = dquote @ k @ dquote @ '':'' @ v"

definition json_text_of :: "string \<Rightarrow> string" where
  "json_text_of v = dquote @ v @ dquote"

definition exit_status_doc :: "i32 option \<Rightarrow> string" where
  "exit_status_doc code = (case code of
       Some c \<Rightarrow>
         if c \<noteq> 0 then
           ''{'' @ json_field ''metadata'' ''{}'' @ '','' @ json_field ''status'' (json_text_of ''Failure'') @ '','' @
           json_field ''message'' (json_text_of (''command terminated with non-zero exit code: exit status '' @ show_int c)) @ '','' @
           json_field ''reason'' (json_text_of ''NonZeroExitCode'') @ '','' @
           json_field ''details'' (''{'' @ json_field ''causes'' (''[{'' @ json_field ''reason'' (json_text_of ''ExitCode'') @ '','' @
             json_field ''message'' (json_text_of (show_int c)) @ ''}]'') @ ''}'') @ ''}''
         else ''{'' @ json_field ''metadata'' ''{}'' @ '','' @ json_field ''status'' (json_text_of ''Success'') @ ''}''
     | None \<Rightarrow> ''{'' @ json_field ''metadata'' ''{}'' @ '','' @ json_field ''status'' (json_text_of ''Success'') @ ''}'')"

text \<open>Output as channel-1 frames until it ends, fails or the socket does, and the sends left.\<close>

fun exec_stdout :: "nat \<Rightarrow> chunk list \<Rightarrow> frame list \<times> nat" where
  "exec_stdout room [] = ([], room)"
| "exec_stdout room (Inl err # cs) = ([], room)"
| "exec_stdout room (Inr [] # cs) = exec_stdout room cs"
| "exec_stdout room (Inr (b # bs) # cs) = (case room of
      0 \<Rightarrow> ([], 0)
    | Suc k \<Rightarrow> (case exec_stdout k cs of (fs, rest) \<Rightarrow> (Binary_Frame (1 # b # bs) # fs, rest)))"

definition exec_to_client :: "nat \<Rightarrow> exec_session \<Rightarrow> frame list" where
  "exec_to_client room sess = (case exec_stdout room (xs_output sess) of (fs, rest) \<Rightarrow>
     let code = Option.bind (xs_exit sess) (\<lambda>c. c) in
     fs @ (if rest = 0 then [] else [Binary_Frame (3 # bytes_of (exit_status_doc code)), Close_Frame None]))"

datatype session_input = Stdin_Bytes "8 word list" | Resize_To nat nat   \<comment> \<open>height, width\<close>

text \<open>
  \<open>decode_size\<close>: \<open>None\<close> if the payload is no JSON text, else the members \<open>Width\<close> and \<open>Height\<close> as far as
  they are \<open>u64\<close>. Both are cut to 16 bits.
\<close>

fun exec_from_client ::
  "(8 word list \<Rightarrow> (nat option \<times> nat option) option) \<Rightarrow> nat \<Rightarrow> (unit + frame) list \<Rightarrow> session_input list" where
  "exec_from_client decode_size room [] = []"
| "exec_from_client decode_size room (Inl _ # ms) = []"
| "exec_from_client decode_size room (Inr (Binary_Frame []) # ms) = exec_from_client decode_size room ms"
| "exec_from_client decode_size room (Inr (Binary_Frame (channel # payload)) # ms) =
     (if channel = 0 then
        (case room of 0 \<Rightarrow> [] | Suc k \<Rightarrow> Stdin_Bytes payload # exec_from_client decode_size k ms)
      else if channel = 4 then
        (case decode_size payload of
           Some (width, height) \<Rightarrow>
             Resize_To ((case height of Some n \<Rightarrow> n | None \<Rightarrow> 24) mod 65536) ((case width of Some n \<Rightarrow> n | None \<Rightarrow> 80) mod 65536)
               # exec_from_client decode_size room ms
         | None \<Rightarrow> exec_from_client decode_size room ms)
      else exec_from_client decode_size room ms)"
| "exec_from_client decode_size room (Inr (Close_Frame c) # ms) = []"
| "exec_from_client decode_size room (Inr (Text_Frame t) # ms) = exec_from_client decode_size room ms"
| "exec_from_client decode_size room (Inr Ping_Frame # ms) = exec_from_client decode_size room ms"

text \<open>What the client of an exec request receives.\<close>

definition handle_exec_websocket ::
  "'r runtime_ops \<Rightarrow> (string \<Rightarrow> string) \<Rightarrow> nat \<Rightarrow> string \<Rightarrow> string list \<Rightarrow> bool \<Rightarrow> 'r agent \<Rightarrow> frame list" where
  "handle_exec_websocket rt error_doc room cid cmd tty ag = (case engines_exec rt cid cmd tty (ag_runtime ag) of
       Inl err \<Rightarrow> (case room of
           0 \<Rightarrow> []
         | Suc _ \<Rightarrow> [Binary_Frame (error_frame error_doc (''exec failed: '' @ err)), Close_Frame None])
     | Inr sess \<Rightarrow> exec_to_client room sess)"

section \<open>Port-forward\<close>

definition parse_ports :: "string option \<Rightarrow> nat list" where
  "parse_ports ports = List.map_filter (\<lambda>p. parse_unsigned 65535 (trim p))
     (split_on (CHR '','') (case ports of Some s \<Rightarrow> s | None \<Rightarrow> []))"

datatype portforward_response =
    Portforward_Error nat string
  | Portforward_To string            \<comment> \<open>the web socket is joined to a TCP connection to this address\<close>

definition handle_portforward :: "string \<Rightarrow> string option \<Rightarrow> portforward_response" where
  "handle_portforward pod_ip ports = (case parse_ports ports of
       [] \<Rightarrow> Portforward_Error 400 ''No ports specified''
     | port # _ \<Rightarrow> Portforward_To (pod_ip @ '':'' @ show_nat port))"

text \<open>What is written to the pod, and what the client receives from the chunks read.\<close>

fun ws_to_tcp :: "nat \<Rightarrow> (unit + frame) list \<Rightarrow> 8 word list list" where
  "ws_to_tcp room [] = []"
| "ws_to_tcp room (Inl _ # ms) = []"
| "ws_to_tcp room (Inr (Binary_Frame data) # ms) = (case room of 0 \<Rightarrow> [] | Suc k \<Rightarrow> data # ws_to_tcp k ms)"
| "ws_to_tcp room (Inr (Text_Frame t) # ms) = (case room of 0 \<Rightarrow> [] | Suc k \<Rightarrow> bytes_of t # ws_to_tcp k ms)"
| "ws_to_tcp room (Inr (Close_Frame c) # ms) = []"
| "ws_to_tcp room (Inr Ping_Frame # ms) = ws_to_tcp room ms"

fun tcp_to_ws :: "nat \<Rightarrow> (unit + 8 word list) list \<Rightarrow> frame list" where
  "tcp_to_ws room [] = []"
| "tcp_to_ws room (Inl _ # rs) = (if room = 0 then [] else [Close_Frame None])"
| "tcp_to_ws room (Inr [] # rs) = (if room = 0 then [] else [Close_Frame None])"
| "tcp_to_ws room (Inr (b # bs) # rs) = (case room of 0 \<Rightarrow> [] | Suc k \<Rightarrow> Binary_Frame (b # bs) # tcp_to_ws k rs)"

end
