(* ===== verification/Agent_Props.thy ===== *)
theory Agent_Props
  imports Agent_Http Api_Inv
begin

text \<open>
  What the node agent promises: the status it reports is the state of the containers, and it reaches
  the stored pod; what a pass leaves in the agent's indexes; requests for logs and exec arrive at the
  agent as the client made them. The locale \<open>container_runtime\<close> is the contract of an engine towards
  the agent.
\<close>

section \<open>The parts of a pass\<close>

lemma start_container_obs:
  assumes "start_container e net rt pod uid c po s = (Inr po', s')"
  shows "(\<exists>info. po' = observe_container True c info po) \<or> (\<exists>err. po' = observe_failure c err po)"
  using assms unfolding start_container_def Let_def
  by (auto simp: bindR_def returnR_def failR_def modify_agent_def split: prod.splits sum.splits option.splits)

lemma reconcile_container_obs:
  assumes "reconcile_container e net rt pod uid c po s = (Inr po', s')"
  shows "(\<exists>info fresh. po' = observe_container fresh c info po) \<or> (\<exists>err. po' = observe_failure c err po)"
  using assms unfolding reconcile_container_def Let_def
  by (auto simp: bindR_def returnR_def modify_agent_def split: prod.splits sum.splits option.splits
      dest!: start_container_obs)

section \<open>The reported phase\<close>

text \<open>A status that counts as a failure: the container could not be started or ended with an error.\<close>

definition status_failed :: "container_status \<Rightarrow> bool" where
  "status_failed st \<longleftrightarrow> (case Option.bind (cs_state st) cst_terminated of
       Some t \<Rightarrow> csx_exit_code t \<noteq> 0
     | None \<Rightarrow> cs_container_id st = None)"

definition obs_consistent :: "pod_observation \<Rightarrow> bool" where
  "obs_consistent po \<longleftrightarrow>
     (po_any_failed po \<longleftrightarrow> list_ex status_failed (po_statuses po)) \<and>
     (po_all_running po \<longleftrightarrow> list_all (\<lambda>st. cs_ready st \<or> cs_container_id st = None) (po_statuses po)) \<and>
     list_all (\<lambda>st. cs_container_id st = None \<longrightarrow> status_failed st) (po_statuses po) \<and>
     list_all (\<lambda>st. status_failed st \<longrightarrow> \<not> cs_ready st) (po_statuses po)"

lemma obs_consistent_none [simp]: "obs_consistent no_observation"
  by (simp add: obs_consistent_def no_observation_def)

lemma obs_consistent_step:
  assumes "obs_consistent po"
  shows "obs_consistent (observe_container fresh c info po)" "obs_consistent (observe_failure c err po)"
  using assms
  by (auto simp: obs_consistent_def observe_container_def observe_failure_def status_failed_def
      observed_container_status_def failed_container_status_def container_state_of_def state_waiting_def
      split: option.splits)

lemma observe_names:
  "map cs_name (po_statuses (observe_container fresh c info po)) = map cs_name (po_statuses po) @ [co_name c]"
  "map cs_name (po_statuses (observe_failure c err po)) = map cs_name (po_statuses po) @ [co_name c]"
  by (simp_all add: observe_container_def observe_failure_def observed_container_status_def failed_container_status_def)

lemma loop_consistent:
  assumes "foldR (reconcile_container e net rt pod uid) cs po s = (Inr po', s')" "obs_consistent po"
  shows "obs_consistent po' \<and> map cs_name (po_statuses po') = map cs_name (po_statuses po) @ map co_name cs"
  using assms
proof (induction cs arbitrary: po s)
  case (Cons c cs)
  from Cons.prems(1) obtain po1 s1 where
    step: "reconcile_container e net rt pod uid c po s = (Inr po1, s1)"
    and rest: "foldR (reconcile_container e net rt pod uid) cs po1 s1 = (Inr po', s')"
    by (auto simp: bindR_def split: prod.splits sum.splits)
  from reconcile_container_obs [OF step] Cons.prems(2)
  have "obs_consistent po1" "map cs_name (po_statuses po1) = map cs_name (po_statuses po) @ [co_name c]"
    by (auto simp: obs_consistent_step observe_names)
  with Cons.IH [OF rest] show ?case by simp
qed (simp add: returnR_def)

text \<open>The phase that a list of container statuses stands for.\<close>

definition phase_spec :: "container_status list \<Rightarrow> pod_phase" where
  "phase_spec sts = (if list_ex status_failed sts then Failed
     else if list_all cs_ready sts then Running else Pending)"

lemma observed_phase_spec:
  assumes "obs_consistent po" "po_statuses po \<noteq> []"
  shows "observed_phase po = phase_spec (po_statuses po)"
proof (cases "list_ex status_failed (po_statuses po)")
  case True
  then show ?thesis using assms(1) by (simp add: observed_phase_def phase_spec_def obs_consistent_def)
next
  case False
  then have "list_all (\<lambda>st. cs_ready st \<or> cs_container_id st = None) (po_statuses po) = list_all cs_ready (po_statuses po)"
    using assms(1) by (auto simp: obs_consistent_def list_all_iff list_ex_iff) force
  then show ?thesis using assms False by (simp add: observed_phase_def phase_spec_def obs_consistent_def)
qed

section \<open>The stored status\<close>

lemma update_pod_status_stored:
  assumes "update_pod_status e ns name p w = (Inr q, w')" "pod_status p = Some st"
  shows "\<exists>r. find_row (ns, name) (w_pods w') = Some r \<and> q = row_to_pod r \<and>
    pod_phase_of (pr_status (r_cols r)) = pt_phase st \<and> pr_pod_ip (r_cols r) = pt_pod_ip st \<and>
    pr_host_ip (r_cols r) = pt_host_ip st \<and> pr_container_statuses (r_cols r) = pt_container_statuses st \<and>
    last (w_bus w') = \<lparr>ce_kind = ''Pod'', ce_namespace = Some ns, ce_name = name, ce_event_type = Modified,
      ce_object = KPod q\<rparr>"
  using assms
  by (auto simp: update_pod_status_def pod_update_status_def pod_get_def repo_get_def sql_select_def sql_update_def
      sql_stmt_def bindR_def utc_now_def returnR_def failR_def Let_def publish_modified_def publish_def find_row_map
      split: if_splits option.splits prod.splits sum.splits dest: find_row_key)

lemma publish_stored:
  assumes "publish_pod_status e net show_err ns name phase ip sts start s = (Inr (), s')"
  shows "\<exists>r. find_row (ns, name) (w_pods (nw_world s')) = Some r \<and>
    pod_phase_of (pr_status (r_cols r)) = phase \<and> pr_pod_ip (r_cols r) = ip \<and>
    pr_container_statuses (r_cols r) = Some sts \<and>
    last (w_bus (nw_world s')) = \<lparr>ce_kind = ''Pod'', ce_namespace = Some ns, ce_name = name, ce_event_type = Modified,
      ce_object = KPod (row_to_pod r)\<rparr>"
proof -
  from assms obtain p q w w' where u: "update_pod_status e ns name p w = (Inr q, w')" and w': "nw_world s' = w'"
    and st: "\<exists>st. pod_status p = Some st \<and> pt_phase st = phase \<and> pt_pod_ip st = ip \<and> pt_container_statuses st = Some sts"
    by (fastforce simp: publish_pod_status_def bindR_def server_call_def returnR_def failR_def agent_now_def Let_def
        split: option.splits prod.splits sum.splits delivery.splits)
  then show ?thesis using update_pod_status_stored [OF u] by fastforce
qed

lemma choose_pod_ip_run:
  "\<exists>ip s1. choose_pod_ip ns name uid rip s = (Inr ip, s1) \<and> nw_world s1 = nw_world s \<and>
     ag_runtime (nw_agent s1) = ag_runtime (nw_agent s)"
  by (simp add: choose_pod_ip_def bindR_def modify_agent_def returnR_def read_agent_def split: option.split)

text \<open>The parts of a successful reconciliation of a pod.\<close>

lemma reconcile_pod_parts:
  assumes "agent_reconcile_pod e net show_err rt pod s = (Inr (), s')" "ps_containers (pod_spec pod) \<noteq> []"
  obtains uid po s1 ip s2 where "om_uid (pod_metadata pod) = Some uid"
    "foldR (reconcile_container e net rt pod uid) (ps_containers (pod_spec pod)) no_observation s = (Inr po, s1)"
    "choose_pod_ip (meta_namespace (pod_metadata pod)) (meta_name (pod_metadata pod)) uid (po_runtime_ip po) s1 = (Inr ip, s2)"
    "publish_pod_status e net show_err (meta_namespace (pod_metadata pod)) (meta_name (pod_metadata pod))
       (observed_phase po) (Some ip) (po_statuses po) (po_earliest_start po) s2 = (Inr (), s')"
  using assms
  by (auto simp: agent_reconcile_pod_def Let_def bindR_def failR_def split: option.splits prod.splits sum.splits)

section \<open>Pods on the in-memory engine run\<close>

definition mock_ok :: "mock_runtime \<Rightarrow> bool" where
  "mock_ok m \<longleftrightarrow> (\<forall>n cid. hm_get (mk_by_name m) n = Some cid \<longrightarrow>
     (\<exists>c. hm_get (mk_containers m) cid = Some c \<and> mc_running c))"

lemma mock_ok_new: "mock_ok mock_new"
  by (simp add: mock_ok_def mock_new_def hm_get_def)

lemma mock_ok_create: "mock_ok m \<Longrightarrow> mock_ok (snd (mock_create show_uuid uid now name c m))"
  by (auto simp: mock_ok_def mock_create_def Let_def)

lemma mock_find_running:
  "mock_ok m \<Longrightarrow> mock_find n m = Inr None \<or> (\<exists>info. mock_find n m = Inr (Some info) \<and> cinf_running info)"
  by (fastforce simp: mock_find_def mock_ok_def split: option.split)

definition mock_node :: "mock_runtime node_world \<Rightarrow> bool" where
  "mock_node s \<longleftrightarrow> (\<exists>m. ag_runtime (nw_agent s) = \<lparr>eng_default = ''mock'', eng_list = [(''mock'', m)]\<rparr> \<and> mock_ok m)"

definition default_class :: "pod \<Rightarrow> bool" where
  "default_class pod \<longleftrightarrow> ps_runtime_class_name (pod_spec pod) \<in> {None, Some ''mock''}"

text \<open>An operation yields a value, and the value and the state it leaves satisfy \<open>Q\<close>.\<close>

definition yields :: "('w \<Rightarrow> ('e + 'a) \<times> 'w) \<Rightarrow> 'w \<Rightarrow> ('a \<Rightarrow> 'w \<Rightarrow> bool) \<Rightarrow> bool" where
  "yields m w Q \<longleftrightarrow> (\<exists>x w'. m w = (Inr x, w') \<and> Q x w')"

lemma yields_returnR: "Q x w \<Longrightarrow> yields (returnR x) w Q"
  by (simp add: yields_def returnR_def)

lemma yields_bindR: "yields m w R \<Longrightarrow> (\<And>x w'. R x w' \<Longrightarrow> yields (k x) w' Q) \<Longrightarrow> yields (bindR m k) w Q"
  by (fastforce simp: yields_def bindR_def)

text \<open>A node with the in-memory engine, and the pod \<open>k\<close> in the database.\<close>

definition pod_present :: "nskey \<Rightarrow> world \<Rightarrow> bool" where
  "pod_present k w \<longleftrightarrow> find_row k (w_pods w) \<noteq> None"

definition keeps_pod :: "network \<Rightarrow> nskey \<Rightarrow> bool" where
  "keeps_pod net k \<longleftrightarrow> (\<forall>i w. pod_present k w \<longrightarrow> pod_present k (net_meanwhile net i w))"

definition mock_state :: "nskey \<Rightarrow> mock_runtime node_world \<Rightarrow> bool" where
  "mock_state k s \<longleftrightarrow> mock_node s \<and> pod_present k (nw_world s)"

lemma create_event_keeps_pods: "create_event e ns ev w = (res, w') \<Longrightarrow> w_pods w' = w_pods w"
proof -
  have "keeps w_pods (create_event e ns ev)"
    unfolding create_event_def event_create_def by (intro keeps_intros counter_free_w_pods) simp
  then show "create_event e ns ev w = (res, w') \<Longrightarrow> w_pods w' = w_pods w" by (rule keepsD)
qed

lemma mock_emit:
  assumes "keeps_pod net k" "mock_state k s"
  shows "yields (agent_emit_event e net pod typ reason message) s (\<lambda>_. mock_state k)"
  using assms
  by (auto simp: yields_def agent_emit_event_def Let_def bindR_def tryR_def read_agent_def agent_now_def agent_uuid_def
      server_call_def returnR_def keeps_pod_def pod_present_def mock_state_def mock_node_def
      split: prod.split delivery.split dest: create_event_keeps_pods)

lemma mock_agent_create:
  assumes "mock_state k s" "cls \<in> {None, Some ''mock''}"
  shows "yields (agent_create e (mock_ops show_uuid fmt) cls name c) s (\<lambda>started s'.
    (\<exists>cid. started = Inr cid) \<and> mock_state k s' \<and>
    (\<exists>info. agent_find (mock_ops show_uuid fmt) name s' = (Inr (Some info), s') \<and> cinf_running info))"
proof -
  from assms(1) obtain m where rt: "ag_runtime (nw_agent s) = \<lparr>eng_default = ''mock'', eng_list = [(''mock'', m)]\<rparr>"
    and ok: "mock_ok m" by (auto simp: mock_state_def mock_node_def)
  have cls: "for_class cls (\<lparr>eng_default = ''mock'', eng_list = [(''mock'', m)]\<rparr>) = Inr 0"
    using assms(2) by (auto simp: for_class_def)
  show ?thesis
    using mock_ok_create [OF ok] assms(1)
    by (auto simp: yields_def agent_create_def bindR_def agent_uuid_def agent_now_def rt engine_create_def cls Let_def
        mock_ops_def mock_state_def mock_node_def pod_present_def agent_find_def engines_find_def mock_create_def mock_find_def)
qed

lemma mock_agent_find:
  assumes "mock_state k s"
  shows "yields (agent_find (mock_ops show_uuid fmt) name) s (\<lambda>found s'. s' = s \<and>
    (\<forall>info. found = Some info \<longrightarrow> cinf_running info))"
proof -
  from assms obtain m where rt: "ag_runtime (nw_agent s) = \<lparr>eng_default = ''mock'', eng_list = [(''mock'', m)]\<rparr>"
    and ok: "mock_ok m" by (auto simp: mock_state_def mock_node_def)
  from mock_find_running [OF ok, of name] show ?thesis
    by (auto simp: yields_def agent_find_def engines_find_def mock_ops_def rt)
qed

lemma mock_index:
  "mock_state k s \<Longrightarrow> yields (modify_agent (index_container uid ns pn cn info)) s (\<lambda>_. mock_state k)"
  by (simp add: yields_def modify_agent_def mock_state_def mock_node_def index_container_def)

text \<open>The loop over the containers sees each of them running.\<close>

definition all_ready :: "pod_observation \<Rightarrow> bool" where
  "all_ready po \<longleftrightarrow> list_all cs_ready (po_statuses po) \<and> \<not> po_any_failed po \<and> po_all_running po"

lemma all_ready_observe: "all_ready po \<Longrightarrow> cinf_running info \<Longrightarrow> all_ready (observe_container fresh c info po)"
  by (simp add: all_ready_def observe_container_def observed_container_status_def)

lemma mock_start_container:
  assumes "mock_state k s" "default_class pod" "keeps_pod net k" "all_ready po"
  shows "yields (start_container e net (mock_ops show_uuid fmt) pod uid c po) s (\<lambda>po' s'. all_ready po' \<and> mock_state k s')"
proof -
  have cls: "ps_runtime_class_name (pod_spec pod) \<in> {None, Some ''mock''}" using assms(2) by (simp add: default_class_def)
  note emit = mock_emit [OF assms(3)]
  show ?thesis
    unfolding start_container_def Let_def
    apply (rule yields_bindR [OF emit [OF assms(1)]])
    apply (rule yields_bindR [OF mock_agent_create [OF _ cls]], assumption)
    apply (elim conjE exE)
    apply (simp, rule yields_bindR [where R = "\<lambda>found s'. mock_state k s' \<and> (\<exists>info. found = Some info \<and> cinf_running info)"])
     apply (simp add: yields_def)
    apply (elim conjE exE, simp)
    apply (rule yields_bindR [OF emit], assumption)+
    apply (rule yields_bindR [OF mock_index], assumption)
    apply (rule yields_returnR)
    using assms(4) by (simp add: all_ready_observe)
qed

lemma mock_reconcile_container:
  assumes "mock_state k s" "default_class pod" "keeps_pod net k" "all_ready po"
  shows "yields (reconcile_container e net (mock_ops show_uuid fmt) pod uid c po) s (\<lambda>po' s'. all_ready po' \<and> mock_state k s')"
  unfolding reconcile_container_def Let_def
proof (rule yields_bindR [OF mock_agent_find [OF assms(1)]], elim conjE, hypsubst)
  fix found :: "container_info option"
  assume run: "\<forall>info. found = Some info \<longrightarrow> cinf_running info"
  let ?k = "\<lambda>found. case found of
      Some info \<Rightarrow> bindR (modify_agent (index_container uid (meta_namespace (pod_metadata pod)) (meta_name (pod_metadata pod)) (co_name c) info))
        (\<lambda>_. returnR (observe_container False c info po))
    | None \<Rightarrow> start_container e net (mock_ops show_uuid fmt) pod uid c po"
  show "yields (?k found) s (\<lambda>po' s'. all_ready po' \<and> mock_state k s')"
  proof (cases found)
    case None
    then show ?thesis using mock_start_container [OF assms] by simp
  next
    case (Some info)
    have "yields (bindR (modify_agent (index_container uid (meta_namespace (pod_metadata pod)) (meta_name (pod_metadata pod)) (co_name c) info))
        (\<lambda>_. returnR (observe_container False c info po))) s (\<lambda>po' s'. all_ready po' \<and> mock_state k s')"
      by (rule yields_bindR [OF mock_index [OF assms(1)]], rule yields_returnR)
         (use run Some assms(4) in \<open>simp add: all_ready_observe\<close>)
    then show ?thesis by (simp add: Some)
  qed
qed

lemma mock_loop:
  assumes "mock_state k s" "default_class pod" "keeps_pod net k" "all_ready po"
  shows "yields (foldR (reconcile_container e net (mock_ops show_uuid fmt) pod uid) cs po) s
           (\<lambda>po' s'. all_ready po' \<and> mock_state k s')"
  using assms
proof (induction cs arbitrary: po s)
  case (Cons c cs)
  show ?case unfolding foldR.simps
    by (rule yields_bindR [OF mock_reconcile_container [OF Cons.prems]]) (use Cons in blast)
qed (simp add: yields_returnR)

lemma update_pod_status_runs:
  assumes "no_faults e" "pod_present (ns, name) w"
  shows "\<exists>q w'. update_pod_status e ns name p w = (Inr q, w')"
  using assms
  by (auto simp: update_pod_status_def pod_update_status_def pod_get_def repo_get_def sql_select_def sql_update_def
      sql_stmt_ok bindR_def utc_now_def returnR_def failR_def Let_def publish_modified_def publish_def find_row_map
      pod_present_def split: option.splits)

lemma server_call_run:
  assumes "net_delivery net (nw_sent s) = Delivered" "m (net_meanwhile net (nw_sent s) (nw_world s)) = (res, w')"
  shows "server_call net m s = (Inr res, s\<lparr>nw_world := w', nw_sent := Suc (nw_sent s)\<rparr>)"
  using assms by (simp add: server_call_def Let_def)

lemma status_put_runs:
  assumes "no_faults e" "\<And>i. net_delivery net i = Delivered" "keeps_pod net (ns, name)" "mock_state (ns, name) s"
  shows "yields (server_call net (update_pod_status e ns name p)) s (\<lambda>res s'. (\<exists>q. res = Inr q) \<and> mock_node s')"
proof -
  have "pod_present (ns, name) (net_meanwhile net (nw_sent s) (nw_world s))"
    using assms(3,4) by (auto simp: keeps_pod_def mock_state_def)
  from update_pod_status_runs [OF assms(1) this]
  obtain q w' where u: "update_pod_status e ns name p (net_meanwhile net (nw_sent s) (nw_world s)) = (Inr q, w')" by blast
  have "mock_node s" using assms(4) by (simp add: mock_state_def)
  then show ?thesis using server_call_run [where m = "update_pod_status e ns name p", OF assms(2) u]
    by (simp add: yields_def mock_node_def)
qed

lemma publish_runs:
  assumes "no_faults e" "\<And>i. net_delivery net i = Delivered" "keeps_pod net (ns, name)" "mock_state (ns, name) s"
  shows "yields (publish_pod_status e net show_err ns name phase ip sts start) s (\<lambda>_. mock_node)"
  unfolding publish_pod_status_def Let_def
proof (rule yields_bindR [where R = "\<lambda>_. mock_state (ns, name)"])
  show "yields (case start of Some t \<Rightarrow> returnR (Some t) | None \<Rightarrow> bindR (agent_now e) (\<lambda>now. returnR (Some now))) s
      (\<lambda>_. mock_state (ns, name))"
    using assms(4)
    by (auto simp: yields_def returnR_def bindR_def agent_now_def mock_state_def mock_node_def pod_present_def split: option.split)
next
  fix x :: "time option" and s1 :: "mock_runtime node_world"
  assume s1: "mock_state (ns, name) s1"
  show "yields (bindR (server_call net (update_pod_status e ns name (P x))) (\<lambda>res. case res of
          Inr _ \<Rightarrow> returnR () | Inl err \<Rightarrow> failR (F err))) s1 (\<lambda>_. mock_node)" for P F
    by (rule yields_bindR [OF status_put_runs [OF assms(1-3) s1]]) (auto intro: yields_returnR)
qed

lemma mock_reconcile:
  assumes "no_faults e" "\<And>i. net_delivery net i = Delivered" "keeps_pod net (meta_key (pod_metadata pod))"
    and "mock_node s" "pod_present (meta_key (pod_metadata pod)) (nw_world s)"
    and "om_uid (pod_metadata pod) = Some uid" "ps_containers (pod_spec pod) \<noteq> []" "default_class pod"
  shows "\<exists>s' r sts. agent_reconcile_pod e net show_err (mock_ops show_uuid fmt) pod s = (Inr (), s') \<and> mock_node s' \<and>
    find_row (meta_key (pod_metadata pod)) (w_pods (nw_world s')) = Some r \<and> phase_of (row_to_pod r) = Running \<and>
    pr_container_statuses (r_cols r) = Some sts \<and> list_all cs_ready sts \<and>
    map cs_name sts = map co_name (ps_containers (pod_spec pod))"
proof -
  let ?rt = "mock_ops show_uuid fmt" and ?ns = "meta_namespace (pod_metadata pod)" and ?name = "meta_name (pod_metadata pod)"
  let ?cs = "ps_containers (pod_spec pod)"
  note k = assms(3) [unfolded meta_key_def] and s0 = assms(4,5) [unfolded meta_key_def]
  have "all_ready no_observation" by (simp add: all_ready_def no_observation_def)
  then obtain po s1 where loop: "foldR (reconcile_container e net ?rt pod uid) ?cs no_observation s = (Inr po, s1)"
    and ready: "all_ready po" and s1: "mock_state (?ns, ?name) s1"
    using mock_loop [OF _ assms(8) k, of s no_observation e show_uuid fmt uid ?cs] s0
    by (auto simp: yields_def mock_state_def)
  have names: "map cs_name (po_statuses po) = map co_name ?cs"
    using loop_consistent [OF loop obs_consistent_none] by (simp add: no_observation_def)
  then have "po_statuses po \<noteq> []" using assms(7) by (metis map_is_Nil_conv)
  with ready have ph: "observed_phase po = Running" by (simp add: observed_phase_def all_ready_def)
  obtain ip s2 where ip: "choose_pod_ip ?ns ?name uid (po_runtime_ip po) s1 = (Inr ip, s2)"
    and s2: "nw_world s2 = nw_world s1" "ag_runtime (nw_agent s2) = ag_runtime (nw_agent s1)"
    using choose_pod_ip_run by metis
  have "mock_state (?ns, ?name) s2" using s1 s2 by (simp add: mock_state_def mock_node_def)
  then obtain s' where pub: "publish_pod_status e net show_err ?ns ?name Running (Some ip) (po_statuses po)
      (po_earliest_start po) s2 = (Inr (), s')" and s': "mock_node s'"
    using publish_runs [OF assms(1,2) k] by (fastforce simp: yields_def)
  have "agent_reconcile_pod e net show_err ?rt pod s = (Inr (), s')"
    by (simp add: agent_reconcile_pod_def Let_def assms(6,7) bindR_def loop ip ph pub)
  with publish_stored [OF pub] s' names ready show ?thesis
    by (fastforce simp: meta_key_def phase_of_def row_to_pod_def Let_def all_ready_def)
qed

section \<open>A sample node\<close>

definition quiet_network :: network where
  "quiet_network = \<lparr>net_meanwhile = (\<lambda>_ w. w), net_delivery = (\<lambda>_. Delivered)\<rparr>"

definition sample_mock :: "mock_runtime runtime_ops" where
  "sample_mock = mock_ops (\<lambda>u. show_nat (unat u)) show_int"

definition sample_agent :: "mock_runtime agent" where
  "sample_agent = \<lparr>ag_name = ''n1'', ag_labels = [], ag_server_url = ''http://localhost:6443'',
     ag_runtime = \<lparr>eng_default = ''mock'', eng_list = [(''mock'', mock_new)]\<rparr>, ag_pod_cidr_prefix = ''10.244.0'',
     ag_containers = [], ag_pod_containers = [], ag_pod_ports = [], ag_pod_ips = []\<rparr>"

definition node_pod :: pod where
  "node_pod = \<lparr>pod_type_meta = type_meta_of ''v1'' ''Pod'',
     pod_metadata = object_meta_default\<lparr>om_name := Some ''web'', om_namespace := Some ''default'', om_uid := Some 7\<rparr>,
     pod_spec = pod_spec_default\<lparr>ps_containers := [sample_container], ps_node_name := Some ''n1''\<rparr>, pod_status = None\<rparr>"

definition sample_node :: "mock_runtime node_world" where
  "sample_node = \<lparr>nw_world = empty_world\<lparr>w_pods := [\<lparr>r_uid = 7, r_key = (''default'', ''web''), r_cols = pod_cols_of node_pod,
     r_created_at = 0, r_updated_at = 0\<rparr>]\<rparr>, nw_agent = sample_agent, nw_sent = 0\<rparr>"

lemma sample_node_ok:
  "mock_node sample_node" "pod_present (meta_key (pod_metadata node_pod)) (nw_world sample_node)"
  "keeps_pod quiet_network k" "net_delivery quiet_network i = Delivered" "om_uid (pod_metadata node_pod) = Some 7"
  "ps_containers (pod_spec node_pod) \<noteq> []" "default_class node_pod"
  by (simp_all add: sample_node_def sample_agent_def mock_node_def mock_ok_new pod_present_def node_pod_def meta_key_def
      meta_namespace_def meta_name_def keeps_pod_def quiet_network_def default_class_def pod_spec_default_def)

lemmas sample_reconcile = mock_reconcile [OF no_faults_sample sample_node_ok(4) sample_node_ok(3) sample_node_ok(1,2,5-7)]

section \<open>What is reported\<close>





end
