(* ===== verification/Agent_Sync.thy ===== *)
theory Agent_Sync
  imports Agent_Props
begin

text \<open>
  What a pass of the node agent leaves behind: the indexes it keeps for logs, exec and the service
  proxy hold only pods the server assigns to the node, and nothing the agent does through the API
  breaks the integrity of the database. \<open>spec\<close> is a Hoare triple with a separate condition for
  the error exit.
\<close>

section \<open>Triples\<close>

named_theorems spec_intros "rules that compose triples"

definition spec :: "('w \<Rightarrow> bool) \<Rightarrow> ('w \<Rightarrow> ('e + 'a) \<times> 'w) \<Rightarrow> ('a \<Rightarrow> 'w \<Rightarrow> bool) \<Rightarrow> ('w \<Rightarrow> bool) \<Rightarrow> bool" where
  "spec P m Q E \<longleftrightarrow> (\<forall>s. P s \<longrightarrow> (case m s of (Inl _, s') \<Rightarrow> E s' | (Inr x, s') \<Rightarrow> Q x s'))"

lemma spec_returnR [spec_intros]: "(\<And>s. P s \<Longrightarrow> Q x s) \<Longrightarrow> spec P (returnR x) Q E"
  by (simp add: spec_def returnR_def)

lemma spec_failR [spec_intros]: "(\<And>s. P s \<Longrightarrow> E s) \<Longrightarrow> spec P (failR err) Q E"
  by (simp add: spec_def failR_def)

lemma spec_bindR: "spec P m R E \<Longrightarrow> (\<And>x. spec (R x) (k x) Q E) \<Longrightarrow> spec P (bindR m k) Q E"
  by (fastforce simp: spec_def bindR_def split: prod.splits sum.splits)

lemma spec_tryR: "spec P m (\<lambda>_. R) R \<Longrightarrow> (\<And>r. spec R (k r) Q E) \<Longrightarrow> spec P (tryR m k) Q E"
  by (fastforce simp: spec_def tryR_def split: prod.splits sum.splits)

lemma spec_foldR:
  assumes "\<And>x a. x \<in> set xs \<Longrightarrow> spec (I a) (f x a) I E"
  shows "spec (I a) (foldR f xs a) I E"
  using assms
proof (induction xs arbitrary: a)
  case (Cons x xs)
  then show ?case by (auto intro!: spec_bindR)
qed (simp add: spec_returnR)

lemma spec_weaken: "spec P m Q E \<Longrightarrow> (\<And>s. P' s \<Longrightarrow> P s) \<Longrightarrow> (\<And>x s. Q x s \<Longrightarrow> Q' x s) \<Longrightarrow> (\<And>s. E s \<Longrightarrow> E' s) \<Longrightarrow> spec P' m Q' E'"
  by (fastforce simp: spec_def split: prod.splits sum.splits)

lemma specD: "spec P m Q E \<Longrightarrow> P s \<Longrightarrow> m s = (Inr x, s') \<Longrightarrow> Q x s'"
  by (fastforce simp: spec_def)

section \<open>The indexes\<close>

definition has_container :: "'r agent \<Rightarrow> string \<times> string \<Rightarrow> bool" where
  "has_container ag k \<longleftrightarrow> (\<exists>c. hm_get (ag_pod_containers ag) (fst k, snd k, c) \<noteq> None)"

text \<open>Ports and addresses are recorded only for pods that have a container in the index.\<close>

definition index_ok :: "'r agent \<Rightarrow> bool" where
  "index_ok ag \<longleftrightarrow> hm_ok (ag_pod_containers ag) \<and>
     (\<forall>k. hm_get (ag_pod_ports ag) k \<noteq> None \<longrightarrow> has_container ag k) \<and>
     (\<forall>k. hm_get (ag_pod_ips ag) k \<noteq> None \<longrightarrow> has_container ag k)"

lemma has_container_index:
  "has_container (index_container uid ns pn cn info ag) k \<longleftrightarrow> has_container ag k \<or> k = (ns, pn)"
  by (cases k) (auto simp: has_container_def index_container_def)

lemma index_container_ok:
  assumes "index_ok ag"
  shows "index_ok (index_container uid ns pn cn info ag)" "has_container (index_container uid ns pn cn info ag) (ns, pn)"
  using assms by (auto simp: index_ok_def has_container_index) (auto simp: index_container_def split: if_splits)

lemma index_ok_runtime [simp]: "index_ok (ag\<lparr>ag_runtime := es\<rparr>) = index_ok ag"
  "has_container (ag\<lparr>ag_runtime := es\<rparr>) k = has_container ag k"
  by (simp_all add: index_ok_def has_container_def)

text \<open>Conditions on the indexes and the name only.\<close>

definition agent_cond :: "('r agent \<Rightarrow> bool) \<Rightarrow> bool" where
  "agent_cond P \<longleftrightarrow> (\<forall>ag es. P (ag\<lparr>ag_runtime := es\<rparr>) = P ag)"

lemma spec_agent_steps:
  assumes "agent_cond P"
  shows "spec (\<lambda>s. P (nw_agent s)) (server_call net m) (\<lambda>_ s. P (nw_agent s)) (\<lambda>s. P (nw_agent s))"
    and "spec (\<lambda>s. P (nw_agent s)) (agent_now e) (\<lambda>_ s. P (nw_agent s)) (\<lambda>s. P (nw_agent s))"
    and "spec (\<lambda>s. P (nw_agent s)) (agent_uuid e) (\<lambda>_ s. P (nw_agent s)) (\<lambda>s. P (nw_agent s))"
    and "spec (\<lambda>s. P (nw_agent s)) (read_agent f) (\<lambda>_ s. P (nw_agent s)) (\<lambda>s. P (nw_agent s))"
    and "spec (\<lambda>s. P (nw_agent s)) (agent_find rt name) (\<lambda>_ s. P (nw_agent s)) (\<lambda>s. P (nw_agent s))"
    and "spec (\<lambda>s. P (nw_agent s)) (agent_create e rt cls name c) (\<lambda>_ s. P (nw_agent s)) (\<lambda>s. P (nw_agent s))"
  using assms
  by (auto simp: spec_def server_call_def agent_now_def agent_uuid_def read_agent_def agent_find_def agent_create_def
      agent_cond_def bindR_def Let_def split: prod.splits delivery.splits sum.splits)

lemma spec_emit:
  assumes "agent_cond P"
  shows "spec (\<lambda>s. P (nw_agent s)) (agent_emit_event e net pod typ reason message) (\<lambda>_ s. P (nw_agent s)) (\<lambda>s. P (nw_agent s))"
  unfolding agent_emit_event_def Let_def
  by (intro spec_bindR [OF spec_agent_steps(4)] spec_bindR [OF spec_agent_steps(2)] spec_bindR [OF spec_agent_steps(3)]
      spec_tryR [OF spec_agent_steps(1)] spec_returnR assms)

lemma spec_publish:
  assumes "agent_cond P"
  shows "spec (\<lambda>s. P (nw_agent s)) (publish_pod_status e net show_err ns name phase ip sts start)
           (\<lambda>_ s. P (nw_agent s)) (\<lambda>s. P (nw_agent s))"
  unfolding publish_pod_status_def Let_def
proof (rule spec_bindR)
  show "spec (\<lambda>s. P (nw_agent s)) (case start of Some t \<Rightarrow> returnR (Some t) | None \<Rightarrow> bindR (agent_now e) (\<lambda>now. returnR (Some now)))
      (\<lambda>_ s. P (nw_agent s)) (\<lambda>s. P (nw_agent s))"
    by (cases start) (auto intro: spec_returnR spec_bindR [OF spec_agent_steps(2) [OF assms]])
next
  show "spec (\<lambda>s. P (nw_agent s)) (bindR (server_call net m) (\<lambda>res. case res of Inr _ \<Rightarrow> returnR () | Inl err \<Rightarrow> failR (F err)))
      (\<lambda>_ s. P (nw_agent s)) (\<lambda>s. P (nw_agent s))" for m F
    by (rule spec_bindR [OF spec_agent_steps(1) [OF assms]]) (auto intro: spec_returnR spec_failR split: sum.split)
qed

text \<open>The condition the loop over the containers keeps.\<close>

definition loop_cond :: "string \<times> string \<Rightarrow> pod_observation \<Rightarrow> 'r agent \<Rightarrow> bool" where
  "loop_cond k po ag \<longleftrightarrow> index_ok ag \<and> (po_runtime_ip po \<noteq> None \<longrightarrow> has_container ag k)"

lemma agent_cond_index: "agent_cond index_ok" "agent_cond (loop_cond k po)"
  by (simp_all add: agent_cond_def loop_cond_def)

abbreviation on_agent :: "('r agent \<Rightarrow> bool) \<Rightarrow> 'r node_world \<Rightarrow> bool" where
  "on_agent P s \<equiv> P (nw_agent s)"

lemma spec_index:
  assumes "k = (ns, pn)"
  shows "spec (on_agent (loop_cond k po)) (bindR (modify_agent (index_container uid ns pn cn info)) (\<lambda>_. returnR (observe_container fresh c info po)))
    (\<lambda>po'. on_agent (loop_cond k po')) (on_agent index_ok)"
  using assms by (auto simp: spec_def bindR_def modify_agent_def returnR_def loop_cond_def index_container_ok)

lemma loop_cond_failure: "loop_cond k po ag \<Longrightarrow> loop_cond k (observe_failure c err po) ag"
  by (simp add: loop_cond_def observe_failure_def)

lemma loop_cond_index: "loop_cond k po ag \<Longrightarrow> index_ok ag"
  by (simp add: loop_cond_def)

lemma loop_steps:
  "spec (on_agent (loop_cond k po)) (agent_emit_event e net pod typ reason message) (\<lambda>_. on_agent (loop_cond k po)) (on_agent index_ok)"
  "spec (on_agent (loop_cond k po)) (agent_create e rt cls name c) (\<lambda>_. on_agent (loop_cond k po)) (on_agent index_ok)"
  "spec (on_agent (loop_cond k po)) (agent_find rt name) (\<lambda>_. on_agent (loop_cond k po)) (on_agent index_ok)"
  by (rule spec_weaken [OF spec_emit [OF agent_cond_index(2)]], assumption, assumption, erule loop_cond_index)
     (rule spec_weaken [OF spec_agent_steps(6) [OF agent_cond_index(2)]]
           spec_weaken [OF spec_agent_steps(5) [OF agent_cond_index(2)]], assumption, assumption, erule loop_cond_index)+

lemma spec_start_container:
  assumes "k = (meta_namespace (pod_metadata pod), meta_name (pod_metadata pod))"
  shows "spec (on_agent (loop_cond k po)) (start_container e net rt pod uid c po) (\<lambda>po'. on_agent (loop_cond k po')) (on_agent index_ok)"
  unfolding start_container_def Let_def
  by (intro spec_bindR [OF loop_steps(1)] spec_bindR [OF loop_steps(2)])
     (auto simp: loop_cond_index loop_cond_failure split: sum.split option.split
       intro!: spec_bindR [OF loop_steps(1)] spec_bindR [OF loop_steps(3)] spec_returnR spec_failR spec_index [OF assms])

lemma spec_reconcile_container:
  assumes "k = (meta_namespace (pod_metadata pod), meta_name (pod_metadata pod))"
  shows "spec (on_agent (loop_cond k po)) (reconcile_container e net rt pod uid c po) (\<lambda>po'. on_agent (loop_cond k po')) (on_agent index_ok)"
  unfolding reconcile_container_def Let_def
  by (intro spec_bindR [OF loop_steps(3)])
     (auto split: option.split intro!: spec_index [OF assms] spec_start_container [OF assms])

lemma spec_choose_pod_ip:
  assumes "k = (ns, pn)"
  shows "spec (on_agent (loop_cond k po)) (choose_pod_ip ns pn uid (po_runtime_ip po)) (\<lambda>_. on_agent index_ok) (on_agent index_ok)"
  using assms
  by (auto simp: spec_def choose_pod_ip_def bindR_def modify_agent_def returnR_def read_agent_def loop_cond_def index_ok_def
      has_container_def split: option.split)

lemma spec_reconcile_pod:
  "spec (on_agent index_ok) (agent_reconcile_pod e net show_err rt pod) (\<lambda>_. on_agent index_ok) (on_agent index_ok)"
proof -
  let ?k = "(meta_namespace (pod_metadata pod), meta_name (pod_metadata pod))"
  have start: "spec (on_agent index_ok) m Q E" if "spec (on_agent (loop_cond ?k no_observation)) m Q E" for m Q E
    using that by (rule spec_weaken) (simp_all add: loop_cond_def no_observation_def)
  show ?thesis
    unfolding agent_reconcile_pod_def Let_def
    by (auto split: option.split dest: loop_cond_index intro!: start spec_returnR spec_failR spec_bindR [OF spec_foldR [OF spec_reconcile_container [OF refl]]]
        spec_bindR [OF spec_choose_pod_ip [OF refl]] spec_publish [OF agent_cond_index(1)])
qed

section \<open>Sweeping\<close>

lemma remove_orphan_index:
  assumes "hm_ok (ag_pod_containers ag)"
  shows "hm_ok (ag_pod_containers (remove_orphan rt x ag))"
    "hm_get (ag_pod_containers (remove_orphan rt x ag)) k = (if k = fst x then None else hm_get (ag_pod_containers ag) k)"
    "hm_get (ag_pod_ports (remove_orphan rt x ag)) pk =
       (if pk = (fst (fst x), fst (snd (fst x))) then None else hm_get (ag_pod_ports ag) pk)"
    "hm_get (ag_pod_ips (remove_orphan rt x ag)) pk =
       (if pk = (fst (fst x), fst (snd (fst x))) then None else hm_get (ag_pod_ips ag) pk)"
  using assms by (auto simp: remove_orphan_def Let_def split: prod.splits)

lemma remove_orphans_index:
  assumes "hm_ok (ag_pod_containers ag)"
  shows "hm_ok (ag_pod_containers (fold (remove_orphan rt) xs ag)) \<and>
    hm_get (ag_pod_containers (fold (remove_orphan rt) xs ag)) k = (if k \<in> fst ` set xs then None else hm_get (ag_pod_containers ag) k) \<and>
    hm_get (ag_pod_ports (fold (remove_orphan rt) xs ag)) pk =
      (if pk \<in> (\<lambda>x. (fst (fst x), fst (snd (fst x)))) ` set xs then None else hm_get (ag_pod_ports ag) pk) \<and>
    hm_get (ag_pod_ips (fold (remove_orphan rt) xs ag)) pk =
      (if pk \<in> (\<lambda>x. (fst (fst x), fst (snd (fst x)))) ` set xs then None else hm_get (ag_pod_ips ag) pk)"
  using assms
proof (induction xs arbitrary: ag)
  case (Cons x xs)
  then show ?case using Cons.IH [of "remove_orphan rt x ag"] by (simp add: remove_orphan_index [OF Cons.prems])
qed simp

lemma orphan_keys:
  assumes "hm_ok (ag_pod_containers ag)"
  shows "(ns, p, c) \<in> fst ` set (orphans_of desired ag) \<longleftrightarrow>
    hm_get (ag_pod_containers ag) (ns, p, c) \<noteq> None \<and> (ns, p) \<notin> set desired"
  using assms by (force simp: orphans_of_def hm_get_def hm_ok_def map_of_eq_None_iff image_iff)

lemma orphan_pods:
  assumes "hm_ok (ag_pod_containers ag)"
  shows "k \<in> (\<lambda>x. (fst (fst x), fst (snd (fst x)))) ` set (orphans_of desired ag) \<longleftrightarrow>
    has_container ag k \<and> k \<notin> set desired"
proof -
  have "k \<in> (\<lambda>x. (fst (fst x), fst (snd (fst x)))) ` set (orphans_of desired ag) \<longleftrightarrow>
      (\<exists>c. (fst k, snd k, c) \<in> fst ` set (orphans_of desired ag))"
    by (cases k) (force simp: image_iff)
  then show ?thesis by (auto simp: orphan_keys [OF assms] has_container_def)
qed

lemma sweep_index:
  assumes "index_ok ag"
  shows "hm_get (ag_pod_containers (sweep_orphans rt desired ag)) (ns, p, c) =
      (if (ns, p) \<in> set desired then hm_get (ag_pod_containers ag) (ns, p, c) else None)"
    and "hm_get (ag_pod_ports (sweep_orphans rt desired ag)) k = (if k \<in> set desired then hm_get (ag_pod_ports ag) k else None)"
    and "hm_get (ag_pod_ips (sweep_orphans rt desired ag)) k = (if k \<in> set desired then hm_get (ag_pod_ips ag) k else None)"
    and "hm_ok (ag_pod_containers (sweep_orphans rt desired ag))"
proof -
  have ok: "hm_ok (ag_pod_containers ag)" using assms by (simp add: index_ok_def)
  note r = remove_orphans_index [OF ok, of rt "orphans_of desired ag"]
  show "hm_get (ag_pod_containers (sweep_orphans rt desired ag)) (ns, p, c) =
      (if (ns, p) \<in> set desired then hm_get (ag_pod_containers ag) (ns, p, c) else None)"
    using r orphan_keys [OF ok] by (auto simp: sweep_orphans_def)
  have none: "\<not> has_container ag k \<Longrightarrow> hm_get (ag_pod_ports ag) k = None \<and> hm_get (ag_pod_ips ag) k = None"
    using assms unfolding index_ok_def by blast
  have "hm_get (ag_pod_ports (sweep_orphans rt desired ag)) k = (if has_container ag k \<and> k \<notin> set desired then None else hm_get (ag_pod_ports ag) k)"
    "hm_get (ag_pod_ips (sweep_orphans rt desired ag)) k = (if has_container ag k \<and> k \<notin> set desired then None else hm_get (ag_pod_ips ag) k)"
    using r [of _ k] unfolding sweep_orphans_def orphan_pods [OF ok] by blast+
  then show "hm_get (ag_pod_ports (sweep_orphans rt desired ag)) k = (if k \<in> set desired then hm_get (ag_pod_ports ag) k else None)"
    "hm_get (ag_pod_ips (sweep_orphans rt desired ag)) k = (if k \<in> set desired then hm_get (ag_pod_ips ag) k else None)"
    using none by (cases "has_container ag k"; simp)+
  show "hm_ok (ag_pod_containers (sweep_orphans rt desired ag))" using r by (simp add: sweep_orphans_def)
qed

lemma sweep_index_ok: "index_ok ag \<Longrightarrow> index_ok (sweep_orphans rt desired ag)"
  by (auto simp: index_ok_def [of "sweep_orphans rt desired ag"] sweep_index has_container_def split: if_splits)
     (auto simp: index_ok_def has_container_def)

section \<open>A pass\<close>

definition assigned :: "world \<Rightarrow> string \<Rightarrow> nskey \<Rightarrow> bool" where
  "assigned w node k \<longleftrightarrow> (\<exists>pod \<in> set (cluster_pods w). ps_node_name (pod_spec pod) = Some node \<and> meta_key (pod_metadata pod) = k)"

lemma sync_fold_desired:
  assumes "foldR (sync_pod e net show_err rt name) items desired s = (Inr desired', s')"
  shows "set desired' = set desired \<union>
    {meta_key (pod_metadata pod) |pod. pod \<in> set items \<and> ps_node_name (pod_spec pod) = Some name}"
  using assms
proof (induction items arbitrary: desired s)
  case (Cons pod items)
  from Cons.prems obtain d1 s1 where step: "sync_pod e net show_err rt name pod desired s = (Inr d1, s1)"
    and rest: "foldR (sync_pod e net show_err rt name) items d1 s1 = (Inr desired', s')"
    by (auto simp: bindR_def split: prod.splits sum.splits)
  have "set d1 = set desired \<union> (if ps_node_name (pod_spec pod) = Some name then {meta_key (pod_metadata pod)} else {})"
    using step by (auto simp: sync_pod_def tryR_def returnR_def meta_key_def split: if_splits prod.splits)
  with Cons.IH [OF rest] show ?case by auto
qed (simp add: returnR_def)

lemma spec_sync_fold:
  "spec (on_agent index_ok) (foldR (sync_pod e net show_err rt name) items desired) (\<lambda>_. on_agent index_ok) (on_agent index_ok)"
  by (rule spec_foldR) (auto simp: sync_pod_def intro!: spec_returnR spec_tryR [OF spec_reconcile_pod])

lemma client_headers_plain: "wants_watch client_headers = False" "wants_table client_headers = False"
  by (code_simp, code_simp)

lemma sync_list:
  assumes "list_all_pods e (pods_of_node name) client_headers w = (Inr body, w')" "list_items body = Inr items"
  shows "set items = set (cluster_pods w)"
proof -
  from assms have "\<exists>w1. pod_list e None None w = (Inr items, w1)"
    by (auto simp: list_all_pods_def bindR_def list_response_live_def client_headers_plain parse_label_selector_def pods_of_node_def
        returnR_def list_items_def split: prod.splits sum.splits)
  then show ?thesis using pod_list_set by (fastforce simp: pod_selected_def)
qed

lemma sync_parts:
  assumes "sync_pods e net show_err rt s = (Inr (), s')"
  obtains items desired s1 s2 where "nw_agent s1 = nw_agent s"
    "set items = set (cluster_pods (net_meanwhile net (nw_sent s) (nw_world s)))"
    "foldR (sync_pod e net show_err rt (ag_name (nw_agent s))) items [] s1 = (Inr desired, s2)"
    "nw_agent s' = sweep_orphans rt desired (nw_agent s2)"
proof -
  let ?w = "net_meanwhile net (nw_sent s) (nw_world s)" and ?name = "ag_name (nw_agent s)"
  from assms obtain body s1 items where call: "server_call net (list_all_pods e (pods_of_node ?name) client_headers) s = (Inr (Inr body), s1)"
    and items: "list_items body = Inr items"
    and rest: "bindR (foldR (sync_pod e net show_err rt ?name) items []) (\<lambda>desired. modify_agent (sweep_orphans rt desired)) s1 = (Inr (), s')"
    by (auto simp: sync_pods_def read_agent_def failR_def bindR_def [of "read_agent _"] bindR_def [of "server_call _ _"]
        split: prod.splits sum.splits)
  from rest obtain desired s2 where "foldR (sync_pod e net show_err rt ?name) items [] s1 = (Inr desired, s2)"
    "nw_agent s' = sweep_orphans rt desired (nw_agent s2)"
    by (auto simp: bindR_def modify_agent_def split: prod.splits sum.splits)
  moreover from call obtain w' where l: "list_all_pods e (pods_of_node ?name) client_headers ?w = (Inr body, w')"
    and "nw_agent s1 = nw_agent s"
    by (auto simp: server_call_def Let_def split: prod.splits delivery.splits)
  ultimately show ?thesis using that sync_list [OF l items] by blast
qed

text \<open>
  C7. After a pass the node agent knows only the pods of its node. Whatever the agent had indexed
  before, after a successful pass every container it would serve logs or exec for, and every host
  port and address the service proxy would connect to, belongs to a pod that the database held, with
  this node as its node, when the pass asked for the pods; and the indexes stay consistent.
\<close>

theorem sync_keeps_only_assigned:
  assumes "index_ok (nw_agent s)" "sync_pods e net show_err rt s = (Inr (), s')"
    and "w = net_meanwhile net (nw_sent s) (nw_world s)" "ag' = nw_agent s'"
  shows "index_ok ag' \<and>
    (\<forall>ns p c. hm_get (ag_pod_containers ag') (ns, p, c) \<noteq> None \<longrightarrow> assigned w (ag_name (nw_agent s)) (ns, p)) \<and>
    (\<forall>k. hm_get (ag_pod_ports ag') k \<noteq> None \<or> hm_get (ag_pod_ips ag') k \<noteq> None \<longrightarrow> assigned w (ag_name (nw_agent s)) k)"
proof -
  from assms(2) obtain items desired s1 s2 where s1: "nw_agent s1 = nw_agent s" and items: "set items = set (cluster_pods w)"
    and fold: "foldR (sync_pod e net show_err rt (ag_name (nw_agent s))) items [] s1 = (Inr desired, s2)"
    and ag': "ag' = sweep_orphans rt desired (nw_agent s2)"
    unfolding assms(3,4) by (rule sync_parts)
  have ok: "index_ok (nw_agent s2)" using specD [OF spec_sync_fold _ fold] assms(1) s1 by simp
  have "k \<in> set desired \<Longrightarrow> assigned w (ag_name (nw_agent s)) k" for k
    using sync_fold_desired [OF fold] items by (auto simp: assigned_def)
  then show ?thesis using sweep_index [OF ok, of rt desired] sweep_index_ok [OF ok] by (auto simp: ag' split: if_splits)
qed

lemma sync_fold_runs: "\<exists>d s'. foldR (sync_pod e net show_err rt name) items desired s = (Inr d, s')"
proof (induction items arbitrary: desired s)
  case (Cons pod items)
  have "\<exists>d1 s1. sync_pod e net show_err rt name pod desired s = (Inr d1, s1)"
    by (auto simp: sync_pod_def tryR_def returnR_def split: prod.split)
  then obtain d1 s1 where "sync_pod e net show_err rt name pod desired s = (Inr d1, s1)" by blast
  with Cons.IH [of d1 s1] show ?case by (simp add: bindR_def)
qed (simp add: returnR_def)

text \<open>A pass succeeds once the list of pods has arrived, whatever becomes of the single pods.\<close>

lemma sync_runs:
  assumes "no_faults e" "net_delivery net (nw_sent s) = Delivered"
  shows "\<exists>s'. sync_pods e net show_err rt s = (Inr (), s')"
proof -
  let ?name = "ag_name (nw_agent s)" and ?w = "net_meanwhile net (nw_sent s) (nw_world s)"
  obtain items w' where "list_all_pods e (pods_of_node ?name) client_headers ?w = (Inr (Json_List ''v1'' ''PodList'' items), w')"
    using assms(1)
    by (simp add: list_all_pods_def bindR_def list_response_live_def client_headers_plain parse_label_selector_def pods_of_node_def
        returnR_def pod_list_def pods.list_run)
  from server_call_run [where m = "list_all_pods e (pods_of_node ?name) client_headers", OF assms(2) this]
  obtain s1 where call: "server_call net (list_all_pods e (pods_of_node ?name) client_headers) s = (Inr (Inr (Json_List ''v1'' ''PodList'' items)), s1)"
    by blast
  obtain d s2 where "foldR (sync_pod e net show_err rt ?name) items [] s1 = (Inr d, s2)" using sync_fold_runs by blast
  then show ?thesis by (simp add: sync_pods_def bindR_def read_agent_def call list_items_def modify_agent_def)
qed

theorem sync_keeps_only_assigned_witness:
  "\<exists>s' . sync_pods sample_env quiet_network (\<lambda>_. []) sample_mock
       (sample_node\<lparr>nw_agent := sample_agent\<lparr>ag_pod_containers := [((''default'', ''gone'', ''c''), ''containerd://1'')]\<rparr>\<rparr>) = (Inr (), s') \<and>
     index_ok (nw_agent s') \<and> hm_get (ag_pod_containers (nw_agent s')) (''default'', ''gone'', ''c'') = None"
proof -
  let ?s = "sample_node\<lparr>nw_agent := sample_agent\<lparr>ag_pod_containers := [((''default'', ''gone'', ''c''), ''containerd://1'')]\<rparr>\<rparr>"
  have "index_ok (nw_agent ?s)" by (simp add: index_ok_def sample_agent_def hm_ok_def hm_get_def)
  moreover obtain s' where r: "sync_pods sample_env quiet_network (\<lambda>_. []) sample_mock ?s = (Inr (), s')"
    using sync_runs [OF no_faults_sample, of quiet_network ?s] by (auto simp: quiet_network_def)
  moreover have "\<not> assigned (nw_world sample_node) ''n1'' (''default'', ''gone'')"
    by (simp add: assigned_def cluster_pods_def sample_node_def row_to_pod_def Let_def ns_row_meta_def meta_key_def meta_name_def)
  moreover have "ag_name (nw_agent ?s) = ''n1''" "net_meanwhile quiet_network (nw_sent ?s) (nw_world ?s) = nw_world sample_node"
    by (simp_all add: sample_agent_def quiet_network_def)
  ultimately show ?thesis using sync_keeps_only_assigned [OF _ r refl refl] by metis
qed

section \<open>The agent's own invariant\<close>

lemma spec_sync_pods:
  "spec (on_agent index_ok) (sync_pods e net show_err rt) (\<lambda>_. on_agent index_ok) (on_agent index_ok)"
proof -
  have sweep: "spec (on_agent index_ok) (modify_agent (sweep_orphans rt desired)) (\<lambda>_. on_agent index_ok) (on_agent index_ok)" for desired
    by (simp add: spec_def modify_agent_def sweep_index_ok)
  show ?thesis
    unfolding sync_pods_def
    by (intro spec_bindR [OF spec_agent_steps(4) [OF agent_cond_index(1)]] spec_bindR [OF spec_agent_steps(1) [OF agent_cond_index(1)]])
       (auto split: sum.split intro!: spec_failR spec_bindR [OF spec_sync_fold] sweep)
qed

lemma spec_send_heartbeat:
  "spec (on_agent index_ok) (send_heartbeat e net show_err h) (\<lambda>_. on_agent index_ok) (on_agent index_ok)"
  unfolding send_heartbeat_def current_node_def bindR_assoc
  by (intro spec_bindR [OF spec_agent_steps(2) [OF agent_cond_index(1)]] spec_bindR [OF spec_agent_steps(3) [OF agent_cond_index(1)]]
        spec_bindR [OF spec_agent_steps(4) [OF agent_cond_index(1)]])
     (auto split: sum.split intro!: spec_failR spec_returnR spec_bindR [OF spec_agent_steps(1) [OF agent_cond_index(1)]])

lemma spec_snd: "spec P m (\<lambda>_. P) P \<Longrightarrow> P s \<Longrightarrow> P (snd (m s))"
  by (cases "m s"; cases "fst (m s)") (auto simp: spec_def dest!: spec [of _ s])

lemma agent_step_index_ok: "agent_step e net show_err rt s s' \<Longrightarrow> index_ok (nw_agent s) \<Longrightarrow> index_ok (nw_agent s')"
  by (induction rule: agent_step.cases)
     (use spec_snd [OF spec_sync_pods] spec_snd [OF spec_send_heartbeat] in blast)+

lemma agent_new_index_ok: "agent_new rt os new name url labels cidr kind = Inr ag \<Longrightarrow> index_ok ag"
  by (auto simp: agent_new_def index_ok_def hm_ok_def hm_get_def split: sum.splits)

end
