(* ===== verification/Server.thy ===== *)
theory Server
  imports Api_Inv Pod_Access
begin

text \<open>
  The server as a whole: one step of \<open>server_step\<close> is one turn of a background task
  (\<open>src/src/server/mod.rs\<close> starts them) or one request, in any order and with any content.
  The handlers for logs, exec and port-forward only read.
\<close>

section \<open>Start-up\<close>

text \<open>
  The start of a server on a migrated database: its lease manager, and a bus that replicates exactly
  when the database is PostgreSQL. The receivers and tasks of the process start out empty.
\<close>

definition server_init :: "env \<Rightarrow> string \<Rightarrow> lease_manager prog" where
  "server_init e db_url =
     bindR (lease_manager_new e (backend_from_url db_url)) (\<lambda>leases w.
       (Inr leases, w\<lparr>w_bus := [], w_tasks := [],
          w_replicator := (case backend_from_url db_url of
             Postgres \<Rightarrow> Some \<lparr>rp_instance_id = lm_holder leases, rp_channel = default_notify_channel\<rparr>
           | Sqlite \<Rightarrow> None)\<rparr>))"

lemma db_inv_server_init: "preserves db_inv (server_init e db_url)"
proof -
  have "db_inv (w\<lparr>w_bus := b, w_tasks := ts, w_replicator := rp\<rparr>) = db_inv w" for w b ts rp
    by (simp add: db_inv_def db_ok_def pods_wf_def)
  then have "preserves db_inv (\<lambda>w. (r, w\<lparr>w_bus := b, w_tasks := ts, w_replicator := rp\<rparr>))" for r b ts rp
    by (simp add: preserves_def)
  then show ?thesis unfolding server_init_def lease_manager_new_def by (intro preserves_intros)
qed

section \<open>Requests and background tasks\<close>

lemma db_inv_pod_access [preserves_intros]:
  "preserves db_inv (get_pod_logs e send ns name lparams)"
  "preserves db_inv (agent_address e name p)"
  "preserves db_inv (exec_pod e show_sql decode encode ns name q)"
  "preserves db_inv (port_forward_pod e show_sql ns name q)"
  unfolding get_pod_logs_def exec_pod_def port_forward_pod_def agent_address_def Let_def
  by (intro preserves_intros)+

inductive server_step :: "env \<Rightarrow> world \<Rightarrow> world \<Rightarrow> bool" for e where
  step_controller: "server_step e w (snd (controller_tick e lm w))"
| step_scheduler: "server_step e w (snd (scheduler_tick e lm strategy w))"
| step_pruner: "server_step e w (snd (pruner_tick e w))"
| step_replication: "server_step e w (snd (run_replication e i w))"
| step_listener: "server_step e w (snd (listener_handle e inst payload w))"
| step_list_pods: "server_step e w (snd (list_pods e ns params hs w))"
| step_list_all_pods: "server_step e w (snd (list_all_pods e params hs w))"
| step_get_pod: "server_step e w (snd (get_pod e ns name hs w))"
| step_create_pod: "server_step e w (snd (create_pod e ns x_pod w))"
| step_update_pod: "server_step e w (snd (update_pod e ns name x_pod w))"
| step_delete_pod: "server_step e w (snd (delete_pod e ns name w))"
| step_list_services: "server_step e w (snd (list_services e ns hs w))"
| step_list_all_services: "server_step e w (snd (list_all_services e hs w))"
| step_get_service: "server_step e w (snd (get_service e ns name hs w))"
| step_create_service: "server_step e w (snd (create_service e cidr ns x_service w))"
| step_update_service: "server_step e w (snd (update_service e ns name x_service w))"
| step_delete_service: "server_step e w (snd (delete_service e ns name w))"
| step_list_deployments: "server_step e w (snd (list_deployments e ns hs w))"
| step_list_all_deployments: "server_step e w (snd (list_all_deployments e hs w))"
| step_get_deployment: "server_step e w (snd (get_deployment e ns name hs w))"
| step_create_deployment: "server_step e w (snd (create_deployment e ns x_deployment w))"
| step_update_deployment: "server_step e w (snd (update_deployment e ns name x_deployment w))"
| step_delete_deployment: "server_step e w (snd (delete_deployment e ns name w))"
| step_list_statefulsets: "server_step e w (snd (list_statefulsets e ns hs w))"
| step_list_all_statefulsets: "server_step e w (snd (list_all_statefulsets e hs w))"
| step_get_statefulset: "server_step e w (snd (get_statefulset e ns name hs w))"
| step_create_statefulset: "server_step e w (snd (create_statefulset e ns x_statefulset w))"
| step_update_statefulset: "server_step e w (snd (update_statefulset e ns name x_statefulset w))"
| step_delete_statefulset: "server_step e w (snd (delete_statefulset e ns name w))"
| step_list_daemonsets: "server_step e w (snd (list_daemonsets e ns hs w))"
| step_list_all_daemonsets: "server_step e w (snd (list_all_daemonsets e hs w))"
| step_get_daemonset: "server_step e w (snd (get_daemonset e ns name hs w))"
| step_create_daemonset: "server_step e w (snd (create_daemonset e ns x_daemonset w))"
| step_update_daemonset: "server_step e w (snd (update_daemonset e ns name x_daemonset w))"
| step_delete_daemonset: "server_step e w (snd (delete_daemonset e ns name w))"
| step_list_service_accounts: "server_step e w (snd (list_service_accounts e ns hs w))"
| step_list_all_service_accounts: "server_step e w (snd (list_all_service_accounts e hs w))"
| step_get_service_account: "server_step e w (snd (get_service_account e ns name hs w))"
| step_create_service_account: "server_step e w (snd (create_service_account e ns x_service_account w))"
| step_update_service_account: "server_step e w (snd (update_service_account e ns name x_service_account w))"
| step_delete_service_account: "server_step e w (snd (delete_service_account e ns name w))"
| step_list_secrets: "server_step e w (snd (list_secrets e ns hs w))"
| step_list_all_secrets: "server_step e w (snd (list_all_secrets e hs w))"
| step_get_secret: "server_step e w (snd (get_secret e ns name hs w))"
| step_create_secret: "server_step e w (snd (create_secret e ns x_secret w))"
| step_update_secret: "server_step e w (snd (update_secret e ns name x_secret w))"
| step_delete_secret: "server_step e w (snd (delete_secret e ns name w))"
| step_list_config_maps: "server_step e w (snd (list_config_maps e ns hs w))"
| step_list_all_config_maps: "server_step e w (snd (list_all_config_maps e hs w))"
| step_get_config_map: "server_step e w (snd (get_config_map e ns name hs w))"
| step_create_config_map: "server_step e w (snd (create_config_map e ns x_config_map w))"
| step_update_config_map: "server_step e w (snd (update_config_map e ns name x_config_map w))"
| step_delete_config_map: "server_step e w (snd (delete_config_map e ns name w))"
| step_list_roles: "server_step e w (snd (list_roles e rfc ns hs w))"
| step_list_all_roles: "server_step e w (snd (list_all_roles e rfc hs w))"
| step_get_role: "server_step e w (snd (get_role e rfc ns name hs w))"
| step_create_role: "server_step e w (snd (create_role e ns x_role w))"
| step_update_role: "server_step e w (snd (update_role e ns name x_role w))"
| step_delete_role: "server_step e w (snd (delete_role e ns name w))"
| step_list_role_bindings: "server_step e w (snd (list_role_bindings e ns hs w))"
| step_list_all_role_bindings: "server_step e w (snd (list_all_role_bindings e hs w))"
| step_get_role_binding: "server_step e w (snd (get_role_binding e ns name hs w))"
| step_create_role_binding: "server_step e w (snd (create_role_binding e ns x_role_binding w))"
| step_update_role_binding: "server_step e w (snd (update_role_binding e ns name x_role_binding w))"
| step_delete_role_binding: "server_step e w (snd (delete_role_binding e ns name w))"
| step_list_nodes: "server_step e w (snd (list_nodes e hs w))"
| step_get_node: "server_step e w (snd (get_node e name hs w))"
| step_create_node: "server_step e w (snd (create_node e x_node w))"
| step_update_node: "server_step e w (snd (update_node e name x_node w))"
| step_delete_node: "server_step e w (snd (delete_node e name w))"
| step_list_namespaces: "server_step e w (snd (list_namespaces e hs w))"
| step_get_namespace: "server_step e w (snd (get_namespace e name hs w))"
| step_create_namespace: "server_step e w (snd (create_namespace e x_namespace w))"
| step_update_namespace: "server_step e w (snd (update_namespace e name x_namespace w))"
| step_delete_namespace: "server_step e w (snd (delete_namespace e name w))"
| step_list_cluster_roles: "server_step e w (snd (list_cluster_roles e rfc hs w))"
| step_get_cluster_role: "server_step e w (snd (get_cluster_role e rfc name hs w))"
| step_create_cluster_role: "server_step e w (snd (create_cluster_role e x_cluster_role w))"
| step_update_cluster_role: "server_step e w (snd (update_cluster_role e name x_cluster_role w))"
| step_delete_cluster_role: "server_step e w (snd (delete_cluster_role e name w))"
| step_list_cluster_role_bindings: "server_step e w (snd (list_cluster_role_bindings e hs w))"
| step_get_cluster_role_binding: "server_step e w (snd (get_cluster_role_binding e name hs w))"
| step_create_cluster_role_binding: "server_step e w (snd (create_cluster_role_binding e x_cluster_role_binding w))"
| step_update_cluster_role_binding: "server_step e w (snd (update_cluster_role_binding e name x_cluster_role_binding w))"
| step_delete_cluster_role_binding: "server_step e w (snd (delete_cluster_role_binding e name w))"
| step_get_pod_status: "server_step e w (snd (get_pod_status e ns name w))"
| step_update_pod_status: "server_step e w (snd (update_pod_status e ns name x_pod w))"
| step_get_endpoints: "server_step e w (snd (get_endpoints e ns name w))"
| step_list_events: "server_step e w (snd (list_events e be ns eparams hs w))"
| step_list_all_events: "server_step e w (snd (list_all_events e be eparams hs w))"
| step_get_event: "server_step e w (snd (get_event e ns name hs w))"
| step_create_event: "server_step e w (snd (create_event e ns x_event w))"
| step_delete_event: "server_step e w (snd (delete_event e ns name w))"
| step_get_pod_logs: "server_step e w (snd (get_pod_logs e send ns name lparams w))"
| step_exec_pod: "server_step e w (snd (exec_pod e show_sql decode encode ns name q w))"
| step_port_forward_pod: "server_step e w (snd (port_forward_pod e show_sql ns name q w))"

lemma preserves_elim: "I w \<Longrightarrow> preserves I m \<Longrightarrow> I (snd (m w))"
  by (simp add: preserves_def)

lemma server_step_db_inv:
  assumes "server_step e w w'" "db_inv w"
  shows "db_inv w'"
  using assms by cases (simp only:, rule preserves_elim, assumption, intro preserves_intros)+

end
