(* ===== verification/Node_Liveness.thy ===== *)
theory Node_Liveness
  imports Agent_Sync Server
begin

text \<open>
  Registration, heartbeats and what the server makes of them: a heartbeat makes the node Ready with the
  host's capacity, as the scheduler reads it, and no background task of the server ever changes a
  node, so a node whose agent has died stays as its last heartbeat left it.
\<close>

section \<open>Heartbeats\<close>

lemma current_node_run:
  "\<exists>t1 t2 u w. current_node e h s = (Inr (build_node_object h t1 t2 u (ag_name (nw_agent s)) (ag_labels (nw_agent s))), s\<lparr>nw_world := w\<rparr>) \<and>
     w_nodes w = w_nodes (nw_world s)"
  by (auto simp: current_node_def bindR_def agent_now_def agent_uuid_def read_agent_def returnR_def)

lemma build_node_name [simp]: "meta_name (node_metadata (build_node_object h t1 t2 u name labels)) = name"
  by (simp add: build_node_object_def meta_name_def)

definition reported_cols :: "host \<Rightarrow> string \<Rightarrow> smap \<Rightarrow> node_cols" where
  "reported_cols h name labels = \<lparr>nr_labels = (if labels = [] then None else Some labels), nr_status = ''Ready'',
     nr_addresses = Some [\<lparr>na_address_type = Hostname, na_address = name\<rparr>, \<lparr>na_address_type = InternalIP,
       na_address = (case h_local_ip h of Some ip \<Rightarrow> ip | None \<Rightarrow> ''127.0.0.1'')\<rparr>],
     nr_capacity = Some (node_capacity h), nr_allocatable = Some (node_capacity h), nr_node_info = Some (node_info_of h)\<rparr>"

lemma reported: "node_cols_of (build_node_object h t1 t2 u name labels) = reported_cols h name labels"
  by (simp add: node_cols_of_def build_node_object_def reported_cols_def)

lemma update_node_stored:
  assumes "update_node e name n w = (Inr q, w')"
  shows "\<exists>r. find_row name (w_nodes w') = Some r \<and> r_cols r = node_cols_of n"
proof -
  let ?n = "n\<lparr>node_metadata := (node_metadata n)\<lparr>om_name := Some name\<rparr>\<rparr>"
  from assms obtain x w1 where c: "node_create e ?n w = (Inr x, w1)" and w': "w_nodes w' = w_nodes w1"
    by (auto simp: update_node_def bindR_def publish_modified_def publish_def returnR_def Let_def split: prod.splits sum.splits)
  have nm: "meta_name (node_metadata ?n) = name" by (simp add: meta_name_def)
  have cols: "node_cols_of ?n = node_cols_of n" by (simp add: node_cols_of_def)
  from c [unfolded node_create_def nm cols] obtain u t where
    "upsert_rows replace_cols \<lparr>r_uid = u, r_key = name, r_cols = node_cols_of n, r_created_at = t, r_updated_at = t\<rparr>
      (w_nodes w) = Inr (w_nodes w1)" by (rule nodes.create_ok)
  from find_row_upsert [OF this, of name] show ?thesis by (simp add: w' upserted_replace)
qed

lemma heartbeat_row:
  assumes "send_heartbeat e net show_err h s = (Inr (), s')"
  shows "\<exists>r. find_row (ag_name (nw_agent s)) (w_nodes (nw_world s')) = Some r \<and>
    r_cols r = reported_cols h (ag_name (nw_agent s)) (ag_labels (nw_agent s))"
proof -
  let ?name = "ag_name (nw_agent s)"
  obtain t1 t2 u w where n: "current_node e h s = (Inr (build_node_object h t1 t2 u ?name (ag_labels (nw_agent s))), s\<lparr>nw_world := w\<rparr>)"
    using current_node_run by metis
  from assms obtain q w0 w' where "update_node e ?name (build_node_object h t1 t2 u ?name (ag_labels (nw_agent s))) w0 = (Inr q, w')"
    and "nw_world s' = w'"
    by (auto simp: send_heartbeat_def bindR_def n server_call_def Let_def returnR_def failR_def
        split: prod.splits sum.splits delivery.splits)
  then show ?thesis using update_node_stored by (fastforce simp: reported)
qed


definition sample_host :: host where
  "sample_host = \<lparr>h_os = Linux, h_os_name = ''linux'', h_arch = ''x86_64'', h_parallelism = Some 4,
     h_meminfo = Some ''MemTotal: 8 kB'', h_sysctl_memsize = None, h_df = None, h_uname_r = None, h_os_release = None,
     h_sw_vers = None, h_local_ip = None\<rparr>"

lemma sample_memory: "read_total_memory_bytes sample_host = Some 8192"
proof -
  have "split_whitespace '' 8 kB'' = [''8'', ''kB'']" "lines ''MemTotal: 8 kB'' = [''MemTotal: 8 kB'']"
    by (code_simp, code_simp)
  moreover have "strip_prefix ''MemTotal: 8 kB'' ''MemTotal:'' = Some '' 8 kB''" by code_simp
  moreover have "parse_u64 ''8'' = Some 8"
    by (simp add: parse_u64_def parse_unsigned_def all_digits_def is_digit_def dec_val_def digit_val_def u64_max_def)
  ultimately show ?thesis
    by (simp add: read_total_memory_bytes_def sample_host_def nth_opt_def times_1024_def u64_max_def)
qed

lemma sample_heartbeat: "\<exists>s'. send_heartbeat sample_env quiet_network (\<lambda>_. []) sample_host sample_node = (Inr (), s')"
proof -
  obtain t1 t2 u w where n: "current_node sample_env sample_host sample_node =
      (Inr (build_node_object sample_host t1 t2 u ''n1'' []), sample_node\<lparr>nw_world := w\<rparr>)" and w: "w_nodes w = []"
    using current_node_run [of sample_env sample_host sample_node]
    by (auto simp: sample_node_def sample_agent_def empty_world_def)
  let ?n = "build_node_object sample_host t1 t2 u ''n1'' []"
  let ?m = "?n\<lparr>node_metadata := (node_metadata ?n)\<lparr>om_name := Some ''n1''\<rparr>\<rparr>"
  obtain x w1 where c: "node_create sample_env ?m w = (Inr x, w1)"
    unfolding node_create_def by (rule nodes.create_succeeds [of sample_env _ w]) (simp_all add: w)
  have "\<exists>q w'. update_node sample_env ''n1'' ?n w = (Inr q, w')"
    by (simp add: update_node_def bindR_def c publish_modified_def publish_def returnR_def Let_def)
  then obtain q w' where up: "update_node sample_env ''n1'' ?n w = (Inr q, w')" by blast
  have "server_call quiet_network (update_node sample_env ''n1'' ?n) (sample_node\<lparr>nw_world := w\<rparr>) =
      (Inr (Inr q), sample_node\<lparr>nw_world := w', nw_sent := Suc (nw_sent sample_node)\<rparr>)"
    using server_call_run [of quiet_network "sample_node\<lparr>nw_world := w\<rparr>" "update_node sample_env ''n1'' ?n" "Inr q" w'] up
    by (simp add: quiet_network_def)
  then show ?thesis by (simp add: send_heartbeat_def bindR_def n returnR_def)
qed


section \<open>Dead nodes\<close>

lemma counter_free_w_nodes [simp]: "counter_free w_nodes"
  by (simp add: counter_free_def)

lemma nodes_repositories [keeps_intros]:
  "keeps w_nodes (pod_get e ns name)" "keeps w_nodes (pod_create e p)" "keeps w_nodes (pod_list e nso sel)"
  "keeps w_nodes (pod_delete e ns name)" "keeps w_nodes (pod_update_status e ns name st)"
  "keeps w_nodes (pod_bind_to_node e ns name n)" "keeps w_nodes (pod_list_unscheduled e)"
  "keeps w_nodes (deployment_list e nso)" "keeps w_nodes (deployment_update_status e ns name a b)"
  "keeps w_nodes (stateful_set_list e nso)" "keeps w_nodes (stateful_set_update_status e ns name a b)"
  "keeps w_nodes (daemon_set_list e nso)" "keeps w_nodes (daemon_set_update_status e ns name a b c)"
  "keeps w_nodes (service_list e nso)" "keeps w_nodes (node_list_ready e)"
  "keeps w_nodes (endpoints_create_or_update e ep)"
  unfolding pod_get_def pod_create_def pod_list_def pod_delete_def pod_update_status_def pod_bind_to_node_def
    pod_list_unscheduled_def deployment_list_def deployment_update_status_def stateful_set_list_def
    stateful_set_update_status_def daemon_set_list_def daemon_set_update_status_def service_list_def
    node_list_ready_def endpoints_create_or_update_def Let_def
  by (intro keeps_intros counter_free_w_nodes; simp)+

lemma nodes_for_each [keeps_intros]: "(\<And>x. keeps f (body x)) \<Longrightarrow> keeps f (for_each_logged body xs)"
  unfolding for_each_logged_def by (intro keeps_intros)

lemma nodes_steps [keeps_intros]:
  "keeps w_nodes (emit_event e ref ns typ reason msg cmpt)" "keeps w_nodes (publish et kind nso name obj)"
  "keeps w_nodes (publish_added kind nso name obj)" "keeps w_nodes (publish_modified kind nso name obj)"
  "keeps w_nodes (publish_deleted kind nso name obj)" "keeps w_nodes (try_acquire e lm lname ttl)"
  by (intro keeps_intros counter_free_w_nodes; simp)+

lemma nodes_reconcile_deployments [keeps_intros]: "keeps w_nodes (reconcile_deployments e)"
  unfolding reconcile_deployments_def reconcile_deployment_def scale_deployment_def create_pod_for_deployment_def
    delete_and_publish_def pod_suffix_def Let_def
  by (intro keeps_intros counter_free_w_nodes)

lemma nodes_statefulset_loop [keeps_intros]: "keeps w_nodes (statefulset_loop e ss u idx acc)"
proof (induction idx arbitrary: acc)
  case (Cons i idx)
  show ?case
    unfolding statefulset_loop.simps Let_def pod_for_statefulset_def
    by (intro keeps_intros counter_free_w_nodes Cons)
qed (simp add: keeps_returnR)

lemma nodes_reconcile_statefulsets [keeps_intros]: "keeps w_nodes (reconcile_statefulsets e)"
  unfolding reconcile_statefulsets_def reconcile_statefulset_def trim_statefulset_pod_def Let_def split_def
  by (intro keeps_intros counter_free_w_nodes)

lemma nodes_reconcile_daemonsets [keeps_intros]: "keeps w_nodes (reconcile_daemonsets e)"
  unfolding reconcile_daemonsets_def reconcile_daemonset_def create_daemon_pod_def delete_daemon_pod_def
    pod_for_daemonset_def pod_suffix_def delete_and_publish_def Let_def
  by (intro keeps_intros counter_free_w_nodes)

lemma nodes_reconcile_pods [keeps_intros]: "keeps w_nodes (reconcile_pods e)"
  unfolding reconcile_pods_def reconcile_pod_def mark_failed_def respawn_def Let_def
  by (intro keeps_intros counter_free_w_nodes)

lemma nodes_reconcile_services [keeps_intros]: "keeps w_nodes (reconcile_services e)"
  unfolding reconcile_services_def reconcile_service_def Let_def by (intro keeps_intros counter_free_w_nodes)

lemma nodes_controller_tick: "keeps w_nodes (controller_tick e lm)"
  unfolding controller_tick_def under_lease_def by (intro keeps_intros)

lemma nodes_scheduler_tick: "keeps w_nodes (scheduler_tick e lm strategy)"
  unfolding scheduler_tick_def schedule_pending_pods_def schedule_one_def schedule_pod_def Let_def
  by (intro keeps_intros counter_free_w_nodes)

lemma nodes_pruner_tick: "keeps w_nodes (pruner_tick e)"
  unfolding pruner_tick_def prune_older_than_def Let_def
  by (intro keeps_intros keeps_sql_stmt counter_free_w_nodes) (simp add: keeps_def)

lemma nodes_run_replication: "keeps w_nodes (run_replication e i)"
proof -
  have rep: "keeps w_nodes (replicate_event e rep kind ns name et obj)" for rep kind ns name et obj
    unfolding replicate_event_def change_log_insert_def Let_def
    by (intro keeps_intros keeps_sql_stmt counter_free_w_nodes) (simp_all add: keeps_def)
  show ?thesis
    by (auto simp: keeps_def [of _ "run_replication e i"] run_replication_def Let_def tryR_def returnR_def
        split: option.split prod.split dest: keepsD [OF rep])
qed

lemma nodes_listener: "keeps w_nodes (listener_handle e inst payload)"
  by (intro keeps_intros counter_free_w_nodes) simp_all

text \<open>The turns of the server's background tasks.\<close>

inductive background_step :: "env \<Rightarrow> world \<Rightarrow> world \<Rightarrow> bool" for e where
  bg_controller: "background_step e w (snd (controller_tick e lm w))"
| bg_scheduler: "background_step e w (snd (scheduler_tick e lm strategy w))"
| bg_pruner: "background_step e w (snd (pruner_tick e w))"
| bg_replication: "background_step e w (snd (run_replication e i w))"
| bg_listener: "background_step e w (snd (listener_handle e inst payload w))"

lemma background_step_nodes: "background_step e w w' \<Longrightarrow> w_nodes w' = w_nodes w"
  using nodes_controller_tick nodes_scheduler_tick nodes_pruner_tick nodes_run_replication nodes_listener
  by (auto simp: keeps_def elim: background_step.cases)


definition ready_row :: "(string, node_cols) row" where
  "ready_row = \<lparr>r_uid = 1, r_key = ''n1'', r_cols = reported_cols sample_host ''n1'' [], r_created_at = 0, r_updated_at = 0\<rparr>"


section \<open>Integrity\<close>

text \<open>The agent's requests keep what every handler and everybody else keeps.\<close>

definition kept_meanwhile :: "(world \<Rightarrow> bool) \<Rightarrow> network \<Rightarrow> bool" where
  "kept_meanwhile I net \<longleftrightarrow> (\<forall>i w. I w \<longrightarrow> I (net_meanwhile net i w))"

abbreviation on_world :: "(world \<Rightarrow> bool) \<Rightarrow> 'r node_world \<Rightarrow> bool" where
  "on_world I s \<equiv> I (nw_world s)"

lemma kept_call:
  assumes "kept_meanwhile I net" "preserves I m"
  shows "preserves (on_world I) (server_call net m)"
proof -
  have "I w'" if "m (net_meanwhile net i w) = (res, w')" "I w" for i w res w'
    using preservesD [OF assms(2) _ that(1)] assms(1) that(2) by (simp add: kept_meanwhile_def)
  then show ?thesis
    using assms(1) by (auto simp: preserves_def server_call_def Let_def kept_meanwhile_def split: prod.splits delivery.splits)
qed

lemma db_inv_counters: "db_inv (w\<lparr>w_ticks := n\<rparr>) = db_inv w" "db_inv (w\<lparr>w_uuids := n\<rparr>) = db_inv w"
  using counter_free_db_inv by (simp_all add: counter_free_def)

lemma kept_steps [preserves_intros]:
  "preserves (on_world db_inv) (agent_now e)" "preserves (on_world db_inv) (agent_uuid e)"
  "preserves (on_world db_inv) (read_agent f)" "preserves (on_world db_inv) (modify_agent g)"
  "preserves (on_world db_inv) (agent_find rt name)" "preserves (on_world db_inv) (agent_create e rt cls name c)"
  by (auto simp: preserves_def agent_now_def agent_uuid_def read_agent_def modify_agent_def agent_find_def agent_create_def
      db_inv_counters bindR_def Let_def split: prod.split)

lemma kept_emit:
  assumes "kept_meanwhile db_inv net"
  shows "preserves (on_world db_inv) (agent_emit_event e net pod typ reason message)"
  unfolding agent_emit_event_def Let_def by (intro preserves_intros kept_call [OF assms])

lemma kept_reconcile_pod:
  assumes "kept_meanwhile db_inv net"
  shows "preserves (on_world db_inv) (agent_reconcile_pod e net show_err rt pod)"
  unfolding agent_reconcile_pod_def reconcile_container_def start_container_def choose_pod_ip_def publish_pod_status_def Let_def
  by (intro preserves_intros kept_emit [OF assms] kept_call [OF assms])

lemma kept_sync_pods:
  assumes "kept_meanwhile db_inv net"
  shows "preserves (on_world db_inv) (sync_pods e net show_err rt)"
  unfolding sync_pods_def sync_pod_def
  by (intro preserves_intros kept_reconcile_pod [OF assms] kept_call [OF assms])

lemma kept_send_heartbeat:
  assumes "kept_meanwhile db_inv net"
  shows "preserves (on_world db_inv) (send_heartbeat e net show_err h)"
  unfolding send_heartbeat_def current_node_def split_def
  by (intro preserves_intros kept_call [OF assms])

end
