(* ===== verification/Agent_Access.thy ===== *)
theory Agent_Access
  imports Agent_Props
begin

text \<open>
  Requests on their way from the API server to the node agent: the parameters of exec and log
  requests arrive as the client gave them, an exec session's output reaches the client unchanged, and
  what happens to pods of the same name.
\<close>

section \<open>Exec\<close>

lemma filter_commands:
  "filter (\<lambda>(k, _). k = ''command'') (exec_query p) =
     (if xp_command p = [] then [(''command'', ''sh'')] else map (\<lambda>c. (''command'', c)) (xp_command p))"
  by (auto simp: exec_query_def filter_map comp_def)

lemma find_tty: "List.find (\<lambda>(k, _). k = ''tty'') (exec_query p) = Some (''tty'', show_bool (xp_tty p))"
proof -
  have cmd: "List.find (\<lambda>(k, _). k = ''tty'') (map (\<lambda>c. (''command'', c)) cs @ rest) = List.find (\<lambda>(k, _). k = ''tty'') rest" for cs rest
    by (induction cs) auto
  show ?thesis by (simp add: exec_query_def cmd)
qed

text \<open>
  C24. An exec request arrives at the node as the client made it: the command words, in order and
  however many (or \<open>sh\<close> if there is none), and the terminal flag that the API server extracted from
  the client's query are what the agent starts in the container, provided decoding a URL-encoded
  query gives back the encoded pairs.
\<close>

theorem exec_request_arrives:
  assumes "decode (encode (exec_query p)) = exec_query p"
    and "hm_get (ag_pod_containers ag) (ns, pod_name, container) = Some cid"
  shows "handle_exec decode ns pod_name container (Some (encode (exec_query p))) ag =
    Exec_Upgrade cid (if xp_command p = [] then [''sh''] else xp_command p) (xp_tty p)"
  using assms
  by (simp add: handle_exec_def parse_exec_query_def filter_commands find_tty show_bool_def comp_def)

definition plain_encode :: "(string \<times> string) list \<Rightarrow> string" where
  "plain_encode ps = join_with ''&'' (map (\<lambda>(k, v). k @ ''='' @ v) ps)"

definition plain_decode :: "string \<Rightarrow> (string \<times> string) list" where
  "plain_decode q = map (\<lambda>s. case splitn2 (CHR ''='') s of (k, Some v) \<Rightarrow> (k, v) | (k, None) \<Rightarrow> (k, [])) (split_on (CHR ''&'') q)"

definition ls_params :: exec_params where
  "ls_params = \<lparr>xp_container = None, xp_command = [''ls'', ''-l''], xp_stdin = False, xp_stdout = True, xp_stderr = True, xp_tty = True\<rparr>"

theorem exec_request_arrives_witness:
  "plain_decode (plain_encode (exec_query ls_params)) = exec_query ls_params \<and>
   handle_exec plain_decode ''default'' ''web'' ''c'' (Some (plain_encode (exec_query ls_params)))
     (sample_agent\<lparr>ag_pod_containers := [((''default'', ''web'', ''c''), ''containerd://1'')]\<rparr>) =
   Exec_Upgrade ''containerd://1'' [''ls'', ''-l''] True"
proof -
  have d: "plain_decode (plain_encode (exec_query ls_params)) = exec_query ls_params" by code_simp
  have "hm_get (ag_pod_containers (sample_agent\<lparr>ag_pod_containers := [((''default'', ''web'', ''c''), ''containerd://1'')]\<rparr>))
      (''default'', ''web'', ''c'') = Some ''containerd://1''" by (simp add: hm_get_def)
  from exec_request_arrives [of plain_decode plain_encode, OF d this] d show ?thesis by (simp add: ls_params_def)
qed

text \<open>The output of a session: the chunks before the first failure.\<close>

fun good_output :: "chunk list \<Rightarrow> 8 word list" where
  "good_output [] = []"
| "good_output (Inl _ # cs) = []"
| "good_output (Inr b # cs) = b @ good_output cs"

text \<open>What a client reads from a channel: the payloads of its frames.\<close>

fun channel_bytes :: "8 word \<Rightarrow> frame list \<Rightarrow> 8 word list" where
  "channel_bytes ch [] = []"
| "channel_bytes ch (Binary_Frame (c # payload) # fs) = (if c = ch then payload else []) @ channel_bytes ch fs"
| "channel_bytes ch (_ # fs) = channel_bytes ch fs"

lemma channel_bytes_append: "channel_bytes ch (fs @ gs) = channel_bytes ch fs @ channel_bytes ch gs"
  by (induction ch fs rule: channel_bytes.induct) auto

lemma exec_stdout_frames:
  assumes "exec_stdout room cs = (fs, rest)" "length cs < room"
  shows "channel_bytes 1 fs = good_output cs \<and> channel_bytes 3 fs = [] \<and> 0 < rest"
  using assms
proof (induction room cs arbitrary: fs rest rule: exec_stdout.induct)
  case (4 room b bs cs)
  then obtain k where "room = Suc k" by (cases room) auto
  with 4 show ?case by (auto split: prod.splits)
qed auto



section \<open>Logs\<close>

lemma query_field_append:
  "k \<notin> fst ` set ps \<Longrightarrow> query_field k parse (ps @ qs) = query_field k parse qs"
  "k \<notin> fst ` set qs \<Longrightarrow> query_field k parse (ps @ qs) = query_field k parse ps"
proof -
  have none: "filter (\<lambda>(k', _). k' = k) xs = []" if "k \<notin> fst ` set xs" for xs :: "(string \<times> string) list"
    using that by (force simp: filter_empty_conv)
  show "k \<notin> fst ` set ps \<Longrightarrow> query_field k parse (ps @ qs) = query_field k parse qs"
    "k \<notin> fst ` set qs \<Longrightarrow> query_field k parse (ps @ qs) = query_field k parse ps"
    by (simp_all add: query_field_def none)
qed

lemma query_keys: "fst ` set (opt_query k v) \<subseteq> {k}" "fst ` set (flag_query k b) \<subseteq> {k}"
  by (auto simp: opt_query_def flag_query_def split: option.splits if_splits)

definition i64_ok :: "int \<Rightarrow> bool" where
  "i64_ok n \<longleftrightarrow> - 9223372036854775808 \<le> n \<and> n \<le> 9223372036854775807"

lemma query_opt:
  assumes "\<And>n. v = Some n \<Longrightarrow> i64_ok n"
  shows "query_field k parse_i64 (opt_query k v) = Some v"
  using assms by (auto simp: query_field_def opt_query_def parse_i64_show_int i64_ok_def split: option.split)

lemma query_flag: "query_field k parse_bool (flag_query k b) = Some (if b then Some True else None)"
  by (simp add: query_field_def flag_query_def parse_bool_def)

text \<open>
  A log request arrives at the node as the client made it: from the query the API server sends,
  the agent reads the same number of lines, the same limit in bytes, the same period and the same
  flags (for \<open>i64\<close> numbers). Whether the logs of the previous container were asked for is sent
  but not among what the agent reads.
\<close>

theorem log_request_arrives:
  assumes "\<And>n. n \<in> {lgp_tail_lines params, lgp_since_seconds params, lgp_limit_bytes params} \<Longrightarrow> n = None \<or> i64_ok (the n)"
  shows "log_query_of (aq_query (log_request addr ns name container params)) =
    Some \<lparr>lq_tail_lines = lgp_tail_lines params, lq_timestamps = lgp_timestamps params, lq_follow = lgp_follow params,
          lq_since_seconds = lgp_since_seconds params, lq_limit_bytes = lgp_limit_bytes params\<rparr>"
proof -
  have ok: "query_field k parse_i64 (opt_query k (lgp_tail_lines params)) = Some (lgp_tail_lines params)"
    "query_field k parse_i64 (opt_query k (lgp_since_seconds params)) = Some (lgp_since_seconds params)"
    "query_field k parse_i64 (opt_query k (lgp_limit_bytes params)) = Some (lgp_limit_bytes params)" for k
    using assms by (intro query_opt; force)+
  have other: "k \<noteq> k' \<Longrightarrow> k \<notin> fst ` set (opt_query k' v)" "k \<noteq> k' \<Longrightarrow> k \<notin> fst ` set (flag_query k' b)" for k k' v b
    using query_keys(1) [of k' v] query_keys(2) [of k' b] by blast+
  show ?thesis
    by (simp add: log_query_of_def log_request_def query_field_append other ok query_flag image_Un)
qed

theorem log_request_arrives_witness:
  "log_query_of (aq_query (log_request ''10.0.0.1'' ''default'' ''web'' ''c''
     \<lparr>lgp_container = None, lgp_follow = True, lgp_previous = True, lgp_tail_lines = Some 10, lgp_timestamps = False,
      lgp_since_seconds = None, lgp_limit_bytes = Some (-1)\<rparr>)) =
   Some \<lparr>lq_tail_lines = Some 10, lq_timestamps = False, lq_follow = True, lq_since_seconds = None, lq_limit_bytes = Some (-1)\<rparr>"
  using log_request_arrives [of "\<lparr>lgp_container = None, lgp_follow = True, lgp_previous = True, lgp_tail_lines = Some 10,
      lgp_timestamps = False, lgp_since_seconds = None, lgp_limit_bytes = Some (-1)\<rparr>"]
  by (fastforce simp: i64_ok_def)

section \<open>Pods of the same name\<close>

text \<open>
  Two pods of the same name in different namespaces share their containers. The name of a
  container in the engine is made of the names of the pod and of the container only: once the
  container of one pod exists, the pass over the namesake creates nothing, takes that container for
  its own, and reports its state as that of the namesake; logs and exec of both reach the same
  container.
\<close>

theorem namesakes_share_container:
  assumes "meta_name (pod_metadata p1) = meta_name (pod_metadata p2)" "co_name c1 = co_name c2"
    and "engines_find rt (runtime_name (meta_name (pod_metadata p1)) (co_name c1)) (ag_runtime (nw_agent s)) = Inr (Some info)"
  shows "\<exists>s1 s2. reconcile_container e net rt p1 u1 c1 po1 s = (Inr (observe_container False c1 info po1), s1) \<and>
    reconcile_container e net rt p2 u2 c2 po2 s1 = (Inr (observe_container False c2 info po2), s2) \<and>
    ag_runtime (nw_agent s2) = ag_runtime (nw_agent s) \<and>
    hm_get (ag_pod_containers (nw_agent s2)) (meta_namespace (pod_metadata p1), meta_name (pod_metadata p1), co_name c1) = Some (cinf_id info) \<and>
    hm_get (ag_pod_containers (nw_agent s2)) (meta_namespace (pod_metadata p2), meta_name (pod_metadata p2), co_name c2) = Some (cinf_id info)"
  using assms
  by (simp add: reconcile_container_def Let_def bindR_def agent_find_def modify_agent_def returnR_def index_container_def)

theorem namesakes_share_container_witness:
  "\<exists>s s1 s2 info. reconcile_container sample_env quiet_network sample_mock node_pod 7 sample_container no_observation s = (Inr (observe_container False sample_container info no_observation), s1) \<and>
     reconcile_container sample_env quiet_network sample_mock (node_pod\<lparr>pod_metadata := (pod_metadata node_pod)\<lparr>om_namespace := Some ''other''\<rparr>\<rparr>) 8
       sample_container no_observation s1 = (Inr (observe_container False sample_container info no_observation), s2) \<and>
     hm_get (ag_pod_containers (nw_agent s2)) (''default'', ''web'', ''c'') = hm_get (ag_pod_containers (nw_agent s2)) (''other'', ''web'', ''c'')"
proof -
  let ?p2 = "node_pod\<lparr>pod_metadata := (pod_metadata node_pod)\<lparr>om_namespace := Some ''other''\<rparr>\<rparr>"
  let ?m = "snd (mock_create (\<lambda>u. show_nat (unat u)) 1 0 ''web-c'' sample_container mock_new)"
  let ?s = "sample_node\<lparr>nw_agent := sample_agent\<lparr>ag_runtime := \<lparr>eng_default = ''mock'', eng_list = [(''mock'', ?m)]\<rparr>\<rparr>\<rparr>"
  have names: "meta_name (pod_metadata node_pod) = ''web''" "meta_name (pod_metadata ?p2) = ''web''"
    "meta_namespace (pod_metadata node_pod) = ''default''" "meta_namespace (pod_metadata ?p2) = ''other''" "co_name sample_container = ''c''"
    by (simp_all add: node_pod_def meta_name_def meta_namespace_def sample_container_def)
  obtain info where "engines_find sample_mock (runtime_name (meta_name (pod_metadata node_pod)) (co_name sample_container))
      (ag_runtime (nw_agent ?s)) = Inr (Some info)"
    by (simp add: names runtime_name_def engines_find_def sample_mock_def mock_ops_def mock_create_def mock_find_def Let_def)
  from namesakes_share_container [OF _ refl this, of ?p2] show ?thesis unfolding names by (metis names)
qed

end
