(* ===== verification/Proxy.thy ===== *)
theory Proxy
  imports Agent_Props
begin

text \<open>
  The service proxy of a node (\<open>src/src/node/proxy.rs\<close>): which ports it listens on, and to which
  backend it takes a connection. The task of a port is the service it was started with and whether its
  \<open>bind\<close> succeeded (it ends at once otherwise); \<open>bind_ok\<close> is the operating system's answer. The
  copying of bytes once both connections stand is not modelled.
\<close>

record listener =
  ln_service :: service
  ln_bound :: bool

type_synonym listeners = "(i32 \<times> listener) list"

definition node_port_of :: "service \<Rightarrow> i32 option" where
  "node_port_of svc = (if sp_service_type (svc_spec svc) \<noteq> ST_NodePort then None
     else case sp_ports (svc_spec svc) of [] \<Rightarrow> None | p # _ \<Rightarrow> spt_node_port p)"

definition proxy_service ::
  "(i32 \<Rightarrow> bool) \<Rightarrow> service \<Rightarrow> i32 list \<times> listeners \<Rightarrow> i32 list \<times> listeners" where
  "proxy_service bind_ok svc acc = (case node_port_of svc of
       None \<Rightarrow> acc
     | Some node_port \<Rightarrow> (case acc of (wanted, ls) \<Rightarrow>
         (node_port # wanted,
          if hm_get ls node_port = None
          then hm_insert node_port \<lparr>ln_service = svc, ln_bound = bind_ok node_port\<rparr> ls
          else ls)))"

definition proxy_update :: "(i32 \<Rightarrow> bool) \<Rightarrow> service list \<Rightarrow> listeners \<Rightarrow> listeners" where
  "proxy_update bind_ok services ls = (case fold (proxy_service bind_ok) services ([], ls) of (wanted, ls') \<Rightarrow>
     fold hm_remove (filter (\<lambda>p. p \<notin> set wanted) (map fst ls')) ls')"

text \<open>
  The body is decoded whatever the status of the response, and \<open>items\<close> defaults to the empty list: the
  \<open>Status\<close> document of an error is read as a list of no services.
\<close>

definition fetch_services :: "env \<Rightarrow> network \<Rightarrow> ('r, service list) node_prog" where
  "fetch_services e net =
     bindR (server_call net (list_all_services e client_headers)) (\<lambda>res. case res of
       Inl _ \<Rightarrow> returnR []
     | Inr body \<Rightarrow> (case list_items body of Inl err \<Rightarrow> failR err | Inr items \<Rightarrow> returnR items))"

definition proxy_reconcile :: "env \<Rightarrow> network \<Rightarrow> (i32 \<Rightarrow> bool) \<Rightarrow> listeners \<Rightarrow> ('r, listeners) node_prog" where
  "proxy_reconcile e net bind_ok ls =
     bindR (fetch_services e net) (\<lambda>services. returnR (proxy_update bind_ok services ls))"

text \<open>One turn of \<open>run\<close>: a failed reconciliation leaves the listeners as they are.\<close>

definition proxy_tick :: "env \<Rightarrow> network \<Rightarrow> (i32 \<Rightarrow> bool) \<Rightarrow> listeners \<Rightarrow> 'r node_world \<Rightarrow> listeners \<times> 'r node_world" where
  "proxy_tick e net bind_ok ls s = (case proxy_reconcile e net bind_ok ls s of
       (Inr ls', s') \<Rightarrow> (ls', s') | (Inl _, s') \<Rightarrow> (ls, s'))"

section \<open>Connections\<close>

definition target_port_of :: "service_port \<Rightarrow> i32" where
  "target_port_of p = (case spt_target_port p of Some (IS_Int n) \<Rightarrow> n | _ \<Rightarrow> spt_port p)"

definition endpoint_pods :: "endpoints \<Rightarrow> (string \<times> string) list" where
  "endpoint_pods ep = List.map_filter
     (\<lambda>a. Option.bind (ea_target_ref a) (\<lambda>r.
          Option.bind (oref_namespace r) (\<lambda>ns.
          map_option (\<lambda>name. (ns, name)) (oref_name r))))
     (concat (map (\<lambda>sub. case es_addresses sub of Some l \<Rightarrow> l | None \<Rightarrow> []) (ep_subsets ep)))"

text \<open>A published host port for the target port if there is one, else the pod's own address.\<close>

definition backend_of :: "'r agent \<Rightarrow> i32 \<Rightarrow> string \<times> string \<Rightarrow> (string \<times> nat) option" where
  "backend_of ag target_port key =
     (case Option.bind (hm_get (ag_pod_ports ag) key)
             (List.find (\<lambda>m. pm_container_port m = target_port \<and> pm_protocol m = ''tcp'')) of
        Some m \<Rightarrow> Some (''127.0.0.1'', pm_host_port m)
      | None \<Rightarrow> map_option (\<lambda>ip. (ip, nat (target_port mod 65536))) (hm_get (ag_pod_ips ag) key))"

fun find_map :: "('a \<Rightarrow> 'b option) \<Rightarrow> 'a list \<Rightarrow> 'b option" where
  "find_map f [] = None"
| "find_map f (x # xs) = (case f x of Some y \<Rightarrow> Some y | None \<Rightarrow> find_map f xs)"

text \<open>
  The address a connection is taken to. An error response to the request for the endpoints is read as
  endpoints without subsets, as every member of the document has a default.
\<close>

definition connection_backend :: "env \<Rightarrow> network \<Rightarrow> service \<Rightarrow> ('r, string \<times> nat) node_prog" where
  "connection_backend e net svc = (case sp_ports (svc_spec svc) of
       [] \<Rightarrow> failR ''service has no ports''
     | p # _ \<Rightarrow>
         bindR (server_call net (get_endpoints e (meta_namespace (svc_metadata svc)) (meta_name (svc_metadata svc)))) (\<lambda>res.
         let candidates = (case res of Inr ep \<Rightarrow> endpoint_pods ep | Inl _ \<Rightarrow> []) in
         if candidates = [] then failR ''no endpoints for service''
         else bindR (read_agent (\<lambda>ag. find_map (backend_of ag (target_port_of p)) candidates)) (\<lambda>backend.
              case backend of
                Some b \<Rightarrow> returnR b
              | None \<Rightarrow> failR (''no local backend for port '' @ show_int (target_port_of p)))))"

section \<open>Properties\<close>

lemma proxy_service_effect:
  assumes "proxy_service bind_ok svc (wanted, ls) = (wanted', ls')"
  shows "set wanted' = set wanted \<union> {p. node_port_of svc = Some p}"
    and "hm_get ls' p = (case hm_get ls p of
           Some l \<Rightarrow> Some l
         | None \<Rightarrow> if node_port_of svc = Some p then Some \<lparr>ln_service = svc, ln_bound = bind_ok p\<rparr> else None)"
  using assms by (auto simp: proxy_service_def split: option.splits if_splits)

lemma proxy_fold_wanted:
  "fold (proxy_service bind_ok) services (wanted, ls) = (wanted', ls') \<Longrightarrow>
   set wanted' = set wanted \<union> {p. \<exists>svc \<in> set services. node_port_of svc = Some p}"
proof (induction services arbitrary: wanted ls)
  case (Cons svc services)
  obtain w1 l1 where step: "proxy_service bind_ok svc (wanted, ls) = (w1, l1)" by fastforce
  with Cons show ?case using proxy_service_effect(1) [OF step] by auto
qed simp

lemma proxy_fold_listeners:
  "fold (proxy_service bind_ok) services (wanted, ls) = (wanted', ls') \<Longrightarrow>
   hm_get ls' p = (case hm_get ls p of
     Some l \<Rightarrow> Some l
   | None \<Rightarrow> map_option (\<lambda>svc. \<lparr>ln_service = svc, ln_bound = bind_ok p\<rparr>)
               (List.find (\<lambda>svc. node_port_of svc = Some p) services))"
proof (induction services arbitrary: wanted ls)
  case (Cons svc services)
  obtain w1 l1 where step: "proxy_service bind_ok svc (wanted, ls) = (w1, l1)" by fastforce
  with Cons show ?case using proxy_service_effect(2) [OF step, of p] by (auto split: option.splits if_splits)
qed (auto split: option.split)

lemma hm_get_fold_remove: "hm_get (fold hm_remove ks m) k = (if k \<in> set ks then None else hm_get m k)"
  by (induction ks arbitrary: m) auto

lemma hm_get_in: "hm_get m k = Some v \<Longrightarrow> k \<in> set (map fst m)"
  by (simp add: hm_get_def) (metis domI dom_map_of_conv_image_fst)

text \<open>Which listener a port has after an update.\<close>

lemma proxy_update_get:
  "hm_get (proxy_update bind_ok services ls) p =
     (if \<exists>svc \<in> set services. node_port_of svc = Some p
      then (case hm_get ls p of
              Some l \<Rightarrow> Some l
            | None \<Rightarrow> map_option (\<lambda>svc. \<lparr>ln_service = svc, ln_bound = bind_ok p\<rparr>)
                        (List.find (\<lambda>svc. node_port_of svc = Some p) services))
      else None)"
proof -
  obtain wanted ls' where f: "fold (proxy_service bind_ok) services ([], ls) = (wanted, ls')" by fastforce
  have "hm_get (proxy_update bind_ok services ls) p =
      (if p \<notin> set wanted \<and> p \<in> set (map fst ls') then None else hm_get ls' p)"
    by (simp add: proxy_update_def f hm_get_fold_remove conj_commute)
  also have "\<dots> = (if p \<in> set wanted then hm_get ls' p else None)"
    using hm_get_in [of ls' p] by (cases "hm_get ls' p") auto
  finally show ?thesis using proxy_fold_wanted [OF f] proxy_fold_listeners [OF f] by simp
qed

definition stored_services :: "world \<Rightarrow> service list" where
  "stored_services w = map row_to_service (w_services w)"

lemma fetch_services_ok:
  assumes "net_delivery net (nw_sent s) = Delivered" "w = net_meanwhile net (nw_sent s) (nw_world s)"
    and "\<not> env_fails e (w_stmts w)"
  shows "\<exists>services s'. fetch_services e net s = (Inr services, s') \<and> set services = set (stored_services w)"
proof -
  have "wants_watch client_headers = False" "wants_table client_headers = False"
    by (code_simp, code_simp)
  with assms show ?thesis
    by (simp add: fetch_services_def bindR_def server_call_def list_all_services_def service_list_def repo_list_def
        sql_select_def sql_stmt_def list_response_live_def returnR_def list_items_def stored_services_def
        in_ns_def Let_def)
qed

definition web_service :: "(nskey, service_cols) row" where
  "web_service = \<lparr>r_uid = 1, r_key = (''default'', ''web''),
     r_cols = \<lparr>sr_labels = None, sr_spec = (svc_spec service_default)\<lparr>sp_service_type := ST_NodePort,
       sp_ports := [\<lparr>spt_name = None, spt_protocol = TCP, spt_port = 80, spt_target_port = None, spt_node_port = Some 30080\<rparr>]\<rparr>,
       sr_service_type = ''NodePort'', sr_cluster_ip = None, sr_node_port = Some 30080\<rparr>,
     r_created_at = 0, r_updated_at = 0\<rparr>"

definition service_node :: "mock_runtime node_world" where
  "service_node = sample_node\<lparr>nw_world := empty_world\<lparr>w_services := [web_service]\<rparr>\<rparr>"

lemma web_service_port: "node_port_of (row_to_service web_service) = Some 30080"
  by (simp add: node_port_of_def row_to_service_def web_service_def Let_def set_first_node_port_def)

lemma service_node_ok:
  "net_delivery quiet_network (nw_sent service_node) = Delivered"
  "nw_world service_node = net_meanwhile quiet_network (nw_sent service_node) (nw_world service_node)"
  "stored_services (nw_world service_node) = [row_to_service web_service]"
  by (simp_all add: quiet_network_def service_node_def stored_services_def)



text \<open>
  A listener outlives its service: while some NodePort service has the port, the listener keeps
  the service it was started with, so after the service of a port is replaced by another, connections
  still go to the endpoints of the old one; and a listener whose bind failed is never tried again.
\<close>

theorem proxy_listener_stale:
  assumes "hm_get ls p = Some l" "net_delivery net (nw_sent s) = Delivered"
    and "w = net_meanwhile net (nw_sent s) (nw_world s)" "\<not> env_fails e (w_stmts w)"
    and "svc \<in> set (stored_services w)" "node_port_of svc = Some p"
  shows "hm_get (fst (proxy_tick e net bind_ok ls s)) p = Some l"
proof -
  obtain services s' where f: "fetch_services e net s = (Inr services, s')"
    and svcs: "set services = set (stored_services w)"
    using fetch_services_ok [OF assms(2-4)] by blast
  then show ?thesis using assms(1,5,6)
    by (auto simp: proxy_tick_def proxy_reconcile_def bindR_def f returnR_def proxy_update_get svcs)
qed

theorem proxy_listener_stale_witness:
  "hm_get (fst (proxy_tick sample_env quiet_network (\<lambda>_. True) [(30080, \<lparr>ln_service = service_default, ln_bound = False\<rparr>)] service_node)) 30080
     = Some \<lparr>ln_service = service_default, ln_bound = False\<rparr>"
  by (rule proxy_listener_stale [OF _ service_node_ok(1,2) sample_env_fails, of _ _ _ "row_to_service web_service"])
     (simp_all add: service_node_ok(3) web_service_port hm_get_def)

text \<open>
  A server that cannot list the services makes the proxy close every port: the error document is
  taken for an empty list of services, and all listeners are stopped.
\<close>

theorem proxy_error_stops_all:
  assumes "net_delivery net (nw_sent s) = Delivered"
    and "env_fails e (w_stmts (net_meanwhile net (nw_sent s) (nw_world s)))"
  shows "hm_get (fst (proxy_tick e net bind_ok ls s)) p = None"
proof -
  have "\<exists>s'. fetch_services e net s = (Inr [], s')"
    using assms by (simp add: fetch_services_def bindR_def server_call_def list_all_services_def service_list_def
        repo_list_def sql_select_def sql_stmt_def returnR_def Let_def)
  then obtain s' where f: "fetch_services e net s = (Inr [], s')" by blast
  show ?thesis
    by (simp add: proxy_tick_def proxy_reconcile_def bindR_def f returnR_def proxy_update_get)
qed

theorem proxy_error_stops_all_witness:
  "hm_get (fst (proxy_tick (sample_env\<lparr>env_fails := (\<lambda>_. True)\<rparr>) quiet_network (\<lambda>_. True)
     [(30080, \<lparr>ln_service = service_default, ln_bound = True\<rparr>)] service_node)) 30080 = None"
  by (rule proxy_error_stops_all [OF service_node_ok(1)]) simp

section \<open>Backends\<close>

lemma find_map_Some: "find_map f xs = Some y \<Longrightarrow> \<exists>x \<in> set xs. f x = Some y"
  by (induction xs) (auto split: option.splits)

lemma find_map_None: "find_map f xs = None \<longleftrightarrow> (\<forall>x \<in> set xs. f x = None)"
  by (induction xs) (auto split: option.splits)

lemma backend_of_cases:
  assumes "backend_of ag target k = Some (host, hport)"
  shows "(\<exists>ms m. hm_get (ag_pod_ports ag) k = Some ms \<and> m \<in> set ms \<and> pm_container_port m = target \<and>
      pm_protocol m = ''tcp'' \<and> host = ''127.0.0.1'' \<and> hport = pm_host_port m) \<or>
    (hm_get (ag_pod_ips ag) k = Some host \<and> hport = nat (target mod 65536))"
proof (cases "Option.bind (hm_get (ag_pod_ports ag) k) (List.find (\<lambda>m. pm_container_port m = target \<and> pm_protocol m = ''tcp''))")
  case None
  then show ?thesis using assms by (simp add: backend_of_def)
next
  case (Some m)
  then obtain ms where ms: "hm_get (ag_pod_ports ag) k = Some ms"
    and f: "List.find (\<lambda>m. pm_container_port m = target \<and> pm_protocol m = ''tcp'') ms = Some m"
    by (auto simp: bind_eq_Some_conv)
  from f have "m \<in> set ms" "pm_container_port m = target" "pm_protocol m = ''tcp''"
    by (auto simp: find_Some_iff)
  with ms Some assms show ?thesis by (auto simp: backend_of_def)
qed


definition web_endpoints :: "(nskey, endpoint_subset list) row" where
  "web_endpoints = \<lparr>r_uid = 2, r_key = (''default'', ''web''), r_cols = [\<lparr>es_addresses = Some [\<lparr>ea_ip = ''10.244.0.5'', ea_hostname = None,
     ea_node_name = None, ea_target_ref = Some \<lparr>oref_api_version = None, oref_kind = Some ''Pod'', oref_name = Some ''web-1'',
       oref_namespace = Some ''default'', oref_uid = None, oref_resource_version = None, oref_field_path = None\<rparr>\<rparr>],
     es_not_ready_addresses = None, es_ports = None\<rparr>], r_created_at = 0, r_updated_at = 0\<rparr>"

definition backend_node :: "mock_runtime node_world" where
  "backend_node = sample_node\<lparr>nw_world := empty_world\<lparr>w_endpoints := [web_endpoints]\<rparr>,
     nw_agent := sample_agent\<lparr>ag_pod_ips := [((''default'', ''web-1''), ''10.244.0.5'')]\<rparr>\<rparr>"


end
