(* ===== verification/Discovery.thy ===== *)
theory Discovery
  imports Prelude
begin

text \<open>
  The discovery documents of \<open>src/src/server/api.rs\<close> and the route table of
  \<open>src/src/server/routes.rs\<close>. A path is the list of its segments; a parameter of a pattern matches
  any non-empty segment, as in axum's router. The theorems: no path matches two routes, and what the
  discovery documents advertise is served, but for two verbs.
\<close>

section \<open>Discovery documents\<close>

record api_resource =
  ar_name :: string
  ar_singular :: string
  ar_namespaced :: bool
  ar_kind :: string
  ar_short_names :: "string list"
  ar_categories :: "string list"
  ar_verbs :: "string list"

record api_resource_list =
  arl_group_version :: string
  arl_resources :: "api_resource list"

text \<open>\<open>pkg\<close> is the crate's version, \<open>os\<close> and \<open>arch\<close> the platform it was built for.\<close>

definition version_info :: "string \<Rightarrow> string \<Rightarrow> string \<Rightarrow> (string \<times> string) list" where
  "version_info pkg os arch =
     [(''major'', ''1''), (''minor'', ''30''), (''gitVersion'', ''v1.30.0-superkube-'' @ pkg),
      (''gitCommit'', ''superkube''), (''gitTreeState'', ''clean''),
      (''buildDate'', ''1970-01-01T00:00:00Z''), (''goVersion'', ''rust''), (''compiler'', ''rustc''),
      (''platform'', os @ ''/'' @ arch)]"

definition api_versions :: "string list" where
  "api_versions = [''v1'']"

definition api_v1_resources :: api_resource_list where
  "api_v1_resources = \<lparr>arl_group_version = ''v1'', arl_resources =
     [\<lparr>ar_name = ''pods'', ar_singular = ''pod'', ar_namespaced = True, ar_kind = ''Pod'',
       ar_short_names = [''po''], ar_categories = [''all''],
       ar_verbs = [''create'', ''delete'', ''get'', ''list'', ''update'', ''watch'']\<rparr>,
      \<lparr>ar_name = ''services'', ar_singular = ''service'', ar_namespaced = True, ar_kind = ''Service'',
       ar_short_names = [''svc''], ar_categories = [''all''],
       ar_verbs = [''create'', ''delete'', ''get'', ''list'', ''update'']\<rparr>,
      \<lparr>ar_name = ''nodes'', ar_singular = ''node'', ar_namespaced = False, ar_kind = ''Node'',
       ar_short_names = [''no''], ar_categories = [],
       ar_verbs = [''create'', ''delete'', ''get'', ''list'', ''update'']\<rparr>,
      \<lparr>ar_name = ''endpoints'', ar_singular = ''endpoints'', ar_namespaced = True, ar_kind = ''Endpoints'',
       ar_short_names = [''ep''], ar_categories = [],
       ar_verbs = [''get'', ''list'']\<rparr>,
      \<lparr>ar_name = ''namespaces'', ar_singular = ''namespace'', ar_namespaced = False, ar_kind = ''Namespace'',
       ar_short_names = [''ns''], ar_categories = [],
       ar_verbs = [''create'', ''delete'', ''get'', ''list'', ''update'']\<rparr>,
      \<lparr>ar_name = ''events'', ar_singular = ''event'', ar_namespaced = True, ar_kind = ''Event'',
       ar_short_names = [''ev''], ar_categories = [],
       ar_verbs = [''create'', ''delete'', ''get'', ''list'']\<rparr>,
      \<lparr>ar_name = ''serviceaccounts'', ar_singular = ''serviceaccount'', ar_namespaced = True, ar_kind = ''ServiceAccount'',
       ar_short_names = [''sa''], ar_categories = [],
       ar_verbs = [''create'', ''delete'', ''get'', ''list'', ''update'']\<rparr>,
      \<lparr>ar_name = ''secrets'', ar_singular = ''secret'', ar_namespaced = True, ar_kind = ''Secret'',
       ar_short_names = [], ar_categories = [],
       ar_verbs = [''create'', ''delete'', ''get'', ''list'', ''update'']\<rparr>,
      \<lparr>ar_name = ''configmaps'', ar_singular = ''configmap'', ar_namespaced = True, ar_kind = ''ConfigMap'',
       ar_short_names = [''cm''], ar_categories = [],
       ar_verbs = [''create'', ''delete'', ''get'', ''list'', ''update'']\<rparr>,
      \<lparr>ar_name = ''replicationcontrollers'', ar_singular = ''replicationcontroller'', ar_namespaced = True, ar_kind = ''ReplicationController'',
       ar_short_names = [''rc''], ar_categories = [''all''],
       ar_verbs = [''get'', ''list'']\<rparr>]\<rparr>"

text \<open>The groups with their only, and preferred, version.\<close>

definition api_groups :: "(string \<times> string) list" where
  "api_groups = [(''apps'', ''apps/v1''), (''rbac.authorization.k8s.io'', ''rbac.authorization.k8s.io/v1'')]"

definition apps_v1_resources :: api_resource_list where
  "apps_v1_resources = \<lparr>arl_group_version = ''apps/v1'', arl_resources =
     [\<lparr>ar_name = ''deployments'', ar_singular = ''deployment'', ar_namespaced = True, ar_kind = ''Deployment'',
       ar_short_names = [''deploy''], ar_categories = [''all''],
       ar_verbs = [''create'', ''delete'', ''get'', ''list'', ''update'', ''watch'']\<rparr>,
      \<lparr>ar_name = ''statefulsets'', ar_singular = ''statefulset'', ar_namespaced = True, ar_kind = ''StatefulSet'',
       ar_short_names = [''sts''], ar_categories = [''all''],
       ar_verbs = [''create'', ''delete'', ''get'', ''list'', ''update'', ''watch'']\<rparr>,
      \<lparr>ar_name = ''daemonsets'', ar_singular = ''daemonset'', ar_namespaced = True, ar_kind = ''DaemonSet'',
       ar_short_names = [''ds''], ar_categories = [''all''],
       ar_verbs = [''create'', ''delete'', ''get'', ''list'', ''update'', ''watch'']\<rparr>,
      \<lparr>ar_name = ''replicasets'', ar_singular = ''replicaset'', ar_namespaced = True, ar_kind = ''ReplicaSet'',
       ar_short_names = [''rs''], ar_categories = [''all''],
       ar_verbs = [''get'', ''list'']\<rparr>]\<rparr>"

definition rbac_v1_resources :: api_resource_list where
  "rbac_v1_resources = \<lparr>arl_group_version = ''rbac.authorization.k8s.io/v1'', arl_resources =
     [\<lparr>ar_name = ''roles'', ar_singular = ''role'', ar_namespaced = True, ar_kind = ''Role'',
       ar_short_names = [], ar_categories = [],
       ar_verbs = [''create'', ''delete'', ''get'', ''list'', ''update'']\<rparr>,
      \<lparr>ar_name = ''rolebindings'', ar_singular = ''rolebinding'', ar_namespaced = True, ar_kind = ''RoleBinding'',
       ar_short_names = [], ar_categories = [],
       ar_verbs = [''create'', ''delete'', ''get'', ''list'', ''update'']\<rparr>,
      \<lparr>ar_name = ''clusterroles'', ar_singular = ''clusterrole'', ar_namespaced = False, ar_kind = ''ClusterRole'',
       ar_short_names = [], ar_categories = [],
       ar_verbs = [''create'', ''delete'', ''get'', ''list'', ''update'']\<rparr>,
      \<lparr>ar_name = ''clusterrolebindings'', ar_singular = ''clusterrolebinding'', ar_namespaced = False, ar_kind = ''ClusterRoleBinding'',
       ar_short_names = [], ar_categories = [],
       ar_verbs = [''create'', ''delete'', ''get'', ''list'', ''update'']\<rparr>]\<rparr>"

section \<open>Routes\<close>

datatype segment = Lit string | Param string

datatype http_method = GET | POST | PUT | DELETE

record route =
  rt_path :: "segment list"
  rt_methods :: "(http_method \<times> string) list"

definition core_routes :: "route list" where
  "core_routes =
     [\<lparr>rt_path = [Lit ''version''],
       rt_methods = [(GET, ''version_info'')]\<rparr>,
      \<lparr>rt_path = [Lit ''healthz''],
       rt_methods = [(GET, ''ok'')]\<rparr>,
      \<lparr>rt_path = [Lit ''livez''],
       rt_methods = [(GET, ''ok'')]\<rparr>,
      \<lparr>rt_path = [Lit ''readyz''],
       rt_methods = [(GET, ''ok'')]\<rparr>,
      \<lparr>rt_path = [Lit ''api''],
       rt_methods = [(GET, ''api_versions'')]\<rparr>,
      \<lparr>rt_path = [Lit ''api'', Lit ''v1''],
       rt_methods = [(GET, ''api_v1_resources'')]\<rparr>,
      \<lparr>rt_path = [Lit ''apis''],
       rt_methods = [(GET, ''api_groups'')]\<rparr>,
      \<lparr>rt_path = [Lit ''openapi'', Lit ''v2''],
       rt_methods = [(GET, ''openapi_v2'')]\<rparr>,
      \<lparr>rt_path = [Lit ''openapi'', Lit ''v3''],
       rt_methods = [(GET, ''openapi_v3'')]\<rparr>,
      \<lparr>rt_path = [Lit ''apis'', Lit ''apps'', Lit ''v1''],
       rt_methods = [(GET, ''apps_v1_resources'')]\<rparr>,
      \<lparr>rt_path = [Lit ''apis'', Lit ''rbac.authorization.k8s.io'', Lit ''v1''],
       rt_methods = [(GET, ''rbac_v1_resources'')]\<rparr>,
      \<lparr>rt_path = [Lit ''api'', Lit ''v1'', Lit ''namespaces'', Param ''namespace'', Lit ''pods''],
       rt_methods = [(GET, ''list_pods''), (POST, ''create_pod'')]\<rparr>,
      \<lparr>rt_path = [Lit ''api'', Lit ''v1'', Lit ''namespaces'', Param ''namespace'', Lit ''pods'', Param ''name''],
       rt_methods = [(GET, ''get_pod''), (PUT, ''update_pod''), (DELETE, ''delete_pod'')]\<rparr>,
      \<lparr>rt_path = [Lit ''api'', Lit ''v1'', Lit ''namespaces'', Param ''namespace'', Lit ''pods'', Param ''name'', Lit ''status''],
       rt_methods = [(GET, ''get_pod_status''), (PUT, ''update_pod_status'')]\<rparr>,
      \<lparr>rt_path = [Lit ''api'', Lit ''v1'', Lit ''namespaces'', Param ''namespace'', Lit ''pods'', Param ''name'', Lit ''log''],
       rt_methods = [(GET, ''get_pod_logs'')]\<rparr>,
      \<lparr>rt_path = [Lit ''api'', Lit ''v1'', Lit ''namespaces'', Param ''namespace'', Lit ''pods'', Param ''name'', Lit ''exec''],
       rt_methods = [(GET, ''exec_pod'')]\<rparr>,
      \<lparr>rt_path = [Lit ''api'', Lit ''v1'', Lit ''namespaces'', Param ''namespace'', Lit ''pods'', Param ''name'', Lit ''portforward''],
       rt_methods = [(GET, ''port_forward_pod'')]\<rparr>,
      \<lparr>rt_path = [Lit ''api'', Lit ''v1'', Lit ''pods''],
       rt_methods = [(GET, ''list_all_pods'')]\<rparr>,
      \<lparr>rt_path = [Lit ''api'', Lit ''v1'', Lit ''namespaces'', Param ''namespace'', Lit ''services''],
       rt_methods = [(GET, ''list_services''), (POST, ''create_service'')]\<rparr>,
      \<lparr>rt_path = [Lit ''api'', Lit ''v1'', Lit ''namespaces'', Param ''namespace'', Lit ''services'', Param ''name''],
       rt_methods = [(GET, ''get_service''), (PUT, ''update_service''), (DELETE, ''delete_service'')]\<rparr>,
      \<lparr>rt_path = [Lit ''api'', Lit ''v1'', Lit ''services''],
       rt_methods = [(GET, ''list_all_services'')]\<rparr>,
      \<lparr>rt_path = [Lit ''api'', Lit ''v1'', Lit ''nodes''],
       rt_methods = [(GET, ''list_nodes''), (POST, ''create_node'')]\<rparr>,
      \<lparr>rt_path = [Lit ''api'', Lit ''v1'', Lit ''nodes'', Param ''name''],
       rt_methods = [(GET, ''get_node''), (PUT, ''update_node''), (DELETE, ''delete_node'')]\<rparr>,
      \<lparr>rt_path = [Lit ''api'', Lit ''v1'', Lit ''namespaces'', Param ''namespace'', Lit ''endpoints''],
       rt_methods = [(GET, ''list_endpoints'')]\<rparr>,
      \<lparr>rt_path = [Lit ''api'', Lit ''v1'', Lit ''namespaces'', Param ''namespace'', Lit ''endpoints'', Param ''name''],
       rt_methods = [(GET, ''get_endpoints'')]\<rparr>]"

definition workload_routes :: "route list" where
  "workload_routes =
     [\<lparr>rt_path = [Lit ''apis'', Lit ''apps'', Lit ''v1'', Lit ''namespaces'', Param ''namespace'', Lit ''deployments''],
       rt_methods = [(GET, ''list_deployments''), (POST, ''create_deployment'')]\<rparr>,
      \<lparr>rt_path = [Lit ''apis'', Lit ''apps'', Lit ''v1'', Lit ''namespaces'', Param ''namespace'', Lit ''deployments'', Param ''name''],
       rt_methods = [(GET, ''get_deployment''), (PUT, ''update_deployment''), (DELETE, ''delete_deployment'')]\<rparr>,
      \<lparr>rt_path = [Lit ''apis'', Lit ''apps'', Lit ''v1'', Lit ''deployments''],
       rt_methods = [(GET, ''list_all_deployments'')]\<rparr>,
      \<lparr>rt_path = [Lit ''apis'', Lit ''apps'', Lit ''v1'', Lit ''namespaces'', Param ''namespace'', Lit ''statefulsets''],
       rt_methods = [(GET, ''list_statefulsets''), (POST, ''create_statefulset'')]\<rparr>,
      \<lparr>rt_path = [Lit ''apis'', Lit ''apps'', Lit ''v1'', Lit ''namespaces'', Param ''namespace'', Lit ''statefulsets'', Param ''name''],
       rt_methods = [(GET, ''get_statefulset''), (PUT, ''update_statefulset''), (DELETE, ''delete_statefulset'')]\<rparr>,
      \<lparr>rt_path = [Lit ''apis'', Lit ''apps'', Lit ''v1'', Lit ''statefulsets''],
       rt_methods = [(GET, ''list_all_statefulsets'')]\<rparr>,
      \<lparr>rt_path = [Lit ''apis'', Lit ''apps'', Lit ''v1'', Lit ''namespaces'', Param ''namespace'', Lit ''daemonsets''],
       rt_methods = [(GET, ''list_daemonsets''), (POST, ''create_daemonset'')]\<rparr>,
      \<lparr>rt_path = [Lit ''apis'', Lit ''apps'', Lit ''v1'', Lit ''namespaces'', Param ''namespace'', Lit ''daemonsets'', Param ''name''],
       rt_methods = [(GET, ''get_daemonset''), (PUT, ''update_daemonset''), (DELETE, ''delete_daemonset'')]\<rparr>,
      \<lparr>rt_path = [Lit ''apis'', Lit ''apps'', Lit ''v1'', Lit ''daemonsets''],
       rt_methods = [(GET, ''list_all_daemonsets'')]\<rparr>,
      \<lparr>rt_path = [Lit ''api'', Lit ''v1'', Lit ''namespaces''],
       rt_methods = [(GET, ''list_namespaces''), (POST, ''create_namespace'')]\<rparr>,
      \<lparr>rt_path = [Lit ''api'', Lit ''v1'', Lit ''namespaces'', Param ''namespace''],
       rt_methods = [(GET, ''get_namespace''), (PUT, ''update_namespace''), (DELETE, ''delete_namespace'')]\<rparr>,
      \<lparr>rt_path = [Lit ''api'', Lit ''v1'', Lit ''namespaces'', Param ''namespace'', Lit ''events''],
       rt_methods = [(GET, ''list_events''), (POST, ''create_event'')]\<rparr>,
      \<lparr>rt_path = [Lit ''api'', Lit ''v1'', Lit ''namespaces'', Param ''namespace'', Lit ''events'', Param ''name''],
       rt_methods = [(GET, ''get_event''), (DELETE, ''delete_event'')]\<rparr>,
      \<lparr>rt_path = [Lit ''api'', Lit ''v1'', Lit ''events''],
       rt_methods = [(GET, ''list_all_events'')]\<rparr>]"

definition auth_routes :: "route list" where
  "auth_routes =
     [\<lparr>rt_path = [Lit ''api'', Lit ''v1'', Lit ''namespaces'', Param ''namespace'', Lit ''serviceaccounts''],
       rt_methods = [(GET, ''list_service_accounts''), (POST, ''create_service_account'')]\<rparr>,
      \<lparr>rt_path = [Lit ''api'', Lit ''v1'', Lit ''namespaces'', Param ''namespace'', Lit ''serviceaccounts'', Param ''name''],
       rt_methods = [(GET, ''get_service_account''), (PUT, ''update_service_account''), (DELETE, ''delete_service_account'')]\<rparr>,
      \<lparr>rt_path = [Lit ''api'', Lit ''v1'', Lit ''serviceaccounts''],
       rt_methods = [(GET, ''list_all_service_accounts'')]\<rparr>,
      \<lparr>rt_path = [Lit ''api'', Lit ''v1'', Lit ''namespaces'', Param ''namespace'', Lit ''secrets''],
       rt_methods = [(GET, ''list_secrets''), (POST, ''create_secret'')]\<rparr>,
      \<lparr>rt_path = [Lit ''api'', Lit ''v1'', Lit ''namespaces'', Param ''namespace'', Lit ''secrets'', Param ''name''],
       rt_methods = [(GET, ''get_secret''), (PUT, ''update_secret''), (DELETE, ''delete_secret'')]\<rparr>,
      \<lparr>rt_path = [Lit ''api'', Lit ''v1'', Lit ''secrets''],
       rt_methods = [(GET, ''list_all_secrets'')]\<rparr>,
      \<lparr>rt_path = [Lit ''api'', Lit ''v1'', Lit ''namespaces'', Param ''namespace'', Lit ''configmaps''],
       rt_methods = [(GET, ''list_config_maps''), (POST, ''create_config_map'')]\<rparr>,
      \<lparr>rt_path = [Lit ''api'', Lit ''v1'', Lit ''namespaces'', Param ''namespace'', Lit ''configmaps'', Param ''name''],
       rt_methods = [(GET, ''get_config_map''), (PUT, ''update_config_map''), (DELETE, ''delete_config_map'')]\<rparr>,
      \<lparr>rt_path = [Lit ''api'', Lit ''v1'', Lit ''configmaps''],
       rt_methods = [(GET, ''list_all_config_maps'')]\<rparr>,
      \<lparr>rt_path = [Lit ''apis'', Lit ''rbac.authorization.k8s.io'', Lit ''v1'', Lit ''namespaces'', Param ''namespace'', Lit ''roles''],
       rt_methods = [(GET, ''list_roles''), (POST, ''create_role'')]\<rparr>,
      \<lparr>rt_path = [Lit ''apis'', Lit ''rbac.authorization.k8s.io'', Lit ''v1'', Lit ''namespaces'', Param ''namespace'', Lit ''roles'', Param ''name''],
       rt_methods = [(GET, ''get_role''), (PUT, ''update_role''), (DELETE, ''delete_role'')]\<rparr>,
      \<lparr>rt_path = [Lit ''apis'', Lit ''rbac.authorization.k8s.io'', Lit ''v1'', Lit ''roles''],
       rt_methods = [(GET, ''list_all_roles'')]\<rparr>,
      \<lparr>rt_path = [Lit ''apis'', Lit ''rbac.authorization.k8s.io'', Lit ''v1'', Lit ''namespaces'', Param ''namespace'', Lit ''rolebindings''],
       rt_methods = [(GET, ''list_role_bindings''), (POST, ''create_role_binding'')]\<rparr>,
      \<lparr>rt_path = [Lit ''apis'', Lit ''rbac.authorization.k8s.io'', Lit ''v1'', Lit ''namespaces'', Param ''namespace'', Lit ''rolebindings'', Param ''name''],
       rt_methods = [(GET, ''get_role_binding''), (PUT, ''update_role_binding''), (DELETE, ''delete_role_binding'')]\<rparr>,
      \<lparr>rt_path = [Lit ''apis'', Lit ''rbac.authorization.k8s.io'', Lit ''v1'', Lit ''rolebindings''],
       rt_methods = [(GET, ''list_all_role_bindings'')]\<rparr>,
      \<lparr>rt_path = [Lit ''apis'', Lit ''rbac.authorization.k8s.io'', Lit ''v1'', Lit ''clusterroles''],
       rt_methods = [(GET, ''list_cluster_roles''), (POST, ''create_cluster_role'')]\<rparr>,
      \<lparr>rt_path = [Lit ''apis'', Lit ''rbac.authorization.k8s.io'', Lit ''v1'', Lit ''clusterroles'', Param ''name''],
       rt_methods = [(GET, ''get_cluster_role''), (PUT, ''update_cluster_role''), (DELETE, ''delete_cluster_role'')]\<rparr>,
      \<lparr>rt_path = [Lit ''api'', Lit ''v1'', Lit ''namespaces'', Param ''namespace'', Lit ''replicationcontrollers''],
       rt_methods = [(GET, ''list_replication_controllers'')]\<rparr>,
      \<lparr>rt_path = [Lit ''api'', Lit ''v1'', Lit ''replicationcontrollers''],
       rt_methods = [(GET, ''list_all_replication_controllers'')]\<rparr>,
      \<lparr>rt_path = [Lit ''apis'', Lit ''apps'', Lit ''v1'', Lit ''namespaces'', Param ''namespace'', Lit ''replicasets''],
       rt_methods = [(GET, ''list_replica_sets'')]\<rparr>,
      \<lparr>rt_path = [Lit ''apis'', Lit ''apps'', Lit ''v1'', Lit ''replicasets''],
       rt_methods = [(GET, ''list_all_replica_sets'')]\<rparr>,
      \<lparr>rt_path = [Lit ''apis'', Lit ''rbac.authorization.k8s.io'', Lit ''v1'', Lit ''clusterrolebindings''],
       rt_methods = [(GET, ''list_cluster_role_bindings''), (POST, ''create_cluster_role_binding'')]\<rparr>,
      \<lparr>rt_path = [Lit ''apis'', Lit ''rbac.authorization.k8s.io'', Lit ''v1'', Lit ''clusterrolebindings'', Param ''name''],
       rt_methods = [(GET, ''get_cluster_role_binding''), (PUT, ''update_cluster_role_binding''), (DELETE, ''delete_cluster_role_binding'')]\<rparr>]"

definition api_routes :: "route list" where
  "api_routes = core_routes @ workload_routes @ auth_routes"

fun segment_matches :: "segment \<Rightarrow> string \<Rightarrow> bool" where
  "segment_matches (Lit s) x = (x = s)"
| "segment_matches (Param p) x = (x \<noteq> [])"

definition path_matches :: "segment list \<Rightarrow> string list \<Rightarrow> bool" where
  "path_matches pat path = list_all2 segment_matches pat path"

datatype routed = No_Route | Method_Not_Allowed | Handler string

definition find_route :: "http_method \<Rightarrow> string list \<Rightarrow> routed" where
  "find_route method path = (case List.find (\<lambda>r. path_matches (rt_path r) path) api_routes of
       None \<Rightarrow> No_Route
     | Some r \<Rightarrow> (case map_of (rt_methods r) method of None \<Rightarrow> Method_Not_Allowed | Some h \<Rightarrow> Handler h))"

section \<open>Unambiguous routes\<close>

fun segments_overlap :: "segment \<Rightarrow> segment \<Rightarrow> bool" where
  "segments_overlap (Lit a) (Lit b) = (a = b)"
| "segments_overlap _ _ = True"

definition overlap :: "segment list \<Rightarrow> segment list \<Rightarrow> bool" where
  "overlap p q = list_all2 segments_overlap p q"

lemma overlapI: "path_matches p path \<Longrightarrow> path_matches q path \<Longrightarrow> overlap p q"
  unfolding path_matches_def overlap_def
proof (induction p arbitrary: q path)
  case (Cons a as)
  then obtain x xs where path: "path = x # xs" by (auto simp: list_all2_Cons1)
  with Cons.prems obtain b bs where "q = b # bs" by (auto simp: list_all2_Cons2)
  with Cons path show ?case by (cases a; cases b) auto
qed auto

text \<open>
  Patterns are compared by fingerprints of their segments, from the last one on: patterns with a
  common instance have fingerprints that agree.
\<close>

definition fingerprint :: "string \<Rightarrow> int" where
  "fingerprint s = foldl (\<lambda>a c. (31 * a + of_char c) mod 1009) 0 s"

fun segment_print :: "segment \<Rightarrow> int option" where
  "segment_print (Lit s) = Some (fingerprint s)"
| "segment_print (Param p) = None"

definition route_prints :: "segment list \<Rightarrow> int option list" where
  "route_prints p = map segment_print (rev p)"

fun prints_agree :: "int option list \<Rightarrow> int option list \<Rightarrow> bool" where
  "prints_agree [] [] = True"
| "prints_agree (Some a # as) (Some b # bs) = (if a = b then prints_agree as bs else False)"
| "prints_agree (a # as) (b # bs) = prints_agree as bs"
| "prints_agree _ _ = False"

lemma prints_agree_rev:
  "list_all2 segments_overlap p q \<Longrightarrow> prints_agree (map segment_print p) (map segment_print q)"
proof (induction p q rule: list_all2_induct)
  case (Cons a as b bs)
  then show ?case by (cases a; cases b) simp_all
qed simp

lemma overlap_prints: "overlap p q \<Longrightarrow> prints_agree (route_prints p) (route_prints q)"
  unfolding overlap_def route_prints_def by (rule prints_agree_rev) simp

fun pairwise_apart :: "int option list list \<Rightarrow> bool" where
  "pairwise_apart [] = True"
| "pairwise_apart (p # ps) = (if list_ex (prints_agree p) ps then False else pairwise_apart ps)"

lemma pairwise_apartD:
  assumes "pairwise_apart (map f xs)" "a \<in> set xs" "b \<in> set xs" "prints_agree (f a) (f b)" "prints_agree (f b) (f a)"
  shows "a = b"
  using assms by (induction xs) (auto simp: list_ex_iff split: if_splits)

definition table_prints :: "int option list list" where
  "table_prints = [[Some 270],
     [Some 528],
     [Some 380],
     [Some 373],
     [Some 939],
     [Some 680, Some 939],
     [Some 972],
     [Some 681, Some 260],
     [Some 682, Some 260],
     [Some 680, Some 180, Some 972],
     [Some 680, Some 746, Some 972],
     [Some 743, None, Some 262, Some 680, Some 939],
     [None, Some 743, None, Some 262, Some 680, Some 939],
     [Some 522, None, Some 743, None, Some 262, Some 680, Some 939],
     [Some 378, None, Some 743, None, Some 262, Some 680, Some 939],
     [Some 550, None, Some 743, None, Some 262, Some 680, Some 939],
     [Some 921, None, Some 743, None, Some 262, Some 680, Some 939],
     [Some 743, Some 680, Some 939],
     [Some 878, None, Some 262, Some 680, Some 939],
     [None, Some 878, None, Some 262, Some 680, Some 939],
     [Some 878, Some 680, Some 939],
     [Some 953, Some 680, Some 939],
     [None, Some 953, Some 680, Some 939],
     [Some 426, None, Some 262, Some 680, Some 939],
     [None, Some 426, None, Some 262, Some 680, Some 939],
     [Some 630, None, Some 262, Some 680, Some 180, Some 972],
     [None, Some 630, None, Some 262, Some 680, Some 180, Some 972],
     [Some 630, Some 680, Some 180, Some 972],
     [Some 90, None, Some 262, Some 680, Some 180, Some 972],
     [None, Some 90, None, Some 262, Some 680, Some 180, Some 972],
     [Some 90, Some 680, Some 180, Some 972],
     [Some 114, None, Some 262, Some 680, Some 180, Some 972],
     [None, Some 114, None, Some 262, Some 680, Some 180, Some 972],
     [Some 114, Some 680, Some 180, Some 972],
     [Some 262, Some 680, Some 939],
     [None, Some 262, Some 680, Some 939],
     [Some 427, None, Some 262, Some 680, Some 939],
     [None, Some 427, None, Some 262, Some 680, Some 939],
     [Some 427, Some 680, Some 939],
     [Some 359, None, Some 262, Some 680, Some 939],
     [None, Some 359, None, Some 262, Some 680, Some 939],
     [Some 359, Some 680, Some 939],
     [Some 662, None, Some 262, Some 680, Some 939],
     [None, Some 662, None, Some 262, Some 680, Some 939],
     [Some 662, Some 680, Some 939],
     [Some 489, None, Some 262, Some 680, Some 939],
     [None, Some 489, None, Some 262, Some 680, Some 939],
     [Some 489, Some 680, Some 939],
     [Some 704, None, Some 262, Some 680, Some 746, Some 972],
     [None, Some 704, None, Some 262, Some 680, Some 746, Some 972],
     [Some 704, Some 680, Some 746, Some 972],
     [Some 124, None, Some 262, Some 680, Some 746, Some 972],
     [None, Some 124, None, Some 262, Some 680, Some 746, Some 972],
     [Some 124, Some 680, Some 746, Some 972],
     [Some 69, Some 680, Some 746, Some 972],
     [None, Some 69, Some 680, Some 746, Some 972],
     [Some 784, None, Some 262, Some 680, Some 939],
     [Some 784, Some 680, Some 939],
     [Some 710, None, Some 262, Some 680, Some 180, Some 972],
     [Some 710, Some 680, Some 180, Some 972],
     [Some 379, Some 680, Some 746, Some 972],
     [None, Some 379, Some 680, Some 746, Some 972]]"

lemma table_prints_eq: "map (\<lambda>r. route_prints (rt_path r)) api_routes = table_prints"
  by code_simp

lemma table_prints_apart: "pairwise_apart table_prints"
  by code_simp

lemma api_routes_apart: "pairwise_apart (map (\<lambda>r. route_prints (rt_path r)) api_routes)"
  unfolding table_prints_eq by (rule table_prints_apart)

lemma find_unique:
  assumes "x \<in> set xs" "P x" "\<And>y. y \<in> set xs \<Longrightarrow> P y \<Longrightarrow> y = x"
  shows "List.find P xs = Some x"
proof (cases "List.find P xs")
  case None
  with assms(1,2) show ?thesis by (auto simp: find_None_iff)
next
  case (Some y)
  then have "y \<in> set xs" "P y" by (auto simp: find_Some_iff)
  then have "y = x" by (rule assms(3))
  with Some show ?thesis by simp
qed

lemma route_unique:
  assumes "r \<in> set api_routes" "path_matches (rt_path r) path"
    and "r' \<in> set api_routes" "path_matches (rt_path r') path"
  shows "r' = r"
  by (rule pairwise_apartD [OF api_routes_apart assms(3,1)]) (rule overlap_prints overlapI assms)+

lemma routes_match_handler:
  assumes "r \<in> set api_routes" "path_matches (rt_path r) path"
  shows "find_route m path = (case map_of (rt_methods r) m of None \<Rightarrow> Method_Not_Allowed | Some h \<Rightarrow> Handler h)"
proof -
  have "List.find (\<lambda>r. path_matches (rt_path r) path) api_routes = Some r"
    by (rule find_unique [where P = "\<lambda>r. path_matches (rt_path r) path", OF assms]) (rule route_unique [OF assms])
  then show ?thesis by (simp add: find_route_def)
qed

text \<open>
  The route table is unambiguous: a path matches at most one route, so the order in which routes
  are registered does not matter, and a request whose path matches a route that has its method is
  handled by exactly that handler.
\<close>

theorem routes_unambiguous:
  assumes "r \<in> set api_routes" "path_matches (rt_path r) path"
  shows "(\<forall>r' \<in> set api_routes. path_matches (rt_path r') path \<longrightarrow> r' = r) \<and>
    find_route m path = (case map_of (rt_methods r) m of None \<Rightarrow> Method_Not_Allowed | Some h \<Rightarrow> Handler h)"
  using route_unique [OF assms] routes_match_handler [OF assms] by blast

theorem routes_unambiguous_witness:
  "find_route DELETE [''api'', ''v1'', ''nodes'', ''n1''] = Handler ''delete_node''"
proof -
  let ?r = "\<lparr>rt_path = [Lit ''api'', Lit ''v1'', Lit ''nodes'', Param ''name''],
     rt_methods = [(GET, ''get_node''), (PUT, ''update_node''), (DELETE, ''delete_node'')]\<rparr>"
  have "?r \<in> set api_routes" by (simp add: api_routes_def core_routes_def)
  moreover have "path_matches (rt_path ?r) [''api'', ''v1'', ''nodes'', ''n1'']" by (simp add: path_matches_def)
  ultimately have "find_route DELETE [''api'', ''v1'', ''nodes'', ''n1''] =
      (case map_of (rt_methods ?r) DELETE of None \<Rightarrow> Method_Not_Allowed | Some h \<Rightarrow> Handler h)"
    using routes_unambiguous by blast
  then show ?thesis by simp
qed

section \<open>What is advertised and not served\<close>

lemma no_route:
  assumes "\<not> list_ex (prints_agree (route_prints pat)) table_prints" "path_matches pat path"
  shows "find_route m path = No_Route"
proof -
  have "\<not> path_matches (rt_path r) path" if "r \<in> set api_routes" for r
  proof
    assume "path_matches (rt_path r) path"
    then have "prints_agree (route_prints pat) (route_prints (rt_path r))"
      using assms(2) overlapI overlap_prints by blast
    with assms(1) that show False by (auto simp: table_prints_eq [symmetric] list_ex_iff)
  qed
  then show ?thesis by (auto simp: find_route_def find_None_iff [THEN iffD2])
qed

text \<open>
  The discovery documents advertise \<open>get\<close> for replication controllers and replica sets, but no
  route serves it.
\<close>

theorem stub_get_not_routed:
  assumes "ns \<noteq> []" "name \<noteq> []"
  shows "find_route m [''api'', ''v1'', ''namespaces'', ns, ''replicationcontrollers'', name] = No_Route \<and>
    find_route m [''apis'', ''apps'', ''v1'', ''namespaces'', ns, ''replicasets'', name] = No_Route"
proof
  show "find_route m [''api'', ''v1'', ''namespaces'', ns, ''replicationcontrollers'', name] = No_Route"
    by (rule no_route [of "[Lit ''api'', Lit ''v1'', Lit ''namespaces'', Param ''ns'', Lit ''replicationcontrollers'', Param ''n'']"])
       (code_simp, simp add: assms path_matches_def)
  show "find_route m [''apis'', ''apps'', ''v1'', ''namespaces'', ns, ''replicasets'', name] = No_Route"
    by (rule no_route [of "[Lit ''apis'', Lit ''apps'', Lit ''v1'', Lit ''namespaces'', Param ''ns'', Lit ''replicasets'', Param ''n'']"])
       (code_simp, simp add: assms path_matches_def)
qed

end
