(* ===== verification/Deployment_Props.thy ===== *)
theory Deployment_Props
  imports Controller_Inv
begin

text \<open>
  The deployment controller reaches the desired number of pods in one pass and then leaves the pods
  alone. \<open>dep_row\<close> is the row of a pod the controller counts for a deployment: in its namespace,
  selected, and owned by it. \<open>fresh_draws\<close> says that the next random UUIDs, and the names built
  from their first eight characters, are new; the program relies on it and never checks it.
\<close>

section \<open>Fresh draws\<close>

definition suffix_at :: "env \<Rightarrow> nat \<Rightarrow> string" where
  "suffix_at e i = take 8 (env_uuid_str e (env_uuid e i))"

definition fresh_draws :: "env \<Rightarrow> string \<Rightarrow> nat \<Rightarrow> world \<Rightarrow> bool" where
  "fresh_draws e name n w \<longleftrightarrow>
     (\<forall>i \<in> {w_uuids w ..< w_uuids w + n}. \<forall>r \<in> set (w_pods w).
        snd (r_key r) \<noteq> name @ ''-'' @ suffix_at e i \<and> r_uid r \<noteq> env_uuid e i) \<and>
     (\<forall>i \<in> {w_uuids w ..< w_uuids w + n}. \<forall>j \<in> {w_uuids w ..< w_uuids w + n}.
        i \<noteq> j \<longrightarrow> suffix_at e i \<noteq> suffix_at e j \<and> env_uuid e i \<noteq> env_uuid e j)"

lemma fresh_draws_shift:
  assumes "fresh_draws e name (m + n) w" "w_pods w' = w_pods w" "w_uuids w' = w_uuids w + m"
  shows "fresh_draws e name n w'"
  using assms by (auto simp: fresh_draws_def)

lemma fresh_drawsD:
  assumes "fresh_draws e name n w" "w_uuids w \<le> i" "i < w_uuids w + n"
  shows "find_row (ns, name @ ''-'' @ suffix_at e i) (w_pods w) = None" "env_uuid e i \<notin> r_uid ` set (w_pods w)"
proof -
  have f: "snd (r_key r) \<noteq> name @ ''-'' @ suffix_at e i \<and> r_uid r \<noteq> env_uuid e i" if "r \<in> set (w_pods w)" for r
    using assms that by (auto simp: fresh_draws_def)
  show "find_row (ns, name @ ''-'' @ suffix_at e i) (w_pods w) = None"
    unfolding find_row_None_iff using f by (metis snd_conv)
  show "env_uuid e i \<notin> r_uid ` set (w_pods w)" using f by (metis imageE)
qed

lemma pod_suffix_run: "pod_suffix e w = (Inr (suffix_at e (w_uuids w)), w\<lparr>w_uuids := Suc (w_uuids w)\<rparr>)"
  by (simp add: pod_suffix_def bindR_def new_v4_def returnR_def suffix_at_def)

lemma emit_event_run:
  obtains w' where "emit_event e ref ns typ reason msg cmpt w = (Inr (), w')" "w_pods w' = w_pods w"
    "w_uuids w' = w_uuids w + 2"
proof -
  obtain w' where w': "emit_event e ref ns typ reason msg cmpt w = (Inr (), w')"
    using emit_event_returns by (metis eq_fst_iff)
  have "keeps w_pods (emit_event e ref ns typ reason msg cmpt)"
    by (intro keeps_intros counter_free_w_pods) simp
  then have "w_pods w' = w_pods w" using w' by (rule keepsD)
  moreover have "w_uuids w' = w_uuids w + 2"
    using arg_cong [OF w', of "\<lambda>x. w_uuids (snd x)"]
    by (simp add: emit_event_def event_create_def bindR_def utc_now_def new_v4_def Let_def tryR_def returnR_def
        case_prod_beta events.create_uuids)
  ultimately show thesis using that w' by blast
qed

text \<open>Creating a pod whose name and uid are new, without failures.\<close>

lemma pod_create_fresh:
  assumes "no_faults e" "om_uid (pod_metadata p) = Some u"
    "find_row (meta_key (pod_metadata p)) (w_pods w) = None" "u \<notin> r_uid ` set (w_pods w)"
  obtains q t w' where "pod_create e p w = (Inr q, w')" "w_uuids w' = w_uuids w"
    "w_pods w' = w_pods w @ [\<lparr>r_uid = u, r_key = meta_key (pod_metadata p), r_cols = pod_cols_of p,
                              r_created_at = t, r_updated_at = t\<rparr>]"
  using pods.create_fresh [OF assms(1,3,4), of row_to_pod pod_nf replace_cols "\<lambda>_. pod_cols_of p"] assms(2)
  unfolding pod_create_def by auto

section \<open>What the controller counts\<close>

definition dep_filter :: "deployment \<Rightarrow> smap option" where
  "dep_filter d = (if deployment_selector d = [] then None else Some (deployment_selector d))"

definition dep_row :: "deployment \<Rightarrow> (nskey, pod_cols) row \<Rightarrow> bool" where
  "dep_row d r \<longleftrightarrow> in_ns (Some (meta_namespace (dep_metadata d))) r \<and>
     pod_selected (dep_filter d) (row_to_pod r) \<and> owned_by (om_uid (dep_metadata d)) (row_to_pod r)"

definition dep_count :: "deployment \<Rightarrow> world \<Rightarrow> nat" where
  "dep_count d w = length (filter (dep_row d) (w_pods w))"

text \<open>The template carries the labels the selector asks for.\<close>

definition template_selected :: "deployment \<Rightarrow> bool" where
  "template_selected d \<longleftrightarrow> deployment_selector d = [] \<or>
     (\<exists>l. om_labels (tpl_metadata (ds_template (dep_spec d))) = Some l \<and> labels_match (deployment_selector d) l)"

definition dep_owned :: "deployment \<Rightarrow> world \<Rightarrow> pod list" where
  "dep_owned d w = map row_to_pod (sort_key (\<lambda>r. - r_created_at r) (filter (dep_row d) (w_pods w)))"

lemma length_dep_owned [simp]: "length (dep_owned d w) = dep_count d w"
  by (simp add: dep_owned_def dep_count_def)

lemma owned_list:
  "filter (owned_by (om_uid (dep_metadata d)))
     (filter (pod_selected (dep_filter d)) (map row_to_pod (sort_key (\<lambda>r. - r_created_at r)
        (filter (in_ns (Some (meta_namespace (dep_metadata d)))) (w_pods w))))) = dep_owned d w"
  by (simp add: dep_owned_def dep_row_def [abs_def] filter_map filter_sort comp_def conj_ac)

text \<open>A reconciliation whose listing succeeds: scaling, then the status.\<close>

lemma reconcile_deployment_run:
  assumes "\<not> env_fails e (w_stmts w)"
  shows "w_pods (snd (reconcile_deployment e d w)) =
    w_pods (snd (scale_deployment e d (dep_owned d w) (w\<lparr>w_stmts := Suc (w_stmts w)\<rparr>)))"
proof -
  let ?ns = "meta_namespace (dep_metadata d)" and ?w = "w\<lparr>w_stmts := Suc (w_stmts w)\<rparr>"
  have list: "pod_list e (Some ?ns) (if deployment_selector d = [] then None else Some (deployment_selector d)) w =
      (Inr (filter (pod_selected (dep_filter d)) (map row_to_pod (sort_key (\<lambda>r. - r_created_at r)
        (filter (in_ns (Some ?ns)) (w_pods w))))), ?w)"
    using assms
    by (simp add: pod_list_def repo_list_def bindR_def sql_select_def sql_stmt_def Let_def returnR_def dep_filter_def)
  obtain r1 w1 where s: "scale_deployment e d (dep_owned d w) ?w = (r1, w1)" by force
  have upd: "keeps w_pods (deployment_update_status e ?ns (meta_name (dep_metadata d)) a b)" for a b
    unfolding deployment_update_status_def by (intro keeps_intros counter_free_w_pods) simp
  have rd: "reconcile_deployment e d w =
      bindR (scale_deployment e d (dep_owned d w)) (\<lambda>_.
        deployment_update_status e ?ns (meta_name (dep_metadata d))
          (len_i32 (filter is_running (dep_owned d w))) (len_i32 (filter is_running (dep_owned d w)))) ?w"
    unfolding reconcile_deployment_def Let_def
    by (subst bindR_def, subst list) (simp only: prod.case sum.case owned_list)
  show ?thesis
    unfolding rd using upd by (cases r1) (auto simp: bindR_def s keeps_def)
qed

section \<open>Scaling up\<close>

lemma dep_row_new:
  assumes "om_uid (dep_metadata d) = Some du" "template_selected d"
  shows "dep_row d \<lparr>r_uid = u, r_key = (meta_namespace (dep_metadata d), n),
    r_cols = pod_cols_of (pod_from_template (ds_template (dep_spec d)) (meta_namespace (dep_metadata d)) n u
      (owner_ref ''Deployment'' (meta_name (dep_metadata d)) du)), r_created_at = t, r_updated_at = t\<rparr>"
  using assms
  by (auto simp: dep_row_def in_ns_def dep_filter_def pod_selected_def template_selected_def owned_by_def
      row_to_pod_def Let_def pod_cols_of_def pod_from_template_def owner_ref_def ns_row_meta_def
      object_meta_default_def split: option.split)

lemma create_pod_for_deployment_run:
  assumes nf: "no_faults e" and uid: "om_uid (dep_metadata d) = Some du" and sel: "template_selected d"
    and fresh: "fresh_draws e (meta_name (dep_metadata d)) (2 + n) w"
  obtains r w' where "create_pod_for_deployment e d w = (Inr (), w')" "w_pods w' = w_pods w @ [r]" "dep_row d r"
    "fresh_draws e (meta_name (dep_metadata d)) n w'"
proof -
  let ?ns = "meta_namespace (dep_metadata d)" and ?name = "meta_name (dep_metadata d)"
  let ?i = "w_uuids w"
  define pn where "pn = ?name @ ''-'' @ suffix_at e ?i"
  define u where "u = env_uuid e (Suc ?i)"
  define p where "p = pod_from_template (ds_template (dep_spec d)) ?ns pn u (owner_ref ''Deployment'' ?name du)"
  let ?w = "w\<lparr>w_uuids := Suc (Suc ?i)\<rparr>"
  have key: "meta_key (pod_metadata p) = (?ns, pn)" and pu: "om_uid (pod_metadata p) = Some u"
    by (simp_all add: p_def pod_from_template_def meta_key_def meta_namespace_def meta_name_def)
  have "find_row (?ns, pn) (w_pods ?w) = None" and "u \<notin> r_uid ` set (w_pods ?w)"
    using fresh_drawsD [OF fresh, of ?i] fresh_drawsD [OF fresh, of "Suc ?i"] by (simp_all add: pn_def u_def)
  with nf pu key obtain q t w1 where c: "pod_create e p ?w = (Inr q, w1)" "w_uuids w1 = w_uuids ?w"
    "w_pods w1 = w_pods ?w @ [\<lparr>r_uid = u, r_key = (?ns, pn), r_cols = pod_cols_of p, r_created_at = t, r_updated_at = t\<rparr>]"
    using pod_create_fresh [of e p u ?w] by metis
  let ?r = "\<lparr>r_uid = u, r_key = (?ns, pn), r_cols = pod_cols_of p, r_created_at = t, r_updated_at = t\<rparr>"
  obtain w2 where pub: "publish_added ''Pod'' (Some ?ns) pn (KPod p) w1 = (Inr (), w2)"
    "w_pods w2 = w_pods w1" "w_uuids w2 = w_uuids w1" by (simp add: publish_added_def)
  have run: "create_pod_for_deployment e d w = (Inr (), w2)"
    using c(1) pub(1)
    by (simp add: create_pod_for_deployment_def uid uid_or_new_def bindR_def returnR_def pod_suffix_run
        new_v4_def Let_def pn_def u_def p_def)
  have "fresh_draws e ?name n w2"
    using fresh pub c(2,3) by (auto simp: fresh_draws_def pn_def u_def)
  with run pub c(3) dep_row_new [OF uid sel] show thesis
    by (intro that [of w2 ?r]) (simp_all add: p_def)
qed

lemma for_each_logged_Cons:
  "for_each_logged body (x # xs) w = for_each_logged body xs (snd (body x w))"
  by (simp add: for_each_logged_def bindR_def tryR_def returnR_def split: prod.split)

lemma for_each_logged_Nil [simp]: "for_each_logged body [] w = (Inr (), w)"
  by (simp add: for_each_logged_def returnR_def)

lemma create_loop:
  assumes "no_faults e" "om_uid (dep_metadata d) = Some du" "template_selected d"
    and "fresh_draws e (meta_name (dep_metadata d)) (2 * length xs) w"
  shows "dep_count d (snd (for_each_logged (\<lambda>_. create_pod_for_deployment e d) xs w)) = dep_count d w + length xs"
  using assms(4)
proof (induction xs arbitrary: w)
  case (Cons x xs)
  have "fresh_draws e (meta_name (dep_metadata d)) (2 + 2 * length xs) w" using Cons.prems by simp
  with assms(1-3) obtain r w' where c: "create_pod_for_deployment e d w = (Inr (), w')"
    "w_pods w' = w_pods w @ [r]" "dep_row d r" "fresh_draws e (meta_name (dep_metadata d)) (2 * length xs) w'"
    by (rule create_pod_for_deployment_run)
  with Cons.IH [of w'] show ?case by (simp add: for_each_logged_Cons dep_count_def)
qed (simp add: dep_count_def)

section \<open>Scaling down\<close>

lemma delete_and_publish_run:
  assumes "no_faults e" "om_name (pod_metadata p) = Some n"
  shows "w_pods (snd (delete_and_publish e ns p w)) = filter (\<lambda>r. \<not> r_key r = (ns, n)) (w_pods w)"
proof -
  obtain res w1 where "pod_delete e ns n w = (res, w1)" "w_pods w1 = filter (\<lambda>r. \<not> r_key r = (ns, n)) (w_pods w)"
    using pods.delete_run [OF assms(1)] unfolding pod_delete_def by metis
  then show ?thesis by (simp add: delete_and_publish_def assms(2) tryR_def publish_deleted_def)
qed

lemma delete_loop:
  assumes "no_faults e"
  shows "\<forall>r \<in> set rs. fst (r_key r) = ns \<Longrightarrow>
    w_pods (snd (for_each_logged (delete_and_publish e ns) (map row_to_pod rs) w)) =
    filter (\<lambda>r. r_key r \<notin> r_key ` set rs) (w_pods w)"
proof (induction rs arbitrary: w)
  case (Cons r rs)
  have "om_name (pod_metadata (row_to_pod r)) = Some (snd (r_key r))"
    by (simp add: row_to_pod_def Let_def ns_row_meta_def)
  from delete_and_publish_run [OF assms this] Cons.prems
  have w1: "w_pods (snd (delete_and_publish e ns (row_to_pod r) w)) = filter (\<lambda>x. \<not> r_key x = r_key r) (w_pods w)"
    by (metis list.set_intros(1) prod.collapse)
  from Cons show ?case by (simp add: for_each_logged_Cons w1 conj_commute)
qed simp

lemma count_after_delete:
  assumes ok: "distinct (map r_key rows)" and sub: "set rs \<subseteq> set (filter P rows)" "distinct rs"
  shows "length (filter P (filter (\<lambda>r. r_key r \<notin> r_key ` set rs) rows)) = length (filter P rows) - length rs"
proof -
  let ?keep = "\<lambda>r. r_key r \<notin> r_key ` set rs"
  have inj: "inj_on r_key (set rows)" and d: "distinct rows" using ok by (simp_all add: distinct_map)
  have eq: "set (filter P (filter ?keep rows)) = set (filter P rows) - set rs"
    using sub(1) inj by (auto dest: inj_onD)
  have "length (filter P (filter ?keep rows)) = card (set (filter P (filter ?keep rows)))"
    using d by (simp only: distinct_card distinct_filter)
  also have "\<dots> = card (set (filter P rows)) - card (set rs)"
    unfolding eq using sub(1) by (simp add: card_Diff_subset)
  also have "\<dots> = length (filter P rows) - length rs"
    using d sub(2) by (simp only: distinct_card distinct_filter)
  finally show ?thesis .
qed

section \<open>Convergence\<close>

lemma scale_down:
  assumes nf: "no_faults e" and ok: "table_ok (w_pods w)" and pods: "w_pods w1 = w_pods w"
    and n: "n \<le> dep_count d w"
  shows "dep_count d (snd (for_each_logged (delete_and_publish e (meta_namespace (dep_metadata d)))
      (take n (dep_owned d w)) w1)) = dep_count d w - n"
proof -
  let ?srt = "sort_key (\<lambda>r. - r_created_at r) (filter (dep_row d) (w_pods w))"
  let ?rs = "take n ?srt"
  have sub: "set ?rs \<subseteq> set (filter (dep_row d) (w_pods w))" using set_take_subset [of n ?srt] by auto
  have ns: "\<forall>r \<in> set ?rs. fst (r_key r) = meta_namespace (dep_metadata d)"
    using sub by (auto simp: dep_row_def in_ns_def)
  have dist: "distinct (map r_key (w_pods w))" using ok by (simp add: table_ok_def)
  then have "distinct ?rs" by (simp add: distinct_map)
  from count_after_delete [OF dist sub this] delete_loop [OF nf ns, of w1] show ?thesis
    using n by (simp add: dep_owned_def take_map dep_count_def pods)
qed

lemma wrap_i32_small: "0 \<le> z \<Longrightarrow> z \<le> 2147483647 \<Longrightarrow> wrap_i32 z = z"
  by (simp add: i32_ok_def)

text \<open>Scaling with a count below and above the desired one, from a world \<open>w1\<close> with the pods of \<open>w\<close>.\<close>

lemma scale_deployment_up:
  assumes nf: "no_faults e" and uid: "om_uid (dep_metadata d) = Some du" and sel: "template_selected d"
    and cur: "len_i32 (dep_owned d w) = int (dep_count d w)" and w1: "w_pods w1 = w_pods w"
    and less: "int (dep_count d w) < deployment_replicas (dep_spec d)" "deployment_replicas (dep_spec d) \<le> 2147483647"
    and fresh: "fresh_draws e (meta_name (dep_metadata d)) (2 + 2 * nat (deployment_replicas (dep_spec d))) w1"
  shows "dep_count d (snd (scale_deployment e d (dep_owned d w) w1)) = nat (deployment_replicas (dep_spec d))"
proof -
  let ?n = "nat (deployment_replicas (dep_spec d))" and ?k = "nat (deployment_replicas (dep_spec d)) - dep_count d w"
  let ?name = "meta_name (dep_metadata d)"
  obtain w2 where ev: "emit_event e (deployment_ref d) (meta_namespace (dep_metadata d)) ET_Normal ''ScalingReplicaSet''
      (scale_message ''up'' ?name (int (dep_count d w)) (deployment_replicas (dep_spec d))) ''deployment-controller'' w1
      = (Inr (), w2)" "w_pods w2 = w_pods w1" "w_uuids w2 = w_uuids w1 + 2"
    by (rule emit_event_run)
  have "fresh_draws e ?name (2 * ?n) w2" using fresh_draws_shift [OF fresh ev(2,3)] .
  then have "fresh_draws e ?name (2 * length [0 ..< ?k]) w2" by (auto simp: fresh_draws_def)
  from create_loop [OF nf uid sel this]
  have "dep_count d (snd (for_each_logged (\<lambda>_. create_pod_for_deployment e d) [0 ..< ?k] w2)) = dep_count d w + ?k"
    by (simp add: dep_count_def ev(2) w1)
  moreover have "nat (wrap_i32 (deployment_replicas (dep_spec d) - int (dep_count d w))) = ?k"
    using less by (simp add: wrap_i32_small nat_diff_distrib)
  ultimately show ?thesis using less(1) by (simp add: scale_deployment_def Let_def cur bindR_def ev(1))
qed

lemma scale_deployment_down:
  assumes nf: "no_faults e" and ok: "table_ok (w_pods w)"
    and cur: "len_i32 (dep_owned d w) = int (dep_count d w)" and w1: "w_pods w1 = w_pods w"
    and less: "0 \<le> deployment_replicas (dep_spec d)" "deployment_replicas (dep_spec d) < int (dep_count d w)"
    and small: "dep_count d w \<le> 2147483647"
  shows "dep_count d (snd (scale_deployment e d (dep_owned d w) w1)) = nat (deployment_replicas (dep_spec d))"
proof -
  let ?k = "dep_count d w - nat (deployment_replicas (dep_spec d))"
  obtain w2 where ev: "emit_event e (deployment_ref d) (meta_namespace (dep_metadata d)) ET_Normal ''ScalingReplicaSet''
      (scale_message ''down'' (meta_name (dep_metadata d)) (int (dep_count d w)) (deployment_replicas (dep_spec d)))
      ''deployment-controller'' w1 = (Inr (), w2)" "w_pods w2 = w_pods w1" "w_uuids w2 = w_uuids w1 + 2"
    by (rule emit_event_run)
  have k: "as_usize (wrap_i32 (int (dep_count d w) - deployment_replicas (dep_spec d))) = ?k"
    using less small by (simp add: wrap_i32_small as_usize_def nat_diff_distrib)
  have "dep_count d (snd (for_each_logged (delete_and_publish e (meta_namespace (dep_metadata d)))
      (take ?k (dep_owned d w)) w2)) = dep_count d w - ?k"
    using ev(2) w1 by (intro scale_down nf ok) simp_all
  then show ?thesis using less by (simp add: scale_deployment_def Let_def cur bindR_def ev(1) k)
qed

text \<open>
  C10. One pass of the deployment controller brings the pods of a deployment to the desired number,
  from any number below or above it: without database failures, with new random names, and with a
  template whose labels match the selector.
\<close>

theorem deployment_converges:
  assumes "no_faults e" "db_ok w" "om_uid (dep_metadata d) = Some du" "template_selected d"
    and "0 \<le> deployment_replicas (dep_spec d)" "deployment_replicas (dep_spec d) \<le> 2147483647"
    and "length (w_pods w) \<le> 2147483647"
    and "fresh_draws e (meta_name (dep_metadata d)) (2 + 2 * nat (deployment_replicas (dep_spec d))) w"
  shows "dep_count d (snd (reconcile_deployment e d w)) = nat (deployment_replicas (dep_spec d))"
proof -
  let ?w = "w\<lparr>w_stmts := Suc (w_stmts w)\<rparr>" and ?r = "deployment_replicas (dep_spec d)"
  have small: "dep_count d w \<le> 2147483647" using assms(7) by (simp add: dep_count_def le_trans [OF length_filter_le])
  then have cur: "len_i32 (dep_owned d w) = int (dep_count d w)" by (simp add: len_i32_def wrap_i32_small)
  have fresh: "fresh_draws e (meta_name (dep_metadata d)) (2 + 2 * nat ?r) ?w" using assms(8) by (simp add: fresh_draws_def)
  have ok: "table_ok (w_pods w)" using assms(2) by (rule pods.db_ok_tbl)
  consider "int (dep_count d w) < ?r" | "?r < int (dep_count d w)" | "?r = int (dep_count d w)" by linarith
  then have "dep_count d (snd (scale_deployment e d (dep_owned d w) ?w)) = nat ?r"
  proof cases
    case 3
    then show ?thesis by (simp add: scale_deployment_def Let_def cur returnR_def) (simp add: dep_count_def)
  qed (use scale_deployment_up [OF assms(1,3,4) cur _ _ assms(6) fresh] scale_deployment_down [OF assms(1) ok cur _ assms(5) _ small]
       in simp_all)
  then show ?thesis using reconcile_deployment_run [of e w d] assms(1) by (simp add: dep_count_def no_faults_def)
qed

text \<open>A deployment of one replica, and a world in which its only pod has Failed.\<close>

definition owned_deployment :: deployment where
  "owned_deployment = deployment_default\<lparr>dep_metadata := object_meta_default\<lparr>om_name := Some ''web'', om_uid := Some 9\<rparr>\<rparr>"

lemma owned_deployment_simps:
  "deployment_selector owned_deployment = []" "deployment_replicas (dep_spec owned_deployment) = 1"
  "meta_name (dep_metadata owned_deployment) = ''web''" "om_uid (dep_metadata owned_deployment) = Some 9"
  "meta_namespace (dep_metadata owned_deployment) = ''default''"
  by code_simp+

lemma owned_deployment_fresh: "fresh_draws sample_env ''web'' 4 empty_world"
proof -
  have set: "{0 ..< 4} = {0, 1, 2, 3 :: nat}" by auto
  have "suffix_at sample_env 0 = ''1''" "suffix_at sample_env 1 = ''2''" "suffix_at sample_env 2 = ''3''"
    "suffix_at sample_env 3 = ''4''" by code_simp+
  then show ?thesis by (simp add: fresh_draws_def empty_world_def set) (simp add: sample_env_def)
qed

theorem deployment_converges_witness:
  "dep_count owned_deployment (snd (reconcile_deployment sample_env owned_deployment empty_world)) = 1"
  using deployment_converges [of sample_env empty_world owned_deployment 9] owned_deployment_fresh
  by (simp add: owned_deployment_simps template_selected_def) (simp add: empty_world_def)

text \<open>
  A deployment that has the desired number of pods is left alone: no pod is created, changed or
  deleted, even if every one of its pods has Failed, and whichever statements fail.
\<close>

theorem deployment_stable:
  assumes "int (dep_count d w) = deployment_replicas (dep_spec d)" "dep_count d w \<le> 2147483647"
  shows "w_pods (snd (reconcile_deployment e d w)) = w_pods w"
proof (cases "env_fails e (w_stmts w)")
  case True
  then show ?thesis
    by (simp add: reconcile_deployment_def Let_def pod_list_def repo_list_def bindR_def sql_select_def sql_stmt_def)
next
  case False
  have "len_i32 (dep_owned d w) = int (dep_count d w)"
    using assms(2) by (simp add: len_i32_def wrap_i32_small)
  then show ?thesis
    using reconcile_deployment_run [OF False] assms(1) by (simp add: scale_deployment_def Let_def returnR_def)
qed

definition failed_world :: world where
  "failed_world = empty_world\<lparr>w_pods := [\<lparr>r_uid = 2, r_key = (''default'', ''web-1''),
     r_cols = (pod_cols_of (named_pod ''web-1''))\<lparr>pr_status := ''Failed'',
       pr_owner_reference := Some [owner_ref ''Deployment'' ''web'' 9]\<rparr>, r_created_at = 0, r_updated_at = 0\<rparr>]\<rparr>"

theorem deployment_stable_witness:
  "w_pods (snd (reconcile_deployment sample_env owned_deployment failed_world)) = w_pods failed_world \<and>
   map phase_of (cluster_pods failed_world) = [Failed] \<and> dep_count owned_deployment failed_world = 1"
proof -
  have c: "dep_count owned_deployment failed_world = 1"
    by (simp add: dep_count_def failed_world_def dep_row_def dep_filter_def owned_deployment_simps in_ns_def
        pod_selected_def owned_by_def row_to_pod_def Let_def pod_cols_of_def owner_ref_def)
  have "map phase_of (cluster_pods failed_world) = [Failed]"
    by (simp add: cluster_pods_def failed_world_def phase_of_def row_to_pod_def Let_def pod_phase_of_def)
  with deployment_stable [of owned_deployment failed_world sample_env] c show ?thesis
    by (simp add: owned_deployment_simps)
qed

end
