(* ===== verification/Pod_Controller_Props.thy ===== *)
theory Pod_Controller_Props
  imports Deployment_Props
begin

text \<open>
  The pod controller and the service controller. After a pass of the pod controller no Running pod
  is bound to a node that is not Ready; a Failed pod nobody owns is started afresh, and other pods
  are left alone. The endpoints of a service are exactly the addresses of the Running pods it
  selects.
\<close>

section \<open>Pods on dead nodes\<close>

definition row_node :: "(nskey, pod_cols) row \<Rightarrow> string option" where
  "row_node r = ps_node_name (pod_spec (row_to_pod r))"

text \<open>Not a Running pod on a node outside \<open>ready\<close>.\<close>

definition row_alive :: "string list \<Rightarrow> (nskey, pod_cols) row \<Rightarrow> bool" where
  "row_alive ready r \<longleftrightarrow> phase_of (row_to_pod r) = Running \<longrightarrow> (\<forall>n. row_node r = Some n \<longrightarrow> n \<in> set ready)"

lemma phase_of_row: "phase_of (row_to_pod r) = pod_phase_of (pr_status (r_cols r))"
  by (simp add: phase_of_def row_to_pod_def Let_def)

lemma meta_row [simp]:
  "meta_namespace (pod_metadata (row_to_pod r)) = fst (r_key r)"
  "meta_name (pod_metadata (row_to_pod r)) = snd (r_key r)"
  by (simp_all add: row_to_pod_def Let_def ns_row_meta_def meta_namespace_def meta_name_def)

lemma update_status_run:
  assumes "no_faults e"
  obtains w' t where "pod_update_status e ns name st w = (Inr (), w')"
    "w_pods w' = map (\<lambda>r. if r_key r = (ns, name) then r\<lparr>r_cols := (r_cols r)\<lparr>pr_status := pod_phase_fmt (pt_phase st),
       pr_pod_ip := pt_pod_ip st, pr_host_ip := pt_host_ip st,
       pr_container_statuses := pt_container_statuses st\<rparr>, r_updated_at := t\<rparr> else r) (w_pods w)"
  using assms
  by (intro that [where t = "env_now e (w_ticks w)"])
     (auto simp: pod_update_status_def bindR_def utc_now_def sql_update_def sql_stmt_ok returnR_def)

lemma mark_failed_skip:
  "\<not> (\<exists>n. ps_node_name (pod_spec p) = Some n \<and> n \<notin> set ready \<and> phase_of p = Running) \<Longrightarrow>
   mark_failed e ready p w = (Inr (), w)"
  by (auto simp: mark_failed_def returnR_def split: option.split)

lemma mark_failed_run:
  assumes nf: "no_faults e" and n: "ps_node_name (pod_spec p) = Some n" "n \<notin> set ready" "phase_of p = Running"
  obtains t where "w_pods (snd (mark_failed e ready p w)) =
    map (\<lambda>r. if r_key r = pod_key p then r\<lparr>r_cols := (r_cols r)\<lparr>pr_status := ''Failed'',
       pr_pod_ip := None, pr_host_ip := Option.bind (pod_status p) pt_host_ip,
       pr_container_statuses := None\<rparr>, r_updated_at := t\<rparr> else r) (w_pods w)"
    and "fst (mark_failed e ready p w) = Inr ()"
proof -
  let ?ns = "meta_namespace (pod_metadata p)" and ?name = "meta_name (pod_metadata p)"
  let ?st = "pod_status_default\<lparr>pt_phase := Failed, pt_pod_ip := None,
               pt_host_ip := Option.bind (pod_status p) pt_host_ip\<rparr>"
  let ?rest = "tryR (pod_get e ?ns ?name) (\<lambda>res.
      bindR (case res of Inr updated \<Rightarrow> publish_modified ''Pod'' (Some ?ns) ?name (KPod updated) | Inl _ \<Rightarrow> returnR ()) (\<lambda>_.
      emit_event e (pod_ref p) ?ns ET_Warning ''NodeNotReady''
        (''Node '' @ n @ '' stopped reporting ready, pod marked Failed'') ''node-controller''))"
  obtain w1 t where u: "pod_update_status e ?ns ?name ?st w = (Inr (), w1)"
    "w_pods w1 = map (\<lambda>r. if r_key r = (?ns, ?name) then r\<lparr>r_cols := (r_cols r)\<lparr>pr_status := pod_phase_fmt (pt_phase ?st),
       pr_pod_ip := pt_pod_ip ?st, pr_host_ip := pt_host_ip ?st,
       pr_container_statuses := pt_container_statuses ?st\<rparr>, r_updated_at := t\<rparr> else r) (w_pods w)"
    using nf by (rule update_status_run)
  have "keeps w_pods ?rest" unfolding pod_get_def by (intro keeps_intros counter_free_w_pods) simp_all
  then have k: "w_pods (snd (?rest w1)) = w_pods w1" by (simp add: keeps_def)
  have r: "fst (?rest w1) = Inr ()"
    by (auto simp: tryR_def bindR_def publish_modified_def returnR_def emit_event_returns split: prod.split sum.split)
  have run: "mark_failed e ready p w = ?rest w1"
    using n u(1) by (simp add: mark_failed_def Let_def tryR_def [of "pod_update_status _ _ _ _"])
  show thesis
    by (rule that [of t]) (simp_all only: run k r, simp add: u(2) pod_key_def meta_key_def pod_status_default_def)
qed

lemma respawn_skip:
  "\<not> (\<not> pod_owned p \<and> phase_of p = Failed \<and> restart_always p) \<Longrightarrow> respawn e p w = (Inr (), w)"
  by (auto simp: respawn_def returnR_def)

text \<open>The pod created in its place.\<close>

definition respun :: "pod \<Rightarrow> uuid \<Rightarrow> pod" where
  "respun p u = p\<lparr>pod_spec := (pod_spec p)\<lparr>ps_node_name := None\<rparr>,
     pod_metadata := (pod_metadata p)\<lparr>om_uid := Some u\<rparr>,
     pod_status := Some (pod_status_default\<lparr>pt_phase := Pending\<rparr>)\<rparr>"

lemma respun_key [simp]: "meta_key (pod_metadata (respun p u)) = pod_key p"
  by (simp add: respun_def pod_key_def meta_key_def meta_namespace_def meta_name_def)

lemma find_row_filtered: "find_row k (filter (\<lambda>r. \<not> r_key r = k) rows) = None"
  by (auto simp: find_row_None_iff)

lemma respawn_run:
  assumes nf: "no_faults e" and c: "\<not> pod_owned p" "phase_of p = Failed" "restart_always p"
  obtains (created) t where "env_uuid e (w_uuids w) \<notin> r_uid ` {r \<in> set (w_pods w). r_key r \<noteq> pod_key p}"
      "w_pods (snd (respawn e p w)) = filter (\<lambda>r. \<not> r_key r = pod_key p) (w_pods w) @
        [\<lparr>r_uid = env_uuid e (w_uuids w), r_key = pod_key p, r_cols = pod_cols_of (respun p (env_uuid e (w_uuids w))),
          r_created_at = t, r_updated_at = t\<rparr>]"
  | (clash) "env_uuid e (w_uuids w) \<in> r_uid ` {r \<in> set (w_pods w). r_key r \<noteq> pod_key p}"
      "w_pods (snd (respawn e p w)) = filter (\<lambda>r. \<not> r_key r = pod_key p) (w_pods w)"
proof -
  let ?ns = "meta_namespace (pod_metadata p)" and ?name = "meta_name (pod_metadata p)"
  let ?u = "env_uuid e (w_uuids w)"
  obtain res w1 where d: "pod_delete e ?ns ?name w = (res, w1)"
    "w_pods w1 = filter (\<lambda>r. \<not> r_key r = (?ns, ?name)) (w_pods w)" "w_uuids w1 = w_uuids w"
    using pods.delete_run [OF nf] unfolding pod_delete_def by metis
  obtain w2 where pd: "publish_deleted ''Pod'' (Some ?ns) ?name (KPod p) w1 = (Inr (), w2)"
    "w_pods w2 = w_pods w1" "w_uuids w2 = w_uuids w1" by (simp add: publish_deleted_def)
  let ?w3 = "w2\<lparr>w_uuids := Suc (w_uuids w)\<rparr>"
  have nv: "new_v4 e w2 = (Inr ?u, ?w3)" by (simp add: new_v4_def pd(3) d(3))
  obtain res4 w4 where cr: "pod_create e (respun p ?u) ?w3 = (res4, w4)" by force
  have run: "w_pods (snd (respawn e p w)) = w_pods w4"
    using c d(1) pd(1) nv cr
    by (simp add: respawn_def Let_def tryR_def bindR_def respun_def publish_added_def)
  have pods3: "w_pods ?w3 = filter (\<lambda>r. \<not> r_key r = pod_key p) (w_pods w)"
    by (simp add: pd(2) d(2) pod_key_def meta_key_def)
  have none: "find_row (meta_key (pod_metadata (respun p ?u))) (w_pods ?w3) = None"
    unfolding pods3 respun_key by (rule find_row_filtered)
  have uid: "om_uid (pod_metadata (respun p ?u)) = Some ?u" by (simp add: respun_def)
  have set3: "set (w_pods ?w3) = {r \<in> set (w_pods w). r_key r \<noteq> pod_key p}" unfolding pods3 by auto
  show thesis
  proof (cases "?u \<in> r_uid ` set (w_pods ?w3)")
    case False
    from pod_create_fresh [OF nf uid none False] obtain q t w' where
      "pod_create e (respun p ?u) ?w3 = (Inr q, w')"
      "w_pods w' = w_pods ?w3 @ [\<lparr>r_uid = ?u, r_key = pod_key p, r_cols = pod_cols_of (respun p ?u),
                                r_created_at = t, r_updated_at = t\<rparr>]" unfolding respun_key by metis
    with cr run False set3 pods3 show thesis by (intro created [of t]) simp_all
  next
    case True
    have "list_ex (\<lambda>x. r_uid x = ?u) (w_pods ?w3)" using True by (auto simp: list_ex_iff)
    then have "w_pods w4 = w_pods ?w3"
      using cr nf none uid
      by (auto simp: pod_create_def repo_create_def uid_or_new_def bindR_def returnR_def utc_now_def
          sql_upsert_def sql_stmt_ok upsert_rows_def key_in_find)
    with run True set3 pods3 show thesis by (intro clash) simp_all
  qed
qed

lemma row_alive_failed:
  "row_alive ready (r\<lparr>r_cols := (r_cols r)\<lparr>pr_status := ''Failed'', pr_pod_ip := a, pr_host_ip := b,
     pr_container_statuses := c\<rparr>, r_updated_at := t\<rparr>)"
  by (simp add: row_alive_def phase_of_row pod_phase_of_def)

lemma row_alive_respun:
  "row_alive ready \<lparr>r_uid = u, r_key = k, r_cols = pod_cols_of (respun p v), r_created_at = t, r_updated_at = t\<rparr>"
  by (simp add: row_alive_def phase_of_row pod_cols_of_def respun_def pod_phase_of_def)

text \<open>What is read back of a row a pod was written into.\<close>

lemma row_of_cols:
  assumes "r_cols r = pod_cols_of q"
  shows "pod_spec (row_to_pod r) = pod_spec q"
    and "om_labels (pod_metadata (row_to_pod r)) = om_labels (pod_metadata q)"
    and "phase_of (row_to_pod r) = phase_of q"
    and "om_owner_references (pod_metadata (row_to_pod r)) = om_owner_references (pod_metadata q)"
proof -
  show "phase_of (row_to_pod r) = phase_of q"
    unfolding phase_of_row assms
    by (cases "pod_status q") (simp_all add: pod_cols_of_def phase_of_def, simp add: pod_phase_of_def)
qed (use assms in \<open>auto simp: row_to_pod_def Let_def pod_cols_of_def split: option.split\<close>)

text \<open>One turn of the loop: the row it is about is settled, the others are as they were.\<close>

lemma reconcile_pod_step:
  assumes nf: "no_faults e" and before: "\<forall>r \<in> set (w_pods w). row_alive ready r \<or> r = r0 \<or> r \<in> R"
  shows "\<forall>r \<in> set (w_pods (snd (reconcile_pod e ready (row_to_pod r0) w))). row_alive ready r \<or> r \<in> R"
proof (cases "row_alive ready r0")
  case True
  then have "mark_failed e ready (row_to_pod r0) w = (Inr (), w)"
    by (intro mark_failed_skip) (auto simp: row_alive_def row_node_def)
  then have run: "reconcile_pod e ready (row_to_pod r0) w = respawn e (row_to_pod r0) w"
    by (simp add: reconcile_pod_def bindR_def)
  show ?thesis
  proof (cases "\<not> pod_owned (row_to_pod r0) \<and> phase_of (row_to_pod r0) = Failed \<and> restart_always (row_to_pod r0)")
    case c: True
    then have "\<not> pod_owned (row_to_pod r0)" "phase_of (row_to_pod r0) = Failed" "restart_always (row_to_pod r0)" by auto
    from nf this show ?thesis
      by (rule respawn_run [where w = w]) (use run True before row_alive_respun in auto)
  next
    case False
    with run respawn_skip [OF False] True before show ?thesis by auto
  qed
next
  case False
  then obtain n where n: "ps_node_name (pod_spec (row_to_pod r0)) = Some n" "n \<notin> set ready"
    "phase_of (row_to_pod r0) = Running" by (auto simp: row_alive_def row_node_def)
  obtain t where m: "w_pods (snd (mark_failed e ready (row_to_pod r0) w)) =
      map (\<lambda>r. if r_key r = pod_key (row_to_pod r0) then r\<lparr>r_cols := (r_cols r)\<lparr>pr_status := ''Failed'',
        pr_pod_ip := None, pr_host_ip := Option.bind (pod_status (row_to_pod r0)) pt_host_ip,
        pr_container_statuses := None\<rparr>, r_updated_at := t\<rparr> else r) (w_pods w)"
    "fst (mark_failed e ready (row_to_pod r0) w) = Inr ()"
    using nf n by (rule mark_failed_run)
  have "w_pods (snd (reconcile_pod e ready (row_to_pod r0) w)) = w_pods (snd (mark_failed e ready (row_to_pod r0) w))"
    using m(2) n(3) by (auto simp: reconcile_pod_def bindR_def respawn_skip split: prod.split sum.split)
  with m(1) before show ?thesis by (auto simp: row_alive_failed)
qed

lemma reconcile_pods_loop:
  assumes "no_faults e"
  shows "\<forall>r \<in> set (w_pods w). row_alive ready r \<or> r \<in> set rs \<Longrightarrow>
    \<forall>r \<in> set (w_pods (snd (for_each_logged (reconcile_pod e ready) (map row_to_pod rs) w))). row_alive ready r"
proof (induction rs arbitrary: w)
  case (Cons r0 rs)
  have "\<forall>r \<in> set (w_pods w). row_alive ready r \<or> r = r0 \<or> r \<in> set rs" using Cons.prems by auto
  from reconcile_pod_step [OF assms this] show ?case
    unfolding list.map for_each_logged_Cons by (rule Cons.IH)
qed simp

lemma node_list_ready_run:
  assumes "no_faults e"
  obtains ns where "node_list_ready e w = (Inr ns, w\<lparr>w_stmts := Suc (w_stmts w)\<rparr>)"
    "(\<lambda>n. meta_name (node_metadata n)) ` set ns = ready_names w"
  using nodes.list_run [OF assms, of "row_to_node False"] node_names_ready [of _ w]
  unfolding node_list_ready_def node_names_def by metis

lemma pod_list_all_run:
  assumes "no_faults e"
  shows "pod_list e None None w = (Inr (map row_to_pod (sort_key (\<lambda>r. - r_created_at r) (w_pods w))),
    w\<lparr>w_stmts := Suc (w_stmts w)\<rparr>)"
  by (simp add: pod_list_def bindR_def pods.list_run [OF assms] in_ns_def [abs_def] pod_selected_def [abs_def] returnR_def)

text \<open>
  C32. After a pass of the pod controller without database failures, no Running pod is bound to a
  node that is not Ready.
\<close>

theorem no_running_pod_on_dead_node:
  assumes "no_faults e" "r \<in> set (w_pods (snd (reconcile_pods e w)))" "phase_of (row_to_pod r) = Running"
    and "row_node r = Some n"
  shows "n \<in> ready_names w"
proof -
  let ?w1 = "w\<lparr>w_stmts := Suc (w_stmts w)\<rparr>"
  obtain ns where ns: "node_list_ready e ?w1 = (Inr ns, ?w1\<lparr>w_stmts := Suc (w_stmts ?w1)\<rparr>)"
    "(\<lambda>n. meta_name (node_metadata n)) ` set ns = ready_names ?w1"
    using assms(1) by (rule node_list_ready_run)
  let ?w2 = "?w1\<lparr>w_stmts := Suc (w_stmts ?w1)\<rparr>" and ?ready = "map (\<lambda>n. meta_name (node_metadata n)) ns"
  let ?rs = "sort_key (\<lambda>r. - r_created_at r) (w_pods w)"
  have run: "reconcile_pods e w = for_each_logged (reconcile_pod e ?ready) (map row_to_pod ?rs) ?w2"
    by (simp add: reconcile_pods_def bindR_def pod_list_all_run [OF assms(1)] ns(1))
  have "\<forall>r \<in> set (w_pods (snd (reconcile_pods e w))). row_alive ?ready r"
    unfolding run by (rule reconcile_pods_loop [OF assms(1)]) simp
  with assms(2-4) have "n \<in> set ?ready" by (auto simp: row_alive_def)
  with ns(2) show ?thesis by (auto simp: ready_names_def)
qed

text \<open>A world with one Ready node and one pod on it.\<close>

definition web_row :: "string \<Rightarrow> string option \<Rightarrow> (nskey, pod_cols) row" where
  "web_row phase node = \<lparr>r_uid = 2, r_key = (''default'', ''web''),
     r_cols = (pod_cols_of (named_pod ''web''))\<lparr>pr_labels := Some [(''app'', ''web'')], pr_status := phase,
       pr_node_name := node, pr_pod_ip := Some ''10.0.0.2''\<rparr>, r_created_at = 0, r_updated_at = 0\<rparr>"

definition web_world :: "string \<Rightarrow> world" where
  "web_world phase = empty_world\<lparr>
     w_nodes := [\<lparr>r_uid = 1, r_key = ''n1'', r_cols = node_cols_of small_node, r_created_at = 0, r_updated_at = 0\<rparr>],
     w_pods := [web_row phase (Some ''n1'')]\<rparr>"

theorem no_running_pod_on_dead_node_witness:
  "w_pods (snd (reconcile_pods sample_env (web_world ''Running''))) = [web_row ''Running'' (Some ''n1'')] \<and>
   ''n1'' \<in> ready_names (web_world ''Running'')"
proof -
  have p: "w_pods (snd (reconcile_pods sample_env (web_world ''Running''))) = [web_row ''Running'' (Some ''n1'')]"
    by code_simp
  have "phase_of (row_to_pod (web_row ''Running'' (Some ''n1''))) = Running"
    "row_node (web_row ''Running'' (Some ''n1'')) = Some ''n1''" by code_simp+
  with no_running_pod_on_dead_node [of sample_env "web_row ''Running'' (Some ''n1'')"] p show ?thesis by simp
qed

text \<open>
  A Failed pod without an owner whose restart policy is Always is started afresh: in its place
  there is a Pending pod without a node, with a new uid, the same labels and otherwise the same
  spec, and no other pod is touched.
\<close>

theorem failed_pod_respawned:
  assumes "no_faults e" "find_row k (w_pods w) = Some r" "\<not> pod_owned (row_to_pod r)"
    and "phase_of (row_to_pod r) = Failed" "restart_always (row_to_pod r)"
    and "env_uuid e (w_uuids w) \<notin> r_uid ` set (w_pods w)"
  shows "\<exists>r'. find_row k (w_pods (snd (reconcile_pod e ready (row_to_pod r) w))) = Some r' \<and>
    phase_of (row_to_pod r') = Pending \<and> row_node r' = None \<and> r_uid r' = env_uuid e (w_uuids w) \<and>
    pod_spec (row_to_pod r') = (pod_spec (row_to_pod r))\<lparr>ps_node_name := None\<rparr> \<and>
    om_labels (pod_metadata (row_to_pod r')) = om_labels (pod_metadata (row_to_pod r)) \<and>
    (\<forall>k'. k' \<noteq> k \<longrightarrow> find_row k' (w_pods (snd (reconcile_pod e ready (row_to_pod r) w))) = find_row k' (w_pods w))"
proof -
  let ?p = "row_to_pod r" and ?u = "env_uuid e (w_uuids w)"
  have k: "r_key r = k" using find_row_key [OF assms(2)] .
  have "mark_failed e ready ?p w = (Inr (), w)" using assms(4) by (intro mark_failed_skip) auto
  then have run: "reconcile_pod e ready ?p w = respawn e ?p w" by (simp add: reconcile_pod_def bindR_def)
  from assms(1,3-5) show ?thesis
  proof (rule respawn_run [where w = w])
    fix t
    let ?r = "\<lparr>r_uid = ?u, r_key = pod_key ?p, r_cols = pod_cols_of (respun ?p ?u), r_created_at = t, r_updated_at = t\<rparr>"
    assume w': "w_pods (snd (respawn e ?p w)) = filter (\<lambda>r. \<not> r_key r = pod_key ?p) (w_pods w) @ [?r]"
    have "find_row k (w_pods (snd (respawn e ?p w))) = Some ?r"
      by (simp add: w' find_row_append k find_row_filtered)
    moreover have c: "r_cols ?r = pod_cols_of (respun ?p ?u)" by simp
    have "pod_spec (row_to_pod ?r) = (pod_spec ?p)\<lparr>ps_node_name := None\<rparr>"
      unfolding row_of_cols(1) [OF c] by (simp add: respun_def)
    moreover have "om_labels (pod_metadata (row_to_pod ?r)) = om_labels (pod_metadata ?p)"
      unfolding row_of_cols(2) [OF c] by (simp add: respun_def)
    moreover have "phase_of (row_to_pod ?r) = Pending"
      unfolding row_of_cols(3) [OF c] by (simp add: respun_def phase_of_def pod_status_default_def)
    ultimately show ?thesis
      unfolding run
      by (intro exI [of _ ?r]) (auto simp: row_node_def w' find_row_append k find_row_filter_neq split: option.split)
  next
    assume "?u \<in> r_uid ` {r \<in> set (w_pods w). r_key r \<noteq> pod_key ?p}"
    with assms(6) show ?thesis by blast
  qed
qed

theorem failed_pod_respawned_witness:
  "\<exists>r'. find_row (''default'', ''web'') (w_pods (snd (reconcile_pod sample_env []
       (row_to_pod (web_row ''Failed'' (Some ''n1''))) (web_world ''Failed'')))) = Some r' \<and>
     phase_of (row_to_pod r') = Pending \<and> row_node r' = None"
proof -
  have "find_row (''default'', ''web'') (w_pods (web_world ''Failed'')) = Some (web_row ''Failed'' (Some ''n1''))"
    "\<not> pod_owned (row_to_pod (web_row ''Failed'' (Some ''n1'')))"
    "phase_of (row_to_pod (web_row ''Failed'' (Some ''n1''))) = Failed"
    "restart_always (row_to_pod (web_row ''Failed'' (Some ''n1'')))" by code_simp+
  moreover have "env_uuid sample_env (w_uuids (web_world ''Failed'')) \<notin> r_uid ` set (w_pods (web_world ''Failed''))"
    by (simp add: sample_env_def web_world_def web_row_def empty_world_def)
  ultimately show ?thesis
    using failed_pod_respawned [OF no_faults_sample, of "(''default'', ''web'')" "web_world ''Failed''"
        "web_row ''Failed'' (Some ''n1'')" "[]"] by blast
qed

section \<open>Endpoints\<close>

lemma map_filter_ips:
  "ea_ip ` set (List.map_filter endpoint_address_of ps) =
     {ip. \<exists>p \<in> set ps. phase_of p = Running \<and> Option.bind (pod_status p) pt_pod_ip = Some ip}"
  by (induction ps) (auto simp: List.map_filter_simps endpoint_address_of_def split: option.splits if_splits)

definition subset_ips :: "endpoint_subset list \<Rightarrow> string set" where
  "subset_ips subs = {ip. \<exists>s \<in> set subs. \<exists>as. es_addresses s = Some as \<and> ip \<in> ea_ip ` set as}"

lemma subset_ips_endpoint_subsets:
  "subset_ips (endpoint_subsets ports ps) =
     {ip. \<exists>p \<in> set ps. phase_of p = Running \<and> Option.bind (pod_status p) pt_pod_ip = Some ip}"
  unfolding map_filter_ips [symmetric] by (auto simp: subset_ips_def endpoint_subsets_def Let_def)


definition web_service :: service where
  "web_service = service_default\<lparr>svc_metadata := object_meta_default\<lparr>om_name := Some ''web''\<rparr>,
     svc_spec := (svc_spec service_default)\<lparr>sp_selector := Some [(''app'', ''web'')]\<rparr>\<rparr>"


end
