(* ===== verification/Statefulset_Props.thy ===== *)
theory Statefulset_Props
  imports Pod_Controller_Props
begin

text \<open>
  The stateful set controller: which pods a pass may create, in which order, which it deletes, and
  what it leaves alone. \<open>sts_key\<close> is the key of the pod with a given index and \<open>sts_running\<close> says
  that this pod exists and is Running.
\<close>

definition sts_key :: "stateful_set \<Rightarrow> int \<Rightarrow> nskey" where
  "sts_key ss i = (meta_namespace (sts_metadata ss), sts_pod_name ss i)"

definition sts_running :: "world \<Rightarrow> stateful_set \<Rightarrow> int \<Rightarrow> bool" where
  "sts_running w ss i \<longleftrightarrow> (\<exists>r. find_row (sts_key ss i) (w_pods w) = Some r \<and> is_running (row_to_pod r))"

lemma sts_key_inj: "sts_key ss i = sts_key ss j \<longleftrightarrow> i = j"
  by (simp add: sts_key_def sts_pod_name_def show_int_inj)

lemma sts_key_kept:
  assumes "0 \<le> i" "i < d"
  shows "sts_key ss i \<notin> sts_key ss ` {d ..< d + 32}"
proof
  assume "sts_key ss i \<in> sts_key ss ` {d ..< d + 32}"
  then obtain x where "d \<le> x" "sts_key ss i = sts_key ss x" by auto
  with assms sts_key_inj [of ss i x] show False by simp
qed

lemma find_row_filter_keys: "find_row k (filter (\<lambda>r. r_key r \<notin> S) rows) = (if k \<in> S then None else find_row k rows)"
  by (induction rows) (auto simp: find_row_def)

section \<open>One index\<close>

lemma loop_running:
  assumes "no_faults e" "sts_running w ss i"
  shows "statefulset_loop e ss u (i # rest) acc w =
    statefulset_loop e ss u rest (fst acc + 1, snd acc + 1) (w\<lparr>w_stmts := Suc (w_stmts w)\<rparr>)"
  using assms pods.get_run [OF assms(1), of row_to_pod pod_nf "sts_key ss i" w]
  by (auto simp: sts_running_def pod_get_def Let_def tryR_def sts_key_def)

lemma loop_waiting:
  assumes "no_faults e" "find_row (sts_key ss i) (w_pods w) = Some r" "\<not> is_running (row_to_pod r)"
  shows "statefulset_loop e ss u (i # rest) acc w =
    (if is_parallel (sts_spec ss) then statefulset_loop e ss u rest (fst acc + 1, snd acc) (w\<lparr>w_stmts := Suc (w_stmts w)\<rparr>)
     else (Inr (fst acc + 1, snd acc), w\<lparr>w_stmts := Suc (w_stmts w)\<rparr>))"
  using assms pods.get_run [OF assms(1), of row_to_pod pod_nf "sts_key ss i" w]
  by (auto simp: pod_get_def Let_def tryR_def sts_key_def returnR_def)

text \<open>The pod a missing index gets.\<close>

definition sts_pod :: "stateful_set \<Rightarrow> uuid \<Rightarrow> int \<Rightarrow> uuid \<Rightarrow> pod" where
  "sts_pod ss su i u = pod_from_template (ss_template (sts_spec ss)) (meta_namespace (sts_metadata ss))
     (sts_pod_name ss i) u (owner_ref ''StatefulSet'' (meta_name (sts_metadata ss)) su)"

lemma sts_pod_meta [simp]:
  "meta_key (pod_metadata (sts_pod ss su i u)) = sts_key ss i" "om_uid (pod_metadata (sts_pod ss su i u)) = Some u"
  by (simp_all add: sts_pod_def pod_from_template_def meta_key_def meta_namespace_def meta_name_def sts_key_def)

text \<open>Creating the missing pod under a new identity appends its row.\<close>

lemma create_missing_pod:
  assumes "pod_create e (sts_pod ss su i u) w = (Inr q, w')" "find_row (sts_key ss i) (w_pods w) = None"
  obtains t where "w_pods w' = w_pods w @ [\<lparr>r_uid = u, r_key = sts_key ss i, r_cols = pod_cols_of (sts_pod ss su i u),
      r_created_at = t, r_updated_at = t\<rparr>]" "w_uuids w' = w_uuids w"
proof -
  obtain t where "upsert_rows replace_cols \<lparr>r_uid = u, r_key = sts_key ss i, r_cols = pod_cols_of (sts_pod ss su i u),
      r_created_at = t, r_updated_at = t\<rparr> (w_pods w) = Inr (w_pods w')"
    using assms(1) unfolding pod_create_def by (auto elim!: pods.create_ok)
  then have "w_pods w' = w_pods w @ [\<lparr>r_uid = u, r_key = sts_key ss i, r_cols = pod_cols_of (sts_pod ss su i u),
      r_created_at = t, r_updated_at = t\<rparr>]"
    using assms(2) by (auto simp: upsert_rows_def key_in_find split: if_splits)
  moreover have "w_uuids w' = w_uuids w"
    using pods.create_uuids [of e row_to_pod pod_nf replace_cols u "sts_key ss i" "\<lambda>_. pod_cols_of (sts_pod ss su i u)" w] assms(1)
    by (simp add: pod_create_def)
  ultimately show thesis by (rule that)
qed

lemma loop_missing:
  assumes nf: "no_faults e" and none: "find_row (sts_key ss i) (w_pods w) = None"
  obtains (refused) w' where "statefulset_loop e ss su (i # rest) acc w = (Inr acc, w')"
      "\<And>k. k \<noteq> sts_key ss i \<Longrightarrow> find_row k (w_pods w') = find_row k (w_pods w)"
      "env_uuid e (w_uuids w) \<in> r_uid ` set (w_pods w)"
  | (created) w' t where "statefulset_loop e ss su (i # rest) acc w =
        (if is_parallel (sts_spec ss) then statefulset_loop e ss su rest acc w' else (Inr acc, w'))"
      "w_pods w' = w_pods w @ [\<lparr>r_uid = env_uuid e (w_uuids w), r_key = sts_key ss i,
         r_cols = pod_cols_of (sts_pod ss su i (env_uuid e (w_uuids w))), r_created_at = t, r_updated_at = t\<rparr>]"
      "w_uuids w' = w_uuids w + 3"
proof -
  let ?u = "env_uuid e (w_uuids w)" and ?p = "sts_pod ss su i (env_uuid e (w_uuids w))"
  let ?w2 = "w\<lparr>w_stmts := Suc (w_stmts w), w_uuids := Suc (w_uuids w)\<rparr>"
  let ?ns = "meta_namespace (sts_metadata ss)" and ?name = "sts_pod_name ss i"
  have get: "pod_get e ?ns ?name w = (Inl (NotFound (pod_nf (?ns, ?name))), w\<lparr>w_stmts := Suc (w_stmts w)\<rparr>)"
    using pods.get_run [OF nf, of row_to_pod pod_nf "sts_key ss i" w] none by (simp add: pod_get_def sts_key_def)
  have mk: "pod_for_statefulset e ss su ?name (w\<lparr>w_stmts := Suc (w_stmts w)\<rparr>) = (Inr ?p, ?w2)"
    by (simp add: pod_for_statefulset_def bindR_def new_v4_def returnR_def sts_pod_def)
  obtain res w3 where c: "pod_create e ?p ?w2 = (res, w3)" by force
  show thesis
  proof (cases res)
    case (Inl err)
    have "?u \<in> r_uid ` set (w_pods w)"
    proof (rule ccontr)
      assume "?u \<notin> r_uid ` set (w_pods w)"
      with pod_create_fresh [OF nf, of ?p ?u ?w2] none c Inl show False by auto
    qed
    moreover have "find_row k (w_pods w3) = find_row k (w_pods w)" if "k \<noteq> sts_key ss i" for k
      using pods.create_others [OF c [unfolded pod_create_def]] that by simp
    ultimately show thesis
      using Inl get mk c by (intro refused [of w3]) (auto simp: Let_def tryR_def bindR_def returnR_def)
  next
    case (Inr q)
    obtain t where pods: "w_pods w3 = w_pods w @ [\<lparr>r_uid = ?u, r_key = sts_key ss i, r_cols = pod_cols_of ?p,
        r_created_at = t, r_updated_at = t\<rparr>]" and u3: "w_uuids w3 = Suc (w_uuids w)"
      using create_missing_pod [OF c [unfolded Inr]] none by auto
    obtain w4 where pub: "publish_added ''Pod'' (Some ?ns) ?name (KPod ?p) w3 = (Inr (), w4)"
      "w_pods w4 = w_pods w3" "w_uuids w4 = w_uuids w3" by (simp add: publish_added_def)
    obtain w5 where ev: "emit_event e (statefulset_ref ss) ?ns ET_Normal ''SuccessfulCreate''
        (''create Pod '' @ ?name @ '' in StatefulSet '' @ meta_name (sts_metadata ss) @ '' successful'')
        ''statefulset-controller'' w4 = (Inr (), w5)" "w_pods w5 = w_pods w4" "w_uuids w5 = w_uuids w4 + 2"
      by (rule emit_event_run)
    show thesis
      by (rule created [of w5 t])
         (use Inr get mk c pub ev pods u3 in \<open>simp_all add: Let_def tryR_def bindR_def returnR_def\<close>)
  qed
qed

text \<open>Programs that never stop with an error.\<close>

definition returns :: "'a prog \<Rightarrow> bool" where
  "returns m \<longleftrightarrow> (\<forall>w. \<exists>a w'. m w = (Inr a, w'))"

lemma returnsE: "returns m \<Longrightarrow> (\<And>a w'. m w = (Inr a, w') \<Longrightarrow> thesis) \<Longrightarrow> thesis"
  by (auto simp: returns_def)

lemma returns_returnR: "returns (returnR a)"
  by (simp add: returns_def returnR_def)

lemma returns_bindR: "returns m \<Longrightarrow> (\<And>a. returns (f a)) \<Longrightarrow> returns (bindR m f)"
  unfolding returns_def
proof
  fix w
  assume m: "\<forall>w. \<exists>a w'. m w = (Inr a, w')" and f: "\<And>a. \<forall>w. \<exists>b w'. f a w = (Inr b, w')"
  from m obtain a w' where "m w = (Inr a, w')" by blast
  with f [of a] show "\<exists>b w'. bindR m f w = (Inr b, w')" by (simp add: bindR_def)
qed

lemma returns_tryR: "(\<And>r. returns (f r)) \<Longrightarrow> returns (tryR m f)"
  by (auto simp: returns_def tryR_def split: prod.split)

lemma returns_new_v4: "returns (new_v4 e)"
  by (simp add: returns_def new_v4_def)

lemma returns_publish_added: "returns (publish_added k ns n obj)"
  by (simp add: returns_def publish_added_def)

lemma returns_emit_event: "returns (emit_event e r ns ty re m c)"
  unfolding returns_def using emit_event_run by metis

lemmas returns_intros = returns_returnR returns_bindR returns_tryR returns_new_v4 returns_publish_added
  returns_emit_event

lemma loop_returns: "returns (statefulset_loop e ss su xs acc)"
proof (induction xs arbitrary: acc)
  case (Cons i rest)
  then show ?case
    by (cases acc) (auto simp: Let_def pod_for_statefulset_def intro!: returns_intros split: sum.split)
qed (simp add: returns_returnR)

section \<open>The loop\<close>

declare statefulset_loop.simps(2) [simp del]

lemma find_row_single: "find_row k [r] = (if r_key r = k then Some r else None)"
  by (simp add: find_row_def)

text \<open>An index that was Running or missing when the loop reached it; nothing else changes.\<close>

lemma ordered_loop:
  assumes nf: "no_faults e" and ord: "\<not> is_parallel (sts_spec ss)"
  shows "find_row k (w_pods (snd (statefulset_loop e ss su xs acc w))) = find_row k (w_pods w) \<or>
    (\<exists>ys i zs. xs = ys @ i # zs \<and> k = sts_key ss i \<and> find_row k (w_pods w) = None \<and>
       (\<forall>j \<in> set ys. sts_running w ss j))"
proof (induction xs arbitrary: acc w)
  case (Cons i rest)
  let ?w1 = "w\<lparr>w_stmts := Suc (w_stmts w)\<rparr>"
  show ?case
  proof (cases "find_row (sts_key ss i) (w_pods w)")
    case None
    show ?thesis
    proof (cases "k = sts_key ss i")
      case True
      with None show ?thesis by (intro disjI2 exI [of _ "[]"]) simp
    next
      case False
      show ?thesis
        by (rule loop_missing [OF nf None, where su = su and rest = rest and acc = acc])
           (use False ord in \<open>auto simp: find_row_append find_row_single split: option.split\<close>)
    qed
  next
    case (Some r)
    show ?thesis
    proof (cases "is_running (row_to_pod r)")
      case True
      with Some have run: "sts_running w ss i" by (auto simp: sts_running_def)
      have same: "sts_running ?w1 ss j = sts_running w ss j" for j by (simp add: sts_running_def)
      from Cons.IH [of "(fst acc + 1, snd acc + 1)" ?w1]
      consider "find_row k (w_pods (snd (statefulset_loop e ss su (i # rest) acc w))) = find_row k (w_pods w)"
        | ys i' zs where "rest = ys @ i' # zs" "k = sts_key ss i'" "find_row k (w_pods w) = None"
            "\<forall>j \<in> set ys. sts_running w ss j"
        unfolding loop_running [OF nf run] same by auto
      then show ?thesis
      proof cases
        case 2
        with run have "i # rest = (i # ys) @ i' # zs \<and> (\<forall>j \<in> set (i # ys). sts_running w ss j)" by simp
        with 2(2,3) show ?thesis by blast
      qed simp
    qed (use loop_waiting [OF nf Some] ord in simp)
  qed
qed (simp add: returnR_def)

definition fresh_uids :: "env \<Rightarrow> nat \<Rightarrow> world \<Rightarrow> bool" where
  "fresh_uids e n w \<longleftrightarrow> inj_on (env_uuid e) {w_uuids w ..< w_uuids w + n} \<and>
     (\<forall>i \<in> {w_uuids w ..< w_uuids w + n}. \<forall>r \<in> set (w_pods w). r_uid r \<noteq> env_uuid e i)"

lemma fresh_uids_now:
  assumes "fresh_uids e (Suc n) w"
  shows "env_uuid e (w_uuids w) \<notin> r_uid ` set (w_pods w)"
proof -
  have "w_uuids w \<in> {w_uuids w ..< w_uuids w + Suc n}" by simp
  with assms show ?thesis unfolding fresh_uids_def by fastforce
qed

lemma fresh_uids_same: "fresh_uids e n w \<Longrightarrow> w_pods w' = w_pods w \<Longrightarrow> w_uuids w' = w_uuids w \<Longrightarrow> m \<le> n \<Longrightarrow> fresh_uids e m w'"
  unfolding fresh_uids_def by (auto intro: inj_on_subset)

lemma fresh_uids_step:
  assumes "fresh_uids e (3 + n) w" "w_uuids w' = w_uuids w + 3" "w_pods w' = w_pods w @ [r]" "r_uid r = env_uuid e (w_uuids w)"
  shows "fresh_uids e n w'"
proof -
  have "inj_on (env_uuid e) {w_uuids w ..< w_uuids w + (3 + n)}" using assms(1) by (simp add: fresh_uids_def)
  then have "env_uuid e j \<noteq> env_uuid e (w_uuids w)" if "j \<in> {w_uuids w + 3 ..< w_uuids w + (3 + n)}" for j
    using that by (auto dest: inj_onD)
  then show ?thesis
    using assms unfolding fresh_uids_def by (fastforce simp: add.assoc intro: inj_on_subset)
qed

lemma find_row_snoc_old: "find_row k rows = Some r \<Longrightarrow> find_row k (rows @ [r']) = Some r"
  by (simp add: find_row_append)

lemma parallel_loop:
  assumes nf: "no_faults e" and par: "is_parallel (sts_spec ss)"
  shows "fresh_uids e (3 * length xs) w \<Longrightarrow>
    (\<forall>i \<in> set xs. find_row (sts_key ss i) (w_pods (snd (statefulset_loop e ss su xs acc w))) \<noteq> None) \<and>
    (\<forall>k r. find_row k (w_pods w) = Some r \<longrightarrow> find_row k (w_pods (snd (statefulset_loop e ss su xs acc w))) = Some r)"
proof (induction xs arbitrary: acc w)
  case (Cons i rest)
  let ?w1 = "w\<lparr>w_stmts := Suc (w_stmts w)\<rparr>"
  have f: "fresh_uids e (3 + 3 * length rest) w" using Cons.prems by simp
  have f1: "fresh_uids e (3 * length rest) ?w1" using f by (rule fresh_uids_same) simp_all
  show ?case
  proof (cases "find_row (sts_key ss i) (w_pods w)")
    case None
    from nf None show ?thesis
    proof (rule loop_missing [where su = su and rest = rest and acc = acc])
      assume "env_uuid e (w_uuids w) \<in> r_uid ` set (w_pods w)"
      with fresh_uids_now [of e "2 + 3 * length rest" w] f show ?thesis by (simp add: numeral_3_eq_3)
    next
      fix w' t
      let ?r = "\<lparr>r_uid = env_uuid e (w_uuids w), r_key = sts_key ss i,
         r_cols = pod_cols_of (sts_pod ss su i (env_uuid e (w_uuids w))), r_created_at = t, r_updated_at = t\<rparr>"
      assume run: "statefulset_loop e ss su (i # rest) acc w =
          (if is_parallel (sts_spec ss) then statefulset_loop e ss su rest acc w' else (Inr acc, w'))"
        and w': "w_pods w' = w_pods w @ [?r]" "w_uuids w' = w_uuids w + 3"
      have "fresh_uids e (3 * length rest) w'" using f w'(2,1) by (rule fresh_uids_step) simp
      note IH = Cons.IH [OF this, of acc]
      have "find_row (sts_key ss i) (w_pods w') = Some ?r"
        using None by (simp add: w'(1) find_row_append find_row_single)
      then have "find_row (sts_key ss i) (w_pods (snd (statefulset_loop e ss su rest acc w'))) = Some ?r"
        using IH by blast
      moreover have "find_row k (w_pods (snd (statefulset_loop e ss su rest acc w'))) = Some r"
        if "find_row k (w_pods w) = Some r" for k r
        using IH find_row_snoc_old [OF that, of ?r] by (simp only: w'(1))
      ultimately show ?thesis using IH par by (auto simp: run)
    qed
  next
    case (Some r)
    then have "statefulset_loop e ss su (i # rest) acc w =
        statefulset_loop e ss su rest (fst acc + 1, if is_running (row_to_pod r) then snd acc + 1 else snd acc) ?w1"
      using loop_running [OF nf, of w ss i] loop_waiting [OF nf Some] par by (auto simp: sts_running_def)
    moreover have "find_row (sts_key ss i) (w_pods ?w1) = Some r" using Some by simp
    moreover note Cons.IH [OF f1, of "(fst acc + 1, if is_running (row_to_pod r) then snd acc + 1 else snd acc)"]
    ultimately show ?thesis by (simp del: split_paired_All)
  qed
qed (simp add: returnR_def)

section \<open>Trimming\<close>

lemma trim_run:
  assumes "no_faults e"
  shows "w_pods (snd (trim_statefulset_pod e ss i w)) = filter (\<lambda>r. \<not> r_key r = sts_key ss i) (w_pods w)"
proof -
  let ?ns = "meta_namespace (sts_metadata ss)" and ?w1 = "w\<lparr>w_stmts := Suc (w_stmts w)\<rparr>"
  have get: "pod_get e ?ns (sts_pod_name ss i) w = ((case find_row (sts_key ss i) (w_pods w) of
      None \<Rightarrow> Inl (NotFound (pod_nf (sts_key ss i))) | Some r \<Rightarrow> Inr (row_to_pod r)), ?w1)"
    using pods.get_run [OF assms, of row_to_pod pod_nf "sts_key ss i" w] by (simp add: pod_get_def sts_key_def)
  show ?thesis
  proof (cases "find_row (sts_key ss i) (w_pods w)")
    case None
    then have "filter (\<lambda>r. \<not> r_key r = sts_key ss i) (w_pods w) = w_pods w"
      by (auto simp: find_row_None_iff filter_id_conv)
    with None show ?thesis by (simp add: trim_statefulset_pod_def Let_def tryR_def get returnR_def)
  next
    case (Some r)
    obtain res w2 where "pod_delete e ?ns (sts_pod_name ss i) ?w1 = (res, w2)"
      "w_pods w2 = filter (\<lambda>r. \<not> r_key r = sts_key ss i) (w_pods ?w1)"
      using pods.delete_run [OF assms] unfolding pod_delete_def sts_key_def by metis
    with Some show ?thesis by (simp add: trim_statefulset_pod_def Let_def tryR_def get publish_deleted_def)
  qed
qed

lemma trim_loop:
  assumes "no_faults e"
  shows "w_pods (snd (for_each_logged (trim_statefulset_pod e ss) xs w)) =
    filter (\<lambda>r. r_key r \<notin> sts_key ss ` set xs) (w_pods w)"
proof (induction xs arbitrary: w)
  case (Cons i xs)
  then show ?case by (simp add: for_each_logged_Cons trim_run [OF assms] conj_commute)
qed (simp add: for_each_logged_def returnR_def)

lemma trim_indices_set:
  "- 2147483648 \<le> d \<Longrightarrow> d \<le> 2147483615 \<Longrightarrow> set (trim_indices d) = {d ..< d + 32}"
  by (auto simp: trim_indices_def i32_ok_def)

lemma returns_for_each: "returns (for_each_logged f xs)"
proof -
  have "returns (foldR (\<lambda>x _. tryR (f x) (\<lambda>_. returnR ())) xs a)" for a
    by (induction xs arbitrary: a) (auto intro!: returns_intros)
  then show ?thesis by (simp add: for_each_logged_def)
qed

text \<open>A pass is the loop over the indices followed by the trimming.\<close>

lemma reconcile_statefulset_run:
  assumes "no_faults e" "om_uid (sts_metadata ss) = Some su"
  shows "w_pods (snd (reconcile_statefulset e ss w)) =
    filter (\<lambda>r. r_key r \<notin> sts_key ss ` set (trim_indices (stateful_set_replicas (sts_spec ss))))
      (w_pods (snd (statefulset_loop e ss su [0 .. stateful_set_replicas (sts_spec ss) - 1] (0, 0) w)))"
proof -
  let ?d = "stateful_set_replicas (sts_spec ss)"
  obtain a w1 where l: "statefulset_loop e ss su [0 .. ?d - 1] (0, 0) w = (Inr a, w1)"
    using loop_returns by (rule returnsE)
  obtain x w2 where t: "for_each_logged (trim_statefulset_pod e ss) (trim_indices ?d) w1 = (Inr x, w2)"
    using returns_for_each by (rule returnsE)
  have upd: "keeps w_pods (stateful_set_update_status e ns name r c)" for ns name r c
    unfolding stateful_set_update_status_def by (intro keeps_intros counter_free_w_pods) simp
  have "w_pods (snd (reconcile_statefulset e ss w)) = w_pods w2"
    using upd by (simp add: reconcile_statefulset_def Let_def bindR_def uid_or_new_def assms(2) returnR_def l t
        case_prod_beta keeps_def)
  also have "\<dots> = filter (\<lambda>r. r_key r \<notin> sts_key ss ` set (trim_indices ?d)) (w_pods w1)"
    using trim_loop [OF assms(1), of ss "trim_indices ?d" w1] t by simp
  finally show ?thesis using l by simp
qed

section \<open>What a pass does\<close>

text \<open>
  C11. Ordered creation: under the policy OrderedReady a pod that was not there before a pass and is
  there after it has an index below the number of replicas, and every pod with a smaller index was
  Running. So a pass creates at most one pod, the first missing one.
\<close>

theorem statefulset_ordered_creation:
  assumes "no_faults e" "om_uid (sts_metadata ss) = Some su" "\<not> is_parallel (sts_spec ss)"
    and "find_row k (w_pods w) = None" "find_row k (w_pods (snd (reconcile_statefulset e ss w))) = Some r"
  shows "\<exists>i. k = sts_key ss i \<and> 0 \<le> i \<and> i < stateful_set_replicas (sts_spec ss) \<and>
    (\<forall>j. 0 \<le> j \<and> j < i \<longrightarrow> sts_running w ss j)"
proof -
  let ?d = "stateful_set_replicas (sts_spec ss)"
  have "find_row k (w_pods (snd (statefulset_loop e ss su [0 .. ?d - 1] (0, 0) w))) \<noteq> find_row k (w_pods w)"
    using assms(4,5) by (auto simp: reconcile_statefulset_run [OF assms(1,2)] find_row_filter_keys split: if_splits)
  with ordered_loop [OF assms(1,3), of k su "[0 .. ?d - 1]" "(0, 0)" w] obtain ys i zs where
    split: "[0 .. ?d - 1] = ys @ i # zs" and k: "k = sts_key ss i" and run: "\<forall>j \<in> set ys. sts_running w ss j"
    by blast
  from split have mem: "set ys \<union> {i} \<union> set zs = {0 .. ?d - 1}" by (metis Un_insert_right list.simps(15) set_append set_upto sup_bot.right_neutral Un_insert_left)
  have sorted: "sorted (ys @ i # zs)" by (metis split sorted_upto)
  have "j \<in> set ys" if "0 \<le> j" "j < i" for j
  proof -
    have "i \<in> {0 .. ?d - 1}" using mem by blast
    then have "j \<in> {0 .. ?d - 1}" using that by auto
    moreover have "j \<noteq> i" "j \<notin> set zs" using sorted that by (auto simp: sorted_append)
    ultimately show ?thesis using mem by blast
  qed
  moreover have "0 \<le> i \<and> i < ?d" using mem by auto
  ultimately show ?thesis using k run by blast
qed

text \<open>A set of two replicas, and a world in which nothing has been created.\<close>

definition db_sts :: "pod_management_policy option \<Rightarrow> stateful_set" where
  "db_sts policy = stateful_set_default\<lparr>sts_metadata := object_meta_default\<lparr>om_name := Some ''db'', om_uid := Some 9\<rparr>,
     sts_spec := (sts_spec stateful_set_default)\<lparr>ss_replicas := Some 2, ss_pod_management_policy := policy\<rparr>\<rparr>"

lemma db_sts_simps:
  "om_uid (sts_metadata (db_sts p)) = Some 9" "stateful_set_replicas (sts_spec (db_sts p)) = 2"
  "is_parallel (sts_spec (db_sts p)) = (p = Some Parallel)"
  by (simp_all add: db_sts_def stateful_set_replicas_def is_parallel_def)

theorem statefulset_ordered_creation_witness:
  "map r_key (w_pods (snd (reconcile_statefulset sample_env (db_sts None) empty_world))) = [sts_key (db_sts None) 0] \<and>
   (\<exists>i. sts_key (db_sts None) 0 = sts_key (db_sts None) i \<and> 0 \<le> i \<and> i < 2)"
proof -
  let ?ps = "w_pods (snd (reconcile_statefulset sample_env (db_sts None) empty_world))"
  have m: "map r_key ?ps = [sts_key (db_sts None) 0]" by code_simp
  then obtain r where "?ps = [r]" "r_key r = sts_key (db_sts None) 0" by auto
  then have r: "find_row (sts_key (db_sts None) 0) ?ps = Some r" by (simp add: find_row_def)
  have n: "find_row (sts_key (db_sts None) 0) (w_pods empty_world) = None" by (simp add: empty_world_def find_row_def)
  from statefulset_ordered_creation [OF no_faults_sample db_sts_simps(1) _ n r] m show ?thesis
    by (auto simp: db_sts_simps)
qed

text \<open>
  Scaling down: after a pass no pod with one of the 32 indices from the number of replicas
  upwards is left, and every other pod that was there, of this set or not, is there unchanged.
\<close>

theorem statefulset_scale_down:
  assumes "no_faults e" "om_uid (sts_metadata ss) = Some su"
    and "- 2147483648 \<le> stateful_set_replicas (sts_spec ss)" "stateful_set_replicas (sts_spec ss) \<le> 2147483615"
    and "is_parallel (sts_spec ss) \<Longrightarrow> fresh_uids e (3 * nat (stateful_set_replicas (sts_spec ss))) w"
  shows "(\<forall>i. stateful_set_replicas (sts_spec ss) \<le> i \<and> i < stateful_set_replicas (sts_spec ss) + 32 \<longrightarrow>
      find_row (sts_key ss i) (w_pods (snd (reconcile_statefulset e ss w))) = None) \<and>
    (\<forall>k r. find_row k (w_pods w) = Some r \<and>
      k \<notin> sts_key ss ` {stateful_set_replicas (sts_spec ss) ..< stateful_set_replicas (sts_spec ss) + 32} \<longrightarrow>
      find_row k (w_pods (snd (reconcile_statefulset e ss w))) = Some r)"
proof -
  let ?d = "stateful_set_replicas (sts_spec ss)"
  let ?l = "w_pods (snd (statefulset_loop e ss su [0 .. ?d - 1] (0, 0) w))"
  have keep: "find_row k ?l = Some r" if r: "find_row k (w_pods w) = Some r" for k r
  proof (cases "is_parallel (sts_spec ss)")
    case True
    with assms(5) have "fresh_uids e (3 * length [0 .. ?d - 1]) w" by simp
    from parallel_loop [OF assms(1) True this] r show ?thesis by blast
  next
    case False
    from ordered_loop [OF assms(1) False, of k su "[0 .. ?d - 1]" "(0, 0)" w] r show ?thesis by auto
  qed
  have "find_row k (w_pods (snd (reconcile_statefulset e ss w))) =
      (if k \<in> sts_key ss ` {?d ..< ?d + 32} then None else find_row k ?l)" for k
    unfolding reconcile_statefulset_run [OF assms(1,2)] find_row_filter_keys trim_indices_set [OF assms(3,4)] ..
  with keep show ?thesis by auto
qed

theorem statefulset_scale_down_witness:
  "find_row (sts_key (db_sts None) 5) (w_pods (snd (reconcile_statefulset sample_env (db_sts None) empty_world))) = None"
  using statefulset_scale_down [of sample_env "db_sts None" 9 empty_world] by (simp add: db_sts_simps)

text \<open>
  Progress: when the pods below \<open>n\<close> are Running and the pod with index \<open>n\<close> is missing, a pass
  under OrderedReady creates it, Pending and owned by the set.
\<close>

theorem statefulset_progress:
  assumes "no_faults e" "om_uid (sts_metadata ss) = Some su" "\<not> is_parallel (sts_spec ss)"
    and "0 \<le> n" "n < stateful_set_replicas (sts_spec ss)" "stateful_set_replicas (sts_spec ss) \<le> 2147483615"
    and "\<forall>j. 0 \<le> j \<and> j < n \<longrightarrow> sts_running w ss j" "find_row (sts_key ss n) (w_pods w) = None"
    and "env_uuid e (w_uuids w) \<notin> r_uid ` set (w_pods w)"
  shows "\<exists>r. find_row (sts_key ss n) (w_pods (snd (reconcile_statefulset e ss w))) = Some r \<and>
    phase_of (row_to_pod r) = Pending \<and> owned_by (Some su) (row_to_pod r) \<and>
    pod_spec (row_to_pod r) = tpl_spec (ss_template (sts_spec ss))"
proof -
  let ?d = "stateful_set_replicas (sts_spec ss)" and ?u = "env_uuid e (w_uuids w)"
  have loop: "\<exists>r. find_row (sts_key ss n) (w_pods (snd (statefulset_loop e ss su (xs @ n # ys) acc w1))) = Some r \<and>
      r_cols r = pod_cols_of (sts_pod ss su n ?u)"
    if "\<forall>j \<in> set xs. sts_running w ss j" "w_pods w1 = w_pods w" "w_uuids w1 = w_uuids w" for xs ys acc w1
    using that
  proof (induction xs arbitrary: acc w1)
    case Nil
    have none: "find_row (sts_key ss n) (w_pods w1) = None" using assms(8) Nil by simp
    show ?case
      by (rule loop_missing [OF assms(1) none, where su = su and rest = ys and acc = acc])
         (use Nil none assms(3,9) in \<open>auto simp: find_row_append find_row_single\<close>)
  next
    case (Cons i xs)
    then have "sts_running w1 ss i" by (simp add: sts_running_def)
    from loop_running [OF assms(1) this] Cons show ?case by simp
  qed
  have split: "[0 .. ?d - 1] = [0 .. n - 1] @ n # [n + 1 .. ?d - 1]"
    using assms(4,5) by (metis add.commute diff_add_cancel le_diff_eq less_add_same_cancel2 upto_rec1 upto_split1 zle_diff1_eq zless_imp_add1_zle)
  obtain r where r: "find_row (sts_key ss n) (w_pods (snd (statefulset_loop e ss su [0 .. ?d - 1] (0, 0) w))) = Some r"
    and c: "r_cols r = pod_cols_of (sts_pod ss su n ?u)"
    using loop [of "[0 .. n - 1]" w "[n + 1 .. ?d - 1]" "(0, 0)"] assms(7) unfolding split by auto
  have "sts_key ss n \<notin> sts_key ss ` {?d ..< ?d + 32}"
    using assms(4,5) by (rule sts_key_kept)
  then have "find_row (sts_key ss n) (w_pods (snd (reconcile_statefulset e ss w))) = Some r"
    using r trim_indices_set [of ?d] assms(4-6)
    by (simp add: reconcile_statefulset_run [OF assms(1,2)] find_row_filter_keys)
  moreover have "phase_of (row_to_pod r) = Pending"
    unfolding row_of_cols(3) [OF c] by (simp add: sts_pod_def pod_from_template_def phase_of_def pod_status_default_def)
  moreover have "owned_by (Some su) (row_to_pod r)"
    unfolding owned_by_def row_of_cols(4) [OF c] by (simp add: sts_pod_def pod_from_template_def owner_ref_def)
  moreover have "pod_spec (row_to_pod r) = tpl_spec (ss_template (sts_spec ss))"
    unfolding row_of_cols(1) [OF c] by (simp add: sts_pod_def pod_from_template_def)
  ultimately show ?thesis by blast
qed

theorem statefulset_progress_witness:
  "\<exists>r. find_row (sts_key (db_sts None) 0) (w_pods (snd (reconcile_statefulset sample_env (db_sts None) empty_world))) = Some r \<and>
     phase_of (row_to_pod r) = Pending"
proof -
  have e: "w_pods empty_world = []" by (simp add: empty_world_def)
  have "\<exists>r. find_row (sts_key (db_sts None) 0) (w_pods (snd (reconcile_statefulset sample_env (db_sts None) empty_world))) = Some r \<and>
      phase_of (row_to_pod r) = Pending \<and> owned_by (Some 9) (row_to_pod r) \<and>
      pod_spec (row_to_pod r) = tpl_spec (ss_template (sts_spec (db_sts None)))"
    by (rule statefulset_progress) (auto simp: db_sts_simps e find_row_def)
  then show ?thesis by blast
qed

text \<open>
  Under the policy Parallel one pass creates every missing pod: afterwards each index below the
  number of replicas has its pod.
\<close>

theorem statefulset_parallel_complete:
  assumes "no_faults e" "om_uid (sts_metadata ss) = Some su" "is_parallel (sts_spec ss)"
    and "stateful_set_replicas (sts_spec ss) \<le> 2147483615"
    and "fresh_uids e (3 * nat (stateful_set_replicas (sts_spec ss))) w"
    and "0 \<le> i" "i < stateful_set_replicas (sts_spec ss)"
  shows "\<exists>r. find_row (sts_key ss i) (w_pods (snd (reconcile_statefulset e ss w))) = Some r"
proof -
  let ?d = "stateful_set_replicas (sts_spec ss)"
  have "fresh_uids e (3 * length [0 .. ?d - 1]) w" using assms(5) by simp
  from parallel_loop [OF assms(1,3) this, of su "(0, 0)"] assms(6,7)
  have "find_row (sts_key ss i) (w_pods (snd (statefulset_loop e ss su [0 .. ?d - 1] (0, 0) w))) \<noteq> None" by auto
  moreover have "sts_key ss i \<notin> sts_key ss ` {?d ..< ?d + 32}"
    using assms(6,7) by (rule sts_key_kept)
  ultimately show ?thesis
    using trim_indices_set [of ?d] assms(4,6,7)
    by (simp add: reconcile_statefulset_run [OF assms(1,2)] find_row_filter_keys)
qed

theorem statefulset_parallel_complete_witness:
  "\<exists>r. find_row (sts_key (db_sts (Some Parallel)) 1)
     (w_pods (snd (reconcile_statefulset sample_env (db_sts (Some Parallel)) empty_world))) = Some r"
proof -
  have "inj_on (env_uuid sample_env) {0 ..< 6}"
  proof -
    have "{0 ..< 6} = {0, 1, 2, 3, 4, 5 :: nat}" by auto
    then show ?thesis by (simp add: sample_env_def)
  qed
  then have "fresh_uids sample_env 6 empty_world" by (simp add: fresh_uids_def empty_world_def)
  with statefulset_parallel_complete [of sample_env "db_sts (Some Parallel)" 9 empty_world 1] show ?thesis
    by (simp add: db_sts_simps)
qed

definition db_world :: world where
  "db_world = empty_world\<lparr>w_pods := [\<lparr>r_uid = 5, r_key = (''default'', ''db-0''),
     r_cols = (pod_cols_of (named_pod ''db-0''))\<lparr>pr_status := ''Running'', pr_node_name := Some ''n1''\<rparr>,
     r_created_at = 0, r_updated_at = 0\<rparr>]\<rparr>"

text \<open>
  A failing lookup counts as a missing pod: when the statement that looks the pod up fails, a
  Running pod is overwritten by a fresh Pending one without a node.
\<close>

theorem statefulset_fault_resets_pod:
  "map (\<lambda>p. (phase_of p, ps_node_name (pod_spec p))) (cluster_pods db_world) = [(Running, Some ''n1'')] \<and>
   map (\<lambda>p. (phase_of p, ps_node_name (pod_spec p))) (cluster_pods (snd (reconcile_statefulset
     (sample_env\<lparr>env_fails := (\<lambda>n. n = 0)\<rparr>) (db_sts None) db_world))) = [(Pending, None)]"
  by code_simp

end
