(* ===== verification/Daemonset_Props.thy ===== *)
theory Daemonset_Props
  imports Statefulset_Props
begin

text \<open>
  The daemon set controller: after a pass the nodes that run a pod of a daemon set are exactly the
  nodes its template selects. \<open>ds_row\<close> is the row of a pod the controller counts for the set, and
  \<open>ds_nodes\<close> the nodes such pods are bound to.
\<close>

definition ds_row :: "daemon_set \<Rightarrow> (nskey, pod_cols) row \<Rightarrow> bool" where
  "ds_row ds r \<longleftrightarrow> in_ns (Some (meta_namespace (dms_metadata ds))) r \<and>
     pod_selected (Some (daemonset_selector ds)) (row_to_pod r) \<and> owned_by (om_uid (dms_metadata ds)) (row_to_pod r)"

definition ds_nodes :: "daemon_set \<Rightarrow> world \<Rightarrow> string set" where
  "ds_nodes ds w = {n. \<exists>r \<in> set (w_pods w). ds_row ds r \<and> row_node r = Some n}"

text \<open>The selector is not empty and the template carries the labels it asks for.\<close>

definition ds_template_selected :: "daemon_set \<Rightarrow> bool" where
  "ds_template_selected ds \<longleftrightarrow> daemonset_selector ds \<noteq> [] \<and>
     (\<exists>l. om_labels (tpl_metadata (dmsp_template (dms_spec ds))) = Some l \<and> labels_match (daemonset_selector ds) l)"

section \<open>Creating\<close>

definition ds_pod :: "daemon_set \<Rightarrow> uuid \<Rightarrow> string \<Rightarrow> string \<Rightarrow> uuid \<Rightarrow> pod" where
  "ds_pod ds du name node u = (let p = pod_from_template (dmsp_template (dms_spec ds)) (meta_namespace (dms_metadata ds))
       name u (owner_ref ''DaemonSet'' (meta_name (dms_metadata ds)) du)
     in p\<lparr>pod_spec := (pod_spec p)\<lparr>ps_node_name := Some node\<rparr>\<rparr>)"

lemma ds_pod_row:
  assumes "ds_template_selected ds" "om_uid (dms_metadata ds) = Some du"
    and "r_key r = (meta_namespace (dms_metadata ds), name)" "r_cols r = pod_cols_of (ds_pod ds du name node u)"
  shows "ds_row ds r" "row_node r = Some node"
  using assms(1-3) row_of_cols [OF assms(4)]
  by (auto simp: ds_row_def in_ns_def pod_selected_def ds_template_selected_def owned_by_def ds_pod_def Let_def
      pod_from_template_def owner_ref_def row_node_def)

lemma create_daemon_pod_run:
  assumes nf: "no_faults e" and uid: "om_uid (dms_metadata ds) = Some du" and sel: "ds_template_selected ds"
    and fresh: "fresh_draws e (meta_name (dms_metadata ds)) (4 + n) w"
    and node: "meta_name (node_metadata node) \<notin> set covered"
  obtains r where "w_pods (snd (create_daemon_pod e ds du covered node w)) = w_pods w @ [r]"
    "ds_row ds r" "row_node r = Some (meta_name (node_metadata node))" "r_key r \<notin> r_key ` set (w_pods w)"
    "fresh_draws e (meta_name (dms_metadata ds)) n (snd (create_daemon_pod e ds du covered node w))"
proof -
  let ?ns = "meta_namespace (dms_metadata ds)" and ?name = "meta_name (dms_metadata ds)"
  let ?node = "meta_name (node_metadata node)" and ?i = "w_uuids w"
  define pn where "pn = ?name @ ''-'' @ suffix_at e ?i"
  define u where "u = env_uuid e (Suc ?i)"
  define p where "p = ds_pod ds du pn ?node u"
  let ?w = "w\<lparr>w_uuids := Suc (Suc ?i)\<rparr>"
  have key: "meta_key (pod_metadata p) = (?ns, pn)" and pu: "om_uid (pod_metadata p) = Some u"
    by (simp_all add: p_def ds_pod_def Let_def pod_from_template_def meta_key_def meta_namespace_def meta_name_def)
  have none: "find_row (?ns, pn) (w_pods ?w) = None" and "u \<notin> r_uid ` set (w_pods ?w)"
    using fresh_drawsD [OF fresh, of ?i] fresh_drawsD [OF fresh, of "Suc ?i"] by (simp_all add: pn_def u_def)
  with nf pu key obtain q t w1 where c: "pod_create e p ?w = (Inr q, w1)" "w_uuids w1 = w_uuids ?w"
    "w_pods w1 = w_pods ?w @ [\<lparr>r_uid = u, r_key = (?ns, pn), r_cols = pod_cols_of p, r_created_at = t, r_updated_at = t\<rparr>]"
    using pod_create_fresh [of e p u ?w] by metis
  let ?r = "\<lparr>r_uid = u, r_key = (?ns, pn), r_cols = pod_cols_of p, r_created_at = t, r_updated_at = t\<rparr>"
  obtain w2 where pub: "publish_added ''Pod'' (Some ?ns) pn (KPod p) w1 = (Inr (), w2)"
    "w_pods w2 = w_pods w1" "w_uuids w2 = w_uuids w1" by (simp add: publish_added_def)
  obtain w3 where ev: "emit_event e (daemonset_ref ds) ?ns ET_Normal ''SuccessfulCreate'' (''Created pod: '' @ pn)
      ''daemonset-controller'' w2 = (Inr (), w3)" "w_pods w3 = w_pods w2" "w_uuids w3 = w_uuids w2 + 2"
    by (rule emit_event_run)
  have mk: "pod_for_daemonset e ds du pn ?node (w\<lparr>w_uuids := Suc ?i\<rparr>) = (Inr p, ?w)"
    by (simp add: pod_for_daemonset_def bindR_def new_v4_def Let_def returnR_def p_def ds_pod_def u_def)
  have run: "create_daemon_pod e ds du covered node w = (Inr (), w3)"
    using node c(1) pub(1) ev(1) mk
    by (simp add: create_daemon_pod_def bindR_def tryR_def pod_suffix_run Let_def pn_def)
  have pods: "w_pods w3 = w_pods w @ [?r]" using c(3) pub(2) ev(2) by simp
  have "fresh_draws e ?name n w3"
    using fresh pods c(2) pub(3) ev(3) by (auto simp: fresh_draws_def pn_def u_def)
  moreover have "r_key ?r \<notin> r_key ` set (w_pods w)" using none by (auto simp: find_row_None_iff)
  moreover have "ds_row ds ?r" "row_node ?r = Some ?node"
    using ds_pod_row [OF sel uid, of ?r pn ?node u] by (simp_all add: p_def)
  ultimately show thesis by (intro that [of ?r]) (simp_all add: run pods)
qed

lemma create_daemon_loop:
  assumes "no_faults e" "om_uid (dms_metadata ds) = Some du" "ds_template_selected ds"
  shows "fresh_draws e (meta_name (dms_metadata ds)) (4 * length nodes) w \<Longrightarrow>
    \<exists>rs. w_pods (snd (for_each_logged (create_daemon_pod e ds du covered) nodes w)) = w_pods w @ rs \<and>
      (\<forall>r \<in> set rs. ds_row ds r \<and> r_key r \<notin> r_key ` set (w_pods w)) \<and>
      row_node ` set rs = Some ` ((\<lambda>n. meta_name (node_metadata n)) ` set nodes - set covered)"
proof (induction nodes arbitrary: w)
  case (Cons node nodes)
  let ?body = "create_daemon_pod e ds du covered" and ?name = "meta_name (node_metadata node)"
  have f: "fresh_draws e (meta_name (dms_metadata ds)) (4 + 4 * length nodes) w" using Cons.prems by simp
  show ?case
  proof (cases "?name \<in> set covered")
    case True
    then have "?body node w = (Inr (), w)" by (simp add: create_daemon_pod_def Let_def returnR_def)
    moreover have "fresh_draws e (meta_name (dms_metadata ds)) (4 * length nodes) w"
      using f by (auto simp: fresh_draws_def)
    moreover have "insert ?name ((\<lambda>n. meta_name (node_metadata n)) ` set nodes) - set covered =
        (\<lambda>n. meta_name (node_metadata n)) ` set nodes - set covered" using True by blast
    ultimately show ?thesis using Cons.IH [of w] by (simp add: for_each_logged_Cons)
  next
    case False
    obtain r where r: "w_pods (snd (?body node w)) = w_pods w @ [r]" "ds_row ds r" "row_node r = Some ?name"
      "r_key r \<notin> r_key ` set (w_pods w)" "fresh_draws e (meta_name (dms_metadata ds)) (4 * length nodes) (snd (?body node w))"
      using assms f False by (rule create_daemon_pod_run)
    from Cons.IH [OF r(5)] obtain rs where
      rs: "w_pods (snd (for_each_logged ?body nodes (snd (?body node w)))) = w_pods (snd (?body node w)) @ rs"
        "\<forall>x \<in> set rs. ds_row ds x \<and> r_key x \<notin> r_key ` set (w_pods (snd (?body node w)))"
        "row_node ` set rs = Some ` ((\<lambda>n. meta_name (node_metadata n)) ` set nodes - set covered)" by blast
    show ?thesis
      using rs r(1-4) False by (intro exI [of _ "r # rs"]) (simp add: for_each_logged_Cons insert_Diff_if)
  qed
qed (simp add: for_each_logged_def returnR_def)

section \<open>Deleting\<close>

lemma delete_daemon_run:
  assumes "no_faults e" "fst (r_key r) = meta_namespace (dms_metadata ds)"
  shows "w_pods (snd (delete_daemon_pod e ds targets (row_to_pod r) w)) =
    (if \<exists>n. row_node r = Some n \<and> n \<notin> set targets then filter (\<lambda>x. \<not> r_key x = r_key r) (w_pods w) else w_pods w)"
proof -
  have name: "om_name (pod_metadata (row_to_pod r)) = Some (snd (r_key r))"
    by (simp add: row_to_pod_def Let_def ns_row_meta_def)
  have "(meta_namespace (dms_metadata ds), snd (r_key r)) = r_key r" using assms(2) by (metis prod.collapse)
  with pods.delete_run [OF assms(1), of pod_nf "r_key r" w] obtain res w1 where
    "pod_delete e (meta_namespace (dms_metadata ds)) (snd (r_key r)) w = (res, w1)"
    "w_pods w1 = filter (\<lambda>x. \<not> r_key x = r_key r) (w_pods w)" unfolding pod_delete_def by auto
  then show ?thesis
    by (auto simp: delete_daemon_pod_def row_node_def name tryR_def returnR_def split: option.split)
qed

lemma delete_daemon_loop:
  assumes "no_faults e"
  shows "\<forall>r \<in> set rs. fst (r_key r) = meta_namespace (dms_metadata ds) \<Longrightarrow>
    w_pods (snd (for_each_logged (delete_daemon_pod e ds targets) (map row_to_pod rs) w)) =
    filter (\<lambda>x. r_key x \<notin> r_key ` {r \<in> set rs. \<exists>n. row_node r = Some n \<and> n \<notin> set targets}) (w_pods w)"
proof (induction rs arbitrary: w)
  case (Cons r rs)
  then show ?case
    by (auto simp: for_each_logged_Cons delete_daemon_run [OF assms] intro!: filter_cong)
qed simp

section \<open>The pass\<close>

lemma ds_owned_list:
  "filter (owned_by (om_uid (dms_metadata ds)))
     (filter (pod_selected (Some (daemonset_selector ds))) (map row_to_pod (sort_key (\<lambda>r. - r_created_at r)
        (filter (in_ns (Some (meta_namespace (dms_metadata ds)))) rows)))) =
   map row_to_pod (sort_key (\<lambda>r. - r_created_at r) (filter (ds_row ds) rows))"
  by (simp add: ds_row_def [abs_def] filter_map filter_sort comp_def conj_ac)

lemma set_map_filter_nodes:
  "set (List.map_filter (\<lambda>p. ps_node_name (pod_spec p)) (map row_to_pod rs)) = {n. \<exists>r \<in> set rs. row_node r = Some n}"
  by (induction rs) (auto simp: List.map_filter_simps row_node_def split: option.split)

definition ds_targets :: "daemon_set \<Rightarrow> node list \<Rightarrow> string list" where
  "ds_targets ds nodes = map (\<lambda>n. meta_name (node_metadata n)) (filter (target_node ds) nodes)"

lemma reconcile_daemonset_run:
  assumes nf: "no_faults e" and uid: "om_uid (dms_metadata ds) = Some du" and sel: "ds_template_selected ds"
    and fresh: "fresh_draws e (meta_name (dms_metadata ds)) (4 * length (filter (target_node ds) nodes)) w"
  obtains rs where "\<forall>r \<in> set rs. ds_row ds r \<and> r_key r \<notin> r_key ` set (w_pods w)"
    "row_node ` set rs = Some ` (set (ds_targets ds nodes) - ds_nodes ds w)"
    "w_pods (snd (reconcile_daemonset e nodes ds w)) =
      filter (\<lambda>x. r_key x \<notin> r_key ` {r \<in> set (w_pods w). ds_row ds r \<and> (\<exists>n. row_node r = Some n \<and> n \<notin> set (ds_targets ds nodes))})
        (w_pods w @ rs)"
proof -
  let ?ns = "meta_namespace (dms_metadata ds)" and ?sel = "daemonset_selector ds"
  let ?nodes = "filter (target_node ds) nodes" and ?w = "w\<lparr>w_stmts := Suc (w_stmts w)\<rparr>"
  let ?R = "sort_key (\<lambda>r. - r_created_at r) (filter (ds_row ds) (w_pods w))"
  define covered where "covered = List.map_filter (\<lambda>p. ps_node_name (pod_spec p)) (map row_to_pod ?R)"
  have cov: "set covered = ds_nodes ds w" by (auto simp: covered_def set_map_filter_nodes ds_nodes_def)
  have sel0: "?sel \<noteq> []" using sel by (simp add: ds_template_selected_def)
  have list: "pod_list e (Some ?ns) (Some ?sel) w = (Inr (filter (pod_selected (Some ?sel)) (map row_to_pod
      (sort_key (\<lambda>r. - r_created_at r) (filter (in_ns (Some ?ns)) (w_pods w))))), ?w)"
    by (simp add: pod_list_def bindR_def pods.list_run [OF nf] returnR_def)
  have "fresh_draws e (meta_name (dms_metadata ds)) (4 * length ?nodes) ?w"
    using fresh by (simp add: fresh_draws_def)
  note creates = create_daemon_loop [OF nf uid sel this, of covered]
  obtain w1 where c: "for_each_logged (create_daemon_pod e ds du covered) ?nodes ?w = (Inr (), w1)"
    using returns_for_each by (rule returnsE) auto
  from creates obtain rs where rs: "w_pods w1 = w_pods w @ rs"
    "\<forall>r \<in> set rs. ds_row ds r \<and> r_key r \<notin> r_key ` set (w_pods w)"
    "row_node ` set rs = Some ` (set (ds_targets ds nodes) - set covered)"
    unfolding c ds_targets_def by auto
  obtain w2 where d: "for_each_logged (delete_daemon_pod e ds (ds_targets ds nodes)) (map row_to_pod ?R) w1 = (Inr (), w2)"
    using returns_for_each by (rule returnsE) auto
  have "\<forall>r \<in> set ?R. fst (r_key r) = ?ns" by (auto simp: ds_row_def in_ns_def)
  from delete_daemon_loop [OF nf this, of "ds_targets ds nodes" w1] d
  have pods2: "w_pods w2 = filter (\<lambda>x. r_key x \<notin> r_key ` {r \<in> set ?R. \<exists>n. row_node r = Some n \<and> n \<notin> set (ds_targets ds nodes)})
      (w_pods w @ rs)" by (simp add: rs(1))
  have upd: "keeps w_pods (daemon_set_update_status e n m x y z)" for n m x y z
    unfolding daemon_set_update_status_def by (intro keeps_intros counter_free_w_pods) simp
  let ?upd = "daemon_set_update_status e ?ns (meta_name (dms_metadata ds)) (len_i32 ?nodes) (len_i32 (map row_to_pod ?R))
    (len_i32 (filter is_running (map row_to_pod ?R)))"
  have start: "uid_or_new e (om_uid (dms_metadata ds)) w = (Inr du, w)"
    "(if ?sel = [] then returnR [] else pod_list e (Some ?ns) (Some ?sel)) = pod_list e (Some ?ns) (Some ?sel)"
    using sel0 by (simp_all add: uid_or_new_def uid returnR_def)
  have "reconcile_daemonset e nodes ds w = bindR (for_each_logged (create_daemon_pod e ds du covered) ?nodes)
      (\<lambda>_. bindR (for_each_logged (delete_daemon_pod e ds (ds_targets ds nodes)) (map row_to_pod ?R)) (\<lambda>_. ?upd)) ?w"
    unfolding reconcile_daemonset_def Let_def start(2) covered_def ds_targets_def
    by (subst bindR_def, simp only: start(1) prod.case sum.case)
       (subst bindR_def, simp only: list prod.case sum.case ds_owned_list)
  then have "w_pods (snd (reconcile_daemonset e nodes ds w)) = w_pods w2"
    using upd by (simp add: bindR_def c d keeps_def)
  with pods2 rs(2,3) cov show thesis by (intro that [of rs]) (simp_all add: conj_assoc)
qed

text \<open>The pods on other nodes are deleted by their keys; the new rows \<open>rs\<close> have keys of their own.\<close>

lemma ds_nodes_after:
  assumes "inj_on r_key (set rows)" "\<forall>r \<in> set rs. ds_row ds r \<and> r_key r \<notin> r_key ` set rows"
    "row_node ` set rs = Some ` (targets - ds_nodes ds w)" "w_pods w = rows"
    "w_pods w' = filter (\<lambda>x. r_key x \<notin> r_key ` {r \<in> set rows. ds_row ds r \<and> (\<exists>n. row_node r = Some n \<and> n \<notin> targets)}) (rows @ rs)"
  shows "ds_nodes ds w' = targets"
proof (intro equalityI subsetI)
  fix n
  assume "n \<in> ds_nodes ds w'"
  then obtain r where r: "r \<in> set rows \<union> set rs" "ds_row ds r" "row_node r = Some n"
    "r_key r \<notin> r_key ` {r \<in> set rows. ds_row ds r \<and> (\<exists>n. row_node r = Some n \<and> n \<notin> targets)}"
    unfolding ds_nodes_def assms(5) by auto
  show "n \<in> targets"
  proof (cases "r \<in> set rs")
    case True
    then have "Some n \<in> row_node ` set rs" using r(3) by force
    then show ?thesis by (auto simp: assms(3))
  qed (use r in auto)
next
  fix n
  assume n: "n \<in> targets"
  have kept: "r_key r \<notin> r_key ` {r \<in> set rows. ds_row ds r \<and> (\<exists>n. row_node r = Some n \<and> n \<notin> targets)}"
    if "r \<in> set rows \<and> row_node r = Some n \<or> r \<in> set rs" for r
    using that inj_onD [OF assms(1)] n assms(2) by fastforce
  show "n \<in> ds_nodes ds w'"
  proof (cases "n \<in> ds_nodes ds w")
    case True
    then obtain r where r: "r \<in> set rows" "ds_row ds r" "row_node r = Some n" using assms(4) by (auto simp: ds_nodes_def)
    then show ?thesis using kept [of r] unfolding ds_nodes_def assms(5) by auto
  next
    case False
    with n have "Some n \<in> row_node ` set rs" by (simp add: assms(3))
    then obtain r where r: "r \<in> set rs" "row_node r = Some n" by force
    then show ?thesis using kept [of r] assms(2) unfolding ds_nodes_def assms(5) by auto
  qed
qed


definition web_ds :: "smap option \<Rightarrow> daemon_set" where
  "web_ds labels = daemon_set_default\<lparr>dms_metadata := object_meta_default\<lparr>om_name := Some ''web'', om_uid := Some 9\<rparr>,
     dms_spec := (dms_spec daemon_set_default)\<lparr>dmsp_template :=
       pod_template_spec_default\<lparr>tpl_metadata := object_meta_default\<lparr>om_labels := labels\<rparr>\<rparr>\<rparr>\<rparr>"


text \<open>
  A daemon set without labels in its selector and its template never recognises its own pods:
  every pass puts one more pod on the node.
\<close>

theorem daemonset_unlabelled_duplicates:
  "map row_node (w_pods (snd (reconcile_daemonset sample_env [small_node] (web_ds None)
     (snd (reconcile_daemonset sample_env [small_node] (web_ds None) empty_world))))) = [Some ''n1'', Some ''n1'']"
  by code_simp

end
