(* ===== verification/File_System.thy ===== *)
theory File_System
  imports Text "HOL-Library.Sublist"
begin

text \<open>
  The part of \<open>std::fs\<close> and \<open>std::path\<close> that the image cache and the bundles use: a tree of files,
  directories and symbolic links, path resolution (\<open>.\<close>, \<open>..\<close>, links, at most forty of them), and
  \<open>create_dir_all\<close>, \<open>remove_dir_all\<close>, \<open>remove_file\<close>, \<open>read\<close>, \<open>write\<close>, \<open>copy\<close> and \<open>read_dir\<close>.
  Permissions, full disks and other processes are left out: an operation fails for the paths it
  is given only. A path of the program is the list of its components; in the file system a node is
  listed under its canonical path.
\<close>

section \<open>Nodes and paths\<close>

type_synonym path = "string list"

datatype fnode = FFile string | FDir | FLink string

type_synonym fsys = "(path \<times> fnode) list"

datatype io_error = ENOENT | EEXIST | ENOTDIR | EISDIR | EINVAL | ELOOP

fun io_text :: "io_error \<Rightarrow> string" where
  "io_text ENOENT = ''No such file or directory (os error 2)''"
| "io_text EEXIST = ''File exists (os error 17)''"
| "io_text ENOTDIR = ''Not a directory (os error 20)''"
| "io_text EISDIR = ''Is a directory (os error 21)''"
| "io_text EINVAL = ''Invalid argument (os error 22)''"
| "io_text ELOOP = ''Too many levels of symbolic links (os error 40)''"

definition is_abs :: "string \<Rightarrow> bool" where
  "is_abs s \<longleftrightarrow> starts_with s ''/''"

definition path_comps :: "string \<Rightarrow> path" where
  "path_comps s = filter (\<lambda>c. c \<noteq> []) (split_on (CHR ''/'') s)"

text \<open>\<open>Path::components\<close> also drops the components \<open>.\<close>.\<close>

definition norm_comps :: "string \<Rightarrow> path" where
  "norm_comps s = filter (\<lambda>c. c \<noteq> ''.'') (path_comps s)"

definition node_at :: "fsys \<Rightarrow> path \<Rightarrow> fnode option" where
  "node_at fs p = (if p = [] then Some FDir else map_of fs p)"

section \<open>Resolution\<close>

text \<open>
  \<open>resolve n fs p cs\<close> follows the components \<open>cs\<close> from the canonical directory \<open>p\<close>, with at most \<open>n\<close>
  links on the way. The last component may be missing.
\<close>

function resolve :: "nat \<Rightarrow> fsys \<Rightarrow> path \<Rightarrow> path \<Rightarrow> io_error + path" where
  "resolve n fs p [] = Inr p"
| "resolve n fs p (c # cs) =
     (if c = ''.'' then resolve n fs p cs
      else if c = ''..'' then resolve n fs (butlast p) cs
      else case map_of fs (p @ [c]) of
        Some FDir \<Rightarrow> resolve n fs (p @ [c]) cs
      | Some (FFile data) \<Rightarrow> (if cs = [] then Inr (p @ [c]) else Inl ENOTDIR)
      | Some (FLink t) \<Rightarrow>
          (case n of 0 \<Rightarrow> Inl ELOOP
           | Suc m \<Rightarrow> resolve m fs (if is_abs t then [] else p) (path_comps t @ cs))
      | None \<Rightarrow> (if cs = [] then Inr (p @ [c]) else Inl ENOENT))"
  by pat_completeness auto
termination by (relation "measures [\<lambda>(n, fs, p, cs). n, \<lambda>(n, fs, p, cs). length cs]") auto

definition follow :: "fsys \<Rightarrow> path \<Rightarrow> io_error + path" where
  "follow fs cs = resolve 40 fs [] cs"

definition special_last :: "path \<Rightarrow> bool" where
  "special_last cs \<longleftrightarrow> cs = [] \<or> last cs = ''.'' \<or> last cs = ''..''"

text \<open>The same, but a link as the last component is not followed.\<close>

definition nofollow :: "fsys \<Rightarrow> path \<Rightarrow> io_error + path" where
  "nofollow fs cs =
     (if special_last cs then follow fs cs
      else case follow fs (butlast cs) of
        Inl e \<Rightarrow> Inl e
      | Inr p \<Rightarrow> (case node_at fs p of
          Some FDir \<Rightarrow> Inr (p @ [last cs]) | Some _ \<Rightarrow> Inl ENOTDIR | None \<Rightarrow> Inl ENOENT))"

definition metadata :: "fsys \<Rightarrow> path \<Rightarrow> fnode option" where
  "metadata fs cs = (case follow fs cs of Inl e \<Rightarrow> None | Inr p \<Rightarrow> node_at fs p)"

definition path_exists :: "fsys \<Rightarrow> path \<Rightarrow> bool" where
  "path_exists fs cs \<longleftrightarrow> metadata fs cs \<noteq> None"

definition path_is_dir :: "fsys \<Rightarrow> path \<Rightarrow> bool" where
  "path_is_dir fs cs \<longleftrightarrow> metadata fs cs = Some FDir"

definition path_is_symlink :: "fsys \<Rightarrow> path \<Rightarrow> bool" where
  "path_is_symlink fs cs \<longleftrightarrow>
     (case nofollow fs cs of Inl e \<Rightarrow> False | Inr p \<Rightarrow> (case node_at fs p of Some (FLink t) \<Rightarrow> True | _ \<Rightarrow> False))"

section \<open>Operations\<close>

definition remove_tree :: "path \<Rightarrow> fsys \<Rightarrow> fsys" where
  "remove_tree q fs = filter (\<lambda>(p, x). \<not> prefix q p) fs"

definition remove_children :: "path \<Rightarrow> fsys \<Rightarrow> fsys" where
  "remove_children q fs = filter (\<lambda>(p, x). \<not> strict_prefix q p) fs"

definition put_node :: "path \<Rightarrow> fnode \<Rightarrow> fsys \<Rightarrow> fsys" where
  "put_node p x fs = hm_insert p x fs"

text \<open>A directory named \<open>.\<close> or \<open>..\<close> is emptied, but the final \<open>rmdir\<close> is refused.\<close>

definition remove_dir_all :: "path \<Rightarrow> fsys \<Rightarrow> (io_error + unit) \<times> fsys" where
  "remove_dir_all cs fs = (case nofollow fs cs of
       Inl e \<Rightarrow> (Inl e, fs)
     | Inr q \<Rightarrow> (case node_at fs q of
         None \<Rightarrow> (Inl ENOENT, fs)
       | Some (FLink t) \<Rightarrow> (Inr (), hm_remove q fs)
       | Some (FFile d) \<Rightarrow> (Inl ENOTDIR, fs)
       | Some FDir \<Rightarrow>
           if special_last cs \<or> q = [] then (Inl EINVAL, remove_children q fs)
           else (Inr (), remove_tree q fs)))"

definition remove_file :: "path \<Rightarrow> fsys \<Rightarrow> (io_error + unit) \<times> fsys" where
  "remove_file cs fs = (case nofollow fs cs of
       Inl e \<Rightarrow> (Inl e, fs)
     | Inr q \<Rightarrow> (case node_at fs q of
         None \<Rightarrow> (Inl ENOENT, fs)
       | Some FDir \<Rightarrow> (Inl EISDIR, fs)
       | Some _ \<Rightarrow> (Inr (), hm_remove q fs)))"

definition read_file :: "path \<Rightarrow> fsys \<Rightarrow> io_error + string" where
  "read_file cs fs = (case follow fs cs of
       Inl e \<Rightarrow> Inl e
     | Inr q \<Rightarrow> (case node_at fs q of
         Some (FFile d) \<Rightarrow> Inr d | Some _ \<Rightarrow> Inl EISDIR | None \<Rightarrow> Inl ENOENT))"

definition write_file :: "path \<Rightarrow> string \<Rightarrow> fsys \<Rightarrow> (io_error + unit) \<times> fsys" where
  "write_file cs d fs = (case follow fs cs of
       Inl e \<Rightarrow> (Inl e, fs)
     | Inr q \<Rightarrow> (if node_at fs q = Some FDir then (Inl EISDIR, fs) else (Inr (), put_node q (FFile d) fs)))"

definition copy_file :: "path \<Rightarrow> path \<Rightarrow> fsys \<Rightarrow> (io_error + unit) \<times> fsys" where
  "copy_file a b fs = (case read_file a fs of Inl e \<Rightarrow> (Inl e, fs) | Inr d \<Rightarrow> write_file b d fs)"

definition symlink :: "string \<Rightarrow> path \<Rightarrow> fsys \<Rightarrow> (io_error + unit) \<times> fsys" where
  "symlink t cs fs = (case nofollow fs cs of
       Inl e \<Rightarrow> (Inl e, fs)
     | Inr q \<Rightarrow> (if node_at fs q = None then (Inr (), put_node q (FLink t) fs) else (Inl EEXIST, fs)))"

text \<open>\<open>create_dir_all\<close>: one directory after another, those that exist are passed.\<close>

fun make_dirs :: "path \<Rightarrow> path \<Rightarrow> fsys \<Rightarrow> (io_error + unit) \<times> fsys" where
  "make_dirs done [] fs = (Inr (), fs)"
| "make_dirs done (c # cs) fs =
     (case metadata fs (done @ [c]) of
        Some FDir \<Rightarrow> make_dirs (done @ [c]) cs fs
      | Some _ \<Rightarrow> (Inl (if cs = [] then EEXIST else ENOTDIR), fs)
      | None \<Rightarrow> (case nofollow fs (done @ [c]) of
          Inl e \<Rightarrow> (Inl e, fs)
        | Inr q \<Rightarrow>
            if node_at fs q = None then make_dirs (done @ [c]) cs (put_node q FDir fs) else (Inl EEXIST, fs)))"

definition create_dir_all :: "path \<Rightarrow> fsys \<Rightarrow> (io_error + unit) \<times> fsys" where
  "create_dir_all cs fs = make_dirs [] cs fs"

text \<open>The names in a directory, in the order in which they are listed.\<close>

definition read_dir :: "path \<Rightarrow> fsys \<Rightarrow> io_error + string list" where
  "read_dir cs fs = (case follow fs cs of
       Inl e \<Rightarrow> Inl e
     | Inr q \<Rightarrow> (case node_at fs q of
         Some FDir \<Rightarrow> Inr (map (last \<circ> fst) (filter (\<lambda>(p, x). p \<noteq> [] \<and> butlast p = q) fs))
       | Some _ \<Rightarrow> Inl ENOTDIR
       | None \<Rightarrow> Inl ENOENT))"

section \<open>Link-free directories\<close>

text \<open>A plain path: no special components. Below \<open>root\<close> there are no links.\<close>

definition plain :: "path \<Rightarrow> bool" where
  "plain cs \<longleftrightarrow> list_all (\<lambda>c. c \<noteq> [] \<and> c \<noteq> ''.'' \<and> c \<noteq> ''..'') cs"

definition no_links_below :: "path \<Rightarrow> fsys \<Rightarrow> bool" where
  "no_links_below root fs \<longleftrightarrow> (\<forall>p t. prefix root p \<longrightarrow> node_at fs p \<noteq> Some (FLink t))"

text \<open>The directories on the way to \<open>root\<close> are real.\<close>

definition real_dir :: "path \<Rightarrow> fsys \<Rightarrow> bool" where
  "real_dir root fs \<longleftrightarrow> plain root \<and> (\<forall>p. prefix p root \<longrightarrow> node_at fs p = Some FDir)"

text \<open>What lies outside \<open>root\<close>.\<close>

definition outside :: "path \<Rightarrow> fsys \<Rightarrow> path \<Rightarrow> fnode option" where
  "outside root fs p = (if prefix root p then None else node_at fs p)"

section \<open>Lemmas\<close>

lemma plain_append [simp]: "plain (a @ b) \<longleftrightarrow> plain a \<and> plain b"
  by (simp add: plain_def)

lemma plain_not_special: "plain cs \<Longrightarrow> cs \<noteq> [] \<Longrightarrow> \<not> special_last cs"
  by (auto simp: plain_def special_last_def list_all_iff)

lemma resolve_real:
  assumes "\<forall>q. prefix q (p @ cs) \<longrightarrow> node_at fs q = Some FDir" "plain cs"
  shows "resolve n fs p (cs @ ds) = resolve n fs (p @ cs) ds"
  using assms
proof (induction cs arbitrary: p)
  case (Cons c cs)
  from Cons.prems(1) have "node_at fs (p @ [c]) = Some FDir" by (simp add: prefix_def)
  then have "map_of fs (p @ [c]) = Some FDir" by (simp add: node_at_def)
  then show ?case using Cons.IH [of "p @ [c]"] Cons.prems by (simp add: plain_def)
qed simp

lemma follow_real: "real_dir root fs \<Longrightarrow> follow fs (root @ ds) = resolve 40 fs root ds"
  using resolve_real [of "[]" root fs 40 ds] by (simp add: follow_def real_dir_def)

lemma metadata_real: "real_dir root fs \<Longrightarrow> metadata fs root = Some FDir"
  using follow_real [of root fs "[]"] by (simp add: metadata_def real_dir_def)

text \<open>Below a link-free root, plain components resolve to themselves or not at all.\<close>

lemma resolve_below:
  assumes "no_links_below root fs" "prefix root p" "list_all (\<lambda>c. c \<noteq> ''..'' \<and> c \<noteq> ''.'') cs"
  shows "resolve n fs p cs = Inr (p @ cs) \<or> (\<exists>e. resolve n fs p cs = Inl e)"
  using assms(2,3)
proof (induction cs arbitrary: p)
  case (Cons c cs)
  have "prefix root (p @ [c])" using Cons.prems(1) by simp
  then have "node_at fs (p @ [c]) \<noteq> Some (FLink t)" for t
    using assms(1) by (simp add: no_links_below_def)
  then have "map_of fs (p @ [c]) \<noteq> Some (FLink t)" for t by (simp add: node_at_def)
  then show ?case using Cons.IH [OF \<open>prefix root (p @ [c])\<close>] Cons.prems(2)
    by (auto split: option.split fnode.split)
qed simp

lemma map_of_filter: "map_of (filter (\<lambda>(p, x). P p) fs) q = (if P q then map_of fs q else None)"
  by (induction fs) auto

lemma node_at_remove_tree: "node_at (remove_tree q fs) p = (if p \<noteq> [] \<and> prefix q p then None else node_at fs p)"
  by (simp add: node_at_def remove_tree_def map_of_filter)

lemma node_at_remove_children: "node_at (remove_children q fs) p = (if strict_prefix q p then None else node_at fs p)"
  by (auto simp: node_at_def remove_children_def map_of_filter)

lemma node_at_put: "q \<noteq> [] \<Longrightarrow> node_at (put_node q x fs) p = (if p = q then Some x else node_at fs p)"
  by (simp add: node_at_def put_node_def hm_insert_def update_conv')

lemma node_at_remove: "node_at (hm_remove q fs) p = (if p \<noteq> [] \<and> p = q then None else node_at fs p)"
  by (auto simp: node_at_def hm_remove_def delete_conv')

end
