(* ===== verification/Image.thy ===== *)
theory Image
  imports File_System Utf8
begin

text \<open>
  Pulling images (\<open>src/src/node/oci/image.rs\<close>): the cache of unpacked images, the application of layers
  with their whiteouts, the image config, and the search for a WebAssembly module.

  The registry client, the decoding of image references, of tar archives and of JSON, and the writing of
  a single archive entry are libraries of the program; the record \<open>image_lib\<close> holds what they do and
  is the first argument of the definitions. References are ASCII texts, and relative paths are read from the root.
\<close>

section \<open>Libraries and data\<close>

record image_config =
  ic_entrypoint :: "string list"
  ic_cmd :: "string list"
  ic_env :: "string list"
  ic_working_dir :: "string option"
  ic_user :: "string option"

definition default_image_config :: image_config where
  "default_image_config = \<lparr>ic_entrypoint = [], ic_cmd = [], ic_env = [], ic_working_dir = None, ic_user = None\<rparr>"

record pulled_image =
  pi_rootfs :: path
  pi_config :: image_config

datatype json = JNull | JBool bool | JNum string | JStr string | JArr "json list" | JObj "(string \<times> json) list"

record image_layer =
  il_media_type :: string
  il_data :: string

record image_data =
  im_layers :: "image_layer list"
  im_config :: string

text \<open>
  \<open>lib_parse_ref\<close> gives the full text of a reference, \<open>lib_entries\<close> the items of an archive (with or
  without gzip), an error ending it.
\<close>

record 'e image_lib =
  lib_parse_ref :: "string \<Rightarrow> string option"
  lib_pull :: "string \<Rightarrow> image_data option"
  lib_entries :: "bool \<Rightarrow> string \<Rightarrow> string + (string + 'e) list"
  lib_path :: "'e \<Rightarrow> string + string"
  lib_unpack :: "'e \<Rightarrow> path \<Rightarrow> fsys \<Rightarrow> (string + unit) \<times> fsys"
  lib_encode :: "image_config \<Rightarrow> string"
  lib_decode :: "string \<Rightarrow> image_config option"
  lib_json :: "string \<Rightarrow> json option"

text \<open>An operation of the file system with \<open>?\<close>, and with \<open>.ok()\<close>.\<close>

definition io :: "(fsys \<Rightarrow> (io_error + 'a) \<times> fsys) \<Rightarrow> fsys \<Rightarrow> (string + 'a) \<times> fsys" where
  "io f = mapE io_text f"

definition io_ok :: "(fsys \<Rightarrow> (io_error + 'a) \<times> fsys) \<Rightarrow> fsys \<Rightarrow> (string + unit) \<times> fsys" where
  "io_ok f = tryR f (\<lambda>_. returnR ())"

definition with_context :: "string \<Rightarrow> (fsys \<Rightarrow> ('e + 'a) \<times> fsys) \<Rightarrow> fsys \<Rightarrow> (string + 'a) \<times> fsys" where
  "with_context msg f = mapE (\<lambda>_. msg) f"

definition readR :: "(fsys \<Rightarrow> 'e + 'a) \<Rightarrow> fsys \<Rightarrow> ('e + 'a) \<times> fsys" where
  "readR f fs = (f fs, fs)"

section \<open>Names\<close>

definition safe_char :: "char \<Rightarrow> bool" where
  "safe_char c \<longleftrightarrow> (let n = of_char c :: nat in
     (97 \<le> n \<and> n \<le> 122) \<or> (65 \<le> n \<and> n \<le> 90) \<or> (48 \<le> n \<and> n \<le> 57) \<or> n = 45 \<or> n = 95 \<or> n = 46)"

definition sanitize :: "string \<Rightarrow> string" where
  "sanitize s = map (\<lambda>c. if safe_char c then c else CHR ''_'') s"

definition layer_media_type :: string where
  "layer_media_type = ''application/vnd.oci.image.layer.v1.tar''"

definition layer_gzip_media_type :: string where
  "layer_gzip_media_type = ''application/vnd.oci.image.layer.v1.tar+gzip''"

definition docker_gzip_media_type :: string where
  "docker_gzip_media_type = ''application/vnd.docker.image.rootfs.diff.tar.gzip''"

definition is_gzip_media_type :: "string \<Rightarrow> bool" where
  "is_gzip_media_type t \<longleftrightarrow> t = layer_gzip_media_type \<or> t = docker_gzip_media_type"

section \<open>Layers\<close>

text \<open>The names are those of one \<open>read_dir\<close>; the first failure ends the loop.\<close>

fun clear_names :: "path \<Rightarrow> string list \<Rightarrow> fsys \<Rightarrow> (io_error + unit) \<times> fsys" where
  "clear_names dir [] fs = (Inr (), fs)"
| "clear_names dir (n # ns) fs =
     (let p = dir @ [n];
          (res, fs') = (if path_is_dir fs p then remove_dir_all p fs else remove_file p fs)
      in case res of Inl e \<Rightarrow> (Inl e, fs') | Inr _ \<Rightarrow> clear_names dir ns fs')"

definition clear_directory :: "path \<Rightarrow> fsys \<Rightarrow> (io_error + unit) \<times> fsys" where
  "clear_directory dir fs =
     (if \<not> path_is_dir fs dir then (Inr (), fs)
      else case read_dir dir fs of Inl e \<Rightarrow> (Inl e, fs) | Inr ns \<Rightarrow> clear_names dir ns fs)"

text \<open>\<open>Path::file_name\<close> as text: empty where there is none or it is not UTF-8.\<close>

definition file_name :: "path \<Rightarrow> string" where
  "file_name cs = (if cs = [] \<or> last cs = ''..'' \<or> \<not> utf8_valid (last cs) then [] else last cs)"

text \<open>\<open>target.join(p)\<close>: an absolute path replaces the target.\<close>

definition join_entry :: "path \<Rightarrow> string \<Rightarrow> path \<Rightarrow> path" where
  "join_entry target p cs = (if is_abs p then cs else target @ cs)"

definition join_name :: "path \<Rightarrow> string \<Rightarrow> path" where
  "join_name cs n = (if n = [] then cs else cs @ [n])"

definition remove_victim :: "path \<Rightarrow> fsys \<Rightarrow> fsys" where
  "remove_victim v fs =
     (if path_is_dir fs v then snd (remove_dir_all v fs)
      else if path_exists fs v \<or> path_is_symlink fs v then snd (remove_file v fs)
      else fs)"

text \<open>One entry: an opaque marker, a whiteout, an entry that is skipped, or one that is unpacked.\<close>

definition extract_entry :: "'e image_lib \<Rightarrow> path \<Rightarrow> 'e \<Rightarrow> fsys \<Rightarrow> (string + unit) \<times> fsys" where
  "extract_entry lib target en fs = (case lib_path lib en of
       Inl err \<Rightarrow> (Inl err, fs)
     | Inr p \<Rightarrow>
         let cs = norm_comps p; name = file_name cs in
         if name = ''.wh..wh..opq'' then (Inr (), snd (clear_directory (join_entry target p (butlast cs)) fs))
         else case strip_prefix name ''.wh.'' of
           Some deleted \<Rightarrow> (Inr (), remove_victim (join_name (join_entry target p (butlast cs)) deleted) fs)
         | None \<Rightarrow>
             if is_abs p \<or> ''..'' \<in> set cs then (Inr (), fs)
             else lib_unpack lib en target fs)"

fun extract_entries :: "'e image_lib \<Rightarrow> path \<Rightarrow> (string + 'e) list \<Rightarrow> fsys \<Rightarrow> (string + unit) \<times> fsys" where
  "extract_entries lib target [] = returnR ()"
| "extract_entries lib target (Inl err # es) = failR err"
| "extract_entries lib target (Inr en # es) =
     bindR (extract_entry lib target en) (\<lambda>_. extract_entries lib target es)"

definition extract_tar :: "'e image_lib \<Rightarrow> bool \<Rightarrow> string \<Rightarrow> path \<Rightarrow> fsys \<Rightarrow> (string + unit) \<times> fsys" where
  "extract_tar lib gz data target = (case lib_entries lib gz data of
       Inl err \<Rightarrow> failR err | Inr es \<Rightarrow> extract_entries lib target es)"

section \<open>The image config\<close>

fun json_get :: "json \<Rightarrow> string \<Rightarrow> json option" where
  "json_get (JObj kvs) k = map_of kvs k"
| "json_get _ k = None"

fun json_str :: "json \<Rightarrow> string option" where
  "json_str (JStr s) = Some s"
| "json_str _ = None"

fun json_arr :: "json \<Rightarrow> json list option" where
  "json_arr (JArr xs) = Some xs"
| "json_arr _ = None"

definition string_array :: "json option \<Rightarrow> string list" where
  "string_array v = (case Option.bind v json_arr of None \<Rightarrow> [] | Some xs \<Rightarrow> List.map_filter json_str xs)"

definition nonempty_str :: "json option \<Rightarrow> string option" where
  "nonempty_str v = Option.bind (Option.bind v json_str) (\<lambda>s. if s = [] then None else Some s)"

definition parse_config :: "'e image_lib \<Rightarrow> string \<Rightarrow> string + image_config" where
  "parse_config lib data = (case lib_json lib data of
       None \<Rightarrow> Inl ''parsing image config''
     | Some v \<Rightarrow> (case json_get v ''config'' of
         None \<Rightarrow> Inl ''image config missing `config` field''
       | Some cfg \<Rightarrow> Inr \<lparr>ic_entrypoint = string_array (json_get cfg ''Entrypoint''),
                           ic_cmd = string_array (json_get cfg ''Cmd''),
                           ic_env = string_array (json_get cfg ''Env''),
                           ic_working_dir = nonempty_str (json_get cfg ''WorkingDir''),
                           ic_user = nonempty_str (json_get cfg ''User'')\<rparr>))"

section \<open>Pulling an image\<close>

fun apply_layers :: "'e image_lib \<Rightarrow> path \<Rightarrow> image_layer list \<Rightarrow> fsys \<Rightarrow> (string + unit) \<times> fsys" where
  "apply_layers lib rootfs [] = returnR ()"
| "apply_layers lib rootfs (l # ls) =
     bindR (extract_tar lib (is_gzip_media_type (il_media_type l)) (il_data l) rootfs)
       (\<lambda>_. apply_layers lib rootfs ls)"

definition fresh_dir :: "path \<Rightarrow> path \<Rightarrow> fsys \<Rightarrow> (string + unit) \<times> fsys" where
  "fresh_dir old new =
     bindR (\<lambda>fs. if path_exists fs old then io_ok (remove_dir_all old) fs else returnR () fs)
       (\<lambda>_. io (create_dir_all new))"

definition cached_image :: "'e image_lib \<Rightarrow> path \<Rightarrow> fsys \<Rightarrow> (string + pulled_image) \<times> fsys" where
  "cached_image lib image_dir =
     bindR (io (readR (read_file (image_dir @ [''config.json''])))) (\<lambda>bytes.
       case lib_decode lib bytes of
         None \<Rightarrow> failR ''re-reading cached image config''
       | Some c \<Rightarrow> returnR \<lparr>pi_rootfs = image_dir @ [''rootfs''], pi_config = c\<rparr>)"

definition fetch_image :: "'e image_lib \<Rightarrow> string \<Rightarrow> path \<Rightarrow> fsys \<Rightarrow> (string + pulled_image) \<times> fsys" where
  "fetch_image lib whole image_dir =
     (let rootfs = image_dir @ [''rootfs''] in
      bindR (fresh_dir image_dir rootfs) (\<lambda>_.
      case lib_pull lib whole of
        None \<Rightarrow> failR (''pulling '' @ whole)
      | Some img \<Rightarrow>
          bindR (apply_layers lib rootfs (im_layers img)) (\<lambda>_.
          let config = (case parse_config lib (im_config img) of Inl _ \<Rightarrow> default_image_config | Inr c \<Rightarrow> c) in
          bindR (io (write_file (image_dir @ [''config.json'']) (lib_encode lib config))) (\<lambda>_.
          bindR (io (write_file (image_dir @ [''.pulled'']) [])) (\<lambda>_.
          returnR \<lparr>pi_rootfs = rootfs, pi_config = config\<rparr>)))))"

definition is_cached :: "path \<Rightarrow> fsys \<Rightarrow> bool" where
  "is_cached image_dir fs \<longleftrightarrow> path_exists fs (image_dir @ [''.pulled'']) \<and>
     path_exists fs (image_dir @ [''config.json'']) \<and> path_exists fs (image_dir @ [''rootfs''])"

definition pull :: "'e image_lib \<Rightarrow> string \<Rightarrow> path \<Rightarrow> fsys \<Rightarrow> (string + pulled_image) \<times> fsys" where
  "pull lib reference dest_root = (case lib_parse_ref lib reference of
       None \<Rightarrow> failR (''invalid image reference: '' @ reference)
     | Some whole \<Rightarrow>
         let image_dir = dest_root @ [sanitize whole] in
         (\<lambda>fs. if is_cached image_dir fs then cached_image lib image_dir fs
               else fetch_image lib whole image_dir fs))"

section \<open>Pulling a WebAssembly module\<close>

text \<open>\<open>Path::extension\<close> of a file name: what follows its last dot, unless nothing precedes that dot.\<close>

definition extension :: "string \<Rightarrow> string option" where
  "extension n =
     (let r = rev n; ext = takeWhile (\<lambda>c. c \<noteq> CHR ''.'') r; stem = dropWhile (\<lambda>c. c \<noteq> CHR ''.'') r
      in if n = ''..'' \<or> length stem \<le> 1 then None else Some (rev ext))"

text \<open>
  The recursive search. A directory that is a link is entered as well, so the depth is bounded only by
  the number of links a path may contain; the first argument bounds it, \<open>None\<close> is a search deeper than that.
\<close>

fun walk_names ::
  "(path \<Rightarrow> (io_error + path list) option) \<Rightarrow> fsys \<Rightarrow> path \<Rightarrow> string list \<Rightarrow> (io_error + path list) option" where
  "walk_names enter fs dir [] = Some (Inr [])"
| "walk_names enter fs dir (n # ns) =
     (case (if path_is_dir fs (dir @ [n]) then enter (dir @ [n])
            else Some (Inr (if extension n = Some ''wasm'' then [dir @ [n]] else []))) of
        None \<Rightarrow> None
      | Some (Inl e) \<Rightarrow> Some (Inl e)
      | Some (Inr found) \<Rightarrow> (case walk_names enter fs dir ns of
          Some (Inr rest) \<Rightarrow> Some (Inr (found @ rest)) | other \<Rightarrow> other))"

fun walk_wasm :: "nat \<Rightarrow> fsys \<Rightarrow> path \<Rightarrow> (io_error + path list) option" where
  "walk_wasm 0 fs dir = None"
| "walk_wasm (Suc k) fs dir = (case read_dir dir fs of
     Inl e \<Rightarrow> Some (Inl e) | Inr ns \<Rightarrow> walk_names (walk_wasm k fs) fs dir ns)"

definition preferred_modules :: "string list" where
  "preferred_modules = [''main.wasm'', ''app.wasm'', ''module.wasm'', ''index.wasm'']"

fun first_preferred :: "string list \<Rightarrow> path list \<Rightarrow> path option" where
  "first_preferred [] found = (case found of [] \<Rightarrow> None | p # ps \<Rightarrow> Some p)"
| "first_preferred (n # ns) found = (case List.find (\<lambda>p. p \<noteq> [] \<and> last p = n) found of
     Some p \<Rightarrow> Some p | None \<Rightarrow> first_preferred ns found)"

text \<open>A depth that no search exceeds (\<open>find_wasm_terminates\<close> below).\<close>

definition fs_depth :: "fsys \<Rightarrow> nat" where
  "fs_depth fs = foldr (\<lambda>(p, x). max (length p)) fs 0"

definition walk_bound :: "fsys \<Rightarrow> nat" where
  "walk_bound fs = 41 * (fs_depth fs + 1) + 1"

definition find_wasm_in :: "fsys \<Rightarrow> path \<Rightarrow> (io_error + path option) option" where
  "find_wasm_in fs root = (case walk_wasm (walk_bound fs) fs root of
       None \<Rightarrow> None
     | Some (Inl e) \<Rightarrow> Some (Inl e)
     | Some (Inr found) \<Rightarrow> Some (Inr (first_preferred preferred_modules found)))"

definition wasm_layer_media_types :: "string list" where
  "wasm_layer_media_types = [''application/vnd.wasm.content.layer.v1+wasm'',
     ''application/vnd.module.wasm.content.layer.v1+wasm'', ''application/wasm'']"

fun apply_tar_layers :: "'e image_lib \<Rightarrow> path \<Rightarrow> image_layer list \<Rightarrow> fsys \<Rightarrow> (string + unit) \<times> fsys" where
  "apply_tar_layers lib rootfs [] = returnR ()"
| "apply_tar_layers lib rootfs (l # ls) =
     bindR (if is_gzip_media_type (il_media_type l) then extract_tar lib True (il_data l) rootfs
            else if il_media_type l = layer_media_type then extract_tar lib False (il_data l) rootfs
            else returnR ())
       (\<lambda>_. apply_tar_layers lib rootfs ls)"

text \<open>The text of a path; the arrow of a message.\<close>

definition arrow :: string where
  "arrow = [CHR 0xE2, CHR 0x86, CHR 0x92]"

definition path_text :: "path \<Rightarrow> string" where
  "path_text cs = concat (map (\<lambda>c. CHR ''/'' # c) cs)"

definition module_from_image :: "'e image_lib \<Rightarrow> string \<Rightarrow> path \<Rightarrow> image_data \<Rightarrow> fsys \<Rightarrow> (string + path) \<times> fsys" where
  "module_from_image lib whole dir img =
     (let rootfs = dir @ [''rootfs'']; module = dir @ [''module.wasm''] in
      bindR (io (create_dir_all rootfs)) (\<lambda>_.
      bindR (apply_tar_layers lib rootfs (im_layers img)) (\<lambda>_.
      \<lambda>fs. case find_wasm_in fs rootfs of
          None \<Rightarrow> failR (io_text ELOOP) fs
        | Some (Inl e) \<Rightarrow> failR (io_text e) fs
        | Some (Inr None) \<Rightarrow> failR (''no .wasm file found in image '' @ whole @ '' layers'') fs
        | Some (Inr (Some found)) \<Rightarrow>
            bindR (with_context (''copying '' @ path_text found @ '' '' @ arrow @ '' '' @ path_text module) (copy_file found module)) (\<lambda>_.
            bindR (io_ok (remove_dir_all rootfs)) (\<lambda>_.
            bindR (io (write_file (dir @ [''.pulled-wasm'']) [])) (\<lambda>_.
            returnR module))) fs)))"

definition fetch_module :: "'e image_lib \<Rightarrow> string \<Rightarrow> path \<Rightarrow> fsys \<Rightarrow> (string + path) \<times> fsys" where
  "fetch_module lib whole dir =
     (let module = dir @ [''module.wasm''] in
      bindR (fresh_dir dir dir) (\<lambda>_.
      case lib_pull lib whole of
        None \<Rightarrow> failR (''pulling '' @ whole)
      | Some img \<Rightarrow>
          (case List.find (\<lambda>l. il_media_type l \<in> set wasm_layer_media_types) (im_layers img) of
             Some l \<Rightarrow>
               bindR (with_context (''writing wasm layer to '' @ path_text module) (write_file module (il_data l))) (\<lambda>_.
               bindR (io (write_file (dir @ [''.pulled-wasm'']) [])) (\<lambda>_.
               returnR module))
           | None \<Rightarrow> module_from_image lib whole dir img)))"

definition pull_wasm :: "'e image_lib \<Rightarrow> string \<Rightarrow> path \<Rightarrow> fsys \<Rightarrow> (string + path) \<times> fsys" where
  "pull_wasm lib reference dest_root =
     (case strip_prefix reference ''file://'' of
        Some p \<Rightarrow> returnR (path_comps p)
      | None \<Rightarrow> (case strip_prefix reference ''wasm://'' of
          Some p \<Rightarrow> returnR (path_comps p)
        | None \<Rightarrow>
            if starts_with reference ''/'' then returnR (path_comps reference)
            else (case lib_parse_ref lib reference of
                None \<Rightarrow> failR (''invalid wasm image reference: '' @ reference)
              | Some whole \<Rightarrow>
                  let dir = dest_root @ [sanitize whole] in
                  (\<lambda>fs. if path_exists fs (dir @ [''.pulled-wasm'']) \<and> path_exists fs (dir @ [''module.wasm''])
                        then returnR (dir @ [''module.wasm'']) fs
                        else fetch_module lib whole dir fs))))"

end
