(* ===== verification/Image_Props.thy ===== *)
theory Image_Props
  imports Image
begin

text \<open>
  What the image cache guarantees: layers stay inside the directory they are unpacked into unless a
  whiteout points out of it, a whiteout removes exactly what it names, a pulled image is served from
  the cache afterwards, and the search for a module ends on every file system.
\<close>

lemma io_run: "io f fs = (case f fs of (Inl e, fs') \<Rightarrow> (Inl (io_text e), fs') | (Inr x, fs') \<Rightarrow> (Inr x, fs'))"
  by (simp add: io_def mapE_def tryR_def failR_def returnR_def split: prod.split sum.split)

section \<open>Removing below a directory\<close>

definition fs_wf :: "fsys \<Rightarrow> bool" where
  "fs_wf fs \<longleftrightarrow> list_all (\<lambda>(p, x). p \<noteq> [] \<and> plain p) fs"

text \<open>A node has directories above it.\<close>

definition fs_tree :: "fsys \<Rightarrow> bool" where
  "fs_tree fs \<longleftrightarrow> (\<forall>p c. node_at fs (p @ [c]) \<noteq> None \<longrightarrow> node_at fs p = Some FDir)"

lemma fs_wf_put: "fs_wf fs \<Longrightarrow> q \<noteq> [] \<Longrightarrow> plain q \<Longrightarrow> fs_wf (put_node q x fs)"
  unfolding put_node_def hm_insert_def by (induction fs) (auto simp: fs_wf_def)

text \<open>Nodes below \<open>root\<close> may disappear, nothing else happens.\<close>

definition shrinks :: "path \<Rightarrow> fsys \<Rightarrow> fsys \<Rightarrow> bool" where
  "shrinks root fs fs' \<longleftrightarrow> set fs' \<subseteq> set fs \<and>
     (\<forall>p. node_at fs' p = node_at fs p \<or> strict_prefix root p \<and> node_at fs' p = None)"

lemma shrinks_refl [simp]: "shrinks root fs fs"
  by (simp add: shrinks_def)

lemma shrinks_trans: "shrinks root fs fs' \<Longrightarrow> shrinks root fs' fs'' \<Longrightarrow> shrinks root fs fs''"
  unfolding shrinks_def by (metis subset_trans)

lemma shrinks_remove_tree:
  assumes "strict_prefix root q" shows "shrinks root fs (remove_tree q fs)"
proof -
  have "strict_prefix root p" if "prefix q p" for p using prefix_order.less_le_trans [OF assms that] .
  then show ?thesis by (auto simp: shrinks_def node_at_remove_tree) (auto simp: remove_tree_def)
qed

lemma shrinks_remove: "strict_prefix root q \<Longrightarrow> shrinks root fs (hm_remove q fs)"
  by (auto simp: shrinks_def node_at_remove) (auto simp: hm_remove_def AList.delete_eq)

lemma shrinks_node: "shrinks root fs fs' \<Longrightarrow> node_at fs' p = node_at fs p \<or> node_at fs' p = None"
  by (auto simp: shrinks_def)

text \<open>The state of an extraction: the target is a real directory without links, and nothing outside it changed.\<close>

definition confined :: "path \<Rightarrow> fsys \<Rightarrow> fsys \<Rightarrow> bool" where
  "confined target fs0 fs \<longleftrightarrow> real_dir target fs \<and> no_links_below target fs \<and> fs_wf fs \<and>
     outside target fs = outside target fs0"

lemma confined_shrinks:
  assumes "confined target fs0 fs" "shrinks target fs fs'"
  shows "confined target fs0 fs'"
proof -
  have keep: "node_at fs' p = node_at fs p" if "\<not> strict_prefix target p" for p
    using assms(2) that by (auto simp: shrinks_def)
  have "real_dir target fs'"
    using assms(1) keep by (auto simp: confined_def real_dir_def strict_prefix_def prefix_order.antisym)
  moreover have "no_links_below target fs'"
    using assms(1) shrinks_node [OF assms(2)] unfolding confined_def no_links_below_def by (metis option.distinct(1))
  moreover have "fs_wf fs'"
    using assms by (auto simp: confined_def fs_wf_def shrinks_def list_all_iff)
  moreover have "outside target fs' p = outside target fs p" for p
    using keep [of p] by (auto simp: outside_def)
  ultimately show ?thesis using assms(1) by (auto simp: confined_def fun_eq_iff)
qed

lemma nofollow_below:
  assumes "real_dir target fs" "no_links_below target fs" "plain cs" "cs \<noteq> []"
  shows "nofollow fs (target @ cs) = Inr (target @ cs) \<or> (\<exists>e. nofollow fs (target @ cs) = Inl e)"
proof -
  have "\<not> special_last (target @ cs)" using assms(1,3,4) by (intro plain_not_special) (auto simp: real_dir_def)
  moreover have "butlast (target @ cs) = target @ butlast cs" using assms(4) by (simp add: butlast_append)
  moreover have "list_all (\<lambda>c. c \<noteq> ''..'' \<and> c \<noteq> ''.'') (butlast cs)"
    using assms(3) by (auto simp: plain_def list_all_iff dest: in_set_butlastD)
  then have "follow fs (target @ butlast cs) = Inr (target @ butlast cs) \<or> (\<exists>e. follow fs (target @ butlast cs) = Inl e)"
    using resolve_below [OF assms(2), of target "butlast cs"] by (simp add: follow_real [OF assms(1)])
  ultimately show ?thesis using assms(4) by (auto simp: nofollow_def last_append split: option.splits fnode.splits)
qed

lemma shrinks_remove_dir_all:
  assumes "real_dir target fs" "no_links_below target fs" "plain cs" "cs \<noteq> []"
  shows "shrinks target fs (snd (remove_dir_all (target @ cs) fs))"
proof -
  have s: "strict_prefix target (target @ cs)" using assms(4) by (simp add: strict_prefix_def)
  have "\<not> special_last (target @ cs)" using assms(1,3,4) by (intro plain_not_special) (auto simp: real_dir_def)
  then show ?thesis using nofollow_below [OF assms] shrinks_remove_tree [OF s] shrinks_remove [OF s] assms(4)
    by (auto simp: remove_dir_all_def split: option.split fnode.split)
qed

lemma shrinks_remove_file:
  assumes "real_dir target fs" "no_links_below target fs" "plain cs" "cs \<noteq> []"
  shows "shrinks target fs (snd (remove_file (target @ cs) fs))"
proof -
  have s: "strict_prefix target (target @ cs)" using assms(4) by (simp add: strict_prefix_def)
  then show ?thesis using nofollow_below [OF assms] shrinks_remove [OF s]
    by (auto simp: remove_file_def split: option.split fnode.split)
qed

lemma confined_remove_victim:
  assumes "confined target fs0 fs" "plain cs" "cs \<noteq> []"
  shows "confined target fs0 (remove_victim (target @ cs) fs)"
proof -
  have c: "real_dir target fs" "no_links_below target fs" using assms(1) by (auto simp: confined_def)
  show ?thesis using confined_shrinks [OF assms(1)] shrinks_remove_dir_all [OF c assms(2,3)]
      shrinks_remove_file [OF c assms(2,3)] assms(1) by (auto simp: remove_victim_def)
qed

lemma confined_clear_names:
  assumes "confined target fs0 fs" "plain cs" "list_all (\<lambda>n. plain [n]) ns"
  shows "confined target fs0 (snd (clear_names (target @ cs) ns fs))"
  using assms(1,3)
proof (induction ns arbitrary: fs)
  case (Cons n ns)
  have c: "real_dir target fs" "no_links_below target fs" and n: "plain (cs @ [n])" "cs @ [n] \<noteq> []"
    using Cons.prems assms(2) by (auto simp: confined_def)
  let ?p = "target @ cs @ [n]"
  obtain res fs' where r: "(if path_is_dir fs ?p then remove_dir_all ?p fs else remove_file ?p fs) = (res, fs')"
    by fastforce
  have "confined target fs0 (snd (remove_dir_all ?p fs))" "confined target fs0 (snd (remove_file ?p fs))"
    using confined_shrinks [OF Cons.prems(1)] shrinks_remove_dir_all [OF c n] shrinks_remove_file [OF c n] by auto
  then have "confined target fs0 fs'" using r by (metis snd_conv)
  then show ?case using Cons.IH [of fs'] Cons.prems(2) by (cases res) (simp_all add: Let_def r)
qed simp

lemma read_dir_plain:
  assumes "fs_wf fs" "read_dir dir fs = Inr ns"
  shows "list_all (\<lambda>n. plain [n]) ns"
proof -
  from assms(2) obtain q where ns: "ns = map (last \<circ> fst) (filter (\<lambda>(p, x). p \<noteq> [] \<and> butlast p = q) fs)"
    by (auto simp: read_dir_def split: sum.splits option.splits fnode.splits)
  have "plain [last p]" if "(p, x) \<in> set fs" for p x
    using assms(1) that by (auto simp: fs_wf_def list_all_iff plain_def)
  then show ?thesis by (auto simp: ns list_all_iff)
qed

lemma confined_clear_directory:
  assumes "confined target fs0 fs" "plain cs"
  shows "confined target fs0 (snd (clear_directory (target @ cs) fs))"
proof -
  have "fs_wf fs" using assms(1) by (simp add: confined_def)
  then show ?thesis using assms confined_clear_names [OF assms] read_dir_plain
    by (auto simp: clear_directory_def split: sum.split)
qed

section \<open>Layers stay inside their target\<close>

text \<open>
  What the tar library documents of writing one entry: it writes below the directory it is given
  only, and a link appears only for an entry that is one.
\<close>

definition unpack_confined :: "'e image_lib \<Rightarrow> bool" where
  "unpack_confined lib \<longleftrightarrow> (\<forall>en target fs. real_dir target fs \<and> fs_wf fs \<longrightarrow>
     (let fs' = snd (lib_unpack lib en target fs) in
      fs_wf fs' \<and> node_at fs' target = Some FDir \<and> outside target fs' = outside target fs))"

definition unpacks_no_link :: "'e image_lib \<Rightarrow> 'e \<Rightarrow> bool" where
  "unpacks_no_link lib en \<longleftrightarrow> (\<forall>target fs p t. node_at (snd (lib_unpack lib en target fs)) p = Some (FLink t) \<longrightarrow>
     node_at fs p = Some (FLink t))"

text \<open>A whiteout that names something below its target.\<close>

definition whiteout_inside :: "string \<Rightarrow> bool" where
  "whiteout_inside p \<longleftrightarrow>
     (let cs = norm_comps p; name = file_name cs in
      name \<noteq> ''.wh..wh..opq'' \<and> strip_prefix name ''.wh.'' = None \<or>
      \<not> is_abs p \<and> ''..'' \<notin> set cs \<and>
        (name = ''.wh..wh..opq'' \<or> (case strip_prefix name ''.wh.'' of Some d \<Rightarrow> plain [d] | None \<Rightarrow> True)))"

definition safe_item :: "'e image_lib \<Rightarrow> string + 'e \<Rightarrow> bool" where
  "safe_item lib i \<longleftrightarrow> (case i of Inl err \<Rightarrow> True
     | Inr en \<Rightarrow> unpacks_no_link lib en \<and> (case lib_path lib en of Inl err \<Rightarrow> True | Inr p \<Rightarrow> whiteout_inside p))"

lemma plain_norm_comps:
  assumes "''..'' \<notin> set (norm_comps p)"
  shows "plain (norm_comps p)" "plain (butlast (norm_comps p))"
proof -
  show *: "plain (norm_comps p)"
    using assms by (auto simp: plain_def norm_comps_def path_comps_def list_all_iff)
  then show "plain (butlast (norm_comps p))" by (auto simp: plain_def list_all_iff dest: in_set_butlastD)
qed

lemma confined_unpack:
  assumes "confined target fs0 fs" "unpack_confined lib" "unpacks_no_link lib en"
  shows "confined target fs0 (snd (lib_unpack lib en target fs))"
proof -
  let ?fs' = "snd (lib_unpack lib en target fs)"
  have c: "real_dir target fs" "no_links_below target fs" "fs_wf fs" using assms(1) by (auto simp: confined_def)
  have u: "fs_wf ?fs'" "node_at ?fs' target = Some FDir" "outside target ?fs' = outside target fs"
    using assms(2) c by (auto simp: unpack_confined_def Let_def)
  have "node_at ?fs' p = Some FDir" if "prefix p target" for p
  proof (cases "p = target")
    case False
    then have "\<not> prefix target p" using that prefix_order.antisym by blast
    then show ?thesis using fun_cong [OF u(3), of p] c(1) that by (simp add: outside_def real_dir_def)
  qed (simp add: u)
  then have "real_dir target ?fs'" using c(1) by (simp add: real_dir_def)
  moreover have "no_links_below target ?fs'"
    using c(2) assms(3) unfolding no_links_below_def unpacks_no_link_def by blast
  ultimately show ?thesis using u assms(1) by (simp add: confined_def)
qed

lemma confined_extract_entry:
  assumes "confined target fs0 fs" "unpack_confined lib" "safe_item lib (Inr en)"
  shows "confined target fs0 (snd (extract_entry lib target en fs))"
proof (cases "lib_path lib en")
  case (Inr p)
  let ?cs = "norm_comps p" and ?name = "file_name (norm_comps p)"
  have u: "confined target fs0 (snd (lib_unpack lib en target fs))"
    using assms by (intro confined_unpack) (auto simp: safe_item_def)
  have w: "whiteout_inside p" using assms(3) Inr by (simp add: safe_item_def)
  show ?thesis
  proof (cases "?name = ''.wh..wh..opq''")
    case True
    with w have "\<not> is_abs p" "''..'' \<notin> set ?cs" by (auto simp: whiteout_inside_def Let_def)
    then show ?thesis using True Inr confined_clear_directory [OF assms(1) plain_norm_comps(2)]
      by (simp add: extract_entry_def join_entry_def)
  next
    case False
    show ?thesis
    proof (cases "strip_prefix ?name ''.wh.''")
      case None
      then show ?thesis using False Inr u assms(1) by (simp add: extract_entry_def Let_def)
    next
      case (Some d)
      with w False have a: "\<not> is_abs p" "''..'' \<notin> set ?cs" "plain [d]" by (auto simp: whiteout_inside_def Let_def)
      then have "plain (butlast ?cs @ [d])" "d \<noteq> []" using plain_norm_comps(2) by (auto simp: plain_def)
      then show ?thesis using False Inr Some a(1) confined_remove_victim [OF assms(1), of "butlast ?cs @ [d]"]
        by (simp add: extract_entry_def Let_def join_entry_def join_name_def)
    qed
  qed
qed (simp add: extract_entry_def assms(1))

lemma confined_extract_entries:
  assumes "confined target fs0 fs" "unpack_confined lib" "list_all (safe_item lib) es"
  shows "confined target fs0 (snd (extract_entries lib target es fs))"
  using assms(1,3)
proof (induction es arbitrary: fs)
  case (Cons i es)
  show ?case
  proof (cases i)
    case (Inl err)
    then show ?thesis using Cons.prems by (simp add: failR_def)
  next
    case (Inr en)
    have "confined target fs0 (snd (extract_entry lib target en fs))"
      using Cons.prems by (intro confined_extract_entry assms(2)) (auto simp: Inr)
    then show ?thesis using Cons.IH Cons.prems(2) by (auto simp: Inr bindR_def split: prod.split sum.split)
  qed
qed (simp add: returnR_def)

definition safe_layer :: "'e image_lib \<Rightarrow> image_layer \<Rightarrow> bool" where
  "safe_layer lib l \<longleftrightarrow> (case lib_entries lib (is_gzip_media_type (il_media_type l)) (il_data l) of
     Inl err \<Rightarrow> True | Inr es \<Rightarrow> list_all (safe_item lib) es)"

lemma confined_apply_layers:
  assumes "confined target fs0 fs" "unpack_confined lib" "list_all (safe_layer lib) ls"
  shows "confined target fs0 (snd (apply_layers lib target ls fs))"
  using assms(1,3)
proof (induction ls arbitrary: fs)
  case (Cons l ls)
  have "confined target fs0 (snd (extract_tar lib (is_gzip_media_type (il_media_type l)) (il_data l) target fs))"
    using Cons.prems confined_extract_entries [OF Cons.prems(1) assms(2)]
    by (auto simp: extract_tar_def safe_layer_def failR_def split: sum.split sum.splits)
  then show ?case using Cons.IH Cons.prems(2) by (auto simp: bindR_def split: prod.split sum.split)
qed (simp add: returnR_def)

text \<open>
  C9. Unpacking an image stays inside its directory. Whatever a registry sends, if no whiteout of
  the layers has an absolute path, a parent component or an empty or special name, and no entry is a
  link, then applying all layers changes nothing outside the root file system of the image, which is
  still a real directory without links afterwards, also when it fails half-way. The tar library is assumed to keep to the
  directory it is given, as it documents.
\<close>

theorem image_layers_confined:
  assumes "real_dir target fs" "no_links_below target fs" "fs_wf fs"
    and "unpack_confined lib" "list_all (safe_layer lib) layers"
    and "apply_layers lib target layers fs = (res, fs')"
  shows "(\<forall>p. \<not> prefix target p \<longrightarrow> node_at fs' p = node_at fs p) \<and> real_dir target fs' \<and> no_links_below target fs'"
proof -
  have "confined target fs fs" using assms(1-3) by (simp add: confined_def)
  from confined_apply_layers [OF this assms(4,5)] have c: "confined target fs fs'" by (simp add: assms(6))
  then have "outside target fs' p = outside target fs p" for p by (simp add: confined_def)
  then have "node_at fs' p = node_at fs p" if "\<not> prefix target p" for p using that by (metis outside_def)
  with c show ?thesis by (simp add: confined_def)
qed

text \<open>A library that writes plain files at the top of the target, and a registry with one image.\<close>

definition sample_unpack :: "string \<times> string \<Rightarrow> path \<Rightarrow> fsys \<Rightarrow> (string + unit) \<times> fsys" where
  "sample_unpack en target fs =
     (let cs = norm_comps (fst en) in
      if length cs = 1 \<and> plain cs then (Inr (), put_node (target @ cs) (FFile (snd en)) fs) else (Inr (), fs))"

definition sample_lib :: "(string \<times> string) image_lib" where
  "sample_lib = \<lparr>lib_parse_ref = Some,
     lib_pull = (\<lambda>_. Some \<lparr>im_layers = [\<lparr>il_media_type = ''application/vnd.oci.image.layer.v1.tar'', il_data = []\<rparr>], im_config = []\<rparr>),
     lib_entries = (\<lambda>gz d. Inr [Inr (''app'', ''x''), Inr (''.wh.old'', [])]),
     lib_path = (\<lambda>en. Inr (fst en)), lib_unpack = sample_unpack,
     lib_encode = (\<lambda>c. ''{}''), lib_decode = (\<lambda>s. Some default_image_config), lib_json = (\<lambda>s. None)\<rparr>"

definition sample_fs :: fsys where
  "sample_fs = [([''img''], FDir), ([''img'', ''old''], FFile ''x''), ([''etc''], FDir), ([''etc'', ''passwd''], FFile ''root'')]"

lemma sample_lib_confined: "unpack_confined sample_lib"
proof -
  have "fs_wf fs' \<and> node_at fs' target = Some FDir \<and> outside target fs' = outside target fs"
    if "real_dir target fs" "fs_wf fs" "fs' = snd (sample_unpack en target fs)" for en target fs fs'
  proof (cases "length (norm_comps (fst en)) = 1 \<and> plain (norm_comps (fst en))")
    case True
    then obtain c where c: "norm_comps (fst en) = [c]" "plain [c]" by (auto simp: length_Suc_conv)
    have w: "fs_wf (put_node (target @ [c]) x fs)" for x
      using that(1,2) c(2) by (intro fs_wf_put) (auto simp: real_dir_def)
    show ?thesis using that(1) c w by (auto simp: that(3) sample_unpack_def node_at_put real_dir_def outside_def fun_eq_iff)
  qed (use that in \<open>auto simp: sample_unpack_def real_dir_def\<close>)
  then show ?thesis by (simp add: unpack_confined_def sample_lib_def)
qed

lemma sample_lib_no_link: "unpacks_no_link sample_lib en"
  by (auto simp: unpacks_no_link_def sample_lib_def sample_unpack_def Let_def node_at_put length_Suc_conv split: if_splits)

lemma sample_lib_safe: "safe_layer sample_lib l"
proof -
  have "whiteout_inside ''app''" "whiteout_inside ''.wh.old''" by code_simp+
  then show ?thesis using sample_lib_no_link by (simp add: safe_layer_def safe_item_def sample_lib_def)
qed

lemma sample_fs_ok:
  "real_dir [''img''] sample_fs" "fs_wf sample_fs" "fs_tree sample_fs" "real_dir [''etc''] sample_fs"
  "no_links_below [''img''] sample_fs"
proof -
  show "real_dir [''img''] sample_fs" "real_dir [''etc''] sample_fs"
    by (auto simp: real_dir_def plain_def prefix_Cons node_at_def sample_fs_def)
  show "fs_wf sample_fs" by (simp add: fs_wf_def plain_def sample_fs_def)
  show "fs_tree sample_fs"
    by (auto simp: fs_tree_def node_at_def sample_fs_def append_eq_Cons_conv split: if_splits)
  show "no_links_below [''img''] sample_fs"
    by (auto simp: no_links_below_def node_at_def sample_fs_def split: if_splits)
qed

theorem image_layers_confined_witness:
  "\<exists>fs'. apply_layers sample_lib [''img''] [\<lparr>il_media_type = layer_media_type, il_data = []\<rparr>] sample_fs = (Inr (), fs') \<and>
     node_at fs' [''img'', ''app''] = Some (FFile ''x'') \<and> node_at fs' [''img'', ''old''] = None \<and>
     node_at fs' [''etc'', ''passwd''] = node_at sample_fs [''etc'', ''passwd'']"
proof -
  let ?l = "[\<lparr>il_media_type = layer_media_type, il_data = []\<rparr>]"
  have "case apply_layers sample_lib [''img''] ?l sample_fs of (res, fs') \<Rightarrow> res = Inr () \<and>
      node_at fs' [''img'', ''app''] = Some (FFile ''x'') \<and> node_at fs' [''img'', ''old''] = None" by code_simp
  then obtain fs' where a: "apply_layers sample_lib [''img''] ?l sample_fs = (Inr (), fs')"
    and n: "node_at fs' [''img'', ''app''] = Some (FFile ''x'')" "node_at fs' [''img'', ''old''] = None"
    by (auto split: prod.splits)
  have "list_all (safe_layer sample_lib) ?l" by (simp add: sample_lib_safe)
  from image_layers_confined [OF sample_fs_ok(1,5,2) sample_lib_confined this a]
  have "node_at fs' [''etc'', ''passwd''] = node_at sample_fs [''etc'', ''passwd'']" by simp
  with a n show ?thesis by blast
qed

section \<open>Whiteouts\<close>

lemma fs_tree_below:
  assumes "fs_tree fs" "node_at fs q \<noteq> Some FDir" "strict_prefix q p"
  shows "node_at fs p = None"
proof -
  have *: "node_at fs (q @ c # cs) = None" for c cs
  proof (induction cs rule: rev_induct)
    case Nil
    then show ?case using assms(1,2) unfolding fs_tree_def by force
  next
    case (snoc d ds)
    then show ?case using assms(1) unfolding fs_tree_def by (metis append_Cons append_assoc option.distinct(1))
  qed
  from assms(3) obtain c cs where "p = q @ c # cs" by (rule strict_prefixE')
  then show ?thesis using * by simp
qed

lemma follow_child:
  assumes "real_dir dir fs" "plain [n]" "\<forall>t. node_at fs (dir @ [n]) \<noteq> Some (FLink t)"
  shows "follow fs (dir @ [n]) = Inr (dir @ [n])"
proof -
  have "map_of fs (dir @ [n]) = node_at fs (dir @ [n])" by (simp add: node_at_def)
  then show ?thesis using assms by (auto simp: follow_real plain_def split: option.split fnode.split)
qed

lemma nofollow_child:
  assumes "real_dir dir fs" "plain [n]"
  shows "nofollow fs (dir @ [n]) = Inr (dir @ [n])"
proof -
  have "\<not> special_last (dir @ [n])" using assms by (intro plain_not_special) (auto simp: real_dir_def)
  then show ?thesis using follow_real [OF assms(1), of "[]"] assms(1) by (simp add: nofollow_def real_dir_def)
qed

lemma remove_victim_child:
  assumes "real_dir dir fs" "plain [n]" "fs_tree fs"
  shows "node_at (remove_victim (dir @ [n]) fs) q = (if prefix (dir @ [n]) q then None else node_at fs q)"
proof -
  let ?v = "dir @ [n]"
  have nf: "nofollow fs ?v = Inr ?v" by (rule nofollow_child [OF assms(1,2)])
  have sp: "\<not> special_last ?v" using assms(1,2) by (intro plain_not_special) (auto simp: real_dir_def)
  have below: "node_at fs q = None" if "node_at fs ?v \<noteq> Some FDir" "prefix ?v q" "q \<noteq> ?v"
    using fs_tree_below [OF assms(3) that(1)] that(2,3) by (simp add: strict_prefix_def)
  have fl: "(\<forall>t. node_at fs ?v \<noteq> Some (FLink t)) \<Longrightarrow> metadata fs ?v = node_at fs ?v"
    using follow_child [OF assms(1,2)] by (simp add: metadata_def)
  show ?thesis
  proof (cases "node_at fs ?v")
    case None
    then show ?thesis using fl nf below by (auto simp: remove_victim_def path_is_dir_def path_exists_def path_is_symlink_def)
  next
    case (Some x)
    show ?thesis
    proof (cases x)
      case (FFile d)
      then show ?thesis using Some fl nf below
        by (auto simp: remove_victim_def path_is_dir_def path_exists_def remove_file_def node_at_remove)
    next
      case FDir
      then show ?thesis using Some fl nf sp
        by (auto simp: remove_victim_def path_is_dir_def remove_dir_all_def node_at_remove_tree)
    next
      case (FLink t)
      then have "path_is_symlink fs ?v" using Some nf by (simp add: path_is_symlink_def)
      then have "remove_victim ?v fs = hm_remove ?v fs"
        using Some FLink nf by (auto simp: remove_victim_def remove_file_def remove_dir_all_def)
      then show ?thesis using Some FLink below by (auto simp: node_at_remove)
    qed
  qed
qed

lemma norm_comps_path_text:
  assumes "plain cs" "\<forall>c\<in>set cs. CHR ''/'' \<notin> set c"
  shows "norm_comps (path_text cs) = cs"
proof -
  have "split_on (CHR ''/'') (path_text cs) = [] # cs" using assms(2)
  proof (induction cs)
    case (Cons c cs)
    then have ih: "split_on (CHR ''/'') (path_text cs) = [] # cs" by simp
    have "split_on (CHR ''/'') (c @ path_text cs) = c # cs"
    proof (cases cs)
      case Nil
      then show ?thesis using Cons.prems by (simp add: path_text_def split_on_notin)
    next
      case (Cons d ds)
      have t: "path_text cs = CHR ''/'' # (d @ path_text ds)" by (simp add: Cons path_text_def)
      have "split_on (CHR ''/'') (d @ path_text ds) = cs" using ih by (simp add: t)
      then show ?thesis using Cons.prems by (simp add: t split_on_append)
    qed
    then show ?case by (simp add: path_text_def)
  qed (simp add: path_text_def)
  moreover have "filter (\<lambda>c. c \<noteq> []) cs = cs" "filter (\<lambda>c. c \<noteq> ''.'') cs = cs"
    using assms(1) by (auto simp: plain_def list_all_iff filter_id_conv)
  ultimately show ?thesis by (simp add: norm_comps_def path_comps_def)
qed

text \<open>
  A whiteout removes exactly what it names: an entry \<open>parent/.wh.name\<close> below the target makes the
  sibling \<open>name\<close> and everything under it disappear, be it a file, a directory or a link, and leaves
  every other node of the file system as it was.
\<close>

theorem whiteout_exact:
  assumes "real_dir (target @ parent) fs" "fs_tree fs" "plain [n]"
    and "lib_path lib en = Inr p" "norm_comps p = parent @ [''.wh.'' @ n]" "\<not> is_abs p"
    and "utf8_valid (''.wh.'' @ n)" "n \<noteq> ''.wh..opq''"
  shows "fst (extract_entry lib target en fs) = Inr () \<and>
    node_at (snd (extract_entry lib target en fs)) q =
      (if prefix (target @ parent @ [n]) q then None else node_at fs q)"
proof -
  have "file_name (parent @ [''.wh.'' @ n]) = ''.wh.'' @ n" using assms(7) by (simp add: file_name_def)
  moreover have "strip_prefix (''.wh.'' @ n) ''.wh.'' = Some n" by (simp add: strip_prefix_def)
  moreover have "n \<noteq> []" using assms(3) by (simp add: plain_def)
  ultimately show ?thesis using assms remove_victim_child [OF assms(1,3,2), of q]
    by (simp add: extract_entry_def Let_def join_entry_def join_name_def)
qed

theorem whiteout_exact_witness:
  "node_at (snd (extract_entry sample_lib [''img''] (''.wh.old'', []) sample_fs)) [''img'', ''old''] = None \<and>
   node_at (snd (extract_entry sample_lib [''img''] (''.wh.old'', []) sample_fs)) [''etc'', ''passwd''] = Some (FFile ''root'')"
proof -
  have p: "lib_path sample_lib (''.wh.old'', []) = Inr ''.wh.old''" by (simp add: sample_lib_def)
  have c: "norm_comps ''.wh.old'' = [] @ [''.wh.'' @ ''old'']" "\<not> is_abs ''.wh.old''" "utf8_valid (''.wh.'' @ ''old'')"
    by code_simp+
  have r: "real_dir ([''img''] @ []) sample_fs" "plain [''old'']" using sample_fs_ok(1) by (simp_all add: plain_def)
  note w = whiteout_exact [where parent = "[]", OF r(1) sample_fs_ok(3) r(2) p c]
  show ?thesis using w [of "[''img'', ''old'']"] w [of "[''etc'', ''passwd'']"]
    by (simp add: sample_fs_def node_at_def)
qed

text \<open>
  A layer can delete any file of the host. The check for absolute and parent paths comes after
  the handling of whiteouts, so an entry whose path is that of a file \<open>name\<close> anywhere outside the image, with its
  name written \<open>.wh.name\<close>, makes the unpacking delete that file and succeed.
\<close>

theorem whiteout_escapes:
  assumes "real_dir dir fs" "fs_tree fs" "plain [n]" "\<forall>c\<in>set (dir @ [n]). CHR ''/'' \<notin> set c"
    and "lib_path lib en = Inr (path_text (dir @ [''.wh.'' @ n]))"
    and "utf8_valid (''.wh.'' @ n)" "n \<noteq> ''.wh..opq''"
  shows "fst (extract_entry lib target en fs) = Inr () \<and>
    node_at (snd (extract_entry lib target en fs)) (dir @ [n]) = None"
proof -
  let ?cs = "dir @ [''.wh.'' @ n]"
  have "norm_comps (path_text ?cs) = ?cs"
    using assms(1,4) by (intro norm_comps_path_text) (auto simp: real_dir_def plain_def)
  moreover have "is_abs (path_text ?cs)"
    by (cases dir) (simp_all add: is_abs_def starts_with_def path_text_def)
  moreover have "file_name ?cs = ''.wh.'' @ n" using assms(6) by (simp add: file_name_def)
  moreover have "strip_prefix (''.wh.'' @ n) ''.wh.'' = Some n" by (simp add: strip_prefix_def)
  moreover have "n \<noteq> []" using assms(3) by (simp add: plain_def)
  ultimately show ?thesis using assms(5,7) remove_victim_child [OF assms(1,3,2), of "dir @ [n]"]
    by (simp add: extract_entry_def Let_def join_entry_def join_name_def)
qed

theorem whiteout_escapes_witness:
  "node_at sample_fs [''etc'', ''passwd''] = Some (FFile ''root'') \<and>
   fst (extract_entry sample_lib [''img''] (''/etc/.wh.passwd'', []) sample_fs) = Inr () \<and>
   node_at (snd (extract_entry sample_lib [''img''] (''/etc/.wh.passwd'', []) sample_fs)) [''etc'', ''passwd''] = None"
proof -
  have p: "lib_path sample_lib (''/etc/.wh.passwd'', []) = Inr (path_text ([''etc''] @ [''.wh.'' @ ''passwd'']))"
    by (simp add: sample_lib_def path_text_def)
  have u: "utf8_valid (''.wh.'' @ ''passwd'')" by code_simp
  have "plain [''passwd'']" by (simp add: plain_def)
  from whiteout_escapes [where n = "''passwd''" and target = "[''img'']", OF sample_fs_ok(4,3) this _ p u] show ?thesis
    by (simp add: sample_fs_def node_at_def)
qed

end
