(* ===== verification/Image_Cache.thy ===== *)
theory Image_Cache
  imports Image_Props
begin

text \<open>
  The cache of unpacked images and the search for a module: what a pull leaves behind makes the next
  pull of the same directory name succeed without the registry, and the recursive search ends.
\<close>

section \<open>Making directories\<close>

lemma make_dirs_real:
  assumes "real_dir (done @ cs) fs"
  shows "make_dirs done (cs @ ds) fs = make_dirs (done @ cs) ds fs"
  using assms
proof (induction cs arbitrary: "done")
  case (Cons c cs)
  have "real_dir (done @ [c]) fs"
    using Cons.prems by (auto simp: real_dir_def plain_def)
  then have "metadata fs (done @ [c]) = Some FDir" by (rule metadata_real)
  then show ?case using Cons.IH [of "done @ [c]"] Cons.prems by simp
qed simp

lemma make_dirs_new:
  assumes "real_dir done fs" "plain [c]" "node_at fs (done @ [c]) = None"
  shows "make_dirs done (c # cs) fs = make_dirs (done @ [c]) cs (put_node (done @ [c]) FDir fs)"
  using follow_child [OF assms(1,2)] nofollow_child [OF assms(1,2)] assms(3) by (simp add: metadata_def)

lemma real_dir_put:
  assumes "real_dir done fs" "plain [c]"
  shows "real_dir (done @ [c]) (put_node (done @ [c]) FDir fs)"
  using assms by (auto simp: real_dir_def node_at_put prefix_snoc)

text \<open>What a pull starts from: only the image directory and its root are left of the old state.\<close>

definition emptied :: "path \<Rightarrow> fsys \<Rightarrow> fsys \<Rightarrow> bool" where
  "emptied dir fs fs' \<longleftrightarrow> (\<forall>p. node_at fs' p = (if prefix dir p then None else node_at fs p)) \<and> fs_wf fs'"

lemma remove_old_image:
  assumes "real_dir dest fs" "fs_wf fs" "fs_tree fs" "plain [n]" "node_at fs (dest @ [n]) \<in> {None, Some FDir}"
  shows "\<exists>fs'. (if path_exists fs (dest @ [n]) then io_ok (remove_dir_all (dest @ [n])) fs else returnR () fs) = (Inr (), fs')
    \<and> emptied (dest @ [n]) fs fs'"
proof -
  let ?d = "dest @ [n]"
  have m: "metadata fs ?d = node_at fs ?d" using follow_child [OF assms(1,4)] assms(5) by (auto simp: metadata_def)
  have nf: "nofollow fs ?d = Inr ?d" by (rule nofollow_child [OF assms(1,4)])
  have sp: "\<not> special_last ?d" using assms(1,4) by (intro plain_not_special) (auto simp: real_dir_def)
  show ?thesis
  proof (cases "node_at fs ?d")
    case None
    then have "node_at fs p = None" if "prefix ?d p" for p
      using fs_tree_below [OF assms(3), of ?d p] that by (cases "p = ?d") (auto simp: strict_prefix_def)
    then show ?thesis using None m assms(2) by (auto simp: path_exists_def returnR_def emptied_def)
  next
    case (Some x)
    then have x: "node_at fs ?d = Some FDir" using assms(5) by auto
    have "remove_dir_all ?d fs = (Inr (), remove_tree ?d fs)" using x nf sp by (simp add: remove_dir_all_def)
    moreover have "fs_wf (remove_tree ?d fs)" using assms(2) by (auto simp: fs_wf_def remove_tree_def list_all_iff)
    moreover have "p \<noteq> []" if "prefix ?d p" for p using that by auto
    ultimately show ?thesis using x m
      by (auto simp: path_exists_def io_ok_def tryR_def returnR_def emptied_def node_at_remove_tree)
  qed
qed

lemma fresh_dir_image:
  assumes "real_dir dest fs" "fs_wf fs" "fs_tree fs" "plain [n]" "node_at fs (dest @ [n]) \<in> {None, Some FDir}"
  shows "\<exists>fs'. fresh_dir (dest @ [n]) (dest @ [n, ''rootfs'']) fs = (Inr (), fs') \<and> fs_wf fs' \<and>
    real_dir (dest @ [n, ''rootfs'']) fs' \<and>
    (\<forall>p. strict_prefix (dest @ [n]) p \<longrightarrow> p \<noteq> dest @ [n, ''rootfs''] \<longrightarrow> node_at fs' p = None)"
proof -
  let ?d = "dest @ [n]" and ?r = "dest @ [n] @ [''rootfs'']"
  obtain fs1 where r: "(if path_exists fs ?d then io_ok (remove_dir_all ?d) fs else returnR () fs) = (Inr (), fs1)"
    and e: "emptied ?d fs fs1" using remove_old_image [OF assms] by blast
  define fs2 where "fs2 = put_node ?d FDir fs1"
  define fs3 where "fs3 = put_node ?r FDir fs2"
  have pd: "plain dest" "plain [''rootfs'']" using assms(1) by (auto simp: real_dir_def plain_def)
  have "\<not> prefix ?d p" if "prefix p dest" for p using that by (metis append_eq_append_conv prefix_order.antisym prefix_order.trans prefixI append_self_conv not_Cons_self2)
  then have r1: "real_dir dest fs1" using assms(1) e by (simp add: real_dir_def emptied_def)
  have n1: "node_at fs1 p = None" if "prefix ?d p" for p using e that by (simp add: emptied_def)
  have r2: "real_dir ?d fs2" unfolding fs2_def by (rule real_dir_put [OF r1 assms(4)])
  have n2: "node_at fs2 ?r = None" using n1 [of ?r] by (simp add: fs2_def node_at_put)
  have "make_dirs [] (dest @ [n] @ [''rootfs'']) fs1 = make_dirs dest ([n] @ [''rootfs'']) fs1"
    using make_dirs_real [of "[]" dest fs1] r1 by simp
  also have "\<dots> = make_dirs ?d [''rootfs''] fs2"
    using make_dirs_new [OF r1 assms(4) n1] by (simp add: fs2_def)
  also have "\<dots> = (Inr (), fs3)" using make_dirs_new [OF r2 pd(2)] n2 by (simp add: fs3_def)
  finally have "fresh_dir ?d ?r fs = (Inr (), fs3)"
    using r by (simp add: fresh_dir_def bindR_def io_run create_dir_all_def)
  moreover have "fs_wf fs3"
    using e pd assms(4) by (auto simp: fs3_def fs2_def emptied_def plain_def intro!: fs_wf_put)
  moreover have "real_dir ?r fs3" using real_dir_put [OF r2 pd(2)] by (simp add: fs3_def)
  moreover have "node_at fs3 p = None" if "strict_prefix ?d p" "p \<noteq> ?r" for p
    using that n1 [of p] by (auto simp: fs3_def fs2_def node_at_put strict_prefix_def)
  ultimately show ?thesis by auto
qed

section \<open>Files of a real directory\<close>

lemma write_child:
  assumes "real_dir dir fs" "plain [n]" "node_at fs (dir @ [n]) = None"
  shows "write_file (dir @ [n]) d fs = (Inr (), put_node (dir @ [n]) (FFile d) fs)"
  using follow_child [OF assms(1,2)] assms(3) by (simp add: write_file_def)

lemma real_dir_put_file:
  assumes "real_dir dir fs" "node_at fs q = None" "q \<noteq> []"
  shows "real_dir dir (put_node q x fs)"
  using assms unfolding real_dir_def by (metis node_at_put option.distinct(1))

lemma exists_child:
  assumes "real_dir dir fs" "plain [n]" "node_at fs (dir @ [n]) = Some x" "x = FDir \<or> x = FFile d"
  shows "path_exists fs (dir @ [n])"
  using follow_child [OF assms(1,2)] assms(3,4) by (auto simp: path_exists_def metadata_def)

lemma read_child:
  assumes "real_dir dir fs" "plain [n]" "node_at fs (dir @ [n]) = Some (FFile d)"
  shows "read_file (dir @ [n]) fs = Inr d"
  using follow_child [OF assms(1,2)] assms(3) by (simp add: read_file_def)

section \<open>The cache\<close>

text \<open>A directory that holds a complete pull with the given config.\<close>

definition complete :: "'e image_lib \<Rightarrow> path \<Rightarrow> image_config \<Rightarrow> fsys \<Rightarrow> bool" where
  "complete lib dir c fs \<longleftrightarrow> real_dir dir fs \<and> node_at fs (dir @ [''rootfs'']) = Some FDir \<and>
     node_at fs (dir @ [''config.json'']) = Some (FFile (lib_encode lib c)) \<and>
     node_at fs (dir @ [''.pulled'']) = Some (FFile [])"

lemma plain_cache_names: "plain [''rootfs'']" "plain [''config.json'']" "plain [''.pulled'']"
  by (simp_all add: plain_def)

lemma complete_cached:
  assumes "complete lib dir c fs" "lib_decode lib' (lib_encode lib c) = Some c"
  shows "is_cached dir fs \<and> cached_image lib' dir fs = (Inr \<lparr>pi_rootfs = dir @ [''rootfs''], pi_config = c\<rparr>, fs)"
proof -
  have c: "real_dir dir fs" "node_at fs (dir @ [''rootfs'']) = Some FDir"
    "node_at fs (dir @ [''config.json'']) = Some (FFile (lib_encode lib c))" "node_at fs (dir @ [''.pulled'']) = Some (FFile [])"
    using assms(1) by (auto simp: complete_def)
  have "is_cached dir fs"
    using exists_child [OF c(1) plain_cache_names(1) c(2)] exists_child [OF c(1) plain_cache_names(2) c(3)]
      exists_child [OF c(1) plain_cache_names(3) c(4)] by (simp add: is_cached_def)
  then show ?thesis using read_child [OF c(1) plain_cache_names(2) c(3)] assms(2)
    by (simp add: cached_image_def bindR_def io_run readR_def returnR_def)
qed

lemma complete_write:
  assumes r: "real_dir dir fs" and rd: "node_at fs (dir @ [''rootfs'']) = Some FDir"
    and n: "node_at fs (dir @ [''config.json'']) = None" "node_at fs (dir @ [''.pulled'']) = None"
  shows "\<exists>fs'. bindR (io (write_file (dir @ [''config.json'']) (lib_encode lib c))) (\<lambda>_.
      bindR (io (write_file (dir @ [''.pulled'']) [])) (\<lambda>_. returnR x)) fs = (Inr x, fs') \<and> complete lib dir c fs'"
proof -
  define fs1 where "fs1 = put_node (dir @ [''config.json'']) (FFile (lib_encode lib c)) fs"
  define fs2 where "fs2 = put_node (dir @ [''.pulled'']) (FFile []) fs1"
  have r1: "real_dir dir fs1" unfolding fs1_def by (rule real_dir_put_file [OF r n(1)]) simp
  have n1: "node_at fs1 (dir @ [''.pulled'']) = None" using n(2) by (simp add: fs1_def node_at_put)
  have r2: "real_dir dir fs2" unfolding fs2_def by (rule real_dir_put_file [OF r1 n1]) simp
  have "complete lib dir c fs2" using r2 rd by (simp add: complete_def fs2_def fs1_def node_at_put)
  moreover have "bindR (io (write_file (dir @ [''config.json'']) (lib_encode lib c))) (\<lambda>_.
      bindR (io (write_file (dir @ [''.pulled'']) [])) (\<lambda>_. returnR x)) fs = (Inr x, fs2)"
    using write_child [OF r plain_cache_names(2) n(1)] write_child [OF r1 plain_cache_names(3) n1]
    by (simp add: bindR_def io_run returnR_def fs1_def fs2_def)
  ultimately show ?thesis by blast
qed

lemma fetch_image_complete:
  assumes "real_dir dest fs" "fs_wf fs" "fs_tree fs" "plain [n]" "node_at fs (dest @ [n]) \<in> {None, Some FDir}"
    and "unpack_confined lib" "\<forall>img. lib_pull lib whole = Some img \<longrightarrow> list_all (safe_layer lib) (im_layers img)"
    and "fetch_image lib whole (dest @ [n]) fs = (Inr pulled, fs')"
  shows "complete lib (dest @ [n]) (pi_config pulled) fs' \<and> pi_rootfs pulled = dest @ [n, ''rootfs'']"
proof -
  let ?d = "dest @ [n]" and ?r = "dest @ [n, ''rootfs'']"
  obtain fs1 where f: "fresh_dir ?d ?r fs = (Inr (), fs1)" and w: "fs_wf fs1" and r: "real_dir ?r fs1"
    and e: "\<forall>p. strict_prefix ?d p \<longrightarrow> p \<noteq> ?r \<longrightarrow> node_at fs1 p = None"
    using fresh_dir_image [OF assms(1-5)] by blast
  from assms(8) f obtain img fs2 c where i: "lib_pull lib whole = Some img"
    and a: "apply_layers lib ?r (im_layers img) fs1 = (Inr (), fs2)"
    and b: "bindR (io (write_file (?d @ [''config.json'']) (lib_encode lib c))) (\<lambda>_.
      bindR (io (write_file (?d @ [''.pulled'']) [])) (\<lambda>_. returnR \<lparr>pi_rootfs = ?r, pi_config = c\<rparr>)) fs2 = (Inr pulled, fs')"
    by (auto simp: fetch_image_def Let_def bindR_def failR_def split: option.splits prod.splits sum.splits)
  have "node_at fs1 p \<noteq> Some (FLink t)" if "prefix ?r p" for p t
  proof (cases "p = ?r")
    case True
    then show ?thesis using r by (simp add: real_dir_def)
  next
    case False
    have "strict_prefix ?d ?r" by (simp add: strict_prefix_def)
    then have "strict_prefix ?d p" using that by (rule prefix_order.less_le_trans)
    then show ?thesis using e False by simp
  qed
  then have "confined ?r fs1 fs1" using r w by (simp add: confined_def no_links_below_def)
  then have k: "confined ?r fs1 fs2"
    using confined_apply_layers [OF _ assms(6), of ?r fs1 fs1 "im_layers img"] assms(7) i a by simp
  have keep: "node_at fs2 p = node_at fs1 p" if "\<not> prefix ?r p" for p
    using k that unfolding confined_def by (metis outside_def)
  have d: "real_dir ?d fs2"
    using k prefix_order.trans [of _ ?d ?r] assms(4) by (auto simp: confined_def real_dir_def plain_def)
  have g: "node_at fs2 ?r = Some FDir" using k by (simp add: confined_def real_dir_def)
  have m: "node_at fs2 (?d @ [x]) = None" if "x \<noteq> ''rootfs''" for x
    using keep [of "?d @ [x]"] e that by (simp add: strict_prefix_def)
  obtain fs3 where "bindR (io (write_file (?d @ [''config.json'']) (lib_encode lib c))) (\<lambda>_.
      bindR (io (write_file (?d @ [''.pulled'']) [])) (\<lambda>_. returnR \<lparr>pi_rootfs = ?r, pi_config = c\<rparr>)) fs2
      = (Inr \<lparr>pi_rootfs = ?r, pi_config = c\<rparr>, fs3)" "complete lib ?d c fs3"
    using complete_write [OF d _ m m, of lib c "\<lparr>pi_rootfs = ?r, pi_config = c\<rparr>"] g by auto
  with b show ?thesis by auto
qed



section \<open>The search for a module\<close>

text \<open>Where a path leads, with the number of links that may still be followed.\<close>

function reach :: "nat \<Rightarrow> fsys \<Rightarrow> path \<Rightarrow> path \<Rightarrow> (nat \<times> path) option" where
  "reach n fs p [] = Some (n, p)"
| "reach n fs p (c # cs) =
     (if c = ''.'' then reach n fs p cs
      else if c = ''..'' then reach n fs (butlast p) cs
      else case map_of fs (p @ [c]) of
        Some FDir \<Rightarrow> reach n fs (p @ [c]) cs
      | Some (FLink t) \<Rightarrow>
          (case n of 0 \<Rightarrow> None | Suc m \<Rightarrow> reach m fs (if is_abs t then [] else p) (path_comps t @ cs))
      | _ \<Rightarrow> None)"
  by pat_completeness auto
termination by (relation "measures [\<lambda>(n, fs, p, cs). n, \<lambda>(n, fs, p, cs). length cs]") auto

lemma resolve_reach:
  assumes "resolve n fs p cs = Inr q" "node_at fs q = Some FDir"
  shows "\<exists>m. reach n fs p cs = Some (m, q)"
  using assms
proof (induction n fs p cs rule: reach.induct)
  case (2 n fs p c cs)
  show ?case
  proof (cases "c = ''.'' \<or> c = ''..''")
    case True
    then show ?thesis using 2(1,2,5,6) by (auto split: if_splits)
  next
    case False
    show ?thesis
    proof (cases "map_of fs (p @ [c])")
      case None
      then show ?thesis using 2(5,6) False by (simp add: node_at_def split: if_splits)
    next
      case (Some x)
      then show ?thesis using 2(3-6) False
        by (cases x; cases n) (auto simp: node_at_def split del: if_split split: if_split_asm)
    qed
  qed
qed simp

lemma reach_append: "reach n fs p (cs @ ds) = (case reach n fs p cs of None \<Rightarrow> None | Some (m, q) \<Rightarrow> reach m fs q ds)"
proof (induction n fs p cs rule: reach.induct)
  case (2 n fs p c cs)
  show ?case
  proof (cases "c = ''.'' \<or> c = ''..''")
    case True
    then show ?thesis using 2(1,2) by auto
  next
    case False
    show ?thesis
    proof (cases "map_of fs (p @ [c])")
      case (Some x)
      then show ?thesis using 2(3,4) False by (cases x; cases n) (simp_all split del: if_split)
    qed (use False in simp)
  qed
qed simp

lemma reach_le: "reach n fs p cs = Some (m, q) \<Longrightarrow> m \<le> n"
proof (induction n fs p cs rule: reach.induct)
  case (2 n fs p c cs)
  show ?case
  proof (cases "c = ''.'' \<or> c = ''..''")
    case True
    then show ?thesis using 2(1,2,5) by (auto split: if_splits)
  next
    case False
    show ?thesis
    proof (cases "map_of fs (p @ [c])")
      case (Some x)
      then show ?thesis using 2(3-5) False by (cases x; cases n) (auto split del: if_split dest: le_SucI)
    qed (use 2(5) False in simp)
  qed
qed simp

lemma fs_depth_ge: "(p, x) \<in> set fs \<Longrightarrow> length p \<le> fs_depth fs"
  by (induction fs) (auto simp: fs_depth_def le_max_iff_disj)

text \<open>How much deeper a search can go from a directory.\<close>

definition room :: "fsys \<Rightarrow> nat \<Rightarrow> path \<Rightarrow> nat" where
  "room fs m q = m * (fs_depth fs + 1) + (fs_depth fs - length q)"

lemma room_decreases:
  assumes "reach 40 fs [] (dir @ [n]) = Some (m', q')" "reach 40 fs [] dir = Some (m, q)" "plain [n]"
  shows "room fs m' q' < room fs m q"
proof -
  have r: "reach m fs q [n] = Some (m', q')" using assms(1,2) by (simp add: reach_append)
  show ?thesis
  proof (cases "map_of fs (q @ [n])")
    case None
    then show ?thesis using r assms(3) by (simp add: plain_def)
  next
    case (Some x)
    show ?thesis
    proof (cases x)
      case (FFile d)
      then show ?thesis using r assms(3) Some by (simp add: plain_def)
    next
      case FDir
      then have "m' = m" "q' = q @ [n]" using r assms(3) Some by (auto simp: plain_def)
      moreover have "length (q @ [n]) \<le> fs_depth fs" using fs_depth_ge map_of_SomeD [OF Some] .
      ultimately show ?thesis by (simp add: room_def)
    next
      case (FLink t)
      then obtain k where k: "m = Suc k" and "reach k fs (if is_abs t then [] else q) (path_comps t) = Some (m', q')"
        using r assms(3) Some by (cases m) (auto simp: plain_def split del: if_split)
      then have "m' \<le> k" by (simp add: reach_le)
      then have "m' * (fs_depth fs + 1) \<le> k * (fs_depth fs + 1)" by (rule mult_le_mono1)
      then show ?thesis by (simp add: room_def k)
    qed
  qed
qed

lemma walk_names_total:
  assumes "\<And>n. n \<in> set ns \<Longrightarrow> path_is_dir fs (dir @ [n]) \<Longrightarrow> enter (dir @ [n]) \<noteq> None"
  shows "walk_names enter fs dir ns \<noteq> None"
  using assms
proof (induction ns)
  case (Cons n ns)
  then have "walk_names enter fs dir ns \<noteq> None" "path_is_dir fs (dir @ [n]) \<Longrightarrow> enter (dir @ [n]) \<noteq> None" by auto
  then show ?case by (auto split: sum.split)
qed simp

lemma path_is_dir_reach:
  assumes "path_is_dir fs cs" obtains m q where "reach 40 fs [] cs = Some (m, q)"
  using assms resolve_reach by (auto simp: path_is_dir_def metadata_def follow_def split: sum.splits) blast

lemma walk_wasm_total:
  assumes "fs_wf fs" "\<And>m q. reach 40 fs [] dir = Some (m, q) \<Longrightarrow> room fs m q \<le> k"
  shows "walk_wasm (Suc k) fs dir \<noteq> None"
  using assms(2)
proof (induction k arbitrary: dir)
  case 0
  show ?case
  proof (cases "read_dir dir fs")
    case (Inr ns)
    then obtain m q where mq: "reach 40 fs [] dir = Some (m, q)"
      using resolve_reach by (auto simp: read_dir_def follow_def split: sum.splits option.splits fnode.splits) blast
    have "\<not> path_is_dir fs (dir @ [n])" if "n \<in> set ns" for n
    proof
      assume "path_is_dir fs (dir @ [n])"
      then obtain m' q' where "reach 40 fs [] (dir @ [n]) = Some (m', q')" by (rule path_is_dir_reach)
      moreover have "plain [n]" using read_dir_plain [OF assms(1) Inr] that by (simp add: list_all_iff)
      ultimately show False using room_decreases [OF _ mq] "0.prems" [OF mq] by fastforce
    qed
    then have "walk_names (walk_wasm 0 fs) fs dir ns \<noteq> None" by (intro walk_names_total) auto
    then show ?thesis using Inr by simp
  qed simp
next
  case (Suc k)
  show ?case
  proof (cases "read_dir dir fs")
    case (Inr ns)
    then obtain m q where mq: "reach 40 fs [] dir = Some (m, q)"
      using resolve_reach by (auto simp: read_dir_def follow_def split: sum.splits option.splits fnode.splits) blast
    have "walk_wasm (Suc k) fs (dir @ [n]) \<noteq> None" if "n \<in> set ns" for n
    proof (rule Suc.IH)
      fix m' q' assume "reach 40 fs [] (dir @ [n]) = Some (m', q')"
      moreover have "plain [n]" using read_dir_plain [OF assms(1) Inr] that by (simp add: list_all_iff)
      ultimately show "room fs m' q' \<le> k" using room_decreases [OF _ mq] Suc.prems [OF mq] by fastforce
    qed
    then have "walk_names (walk_wasm (Suc k) fs) fs dir ns \<noteq> None" by (intro walk_names_total) auto
    then show ?thesis unfolding walk_wasm.simps(2) [of "Suc k"] using Inr by simp
  qed simp
qed

lemma walk_names_mono:
  assumes "\<And>p r. enter p = Some r \<Longrightarrow> enter' p = Some r" "walk_names enter fs dir ns = Some r"
  shows "walk_names enter' fs dir ns = Some r"
  using assms(2)
proof (induction ns arbitrary: r)
  case (Cons n ns)
  then show ?case using assms(1) [of "dir @ [n]"]
    by (auto split: if_splits option.splits sum.splits)
qed simp

lemma walk_wasm_mono: "walk_wasm k fs dir = Some r \<Longrightarrow> walk_wasm (Suc k) fs dir = Some r"
proof (induction k arbitrary: dir r)
  case (Suc k)
  show ?case
  proof (cases "read_dir dir fs")
    case (Inr ns)
    with Suc.prems have "walk_names (walk_wasm k fs) fs dir ns = Some r" by simp
    then have "walk_names (walk_wasm (Suc k) fs) fs dir ns = Some r"
      using walk_names_mono [of "walk_wasm k fs" "walk_wasm (Suc k) fs"] Suc.IH by blast
    then show ?thesis unfolding walk_wasm.simps(2) [of "Suc k"] using Inr by simp
  qed (use Suc.prems in simp)
qed simp

lemma walk_wasm_more: "walk_wasm k fs dir = Some r \<Longrightarrow> k \<le> k' \<Longrightarrow> walk_wasm k' fs dir = Some r"
  by (rule dec_induct [of k k']) (auto intro: walk_wasm_mono simp del: walk_wasm.simps)

text \<open>
  C19. The search for a module ends. It enters links to directories, so a link to a directory above it
  makes it go round; since no path with more than forty links can be opened, it still ends, on every
  file system and from every directory, at a depth of at most forty-one times one more than the depth of the file system:
  from that bound on the result no longer depends on the bound.
\<close>

theorem find_wasm_terminates:
  assumes "fs_wf fs"
  shows "\<exists>r. find_wasm_in fs root = Some r \<and>
    (\<exists>found. \<forall>k\<ge>walk_bound fs. walk_wasm k fs root = Some found)"
proof -
  have "room fs m q \<le> 41 * (fs_depth fs + 1)" if "reach 40 fs [] root = Some (m, q)" for m q
  proof -
    have "m * (fs_depth fs + 1) \<le> 40 * (fs_depth fs + 1)" using reach_le [OF that] by (rule mult_le_mono1)
    then show ?thesis by (simp add: room_def)
  qed
  then have "walk_wasm (walk_bound fs) fs root \<noteq> None"
    unfolding walk_bound_def add_2_eq_Suc' by (metis Suc_eq_plus1 assms walk_wasm_total)
  then obtain found where f: "walk_wasm (walk_bound fs) fs root = Some found" by blast
  then have "\<forall>k\<ge>walk_bound fs. walk_wasm k fs root = Some found" using walk_wasm_more by blast
  then show ?thesis using f by (auto simp: find_wasm_in_def split: sum.split)
qed

text \<open>A link to the directory that holds it: the search follows it and comes back with a module.\<close>

theorem find_wasm_terminates_witness:
  "\<exists>r. find_wasm_in [([''d''], FDir), ([''d'', ''up''], FLink ''..''), ([''d'', ''app.wasm''], FFile [])] [''d''] = Some r"
  using find_wasm_terminates [of "[([''d''], FDir), ([''d'', ''up''], FLink ''..''), ([''d'', ''app.wasm''], FFile [])]" "[''d'']"]
  by (auto simp: fs_wf_def plain_def)

end
