(* ===== verification/Bundle.thy ===== *)
theory Bundle
  imports Models Image_Cache
begin

text \<open>
  The OCI bundle of a container (\<open>src/src/node/oci/bundle.rs\<close>): command, environment, directory and user
  from the pod and the image, and the namespaces, mounts and capabilities of the runtime spec. The records
  hold the fields the program sets; the builders of the \<open>oci_spec\<close> library fill in the others and
  \<open>None\<close> stands for a field left to them. The file \<open>config.json\<close> is the text \<open>enc\<close> gives a spec.
\<close>

section \<open>The runtime spec\<close>

record rootless_config =
  rc_host_uid :: nat
  rc_host_gid :: nat

record bundle_inputs =
  bi_hostname :: string
  bi_rootfs_path :: string
  bi_container :: container
  bi_image :: image_config
  bi_netns_path :: "string option"
  bi_rootless :: "rootless_config option"

datatype namespace_type = NS_Pid | NS_Ipc | NS_Uts | NS_Mount | NS_Network | NS_User

record linux_namespace =
  ln_typ :: namespace_type
  ln_path :: "string option"

record id_mapping =
  idm_container_id :: nat
  idm_host_id :: nat
  idm_size :: nat

datatype capability = Cap_Chown | Cap_DacOverride | Cap_Fsetid | Cap_Fowner | Cap_Mknod | Cap_NetRaw | Cap_Setgid
  | Cap_Setuid | Cap_Setfcap | Cap_Setpcap | Cap_NetBindService | Cap_SysChroot | Cap_Kill | Cap_AuditWrite

record linux_capabilities =
  lc_bounding :: "capability list"
  lc_effective :: "capability list"
  lc_permitted :: "capability list"

record mount =
  mo_destination :: string
  mo_typ :: string
  mo_source :: string
  mo_options :: "string list option"

record process =
  pc_terminal :: bool
  pc_uid :: nat
  pc_gid :: nat
  pc_args :: "string list"
  pc_env :: "string list"
  pc_cwd :: string
  pc_capabilities :: linux_capabilities

record oci_spec =
  os_version :: string
  os_hostname :: string
  os_process :: process
  os_root_path :: string
  os_root_readonly :: bool
  os_mounts :: "mount list"
  os_namespaces :: "linux_namespace list"
  os_uid_mappings :: "id_mapping list option"
  os_gid_mappings :: "id_mapping list option"

section \<open>Merging pod and image\<close>

definition merge_args :: "container \<Rightarrow> image_config \<Rightarrow> string list" where
  "merge_args c img =
     (let entrypoint = (case co_command c of
            Some v \<Rightarrow> if v \<noteq> [] then v else ic_entrypoint img | None \<Rightarrow> ic_entrypoint img);
          cmd = (case co_args c of
            Some a \<Rightarrow> a | None \<Rightarrow> if co_command c \<noteq> None then [] else ic_cmd img);
          out = entrypoint @ cmd
      in if out = [] then [''/bin/sh''] else out)"

definition default_path :: string where
  "default_path = ''PATH=/usr/local/sbin:/usr/local/bin:/usr/sbin:/usr/bin:/sbin:/bin''"

definition env_entry :: "env_var \<Rightarrow> string" where
  "env_entry v = ev_name v @ ''='' @ (case ev_value v of Some x \<Rightarrow> x | None \<Rightarrow> [])"

definition merge_env :: "container \<Rightarrow> image_config \<Rightarrow> string list" where
  "merge_env c img =
     (let env = ic_env img @ (case co_env c of Some vs \<Rightarrow> map env_entry vs | None \<Rightarrow> [])
      in if list_all (\<lambda>e. \<not> starts_with e ''PATH='') env then env @ [default_path] else env)"

definition pick_cwd :: "container \<Rightarrow> image_config \<Rightarrow> string" where
  "pick_cwd c img =
     (case (case co_working_dir c of Some d \<Rightarrow> Some d | None \<Rightarrow> ic_working_dir img) of
        Some d \<Rightarrow> if d \<noteq> [] then d else ''/'' | None \<Rightarrow> ''/'')"

definition u32_max :: nat where
  "u32_max = 4294967295"

definition parse_user :: "string option \<Rightarrow> nat \<times> nat" where
  "parse_user s = (case s of
       None \<Rightarrow> (0, 0)
     | Some t \<Rightarrow>
         if t = [] then (0, 0)
         else (let (a, b) = splitn2 (CHR '':'') t;
                   uid = (case parse_unsigned u32_max a of Some n \<Rightarrow> n | None \<Rightarrow> 0);
                   gid = (case Option.bind b (parse_unsigned u32_max) of Some n \<Rightarrow> n | None \<Rightarrow> uid)
               in (uid, gid)))"

section \<open>Defaults\<close>

definition default_capabilities :: linux_capabilities where
  "default_capabilities =
     (let caps = [Cap_Chown, Cap_DacOverride, Cap_Fsetid, Cap_Fowner, Cap_Mknod, Cap_NetRaw, Cap_Setgid, Cap_Setuid,
        Cap_Setfcap, Cap_Setpcap, Cap_NetBindService, Cap_SysChroot, Cap_Kill, Cap_AuditWrite]
      in \<lparr>lc_bounding = caps, lc_effective = caps, lc_permitted = caps\<rparr>)"

definition default_namespaces :: "string option \<Rightarrow> bool \<Rightarrow> linux_namespace list" where
  "default_namespaces netns_path rootless =
     map (\<lambda>k. \<lparr>ln_typ = k, ln_path = None\<rparr>) [NS_Pid, NS_Ipc, NS_Uts, NS_Mount] @
     [\<lparr>ln_typ = NS_Network, ln_path = netns_path\<rparr>] @
     (if rootless then [\<lparr>ln_typ = NS_User, ln_path = None\<rparr>] else [])"

definition default_mounts :: "bool \<Rightarrow> mount list" where
  "default_mounts rootless =
     [\<lparr>mo_destination = ''/proc'', mo_typ = ''proc'', mo_source = ''proc'', mo_options = None\<rparr>,
      \<lparr>mo_destination = ''/dev'', mo_typ = ''tmpfs'', mo_source = ''tmpfs'',
       mo_options = Some [''nosuid'', ''strictatime'', ''mode=755'', ''size=65536k'']\<rparr>,
      \<lparr>mo_destination = ''/dev/pts'', mo_typ = ''devpts'', mo_source = ''devpts'',
       mo_options = Some ([''nosuid'', ''noexec'', ''newinstance'', ''ptmxmode=0666'', ''mode=0620''] @
         (if \<not> rootless then [''gid=5''] else []))\<rparr>,
      \<lparr>mo_destination = ''/dev/shm'', mo_typ = ''tmpfs'', mo_source = ''shm'',
       mo_options = Some [''nosuid'', ''noexec'', ''nodev'', ''mode=1777'', ''size=65536k'']\<rparr>,
      \<lparr>mo_destination = ''/sys'', mo_typ = ''sysfs'', mo_source = ''sysfs'',
       mo_options = Some [''nosuid'', ''noexec'', ''nodev'', ''ro'']\<rparr>]"

section \<open>The spec and its file\<close>

definition build_spec :: "bundle_inputs \<Rightarrow> oci_spec" where
  "build_spec inp =
     (let (uid, gid) = parse_user (ic_user (bi_image inp));
          one_row = (\<lambda>h. [\<lparr>idm_container_id = 0, idm_host_id = h, idm_size = 1\<rparr>])
      in \<lparr>os_version = ''1.0.2-dev'',
          os_hostname = bi_hostname inp,
          os_process = \<lparr>pc_terminal = False, pc_uid = uid, pc_gid = gid,
            pc_args = merge_args (bi_container inp) (bi_image inp),
            pc_env = merge_env (bi_container inp) (bi_image inp),
            pc_cwd = pick_cwd (bi_container inp) (bi_image inp),
            pc_capabilities = default_capabilities\<rparr>,
          os_root_path = bi_rootfs_path inp,
          os_root_readonly = False,
          os_mounts = default_mounts (bi_rootless inp \<noteq> None),
          os_namespaces = default_namespaces (bi_netns_path inp) (bi_rootless inp \<noteq> None),
          os_uid_mappings = map_option (\<lambda>rc. one_row (rc_host_uid rc)) (bi_rootless inp),
          os_gid_mappings = map_option (\<lambda>rc. one_row (rc_host_gid rc)) (bi_rootless inp)\<rparr>)"

definition write_config :: "(oci_spec \<Rightarrow> string) \<Rightarrow> path \<Rightarrow> bundle_inputs \<Rightarrow> fsys \<Rightarrow> (string + unit) \<times> fsys" where
  "write_config enc bundle_dir inp =
     (let spec = build_spec inp; p = bundle_dir @ [''config.json''] in
      bindR (io (create_dir_all bundle_dir)) (\<lambda>_.
      with_context (''writing '' @ path_text p) (write_file p (enc spec))))"

section \<open>What an exec session inherits\<close>

text \<open>
  \<open>tenant_defaults\<close> of \<open>node/runtime/embedded.rs\<close>: the environment as a map, a later entry replacing an
  earlier one, and the user. \<open>dec\<close> reads a spec back; a file that cannot be read or decoded is an error.
\<close>

record tenant_env =
  te_env :: "(string \<times> string) list"
  te_uid :: nat
  te_gid :: nat

definition env_pairs :: "string list \<Rightarrow> (string \<times> string) list" where
  "env_pairs = List.map_filter (str_split_once (CHR ''=''))"

definition tenant_of_spec :: "bool \<Rightarrow> oci_spec \<Rightarrow> tenant_env" where
  "tenant_of_spec tty spec =
     (let env = hm_collect (env_pairs (pc_env (os_process spec)));
          env' = (if tty \<and> hm_get env ''TERM'' = None then hm_insert ''TERM'' ''xterm'' env else env)
      in \<lparr>te_env = env', te_uid = pc_uid (os_process spec), te_gid = pc_gid (os_process spec)\<rparr>)"

definition tenant_defaults :: "(path \<Rightarrow> fsys \<Rightarrow> string + oci_spec) \<Rightarrow> path \<Rightarrow> bool \<Rightarrow> fsys \<Rightarrow> string + tenant_env" where
  "tenant_defaults load bundle_dir tty fs = (case load (bundle_dir @ [''config.json'']) fs of
       Inl e \<Rightarrow> Inl (''loading bundle spec: '' @ e)
     | Inr spec \<Rightarrow> Inr (tenant_of_spec tty spec))"

section \<open>Properties\<close>

text \<open>
  The command of a container. It is never empty. A command of the pod replaces the entrypoint
  of the image and drops the image's arguments; arguments of the pod replace those of the
  image; without either the container runs the image's entrypoint with its arguments.
\<close>

theorem command_rules:
  "merge_args c img \<noteq> [] \<and>
   (\<forall>cmd. co_command c = Some cmd \<and> cmd \<noteq> [] \<longrightarrow>
      merge_args c img = cmd @ (case co_args c of Some a \<Rightarrow> a | None \<Rightarrow> [])) \<and>
   (\<forall>a. co_command c = None \<and> co_args c = Some a \<and> ic_entrypoint img \<noteq> [] \<longrightarrow>
      merge_args c img = ic_entrypoint img @ a) \<and>
   (co_command c = None \<and> co_args c = None \<and> ic_entrypoint img @ ic_cmd img \<noteq> [] \<longrightarrow>
      merge_args c img = ic_entrypoint img @ ic_cmd img)"
  by (auto simp: merge_args_def Let_def split: option.split)

text \<open>An empty command counts as absent for the entrypoint and as present for the arguments of the image.\<close>

theorem empty_command_drops_arguments:
  assumes "co_command c = Some []" "co_args c = None" "ic_entrypoint img \<noteq> []"
  shows "merge_args c img = ic_entrypoint img"
  using assms by (simp add: merge_args_def)

section \<open>The environment\<close>

lemma hm_get_collect: "hm_get (hm_collect ps) k = map_of (rev ps) k"
proof -
  have "hm_get (fold (\<lambda>(k, v). hm_insert k v) ps m) k = (case map_of (rev ps) k of Some v \<Rightarrow> Some v | None \<Rightarrow> hm_get m k)"
    for m
    by (induction ps arbitrary: m) (auto simp: map_add_def split: option.split)
  then show ?thesis by (simp add: hm_collect_def hm_get_def split: option.split)
qed

lemma env_pairs_append: "env_pairs (a @ b) = env_pairs a @ env_pairs b"
  by (induction a) (auto simp: env_pairs_def List.map_filter_simps split: option.split)

lemma env_pairs_entries:
  assumes "\<forall>v\<in>set vs. CHR ''='' \<notin> set (ev_name v)"
  shows "env_pairs (map env_entry vs) = map (\<lambda>v. (ev_name v, case ev_value v of Some x \<Rightarrow> x | None \<Rightarrow> [])) vs"
  using assms
proof (induction vs)
  case (Cons v vs)
  then have "str_split_once (CHR ''='') (env_entry v) = Some (ev_name v, case ev_value v of Some x \<Rightarrow> x | None \<Rightarrow> [])"
    by (simp add: env_entry_def str_split_once_append)
  then show ?case using Cons by (simp add: env_pairs_def List.map_filter_simps)
qed (simp add: env_pairs_def List.map_filter_simps)

lemma starts_with_key:
  "starts_with e ''PATH='' \<longleftrightarrow> (\<exists>v. str_split_once (CHR ''='') e = Some (''PATH'', v))"
proof
  assume "starts_with e ''PATH=''"
  then have "e = ''PATH'' @ CHR ''='' # drop 5 e"
    using append_take_drop_id [of 5 e] by (simp add: starts_with_def numeral_eq_Suc)
  then have "str_split_once (CHR ''='') e = Some (''PATH'', drop 5 e)"
    using str_split_once_append [of "CHR ''=''" "''PATH''" "drop 5 e"] by simp
  then show "\<exists>v. str_split_once (CHR ''='') e = Some (''PATH'', v)" by blast
next
  assume "\<exists>v. str_split_once (CHR ''='') e = Some (''PATH'', v)"
  then obtain v where "splitn2 (CHR ''='') e = (''PATH'', Some v)"
    by (auto simp: str_split_once_def split: prod.splits option.splits)
  then show "starts_with e ''PATH=''" using splitn2_key [of "CHR ''=''" e "''PATH''" v] by (auto simp: starts_with_def)
qed

text \<open>What pod and image say about a variable: the last entry of its name.\<close>

definition pod_value :: "container \<Rightarrow> string \<Rightarrow> string option" where
  "pod_value c k = map_of (rev (map (\<lambda>v. (ev_name v, case ev_value v of Some x \<Rightarrow> x | None \<Rightarrow> []))
     (case co_env c of Some vs \<Rightarrow> vs | None \<Rightarrow> []))) k"

definition image_value :: "image_config \<Rightarrow> string \<Rightarrow> string option" where
  "image_value img k = map_of (rev (env_pairs (ic_env img))) k"

definition env_names_ok :: "container \<Rightarrow> bool" where
  "env_names_ok c \<longleftrightarrow> list_all (\<lambda>v. CHR ''='' \<notin> set (ev_name v)) (case co_env c of Some vs \<Rightarrow> vs | None \<Rightarrow> [])"

definition default_path_value :: string where
  "default_path_value = ''/usr/local/sbin:/usr/local/bin:/usr/sbin:/usr/bin:/sbin:/bin''"

lemma no_path_entry:
  "list_all (\<lambda>e. \<not> starts_with e ''PATH='') es \<longleftrightarrow> map_of (rev (env_pairs es)) ''PATH'' = None"
proof (induction es)
  case (Cons e es)
  have "env_pairs (e # es) = (case str_split_once (CHR ''='') e of None \<Rightarrow> [] | Some kv \<Rightarrow> [kv]) @ env_pairs es"
    by (simp add: env_pairs_def List.map_filter_simps split: option.split)
  then show ?case using Cons by (auto simp: starts_with_key map_add_def split: option.split option.splits)
qed (simp add: env_pairs_def List.map_filter_simps)

lemma merge_env_value:
  assumes "env_names_ok c"
  shows "map_of (rev (env_pairs (merge_env c img))) k = (case pod_value c k of
      Some v \<Rightarrow> Some v
    | None \<Rightarrow> (case image_value img k of
        Some v \<Rightarrow> Some v | None \<Rightarrow> if k = ''PATH'' then Some default_path_value else None))"
proof -
  define vs where "vs = (case co_env c of Some vs \<Rightarrow> vs | None \<Rightarrow> [])"
  define env where "env = ic_env img @ map env_entry vs"
  have m: "merge_env c img = (if list_all (\<lambda>e. \<not> starts_with e ''PATH='') env then env @ [default_path] else env)"
    by (simp add: merge_env_def env_def vs_def Let_def split: option.split)
  have e: "map_of (rev (env_pairs env)) k = (case pod_value c k of Some v \<Rightarrow> Some v | None \<Rightarrow> image_value img k)" for k
    using assms env_pairs_entries [of vs]
    by (simp add: env_def env_pairs_append env_names_ok_def list_all_iff vs_def pod_value_def image_value_def map_add_def
        split: option.split)
  have d: "env_pairs [default_path] = [(''PATH'', default_path_value)]" by code_simp
  show ?thesis
  proof (cases "map_of (rev (env_pairs env)) ''PATH'' = None")
    case True
    then have "merge_env c img = env @ [default_path]" using m no_path_entry by simp
    then show ?thesis using e [of k] True e [of "''PATH''"] d by (auto simp: env_pairs_append map_add_def split: option.splits)
  next
    case False
    then have "merge_env c img = env" using m no_path_entry by simp
    then show ?thesis using e [of k] False e [of "''PATH''"] by (auto split: option.splits)
  qed
qed

lemma write_config_run:
  assumes "real_dir dir fs" "node_at fs (dir @ [''config.json'']) = None \<or> node_at fs (dir @ [''config.json'']) = Some (FFile d)"
  shows "\<exists>fs'. write_config enc dir inp fs = (Inr (), fs') \<and>
    read_file (dir @ [''config.json'']) fs' = Inr (enc (build_spec inp))"
proof -
  let ?p = "dir @ [''config.json'']"
  define fs' where "fs' = put_node ?p (FFile (enc (build_spec inp))) fs"
  have "create_dir_all dir fs = (Inr (), fs)"
    using make_dirs_real [of "[]" dir fs "[]"] assms(1) by (simp add: create_dir_all_def)
  moreover have "follow fs ?p = Inr ?p"
    using assms by (intro follow_child) (auto simp: plain_def)
  ultimately have w: "write_config enc dir inp fs = (Inr (), fs')"
    using assms(2) by (auto simp: write_config_def Let_def bindR_def io_run with_context_def mapE_def tryR_def returnR_def
        write_file_def fs'_def)
  have "node_at fs' p = Some FDir" if "prefix p dir" for p
  proof -
    have "p \<noteq> ?p" using that by auto
    then show ?thesis using that assms(1) by (simp add: fs'_def node_at_put real_dir_def)
  qed
  then have "real_dir dir fs'" using assms(1) by (simp add: real_dir_def)
  then have "read_file ?p fs' = Inr (enc (build_spec inp))"
    by (rule read_child) (simp_all add: plain_def fs'_def node_at_put)
  with w show ?thesis by blast
qed


definition sample_inputs :: bundle_inputs where
  "sample_inputs = \<lparr>bi_hostname = ''web'', bi_rootfs_path = ''rootfs'',
     bi_container = \<lparr>co_name = ''c'', co_image = ''nginx'', co_image_pull_policy = None, co_command = None, co_args = None,
       co_env = Some [\<lparr>ev_name = ''A'', ev_value = Some ''pod''\<rparr>], co_ports = None, co_resources = None, co_working_dir = None\<rparr>,
     bi_image = default_image_config\<lparr>ic_env := [''A=img'', ''B=img''], ic_user := Some ''101''\<rparr>,
     bi_netns_path = None, bi_rootless = None\<rparr>"


section \<open>Rootless containers\<close>

definition id_mapped :: "id_mapping list option \<Rightarrow> nat \<Rightarrow> bool" where
  "id_mapped ms i \<longleftrightarrow> (case ms of
     None \<Rightarrow> True
   | Some l \<Rightarrow> list_ex (\<lambda>m. idm_container_id m \<le> i \<and> i < idm_container_id m + idm_size m) l)"

text \<open>The group a mount option names.\<close>

definition gid_option :: "string \<Rightarrow> nat option" where
  "gid_option s = Option.bind (strip_prefix s ''gid='') (parse_unsigned u32_max)"

text \<open>
  The spec of a container without root. With a rootless configuration the spec has a user
  namespace whose root is the host user, with every kind of namespace once, and no mount names a group
  that is not mapped; without one there is no user namespace and no mapping. The user of the
  container is mapped only if it is root: a rootless container of an image with another user
  has a user that does not exist in its namespace.
\<close>

theorem rootless_spec:
  "distinct (map ln_typ (os_namespaces (build_spec inp))) \<and>
   (NS_User \<in> ln_typ ` set (os_namespaces (build_spec inp)) \<longleftrightarrow> bi_rootless inp \<noteq> None) \<and>
   list_all (\<lambda>m. case mo_options m of None \<Rightarrow> True
     | Some opts \<Rightarrow> list_all (\<lambda>s. case gid_option s of None \<Rightarrow> True | Some g \<Rightarrow> id_mapped (os_gid_mappings (build_spec inp)) g) opts)
     (os_mounts (build_spec inp)) \<and>
   (id_mapped (os_uid_mappings (build_spec inp)) (pc_uid (os_process (build_spec inp))) \<longleftrightarrow>
      bi_rootless inp = None \<or> fst (parse_user (ic_user (bi_image inp))) = 0)"
proof -
  have g: "gid_option s = None" if "s \<in> {''nosuid'', ''strictatime'', ''mode=755'', ''size=65536k'', ''noexec'',
      ''newinstance'', ''ptmxmode=0666'', ''mode=0620'', ''nodev'', ''mode=1777'', ''ro''}" for s
    using that by (auto simp: gid_option_def strip_prefix_def)
  have m: "os_mounts (build_spec inp) = default_mounts (bi_rootless inp \<noteq> None)"
    "os_gid_mappings (build_spec inp) = None \<longleftrightarrow> bi_rootless inp = None"
    by (simp_all add: build_spec_def Let_def split: prod.split)
  have "list_all (\<lambda>m. case mo_options m of None \<Rightarrow> True
     | Some opts \<Rightarrow> list_all (\<lambda>s. case gid_option s of None \<Rightarrow> True | Some g \<Rightarrow> id_mapped (os_gid_mappings (build_spec inp)) g) opts)
     (os_mounts (build_spec inp))"
    using m(2) by (cases "bi_rootless inp") (simp_all add: m(1) default_mounts_def g id_mapped_def split: option.split)
  moreover have "distinct (map ln_typ (os_namespaces (build_spec inp)))"
    "NS_User \<in> ln_typ ` set (os_namespaces (build_spec inp)) \<longleftrightarrow> bi_rootless inp \<noteq> None"
    by (simp_all add: build_spec_def default_namespaces_def Let_def split: prod.split)
  moreover have "id_mapped (os_uid_mappings (build_spec inp)) (pc_uid (os_process (build_spec inp))) \<longleftrightarrow>
      bi_rootless inp = None \<or> fst (parse_user (ic_user (bi_image inp))) = 0"
    by (cases "bi_rootless inp") (simp_all add: build_spec_def Let_def id_mapped_def split: prod.split)
  ultimately show ?thesis by blast
qed

end
