(* ===== verification/Embedded_Log.thy ===== *)
theory Embedded_Log
  imports Engines Utf8 File_System
begin

text \<open>
  The log of a container of the embedded engine (the section Logs of
  \<open>src/src/node/runtime/embedded.rs\<close>): the pumps that split the output of a container into lines, the file
  they append to together with the broadcast to followers, the rendering of a log for
  \<open>kubectl logs\<close>, and the forwarder of \<open>kubectl logs -f\<close>.

  The file is the bytes written to it. The text of the time at which a line is appended, and the
  parsing of such a text (chrono), are given. A broadcast channel is the list of everything sent; a receiver is
  a position in it, and lags when it is more than the capacity behind. An append, which
  writes the file and sends the line under one lock, is one step.
\<close>

section \<open>Appending\<close>

record container_log =
  cl_file :: string
  cl_live :: "string list"
  cl_closed :: bool
  cl_open_pumps :: nat

definition log_create :: container_log where
  "log_create = \<lparr>cl_file = [], cl_live = [], cl_closed = False, cl_open_pumps = 0\<rparr>"

definition stored_line :: "string \<Rightarrow> string \<Rightarrow> string \<Rightarrow> string" where
  "stored_line ts stream text = ts @ '' '' @ stream @ '' '' @ text @ [CHR 0x0A]"

definition log_append :: "string \<Rightarrow> string \<Rightarrow> string \<Rightarrow> container_log \<Rightarrow> container_log" where
  "log_append ts stream text log =
     (let line = stored_line ts stream text
      in log\<lparr>cl_file := cl_file log @ line, cl_live := cl_live log @ [line]\<rparr>)"

section \<open>The pumps\<close>

fun newline_position :: "string \<Rightarrow> nat option" where
  "newline_position [] = None"
| "newline_position (c # s) = (if c = CHR 0x0A then Some 0 else map_option Suc (newline_position s))"

text \<open>\<open>while let Some(pos) = ...\<close>: the complete lines are drained, the rest stays.\<close>

function drain_lines :: "string \<Rightarrow> string list \<times> string" where
  "drain_lines partial = (case newline_position partial of
       None \<Rightarrow> ([], partial)
     | Some pos \<Rightarrow>
         let line = take (Suc pos) partial;
             (ls, rest) = drain_lines (drop (Suc pos) partial)
         in (take (length line - 1) line # ls, rest))"
  by pat_completeness auto
termination
proof (relation "measure length")
  fix partial pos
  assume "newline_position partial = Some pos"
  then show "(drop (Suc pos) partial, partial) \<in> measure length" by (cases partial) (auto split: if_splits)
qed simp

declare drain_lines.simps [simp del]

text \<open>
  The texts a pump appends, for the results of its reads: an empty read is the end of the stream,
  an error ends the pump as well, and what is left of a line is appended at the end.
\<close>

fun pump_texts :: "string \<Rightarrow> (io_error + string) list \<Rightarrow> string list" where
  "pump_texts partial [] = (if partial \<noteq> [] then [partial] else [])"
| "pump_texts partial (Inl e # rs) = (if partial \<noteq> [] then [partial] else [])"
| "pump_texts partial (Inr buf # rs) =
     (if buf = [] then (if partial \<noteq> [] then [partial] else [])
      else (let (ls, rest) = drain_lines (partial @ buf) in ls @ pump_texts rest rs))"

definition pump_start :: "container_log \<Rightarrow> container_log" where
  "pump_start log = log\<lparr>cl_open_pumps := cl_open_pumps log + 1\<rparr>"

text \<open>The pump that finds itself the last one closes the log.\<close>

definition pump_end :: "container_log \<Rightarrow> container_log" where
  "pump_end log = log\<lparr>cl_open_pumps := cl_open_pumps log - 1, cl_closed := cl_closed log \<or> cl_open_pumps log = 1\<rparr>"

section \<open>Rendering\<close>

definition split_stored_line :: "string \<Rightarrow> (string \<times> string) option" where
  "split_stored_line line = (case str_split_once (CHR '' '') line of
       None \<Rightarrow> None
     | Some (ts, rest) \<Rightarrow> Some (ts, case str_split_once (CHR '' '') rest of Some (_, t) \<Rightarrow> t | None \<Rightarrow> []))"

definition push_rendered :: "bool \<Rightarrow> string \<times> string \<Rightarrow> string" where
  "push_rendered timestamps l = (if timestamps then fst l @ '' '' else []) @ snd l @ [CHR 0x0A]"

definition since_ok :: "(string \<Rightarrow> time option) \<Rightarrow> time option \<Rightarrow> string \<Rightarrow> bool" where
  "since_ok parse_ts since ts = (case since of
       None \<Rightarrow> True
     | Some t0 \<Rightarrow> (case parse_ts ts of None \<Rightarrow> True | Some t \<Rightarrow> \<not> t < t0))"

definition keep_tail :: "int option \<Rightarrow> 'a list \<Rightarrow> 'a list" where
  "keep_tail tail_n kept = (case tail_n of
       None \<Rightarrow> kept
     | Some n \<Rightarrow> if length kept > nonneg n then drop (length kept - nonneg n) kept else kept)"

text \<open>\<open>while !out.is_char_boundary(cut) { cut -= 1 }\<close>\<close>

function floor_boundary :: "string \<Rightarrow> nat \<Rightarrow> nat" where
  "floor_boundary out i = (if is_char_boundary out i then i else floor_boundary out (i - 1))"
  by pat_completeness auto
termination by (relation "measure snd") (auto simp: is_char_boundary_def)

declare floor_boundary.simps [simp del]

definition cut_log :: "int option \<Rightarrow> string \<Rightarrow> string" where
  "cut_log limit out = (case limit of
       None \<Rightarrow> out
     | Some n \<Rightarrow> take (floor_boundary out (min (nonneg n) (length out))) out)"

definition render_log :: "(string \<Rightarrow> time option) \<Rightarrow> string \<Rightarrow> log_options \<Rightarrow> string" where
  "render_log parse_ts raw options =
     (let kept = filter (\<lambda>(ts, text). since_ok parse_ts (lo_since_time options) ts)
            (List.map_filter split_stored_line (lines raw))
      in cut_log (lo_limit_bytes options)
           (concat (map (push_rendered (lo_timestamps options)) (keep_tail (lo_tail_lines options) kept))))"

text \<open>\<open>read_to_string(..).unwrap_or_default()\<close>\<close>

definition log_text :: "container_log \<Rightarrow> string" where
  "log_text log = (case from_utf8 (cl_file log) of Some s \<Rightarrow> s | None \<Rightarrow> [])"

definition log_render :: "(string \<Rightarrow> time option) \<Rightarrow> log_options \<Rightarrow> container_log \<Rightarrow> string" where
  "log_render parse_ts options log = render_log parse_ts (log_text log) options"

definition trim_newlines :: "string \<Rightarrow> string" where
  "trim_newlines s = rev (dropWhile (\<lambda>c. c = CHR 0x0A) (rev s))"

definition render_live_line :: "bool \<Rightarrow> string \<Rightarrow> string option" where
  "render_live_line timestamps line =
     Option.bind (from_utf8 line) (\<lambda>s. map_option (push_rendered timestamps) (split_stored_line (trim_newlines s)))"

section \<open>Following\<close>

definition log_fanout_capacity :: nat where
  "log_fanout_capacity = 256"

text \<open>\<open>fo_out\<close> is what was sent to the client, \<open>fo_lost\<close> whether a line was skipped.\<close>

record follower =
  fo_timestamps :: bool
  fo_next :: nat
  fo_out :: "string list"
  fo_done :: bool
  fo_lost :: bool

definition send_out :: "string option \<Rightarrow> follower \<Rightarrow> follower" where
  "send_out s fo = (case s of None \<Rightarrow> fo | Some t \<Rightarrow> fo\<lparr>fo_out := fo_out fo @ [t]\<rparr>)"

text \<open>\<open>snapshot_and_follow\<close>, and the start of the forwarder.\<close>

definition follow_log :: "(string \<Rightarrow> time option) \<Rightarrow> log_options \<Rightarrow> container_log \<Rightarrow> follower" where
  "follow_log parse_ts options log =
     (let backlog = log_render parse_ts options log
      in \<lparr>fo_timestamps = lo_timestamps options, fo_next = length (cl_live log),
          fo_out = (if backlog \<noteq> [] then [backlog] else []), fo_done = cl_closed log, fo_lost = False\<rparr>)"

text \<open>\<open>recv\<close>: a receiver that is too far behind is told so and continues with the oldest line kept.\<close>

definition recv_line :: "container_log \<Rightarrow> follower \<Rightarrow> follower" where
  "recv_line log fo =
     (if length (cl_live log) \<le> fo_next fo then fo
      else if length (cl_live log) - fo_next fo > log_fanout_capacity
      then fo\<lparr>fo_next := length (cl_live log) - log_fanout_capacity, fo_lost := True\<rparr>
      else send_out (render_live_line (fo_timestamps fo) (cl_live log ! fo_next fo)) (fo\<lparr>fo_next := fo_next fo + 1\<rparr>))"

text \<open>The end: \<open>while let Ok(line) = live.try_recv()\<close>, which a lag ends as well.\<close>

fun drain_live :: "nat \<Rightarrow> container_log \<Rightarrow> follower \<Rightarrow> follower" where
  "drain_live 0 log fo = fo"
| "drain_live (Suc k) log fo =
     (if length (cl_live log) \<le> fo_next fo then fo
      else if length (cl_live log) - fo_next fo > log_fanout_capacity then fo\<lparr>fo_lost := True\<rparr>
      else drain_live k log (recv_line log fo))"

definition finish_follow :: "container_log \<Rightarrow> follower \<Rightarrow> follower" where
  "finish_follow log fo = (drain_live (length (cl_live log) - fo_next fo) log fo)\<lparr>fo_done := True\<rparr>"

text \<open>
  The container, the pumps and one follower. The pumps append only while one of them is open;
  the follower receives, or notices that the log is closed.
\<close>

inductive follow_step :: "container_log \<times> follower \<Rightarrow> container_log \<times> follower \<Rightarrow> bool" where
  fs_append: "\<not> cl_closed log \<Longrightarrow> follow_step (log, fo) (log_append ts stream text log, fo)"
| fs_end: "follow_step (log, fo) (pump_end log, fo)"
| fs_recv: "\<not> fo_done fo \<Longrightarrow> follow_step (log, fo) (log, recv_line log fo)"
| fs_finish: "\<not> fo_done fo \<Longrightarrow> cl_closed log \<Longrightarrow> follow_step (log, fo) (log, finish_follow log fo)"

inductive_cases follow_stepE: "follow_step s s'"

end
