(* ===== verification/Ipam.thy ===== *)
theory Ipam
  imports Text
begin

text \<open>
  The address allocator of the embedded runtime (\<open>src/src/node/network/ipam.rs\<close>): addresses of one
  /24 network, one per pod name. The mutex is poisoned by a panic while it is held, after which every
  call panics; \<open>parse_ipv4\<close> is the standard library's \<open>str::parse::<Ipv4Addr>\<close>. Reachable states are
  those the three operations produce; the invariant holds in all of them.
\<close>

type_synonym ipv4 = "nat \<times> nat \<times> nat \<times> nat"

text \<open>One octet: one to three digits, no leading zero, at most 255.\<close>

definition parse_octet :: "string \<Rightarrow> nat option" where
  "parse_octet s = (if all_digits s \<and> length s \<le> 3 \<and> (length s = 1 \<or> hd s \<noteq> CHR ''0'') \<and> dec_val s \<le> 255
     then Some (dec_val s) else None)"

definition parse_ipv4 :: "string \<Rightarrow> ipv4 option" where
  "parse_ipv4 s = (case map parse_octet (split_on (CHR ''.'') s) of
       [Some a, Some b, Some c, Some d] \<Rightarrow> Some (a, b, c, d) | _ \<Rightarrow> None)"

record ipam =
  ip_prefix :: string
  ip_gateway_octet :: nat
  ip_by_pod :: "string \<Rightarrow> nat option"
  ip_taken :: "nat set"
  ip_poisoned :: bool

datatype 'a call = Returned 'a | Failed_With string | Panicked

definition ipam_new :: "string \<Rightarrow> ipam" where
  "ipam_new prefix = \<lparr>ip_prefix = prefix, ip_gateway_octet = 1, ip_by_pod = (\<lambda>_. None), ip_taken = {1},
     ip_poisoned = False\<rparr>"

text \<open>\<open>format!("{}.{}", prefix, octet).parse()\<close>\<close>

definition octet_address :: "ipam \<Rightarrow> nat \<Rightarrow> ipv4 option" where
  "octet_address s n = parse_ipv4 (ip_prefix s @ ''.'' @ show_nat n)"

definition gateway :: "ipam \<Rightarrow> ipv4 call" where
  "gateway s = (case octet_address s (ip_gateway_octet s) of Some ip \<Rightarrow> Returned ip | None \<Rightarrow> Panicked)"

definition free_octet :: "nat set \<Rightarrow> nat option" where
  "free_octet taken = List.find (\<lambda>n. n \<notin> taken) [2 ..< 255]"

definition allocate :: "string \<Rightarrow> ipam \<Rightarrow> ipv4 call \<times> ipam" where
  "allocate pod_name s =
     (if ip_poisoned s then (Panicked, s)
      else case ip_by_pod s pod_name of
        Some n \<Rightarrow> (case octet_address s n of
            Some ip \<Rightarrow> (Returned ip, s) | None \<Rightarrow> (Panicked, s\<lparr>ip_poisoned := True\<rparr>))
      | None \<Rightarrow> (case free_octet (ip_taken s) of
            None \<Rightarrow> (Failed_With (''pod CIDR '' @ ip_prefix s @ '' /24 exhausted''), s)
          | Some n \<Rightarrow>
              (let s' = s\<lparr>ip_taken := insert n (ip_taken s), ip_by_pod := (ip_by_pod s)(pod_name \<mapsto> n)\<rparr>
               in case octet_address s' n of
                    Some ip \<Rightarrow> (Returned ip, s') | None \<Rightarrow> (Panicked, s'\<lparr>ip_poisoned := True\<rparr>))))"

definition release :: "string \<Rightarrow> ipam \<Rightarrow> unit call \<times> ipam" where
  "release pod_name s =
     (if ip_poisoned s then (Panicked, s)
      else case ip_by_pod s pod_name of
        None \<Rightarrow> (Returned (), s)
      | Some n \<Rightarrow> (Returned (), s\<lparr>ip_by_pod := (ip_by_pod s)(pod_name := None), ip_taken := ip_taken s - {n}\<rparr>))"

section \<open>Addresses\<close>

lemma split_on_snoc:
  "list_all (\<lambda>c. c \<noteq> d) b \<Longrightarrow> split_on d (a @ d # b) = split_on d a @ [b]"
proof (induction a)
  case Nil
  then have "split_on d b = [b]" by (induction b) auto
  then show ?case by simp
next
  case (Cons c a)
  have "split_on d a \<noteq> []" by (induction a) (auto split: list.split)
  with Cons show ?case by (auto split: list.split)
qed

lemma length_show_nat: "n < 1000 \<Longrightarrow> length (show_nat n) \<le> 3"
  by (subst show_nat.simps, simp, subst show_nat.simps, simp, subst show_nat.simps, simp)

lemma hd_show_nat_zero: "hd (show_nat n) = CHR ''0'' \<Longrightarrow> n = 0"
proof (induction n rule: show_nat.induct)
  case (1 n)
  show ?case
  proof (cases "n < 10")
    case True
    then have "show_nat n = [hd (show_nat n)]" by (subst (1 2) show_nat.simps) simp
    with "1.prems" have "show_nat n = ''0''" by simp
    then have "dec_val (show_nat n) = dec_val ''0''" by simp
    moreover have "dec_val ''0'' = 0" by (simp add: dec_val_def digit_val_def)
    ultimately show ?thesis by simp
  next
    case False
    then have "hd (show_nat n) = hd (show_nat (n div 10))" by (subst show_nat.simps) simp
    with 1 False show ?thesis by auto
  qed
qed

lemma length_show_nat_one: "n < 10 \<Longrightarrow> length (show_nat n) = 1"
  by (subst show_nat.simps) simp

lemma parse_octet_show_nat: "n \<le> 255 \<Longrightarrow> parse_octet (show_nat n) = Some n"
  using length_show_nat [of n] hd_show_nat_zero [of n] length_show_nat_one [of n] by (auto simp: parse_octet_def)

lemma no_dot_show_nat: "list_all (\<lambda>c. c \<noteq> CHR ''.'') (show_nat n)"
  using digits_show_nat [of n] by (auto simp: list_all_iff is_digit_def)

text \<open>A prefix of three octets; with any other prefix every address panics.\<close>

definition prefix_octets :: "string \<Rightarrow> (nat \<times> nat \<times> nat) option" where
  "prefix_octets p = (case map parse_octet (split_on (CHR ''.'') p) of
       [Some a, Some b, Some c] \<Rightarrow> Some (a, b, c) | _ \<Rightarrow> None)"

lemma octet_address_eq:
  "n \<le> 255 \<Longrightarrow> octet_address s n = map_option (\<lambda>(a, b, c). (a, b, c, n)) (prefix_octets (ip_prefix s))"
  by (auto simp: octet_address_def parse_ipv4_def prefix_octets_def split_on_snoc [OF no_dot_show_nat]
      parse_octet_show_nat split: list.split option.split)

section \<open>The invariant\<close>

text \<open>Pods have different octets from 2 to 254, and the taken ones are theirs and the gateway's.\<close>

definition ipam_inv :: "ipam \<Rightarrow> bool" where
  "ipam_inv s \<longleftrightarrow> ip_gateway_octet s = 1 \<and> inj_on (ip_by_pod s) (dom (ip_by_pod s)) \<and>
     ran (ip_by_pod s) \<subseteq> {2 .. 254} \<and> ip_taken s = insert 1 (ran (ip_by_pod s))"

lemma find_SomeD: "List.find P xs = Some x \<Longrightarrow> P x \<and> x \<in> set xs"
  by (induction xs) (auto split: if_splits)

lemma find_NoneD: "List.find P xs = None \<longleftrightarrow> (\<forall>x \<in> set xs. \<not> P x)"
  by (induction xs) auto

lemma octets_iff: "n \<in> set [2 ..< 255] \<longleftrightarrow> 2 \<le> n \<and> n \<le> 254"
  by (simp only: set_upt atLeastLessThan_iff) linarith

lemma free_octet_Some: "free_octet taken = Some n \<Longrightarrow> n \<notin> taken \<and> 2 \<le> n \<and> n \<le> 254"
  unfolding free_octet_def by (drule find_SomeD) (simp only: octets_iff simp_thms)

lemma free_octet_None: "free_octet taken = None \<longleftrightarrow> {2 .. 254} \<subseteq> taken"
  unfolding free_octet_def find_NoneD Ball_def octets_iff by auto

lemma ipam_inv_new: "ipam_inv (ipam_new prefix)"
  by (simp add: ipam_inv_def ipam_new_def)

lemma ipam_inv_take:
  assumes "ipam_inv s" "ip_by_pod s p = None" "free_octet (ip_taken s) = Some n"
  shows "ipam_inv (s\<lparr>ip_taken := insert n (ip_taken s), ip_by_pod := (ip_by_pod s)(p \<mapsto> n)\<rparr>)"
proof -
  have n: "n \<notin> ip_taken s" "2 \<le> n" "n \<le> 254" using free_octet_Some [OF assms(3)] by simp_all
  then have "n \<notin> ran (ip_by_pod s)" using assms(1) by (simp add: ipam_inv_def)
  then have "inj_on ((ip_by_pod s)(p \<mapsto> n)) (dom ((ip_by_pod s)(p \<mapsto> n)))"
    using assms(1) by (auto simp: ipam_inv_def inj_on_def ran_def dom_def)
  moreover have "ran ((ip_by_pod s)(p \<mapsto> n)) = insert n (ran (ip_by_pod s))" using assms(2) by (rule ran_map_upd)
  ultimately show ?thesis using assms(1) n by (auto simp: ipam_inv_def)
qed

lemma ipam_inv_poison: "ipam_inv (s\<lparr>ip_poisoned := b\<rparr>) = ipam_inv s"
  by (simp add: ipam_inv_def)

lemma ipam_inv_allocate: "ipam_inv s \<Longrightarrow> ipam_inv (snd (allocate p s))"
  by (auto simp: allocate_def Let_def ipam_inv_poison ipam_inv_take split: option.split)

lemma ipam_inv_release:
  assumes "ipam_inv s"
  shows "ipam_inv (snd (release p s))"
proof (cases "ip_by_pod s p")
  case (Some n)
  have ran: "ran ((ip_by_pod s)(p := None)) = ran (ip_by_pod s) - {n}"
  proof -
    have "ip_by_pod s q \<noteq> Some n" if "q \<noteq> p" for q
      using assms Some that by (auto simp: ipam_inv_def inj_on_def dom_def)
    with Some show ?thesis by (auto simp: ran_def) (metis option.inject)
  qed
  have "n \<noteq> 1" using assms Some by (auto simp: ipam_inv_def ran_def)
  moreover have "inj_on ((ip_by_pod s)(p := None)) (dom ((ip_by_pod s)(p := None)))"
    using assms by (auto simp: ipam_inv_def inj_on_def dom_def)
  ultimately show ?thesis
    using assms Some ran by (auto simp: release_def ipam_inv_def)
qed (use assms in \<open>simp add: release_def\<close>)

text \<open>The states the operations produce.\<close>

inductive ipam_reach :: "string \<Rightarrow> ipam \<Rightarrow> bool" for prefix where
  reach_new: "ipam_reach prefix (ipam_new prefix)"
| reach_allocate: "ipam_reach prefix s \<Longrightarrow> ipam_reach prefix (snd (allocate p s))"
| reach_release: "ipam_reach prefix s \<Longrightarrow> ipam_reach prefix (snd (release p s))"

lemma ipam_reach_inv: "ipam_reach prefix s \<Longrightarrow> ipam_inv s"
  by (induction rule: ipam_reach.induct) (auto intro: ipam_inv_new ipam_inv_allocate ipam_inv_release)

lemma allocate_prefix: "ip_prefix (snd (allocate p s)) = ip_prefix s"
  by (auto simp: allocate_def Let_def split: option.split)

lemma release_prefix: "ip_prefix (snd (release p s)) = ip_prefix s"
  by (auto simp: release_def split: option.split)

text \<open>A successful allocation: the octet the pod has afterwards.\<close>

lemma allocate_returned:
  assumes "ipam_inv s" "allocate p s = (Returned ip, s')"
  obtains n a b c where "ip_by_pod s' p = Some n" "prefix_octets (ip_prefix s) = Some (a, b, c)" "ip = (a, b, c, n)"
    "2 \<le> n" "n \<le> 254"
proof (cases "ip_by_pod s p")
  case None
  then obtain n where n: "free_octet (ip_taken s) = Some n"
    using assms(2) by (auto simp: allocate_def split: if_splits option.splits)
  with free_octet_Some [OF n] None assms(2) show thesis
    by (auto simp: allocate_def Let_def octet_address_eq intro: that split: if_splits option.splits)
next
  case (Some n)
  then have "2 \<le> n" "n \<le> 254" using assms(1) by (auto simp: ipam_inv_def ran_def)
  with Some assms(2) show thesis
    by (auto simp: allocate_def octet_address_eq intro: that split: if_splits option.splits)
qed

lemma allocate_keeps:
  "ip_by_pod s p = Some n \<Longrightarrow> allocate q s = (res, s') \<Longrightarrow> ip_by_pod s' p = Some n"
  by (auto simp: allocate_def Let_def split: if_splits option.splits)

text \<open>Any operations of other pods.\<close>

inductive others_run :: "string \<Rightarrow> ipam \<Rightarrow> ipam \<Rightarrow> bool" for p where
  others_none: "others_run p s s"
| others_allocate: "\<lbrakk>others_run p s s'; q \<noteq> p\<rbrakk> \<Longrightarrow> others_run p s (snd (allocate q s'))"
| others_release: "\<lbrakk>others_run p s s'; q \<noteq> p\<rbrakk> \<Longrightarrow> others_run p s (snd (release q s'))"

lemma allocate_not_poisoned:
  assumes "ipam_inv s" "prefix_octets (ip_prefix s) = Some x"
  shows "ip_poisoned (snd (allocate p s)) = ip_poisoned s"
proof -
  have "n \<le> 255" if "ip_by_pod s p = Some n" for n using assms(1) that by (force simp: ipam_inv_def ran_def)
  moreover have "n \<le> 255" if "free_octet (ip_taken s) = Some n" for n using free_octet_Some [OF that] by simp
  ultimately show ?thesis
    using assms(2) by (auto simp: allocate_def Let_def octet_address_eq split: option.split)
qed

lemma release_not_poisoned: "ip_poisoned (snd (release p s)) = ip_poisoned s"
  by (auto simp: release_def split: option.split)

lemma allocate_other: "q \<noteq> p \<Longrightarrow> ip_by_pod (snd (allocate q s)) p = ip_by_pod s p"
  by (auto simp: allocate_def Let_def split: option.split)

lemma release_other: "q \<noteq> p \<Longrightarrow> ip_by_pod (snd (release q s)) p = ip_by_pod s p"
  by (auto simp: release_def split: option.split)

lemma others_run_keeps:
  "others_run p s s' \<Longrightarrow> ipam_inv s \<Longrightarrow> prefix_octets (ip_prefix s) = Some x \<Longrightarrow>
   ipam_inv s' \<and> ip_by_pod s' p = ip_by_pod s p \<and> ip_prefix s' = ip_prefix s \<and> ip_poisoned s' = ip_poisoned s"
  by (induction rule: others_run.induct)
     (simp_all add: ipam_inv_allocate ipam_inv_release allocate_other release_other allocate_prefix release_prefix
        allocate_not_poisoned release_not_poisoned)

lemma ipam_reach_sound:
  "ipam_reach prefix s \<Longrightarrow> prefix_octets prefix \<noteq> None \<Longrightarrow> \<not> ip_poisoned s \<and> ip_prefix s = prefix"
proof (induction rule: ipam_reach.induct)
  case (reach_allocate s p)
  then show ?case
    using allocate_not_poisoned [OF ipam_reach_inv, of prefix s _ p] allocate_prefix [of p s] by auto
qed (simp_all add: ipam_new_def release_not_poisoned release_prefix)

lemma card_ran_dom:
  assumes "inj_on m (dom m)"
  shows "card (ran m) = card (dom m)"
proof -
  have "ran m = (\<lambda>x. the (m x)) ` dom m" by (force simp: ran_def dom_def)
  moreover have "inj_on (\<lambda>x. the (m x)) (dom m)" using assms by (auto simp: inj_on_def dom_def)
  ultimately show ?thesis by (simp add: card_image)
qed

section \<open>Properties\<close>

text \<open>
  No two pods share an address and no pod has the gateway's: in every reachable state, when two
  different pods are given addresses one after the other, the addresses differ from each other and
  from the gateway.
\<close>

theorem ipam_addresses_distinct:
  assumes "ipam_reach prefix s" "allocate p s = (Returned ip, s')" "allocate q s' = (Returned ip', s'')" "p \<noteq> q"
  shows "ip \<noteq> ip' \<and> gateway s \<noteq> Returned ip \<and> gateway s \<noteq> Returned ip'"
proof -
  have i: "ipam_inv s" using assms(1) by (rule ipam_reach_inv)
  with assms(2) have i': "ipam_inv s'" using ipam_inv_allocate [of s p] by simp
  with assms(3) have i'': "ipam_inv s''" using ipam_inv_allocate [of s' q] by simp
  obtain n a b c where n: "ip_by_pod s' p = Some n" "prefix_octets (ip_prefix s) = Some (a, b, c)" "ip = (a, b, c, n)"
    "2 \<le> n" "n \<le> 254" using i assms(2) by (rule allocate_returned)
  obtain m a' b' c' where m: "ip_by_pod s'' q = Some m" "prefix_octets (ip_prefix s') = Some (a', b', c')"
    "ip' = (a', b', c', m)" "2 \<le> m" "m \<le> 254" using i' assms(3) by (rule allocate_returned)
  have keep: "ip_by_pod s'' p = Some n" using allocate_keeps [OF n(1) assms(3)] .
  have "n \<noteq> m"
  proof
    assume "n = m"
    with keep m(1) i'' have "p = q" by (auto simp: ipam_inv_def inj_on_def dom_def)
    with assms(4) show False ..
  qed
  moreover have "gateway s \<noteq> Returned (x, y, z, k)" if "2 \<le> k" for x y z k
    using i that by (auto simp: gateway_def octet_address_eq ipam_inv_def split: option.split)
  ultimately show ?thesis using n(3-5) m(3-5) by simp
qed

lemma sample_allocations:
  "allocate ''a'' (ipam_new ''10.244.0'') = (Returned (10, 244, 0, 2), snd (allocate ''a'' (ipam_new ''10.244.0'')))"
  "allocate ''b'' (snd (allocate ''a'' (ipam_new ''10.244.0''))) =
     (Returned (10, 244, 0, 3), snd (allocate ''b'' (snd (allocate ''a'' (ipam_new ''10.244.0'')))))"
proof -
  have f: "free_octet {1} = Some 2" "free_octet (insert 2 {1}) = Some 3" by code_simp+
  have "prefix_octets ''10.244.0'' = Some (10, 244, 0)" by code_simp
  with f show "allocate ''a'' (ipam_new ''10.244.0'') = (Returned (10, 244, 0, 2), snd (allocate ''a'' (ipam_new ''10.244.0'')))"
    "allocate ''b'' (snd (allocate ''a'' (ipam_new ''10.244.0''))) =
     (Returned (10, 244, 0, 3), snd (allocate ''b'' (snd (allocate ''a'' (ipam_new ''10.244.0'')))))"
    by (simp_all add: allocate_def ipam_new_def Let_def octet_address_eq)
qed

theorem ipam_addresses_distinct_witness:
  "(10, 244, 0, 2) \<noteq> (10, 244, 0, 3 :: nat) \<and> gateway (ipam_new ''10.244.0'') \<noteq> Returned (10, 244, 0, 2)"
  using ipam_addresses_distinct [OF reach_new sample_allocations] by simp

text \<open>
  Addresses are stable: a pod that has an address is given the same one again whatever is
  allocated and released for other pods in between.
\<close>

theorem ipam_address_stable:
  assumes "ipam_inv s" "allocate p s = (Returned ip, s1)" "others_run p s1 s2"
  shows "allocate p s2 = (Returned ip, s2)"
proof -
  obtain n a b c where n: "ip_by_pod s1 p = Some n" "prefix_octets (ip_prefix s) = Some (a, b, c)" "ip = (a, b, c, n)"
    "n \<le> 254" using assms(1,2) by (rule allocate_returned)
  have "ip_prefix s1 = ip_prefix s" using allocate_prefix [of p s] assms(2) by simp
  moreover have "\<not> ip_poisoned s1" using assms(2) by (auto simp: allocate_def Let_def split: if_splits option.splits)
  moreover have "ip_by_pod s2 p = ip_by_pod s1 p \<and> ip_prefix s2 = ip_prefix s1 \<and> (ip_poisoned s1 \<longleftrightarrow> ip_poisoned s2)"
    using assms(3) n(2) calculation ipam_inv_allocate [OF assms(1), of p] assms(2)
    by (auto dest!: others_run_keeps)
  ultimately show ?thesis using n by (simp add: allocate_def octet_address_eq)
qed

theorem ipam_address_stable_witness:
  "allocate ''a'' (snd (allocate ''b'' (snd (allocate ''a'' (ipam_new ''10.244.0''))))) =
     (Returned (10, 244, 0, 2), snd (allocate ''b'' (snd (allocate ''a'' (ipam_new ''10.244.0'')))))"
  by (rule ipam_address_stable [OF ipam_inv_new sample_allocations(1)])
     (rule others_allocate [OF others_none], simp)

text \<open>
  Exhaustion: with a valid prefix an allocation fails only when the pod has no address and all
  253 addresses are taken by other pods.
\<close>

theorem ipam_exhausted_iff:
  assumes "ipam_reach prefix s" "prefix_octets prefix \<noteq> None"
  shows "(\<exists>msg. fst (allocate p s) = Failed_With msg) \<longleftrightarrow> ip_by_pod s p = None \<and> card (dom (ip_by_pod s)) = 253"
proof -
  have i: "ipam_inv s" using assms(1) by (rule ipam_reach_inv)
  have "\<not> ip_poisoned s \<and> ip_prefix s = prefix" using assms by (rule ipam_reach_sound)
  then have "(\<exists>msg. fst (allocate p s) = Failed_With msg) \<longleftrightarrow> ip_by_pod s p = None \<and> {2 .. 254} \<subseteq> ip_taken s"
    by (auto simp: allocate_def Let_def free_octet_None [symmetric] split: option.split)
  also have "{2 .. 254} \<subseteq> ip_taken s \<longleftrightarrow> ran (ip_by_pod s) = {2 .. 254}"
    using i by (auto simp: ipam_inv_def)
  also have "\<dots> \<longleftrightarrow> card (ran (ip_by_pod s)) = 253"
  proof
    assume "card (ran (ip_by_pod s)) = 253"
    moreover have "card {2 .. 254 :: nat} = 253" by simp
    ultimately show "ran (ip_by_pod s) = {2 .. 254}"
      using i by (intro card_subset_eq) (simp_all add: ipam_inv_def)
  qed simp
  also have "card (ran (ip_by_pod s)) = card (dom (ip_by_pod s))"
    using i by (intro card_ran_dom) (simp add: ipam_inv_def)
  finally show ?thesis .
qed

theorem ipam_exhausted_iff_witness:
  "\<not> (\<exists>msg. fst (allocate ''a'' (ipam_new ''10.244.0'')) = Failed_With msg)"
proof -
  have "prefix_octets ''10.244.0'' \<noteq> None" by code_simp
  from ipam_exhausted_iff [OF reach_new this] show ?thesis by (simp add: ipam_new_def)
qed

end
