(* ===== verification/Pod_Network.thy ===== *)
theory Pod_Network
  imports Ipam Engines
begin

text \<open>
  The network of a pod (\<open>src/src/node/network/\<close>, without the address allocator): the bridge, the firewall
  rules, and the set-up and removal of a network namespace with its pair of interfaces. The kernel's side is the
  record \<open>host_net\<close>: the bridge, the named namespaces, the pairs by the name of their host end,
  and what is configured inside each namespace. Removing one end of a pair, or the namespace of one, removes the pair.
  Every netlink call may fail, as the argument \<open>flt\<close> says; the messages are those the code adds.
\<close>

section \<open>The host's network\<close>

record veth_pair =
  vp_peer :: string
  vp_peer_ns :: "string option"  \<comment> \<open>\<open>None\<close> while the peer is on the host\<close>
  vp_plugged :: bool
  vp_up :: bool

record pod_if =
  if_lo_up :: bool
  if_name :: string
  if_addr :: "ipv4 option"
  if_up :: bool
  if_gateway :: "ipv4 option"

record host_net =
  hn_bridge :: "(ipv4 list \<times> bool) option" \<comment> \<open>its addresses, and whether it is up\<close>
  hn_netns :: "string list"
  hn_links :: "(string \<times> veth_pair) list"
  hn_ifs :: "(string \<times> pod_if) list"
  hn_rules :: "(string \<times> string \<times> string list) list" \<comment> \<open>table, chain and rule\<close>

datatype net_op = Op_Connect | Op_Link_Get string | Op_Bridge_Add | Op_Address | Op_Bridge_Up | Op_Link_Del | Op_Netns_Add | Op_Netns_Del
  | Op_Veth_Add | Op_Open | Op_Move | Op_Controller | Op_Host_Up | Op_Setns | Op_Lo_Up | Op_Rename | Op_Pod_Addr | Op_Pod_Up | Op_Route
  | Op_Check | Op_Insert

record pod_network =
  pn_pod_name :: string
  pn_netns_path :: string
  pn_pod_ip :: ipv4
  pn_host_veth :: string
  pn_container_veth :: string

definition bridge_name :: string where
  "bridge_name = ''superkube0''"

text \<open>A call that fails with a message, or has an effect.\<close>

definition net_call :: "(net_op \<Rightarrow> string option) \<Rightarrow> net_op \<Rightarrow> (string \<Rightarrow> string) \<Rightarrow> (host_net \<Rightarrow> host_net) \<Rightarrow> host_net \<Rightarrow> (string + unit) \<times> host_net" where
  "net_call flt oper msg eff h = (case flt oper of Some e \<Rightarrow> (Inl (msg e), h) | None \<Rightarrow> (Inr (), eff h))"

section \<open>The bridge and the firewall\<close>

text \<open>\<open>link_index_by_name\<close>: an absent link is no failure.\<close>

definition link_exists :: "string \<Rightarrow> host_net \<Rightarrow> bool" where
  "link_exists n h \<longleftrightarrow> (n = bridge_name \<and> hn_bridge h \<noteq> None) \<or> hm_get (hn_links h) n \<noteq> None \<or>
     list_ex (\<lambda>(l, v). vp_peer v = n \<and> vp_peer_ns v = None) (hn_links h)"

definition link_index_by_name :: "(net_op \<Rightarrow> string option) \<Rightarrow> string \<Rightarrow> host_net \<Rightarrow> (string + bool) \<times> host_net" where
  "link_index_by_name flt n h = (case flt (Op_Link_Get n) of
     Some e \<Rightarrow> (Inl (''link.get('' @ n @ '')''), h) | None \<Rightarrow> (Inr (link_exists n h), h))"

definition ensure_address :: "(net_op \<Rightarrow> string option) \<Rightarrow> ipv4 \<Rightarrow> host_net \<Rightarrow> (string + unit) \<times> host_net" where
  "ensure_address flt ip = tryR (net_call flt Op_Address (\<lambda>e. e)
     (\<lambda>h. h\<lparr>hn_bridge := map_option (\<lambda>(ips, up). (if ip \<in> set ips then ips else ips @ [ip], up)) (hn_bridge h)\<rparr>)) (\<lambda>_. returnR ())"

definition ensure_link_up :: "(net_op \<Rightarrow> string option) \<Rightarrow> host_net \<Rightarrow> (string + unit) \<times> host_net" where
  "ensure_link_up flt = net_call flt Op_Bridge_Up (\<lambda>_. ''setting link up'')
     (\<lambda>h. h\<lparr>hn_bridge := map_option (\<lambda>(ips, up). (ips, True)) (hn_bridge h)\<rparr>)"

definition ensure_bridge :: "(net_op \<Rightarrow> string option) \<Rightarrow> ipv4 \<Rightarrow> host_net \<Rightarrow> (string + unit) \<times> host_net" where
  "ensure_bridge flt gw =
     bindR (link_index_by_name flt bridge_name) (\<lambda>there.
     if there then bindR (ensure_address flt gw) (\<lambda>_. ensure_link_up flt)
     else bindR (net_call flt Op_Bridge_Add (\<lambda>_. ''creating bridge '' @ bridge_name) (\<lambda>h. h\<lparr>hn_bridge := Some ([], False)\<rparr>)) (\<lambda>_.
          bindR (link_index_by_name flt bridge_name) (\<lambda>now_there.
          if \<not> now_there then failR (''bridge '' @ bridge_name @ '' not found after add'')
          else bindR (ensure_address flt gw) (\<lambda>_. ensure_link_up flt))))"

text \<open>\<open>iptables -C\<close>, then \<open>-I\<close> when the rule was not found (or the check could not be run).\<close>

definition install_rule :: "(net_op \<Rightarrow> string option) \<Rightarrow> string \<Rightarrow> string \<Rightarrow> string list \<Rightarrow> host_net \<Rightarrow> (string + unit) \<times> host_net" where
  "install_rule flt table chain rule h =
     (if flt Op_Check = None \<and> (table, chain, rule) \<in> set (hn_rules h) then (Inr (), h)
      else net_call flt Op_Insert (\<lambda>e. ''iptables -t '' @ table @ '' -I '' @ chain @ '' failed (status '' @ e @ '')'')
             (\<lambda>h. h\<lparr>hn_rules := (table, chain, rule) # hn_rules h\<rparr>) h)"

definition ensure_masquerade :: "(net_op \<Rightarrow> string option) \<Rightarrow> string \<Rightarrow> host_net \<Rightarrow> (string + unit) \<times> host_net" where
  "ensure_masquerade flt cidr =
     bindR (install_rule flt ''nat'' ''POSTROUTING'' [''-s'', cidr, ''!'', ''-o'', bridge_name, ''-j'', ''MASQUERADE'']) (\<lambda>_.
     bindR (install_rule flt ''filter'' ''FORWARD'' [''-i'', bridge_name, ''-j'', ''ACCEPT'']) (\<lambda>_.
     install_rule flt ''filter'' ''FORWARD'' [''-o'', bridge_name, ''-j'', ''ACCEPT'']))"

section \<open>The network of a pod\<close>

definition is_alnum :: "char \<Rightarrow> bool" where
  "is_alnum c \<longleftrightarrow> (let n = of_char c :: nat in (48 \<le> n \<and> n \<le> 57) \<or> (65 \<le> n \<and> n \<le> 90) \<or> (97 \<le> n \<and> n \<le> 122))"

definition veth_suffix :: "string \<Rightarrow> string" where
  "veth_suffix pod_name = take 8 (filter is_alnum pod_name)"

definition host_veth_of :: "string \<Rightarrow> string" where
  "host_veth_of pod_name = ''vp'' @ veth_suffix pod_name"

definition peer_of :: "string \<Rightarrow> string" where
  "peer_of pod_name = ''vc'' @ veth_suffix pod_name"

text \<open>What the kernel does when a pair or a namespace goes.\<close>

definition drop_link :: "string \<Rightarrow> host_net \<Rightarrow> host_net" where
  "drop_link n h = (case hm_get (hn_links h) n of
       Some v \<Rightarrow> h\<lparr>hn_links := hm_remove n (hn_links h),
                  hn_ifs := (case vp_peer_ns v of Some ns \<Rightarrow> hm_remove ns (hn_ifs h) | None \<Rightarrow> hn_ifs h)\<rparr>
     | None \<Rightarrow> h\<lparr>hn_links := filter (\<lambda>(l, v). \<not> (vp_peer v = n \<and> vp_peer_ns v = None)) (hn_links h)\<rparr>)"

definition drop_netns :: "string \<Rightarrow> host_net \<Rightarrow> host_net" where
  "drop_netns n h = h\<lparr>hn_netns := removeAll n (hn_netns h), hn_ifs := hm_remove n (hn_ifs h),
     hn_links := filter (\<lambda>(l, v). vp_peer_ns v \<noteq> Some n) (hn_links h)\<rparr>"

definition remove_host_link :: "(net_op \<Rightarrow> string option) \<Rightarrow> string \<Rightarrow> host_net \<Rightarrow> (string + unit) \<times> host_net" where
  "remove_host_link flt n h =
     (if flt Op_Connect = None \<and> flt (Op_Link_Get n) = None \<and> link_exists n h \<and> flt Op_Link_Del = None
      then (Inr (), drop_link n h) else (Inr (), h))"

definition del_netns :: "(net_op \<Rightarrow> string option) \<Rightarrow> string \<Rightarrow> host_net \<Rightarrow> (string + unit) \<times> host_net" where
  "del_netns flt n = tryR (net_call flt Op_Netns_Del (\<lambda>e. e) (drop_netns n)) (\<lambda>_. returnR ())"

definition on_if :: "string \<Rightarrow> (pod_if \<Rightarrow> pod_if) \<Rightarrow> host_net \<Rightarrow> host_net" where
  "on_if ns f h = (case hm_get (hn_ifs h) ns of None \<Rightarrow> h | Some i \<Rightarrow> h\<lparr>hn_ifs := hm_insert ns (f i) (hn_ifs h)\<rparr>)"

definition on_link :: "string \<Rightarrow> (veth_pair \<Rightarrow> veth_pair) \<Rightarrow> host_net \<Rightarrow> host_net" where
  "on_link n f h = (case hm_get (hn_links h) n of None \<Rightarrow> h | Some v \<Rightarrow> h\<lparr>hn_links := hm_insert n (f v) (hn_links h)\<rparr>)"

definition configure_inside_netns ::
  "(net_op \<Rightarrow> string option) \<Rightarrow> string \<Rightarrow> string \<Rightarrow> ipv4 \<Rightarrow> ipv4 \<Rightarrow> host_net \<Rightarrow> (string + unit) \<times> host_net" where
  "configure_inside_netns flt pod_name peer ip gw =
     bindR (net_call flt Op_Open (\<lambda>_. ''opening netns /var/run/netns/'' @ pod_name) (\<lambda>h. h)) (\<lambda>_.
     bindR (net_call flt Op_Setns (\<lambda>_. ''setns into '' @ pod_name) (\<lambda>h. h)) (\<lambda>_.
     bindR (net_call flt Op_Lo_Up (\<lambda>e. e) (on_if pod_name (\<lambda>i. i\<lparr>if_lo_up := True\<rparr>))) (\<lambda>_.
     bindR (\<lambda>h. if hm_get (hn_ifs h) pod_name = None then failR (peer @ '' not present in netns'') h else returnR () h) (\<lambda>_.
     bindR (net_call flt Op_Rename (\<lambda>_. ''renaming '' @ peer @ '' to eth0'') (on_if pod_name (\<lambda>i. i\<lparr>if_name := ''eth0''\<rparr>))) (\<lambda>_.
     bindR (net_call flt Op_Pod_Addr (\<lambda>e. e) (on_if pod_name (\<lambda>i. i\<lparr>if_addr := Some ip\<rparr>))) (\<lambda>_.
     bindR (net_call flt Op_Pod_Up (\<lambda>e. e) (on_if pod_name (\<lambda>i. i\<lparr>if_up := True\<rparr>))) (\<lambda>_.
     net_call flt Op_Route (\<lambda>e. e) (on_if pod_name (\<lambda>i. i\<lparr>if_gateway := Some gw\<rparr>)))))))))"

definition look_up :: "(net_op \<Rightarrow> string option) \<Rightarrow> string \<Rightarrow> string \<Rightarrow> host_net \<Rightarrow> (string + unit) \<times> host_net" where
  "look_up flt n msg = bindR (link_index_by_name flt n) (\<lambda>there. if there then returnR () else failR msg)"

text \<open>A pair whose names are taken cannot be created.\<close>

definition add_veth :: "(net_op \<Rightarrow> string option) \<Rightarrow> string \<Rightarrow> string \<Rightarrow> host_net \<Rightarrow> (string + unit) \<times> host_net" where
  "add_veth flt hv pv h =
     (let msg = ''creating veth pair '' @ hv @ ''<->'' @ pv in
      if link_exists hv h \<or> link_exists pv h then (Inl msg, h)
      else net_call flt Op_Veth_Add (\<lambda>_. msg)
             (\<lambda>h. h\<lparr>hn_links := hm_insert hv \<lparr>vp_peer = pv, vp_peer_ns = None, vp_plugged = False, vp_up = False\<rparr> (hn_links h)\<rparr>) h)"

definition move_peer :: "string \<Rightarrow> string \<Rightarrow> host_net \<Rightarrow> host_net" where
  "move_peer hv pod_name h = (on_link hv (\<lambda>v. v\<lparr>vp_peer_ns := Some pod_name\<rparr>) h)\<lparr>hn_ifs :=
     hm_insert pod_name \<lparr>if_lo_up = False, if_name = peer_of pod_name, if_addr = None, if_up = False, if_gateway = None\<rparr> (hn_ifs h)\<rparr>"

definition plug_into_bridge ::
  "(net_op \<Rightarrow> string option) \<Rightarrow> string \<Rightarrow> ipv4 \<Rightarrow> ipv4 \<Rightarrow> host_net \<Rightarrow> (string + pod_network) \<times> host_net" where
  "plug_into_bridge flt pod_name ip gw =
     (let hv = host_veth_of pod_name; pv = peer_of pod_name; np = ''/var/run/netns/'' @ pod_name in
      bindR (net_call flt Op_Connect (\<lambda>e. e) (\<lambda>h. h)) (\<lambda>_.
      bindR (look_up flt bridge_name (''bridge '' @ bridge_name @ '' not found; ensure_bridge first'')) (\<lambda>_.
      bindR (add_veth flt hv pv) (\<lambda>_.
      bindR (look_up flt pv (''looking up freshly-created peer '' @ pv)) (\<lambda>_.
      bindR (net_call flt Op_Open (\<lambda>_. ''opening netns '' @ np) (\<lambda>h. h)) (\<lambda>_.
      bindR (net_call flt Op_Move (\<lambda>_. ''moving '' @ pv @ '' into netns '' @ pod_name) (move_peer hv pod_name)) (\<lambda>_.
      bindR (look_up flt hv (''looking up host veth '' @ hv)) (\<lambda>_.
      bindR (net_call flt Op_Controller (\<lambda>_. ''attaching host veth to bridge'') (on_link hv (\<lambda>v. v\<lparr>vp_plugged := True\<rparr>))) (\<lambda>_.
      bindR (net_call flt Op_Host_Up (\<lambda>_. ''bringing host veth up'') (on_link hv (\<lambda>v. v\<lparr>vp_up := True\<rparr>))) (\<lambda>_.
      bindR (configure_inside_netns flt pod_name pv ip gw) (\<lambda>_.
      returnR \<lparr>pn_pod_name = pod_name, pn_netns_path = np, pn_pod_ip = ip, pn_host_veth = hv, pn_container_veth = ''eth0''\<rparr>)))))))))))"

definition setup_pod_network ::
  "(net_op \<Rightarrow> string option) \<Rightarrow> string \<Rightarrow> ipv4 \<Rightarrow> ipv4 \<Rightarrow> host_net \<Rightarrow> (string + pod_network) \<times> host_net" where
  "setup_pod_network flt pod_name ip gw =
     (let hv = host_veth_of pod_name; pv = peer_of pod_name in
      bindR (\<lambda>h. if pod_name \<in> set (hn_netns h) then del_netns flt pod_name h else returnR () h) (\<lambda>_.
      bindR (remove_host_link flt hv) (\<lambda>_.
      bindR (remove_host_link flt pv) (\<lambda>_.
      bindR (\<lambda>h. if pod_name \<in> set (hn_netns h) then failR (''creating netns '' @ pod_name) h
               else net_call flt Op_Netns_Add (\<lambda>_. ''creating netns '' @ pod_name)
                      (\<lambda>h. h\<lparr>hn_netns := pod_name # hn_netns h\<rparr>) h) (\<lambda>_.
      tryR (plug_into_bridge flt pod_name ip gw) (\<lambda>res. case res of
          Inr net \<Rightarrow> returnR net
        | Inl e \<Rightarrow>
            bindR (remove_host_link flt hv) (\<lambda>_.
            bindR (del_netns flt pod_name) (\<lambda>_. failR e))))))))"

definition teardown_pod_network :: "(net_op \<Rightarrow> string option) \<Rightarrow> pod_network \<Rightarrow> host_net \<Rightarrow> (string + unit) \<times> host_net" where
  "teardown_pod_network flt net =
     bindR (remove_host_link flt (pn_host_veth net)) (\<lambda>_. del_netns flt (pn_pod_name net))"

section \<open>Properties\<close>

definition no_net_faults :: "net_op \<Rightarrow> string option" where
  "no_net_faults op = None"

text \<open>The pairs are named as the program names them.\<close>

definition net_ok :: "host_net \<Rightarrow> bool" where
  "net_ok h \<longleftrightarrow> hm_ok (hn_links h) \<and>
     list_all (\<lambda>(l, v). take 2 l = ''vp'' \<and> vp_peer v = ''vc'' @ drop 2 l \<and>
       (case vp_peer_ns v of None \<Rightarrow> True | Some ns \<Rightarrow> l = host_veth_of ns)) (hn_links h)"

text \<open>A pod is on the network: its pair is plugged in and up, and its end is configured.\<close>

definition connected :: "string \<Rightarrow> ipv4 \<Rightarrow> ipv4 \<Rightarrow> host_net \<Rightarrow> bool" where
  "connected pod_name ip gw h \<longleftrightarrow> pod_name \<in> set (hn_netns h) \<and>
     hm_get (hn_links h) (host_veth_of pod_name) =
       Some \<lparr>vp_peer = peer_of pod_name, vp_peer_ns = Some pod_name, vp_plugged = True, vp_up = True\<rparr> \<and>
     hm_get (hn_ifs h) pod_name =
       Some \<lparr>if_lo_up = True, if_name = ''eth0'', if_addr = Some ip, if_up = True, if_gateway = Some gw\<rparr>"

lemma net_call_ok [simp]: "net_call no_net_faults oper msg eff h = (Inr (), eff h)"
  by (simp add: net_call_def no_net_faults_def)

lemma names_differ [simp]: "host_veth_of a \<noteq> peer_of b" "peer_of b \<noteq> host_veth_of a" "host_veth_of a \<noteq> bridge_name"
  "peer_of a \<noteq> bridge_name"
  by (simp_all add: host_veth_of_def peer_of_def bridge_name_def)

lemma hm_get_filter: "hm_ok m \<Longrightarrow> hm_get (filter (\<lambda>(k, v). P v) m) k = Option.bind (hm_get m k) (\<lambda>v. if P v then Some v else None)"
proof (induction m)
  case (Cons x m)
  have "k \<notin> fst ` set (filter (\<lambda>(k, v). P v) m)" if "k \<notin> fst ` set m" for k using that by auto
  then have "map_of (filter (\<lambda>(k, v). P v) m) k = None" if "k \<notin> fst ` set m" for k
    using that by (simp add: map_of_eq_None_iff)
  then show ?case using Cons by (cases x) (auto simp: hm_get_def hm_ok_def)
qed (simp add: hm_get_def)

lemma hm_get_filter_None: "hm_get m k = None \<Longrightarrow> hm_get (filter P m) k = None"
  by (auto simp: hm_get_def map_of_eq_None_iff)

lemma net_ok_get:
  assumes "net_ok h" "hm_get (hn_links h) l = Some v"
  shows "take 2 l = ''vp'' \<and> vp_peer v = ''vc'' @ drop 2 l \<and> (\<forall>ns. vp_peer_ns v = Some ns \<longrightarrow> l = host_veth_of ns)"
  using assms map_of_SomeD by (fastforce simp: net_ok_def hm_get_def list_all_iff)

lemma net_ok_drop_link: "net_ok h \<Longrightarrow> net_ok (drop_link n h)"
  by (auto simp: net_ok_def drop_link_def hm_ok_def hm_remove_def list_all_iff distinct_map_filter AList.delete_eq split: option.split)

lemma net_ok_drop_netns: "net_ok h \<Longrightarrow> net_ok (drop_netns n h)"
  by (auto simp: net_ok_def drop_netns_def hm_ok_def list_all_iff distinct_map_filter)

text \<open>What is left of the links after the old pair of a name was removed.\<close>

definition old_removed :: "string \<Rightarrow> host_net \<Rightarrow> host_net" where
  "old_removed pod_name h =
     (let h1 = (if pod_name \<in> set (hn_netns h) then drop_netns pod_name h else h) in
      if link_exists (host_veth_of pod_name) h1 then drop_link (host_veth_of pod_name) h1 else h1)"

lemma link_exists_host_veth:
  "net_ok h \<Longrightarrow> link_exists (host_veth_of pod_name) h \<longleftrightarrow> hm_get (hn_links h) (host_veth_of pod_name) \<noteq> None"
  by (auto simp: link_exists_def net_ok_def list_all_iff list_ex_iff host_veth_of_def bridge_name_def)

lemma peer_gone:
  assumes "net_ok h" "hm_get (hn_links h) (host_veth_of pod_name) = None"
  shows "\<not> link_exists (peer_of pod_name) h"
proof -
  have "hm_get (hn_links h) (peer_of pod_name) = None"
    using net_ok_get [OF assms(1), of "peer_of pod_name"] by (cases "hm_get (hn_links h) (peer_of pod_name)") (auto simp: peer_of_def)
  moreover have "vp_peer v \<noteq> peer_of pod_name" if "(l, v) \<in> set (hn_links h)" for l v
  proof
    assume "vp_peer v = peer_of pod_name"
    then have "take 2 l = ''vp''" "drop 2 l = veth_suffix pod_name"
      using assms(1) that by (auto simp: net_ok_def list_all_iff peer_of_def)
    then have "l = host_veth_of pod_name" by (metis append_take_drop_id host_veth_of_def)
    then show False using assms(2) that by (force simp: hm_get_def map_of_eq_None_iff)
  qed
  ultimately show ?thesis by (auto simp: link_exists_def list_ex_iff peer_of_def bridge_name_def)
qed

lemma old_removed_props:
  assumes "net_ok h"
  shows "net_ok (old_removed pod_name h)" "hm_get (hn_links (old_removed pod_name h)) (host_veth_of pod_name) = None"
    "pod_name \<notin> set (hn_netns (old_removed pod_name h))" "hn_bridge (old_removed pod_name h) = hn_bridge h"
proof -
  let ?h1 = "if pod_name \<in> set (hn_netns h) then drop_netns pod_name h else h"
  have n: "net_ok ?h1" using assms net_ok_drop_netns by auto
  show "net_ok (old_removed pod_name h)" using n net_ok_drop_link by (auto simp: old_removed_def Let_def)
  show "hm_get (hn_links (old_removed pod_name h)) (host_veth_of pod_name) = None"
    using link_exists_host_veth [OF n] by (auto simp: old_removed_def Let_def drop_link_def split: option.split)
  have "hn_netns (drop_link x g) = hn_netns g" "hn_bridge (drop_link x g) = hn_bridge g" for x g
    by (auto simp: drop_link_def split: option.split)
  then show "pod_name \<notin> set (hn_netns (old_removed pod_name h))" "hn_bridge (old_removed pod_name h) = hn_bridge h"
    by (auto simp: old_removed_def Let_def drop_netns_def)
qed

lemma remove_host_link_ok:
  "remove_host_link no_net_faults n h = (Inr (), if link_exists n h then drop_link n h else h)"
  by (simp add: remove_host_link_def no_net_faults_def)

lemma del_netns_ok: "del_netns no_net_faults n h = (Inr (), drop_netns n h)"
  by (simp add: del_netns_def tryR_def returnR_def)

lemma look_up_ok: "look_up no_net_faults n msg h = (if link_exists n h then (Inr (), h) else (Inl msg, h))"
  by (simp add: look_up_def bindR_def link_index_by_name_def no_net_faults_def returnR_def failR_def)

lemma setup_start:
  assumes "net_ok h"
  shows "setup_pod_network no_net_faults pod_name ip gw h =
    (let h1 = (old_removed pod_name h)\<lparr>hn_netns := pod_name # hn_netns (old_removed pod_name h)\<rparr> in
     case plug_into_bridge no_net_faults pod_name ip gw h1 of
       (Inr net, h2) \<Rightarrow> (Inr net, h2)
     | (Inl e, h2) \<Rightarrow> (Inl e, drop_netns pod_name (if link_exists (host_veth_of pod_name) h2 then drop_link (host_veth_of pod_name) h2 else h2)))"
proof -
  let ?h1 = "if pod_name \<in> set (hn_netns h) then drop_netns pod_name h else h" and ?o = "old_removed pod_name h"
  have a: "(if pod_name \<in> set (hn_netns h) then del_netns no_net_faults pod_name h else returnR () h) = (Inr (), ?h1)"
    by (simp add: del_netns_ok returnR_def)
  have b: "remove_host_link no_net_faults (host_veth_of pod_name) ?h1 = (Inr (), ?o)"
    by (simp add: remove_host_link_ok old_removed_def Let_def)
  have c: "remove_host_link no_net_faults (peer_of pod_name) ?o = (Inr (), ?o)"
    using peer_gone [OF old_removed_props(1,2) [OF assms]] by (simp add: remove_host_link_ok)
  have d: "pod_name \<notin> set (hn_netns ?o)" by (rule old_removed_props(3) [OF assms])
  show ?thesis
    unfolding setup_pod_network_def Let_def bindR_def a prod.case sum.case b c if_not_P [OF d] net_call_ok tryR_def
    by (simp add: remove_host_link_ok del_netns_ok returnR_def failR_def split: prod.split sum.split)
qed

lemma plug_ok:
  assumes "net_ok h" "hm_get (hn_links h) (host_veth_of pod_name) = None" "hn_bridge h \<noteq> None"
  shows "\<exists>h'. plug_into_bridge no_net_faults pod_name ip gw h = (Inr \<lparr>pn_pod_name = pod_name,
       pn_netns_path = ''/var/run/netns/'' @ pod_name, pn_pod_ip = ip, pn_host_veth = host_veth_of pod_name, pn_container_veth = ''eth0''\<rparr>, h') \<and>
     hn_netns h' = hn_netns h \<and>
     (\<forall>l. hm_get (hn_links h') l = (if l = host_veth_of pod_name
        then Some \<lparr>vp_peer = peer_of pod_name, vp_peer_ns = Some pod_name, vp_plugged = True, vp_up = True\<rparr> else hm_get (hn_links h) l)) \<and>
     (\<forall>n. hm_get (hn_ifs h') n = (if n = pod_name
        then Some \<lparr>if_lo_up = True, if_name = ''eth0'', if_addr = Some ip, if_up = True, if_gateway = Some gw\<rparr> else hm_get (hn_ifs h) n))"
proof -
  let ?hv = "host_veth_of pod_name" and ?pv = "peer_of pod_name"
  let ?v = "\<lparr>vp_peer = ?pv, vp_peer_ns = None, vp_plugged = False, vp_up = False\<rparr>"
  let ?h1 = "h\<lparr>hn_links := hm_insert ?hv ?v (hn_links h)\<rparr>"
  have b: "link_exists bridge_name h" using assms(3) by (simp add: link_exists_def)
  have f: "\<not> link_exists ?hv h" "\<not> link_exists ?pv h"
    using link_exists_host_veth [OF assms(1)] assms(2) peer_gone [OF assms(1,2)] by auto
  have "(?hv, ?v) \<in> set (hm_insert ?hv ?v (hn_links h))"
    using hm_get_insert [of ?hv ?v "hn_links h" ?hv] map_of_SomeD by (fastforce simp: hm_get_def)
  then have p: "link_exists ?pv ?h1" by (force simp: link_exists_def list_ex_iff)
  have e: "link_exists ?hv g" if "hm_get (hn_links g) ?hv = Some v" for g v using that by (simp add: link_exists_def)
  show ?thesis
    using b f p
    by (simp add: plug_into_bridge_def Let_def bindR_def look_up_ok add_veth_def move_peer_def on_link_def on_if_def
        configure_inside_netns_def returnR_def e)
qed

lemma connected_drop_link:
  assumes "connected a ip gw h" "net_ok h" "host_veth_of a \<noteq> host_veth_of b"
  shows "connected a ip gw (drop_link (host_veth_of b) h)"
proof (cases "hm_get (hn_links h) (host_veth_of b)")
  case None
  then show ?thesis using assms(1,2) by (auto simp: connected_def drop_link_def hm_get_filter net_ok_def)
next
  case (Some v)
  then have "vp_peer_ns v \<noteq> Some a" using net_ok_get [OF assms(2) Some] assms(3) by auto
  then show ?thesis using assms(1,3) Some by (auto simp: connected_def drop_link_def split: option.split)
qed

text \<open>
  C30. Setting up the network of a pod connects it, and cuts off another one exactly when their names
  begin alike. When no call fails and the bridge is there, the set-up succeeds and the pod is connected with
  its address. A pod that was connected before stays so if and only if the first eight letters and
  digits of the two names differ: otherwise its pair of interfaces has the same name, is taken for a
  leftover and is removed.
\<close>

theorem setup_connects_and_cuts_off:
  assumes "net_ok h" "hn_bridge h \<noteq> None" "a \<noteq> b" "connected a ip_a gw h"
  shows "\<exists>net h'. setup_pod_network no_net_faults b ip_b gw h = (Inr net, h') \<and> connected b ip_b gw h' \<and>
    (connected a ip_a gw h' \<longleftrightarrow> veth_suffix a \<noteq> veth_suffix b)"
proof -
  let ?o = "old_removed b h"
  let ?h1 = "?o\<lparr>hn_netns := b # hn_netns ?o\<rparr>"
  have o: "net_ok ?h1" "hm_get (hn_links ?h1) (host_veth_of b) = None" "hn_bridge ?h1 \<noteq> None"
    using old_removed_props [OF assms(1), of b] assms(2) by (auto simp: net_ok_def)
  from plug_ok [OF o, of ip_b gw] obtain net h' where p: "plug_into_bridge no_net_faults b ip_b gw ?h1 = (Inr net, h')"
    and n: "hn_netns h' = b # hn_netns ?o"
    and l: "\<And>l. hm_get (hn_links h') l = (if l = host_veth_of b
        then Some \<lparr>vp_peer = peer_of b, vp_peer_ns = Some b, vp_plugged = True, vp_up = True\<rparr> else hm_get (hn_links ?o) l)"
    and i: "\<And>n. hm_get (hn_ifs h') n = (if n = b
        then Some \<lparr>if_lo_up = True, if_name = ''eth0'', if_addr = Some ip_b, if_up = True, if_gateway = Some gw\<rparr> else hm_get (hn_ifs ?o) n)"
    by auto
  have s: "setup_pod_network no_net_faults b ip_b gw h = (Inr net, h')" using p by (simp add: setup_start [OF assms(1)])
  have "connected b ip_b gw h'" using n l i by (simp add: connected_def)
  moreover have "connected a ip_a gw h' \<longleftrightarrow> veth_suffix a \<noteq> veth_suffix b"
  proof (cases "veth_suffix a = veth_suffix b")
    case True
    then have "host_veth_of a = host_veth_of b" by (simp add: host_veth_of_def)
    then show ?thesis using True l [of "host_veth_of a"] assms(3) by (simp add: connected_def)
  next
    case False
    then have d: "host_veth_of a \<noteq> host_veth_of b" by (simp add: host_veth_of_def)
    let ?g = "if b \<in> set (hn_netns h) then drop_netns b h else h"
    have "connected a ip_a gw ?g"
      using assms(1,3,4) by (auto simp: connected_def drop_netns_def hm_get_filter net_ok_def)
    moreover have "net_ok ?g" using assms(1) net_ok_drop_netns by auto
    ultimately have "connected a ip_a gw ?o" using connected_drop_link d assms(3) by (auto simp: old_removed_def Let_def)
    then show ?thesis using False n l [of "host_veth_of a"] i [of a] d assms(3) by (simp add: connected_def)
  qed
  ultimately show ?thesis using s by blast
qed

definition sample_net :: host_net where
  "sample_net = \<lparr>hn_bridge = Some ([(10, 244, 0, 1)], True), hn_netns = [], hn_links = [], hn_ifs = [], hn_rules = []\<rparr>"

theorem setup_connects_and_cuts_off_witness:
  "\<exists>h net h'. connected ''webserver-1'' (10, 244, 0, 2) (10, 244, 0, 1) h \<and>
     setup_pod_network no_net_faults ''webserver-2'' (10, 244, 0, 3) (10, 244, 0, 1) h = (Inr net, h') \<and>
     connected ''webserver-2'' (10, 244, 0, 3) (10, 244, 0, 1) h' \<and> \<not> connected ''webserver-1'' (10, 244, 0, 2) (10, 244, 0, 1) h'"
proof -
  define h where "h = snd (setup_pod_network no_net_faults ''webserver-1'' (10, 244, 0, 2) (10, 244, 0, 1) sample_net)"
  have "net_ok sample_net" by (simp add: net_ok_def sample_net_def hm_ok_def)
  then have h: "net_ok h" "connected ''webserver-1'' (10, 244, 0, 2) (10, 244, 0, 1) h" "hn_bridge h \<noteq> None"
    unfolding h_def by code_simp+
  have "veth_suffix ''webserver-1'' = veth_suffix ''webserver-2''" by code_simp
  then show ?thesis using h setup_connects_and_cuts_off [OF h(1,3) _ h(2), of "''webserver-2''" "(10, 244, 0, 3)"] by auto
qed

lemma hn_netns_drop_link [simp]: "hn_netns (drop_link n h) = hn_netns h"
  by (auto simp: drop_link_def split: option.split)

lemma link_gone: "hm_get (hn_links (if link_exists v h then drop_link v h else h)) v = None"
proof (cases "hm_get (hn_links h) v")
  case None
  then show ?thesis by (simp add: drop_link_def hm_get_filter_None)
next
  case (Some x)
  then have "link_exists v h" by (simp add: link_exists_def)
  then show ?thesis using Some by (simp add: drop_link_def)
qed

lemma link_stays_gone:
  assumes "hm_get (hn_links h) v = None"
  shows "hm_get (hn_links (drop_link n h)) v = None" "hm_get (hn_links (drop_netns n h)) v = None"
  using assms by (auto simp: drop_link_def drop_netns_def hm_get_filter_None split: option.split)

text \<open>
  A set-up that fails leaves nothing of the pod behind, as long as the calls that look up and
  delete links and namespaces work.
\<close>

theorem setup_failure_undone:
  assumes "flt Op_Connect = None" "\<forall>n. flt (Op_Link_Get n) = None" "flt Op_Link_Del = None" "flt Op_Netns_Del = None"
    and "setup_pod_network flt pod_name ip gw h = (Inl e, h')"
  shows "pod_name \<notin> set (hn_netns h') \<and> hm_get (hn_links h') (host_veth_of pod_name) = None"
proof -
  let ?hv = "host_veth_of pod_name"
  have r: "remove_host_link flt n g = (Inr (), if link_exists n g then drop_link n g else g)" for n g
    using assms(1-3) by (simp add: remove_host_link_def)
  have d: "del_netns flt n g = (Inr (), drop_netns n g)" for n g
    using assms(4) by (simp add: del_netns_def net_call_def tryR_def returnR_def)
  have netns: "pod_name \<notin> set (hn_netns (drop_netns pod_name g))" for g by (simp add: drop_netns_def)
  define h1 where "h1 = (if pod_name \<in> set (hn_netns h) then drop_netns pod_name h else h)"
  define h2 where "h2 = (if link_exists ?hv h1 then drop_link ?hv h1 else h1)"
  define h3 where "h3 = (if link_exists (peer_of pod_name) h2 then drop_link (peer_of pod_name) h2 else h2)"
  have a: "(if pod_name \<in> set (hn_netns h) then del_netns flt pod_name h else returnR () h) = (Inr (), h1)"
    by (simp add: d returnR_def h1_def)
  have "pod_name \<notin> set (hn_netns h1)" using netns by (simp add: h1_def)
  then have n3: "pod_name \<notin> set (hn_netns h3)" by (simp add: h3_def h2_def)
  have l3: "hm_get (hn_links h3) ?hv = None" using link_gone [of ?hv h1] link_stays_gone(1) by (simp add: h3_def h2_def)
  have s: "setup_pod_network flt pod_name ip gw h =
     bindR (net_call flt Op_Netns_Add (\<lambda>_. ''creating netns '' @ pod_name) (\<lambda>h. h\<lparr>hn_netns := pod_name # hn_netns h\<rparr>)) (\<lambda>_.
      tryR (plug_into_bridge flt pod_name ip gw) (\<lambda>res. case res of
          Inr net \<Rightarrow> returnR net
        | Inl e \<Rightarrow> bindR (remove_host_link flt ?hv) (\<lambda>_. bindR (del_netns flt pod_name) (\<lambda>_. failR e)))) h3"
    unfolding setup_pod_network_def Let_def bindR_def a prod.case sum.case r h2_def [symmetric] h3_def [symmetric] if_not_P [OF n3] ..
  show ?thesis
  proof (cases "flt Op_Netns_Add")
    case (Some err)
    then show ?thesis using assms(5) s n3 l3 by (simp add: bindR_def net_call_def)
  next
    case None
    then obtain g where "h' = drop_netns pod_name (if link_exists ?hv g then drop_link ?hv g else g)"
      using assms(5) s
      by (auto simp: bindR_def net_call_def tryR_def r d failR_def returnR_def split: prod.splits sum.splits)
    then show ?thesis using netns link_stays_gone(2) [OF link_gone] by simp
  qed
qed

end
