(* ===== verification/Embedded_Runtime.thy ===== *)
theory Embedded_Runtime
  imports Bundle Embedded_Log Pod_Network Node_Report
begin

text \<open>
  The embedded engine (\<open>src/src/node/runtime/embedded.rs\<close>): the life of a container from the image to its
  removal, with its root file system, network, address and exit code. libcontainer, the mount call, \<open>cp\<close> and
  the kernel's process table are given by the record \<open>em_lib\<close>. The state is the record \<open>embedded\<close>; a teardown that
  \<open>remove_container\<close> started and that has not finished is an entry of \<open>em_pending\<close>, and
  finishing it is a step of its own. A panic is represented as an error with that text.
\<close>

section \<open>State\<close>

record em_entry =
  ee_name :: string
  ee_started_at :: time
  ee_image :: string
  ee_pod_net :: "pod_network option"
  ee_pid :: int
  ee_restart_count :: i32
  ee_exit :: "i32 option"
  ee_log :: container_log

record embedded =
  em_containers :: "(string \<times> em_entry) list"
  em_pending :: "(string \<times> em_entry) list"
  em_ipam :: ipam
  em_net :: host_net
  em_fs :: fsys
  em_mounts :: "path list"
  em_states :: "string list" \<comment> \<open>the state directories of libcontainer\<close>
  em_rootless :: "rootless_config option"

text \<open>
  \<open>el_start\<close> runs the container of a name and gives the pid of its init process, \<open>el_tenant\<close> runs a command in
  it and gives its output and exit code, \<open>el_alive\<close> tells whether \<open>/proc/<pid>\<close> exists.
\<close>

record 'e em_lib =
  el_images :: "'e image_lib"
  el_encode :: "oci_spec \<Rightarrow> string"
  el_load :: "path \<Rightarrow> fsys \<Rightarrow> string + oci_spec"
  el_flt :: "net_op \<Rightarrow> string option"
  el_mount :: "string \<Rightarrow> string option"
  el_copy :: "path \<Rightarrow> path \<Rightarrow> fsys \<Rightarrow> (string + unit) \<times> fsys"
  el_start :: "string \<Rightarrow> fsys \<Rightarrow> string + int"
  el_alive :: "int \<Rightarrow> bool"
  el_tenant :: "string \<Rightarrow> string list \<Rightarrow> bool \<Rightarrow> tenant_env \<Rightarrow> string + chunk list \<times> i32 option"

definition state_root :: path where
  "state_root = [''var'', ''lib'', ''superkube'']"

definition image_root :: path where "image_root = state_root @ [''images'']"
definition bundle_root :: path where "bundle_root = state_root @ [''bundles'']"

definition id_prefix :: string where "id_prefix = ''embedded://''"
definition pod_cidr_prefix :: string where "pod_cidr_prefix = ''10.244.0''"

definition on_em_fs :: "(fsys \<Rightarrow> ('e + 'a) \<times> fsys) \<Rightarrow> embedded \<Rightarrow> ('e + 'a) \<times> embedded" where
  "on_em_fs f em = (case f (em_fs em) of (res, fs) \<Rightarrow> (res, em\<lparr>em_fs := fs\<rparr>))"

definition on_em_net :: "(host_net \<Rightarrow> ('e + 'a) \<times> host_net) \<Rightarrow> embedded \<Rightarrow> ('e + 'a) \<times> embedded" where
  "on_em_net f em = (case f (em_net em) of (res, h) \<Rightarrow> (res, em\<lparr>em_net := h\<rparr>))"

definition call_result :: "'a call \<Rightarrow> string + 'a" where
  "call_result c = (case c of Returned x \<Rightarrow> Inr x | Failed_With m \<Rightarrow> Inl m | Panicked \<Rightarrow> Inl ''panicked'')"

definition em_allocate :: "string \<Rightarrow> embedded \<Rightarrow> (string + ipv4) \<times> embedded" where
  "em_allocate name em = (case allocate name (em_ipam em) of (res, s) \<Rightarrow> (call_result res, em\<lparr>em_ipam := s\<rparr>))"

definition em_release :: "string \<Rightarrow> embedded \<Rightarrow> (string + unit) \<times> embedded" where
  "em_release name em = (case release name (em_ipam em) of (res, s) \<Rightarrow> (call_result res, em\<lparr>em_ipam := s\<rparr>))"

section \<open>Start-up\<close>

text \<open>From the effective ids and the text of \<open>/proc/self/uid_map\<close>, \<open>None\<close> if it cannot be read.\<close>

fun is_infix :: "string \<Rightarrow> string \<Rightarrow> bool" where
  "is_infix pat [] = (pat = [])"
| "is_infix pat (c # s) = (starts_with (c # s) pat \<or> is_infix pat s)"

definition detect_rootless :: "nat \<Rightarrow> nat \<Rightarrow> string option \<Rightarrow> rootless_config option" where
  "detect_rootless euid egid uid_map =
     (let in_userns = (case uid_map of Some s \<Rightarrow> \<not> is_infix ''4294967295'' s | None \<Rightarrow> False)
      in if euid \<noteq> 0 \<or> in_userns then Some \<lparr>rc_host_uid = euid, rc_host_gid = egid\<rparr> else None)"

text \<open>
  The root of the cgroup namespace is emptied into a leaf: the files that are written, with their contents, in
  order. \<open>files\<close> gives the text of a file that can be read, \<open>mkdir\<close> an error of \<open>create_dir_all\<close>;
  what becomes of a write is ignored.
\<close>

definition cgroup_file :: "string \<Rightarrow> string" where
  "cgroup_file f = ''/sys/fs/cgroup/'' @ f"

definition ensure_cgroup_root_is_empty ::
  "(string \<Rightarrow> string + string) \<Rightarrow> string option \<Rightarrow> string + (string \<times> string) list" where
  "ensure_cgroup_root_is_empty files mkdir =
     (case files ''/proc/self/cgroup'' of
        Inl e \<Rightarrow> Inl e
      | Inr own \<Rightarrow>
          if \<not> list_ex (\<lambda>l. trim l = ''0::/'') (lines own) then Inr []
          else case files (cgroup_file ''cgroup.procs'') of
            Inl e \<Rightarrow> Inl e
          | Inr procs \<Rightarrow>
              let pids = split_whitespace procs in
              if pids = [] then Inr []
              else case mkdir of
                Some e \<Rightarrow> Inl e
              | None \<Rightarrow>
                  let controllers = (case files (cgroup_file ''cgroup.controllers'') of Inr t \<Rightarrow> t | Inl _ \<Rightarrow> []);
                      enable = join_with '' '' (map (\<lambda>c. CHR ''+'' # c) (split_whitespace controllers))
                  in Inr (map (\<lambda>pid. (cgroup_file ''init/cgroup.procs'', pid)) pids @
                       (if enable = [] then [] else [(cgroup_file ''cgroup.subtree_control'', enable)])))"

text \<open>The host network: a failure is only logged. The switch for forwarding in \<open>/proc\<close> is not part of \<open>host_net\<close>.\<close>

definition init_host_network :: "(net_op \<Rightarrow> string option) \<Rightarrow> ipv4 \<Rightarrow> host_net \<Rightarrow> (string + unit) \<times> host_net" where
  "init_host_network flt gw =
     bindR (net_call flt Op_Connect (\<lambda>e. e) (\<lambda>h. h)) (\<lambda>_.
     bindR (ensure_bridge flt gw) (\<lambda>_.
     (case gw of (a, b, c, d) \<Rightarrow>
        ensure_masquerade flt (show_nat a @ ''.'' @ show_nat b @ ''.'' @ show_nat c @ ''.0/24''))))"

definition embedded_new ::
  "'e em_lib \<Rightarrow> nat \<Rightarrow> nat \<Rightarrow> string option \<Rightarrow> fsys \<Rightarrow> host_net \<Rightarrow> string + embedded" where
  "embedded_new lib euid egid uid_map fs h =
     (let dirs = map (\<lambda>d. state_root @ [d]) [''state'', ''images'', ''bundles'', ''logs''] in
      case foldR (\<lambda>d _. mapE (\<lambda>e. ''creating '' @ path_text d @ '': '' @ io_text e) (create_dir_all d)) dirs () fs of
        (Inl e, _) \<Rightarrow> Inl e
      | (Inr _, fs') \<Rightarrow>
          (case gateway (ipam_new pod_cidr_prefix) of
             Returned gw \<Rightarrow> Inr \<lparr>em_containers = [], em_pending = [], em_ipam = ipam_new pod_cidr_prefix,
                 em_net = snd (init_host_network (el_flt lib) gw h), em_fs = fs', em_mounts = [], em_states = [],
                 em_rootless = detect_rootless euid egid uid_map\<rparr>
           | _ \<Rightarrow> Inl ''panicked''))"

section \<open>The root file system\<close>

definition unmount_rootfs :: "path \<Rightarrow> embedded \<Rightarrow> (string + unit) \<times> embedded" where
  "unmount_rootfs bundle_dir em = (Inr (), em\<lparr>em_mounts := removeAll (bundle_dir @ [''rootfs'']) (em_mounts em)\<rparr>)"

definition remove_old_rootfs :: "path \<Rightarrow> embedded \<Rightarrow> (string + unit) \<times> embedded" where
  "remove_old_rootfs rootfs = on_em_fs (\<lambda>fs.
     if path_is_symlink fs rootfs then io (remove_file rootfs) fs
     else if path_is_dir fs rootfs then io (remove_dir_all rootfs) fs
     else returnR () fs)"

definition make_fresh :: "path \<Rightarrow> embedded \<Rightarrow> (string + unit) \<times> embedded" where
  "make_fresh d = bindR (on_em_fs (io_ok (remove_dir_all d))) (\<lambda>_. on_em_fs (io (create_dir_all d)))"

definition mount_rootfs :: "'e em_lib \<Rightarrow> path \<Rightarrow> path \<Rightarrow> bool \<Rightarrow> embedded \<Rightarrow> (string + unit) \<times> embedded" where
  "mount_rootfs lib bundle_dir image_rootfs rootless =
     (let rootfs = bundle_dir @ [''rootfs'']; img = path_text image_rootfs;
          upper = bundle_dir @ [''upper'']; work = bundle_dir @ [''work'']
      in bindR (unmount_rootfs bundle_dir) (\<lambda>_.
         bindR (remove_old_rootfs rootfs) (\<lambda>_.
         if rootless \<or> CHR '':'' \<in> set img \<or> CHR '','' \<in> set img then on_em_fs (io (symlink img rootfs))
         else
           bindR (make_fresh upper) (\<lambda>_.
           bindR (make_fresh work) (\<lambda>_.
           bindR (on_em_fs (io (create_dir_all rootfs))) (\<lambda>_.
           (case el_mount lib (''lowerdir='' @ img @ '',upperdir='' @ path_text upper @ '',workdir='' @ path_text work) of
              None \<Rightarrow> (\<lambda>em. (Inr (), em\<lparr>em_mounts := rootfs # em_mounts em\<rparr>))
            | Some e \<Rightarrow>
                bindR (on_em_fs (io_ok (remove_dir_all upper))) (\<lambda>_.
                bindR (on_em_fs (io_ok (remove_dir_all work))) (\<lambda>_.
                on_em_fs (el_copy lib image_rootfs rootfs))))))))))"

section \<open>The end of a process\<close>

datatype wait_result = Exited i32 | Signaled nat | Other_Status | EIntr | Errno

text \<open>
  The results of successive \<open>waitpid\<close> calls; \<open>None\<close> if it never returns. After an error \<open>/proc\<close> is
  polled until the process is gone, which is taken to happen.
\<close>

fun wait_for_exit :: "wait_result list \<Rightarrow> i32 option" where
  "wait_for_exit [] = None"
| "wait_for_exit (Exited c # rs) = Some c"
| "wait_for_exit (Signaled sig # rs) = Some (128 + int sig)"
| "wait_for_exit (Other_Status # rs) = wait_for_exit rs"
| "wait_for_exit (EIntr # rs) = wait_for_exit rs"
| "wait_for_exit (Errno # rs) = Some (-1)"

datatype signal = SigTerm | SigKill

text \<open>
  Stopping init: \<open>exited i\<close> tells whether the exit has been recorded at the \<open>i\<close>-th look, one every 100 ms.
  The result is the signals that were sent and the number of looks until it went on.
\<close>

fun wait_looks :: "nat \<Rightarrow> (nat \<Rightarrow> bool) \<Rightarrow> nat \<Rightarrow> nat" where
  "wait_looks 0 exited i = i"
| "wait_looks (Suc k) exited i = (if exited i then i else wait_looks k exited (Suc i))"

definition stop_init :: "(nat \<Rightarrow> bool) \<Rightarrow> signal list \<times> nat" where
  "stop_init exited =
     (if exited 0 then ([], 0)
      else (let i = wait_looks 100 exited 0 in
            if exited i then ([SigTerm], i) else ([SigTerm, SigKill], wait_looks 50 exited i)))"

section \<open>Teardown\<close>

definition teardown :: "'e em_lib \<Rightarrow> em_entry \<Rightarrow> embedded \<Rightarrow> (string + unit) \<times> embedded" where
  "teardown lib entry =
     (let name = ee_name entry; bundle_dir = bundle_root @ [name] in
      bindR (\<lambda>em. (Inr (), em\<lparr>em_states := removeAll name (em_states em)\<rparr>)) (\<lambda>_.
      bindR (case ee_pod_net entry of Some net \<Rightarrow> on_em_net (teardown_pod_network (el_flt lib) net) | None \<Rightarrow> returnR ()) (\<lambda>_.
      bindR (em_release name) (\<lambda>_.
      bindR (unmount_rootfs bundle_dir) (\<lambda>_.
      on_em_fs (io_ok (remove_dir_all bundle_dir)))))))"

definition await_pending :: "'e em_lib \<Rightarrow> string \<Rightarrow> embedded \<Rightarrow> (string + unit) \<times> embedded" where
  "await_pending lib name em = (case hm_get (em_pending em) name of
       None \<Rightarrow> (Inr (), em)
     | Some entry \<Rightarrow> (Inr (), snd (teardown lib entry (em\<lparr>em_pending := hm_remove name (em_pending em)\<rparr>))))"

section \<open>Creation\<close>

definition build_and_start ::
  "'e em_lib \<Rightarrow> string \<Rightarrow> container \<Rightarrow> pulled_image \<Rightarrow> string option \<Rightarrow> embedded \<Rightarrow> (string + int \<times> container_log) \<times> embedded" where
  "build_and_start lib name c pulled netns =
     (let bundle_dir = bundle_root @ [name] in
      bindR (on_em_fs (io (create_dir_all bundle_dir))) (\<lambda>_.
      bindR (\<lambda>em. mount_rootfs lib bundle_dir (pi_rootfs pulled) (em_rootless em \<noteq> None) em) (\<lambda>_.
      bindR (\<lambda>em. on_em_fs (write_config (el_encode lib) bundle_dir
               \<lparr>bi_hostname = name, bi_rootfs_path = ''rootfs'', bi_container = c, bi_image = pi_config pulled,
                bi_netns_path = netns, bi_rootless = em_rootless em\<rparr>) em) (\<lambda>_.
      bindR (\<lambda>em. (Inr (), em\<lparr>em_states := removeAll name (em_states em)\<rparr>)) (\<lambda>_.
      (\<lambda>em. case el_start lib name (em_fs em) of
          Inl e \<Rightarrow> (Inl e, em)
        | Inr pid \<Rightarrow> (Inr (pid, pump_start (pump_start log_create)), em\<lparr>em_states := name # em_states em\<rparr>)))))))"

definition previous_instance :: "'e em_lib \<Rightarrow> string \<Rightarrow> embedded \<Rightarrow> (string + i32) \<times> embedded" where
  "previous_instance lib cid em = (case hm_get (em_containers em) cid of
       None \<Rightarrow> (Inr 0, em)
     | Some prev \<Rightarrow>
         (Inr (wrap_i32 (ee_restart_count prev + 1)),
          snd (teardown lib prev (em\<lparr>em_containers := hm_remove cid (em_containers em)\<rparr>))))"

definition pod_network_of :: "'e em_lib \<Rightarrow> string \<Rightarrow> ipv4 \<Rightarrow> embedded \<Rightarrow> (string + pod_network option) \<times> embedded" where
  "pod_network_of lib name ip em = (case gateway (em_ipam em) of
       Returned gw \<Rightarrow>
         tryR (on_em_net (setup_pod_network (el_flt lib) name ip gw)) (\<lambda>res. case res of
             Inr net \<Rightarrow> returnR (Some net)
           | Inl e \<Rightarrow> bindR (em_release name) (\<lambda>_. returnR None)) em
     | _ \<Rightarrow> (Inl ''panicked'', em))"

definition undo_start :: "'e em_lib \<Rightarrow> string \<Rightarrow> pod_network option \<Rightarrow> embedded \<Rightarrow> (string + unit) \<times> embedded" where
  "undo_start lib name pod_net =
     bindR (unmount_rootfs (bundle_root @ [name])) (\<lambda>_.
     bindR (case pod_net of Some net \<Rightarrow> on_em_net (teardown_pod_network (el_flt lib) net) | None \<Rightarrow> returnR ()) (\<lambda>_.
     em_release name))"

definition embedded_create ::
  "'e em_lib \<Rightarrow> uuid \<Rightarrow> time \<Rightarrow> string \<Rightarrow> container \<Rightarrow> embedded \<Rightarrow> (string + string) \<times> embedded" where
  "embedded_create lib uid now name c =
     (let cid = id_prefix @ name in
      bindR (await_pending lib name) (\<lambda>_.
      bindR (previous_instance lib cid) (\<lambda>restarts.
      bindR (on_em_fs (pull (el_images lib) (co_image c) image_root)) (\<lambda>pulled.
      bindR (em_allocate name) (\<lambda>ip.
      bindR (pod_network_of lib name ip) (\<lambda>pod_net.
      tryR (build_and_start lib name c pulled (map_option pn_netns_path pod_net)) (\<lambda>res. case res of
          Inl e \<Rightarrow> bindR (undo_start lib name pod_net) (\<lambda>_. failR e)
        | Inr (pid, clog) \<Rightarrow>
            (\<lambda>em. (Inr cid, em\<lparr>em_containers := hm_insert cid
                 \<lparr>ee_name = name, ee_started_at = now, ee_image = co_image c, ee_pod_net = pod_net, ee_pid = pid,
                  ee_restart_count = restarts, ee_exit = None, ee_log = clog\<rparr> (em_containers em)\<rparr>)))))))))"

section \<open>Queries and removal\<close>

definition show_ipv4 :: "ipv4 \<Rightarrow> string" where
  "show_ipv4 ip = (case ip of (a, b, c, d) \<Rightarrow> show_nat a @ ''.'' @ show_nat b @ ''.'' @ show_nat c @ ''.'' @ show_nat d)"

definition embedded_find :: "'e em_lib \<Rightarrow> string \<Rightarrow> embedded \<Rightarrow> string + container_info option" where
  "embedded_find lib name em = Inr (case hm_get (em_containers em) (id_prefix @ name) of
       None \<Rightarrow> None
     | Some entry \<Rightarrow> Some \<lparr>cinf_id = id_prefix @ name,
         cinf_running = (ee_exit entry = None \<and> el_alive lib (ee_pid entry)), cinf_restart_count = ee_restart_count entry,
         cinf_started_at = Some (ee_started_at entry), cinf_exit_code = ee_exit entry,
         cinf_ip = map_option (\<lambda>n. show_ipv4 (pn_pod_ip n)) (ee_pod_net entry), cinf_port_mappings = []\<rparr>)"

definition embedded_remove :: "string \<Rightarrow> embedded \<Rightarrow> (string + unit) \<times> embedded" where
  "embedded_remove name em = (let cid = id_prefix @ name in
     case hm_get (em_containers em) cid of
       None \<Rightarrow> (Inr (), em)
     | Some entry \<Rightarrow> (Inr (), em\<lparr>em_containers := hm_remove cid (em_containers em),
                                em_pending := hm_insert name entry (em_pending em)\<rparr>))"

definition embedded_logs :: "(string \<Rightarrow> time option) \<Rightarrow> string \<Rightarrow> log_options \<Rightarrow> embedded \<Rightarrow> string + string" where
  "embedded_logs parse_ts cid options em = (case hm_get (em_containers em) cid of
       None \<Rightarrow> Inl (''no such container: '' @ cid)
     | Some entry \<Rightarrow> Inr (log_render parse_ts options (ee_log entry)))"

text \<open>What a follower has received by the time the log is as it is now.\<close>

definition embedded_stream :: "(string \<Rightarrow> time option) \<Rightarrow> string \<Rightarrow> log_options \<Rightarrow> embedded \<Rightarrow> string + chunk list" where
  "embedded_stream parse_ts cid options em = (case hm_get (em_containers em) cid of
       None \<Rightarrow> Inl (''no such container: '' @ cid)
     | Some entry \<Rightarrow> Inr (map (\<lambda>s. Inr (bytes_of s)) (fo_out (follow_log parse_ts options (ee_log entry)))))"

definition embedded_exec :: "'e em_lib \<Rightarrow> string \<Rightarrow> string list \<Rightarrow> bool \<Rightarrow> embedded \<Rightarrow> string + exec_session" where
  "embedded_exec lib cid cmd tty em = (case hm_get (em_containers em) cid of
       None \<Rightarrow> Inl (''no such container: '' @ cid)
     | Some entry \<Rightarrow>
         if ee_exit entry \<noteq> None then Inl (''container '' @ ee_name entry @ '' is not running'')
         else (case tenant_defaults (el_load lib) (bundle_root @ [ee_name entry]) tty (em_fs em) of
             Inl e \<Rightarrow> Inl e
           | Inr defaults \<Rightarrow> (case el_tenant lib (ee_name entry) cmd tty defaults of
               Inl e \<Rightarrow> Inl e
             | Inr (output, code) \<Rightarrow> Inr \<lparr>xs_output = output, xs_exit = Some code\<rparr>)))"

definition embedded_ops :: "'e em_lib \<Rightarrow> (string \<Rightarrow> time option) \<Rightarrow> embedded runtime_ops" where
  "embedded_ops lib parse_ts = \<lparr>rt_create = embedded_create lib, rt_find = embedded_find lib, rt_remove = embedded_remove,
     rt_logs = embedded_logs parse_ts, rt_stream = embedded_stream parse_ts, rt_exec = embedded_exec lib, rt_name = (\<lambda>_. ''embedded'')\<rparr>"

text \<open>The end of a detached teardown, and the exit code the reaper records.\<close>

definition finish_teardown :: "'e em_lib \<Rightarrow> string \<Rightarrow> embedded \<Rightarrow> embedded" where
  "finish_teardown lib name em = snd (await_pending lib name em)"

definition record_exit :: "string \<Rightarrow> i32 \<Rightarrow> embedded \<Rightarrow> embedded" where
  "record_exit cid code em = (case hm_get (em_containers em) cid of
       None \<Rightarrow> em | Some entry \<Rightarrow> em\<lparr>em_containers := hm_insert cid (entry\<lparr>ee_exit := Some code\<rparr>) (em_containers em)\<rparr>)"

text \<open>A step of the engine, every call with one of the possible answers of the libraries and the kernel.\<close>

inductive em_step :: "'e em_lib set \<Rightarrow> embedded \<Rightarrow> embedded \<Rightarrow> bool" for L where
  em_create: "lib \<in> L \<Longrightarrow> em_step L em (snd (embedded_create lib uid now name c em))"
| em_remove: "em_step L em (snd (embedded_remove name em))"
| em_finish: "lib \<in> L \<Longrightarrow> em_step L em (finish_teardown lib name em)"
| em_exit: "em_step L em (record_exit cid code em)"

end
