(* ===== verification/Embedded_Props.thy ===== *)
theory Embedded_Props
  imports Embedded_Runtime
begin

text \<open>
  Properties of the embedded engine: it is a container runtime in the sense of the node agent, the addresses it
  gives out are exactly those of the containers it has or is tearing down, and a container is stopped within
  a bounded time.
\<close>

section \<open>What the parts of an operation keep\<close>

text \<open>The containers, the pending teardowns and the allocator.\<close>

definition em_core :: "embedded \<Rightarrow> (string \<times> em_entry) list \<times> (string \<times> em_entry) list \<times> ipam" where
  "em_core em = (em_containers em, em_pending em, em_ipam em)"

lemma keeps_on_em_fs [keeps_intros]: "keeps em_core (on_em_fs f)"
  by (simp add: keeps_def on_em_fs_def em_core_def split: prod.split)

lemma keeps_on_em_net [keeps_intros]: "keeps em_core (on_em_net f)"
  by (simp add: keeps_def on_em_net_def em_core_def split: prod.split)

lemma keeps_unmount_rootfs [keeps_intros]: "keeps em_core (unmount_rootfs d)"
  by (simp add: keeps_def unmount_rootfs_def em_core_def)

lemma keeps_em_states [keeps_intros]: "keeps em_core (\<lambda>em. (r, em\<lparr>em_states := f (em_states em)\<rparr>))"
  by (simp add: keeps_def em_core_def)

lemma keeps_em_mounts [keeps_intros]: "keeps em_core (\<lambda>em. (r, em\<lparr>em_mounts := f (em_mounts em)\<rparr>))"
  by (simp add: keeps_def em_core_def)

lemma keeps_mount_rootfs [keeps_intros]: "keeps em_core (mount_rootfs lib d img rootless)"
  unfolding mount_rootfs_def Let_def remove_old_rootfs_def make_fresh_def by (intro keeps_intros)

lemma keeps_build_and_start: "keeps em_core (build_and_start lib name c pulled netns)"
proof -
  have "keeps em_core (\<lambda>em. case el_start lib name (em_fs em) of
      Inl e \<Rightarrow> (Inl e, em)
    | Inr pid \<Rightarrow> (Inr (pid, pump_start (pump_start log_create)), em\<lparr>em_states := name # em_states em\<rparr>))"
    by (auto simp: keeps_def em_core_def split: sum.split)
  moreover have "keeps em_core (\<lambda>em. mount_rootfs lib d img (em_rootless em \<noteq> None) em)" for d img
    by (intro keepsI) (rule keeps_mount_rootfs [unfolded keeps_def, rule_format])
  moreover have "keeps em_core (\<lambda>em. on_em_fs (F em) em)" for F :: "embedded \<Rightarrow> fsys \<Rightarrow> (string + unit) \<times> fsys"
    by (intro keepsI) (rule keeps_on_em_fs [unfolded keeps_def, rule_format])
  ultimately show ?thesis
    unfolding build_and_start_def Let_def by (intro keeps_bindR keeps_on_em_fs keeps_em_states)
qed


lemma em_release_ok:
  "\<not> ip_poisoned (em_ipam em) \<Longrightarrow> em_release name em = (Inr (), em\<lparr>em_ipam := snd (release name (em_ipam em))\<rparr>)"
  by (auto simp: em_release_def release_def call_result_def split: option.split)

lemma teardown_pod_network_Inr: "\<exists>h'. teardown_pod_network flt net h = (Inr (), h')"
  by (simp add: teardown_pod_network_def remove_host_link_def del_netns_def bindR_def tryR_def returnR_def split: prod.split)

text \<open>Giving the network and the address of a container back.\<close>

lemma net_down_core:
  assumes "\<not> ip_poisoned (em_ipam em)" "\<And>em. keeps em_core k"
  shows "em_core (snd (bindR (case pod_net of Some net \<Rightarrow> on_em_net (teardown_pod_network flt net) | None \<Rightarrow> returnR ())
      (\<lambda>_. bindR (em_release name) (\<lambda>_. k)) em)) =
    (em_containers em, em_pending em, snd (release name (em_ipam em)))"
proof -
  let ?m = "case pod_net of Some net \<Rightarrow> on_em_net (teardown_pod_network flt net) | None \<Rightarrow> returnR ()"
  obtain em' where m: "?m em = (Inr (), em')" and c: "em_core em' = em_core em"
  proof (cases pod_net)
    case (Some net)
    obtain h' where "teardown_pod_network flt net (em_net em) = (Inr (), h')" using teardown_pod_network_Inr by blast
    then show thesis using that [of "em\<lparr>em_net := h'\<rparr>"] Some by (simp add: on_em_net_def em_core_def)
  qed (use that [of em] in \<open>simp add: returnR_def\<close>)
  have "\<not> ip_poisoned (em_ipam em')" using assms(1) c by (simp add: em_core_def)
  then have r: "em_release name em' = (Inr (), em'\<lparr>em_ipam := snd (release name (em_ipam em'))\<rparr>)" by (rule em_release_ok)
  have "em_core (snd (k (em'\<lparr>em_ipam := snd (release name (em_ipam em'))\<rparr>))) = em_core (em'\<lparr>em_ipam := snd (release name (em_ipam em'))\<rparr>)"
    using assms(2) by (simp add: keeps_def)
  then show ?thesis using c by (simp add: bindR_def m r em_core_def)
qed

lemma teardown_core:
  assumes "\<not> ip_poisoned (em_ipam em)"
  shows "em_core (snd (teardown lib entry em)) = (em_containers em, em_pending em, snd (release (ee_name entry) (em_ipam em)))"
proof -
  have "keeps em_core (bindR (unmount_rootfs d) (\<lambda>_. on_em_fs f))" for d and f :: "fsys \<Rightarrow> (string + unit) \<times> fsys"
    by (intro keeps_intros)
  from net_down_core [OF _ this, of "em\<lparr>em_states := removeAll (ee_name entry) (em_states em)\<rparr>"] assms
  show ?thesis unfolding teardown_def Let_def by (simp add: bindR_def)
qed

lemma undo_start_core:
  assumes "\<not> ip_poisoned (em_ipam em)"
  shows "em_core (snd (bindR (undo_start lib name pod_net) (\<lambda>_. failR e) em)) =
    (em_containers em, em_pending em, snd (release name (em_ipam em)))"
proof -
  have "keeps em_core (failR e)" by (rule keeps_failR)
  from net_down_core [OF _ this, of "snd (unmount_rootfs (bundle_root @ [name]) em)"] assms
  show ?thesis
    unfolding undo_start_def bindR_assoc bindR_Inr [where m = "unmount_rootfs (bundle_root @ [name])", OF unmount_rootfs_def]
    by (simp add: unmount_rootfs_def)
qed

section \<open>Addresses\<close>

definition owner :: "(string \<times> em_entry) list \<Rightarrow> (string \<times> em_entry) list \<Rightarrow> string \<Rightarrow> em_entry option" where
  "owner C P n = (case hm_get C (id_prefix @ n) of Some e \<Rightarrow> Some e | None \<Rightarrow> hm_get P n)"

definition last_octet :: "pod_network \<Rightarrow> nat" where
  "last_octet net = (case pn_pod_ip net of (a, b, c, d) \<Rightarrow> d)"

definition octet_held :: "em_entry option \<Rightarrow> nat option" where
  "octet_held x = Option.bind x (\<lambda>e. map_option last_octet (ee_pod_net e))"

text \<open>
  Containers and teardowns are filed under their names, no name is in both, and the allocator has exactly the
  octets of the pod networks of both.
\<close>

fun core_inv :: "(string \<times> em_entry) list \<times> (string \<times> em_entry) list \<times> ipam \<Rightarrow> bool" where
  "core_inv (C, P, s) \<longleftrightarrow>
     (\<forall>k e. hm_get C k = Some e \<longrightarrow> k = id_prefix @ ee_name e \<and> hm_get P (ee_name e) = None) \<and>
     (\<forall>n e. hm_get P n = Some e \<longrightarrow> ee_name e = n) \<and>
     (\<forall>n e net. owner C P n = Some e \<longrightarrow> ee_pod_net e = Some net \<longrightarrow> pn_pod_ip net = (10, 244, 0, last_octet net)) \<and>
     (\<forall>n. ip_by_pod s n = octet_held (owner C P n)) \<and>
     ipam_inv s \<and> ip_prefix s = pod_cidr_prefix \<and> \<not> ip_poisoned s"

lemma pod_cidr_octets: "prefix_octets pod_cidr_prefix = Some (10, 244, 0)"
  by (simp add: prefix_octets_def pod_cidr_prefix_def parse_octet_def all_digits_def is_digit_def dec_val_def digit_val_def)

lemma release_by_pod: "\<not> ip_poisoned s \<Longrightarrow> ip_by_pod (snd (release n s)) = (ip_by_pod s)(n := None)"
  by (auto simp: release_def fun_eq_iff split: option.split)

lemma core_inv_ipam:
  "\<lbrakk>core_inv (C, P, s); ip_by_pod s' = ip_by_pod s; ipam_inv s'; ip_prefix s' = pod_cidr_prefix; \<not> ip_poisoned s'\<rbrakk>
   \<Longrightarrow> core_inv (C, P, s')"
  by simp

lemma core_inv_net:
  "core_inv (C, P, s) \<Longrightarrow> owner C P n = Some e \<Longrightarrow> ee_pod_net e = Some net \<Longrightarrow> pn_pod_ip net = (10, 244, 0, last_octet net)"
  unfolding core_inv.simps by blast

lemma core_inv_release:
  assumes "core_inv (C, P, s)" "owner C' P' n = None"
    and "\<And>m. m \<noteq> n \<Longrightarrow> owner C' P' m = owner C P m"
    and "\<And>k e. hm_get C' k = Some e \<Longrightarrow> hm_get C k = Some e" "\<And>m e. hm_get P' m = Some e \<Longrightarrow> hm_get P m = Some e"
  shows "core_inv (C', P', snd (release n s))"
proof -
  have "owner C' P' m = Some e \<Longrightarrow> owner C P m = Some e" for m e using assms(2,3) by (cases "m = n") auto
  then have "pn_pod_ip net = (10, 244, 0, last_octet net)" if "owner C' P' m = Some e" "ee_pod_net e = Some net" for m e net
    using core_inv_net [OF assms(1)] that by blast
  moreover have "hm_get P' (ee_name e) = None" if "hm_get C' k = Some e" for k e
    using assms(1) assms(4) [OF that] assms(5) [of "ee_name e"] by (cases "hm_get P' (ee_name e)") auto
  moreover have "ip_by_pod (snd (release n s)) m = octet_held (owner C' P' m)" for m
    using assms(1,2) assms(3) [of m] by (simp add: release_by_pod octet_held_def)
  ultimately show ?thesis
    using assms(1) assms(4) assms(5) unfolding core_inv.simps
    by (intro conjI) (simp_all add: ipam_inv_release release_prefix release_not_poisoned)
qed


text \<open>What a teardown, a request to remove and a successful start do.\<close>

lemma core_inv_drop_container:
  assumes "core_inv (C, P, s)" "hm_get C (id_prefix @ n) = Some e"
  shows "core_inv (hm_remove (id_prefix @ n) C, P, snd (release n s))"
proof -
  have "hm_get P n = None" using assms by auto
  then show ?thesis
    by (intro core_inv_release [OF assms(1)]) (auto simp: owner_def split: if_splits)
qed

lemma core_inv_drop_pending:
  assumes "core_inv (C, P, s)" "hm_get P n = Some e"
  shows "core_inv (C, hm_remove n P, snd (release n s))"
proof -
  have "hm_get C (id_prefix @ n) = None" using assms by (cases "hm_get C (id_prefix @ n)") force+
  then show ?thesis
    by (intro core_inv_release [OF assms(1)]) (auto simp: owner_def split: if_splits option.split)
qed

lemma core_inv_move:
  assumes "core_inv (C, P, s)" "hm_get C (id_prefix @ n) = Some e"
  shows "core_inv (hm_remove (id_prefix @ n) C, hm_insert n e P, s)"
proof -
  have e: "ee_name e = n" "hm_get P n = None" using assms by auto
  have o: "owner (hm_remove (id_prefix @ n) C) (hm_insert n e P) m = owner C P m" for m
    using assms(2) by (auto simp: owner_def split: option.split)
  have "hm_get (hm_insert n e P) (ee_name e') = None" if "hm_get (hm_remove (id_prefix @ n) C) k = Some e'" for k e'
    using that assms(1) by (auto split: if_splits)
  then show ?thesis
    using assms(1) e(1) unfolding core_inv.simps o by (intro conjI) (auto split: if_splits)
qed

lemma core_inv_exit:
  assumes "core_inv (C, P, s)" "hm_get C cid = Some e"
  shows "core_inv (hm_insert cid (e\<lparr>ee_exit := x\<rparr>) C, P, s)"
proof -
  have c: "cid = id_prefix @ ee_name e" "hm_get P (ee_name e) = None" using assms by auto
  have o: "owner (hm_insert cid (e\<lparr>ee_exit := x\<rparr>) C) P m =
      (if m = ee_name e then Some (e\<lparr>ee_exit := x\<rparr>) else owner C P m)" for m
    using c by (simp add: owner_def)
  have m: "owner C P (ee_name e) = Some e" using assms(2) c by (simp add: owner_def)
  have "pn_pod_ip net = (10, 244, 0, last_octet net)" if "ee_pod_net e = Some net" for net using assms(1) m that by auto
  moreover have "octet_held (owner C P k) = octet_held (if k = ee_name e then Some (e\<lparr>ee_exit := x\<rparr>) else owner C P k)" for k
    using m by (simp add: octet_held_def)
  ultimately show ?thesis
    using assms(1) c unfolding core_inv.simps o by (intro conjI) (auto split: if_splits)
qed

text \<open>A container added under a free name, with the allocator's octet or, without a network, none.\<close>

lemma core_inv_add:
  assumes "core_inv (C, P, s)" "owner C P n = None" "ee_name e = n"
    and "\<And>net. ee_pod_net e = Some net \<Longrightarrow> pn_pod_ip net = (10, 244, 0, last_octet net)"
    and "\<And>m. m \<noteq> n \<Longrightarrow> ip_by_pod s' m = ip_by_pod s m" "ip_by_pod s' n = octet_held (Some e)"
    and "ipam_inv s'" "ip_prefix s' = pod_cidr_prefix" "\<not> ip_poisoned s'"
  shows "core_inv (hm_insert (id_prefix @ n) e C, P, s')"
proof -
  have n: "hm_get C (id_prefix @ n) = None" "hm_get P n = None" using assms(2) by (auto simp: owner_def split: option.splits)
  have o: "owner (hm_insert (id_prefix @ n) e C) P m = (if m = n then Some e else owner C P m)" for m
    by (simp add: owner_def)
  have "ip_by_pod s' m = octet_held (if m = n then Some e else owner C P m)" for m
    using assms(1,5,6) by simp
  then show ?thesis
    using assms(1,3,4,7-) n unfolding core_inv.simps o by (intro conjI) (auto split: if_splits)
qed


lemma bindR_cases:
  assumes "\<And>e w'. m w = (Inl e, w') \<Longrightarrow> S w'" and "\<And>x w'. m w = (Inr x, w') \<Longrightarrow> S (snd (k x w'))"
  shows "S (snd (bindR m k w))"
  using assms by (cases "m w") (auto simp: bindR_def split: sum.split)

definition em_inv :: "embedded \<Rightarrow> bool" where
  "em_inv em \<longleftrightarrow> core_inv (em_core em)"

definition name_free :: "string \<Rightarrow> embedded \<Rightarrow> bool" where
  "name_free n em \<longleftrightarrow> owner (em_containers em) (em_pending em) n = None"

lemma em_inv_not_poisoned: "em_inv em \<Longrightarrow> \<not> ip_poisoned (em_ipam em)"
  by (simp add: em_inv_def em_core_def)

lemma em_inv_await:
  assumes "em_inv em"
  shows "em_inv (snd (await_pending lib n em))" "hm_get (em_pending (snd (await_pending lib n em))) n = None"
proof -
  have "em_inv (snd (await_pending lib n em)) \<and> hm_get (em_pending (snd (await_pending lib n em))) n = None"
  proof (cases "hm_get (em_pending em) n")
    case None
    then show ?thesis using assms by (simp add: await_pending_def)
  next
    case (Some e)
    let ?em = "em\<lparr>em_pending := hm_remove n (em_pending em)\<rparr>"
    have "ee_name e = n" using assms Some by (simp add: em_inv_def em_core_def)
    then have c: "em_core (snd (teardown lib e ?em)) = (em_containers em, hm_remove n (em_pending em), snd (release n (em_ipam em)))"
      using teardown_core [of ?em lib e] em_inv_not_poisoned [OF assms] by simp
    moreover have "core_inv \<dots>"
      using core_inv_drop_pending Some assms by (simp only: em_inv_def em_core_def)
    ultimately show ?thesis using Some by (simp add: await_pending_def em_inv_def) (simp add: em_core_def)
  qed
  then show "em_inv (snd (await_pending lib n em))" "hm_get (em_pending (snd (await_pending lib n em))) n = None" by auto
qed

lemma em_inv_previous:
  assumes "em_inv em" "hm_get (em_pending em) n = None" "previous_instance lib (id_prefix @ n) em = (res, em')"
  shows "em_inv em' \<and> name_free n em'"
proof (cases "hm_get (em_containers em) (id_prefix @ n)")
  case None
  then show ?thesis using assms by (auto simp: previous_instance_def name_free_def owner_def)
next
  case (Some e)
  let ?em = "em\<lparr>em_containers := hm_remove (id_prefix @ n) (em_containers em)\<rparr>"
  have "ee_name e = n" using assms(1) Some by (auto simp: em_inv_def em_core_def)
  then have c: "em_core em' = (hm_remove (id_prefix @ n) (em_containers em), em_pending em, snd (release n (em_ipam em)))"
    using teardown_core [of ?em lib e] em_inv_not_poisoned [OF assms(1)] assms(3) Some by (auto simp: previous_instance_def)
  moreover have "core_inv \<dots>"
    using core_inv_drop_container Some assms(1) by (simp only: em_inv_def em_core_def)
  ultimately show ?thesis using assms(2) by (simp add: em_inv_def name_free_def owner_def) (simp add: em_core_def)
qed

text \<open>An allocation for a free name: the state is as before but for the octet of the name.\<close>

definition em_holds :: "string \<Rightarrow> nat option \<Rightarrow> embedded \<Rightarrow> bool" where
  "em_holds n oct em \<longleftrightarrow> name_free n em \<and> ip_by_pod (em_ipam em) n = oct \<and>
     em_inv (em\<lparr>em_ipam := snd (release n (em_ipam em))\<rparr>) \<and>
     ipam_inv (em_ipam em) \<and> ip_prefix (em_ipam em) = pod_cidr_prefix \<and> \<not> ip_poisoned (em_ipam em)"

lemma em_holds_core: "em_core em' = em_core em \<Longrightarrow> em_holds n oct em' = em_holds n oct em"
  by (simp add: em_holds_def em_core_def name_free_def em_inv_def)


lemma release_twice: "snd (release n (snd (release n s))) = snd (release n s)"
  by (auto simp: release_def split: option.split)

lemma em_holds_release:
  assumes "em_holds n oct em"
  shows "em_release n em = (Inr (), em\<lparr>em_ipam := snd (release n (em_ipam em))\<rparr>)"
    "em_holds n None (em\<lparr>em_ipam := snd (release n (em_ipam em))\<rparr>)"
  using assms
  by (simp_all add: em_holds_def em_release_ok release_twice release_by_pod ipam_inv_release release_prefix
      release_not_poisoned name_free_def)

lemma em_holds_allocate:
  assumes "em_inv em" "name_free n em" "em_allocate n em = (Inr ip, em')"
  shows "\<exists>k. ip = (10, 244, 0, k) \<and> em_holds n (Some k) em'"
proof -
  let ?s = "em_ipam em"
  have i: "ipam_inv ?s" "ip_prefix ?s = pod_cidr_prefix" "\<not> ip_poisoned ?s" "ip_by_pod ?s n = None"
    using assms(1,2) by (auto simp: em_inv_def em_core_def name_free_def octet_held_def)
  obtain s' where a: "allocate n ?s = (Returned ip, s')" and e: "em' = em\<lparr>em_ipam := s'\<rparr>"
    using assms(3) by (auto simp: em_allocate_def call_result_def split: prod.splits call.splits)
  obtain k where k: "ip_by_pod s' n = Some k" "ip = (10, 244, 0, k)"
    by (rule allocate_returned [OF i(1) a]) (use pod_cidr_octets i(2) in auto)
  have s': "ipam_inv s'" "ip_prefix s' = pod_cidr_prefix" "\<not> ip_poisoned s'"
    using ipam_inv_allocate [OF i(1), of n] allocate_prefix [of n ?s] allocate_not_poisoned [OF i(1), of _ n] i(2,3) a pod_cidr_octets
    by auto
  have "ip_by_pod (snd (release n s')) = ip_by_pod ?s"
  proof
    fix m show "ip_by_pod (snd (release n s')) m = ip_by_pod ?s m"
    using allocate_other [of n m ?s] a i(4) s'(3) by (cases "m = n") (auto simp: release_by_pod)
  qed
  then have "em_inv (em\<lparr>em_ipam := snd (release n s')\<rparr>)"
    using core_inv_ipam [of "em_containers em" "em_pending em" ?s] assms(1) s'
    by (simp add: em_inv_def em_core_def ipam_inv_release release_prefix release_not_poisoned del: core_inv.simps)
  then have "em_holds n (Some k) em'" using assms(2) k(1) s' by (simp add: em_holds_def e name_free_def)
  with k(2) show ?thesis by blast
qed

lemma em_inv_allocate_failed:
  assumes "em_inv em" "em_allocate n em = (Inl e, em')"
  shows "em' = em"
proof -
  let ?s = "em_ipam em"
  have i: "ipam_inv ?s" "ip_prefix ?s = pod_cidr_prefix" "\<not> ip_poisoned ?s"
    using assms(1) by (auto simp: em_inv_def em_core_def)
  have "\<not> ip_poisoned (snd (allocate n ?s))" using allocate_not_poisoned [OF i(1), of _ n] i(2,3) pod_cidr_octets by auto
  then show ?thesis
    using assms(2) i(3) by (auto simp: em_allocate_def allocate_def call_result_def Let_def split: prod.splits call.splits option.splits)
qed

lemma bindR_InrE:
  assumes "bindR m k w = (Inr y, w'')"
  obtains x w' where "m w = (Inr x, w')" "k x w' = (Inr y, w'')"
  using assms by (auto simp: bindR_def split: prod.splits sum.splits)

lemma plug_ip: "plug_into_bridge flt n ip gw h = (Inr net, h') \<Longrightarrow> pn_pod_ip net = ip"
  unfolding plug_into_bridge_def Let_def by (elim bindR_InrE) (auto simp: returnR_def)

lemma setup_ip: "setup_pod_network flt n ip gw h = (Inr net, h') \<Longrightarrow> pn_pod_ip net = ip"
  unfolding setup_pod_network_def Let_def
  by (elim bindR_InrE) (auto simp: tryR_def returnR_def bindR_def failR_def dest: plug_ip split: prod.splits sum.splits)

lemma em_holds_pod_network:
  assumes "em_holds n (Some k) em" "pod_network_of lib n ip em = (res, em')"
  shows "\<exists>pod_net. res = Inr pod_net \<and> em_holds n (map_option (\<lambda>_. k) pod_net) em' \<and> (\<forall>net. pod_net = Some net \<longrightarrow> pn_pod_ip net = ip)"
proof -
  have "ip_gateway_octet (em_ipam em) = 1" "ip_prefix (em_ipam em) = pod_cidr_prefix"
    using assms(1) by (auto simp: em_holds_def ipam_inv_def)
  then have g: "gateway (em_ipam em) = Returned (10, 244, 0, Suc 0)"
    by (simp add: gateway_def octet_address_eq pod_cidr_octets)
  obtain res' em1 where m: "on_em_net (setup_pod_network (el_flt lib) n ip (10, 244, 0, Suc 0)) em = (res', em1)" by fastforce
  then have h: "em_holds n (Some k) em1"
    using em_holds_core [of em1 em] assms(1) keepsD [OF keeps_on_em_net] by metis
  show ?thesis
  proof (cases res')
    case (Inl e)
    then show ?thesis
      using assms(2) em_holds_release [OF h] by (auto simp: pod_network_of_def g tryR_def m bindR_def returnR_def)
  next
    case (Inr net)
    then have "pn_pod_ip net = ip" using m setup_ip by (auto simp: on_em_net_def split: prod.splits)
    then show ?thesis using assms(2) Inr h by (auto simp: pod_network_of_def g tryR_def m returnR_def)
  qed
qed


lemma em_inv_undone:
  assumes "em_holds n oct em"
  shows "em_inv (snd (bindR (undo_start lib n pod_net) (\<lambda>_. failR e) em))"
proof -
  have "\<not> ip_poisoned (em_ipam em)" using assms by (simp add: em_holds_def)
  from undo_start_core [OF this] show ?thesis
    using assms unfolding em_holds_def em_inv_def by (metis em_core_def embedded.select_convs(1-3) embedded.surjective embedded.update_convs(3))
qed

lemma em_inv_started:
  assumes "em_holds n oct em" "ee_name e = n" "octet_held (Some e) = oct"
    and "\<And>net. ee_pod_net e = Some net \<Longrightarrow> pn_pod_ip net = (10, 244, 0, last_octet net)"
  shows "em_inv (em\<lparr>em_containers := hm_insert (id_prefix @ n) e (em_containers em)\<rparr>)"
proof -
  let ?s = "snd (release n (em_ipam em))"
  have c: "core_inv (em_containers em, em_pending em, ?s)"
    using assms(1) by (simp only: em_holds_def em_inv_def em_core_def) simp
  have "core_inv (hm_insert (id_prefix @ n) e (em_containers em), em_pending em, em_ipam em)"
    using assms by (intro core_inv_add [OF c]) (auto simp: em_holds_def name_free_def release_by_pod)
  then show ?thesis by (simp only: em_inv_def em_core_def) simp
qed

lemma em_inv_create:
  assumes "em_inv em"
  shows "em_inv (snd (embedded_create lib uid now n c em))"
  unfolding embedded_create_def Let_def
proof (intro bindR_cases [where S = em_inv])
  fix e em1 assume "await_pending lib n em = (Inl e, em1)"
  then show "em_inv em1" using em_inv_await(1) [OF assms] by (metis snd_conv)
next
  fix u em1 e em2 assume "await_pending lib n em = (Inr u, em1)" "previous_instance lib (id_prefix @ n) em1 = (Inl e, em2)"
  then show "em_inv em2" using em_inv_await [OF assms] em_inv_previous by (metis snd_conv)
next
  fix u em1 r em2 e em3
  assume "await_pending lib n em = (Inr u, em1)" "previous_instance lib (id_prefix @ n) em1 = (Inr r, em2)"
    "on_em_fs (pull (el_images lib) (co_image c) image_root) em2 = (Inl e, em3)"
  then show "em_inv em3"
    using em_inv_await [OF assms] em_inv_previous keepsD [OF keeps_on_em_fs] unfolding em_inv_def by (metis snd_conv)
next
  fix u em1 r em2 pulled em3
  assume a: "await_pending lib n em = (Inr u, em1)" "previous_instance lib (id_prefix @ n) em1 = (Inr r, em2)"
    "on_em_fs (pull (el_images lib) (co_image c) image_root) em2 = (Inr pulled, em3)"
  then have "em_inv em2 \<and> name_free n em2" using em_inv_await [OF assms] em_inv_previous by (metis snd_conv)
  moreover have "em_core em3 = em_core em2" by (rule keepsD [OF keeps_on_em_fs a(3)])
  ultimately have i: "em_inv em3" "name_free n em3" by (auto simp: em_inv_def name_free_def em_core_def)
  show "em_inv em4" if "em_allocate n em3 = (Inl e, em4)" for e em4 using em_inv_allocate_failed [OF i(1) that] i(1) by simp
  fix ip em4 assume "em_allocate n em3 = (Inr ip, em4)"
  then obtain k where k: "ip = (10, 244, 0, k)" "em_holds n (Some k) em4" using em_holds_allocate [OF i] by blast
  show "em_inv em5" if "pod_network_of lib n ip em4 = (Inl e, em5)" for e em5 using em_holds_pod_network [OF k(2) that] by simp
  fix pod_net em5 assume "pod_network_of lib n ip em4 = (Inr pod_net, em5)"
  from em_holds_pod_network [OF k(2) this]
  have h: "em_holds n (map_option (\<lambda>_. k) pod_net) em5" "\<And>net. pod_net = Some net \<Longrightarrow> pn_pod_ip net = (10, 244, 0, k)"
    using k(1) by auto
  obtain res em6 where b: "build_and_start lib n c pulled (map_option pn_netns_path pod_net) em5 = (res, em6)" by fastforce
  have h6: "em_holds n (map_option (\<lambda>_. k) pod_net) em6"
    using em_holds_core [OF keepsD [OF keeps_build_and_start b]] h(1) by simp
  have o: "map_option last_octet pod_net = map_option (\<lambda>_. k) pod_net" using h(2) by (cases pod_net) (auto simp: last_octet_def)
  show "em_inv (snd (tryR (build_and_start lib n c pulled (map_option pn_netns_path pod_net)) (\<lambda>res. case res of
          Inl e \<Rightarrow> bindR (undo_start lib n pod_net) (\<lambda>_. failR e)
        | Inr (pid, clog) \<Rightarrow>
            (\<lambda>em. (Inr (id_prefix @ n), em\<lparr>em_containers := hm_insert (id_prefix @ n)
                 \<lparr>ee_name = n, ee_started_at = now, ee_image = co_image c, ee_pod_net = pod_net, ee_pid = pid,
                  ee_restart_count = r, ee_exit = None, ee_log = clog\<rparr> (em_containers em)\<rparr>))) em5))"
    using em_inv_undone [OF h6] h(2)
    by (auto simp: tryR_def b octet_held_def o last_octet_def intro!: em_inv_started [OF h6] split: sum.split option.split)
qed

lemma em_inv_step: "em_step L em em' \<Longrightarrow> em_inv em \<Longrightarrow> em_inv em'"
proof (induction rule: em_step.induct)
  case (em_create lib em uid now name c)
  from em_create.prems show ?case by (rule em_inv_create)
next
  case (em_remove em name)
  then show ?case
    using core_inv_move by (auto simp: embedded_remove_def Let_def em_inv_def em_core_def simp del: core_inv.simps split: option.split)
next
  case (em_finish lib em name)
  from em_finish.prems show ?case unfolding finish_teardown_def by (rule em_inv_await(1))
next
  case (em_exit em cid code)
  then show ?case
    using core_inv_exit by (auto simp: record_exit_def em_inv_def em_core_def simp del: core_inv.simps split: option.split)
qed

lemma em_inv_reachable: "(em_step L)\<^sup>*\<^sup>* em em' \<Longrightarrow> em_inv em \<Longrightarrow> em_inv em'"
  by (induction rule: rtranclp_induct) (auto intro: em_inv_step)

lemma em_inv_new: "embedded_new lib euid egid uid_map fs h = Inr em \<Longrightarrow> em_inv em"
proof -
  have "core_inv ([], [], ipam_new pod_cidr_prefix)"
    using ipam_inv_new by (simp add: owner_def octet_held_def hm_get_def) (simp add: ipam_new_def)
  then show "embedded_new lib euid egid uid_map fs h = Inr em \<Longrightarrow> em_inv em"
    by (auto simp: embedded_new_def Let_def em_inv_def em_core_def simp del: core_inv.simps foldR.simps split: prod.splits sum.splits call.splits)
qed

section \<open>Properties\<close>

lemma embedded_create_find:
  assumes "embedded_create lib uid now name c em = (Inr cid, em')"
  shows "\<exists>info. embedded_find lib name em' = Inr (Some info) \<and> cinf_id info = cid \<and> cinf_exit_code info = None"
  using assms unfolding embedded_create_def Let_def
  by (elim bindR_InrE) (auto simp: tryR_def failR_def embedded_find_def elim!: bindR_InrE split: prod.splits sum.splits)

interpretation embedded: container_runtime "embedded_ops lib parse_ts"
  using embedded_create_find by unfold_locales (fastforce simp: embedded_ops_def)

text \<open>The networks of the containers and of those being torn down, by name.\<close>

definition networks :: "embedded \<Rightarrow> string \<Rightarrow> pod_network option" where
  "networks em n = Option.bind (owner (em_containers em) (em_pending em) n) ee_pod_net"

lemma em_inv_addresses:
  assumes "em_inv em"
  shows "networks em n = Some net \<Longrightarrow> pn_pod_ip net = (10, 244, 0, last_octet net)"
    and "ip_by_pod (em_ipam em) n = map_option last_octet (networks em n)"
    and "ipam_inv (em_ipam em)" "\<not> ip_poisoned (em_ipam em)" "ip_prefix (em_ipam em) = pod_cidr_prefix"
proof -
  have i: "core_inv (em_containers em, em_pending em, em_ipam em)" using assms by (simp only: em_inv_def em_core_def)
  show "networks em n = Some net \<Longrightarrow> pn_pod_ip net = (10, 244, 0, last_octet net)"
    using core_inv_net [OF i, of n] by (cases "owner (em_containers em) (em_pending em) n") (auto simp: networks_def)
  show "ip_by_pod (em_ipam em) n = map_option last_octet (networks em n)"
    using i by (cases "owner (em_containers em) (em_pending em) n") (auto simp: networks_def octet_held_def)
  show "ipam_inv (em_ipam em)" "\<not> ip_poisoned (em_ipam em)" "ip_prefix (em_ipam em) = pod_cidr_prefix" using i by simp_all
qed

lemma em_allocate_exhausted:
  assumes "em_inv em" "em_allocate n em = (Inl e, em')" "2 \<le> k" "k \<le> 254"
  shows "\<exists>m net. networks em m = Some net \<and> pn_pod_ip net = (10, 244, 0, k)"
proof -
  note i = em_inv_addresses [OF assms(1)]
  let ?s = "em_ipam em"
  have "\<not> ip_poisoned (snd (allocate n ?s))" using allocate_not_poisoned [OF i(3), of _ n] i(4,5) pod_cidr_octets by auto
  then have "free_octet (ip_taken ?s) = None"
    using assms(2) i(4) by (auto simp: em_allocate_def allocate_def call_result_def Let_def split: prod.splits call.splits option.splits)
  then have "k \<in> ip_taken ?s" using assms(3,4) by (auto simp: free_octet_None)
  then obtain m where "ip_by_pod ?s m = Some k" using i(3) assms(3) by (auto simp: ipam_inv_def ran_def)
  then obtain net where "networks em m = Some net" "last_octet net = k" using i(2) [of m] by auto
  with i(1) show ?thesis by blast
qed

text \<open>
  C8. However containers are created, fail to start, exit, are removed and torn down, with whatever failures
  of the registry, the mounts, the network calls and libcontainer: two containers never have the same
  address, every address is a host address of the pod network other than the gateway's, an octet is taken
  exactly as long as a container with it exists or is being torn down (none leaks), and an
  allocation fails only when every one of the 253 addresses has such a container.
\<close>

theorem embedded_addresses:
  assumes "embedded_new lib0 euid egid uid_map fs h = Inr em0" "(em_step L)\<^sup>*\<^sup>* em0 em"
  shows "(\<forall>n m net net'. networks em n = Some net \<and> networks em m = Some net' \<and> n \<noteq> m \<longrightarrow> pn_pod_ip net \<noteq> pn_pod_ip net') \<and>
    (\<forall>n net. networks em n = Some net \<longrightarrow> (\<exists>k. 2 \<le> k \<and> k \<le> 254 \<and> pn_pod_ip net = (10, 244, 0, k))) \<and>
    (\<forall>k. k \<in> ip_taken (em_ipam em) \<longleftrightarrow> k = 1 \<or> (\<exists>n net. networks em n = Some net \<and> pn_pod_ip net = (10, 244, 0, k))) \<and>
    (\<forall>n e em'. em_allocate n em = (Inl e, em') \<longrightarrow>
       (\<forall>k. 2 \<le> k \<and> k \<le> 254 \<longrightarrow> (\<exists>m net. networks em m = Some net \<and> pn_pod_ip net = (10, 244, 0, k))))"
proof (intro conjI allI impI; (elim conjE)?)
  have inv: "em_inv em" by (rule em_inv_reachable [OF assms(2) em_inv_new [OF assms(1)]])
  note ip = em_inv_addresses(1) [OF inv] and b = em_inv_addresses(2) [OF inv]
  have s: "inj_on (ip_by_pod (em_ipam em)) (dom (ip_by_pod (em_ipam em)))" "ran (ip_by_pod (em_ipam em)) \<subseteq> {2 .. 254}"
    "ip_taken (em_ipam em) = insert 1 (ran (ip_by_pod (em_ipam em)))"
    using em_inv_addresses(3) [OF inv] by (auto simp: ipam_inv_def)
  show "pn_pod_ip net \<noteq> pn_pod_ip net'" if "networks em n = Some net" "networks em m = Some net'" "n \<noteq> m" for n m net net'
  proof
    assume "pn_pod_ip net = pn_pod_ip net'"
    then have "last_octet net = last_octet net'" by (simp add: last_octet_def)
    then have "ip_by_pod (em_ipam em) n = ip_by_pod (em_ipam em) m" using that b by simp
    then show False using s(1) that b by (auto simp: inj_on_def dom_def)
  qed
  show "\<exists>k. 2 \<le> k \<and> k \<le> 254 \<and> pn_pod_ip net = (10, 244, 0, k)" if "networks em n = Some net" for n net
    using ip [OF that] b [of n] s(2) that by (auto simp: ran_def)
  show "k \<in> ip_taken (em_ipam em) \<longleftrightarrow> k = 1 \<or> (\<exists>n net. networks em n = Some net \<and> pn_pod_ip net = (10, 244, 0, k))" for k
  proof -
    have "(\<exists>n. ip_by_pod (em_ipam em) n = Some k) \<longleftrightarrow> (\<exists>n net. networks em n = Some net \<and> last_octet net = k)" by (simp add: b)
    moreover have "last_octet net = k \<longleftrightarrow> pn_pod_ip net = (10, 244, 0, k)" if "networks em n = Some net" for n net
      using ip [OF that] by simp
    ultimately show ?thesis using s(3) by (auto simp: ran_def)
  qed
  show "\<exists>m net. networks em m = Some net \<and> pn_pod_ip net = (10, 244, 0, k)"
    if "em_allocate n em = (Inl e, em')" "2 \<le> k" "k \<le> 254" for n e em' k
    by (rule em_allocate_exhausted [OF inv that])
qed

text \<open>A container is created and removed, and another one is created while it is being torn down.\<close>

definition sample_em_lib :: "(string \<times> string) em_lib" where
  "sample_em_lib = \<lparr>el_images = sample_lib, el_encode = (\<lambda>_. ''{}''), el_load = (\<lambda>_ _. Inl ''no file''), el_flt = no_net_faults,
     el_mount = (\<lambda>_. None), el_copy = (\<lambda>_ _ fs. (Inr (), fs)), el_start = (\<lambda>_ _. Inr 42), el_alive = (\<lambda>_. True),
     el_tenant = (\<lambda>_ _ _ _. Inl ''none'')\<rparr>"

definition sample_host_net :: host_net where
  "sample_host_net = \<lparr>hn_bridge = None, hn_netns = [], hn_links = [], hn_ifs = [], hn_rules = []\<rparr>"

definition sample_em :: embedded where
  "sample_em = (case embedded_new sample_em_lib 0 0 None [] sample_host_net of Inr em \<Rightarrow> em)"

definition sample_em_run :: embedded where
  "sample_em_run = snd (embedded_create sample_em_lib 0 0 ''db-c'' sample_container (snd (embedded_remove ''web-c''
     (snd (embedded_create sample_em_lib 0 0 ''web-c'' sample_container sample_em)))))"

definition both_held :: "embedded \<Rightarrow> bool" where
  "both_held em \<longleftrightarrow> networks em ''web-c'' \<noteq> None \<and> networks em ''db-c'' \<noteq> None \<and>
     hm_get (em_containers em) ''embedded://web-c'' = None"

lemma sample_em_new: "embedded_new sample_em_lib 0 0 None [] sample_host_net = Inr sample_em"
proof -
  have "case embedded_new sample_em_lib 0 0 None [] sample_host_net of Inl _ \<Rightarrow> False | Inr _ \<Rightarrow> True" by code_simp
  then show ?thesis by (auto simp: sample_em_def split: sum.splits)
qed

lemma sample_em_steps: "(em_step {sample_em_lib})\<^sup>*\<^sup>* sample_em sample_em_run"
proof -
  let ?a = "snd (embedded_create sample_em_lib 0 0 ''web-c'' sample_container sample_em)"
  have a: "em_step {sample_em_lib} sample_em ?a" and b: "em_step {sample_em_lib} (snd (embedded_remove ''web-c'' ?a)) sample_em_run"
    unfolding sample_em_run_def by (rule em_create, simp)+
  have "em_step {sample_em_lib} ?a (snd (embedded_remove ''web-c'' ?a))" by (rule em_remove)
  from a converse_rtranclp_into_rtranclp [where r = "em_step {sample_em_lib}", OF this r_into_rtranclp [where r = "em_step {sample_em_lib}", OF b]]
  show ?thesis by (rule converse_rtranclp_into_rtranclp [where r = "em_step {sample_em_lib}"])
qed

theorem embedded_addresses_witness:
  "\<exists>a b. networks sample_em_run ''web-c'' = Some a \<and> networks sample_em_run ''db-c'' = Some b \<and> pn_pod_ip a \<noteq> pn_pod_ip b \<and>
     hm_get (em_containers sample_em_run) ''embedded://web-c'' = None"
proof -
  have "both_held sample_em_run" by code_simp
  then obtain a b where "networks sample_em_run ''web-c'' = Some a" "networks sample_em_run ''db-c'' = Some b"
    "hm_get (em_containers sample_em_run) ''embedded://web-c'' = None" by (auto simp: both_held_def)
  moreover from this have "pn_pod_ip a \<noteq> pn_pod_ip b"
    using embedded_addresses [OF sample_em_new sample_em_steps, THEN conjunct1, rule_format, of "''web-c''" a "''db-c''" b] by simp
  ultimately show ?thesis by blast
qed

section \<open>Stopping and waiting\<close>

lemma wait_looks_bounds: "i \<le> wait_looks k exited i \<and> wait_looks k exited i \<le> i + k"
  by (induction k arbitrary: i) (auto, metis Suc_leD, metis add_Suc)

lemma wait_looks_before: "i \<le> j \<Longrightarrow> j < wait_looks k exited i \<Longrightarrow> \<not> exited j"
proof (induction k arbitrary: i)
  case (Suc k)
  then show ?case using Suc.IH [of "Suc i"] by (cases "j = i") (auto split: if_splits)
qed simp

lemma wait_looks_exited: "wait_looks k exited i < i + k \<Longrightarrow> exited (wait_looks k exited i)"
  by (induction k arbitrary: i) auto

text \<open>
  Stopping a container: a process that has exited gets no signal; SIGTERM is sent first, SIGKILL only
  to a process that has not exited at any of the first 101 looks; the wait ends at the first
  look at which the exit is recorded, and in any case after 150 looks.
\<close>

theorem stop_init_bounds:
  "(fst (stop_init exited) = [] \<longleftrightarrow> exited 0) \<and>
   (SigKill \<in> set (fst (stop_init exited)) \<longleftrightarrow> \<not> (\<exists>i \<le> 100. exited i)) \<and>
   (\<forall>i < snd (stop_init exited). \<not> exited i) \<and>
   (snd (stop_init exited) = 150 \<or> exited (snd (stop_init exited))) \<and> snd (stop_init exited) \<le> 150"
proof (cases "exited 0")
  case True
  then show ?thesis by (auto simp: stop_init_def)
next
  case False
  let ?i = "wait_looks 100 exited 0"
  let ?j = "wait_looks 50 exited ?i"
  have i: "?i \<le> 100" "\<And>j. j < ?i \<Longrightarrow> \<not> exited j" "?i < 100 \<Longrightarrow> exited ?i"
    using wait_looks_bounds [of 0 100 exited] wait_looks_before [of 0 _ 100 exited] wait_looks_exited [of 100 exited 0] by auto
  show ?thesis
  proof (cases "exited ?i")
    case True
    then show ?thesis using False i by (auto simp: stop_init_def Let_def)
  next
    case no: False
    then have e: "?i = 100" using i by force
    have "?j \<le> 150" "100 \<le> ?j" "\<And>j. 100 \<le> j \<Longrightarrow> j < ?j \<Longrightarrow> \<not> exited j" "?j < 150 \<Longrightarrow> exited ?j"
      using wait_looks_bounds [of 100 50 exited] wait_looks_before [of 100 _ 50 exited] wait_looks_exited [of 50 exited 100] e by auto
    moreover have "\<not> exited j" if "j \<le> 100" for j using i(2) [of j] e no that by (cases "j = 100") auto
    ultimately show ?thesis
      using False no unfolding stop_init_def Let_def by (auto simp: not_less) (metis linorder_not_less nle_le)+
  qed
qed

text \<open>
  The allocator is the engine's own and its prefix a constant, whatever pod CIDR the agent was given: the first
  container of every node gets the same address, so pods of different nodes share theirs.
\<close>

lemma embedded_new_ipam: "embedded_new lib euid egid uid_map fs h = Inr em \<Longrightarrow> em_ipam em = ipam_new pod_cidr_prefix"
  by (auto simp: embedded_new_def Let_def simp del: foldR.simps split: prod.splits sum.splits call.splits)

theorem nodes_share_addresses:
  assumes "embedded_new lib euid egid uid_map fs h = Inr em"
  shows "fst (em_allocate name em) = Inr (10, 244, 0, 2)"
proof -
  have addr: "octet_address s 2 = Some (10, 244, 0, 2)" if "ip_prefix s = pod_cidr_prefix" for s
    using octet_address_eq [of 2 s] that pod_cidr_octets by simp
  have "free_octet {1} = Some 2" by (simp add: free_octet_def upt_conv_Cons)
  then have "fst (allocate name (ipam_new pod_cidr_prefix)) = Returned (10, 244, 0, 2)"
    using addr by (simp add: allocate_def ipam_new_def Let_def)
  then show ?thesis
    using embedded_new_ipam [OF assms] by (auto simp: em_allocate_def call_result_def split: prod.split)
qed

theorem nodes_share_addresses_witness:
  "fst (em_allocate ''web-c'' sample_em) = Inr (10, 244, 0, 2)"
  using nodes_share_addresses [OF sample_em_new] .

end
