(* ===== verification/Embedded_Agent.thy ===== *)
theory Embedded_Agent
  imports Embedded_Props Agent_Props
begin

text \<open>
  The node agent on the embedded engine: a container that is created is the one the agent observes, and what
  becomes of one that has ended.
\<close>

text \<open>A container that an engine of the node was asked for is found by the agent under its name.\<close>

lemmas embedded_created_found = embedded.created_found

text \<open>
  The agent never starts a container again. Once the exit of a container of the embedded engine has been
  recorded, a pass over its pod, whatever the restart policy of the pod, leaves the engine as it is and
  reports the container as terminated with its exit code, so the pod is not running from then on; the
  restart path of the engine, which would count the restarts, is not reached.
\<close>

theorem exited_container_not_restarted:
  assumes "eng_list (ag_runtime (nw_agent s)) = (''embedded'', em) # peers"
    and "hm_get (em_containers em) (id_prefix @ runtime_name (meta_name (pod_metadata pod)) (co_name c)) = Some en" "ee_exit en = Some code"
  shows "\<exists>po' s'. reconcile_container e net (embedded_ops lib parse_ts) pod uid c po s = (Inr po', s') \<and>
    ag_runtime (nw_agent s') = ag_runtime (nw_agent s) \<and> nw_world s' = nw_world s \<and> \<not> po_all_running po' \<and>
    (\<exists>st ts. po_statuses po' = po_statuses po @ [st] \<and> cs_state st = Some \<lparr>cst_waiting = None, cst_running = None, cst_terminated = Some ts\<rparr> \<and>
       csx_exit_code ts = code)"
proof -
  let ?rt = "embedded_ops lib parse_ts" and ?n = "runtime_name (meta_name (pod_metadata pod)) (co_name c)"
  obtain info where "embedded_find lib ?n em = Inr (Some info)" and i: "\<not> cinf_running info" "cinf_exit_code info = Some code"
    using assms(2,3) by (simp add: embedded_find_def)
  then have "engines_find ?rt ?n (ag_runtime (nw_agent s)) = Inr (Some info)"
    by (simp add: engines_find_def assms(1) embedded_ops_def)
  then have "\<exists>s'. reconcile_container e net ?rt pod uid c po s = (Inr (observe_container False c info po), s') \<and>
      ag_runtime (nw_agent s') = ag_runtime (nw_agent s) \<and> nw_world s' = nw_world s"
    by (simp add: reconcile_container_def Let_def agent_find_def bindR_def modify_agent_def returnR_def index_container_def)
  then show ?thesis
    using i by (fastforce simp: observe_container_def observed_container_status_def container_state_of_def)
qed

definition sample_em_agent :: "embedded agent" where
  "sample_em_agent = \<lparr>ag_name = ''n1'', ag_labels = [], ag_server_url = ''http://localhost:6443'',
     ag_runtime = \<lparr>eng_default = ''embedded'', eng_list = [(''embedded'', sample_em\<lparr>em_containers := [(''embedded://web-c'',
       \<lparr>ee_name = ''web-c'', ee_started_at = 0, ee_image = ''nginx'', ee_pod_net = None, ee_pid = 42, ee_restart_count = 0,
        ee_exit = Some 0, ee_log = log_create\<rparr>)]\<rparr>)]\<rparr>, ag_pod_cidr_prefix = ''10.244.0'',
     ag_containers = [], ag_pod_containers = [], ag_pod_ports = [], ag_pod_ips = []\<rparr>"

theorem exited_container_not_restarted_witness:
  "\<exists>po' s'. reconcile_container sample_env quiet_network (embedded_ops sample_em_lib (\<lambda>_. None)) node_pod 7 sample_container no_observation
       \<lparr>nw_world = empty_world, nw_agent = sample_em_agent, nw_sent = 0\<rparr> = (Inr po', s') \<and>
     ag_runtime (nw_agent s') = ag_runtime sample_em_agent \<and> \<not> po_all_running po'"
proof -
  have "runtime_name (meta_name (pod_metadata node_pod)) (co_name sample_container) = ''web-c''"
    by (simp add: runtime_name_def node_pod_def meta_name_def sample_container_def)
  then show ?thesis
    using exited_container_not_restarted [of "\<lparr>nw_world = empty_world, nw_agent = sample_em_agent, nw_sent = 0\<rparr>" _ "[]"
        node_pod sample_container _ 0 sample_env quiet_network sample_em_lib "\<lambda>_. None" 7 no_observation]
    by (fastforce simp: sample_em_agent_def id_prefix_def hm_get_def)
qed

end
