(* ===== verification/Embedded_Log_Props.thy ===== *)
theory Embedded_Log_Props
  imports Embedded_Log
begin

text \<open>
  What the logs of the embedded engine guarantee: the stored lines are those of the output however it
  is read, rendering gives back what was appended, a follower that keeps up sees every line once, and a
  limit never cuts a character; and what breaks them: one byte that is not UTF-8.
\<close>

section \<open>Lines\<close>

text \<open>The lines of an output: a last line without a newline counts if it is not empty.\<close>

definition output_lines :: "string \<Rightarrow> string list" where
  "output_lines s = (let ps = split_on (CHR 0x0A) s in butlast ps @ (if last ps = [] then [] else [last ps]))"

lemma newline_position_None: "newline_position s = None \<longleftrightarrow> CHR 0x0A \<notin> set s"
  by (induction s) auto

lemma newline_position_Some:
  "newline_position s = Some n \<Longrightarrow> s = take n s @ CHR 0x0A # drop (Suc n) s \<and> CHR 0x0A \<notin> set (take n s) \<and> n < length s"
  by (induction s arbitrary: n) (auto split: if_splits)

lemma drain_lines_split: "drain_lines s = (butlast (split_on (CHR 0x0A) s), last (split_on (CHR 0x0A) s))"
proof (induction s rule: drain_lines.induct)
  case (1 s)
  show ?case
  proof (cases "newline_position s")
    case None
    then have "CHR 0x0A \<notin> set s" by (simp add: newline_position_None)
    then show ?thesis using None by (simp add: drain_lines.simps [of s] split_on_notin)
  next
    case (Some n)
    note n = newline_position_Some [OF Some]
    have s: "split_on (CHR 0x0A) s = take n s # split_on (CHR 0x0A) (drop (Suc n) s)"
      using n split_on_append by metis
    have "take (length (take (Suc n) s) - 1) (take (Suc n) s) = take n s" using n by simp
    then show ?thesis using "1.IH" [OF Some refl] s Some by (simp add: drain_lines.simps [of s] Let_def)
  qed
qed

lemma last_split_on_notin: "c \<notin> set (last (split_on c s))"
proof (induction s)
  case (Cons x xs)
  obtain y ys where "split_on c xs = y # ys" by (cases "split_on c xs") auto
  then show ?case using Cons by (auto split: if_splits)
qed simp

lemma split_on_append_last: "split_on c (s @ t) = butlast (split_on c s) @ split_on c (last (split_on c s) @ t)"
proof (induction s)
  case (Cons x xs)
  obtain y ys where y: "split_on c xs = y # ys" by (cases "split_on c xs") auto
  show ?case
  proof (cases "x = c")
    case False
    show ?thesis
    proof (cases ys)
      case Nil
      then show ?thesis using False Cons y by simp
    next
      case (Cons z zs)
      then show ?thesis using False Cons.IH y by simp
    qed
  qed (use Cons y in simp)
qed simp

lemma pump_texts_lines:
  assumes "CHR 0x0A \<notin> set partial" "\<forall>b\<in>set bs. b \<noteq> []"
  shows "pump_texts partial (map Inr bs) = output_lines (partial @ concat bs)"
  using assms
proof (induction bs arbitrary: partial)
  case Nil
  then show ?case by (simp add: output_lines_def split_on_notin)
next
  case (Cons b bs)
  let ?l = "last (split_on (CHR 0x0A) (partial @ b))"
  have "pump_texts ?l (map Inr bs) = output_lines (?l @ concat bs)"
    using Cons.IH [OF last_split_on_notin] Cons.prems(2) by simp
  then show ?case
    using Cons.prems(2) split_on_append_last [of "CHR 0x0A" "partial @ b" "concat bs"]
    by (simp add: drain_lines_split output_lines_def Let_def butlast_append)
qed

text \<open>
  The stored lines do not depend on how the output is read. However the operating system
  cuts the output of a container into reads, in the middle of a line or of a character too, the pump appends
  exactly the lines of the whole output, in order, and a last line without a newline at its end.
\<close>

theorem pump_lines_exact:
  assumes "\<forall>b\<in>set reads. b \<noteq> []"
  shows "pump_texts [] (map Inr reads) = output_lines (concat reads)"
  using pump_texts_lines [of "[]" reads] assms by simp

theorem pump_lines_exact_witness:
  "pump_texts [] (map Inr [''a'', ''b'' @ [CHR 0x0A] @ ''c'']) = output_lines (''ab'' @ [CHR 0x0A] @ ''c'') \<and>
   output_lines (''ab'' @ [CHR 0x0A] @ ''c'') = [''ab'', ''c'']"
  using pump_lines_exact [of "[''a'', ''b'' @ [CHR 0x0A] @ ''c'']"] by (simp add: output_lines_def)

section \<open>Stored lines\<close>

text \<open>A line as the pumps append it; a carriage return at its end would be taken for a line end.\<close>

definition line_ok :: "string \<times> string \<times> string \<Rightarrow> bool" where
  "line_ok l = (case l of (ts, stream, msg) \<Rightarrow>
     CHR '' '' \<notin> set ts \<and> CHR 0x0A \<notin> set ts \<and> CHR '' '' \<notin> set stream \<and> CHR 0x0A \<notin> set stream \<and>
     CHR 0x0A \<notin> set msg \<and> (msg = [] \<or> last msg \<noteq> CHR 0x0D) \<and> utf8_valid ts \<and> utf8_valid stream \<and> utf8_valid msg)"

definition line_of :: "string \<times> string \<times> string \<Rightarrow> string" where
  "line_of l = (case l of (ts, stream, msg) \<Rightarrow> stored_line ts stream msg)"

definition shown :: "string \<times> string \<times> string \<Rightarrow> string \<times> string" where
  "shown l = (case l of (ts, stream, msg) \<Rightarrow> (ts, msg))"

lemma split_stored:
  assumes "line_ok (ts, stream, msg)"
  shows "split_stored_line (ts @ '' '' @ stream @ '' '' @ msg) = Some (ts, msg)"
  using assms str_split_once_append [of "CHR '' ''" ts "stream @ '' '' @ msg"] str_split_once_append [of "CHR '' ''" stream msg]
  by (simp add: split_stored_line_def line_ok_def)

lemma line_of_body:
  assumes "line_ok l"
  obtains body where "line_of l = body @ [CHR 0x0A]" "CHR 0x0A \<notin> set body" "strip_cr body = body"
    "split_stored_line body = Some (shown l)" "utf8_valid (line_of l)" "body \<noteq> []" "last body \<noteq> CHR 0x0A"
proof -
  obtain ts stream msg where l: "l = (ts, stream, msg)" by (cases l) auto
  let ?body = "ts @ '' '' @ stream @ '' '' @ msg"
  have "strip_cr ?body = ?body" using assms by (intro strip_cr_id) (auto simp: l line_ok_def)
  moreover have nl: "CHR 0x0A \<notin> set ?body" using assms by (auto simp: l line_ok_def)
  moreover have sp: "utf8_valid '' ''" "utf8_valid [CHR 0x0A]" by code_simp+
  have "utf8_valid (line_of l)" using assms sp utf8_valid_append [OF sp(1)]
    by (auto simp: l line_of_def stored_line_def line_ok_def utf8_valid_append)
  moreover have "last ?body \<noteq> CHR 0x0A" using nl last_in_set [of ?body] by (metis append_is_Nil_conv list.distinct(1))
  ultimately show ?thesis using that [of ?body] split_stored [of ts stream msg] assms
    by (simp add: l line_of_def stored_line_def shown_def)
qed

lemma lines_stored:
  assumes "list_all line_ok ls"
  shows "List.map_filter split_stored_line (lines (concat (map line_of ls))) = map shown ls"
  using assms
proof (induction ls)
  case (Cons l ls)
  then obtain body where b: "line_of l = body @ [CHR 0x0A]" "CHR 0x0A \<notin> set body" "strip_cr body = body"
    "split_stored_line body = Some (shown l)" using line_of_body [of l] by (metis list.pred_inject(2))
  then show ?case using Cons lines_line [OF b(2)] by (simp add: List.map_filter_simps)
qed (simp add: lines_Nil List.map_filter_simps)

lemma utf8_valid_stored: "list_all line_ok ls \<Longrightarrow> utf8_valid (concat (map line_of ls))"
proof (induction ls)
  case (Cons l ls)
  have "utf8_valid (line_of l)" using Cons.prems line_of_body [of l] by (metis list.pred_inject(2))
  then show ?case using Cons by (simp add: utf8_valid_append)
qed simp

lemma render_live_stored:
  assumes "line_ok l"
  shows "render_live_line timestamps (line_of l) = Some (push_rendered timestamps (shown l))"
proof -
  obtain body where b: "line_of l = body @ [CHR 0x0A]" "CHR 0x0A \<notin> set body"
    "split_stored_line body = Some (shown l)" "utf8_valid (line_of l)" "body \<noteq> []" "last body \<noteq> CHR 0x0A"
    using assms by (rule line_of_body)
  have "trim_newlines (line_of l) = body"
    using b(1,5,6) by (cases body rule: rev_cases) (simp_all add: trim_newlines_def)
  then show ?thesis using b(3,4) by (simp add: render_live_line_def from_utf8_def)
qed

lemma log_render_stored:
  assumes "list_all line_ok ls" "cl_file log = concat (map line_of ls)"
    and "lo_since_time options = None" "lo_tail_lines options = None" "lo_limit_bytes options = None"
  shows "log_render parse_ts options log = concat (map (push_rendered (lo_timestamps options) \<circ> shown) ls)"
  using utf8_valid_stored [OF assms(1)] lines_stored [OF assms(1)] assms(2-)
  by (simp add: log_render_def log_text_def from_utf8_def render_log_def Let_def since_ok_def keep_tail_def cut_log_def
      case_prod_unfold)

section \<open>Followers\<close>

text \<open>
  The state of a follower relative to the log it started on: it has passed on every line
  up to its position, and when it is done it is at the end of a closed log, unless it lost lines.
\<close>

definition follow_inv :: "container_log \<Rightarrow> string list \<Rightarrow> bool \<Rightarrow> container_log \<times> follower \<Rightarrow> bool" where
  "follow_inv log0 out0 timestamps s = (case s of (log, fo) \<Rightarrow>
     fo_timestamps fo = timestamps \<and>
     (\<exists>rest. cl_live log = cl_live log0 @ rest \<and> cl_file log = cl_file log0 @ concat rest \<and>
       (\<not> fo_lost fo \<longrightarrow>
         length (cl_live log0) \<le> fo_next fo \<and> fo_next fo \<le> length (cl_live log) \<and>
         fo_out fo = out0 @ List.map_filter (render_live_line timestamps) (take (fo_next fo - length (cl_live log0)) rest) \<and>
         (fo_done fo \<longrightarrow> cl_closed log \<and> fo_next fo = length (cl_live log)))))"

lemma map_filter_append: "List.map_filter f (xs @ ys) = List.map_filter f xs @ List.map_filter f ys"
  by (simp add: List.map_filter_def)

lemma recv_line_done [simp]: "fo_done (recv_line log fo) = fo_done fo" "fo_timestamps (recv_line log fo) = fo_timestamps fo"
  by (auto simp: recv_line_def send_out_def split: option.split)

lemma recv_line_inv:
  assumes "follow_inv log0 out0 timestamps (log, fo)" "\<not> fo_done fo"
  shows "follow_inv log0 out0 timestamps (log, recv_line log fo)"
proof -
  from assms(1) obtain rest where r: "fo_timestamps fo = timestamps" "cl_live log = cl_live log0 @ rest"
    "cl_file log = cl_file log0 @ concat rest"
    and n: "\<not> fo_lost fo \<longrightarrow> length (cl_live log0) \<le> fo_next fo \<and> fo_next fo \<le> length (cl_live log) \<and>
       fo_out fo = out0 @ List.map_filter (render_live_line timestamps) (take (fo_next fo - length (cl_live log0)) rest)"
    by (auto simp: follow_inv_def)
  let ?n0 = "length (cl_live log0)"
  have step: "follow_inv log0 out0 timestamps (log, recv_line log fo)"
    if nl: "\<not> fo_lost fo" and lt: "fo_next fo < length (cl_live log)" "length (cl_live log) - fo_next fo \<le> log_fanout_capacity"
  proof -
    have b: "?n0 \<le> fo_next fo" "fo_next fo - ?n0 < length rest" using n nl lt(1) r(2) by auto
    then have "cl_live log ! fo_next fo = rest ! (fo_next fo - ?n0)" using r(2) by (simp add: nth_append)
    moreover have "Suc (fo_next fo) - ?n0 = Suc (fo_next fo - ?n0)" using b by simp
    ultimately show ?thesis using n nl lt r b assms(2)
      by (auto simp: follow_inv_def recv_line_def send_out_def take_Suc_conv_app_nth map_filter_append List.map_filter_simps
          split: option.split)
  qed
  show ?thesis
  proof (cases "fo_lost fo \<or> length (cl_live log) \<le> fo_next fo \<or> length (cl_live log) - fo_next fo > log_fanout_capacity")
    case True
    then show ?thesis using assms r
      by (auto simp: follow_inv_def recv_line_def send_out_def split: option.split)
  qed (use step in auto)
qed

lemma recv_line_next:
  assumes "fo_next fo < length (cl_live log)" "length (cl_live log) - fo_next fo \<le> log_fanout_capacity"
  shows "fo_next (recv_line log fo) = Suc (fo_next fo)" "fo_lost (recv_line log fo) = fo_lost fo"
  using assms by (auto simp: recv_line_def send_out_def split: option.split)

lemma drain_live_inv:
  assumes "follow_inv log0 out0 timestamps (log, fo)" "\<not> fo_done fo" "length (cl_live log) - fo_next fo \<le> k"
  shows "follow_inv log0 out0 timestamps (log, drain_live k log fo) \<and>
    (fo_lost (drain_live k log fo) \<or> length (cl_live log) \<le> fo_next (drain_live k log fo))"
  using assms
proof (induction k arbitrary: fo)
  case (Suc k)
  show ?case
  proof (cases "length (cl_live log) \<le> fo_next fo \<or> length (cl_live log) - fo_next fo > log_fanout_capacity")
    case True
    then show ?thesis using Suc.prems by (auto simp: follow_inv_def)
  next
    case False
    then show ?thesis using Suc.IH [of "recv_line log fo"] recv_line_inv [OF Suc.prems(1,2)] recv_line_next [of fo log] Suc.prems
      by simp
  qed
qed simp

lemma follow_step_inv:
  assumes "follow_step s s'" "follow_inv log0 out0 timestamps s"
  shows "follow_inv log0 out0 timestamps s'"
  using assms(1)
proof cases
  case (fs_append log fo ts stream msg)
  obtain rest where "cl_live log = cl_live log0 @ rest" "cl_file log = cl_file log0 @ concat rest"
    using assms(2) fs_append(1) by (auto simp: follow_inv_def)
  then show ?thesis using assms(2) fs_append
    by (auto simp: follow_inv_def log_append_def Let_def intro!: exI [of _ "rest @ [stored_line ts stream msg]"])
next
  case (fs_end log fo)
  then show ?thesis using assms(2) by (auto simp: follow_inv_def pump_end_def)
next
  case (fs_recv fo log)
  then show ?thesis using assms(2) recv_line_inv by simp
next
  case (fs_finish fo log)
  then show ?thesis using assms(2) drain_live_inv [of log0 out0 timestamps log fo "length (cl_live log) - fo_next fo"]
    by (auto simp: follow_inv_def finish_follow_def)
qed

lemma follow_reachable_inv:
  assumes "follow_step\<^sup>*\<^sup>* (log0, follow_log parse_ts options log0) s"
  shows "follow_inv log0 (fo_out (follow_log parse_ts options log0)) (lo_timestamps options) s"
  using assms
proof (induction rule: rtranclp_induct)
  case base
  then show ?case by (simp add: follow_inv_def follow_log_def Let_def List.map_filter_simps)
qed (rule follow_step_inv)

lemma map_filter_live:
  "list_all line_ok ls \<Longrightarrow>
   List.map_filter (render_live_line timestamps) (map line_of ls) = map (push_rendered timestamps \<circ> shown) ls"
  by (induction ls) (auto simp: List.map_filter_simps render_live_stored)


definition plain_options :: log_options where
  "plain_options = \<lparr>lo_tail_lines = None, lo_timestamps = False, lo_since_time = None, lo_limit_bytes = None\<rparr>"

definition sample_log :: container_log where
  "sample_log = log_append ''t0'' ''stdout'' ''early'' (pump_start log_create)"

definition sample_log_end :: container_log where
  "sample_log_end = pump_end (log_append ''t2'' ''stderr'' ''b'' (log_append ''t1'' ''stdout'' ''a'' sample_log))"

definition sample_follower :: follower where
  "sample_follower = finish_follow sample_log_end (recv_line (log_append ''t1'' ''stdout'' ''a'' sample_log)
     (follow_log (\<lambda>_. None) plain_options sample_log))"

lemma sample_follow_reachable:
  "follow_step\<^sup>*\<^sup>* (sample_log, follow_log (\<lambda>_. None) plain_options sample_log) (sample_log_end, sample_follower)"
proof -
  let ?fo = "follow_log (\<lambda>_. None) plain_options sample_log" and ?l1 = "log_append ''t1'' ''stdout'' ''a'' sample_log"
  let ?l2 = "log_append ''t2'' ''stderr'' ''b'' ?l1" and ?f1 = "recv_line (log_append ''t1'' ''stdout'' ''a'' sample_log) ?fo"
  have c: "\<not> cl_closed sample_log" "\<not> cl_closed ?l1" "\<not> fo_done ?fo" "\<not> fo_done ?f1" "cl_closed sample_log_end" by code_simp+
  have s1: "follow_step (sample_log, ?fo) (?l1, ?fo)" by (rule fs_append [OF c(1)])
  have s2: "follow_step (?l1, ?fo) (?l1, ?f1)" by (rule fs_recv [OF c(3)])
  have s3: "follow_step (?l1, ?f1) (?l2, ?f1)" by (rule fs_append [OF c(2)])
  have s4: "follow_step (?l2, ?f1) (sample_log_end, ?f1)" unfolding sample_log_end_def by (rule fs_end)
  have s5: "follow_step (sample_log_end, ?f1) (sample_log_end, sample_follower)"
    unfolding sample_follower_def by (rule fs_finish [OF c(4,5)])
  show ?thesis
    by (rule converse_rtranclp_into_rtranclp, rule s1, rule converse_rtranclp_into_rtranclp, rule s2,
        rule converse_rtranclp_into_rtranclp, rule s3, rule converse_rtranclp_into_rtranclp, rule s4,
        rule r_into_rtranclp, rule s5)
qed


text \<open>
  The same line is not always shown the same way: a carriage return at its end is dropped when it comes
  from the file and kept when it is followed live.
\<close>

theorem carriage_return_differs:
  assumes "line_ok (ts, stream, msg)"
  shows "log_render parse_ts plain_options (log_append ts stream (msg @ [CHR 0x0D]) log_create) = msg @ [CHR 0x0A] \<and>
    render_live_line False (stored_line ts stream (msg @ [CHR 0x0D])) = Some (msg @ [CHR 0x0D, CHR 0x0A])"
proof -
  let ?body = "ts @ '' '' @ stream @ '' '' @ msg"
  have n: "CHR 0x0A \<notin> set (?body @ [CHR 0x0D])" using assms by (auto simp: line_ok_def)
  have v: "utf8_valid ((?body @ [CHR 0x0D]) @ [CHR 0x0A])"
    using assms by (simp add: line_ok_def utf8_valid_append utf8_valid_ascii del: utf8_valid.simps(2))
  have s: "split_stored_line (ts @ '' '' @ stream @ '' '' @ (msg @ [CHR 0x0D])) = Some (ts, msg @ [CHR 0x0D])"
    using assms str_split_once_append [of "CHR '' ''" ts "stream @ '' '' @ msg @ [CHR 0x0D]"]
      str_split_once_append [of "CHR '' ''" stream "msg @ [CHR 0x0D]"] by (simp add: split_stored_line_def line_ok_def)
  have "lines ((?body @ [CHR 0x0D]) @ [CHR 0x0A]) = [?body]"
    using lines_line [OF n, of "[]"] strip_cr_snoc [of ?body] by (simp add: lines_Nil)
  then have "log_render parse_ts plain_options (log_append ts stream (msg @ [CHR 0x0D]) log_create) = msg @ [CHR 0x0A]"
    using v split_stored [OF assms]
    by (simp add: log_render_def log_text_def log_append_def log_create_def stored_line_def from_utf8_def render_log_def
        plain_options_def List.map_filter_simps since_ok_def keep_tail_def cut_log_def push_rendered_def Let_def)
  moreover have "trim_newlines (stored_line ts stream (msg @ [CHR 0x0D])) = ts @ '' '' @ stream @ '' '' @ (msg @ [CHR 0x0D])"
    by (simp add: trim_newlines_def stored_line_def)
  ultimately show ?thesis using v s
    by (simp add: render_live_line_def from_utf8_def push_rendered_def stored_line_def)
qed

section \<open>Limits\<close>

lemma floor_boundary_spec:
  "is_char_boundary out (floor_boundary out i) \<and> floor_boundary out i \<le> i \<and>
   (\<forall>k\<le>i. is_char_boundary out k \<longrightarrow> k \<le> floor_boundary out i)"
proof (induction out i rule: floor_boundary.induct)
  case (1 out i)
  show ?case
  proof (cases "is_char_boundary out i")
    case False
    then have "i \<noteq> 0" by (simp add: is_char_boundary_def)
    then have "k \<le> i - 1" if "k \<le> i" "is_char_boundary out k" for k using that False by (cases "k = i") auto
    then show ?thesis using False 1 [OF False]
      by (auto simp: floor_boundary.simps [of out i] intro: order.trans [OF _ diff_le_self])
  qed (simp add: floor_boundary.simps [of out i])
qed

lemma utf8_valid_concat: "\<forall>x\<in>set xs. utf8_valid x \<Longrightarrow> utf8_valid (concat xs)"
  by (induction xs) (auto simp: utf8_valid_append)

lemma split_stored_valid:
  assumes "utf8_valid line" "split_stored_line line = Some (ts, msg)"
  shows "utf8_valid (push_rendered timestamps (ts, msg))"
proof -
  from assms(2) obtain rest where k: "line = ts @ CHR '' '' # rest"
    and m: "msg = (case str_split_once (CHR '' '') rest of Some (_, t) \<Rightarrow> t | None \<Rightarrow> [])"
    by (auto simp: split_stored_line_def dest: str_split_once_key split: option.splits)
  have v: "utf8_valid ts" "utf8_valid rest" using utf8_valid_split [OF assms(1) [unfolded k]] by auto
  have "utf8_valid msg"
  proof (cases "str_split_once (CHR '' '') rest")
    case (Some p)
    then obtain a where "rest = a @ CHR '' '' # msg" using m str_split_once_key by (cases p) fastforce
    then show ?thesis using utf8_valid_split(2) [of a "CHR '' ''" msg] v(2) by simp
  qed (simp add: m)
  moreover have "utf8_valid '' ''" "utf8_valid [CHR 0x0A]" by code_simp+
  ultimately show ?thesis using v(1) by (simp add: push_rendered_def utf8_valid_append)
qed

text \<open>
  C29. A limit on the bytes of a log never cuts a character. The loop that steps back to a
  boundary ends, and the answer to a request with a limit is a prefix of the answer without it, is not longer than
  the limit, at most three bytes shorter than it could be, and well-formed.
\<close>

theorem log_limit_exact:
  assumes "utf8_valid raw"
    and "full = render_log parse_ts raw (options\<lparr>lo_limit_bytes := None\<rparr>)"
    and "limited = render_log parse_ts raw (options\<lparr>lo_limit_bytes := Some n\<rparr>)"
  shows "utf8_valid limited \<and> limited = take (length limited) full \<and> length limited \<le> nonneg n \<and>
    min (nonneg n) (length full) \<le> length limited + 3"
proof -
  let ?i = "min (nonneg n) (length full)"
  let ?j = "floor_boundary full ?i"
  have "limited = take ?j full" using assms(2,3) by (simp add: render_log_def cut_log_def Let_def)
  moreover have "utf8_valid full"
  proof -
    have "utf8_valid (push_rendered (lo_timestamps options) p)"
      if "p \<in> set (List.map_filter split_stored_line (lines raw))" for p
    proof -
      from that obtain line where "line \<in> set (lines raw)" "split_stored_line line = Some p"
        by (auto simp: List.map_filter_def)
      then show ?thesis using split_stored_valid [OF utf8_valid_lines [OF assms(1)]] by (cases p) auto
    qed
    then have "\<forall>x\<in>set (map (push_rendered (lo_timestamps options)) (keep_tail (lo_tail_lines options)
        (filter (\<lambda>(ts, msg). since_ok parse_ts (lo_since_time options) ts) (List.map_filter split_stored_line (lines raw))))). utf8_valid x"
      by (auto simp: keep_tail_def dest!: in_set_dropD split: option.split if_splits)
    then show ?thesis unfolding assms(2) render_log_def cut_log_def Let_def by (simp add: utf8_valid_concat)
  qed
  moreover have b: "is_char_boundary full ?j" "?j \<le> ?i" "\<forall>k\<le>?i. is_char_boundary full k \<longrightarrow> k \<le> ?j"
    using floor_boundary_spec [of full ?i] by auto
  moreover obtain k where "k \<le> ?i" "?i \<le> k + 3" "is_char_boundary full k"
    using boundary_near [OF \<open>utf8_valid full\<close>, of ?i] by auto
  then have "?i \<le> ?j + 3" using b(3) by fastforce
  ultimately show ?thesis using boundary_split [OF _ b(1)] by auto
qed

theorem log_limit_exact_witness:
  "render_log (\<lambda>_. None) (''t stdout '' @ [CHR 0xC3, CHR 0xA9, CHR 0x0A]) (\<lparr>lo_tail_lines = None, lo_timestamps = False,
       lo_since_time = None, lo_limit_bytes = Some 1\<rparr>) = [] \<and>
   utf8_valid (render_log (\<lambda>_. None) (''t stdout '' @ [CHR 0xC3, CHR 0xA9, CHR 0x0A]) (\<lparr>lo_tail_lines = None, lo_timestamps = False,
       lo_since_time = None, lo_limit_bytes = Some 1\<rparr>))"
proof -
  let ?o = "\<lparr>lo_tail_lines = None, lo_timestamps = False, lo_since_time = None, lo_limit_bytes = Some 1\<rparr>"
  let ?raw = "''t stdout '' @ [CHR 0xC3, CHR 0xA9, CHR 0x0A]"
  have "utf8_valid ?raw" "render_log (\<lambda>_. None) ?raw ?o = []" by code_simp+
  then show ?thesis using log_limit_exact [where raw = ?raw and options = ?o and n = 1 and parse_ts = "\<lambda>_. None", OF _ refl refl] by simp
qed

section \<open>Bytes that are not UTF-8\<close>

lemma follow_file_grows:
  assumes "follow_step\<^sup>*\<^sup>* s s'"
  shows "set (cl_file (fst s)) \<subseteq> set (cl_file (fst s'))"
  using assms
proof (induction rule: rtranclp_induct)
  case (step s1 s2)
  from step(2) have "set (cl_file (fst s1)) \<subseteq> set (cl_file (fst s2))"
    by cases (auto simp: log_append_def pump_end_def Let_def)
  with step(3) show ?case by blast
qed simp

text \<open>
  One byte silences a log. Once a container has written a byte that never occurs in UTF-8, the whole log is
  empty for every request, whatever is written later: the file is read as text, and a file
  that is not text counts as empty.
\<close>

theorem invalid_byte_blanks_log:
  assumes "c \<in> set msg" "(of_char c :: nat) > 244"
    and "follow_step\<^sup>*\<^sup>* (log_append ts stream msg log0, fo0) (log, fo)"
  shows "log_render parse_ts options log = []"
proof -
  have "c \<in> set (cl_file (log_append ts stream msg log0))"
    using assms(1) by (auto simp: log_append_def stored_line_def Let_def)
  then have "c \<in> set (cl_file log)" using follow_file_grows [OF assms(3)] by auto
  then have "from_utf8 (cl_file log) = None" using utf8_valid_bytes assms(2) by (auto simp: from_utf8_def) fastforce
  then show ?thesis
    by (simp add: log_render_def log_text_def render_log_def lines_Nil List.map_filter_simps keep_tail_def cut_log_def
        floor_boundary.simps is_char_boundary_def split: option.split)
qed

theorem invalid_byte_blanks_log_witness:
  "log_render (\<lambda>_. None) plain_options (log_append ''t1'' ''stdout'' ''fine'' (log_append ''t0'' ''stdout'' [CHR 0xFF] log_create)) = []"
proof -
  let ?log = "log_append ''t0'' ''stdout'' [CHR 0xFF] log_create"
  have "\<not> cl_closed ?log" by code_simp
  then have "follow_step\<^sup>*\<^sup>* (?log, sample_follower) (log_append ''t1'' ''stdout'' ''fine'' ?log, sample_follower)"
    by (intro r_into_rtranclp fs_append)
  from invalid_byte_blanks_log [OF _ _ this, of "CHR 0xFF"] show ?thesis by simp
qed

end
