(* ===== verification/Wasm_Runtime.thy ===== *)
theory Wasm_Runtime
  imports Engines Image_Cache
begin

text \<open>
  The WebAssembly engine (\<open>src/src/node/runtime/wasm.rs\<close>): the ring buffers that capture output, the
  creation of a container in its two modes, its liveness, logs and exec. The wasmtime library, the
  sockets and the images are given by the record \<open>wasm_lib\<close>: what compiling a module gives, which
  ports other processes hold, what a module writes when it is run with some arguments. What a
  running module does to its container is a sequence of values of \<open>guest_event\<close>.
\<close>

section \<open>The ring buffer\<close>

record ring_pipe =
  rp_capacity :: nat
  rp_buffer :: string

definition ring_new :: "nat \<Rightarrow> ring_pipe" where
  "ring_new cap = \<lparr>rp_capacity = cap, rp_buffer = []\<rparr>"

definition ring_contents :: "ring_pipe \<Rightarrow> string" where
  "ring_contents r = rp_buffer r"

text \<open>\<open>buf.copy_within(i..j, 0)\<close>\<close>

definition copy_to_front :: "nat \<Rightarrow> nat \<Rightarrow> string \<Rightarrow> string" where
  "copy_to_front i j buf = take (j - i) (drop i buf) @ drop (j - i) buf"

definition ring_append :: "string \<Rightarrow> ring_pipe \<Rightarrow> ring_pipe" where
  "ring_append bytes r =
     (let buf = rp_buffer r; cap = rp_capacity r;
          total = length buf + length bytes;
          buf' = (if total > cap then
                    let buf_len = length buf; drop_n = min (total - cap) buf_len; keep = buf_len - drop_n
                    in take keep (copy_to_front drop_n buf_len buf)
                  else buf);
          to_append = (if length bytes > cap then drop (length bytes - cap) bytes else bytes)
      in r\<lparr>rp_buffer := buf' @ to_append\<rparr>)"

definition log_capacity :: nat where
  "log_capacity = 1024 * 1024"

section \<open>Containers\<close>

record wasm_entry =
  we_id :: string
  we_started_at :: time
  we_module_path :: path
  we_base_argv :: "string list"
  we_base_env :: "(string \<times> string) list"
  we_exit :: "i32 option"
  we_stdout :: ring_pipe
  we_stderr :: ring_pipe
  we_trap_text :: string
  we_listener_mode :: bool
  we_background :: "bool list" \<comment> \<open>for each task, whether it is finished\<close>
  we_port_mappings :: "port_mapping list"

text \<open>\<open>wr_listening\<close> holds the ports on which an accept loop of this process runs.\<close>

record wasm_runtime =
  wr_cache_root :: path
  wr_fs :: fsys
  wr_containers :: "(string \<times> wasm_entry) list"
  wr_by_name :: "(string \<times> string) list"
  wr_listening :: "nat list"

record 'e wasm_lib =
  wl_images :: "'e image_lib"
  wl_compile :: "path \<Rightarrow> fsys \<Rightarrow> string option" \<comment> \<open>the error, if the module cannot be compiled\<close>
  wl_busy :: "nat \<Rightarrow> string option" \<comment> \<open>why a port cannot be bound, for reasons outside this process\<close>
  wl_guest :: "path \<Rightarrow> string list \<Rightarrow> (string \<times> string) list \<Rightarrow> chunk list"

definition wasm_new :: "path \<Rightarrow> fsys \<Rightarrow> wasm_runtime" where
  "wasm_new root fs = \<lparr>wr_cache_root = root, wr_fs = fs, wr_containers = [], wr_by_name = [], wr_listening = []\<rparr>"

definition as_u16 :: "i32 \<Rightarrow> nat" where
  "as_u16 n = nat (max n 0 mod 65536)"

definition protocol_text :: "protocol option \<Rightarrow> string" where
  "protocol_text p = (case p of Some UDP \<Rightarrow> ''udp'' | _ \<Rightarrow> ''tcp'')"

definition declared_ports :: "container \<Rightarrow> port_mapping list" where
  "declared_ports c = List.map_filter (\<lambda>p. case cp_host_port p of
       None \<Rightarrow> None
     | Some h \<Rightarrow> Some \<lparr>pm_container_port = int (as_u16 (cp_container_port p)), pm_host_port = as_u16 h,
                        pm_protocol = protocol_text (cp_protocol p)\<rparr>)
     (case co_ports c of Some ps \<Rightarrow> ps | None \<Rightarrow> [])"

definition base_argv :: "path \<Rightarrow> string \<Rightarrow> container \<Rightarrow> string list" where
  "base_argv module_path name c =
     (if module_path = [] \<or> last module_path = ''..'' then name else from_utf8_lossy (last module_path)) #
     (case co_command c of Some v \<Rightarrow> v | None \<Rightarrow> []) @ (case co_args c of Some v \<Rightarrow> v | None \<Rightarrow> [])"

definition base_env :: "container \<Rightarrow> (string \<times> string) list" where
  "base_env c = map (\<lambda>v. (ev_name v, case ev_value v of Some x \<Rightarrow> x | None \<Rightarrow> []))
     (case co_env c of Some vs \<Rightarrow> vs | None \<Rightarrow> [])"

text \<open>
  \<open>TcpListener::bind\<close>, and the accept loop started on it. Port 0 asks for any free port. A failure ends the loop over the ports; the
  loops already started go on.
\<close>

definition bind_error :: "'e wasm_lib \<Rightarrow> nat \<Rightarrow> wasm_runtime \<Rightarrow> string option" where
  "bind_error lib p r =
     (if p = 0 then None
      else if p \<in> set (wr_listening r) then Some ''Address already in use (os error 98)''
      else wl_busy lib p)"

fun start_listeners :: "'e wasm_lib \<Rightarrow> port_mapping list \<Rightarrow> bool list \<Rightarrow> wasm_runtime \<Rightarrow> (string + bool list) \<times> wasm_runtime" where
  "start_listeners lib [] bg = returnR bg"
| "start_listeners lib (m # ms) bg = (\<lambda>r.
     if pm_protocol m \<noteq> ''tcp'' then start_listeners lib ms bg r
     else (case bind_error lib (pm_host_port m) r of
         Some e \<Rightarrow> failR (''wasm: bind 0.0.0.0:'' @ show_nat (pm_host_port m) @ '': '' @ e) r
       | None \<Rightarrow> start_listeners lib ms (bg @ [False]) (r\<lparr>wr_listening := pm_host_port m # wr_listening r\<rparr>)))"

definition on_fs :: "(fsys \<Rightarrow> ('e + 'a) \<times> fsys) \<Rightarrow> wasm_runtime \<Rightarrow> ('e + 'a) \<times> wasm_runtime" where
  "on_fs f r = (case f (wr_fs r) of (res, fs) \<Rightarrow> (res, r\<lparr>wr_fs := fs\<rparr>))"

definition wasm_create ::
  "'e wasm_lib \<Rightarrow> (uuid \<Rightarrow> string) \<Rightarrow> uuid \<Rightarrow> time \<Rightarrow> string \<Rightarrow> container \<Rightarrow> wasm_runtime \<Rightarrow> (string + string) \<times> wasm_runtime" where
  "wasm_create lib show_uuid uid now name c =
     bindR (\<lambda>r. on_fs (mapE (\<lambda>e. ''wasm: resolving image '' @ debug_quoted (co_image c) @ '': '' @ e)
              (pull_wasm (wl_images lib) (co_image c) (wr_cache_root r))) r) (\<lambda>module_path.
     bindR (\<lambda>r. case wl_compile lib module_path (wr_fs r) of Some e \<Rightarrow> failR e r | None \<Rightarrow> returnR () r) (\<lambda>_.
     let ports = declared_ports c; listener_mode = (ports \<noteq> []) in
     bindR (if listener_mode then start_listeners lib ports [] else returnR [False]) (\<lambda>background.
     let cid = ''wasm://'' @ show_uuid uid;
         entry = \<lparr>we_id = cid, we_started_at = now, we_module_path = module_path,
           we_base_argv = base_argv module_path name c, we_base_env = base_env c, we_exit = None,
           we_stdout = ring_new log_capacity, we_stderr = ring_new log_capacity, we_trap_text = [],
           we_listener_mode = listener_mode, we_background = background, we_port_mappings = ports\<rparr> in
     (\<lambda>r. (Inr cid, r\<lparr>wr_containers := hm_insert cid entry (wr_containers r),
                      wr_by_name := hm_insert name cid (wr_by_name r)\<rparr>)))))"

definition wasm_running :: "wasm_entry \<Rightarrow> bool" where
  "wasm_running en = (if we_listener_mode en then list_ex (\<lambda>finished. \<not> finished) (we_background en) else we_exit en = None)"

definition wasm_find :: "string \<Rightarrow> wasm_runtime \<Rightarrow> string + container_info option" where
  "wasm_find name r = Inr (case hm_get (wr_by_name r) name of
       None \<Rightarrow> None
     | Some cid \<Rightarrow> (case hm_get (wr_containers r) cid of
         None \<Rightarrow> None
       | Some en \<Rightarrow> Some \<lparr>cinf_id = we_id en, cinf_running = wasm_running en, cinf_restart_count = 0,
                         cinf_started_at = Some (we_started_at en), cinf_exit_code = we_exit en,
                         cinf_ip = None, cinf_port_mappings = we_port_mappings en\<rparr>))"

section \<open>Logs and exec\<close>

definition with_newline :: "string \<Rightarrow> string" where
  "with_newline s = (if s \<noteq> [] then s @ [CHR 0x0A] else s)"

definition wasm_tail :: "int option \<Rightarrow> string \<Rightarrow> string" where
  "wasm_tail tail_n s = (case tail_n of
       None \<Rightarrow> s
     | Some n \<Rightarrow> with_newline (join_with [CHR 0x0A] (rev (take (nonneg n) (rev (lines s))))))"

definition wasm_stamp :: "string option \<Rightarrow> string \<Rightarrow> string" where
  "wasm_stamp ts s = (case ts of
       None \<Rightarrow> s | Some t \<Rightarrow> with_newline (join_with [CHR 0x0A] (map (\<lambda>l. t @ '' '' @ l) (lines s))))"

text \<open>\<open>None\<close> is a panic: \<open>String::truncate\<close> inside a character.\<close>

definition wasm_logs :: "(time \<Rightarrow> string) \<Rightarrow> string \<Rightarrow> log_options \<Rightarrow> wasm_runtime \<Rightarrow> (string + string) option" where
  "wasm_logs fmt cid options r = (case hm_get (wr_containers r) cid of
       None \<Rightarrow> Some (Inl (''container '' @ cid @ '' not found''))
     | Some en \<Rightarrow>
         let out = ring_contents (we_stdout en) @ ring_contents (we_stderr en) @ we_trap_text en;
             s = wasm_tail (lo_tail_lines options) (from_utf8_lossy out)
         in case (case lo_limit_bytes options of
                    None \<Rightarrow> Some s
                  | Some n \<Rightarrow> if length s > nonneg n then truncate_str (nonneg n) s else Some s) of
              None \<Rightarrow> None
            | Some t \<Rightarrow> Some (Inr (wasm_stamp (if lo_timestamps options then Some (fmt (we_started_at en)) else None) t)))"

definition exec_argv :: "wasm_entry \<Rightarrow> string list \<Rightarrow> string list" where
  "exec_argv en cmd =
     (if cmd = [] then we_base_argv en
      else (if we_module_path en = [] \<or> last (we_module_path en) = ''..'' then ''module.wasm''
            else from_utf8_lossy (last (we_module_path en))) # cmd)"

definition wasm_exec :: "'e wasm_lib \<Rightarrow> string \<Rightarrow> string list \<Rightarrow> bool \<Rightarrow> wasm_runtime \<Rightarrow> string + exec_session" where
  "wasm_exec lib cid cmd tty r = (case hm_get (wr_containers r) cid of
       None \<Rightarrow> Inl (''container '' @ cid @ '' not found'')
     | Some en \<Rightarrow> Inr \<lparr>xs_output = wl_guest lib (we_module_path en) (exec_argv en cmd) (we_base_env en), xs_exit = None\<rparr>)"

text \<open>The methods together; a panic of the log request ends it and is represented as its error.\<close>

definition wasm_ops :: "'e wasm_lib \<Rightarrow> (uuid \<Rightarrow> string) \<Rightarrow> (time \<Rightarrow> string) \<Rightarrow> wasm_runtime runtime_ops" where
  "wasm_ops lib show_uuid fmt =
     (let logs = (\<lambda>cid options r. case wasm_logs fmt cid options r of Some res \<Rightarrow> res | None \<Rightarrow> Inl ''panicked'')
      in \<lparr>rt_create = wasm_create lib show_uuid, rt_find = wasm_find, rt_remove = default_remove,
          rt_logs = logs, rt_stream = default_stream_logs logs, rt_exec = wasm_exec lib, rt_name = (\<lambda>_. ''wasm'')\<rparr>)"

section \<open>Running modules\<close>

text \<open>How a run of a module can end, in the order in which the code finds out.\<close>

datatype run_outcome = Linker_Failed string | Instantiate_Failed string | No_Start string | Clean_Exit | Proc_Exit i32 | Trap string

definition run_once :: "path \<Rightarrow> run_outcome \<Rightarrow> i32 \<times> string" where
  "run_once module_path out = (case out of
       Linker_Failed e \<Rightarrow> (1, ''wasm linker setup: '' @ e @ [CHR 0x0A])
     | Instantiate_Failed e \<Rightarrow> (1, ''wasm instantiate '' @ path_text module_path @ '': '' @ e @ [CHR 0x0A])
     | No_Start e \<Rightarrow> (1, ''wasm: module has no _start: '' @ e @ [CHR 0x0A])
     | Clean_Exit \<Rightarrow> (0, [])
     | Proc_Exit code \<Rightarrow> (code, [])
     | Trap e \<Rightarrow> (1, ''wasm trap in '' @ path_text module_path @ '': '' @ e @ [CHR 0x0A]))"

text \<open>A connection: its environment, its arguments, and what its end adds to the log.\<close>

definition conn_env :: "(string \<times> string) list \<Rightarrow> string \<Rightarrow> nat \<Rightarrow> (string \<times> string) list" where
  "conn_env env ip p = env @ [(''REMOTE_ADDR'', ip), (''REMOTE_PORT'', show_nat p)]"

definition conn_argv :: "string list \<Rightarrow> string list" where
  "conn_argv argv = (if length argv = 1 then argv @ [''/''] else argv)"

definition conn_outcome :: "path \<Rightarrow> run_outcome \<Rightarrow> string" where
  "conn_outcome module_path out = (case out of
       Linker_Failed e \<Rightarrow> ''wasm conn linker: '' @ e @ [CHR 0x0A]
     | Instantiate_Failed e \<Rightarrow> ''wasm conn instantiate: '' @ e @ [CHR 0x0A]
     | No_Start e \<Rightarrow> ''wasm conn: no _start: '' @ e @ [CHR 0x0A]
     | Clean_Exit \<Rightarrow> []
     | Proc_Exit code \<Rightarrow> []
     | Trap e \<Rightarrow> ''wasm conn trap in '' @ path_text module_path @ '': '' @ e @ [CHR 0x0A])"

text \<open>What happens to a container while its module runs.\<close>

datatype guest_event = Wrote_Stdout string | Wrote_Stderr string | Run_Finished run_outcome | Conn_Finished run_outcome

fun guest_step :: "guest_event \<Rightarrow> wasm_entry \<Rightarrow> wasm_entry" where
  "guest_step (Wrote_Stdout b) en = en\<lparr>we_stdout := ring_append b (we_stdout en)\<rparr>"
| "guest_step (Wrote_Stderr b) en = en\<lparr>we_stderr := ring_append b (we_stderr en)\<rparr>"
| "guest_step (Run_Finished out) en =
     (let (code, text) = run_once (we_module_path en) out
      in en\<lparr>we_exit := Some code, we_trap_text := we_trap_text en @ text, we_background := [True]\<rparr>)"
| "guest_step (Conn_Finished out) en = en\<lparr>we_trap_text := we_trap_text en @ conn_outcome (we_module_path en) out\<rparr>"

definition guest_run :: "string \<Rightarrow> guest_event list \<Rightarrow> wasm_runtime \<Rightarrow> wasm_runtime" where
  "guest_run cid evs r = (case hm_get (wr_containers r) cid of
       None \<Rightarrow> r | Some en \<Rightarrow> r\<lparr>wr_containers := hm_insert cid (fold guest_step evs en) (wr_containers r)\<rparr>)"

section \<open>The output of a connection\<close>

text \<open>
  \<open>TeeWriter\<close>: what a module writes goes to the connection and into the log. \<open>poll_write\<close> copies the
  buffer into the log and then polls the connection, which takes some of the bytes, is not ready, or
  fails; \<open>write_all\<close> offers what is left until all is taken, as the contract of \<open>AsyncWrite\<close> has it. The list
  holds the answers of the connection; when it is used up, the writer waits.
\<close>

datatype write_answer = Took nat | Not_Ready | Write_Failed string

record tee_writer =
  tw_sent :: string
  tw_mirror :: ring_pipe

definition tee_poll_write :: "write_answer \<Rightarrow> string \<Rightarrow> tee_writer \<Rightarrow> tee_writer" where
  "tee_poll_write ans buf t =
     (let t' = t\<lparr>tw_mirror := ring_append buf (tw_mirror t)\<rparr> in
      case ans of Took n \<Rightarrow> t'\<lparr>tw_sent := tw_sent t' @ take n buf\<rparr> | _ \<Rightarrow> t')"

fun tee_write_all :: "write_answer list \<Rightarrow> string \<Rightarrow> tee_writer \<Rightarrow> tee_writer" where
  "tee_write_all [] buf t = t"
| "tee_write_all (ans # rest) buf t =
     (if buf = [] then t
      else let t' = tee_poll_write ans buf t in
        case ans of
          Took n \<Rightarrow> if n = 0 then t' else tee_write_all rest (drop n buf) t'
        | Not_Ready \<Rightarrow> tee_write_all rest buf t'
        | Write_Failed e \<Rightarrow> t')"

section \<open>Where modules are kept\<close>

text \<open>\<open>writable\<close> as the outcome of creating the parent and asking for its permissions.\<close>

definition dirs_cache_dir :: "target_os \<Rightarrow> (string \<Rightarrow> string option) \<Rightarrow> path option" where
  "dirs_cache_dir os env = (case env ''XDG_CACHE_HOME'' of
       Some x \<Rightarrow> Some (path_comps x)
     | None \<Rightarrow> (case env ''HOME'' of
         None \<Rightarrow> None
       | Some h \<Rightarrow> Some (path_comps h @ (if os = MacOS then [''Library'', ''Caches''] else [''.cache'']))))"

definition default_cache_root :: "target_os \<Rightarrow> (string \<Rightarrow> string option) \<Rightarrow> path \<Rightarrow> bool \<Rightarrow> path" where
  "default_cache_root os env temp_dir writable =
     (if writable then [''var'', ''lib'', ''superkube'', ''wasm'']
      else case dirs_cache_dir os env of
        Some cache \<Rightarrow> cache @ [''superkube-wasm''] | None \<Rightarrow> temp_dir @ [''superkube-wasm''])"

end
