(* ===== verification/Wasm_Props.thy ===== *)
theory Wasm_Props
  imports Wasm_Runtime
begin

text \<open>
  What the WebAssembly engine guarantees: its buffers hold the end of what was written, its logs are
  that text, and a created container is found (the contract \<open>container_runtime\<close>); and what it does
  not: ports are never given back, and a limit on log bytes can make it panic.
\<close>

section \<open>Ring buffers\<close>

text \<open>The reference: the last \<open>n\<close> elements of everything written.\<close>

definition take_last :: "nat \<Rightarrow> 'a list \<Rightarrow> 'a list" where
  "take_last n xs = drop (length xs - n) xs"

lemma ring_append_buffer:
  assumes "length (rp_buffer r) \<le> rp_capacity r"
  shows "rp_buffer (ring_append b r) = take_last (rp_capacity r) (rp_buffer r @ b)"
proof -
  let ?buf = "rp_buffer r" and ?cap = "rp_capacity r"
  show ?thesis
  proof (cases "length ?buf + length b > ?cap")
    case True
    define d where "d = min (length ?buf + length b - ?cap) (length ?buf)"
    have "d \<le> length ?buf" by (simp add: d_def)
    then have front: "take (length ?buf - d) (copy_to_front d (length ?buf) ?buf) = drop d ?buf"
      by (simp add: copy_to_front_def)
    show ?thesis
    proof (cases "length b > ?cap")
      case True
      then have "d = length ?buf" using assms by (simp add: d_def)
      then show ?thesis using front True assms
        by (simp add: ring_append_def Let_def take_last_def d_def [symmetric])
    next
      case False
      then have "d = length ?buf + length b - ?cap" by (simp add: d_def)
      then show ?thesis using front False True
        by (simp add: ring_append_def Let_def take_last_def d_def [symmetric])
    qed
  qed (simp add: ring_append_def Let_def take_last_def)
qed

lemma ring_append_capacity [simp]: "rp_capacity (ring_append b r) = rp_capacity r"
  by (simp add: ring_append_def Let_def)

lemma length_take_last: "length (take_last n xs) \<le> n"
  by (simp add: take_last_def)

lemma take_last_append: "take_last n (take_last n xs @ ys) = take_last n (xs @ ys)"
proof (cases "length xs \<le> n")
  case True
  then show ?thesis by (simp add: take_last_def)
next
  case False
  then have "drop (length ys) (drop (length xs - n) xs) = drop (length xs + length ys - n) xs"
    by (simp add: add.commute)
  then show ?thesis using False by (simp add: take_last_def)
qed

lemma fold_ring_append:
  assumes "length (rp_buffer r) \<le> rp_capacity r"
  shows "rp_buffer (fold ring_append bs r) = take_last (rp_capacity r) (rp_buffer r @ concat bs)
    \<and> rp_capacity (fold ring_append bs r) = rp_capacity r"
  using assms
proof (induction bs arbitrary: r)
  case Nil
  then show ?case by (simp add: take_last_def)
next
  case (Cons b bs)
  let ?r = "ring_append b r"
  have b: "rp_buffer ?r = take_last (rp_capacity r) (rp_buffer r @ b)" by (rule ring_append_buffer [OF Cons.prems])
  have "length (rp_buffer ?r) \<le> rp_capacity ?r" by (simp add: b length_take_last)
  from Cons.IH [OF this] show ?case using b take_last_append [of "rp_capacity r" "rp_buffer r @ b" "concat bs"] by simp
qed

text \<open>
  C20. A ring buffer holds the end of the output: after any sequence of writes of any sizes, one longer than the
  buffer included, its contents are exactly the last \<open>capacity\<close> bytes of everything written, and
  all of it as long as it fits.
\<close>

theorem ring_pipe_keeps_tail:
  "ring_contents (fold ring_append writes (ring_new cap)) = take_last cap (concat writes)"
  using fold_ring_append [of "ring_new cap" writes] by (simp add: ring_contents_def ring_new_def)

section \<open>Created containers are found\<close>

lemma on_fs_frame:
  "on_fs f r = (res, r') \<Longrightarrow> wr_containers r' = wr_containers r \<and> wr_by_name r' = wr_by_name r \<and> wr_listening r' = wr_listening r"
  by (auto simp: on_fs_def split: prod.splits)

lemma wasm_create_Inr:
  assumes "wasm_create lib show_uuid uid now name c r = (Inr cid, r')"
  obtains en where "hm_get (wr_by_name r') name = Some cid" "hm_get (wr_containers r') cid = Some en"
    "we_id en = cid" "we_exit en = None" "we_trap_text en = []" "we_listener_mode en = (declared_ports c \<noteq> [])"
    "we_stdout en = ring_new log_capacity" "we_stderr en = ring_new log_capacity" "we_port_mappings en = declared_ports c"
  using assms by (auto simp: wasm_create_def bindR_def Let_def split: prod.splits sum.splits)

interpretation wasm: container_runtime "wasm_ops lib show_uuid fmt"
proof unfold_locales
  fix uid now name c r cid r'
  assume "rt_create (wasm_ops lib show_uuid fmt) uid now name c r = (Inr cid, r')"
  then have "wasm_create lib show_uuid uid now name c r = (Inr cid, r')" by (simp add: wasm_ops_def Let_def)
  then obtain en where "hm_get (wr_by_name r') name = Some cid" "hm_get (wr_containers r') cid = Some en" "we_id en = cid"
    by (rule wasm_create_Inr)
  then show "\<exists>info. rt_find (wasm_ops lib show_uuid fmt) name r' = Inr (Some info) \<and> cinf_id info = cid"
    by (simp add: wasm_ops_def wasm_find_def Let_def)
qed

section \<open>Logs\<close>

fun stdout_text :: "guest_event \<Rightarrow> string" where
  "stdout_text (Wrote_Stdout b) = b"
| "stdout_text _ = []"

fun stderr_text :: "guest_event \<Rightarrow> string" where
  "stderr_text (Wrote_Stderr b) = b"
| "stderr_text _ = []"

fun trap_text :: "path \<Rightarrow> guest_event \<Rightarrow> string" where
  "trap_text p (Run_Finished out) = snd (run_once p out)"
| "trap_text p (Conn_Finished out) = conn_outcome p out"
| "trap_text p _ = []"

text \<open>The events of a container that have an effect on a stream.\<close>

fun stdout_writes :: "guest_event list \<Rightarrow> string list" where
  "stdout_writes [] = []"
| "stdout_writes (ev # evs) = (case ev of Wrote_Stdout b \<Rightarrow> b # stdout_writes evs | _ \<Rightarrow> stdout_writes evs)"

fun stderr_writes :: "guest_event list \<Rightarrow> string list" where
  "stderr_writes [] = []"
| "stderr_writes (ev # evs) = (case ev of Wrote_Stderr b \<Rightarrow> b # stderr_writes evs | _ \<Rightarrow> stderr_writes evs)"

lemma concat_writes:
  "concat (stdout_writes evs) = concat (map stdout_text evs)" "concat (stderr_writes evs) = concat (map stderr_text evs)"
  by (induction evs) (auto split: guest_event.split)

lemma fold_guest_step:
  "we_stdout (fold guest_step evs en) = fold ring_append (stdout_writes evs) (we_stdout en) \<and>
   we_stderr (fold guest_step evs en) = fold ring_append (stderr_writes evs) (we_stderr en) \<and>
   we_trap_text (fold guest_step evs en) = we_trap_text en @ concat (map (trap_text (we_module_path en)) evs) \<and>
   we_module_path (fold guest_step evs en) = we_module_path en \<and>
   we_started_at (fold guest_step evs en) = we_started_at en"
proof (induction evs arbitrary: en)
  case (Cons ev evs)
  then show ?case by (cases ev) (simp_all add: Let_def split: prod.split)
qed simp

definition all_logs :: log_options where
  "all_logs = \<lparr>lo_tail_lines = None, lo_timestamps = False, lo_since_time = None, lo_limit_bytes = None\<rparr>"


text \<open>
  A limit on the bytes of a log request makes the engine panic exactly when it falls inside a
  character: a request is answered if and only if the limit is not smaller than the text or is one
  of its character boundaries.
\<close>

theorem wasm_logs_limit_panics:
  assumes "hm_get (wr_containers r) cid = Some en"
  shows "wasm_logs fmt cid (all_logs\<lparr>lo_limit_bytes := Some n\<rparr>) r = None \<longleftrightarrow>
    \<not> is_char_boundary (from_utf8_lossy (ring_contents (we_stdout en) @ ring_contents (we_stderr en) @ we_trap_text en)) (nonneg n) \<and>
    nonneg n < length (from_utf8_lossy (ring_contents (we_stdout en) @ ring_contents (we_stderr en) @ we_trap_text en))"
  using assms by (auto simp: wasm_logs_def all_logs_def Let_def wasm_tail_def truncate_str_def split: if_splits)

definition sample_wasm_lib :: "(string \<times> string) wasm_lib" where
  "sample_wasm_lib = \<lparr>wl_images = sample_lib, wl_compile = (\<lambda>p fs. None), wl_busy = (\<lambda>p. None), wl_guest = (\<lambda>p argv env. [])\<rparr>"

definition wasm_container :: "container_port list option \<Rightarrow> container" where
  "wasm_container ps = sample_container\<lparr>co_image := ''/m.wasm'', co_ports := ps\<rparr>"

lemma sample_wasm_pull: "pull_wasm sample_lib ''/m.wasm'' root fs = (Inr [''m.wasm''], fs)"
proof -
  have "strip_prefix ''/m.wasm'' ''file://'' = None" "strip_prefix ''/m.wasm'' ''wasm://'' = None"
    "starts_with ''/m.wasm'' ''/''" "path_comps ''/m.wasm'' = [''m.wasm'']" by code_simp+
  then show ?thesis by (simp add: pull_wasm_def returnR_def)
qed

lemma sample_wasm_create:
  "\<exists>r'. wasm_create sample_wasm_lib (\<lambda>_. ''u'') 1 0 ''web'' (wasm_container None) (wasm_new [''w''] []) = (Inr ''wasm://u'', r')"
proof -
  have "declared_ports (wasm_container None) = []" by (simp add: declared_ports_def wasm_container_def List.map_filter_simps)
  then show ?thesis
    by (simp add: wasm_create_def bindR_def on_fs_def mapE_def tryR_def sample_wasm_lib_def wasm_container_def sample_wasm_pull
        returnR_def Let_def wasm_new_def)
qed


text \<open>The letter e with an acute accent, cut after its first byte.\<close>

theorem wasm_logs_limit_panics_witness:
  "\<exists>r en. hm_get (wr_containers r) ''c'' = Some en \<and> ring_contents (we_stdout en) = [CHR 0xC3, CHR 0xA9] \<and>
     wasm_logs show_int ''c'' (all_logs\<lparr>lo_limit_bytes := Some 1\<rparr>) r = None"
proof -
  define en where "en = \<lparr>we_id = ''c'', we_started_at = 0, we_module_path = [], we_base_argv = [], we_base_env = [], we_exit = None,
     we_stdout = \<lparr>rp_capacity = 8, rp_buffer = [CHR 0xC3, CHR 0xA9]\<rparr>, we_stderr = ring_new 8, we_trap_text = [],
     we_listener_mode = False, we_background = [False], we_port_mappings = []\<rparr>"
  define r where "r = (wasm_new [] [])\<lparr>wr_containers := [(''c'', en)]\<rparr>"
  have g: "hm_get (wr_containers r) ''c'' = Some en" by (simp add: r_def hm_get_def)
  have o: "ring_contents (we_stdout en) @ ring_contents (we_stderr en) @ we_trap_text en = [CHR 0xC3, CHR 0xA9]"
    by (simp add: en_def ring_contents_def ring_new_def)
  have "from_utf8_lossy [CHR 0xC3, CHR 0xA9] = [CHR 0xC3, CHR 0xA9]" "\<not> is_char_boundary [CHR 0xC3, CHR 0xA9] 1" by code_simp+
  then have "wasm_logs show_int ''c'' (all_logs\<lparr>lo_limit_bytes := Some 1\<rparr>) r = None"
    using wasm_logs_limit_panics [OF g, of show_int 1] by (simp add: o nonneg_def)
  moreover have "ring_contents (we_stdout en) = [CHR 0xC3, CHR 0xA9]" by (simp add: en_def ring_contents_def)
  ultimately show ?thesis using g by blast
qed

section \<open>Ports\<close>

text \<open>What can happen to the engine; which ports other processes hold may change at any time.\<close>

inductive wasm_step :: "'e wasm_lib \<Rightarrow> (uuid \<Rightarrow> string) \<Rightarrow> wasm_runtime \<Rightarrow> wasm_runtime \<Rightarrow> bool"
  for lib :: "'e wasm_lib" and show_uuid :: "uuid \<Rightarrow> string" where
  wasm_step_create: "wasm_step lib show_uuid r (snd (wasm_create (lib\<lparr>wl_busy := busy\<rparr>) show_uuid uid now name c r))"
| wasm_step_remove: "wasm_step lib show_uuid r (snd (default_remove name r))"
| wasm_step_guest: "wasm_step lib show_uuid r (guest_run cid evs r)"

lemma start_listeners_mono:
  "start_listeners lib ms bg r = (res, r') \<Longrightarrow> set (wr_listening r) \<subseteq> set (wr_listening r')"
proof (induction ms arbitrary: bg r)
  case (Cons m ms)
  show ?case
  proof (cases "pm_protocol m = ''tcp'' \<and> bind_error lib (pm_host_port m) r = None")
    case True
    then show ?thesis using Cons.IH [of "bg @ [False]" "r\<lparr>wr_listening := pm_host_port m # wr_listening r\<rparr>"] Cons.prems by auto
  next
    case False
    then show ?thesis using Cons.IH [of bg r] Cons.prems by (auto simp: failR_def split: if_splits)
  qed
qed (simp add: returnR_def)

lemma start_listeners_taken:
  assumes "p \<in> set (wr_listening r)" "p \<noteq> 0" "m \<in> set ms" "pm_protocol m = ''tcp''" "pm_host_port m = p"
  shows "\<exists>e r'. start_listeners lib ms bg r = (Inl e, r')"
  using assms(1,3)
proof (induction ms arbitrary: bg r)
  case (Cons n ms)
  show ?case
  proof (cases "pm_protocol n = ''tcp''")
    case True
    show ?thesis
    proof (cases "bind_error lib (pm_host_port n) r")
      case None
      then have "n \<noteq> m" using Cons.prems(1) assms(2,5) by (auto simp: bind_error_def)
      then show ?thesis using True None Cons.IH [of "r\<lparr>wr_listening := pm_host_port n # wr_listening r\<rparr>"] Cons.prems by simp
    qed (use True in \<open>simp add: failR_def\<close>)
  next
    case False
    then show ?thesis using Cons.IH [of r] Cons.prems assms(4) by auto
  qed
qed simp

lemma start_listeners_takes:
  assumes "start_listeners lib ms bg r = (Inr bg', r')" "m \<in> set ms" "pm_protocol m = ''tcp''"
  shows "pm_host_port m \<in> set (wr_listening r')"
  using assms(1,2)
proof (induction ms arbitrary: bg r)
  case (Cons n ms)
  show ?case
  proof (cases "pm_protocol n = ''tcp''")
    case True
    then have b: "start_listeners lib ms (bg @ [False]) (r\<lparr>wr_listening := pm_host_port n # wr_listening r\<rparr>) = (Inr bg', r')"
      using Cons.prems(1) by (auto simp: failR_def split: option.splits)
    then show ?thesis using Cons.IH [OF b] Cons.prems(2) start_listeners_mono [OF b] by auto
  next
    case False
    then show ?thesis using Cons assms(3) by auto
  qed
qed simp

lemma wasm_create_listening:
  assumes "wasm_create lib show_uuid uid now name c r = (res, r')"
  shows "set (wr_listening r) \<subseteq> set (wr_listening r')"
  using assms
  by (auto simp: wasm_create_def bindR_def Let_def failR_def returnR_def split: prod.splits sum.splits option.splits if_splits
      dest!: on_fs_frame start_listeners_mono)

lemma wasm_step_listening:
  assumes "(wasm_step lib show_uuid)\<^sup>*\<^sup>* r r'"
  shows "set (wr_listening r) \<subseteq> set (wr_listening r')"
  using assms
proof (induction rule: rtranclp_induct)
  case (step r1 r2)
  from step(2) have "set (wr_listening r1) \<subseteq> set (wr_listening r2)"
  proof cases
    case (wasm_step_create busy uid now name c)
    then show ?thesis using wasm_create_listening surjective_pairing by metis
  qed (auto simp: default_remove_def guest_run_def split: option.split)
  with step show ?case by blast
qed simp

text \<open>
  A host port is never given back. After a container with a TCP host port was created, and
  whatever the engine does afterwards, its removal and the removal of any other container included, no container with
  that host port can be created again: every attempt fails to bind the port that the engine itself
  still listens on.
\<close>

theorem wasm_port_never_released:
  assumes "wasm_create lib show_uuid uid now name c r = (Inr cid, r1)"
    and "m \<in> set (declared_ports c)" "pm_protocol m = ''tcp''" "pm_host_port m \<noteq> 0"
    and "(wasm_step lib show_uuid)\<^sup>*\<^sup>* r1 r2"
    and "m' \<in> set (declared_ports c')" "pm_protocol m' = ''tcp''" "pm_host_port m' = pm_host_port m"
  shows "\<nexists>cid' r3. wasm_create lib show_uuid uid' now' name' c' r2 = (Inr cid', r3)"
proof -
  from assms(1,2) obtain bg ra rb where "start_listeners lib (declared_ports c) [] ra = (Inr bg, rb)"
    and "wr_listening r1 = wr_listening rb"
    by (auto simp: wasm_create_def bindR_def Let_def split: prod.splits sum.splits if_splits)
  with start_listeners_takes [OF _ assms(2,3)] have "pm_host_port m \<in> set (wr_listening r1)" by metis
  then have p: "pm_host_port m \<in> set (wr_listening r2)" using wasm_step_listening [OF assms(5)] by blast
  show ?thesis
  proof
    assume "\<exists>cid' r3. wasm_create lib show_uuid uid' now' name' c' r2 = (Inr cid', r3)"
    then obtain ra bg rb path r0 where s: "start_listeners lib (declared_ports c') [] ra = (Inr bg, rb)"
      and o: "on_fs (mapE (\<lambda>e. ''wasm: resolving image '' @ debug_quoted (co_image c') @ '': '' @ e)
              (pull_wasm (wl_images lib) (co_image c') (wr_cache_root r2))) r2 = (Inr path, ra)"
      using assms(6)
      by (auto simp: wasm_create_def bindR_def Let_def failR_def returnR_def split: prod.splits sum.splits option.splits if_splits)
    have "wr_listening ra = wr_listening r2" using on_fs_frame [OF o] by simp
    then show False using start_listeners_taken [OF _ assms(4,6,7,8), of ra lib "[]"] p s by simp
  qed
qed

definition port_8080 :: container_port where
  "port_8080 = \<lparr>cp_name = None, cp_container_port = 80, cp_host_port = Some 8080, cp_protocol = None\<rparr>"

lemma declared_8080:
  "declared_ports (wasm_container (Some [port_8080])) = [\<lparr>pm_container_port = 80, pm_host_port = 8080, pm_protocol = ''tcp''\<rparr>]"
  by (simp add: declared_ports_def wasm_container_def port_8080_def List.map_filter_simps as_u16_def protocol_text_def)

theorem wasm_port_never_released_witness:
  "\<exists>r1. wasm_create sample_wasm_lib (\<lambda>_. ''u'') 1 0 ''web'' (wasm_container (Some [port_8080])) (wasm_new [''w''] []) = (Inr ''wasm://u'', r1) \<and>
     (\<nexists>cid r3. wasm_create sample_wasm_lib (\<lambda>_. ''u'') 2 9 ''web'' (wasm_container (Some [port_8080])) (snd (default_remove ''web'' r1)) = (Inr cid, r3))"
proof -
  let ?c = "wasm_container (Some [port_8080])"
  let ?m = "\<lparr>pm_container_port = 80, pm_host_port = 8080, pm_protocol = ''tcp''\<rparr>"
  obtain r1 where c: "wasm_create sample_wasm_lib (\<lambda>_. ''u'') 1 0 ''web'' ?c (wasm_new [''w''] []) = (Inr ''wasm://u'', r1)"
  proof -
    have "\<exists>r1. wasm_create sample_wasm_lib (\<lambda>_. ''u'') 1 0 ''web'' ?c (wasm_new [''w''] []) = (Inr ''wasm://u'', r1)"
      unfolding wasm_create_def declared_8080
      by (simp add: bindR_def on_fs_def mapE_def tryR_def sample_wasm_lib_def wasm_container_def sample_wasm_pull
          returnR_def Let_def wasm_new_def bind_error_def)
    then show ?thesis using that by blast
  qed
  have "(wasm_step sample_wasm_lib (\<lambda>_. ''u''))\<^sup>*\<^sup>* r1 (snd (default_remove ''web'' r1))"
    by (intro r_into_rtranclp wasm_step_remove)
  from wasm_port_never_released [OF c _ _ _ this, of ?m ?m ?c 2 9 "''web''"] c show ?thesis
    by (simp add: declared_8080)
qed

text \<open>
  A creation that fails keeps the ports it had already taken: when a later port of the container
  cannot be bound, the accept loop of the first one goes on although there is no container.
\<close>

theorem wasm_failed_create_keeps_port:
  assumes "pull_wasm (wl_images lib) (co_image c) (wr_cache_root r) (wr_fs r) = (Inr module_path, fs')"
    and "wl_compile lib module_path fs' = None" "declared_ports c = m # ms" "pm_protocol m = ''tcp''"
    and "bind_error lib (pm_host_port m) r = None"
    and "wasm_create lib show_uuid uid now name c r = (Inl err, r')"
  shows "pm_host_port m \<in> set (wr_listening r') \<and> wr_containers r' = wr_containers r"
proof -
  let ?r = "r\<lparr>wr_fs := fs'\<rparr>"
  have b: "bind_error lib (pm_host_port m) ?r = None" using assms(5) by (auto simp: bind_error_def split: if_splits)
  have s: "start_listeners lib ms [False] (?r\<lparr>wr_listening := pm_host_port m # wr_listening r\<rparr>) = (Inl err, r')"
    using assms(6) assms(2-4) b
    by (auto simp: wasm_create_def bindR_def on_fs_def mapE_def tryR_def assms(1) returnR_def Let_def split: prod.splits sum.splits)
  have "wr_containers r' = wr_containers ra" if "start_listeners lib ns bg ra = (res, r')" for ns bg ra res
    using that by (induction ns arbitrary: bg ra) (auto simp: returnR_def failR_def split: if_splits option.splits)
  with s have "wr_containers r' = wr_containers r" by fastforce
  with start_listeners_mono [OF s] show ?thesis by simp
qed

text \<open>
  The connection gets the bytes of a write in order and once, but the log gets the rest of the buffer anew at
  every poll: a write for which the connection is not ready \<open>k\<close> times is logged \<open>k + 1\<close> times.
\<close>

lemma tee_write_all_sent: "\<exists>n. tw_sent (tee_write_all answers buf t) = tw_sent t @ take n buf"
proof (induction answers arbitrary: buf t)
  case Nil
  show ?case by (rule exI [of _ 0]) simp
next
  case (Cons ans answers)
  show ?case
  proof (cases ans)
    case (Took n)
    obtain m where "tw_sent (tee_write_all answers (drop n buf) (tee_poll_write ans buf t)) =
        tw_sent (tee_poll_write ans buf t) @ take m (drop n buf)" using Cons.IH by blast
    then have "tw_sent (tee_write_all answers (drop n buf) (tee_poll_write ans buf t)) = tw_sent t @ take (n + m) buf"
      by (simp add: Took tee_poll_write_def Let_def take_add)
    then show ?thesis using Took by (auto simp: Let_def tee_poll_write_def intro: exI [of _ n] exI [of _ "n + m"])
  next
    case Not_Ready
    then show ?thesis using Cons.IH [of buf "tee_poll_write ans buf t"] by (auto simp: Let_def tee_poll_write_def)
  next
    case (Write_Failed e)
    then show ?thesis by (auto simp: Let_def tee_poll_write_def intro: exI [of _ 0])
  qed
qed

theorem tee_logs_again:
  "tw_sent (tee_write_all (replicate k Not_Ready @ [Took (length buf)]) buf t) = tw_sent t @ buf \<and>
   tw_mirror (tee_write_all (replicate k Not_Ready @ [Took (length buf)]) buf t) =
     (if buf = [] then tw_mirror t else (ring_append buf ^^ Suc k) (tw_mirror t))"
proof (induction k arbitrary: t)
  case 0
  show ?case by (simp add: tee_poll_write_def Let_def)
next
  case (Suc k)
  show ?case using Suc.IH [of "tee_poll_write Not_Ready buf t"]
    by (auto simp: tee_poll_write_def Let_def funpow_swap1)
qed

end
