(* ===== verification/Docker_Runtime.thy ===== *)
theory Docker_Runtime
  imports Bundle Wasm_Runtime Node_Report
begin

text \<open>
  The Docker engine (\<open>src/src/node/runtime/docker.rs\<close>). The daemon, reached through the bollard library, is a
  state of type \<open>'d\<close> with the record \<open>docker_lib\<close> of the calls the engine makes; a stream of the library is the
  list of the items it delivers. Text and messages are bytes.
\<close>

section \<open>What is exchanged with the daemon\<close>

record port_binding =
  pb_host_ip :: "string option"
  pb_host_port :: "string option"

type_synonym docker_ports = "(string \<times> port_binding list option) list"

record docker_config =
  dc_image :: string
  dc_hostname :: string
  dc_entrypoint :: "string list option"
  dc_cmd :: "string list option"
  dc_env :: "string list option"
  dc_working_dir :: "string option"
  dc_exposed_ports :: "string list option"
  dc_port_bindings :: "docker_ports option"

record docker_state =
  ds_running :: "bool option"
  ds_exit_code :: "int option"
  ds_started_at :: "string option"

text \<open>\<open>dn_networks\<close>: the addresses of the networks the container is attached to.\<close>

record docker_net =
  dn_ports :: "docker_ports option"
  dn_networks :: "string option list option"
  dn_ip_address :: "string option"

record docker_inspect =
  di_id :: "string option"
  di_state :: "docker_state option"
  di_restart_count :: "int option"
  di_network_settings :: "docker_net option"

datatype docker_error = No_Such_Container | Docker_Error string

record docker_logs_options =
  dl_follow :: bool
  dl_timestamps :: bool
  dl_tail :: string

datatype start_exec = Attached "(string + string) list" | Detached

record exec_look =
  xl_running :: "bool option"
  xl_exit_code :: "int option"

text \<open>\<open>dk_inspect_exec\<close> gives the answers to successive inspections of an exec session.\<close>

record 'd docker_lib =
  dk_pull :: "string \<Rightarrow> 'd \<Rightarrow> (string + unit) list \<times> 'd"
  dk_create :: "string \<Rightarrow> docker_config \<Rightarrow> 'd \<Rightarrow> (string + string) \<times> 'd"
  dk_start :: "string \<Rightarrow> 'd \<Rightarrow> (string + unit) \<times> 'd"
  dk_inspect :: "string \<Rightarrow> 'd \<Rightarrow> docker_error + docker_inspect"
  dk_logs :: "string \<Rightarrow> docker_logs_options \<Rightarrow> 'd \<Rightarrow> (string + string) list"
  dk_create_exec :: "string \<Rightarrow> string list \<Rightarrow> bool \<Rightarrow> 'd \<Rightarrow> string + string"
  dk_start_exec :: "string \<Rightarrow> 'd \<Rightarrow> string + start_exec"
  dk_inspect_exec :: "string \<Rightarrow> 'd \<Rightarrow> nat \<Rightarrow> string + exec_look"

section \<open>The engine\<close>

definition docker_prefix :: string where "docker_prefix = ''docker://''"

definition docker_new :: "string + 'd \<Rightarrow> ('d \<Rightarrow> string option) \<Rightarrow> string + 'd" where
  "docker_new connection ping = (case connection of
       Inl e \<Rightarrow> Inl (''connecting to docker: '' @ e)
     | Inr d \<Rightarrow> (case ping d of Some e \<Rightarrow> Inl (''docker ping: '' @ e) | None \<Rightarrow> Inr d))"

definition docker_strip :: "string \<Rightarrow> string" where
  "docker_strip cid = (case strip_prefix cid docker_prefix of Some s \<Rightarrow> s | None \<Rightarrow> cid)"

definition parse_i32 :: "string \<Rightarrow> i32 option" where
  "parse_i32 s = Option.bind (parse_i64 s) (\<lambda>n. if i32_ok n then Some n else None)"

definition binding_port :: "port_binding \<Rightarrow> nat option" where
  "binding_port b = Option.bind (pb_host_port b) (parse_unsigned 65535)"

definition port_entry :: "string \<times> port_binding list option \<Rightarrow> port_mapping list" where
  "port_entry entry = (case splitn2 (CHR ''/'') (fst entry) of (port, proto) \<Rightarrow>
     (case (parse_i32 port, snd entry) of
        (Some container_port, Some bindings) \<Rightarrow>
          map (\<lambda>hp. \<lparr>pm_container_port = container_port, pm_host_port = hp,
                    pm_protocol = (case proto of Some x \<Rightarrow> x | None \<Rightarrow> ''tcp'')\<rparr>)
              (List.map_filter binding_port bindings)
      | _ \<Rightarrow> []))"

definition parse_docker_ports :: "docker_ports \<Rightarrow> port_mapping list" where
  "parse_docker_ports ports = concat (map port_entry ports)"

definition port_key :: "container_port \<Rightarrow> string" where
  "port_key p = show_int (cp_container_port p) @ ''/'' @ protocol_text (cp_protocol p)"

definition docker_bindings :: "container \<Rightarrow> docker_ports" where
  "docker_bindings c = (case co_ports c of
       None \<Rightarrow> []
     | Some ports \<Rightarrow> fold (\<lambda>p. hm_insert (port_key p) (Some [\<lparr>pb_host_ip = Some ''0.0.0.0'', pb_host_port = None\<rparr>])) ports [])"

definition docker_config_of :: "string \<Rightarrow> container \<Rightarrow> docker_config" where
  "docker_config_of name c =
     (let bindings = docker_bindings c in
      \<lparr>dc_image = co_image c, dc_hostname = name, dc_entrypoint = co_command c, dc_cmd = co_args c,
       dc_env = map_option (map env_entry) (co_env c), dc_working_dir = co_working_dir c,
       dc_exposed_ports = (if bindings = [] then None else Some (map fst bindings)),
       dc_port_bindings = (if bindings = [] then None else Some bindings)\<rparr>)"

text \<open>The first error in a stream.\<close>

fun first_error :: "('e + 'a) list \<Rightarrow> 'e option" where
  "first_error [] = None"
| "first_error (Inl e # xs) = Some e"
| "first_error (Inr x # xs) = first_error xs"

definition docker_pull :: "'d docker_lib \<Rightarrow> string \<Rightarrow> 'd \<Rightarrow> (string + unit) \<times> 'd" where
  "docker_pull lib img d = (case dk_pull lib img d of (msgs, d') \<Rightarrow>
     ((case first_error msgs of Some e \<Rightarrow> Inl (''docker pull '' @ img @ '': '' @ e) | None \<Rightarrow> Inr ()), d'))"

definition docker_create ::
  "'d docker_lib \<Rightarrow> uuid \<Rightarrow> time \<Rightarrow> string \<Rightarrow> container \<Rightarrow> 'd \<Rightarrow> (string + string) \<times> 'd" where
  "docker_create lib uid now name c =
     bindR (docker_pull lib (co_image c)) (\<lambda>_.
     bindR (mapE (\<lambda>e. ''docker create '' @ name @ '': '' @ e) (dk_create lib name (docker_config_of name c))) (\<lambda>cid.
     bindR (mapE (\<lambda>e. ''docker start '' @ name @ '': '' @ e) (dk_start lib cid)) (\<lambda>_.
     returnR (docker_prefix @ cid))))"

definition nonempty :: "string option \<Rightarrow> string option" where
  "nonempty s = Option.bind s (\<lambda>x. if x = [] then None else Some x)"

definition docker_ip :: "docker_net \<Rightarrow> string option" where
  "docker_ip ns =
     (case Option.bind (dn_networks ns) (\<lambda>l. List.find (\<lambda>s. s \<noteq> []) (List.map_filter (\<lambda>x. x) l)) of
        Some ip \<Rightarrow> Some ip
      | None \<Rightarrow> nonempty (dn_ip_address ns))"

definition zero_time :: string where "zero_time = ''0001-01-01T00:00:00Z''"

definition docker_info :: "(string \<Rightarrow> time option) \<Rightarrow> docker_inspect \<Rightarrow> container_info" where
  "docker_info parse_ts ins =
     (let st = di_state ins; ns = di_network_settings ins in
      \<lparr>cinf_id = docker_prefix @ (case di_id ins of Some x \<Rightarrow> x | None \<Rightarrow> []),
       cinf_running = (case Option.bind st ds_running of Some b \<Rightarrow> b | None \<Rightarrow> False),
       cinf_restart_count = wrap_i32 (case di_restart_count ins of Some n \<Rightarrow> n | None \<Rightarrow> 0),
       cinf_started_at = Option.bind (nonempty (Option.bind st ds_started_at)) (\<lambda>s. if s = zero_time then None else parse_ts s),
       cinf_exit_code = map_option wrap_i32 (Option.bind st ds_exit_code),
       cinf_ip = Option.bind ns docker_ip,
       cinf_port_mappings = (case Option.bind ns dn_ports of Some ports \<Rightarrow> parse_docker_ports ports | None \<Rightarrow> [])\<rparr>)"

definition docker_find :: "'d docker_lib \<Rightarrow> (string \<Rightarrow> time option) \<Rightarrow> string \<Rightarrow> 'd \<Rightarrow> string + container_info option" where
  "docker_find lib parse_ts name d = (case dk_inspect lib name d of
       Inr ins \<Rightarrow> Inr (Some (docker_info parse_ts ins))
     | Inl No_Such_Container \<Rightarrow> Inr None
     | Inl (Docker_Error e) \<Rightarrow> Inl (''docker find_container '' @ name @ '': '' @ e))"

definition docker_log_options :: "bool \<Rightarrow> log_options \<Rightarrow> docker_logs_options" where
  "docker_log_options following options = \<lparr>dl_follow = following, dl_timestamps = lo_timestamps options,
     dl_tail = (case lo_tail_lines options of Some n \<Rightarrow> show_int n | None \<Rightarrow> ''all'')\<rparr>"

definition line_since :: "(string \<Rightarrow> time option) \<Rightarrow> time \<Rightarrow> string \<Rightarrow> bool" where
  "line_since parse_ts since line = (case split_whitespace line of
       [] \<Rightarrow> True
     | ts # _ \<Rightarrow> (case parse_ts ts of Some t \<Rightarrow> since \<le> t | None \<Rightarrow> True))"

definition docker_since :: "(string \<Rightarrow> time option) \<Rightarrow> log_options \<Rightarrow> string \<Rightarrow> string" where
  "docker_since parse_ts options out = (case lo_since_time options of
       Some since \<Rightarrow>
         (if lo_timestamps options
          then concat (map (\<lambda>l. l @ [CHR 0x0A]) (filter (line_since parse_ts since) (lines out)))
          else out)
     | None \<Rightarrow> out)"

text \<open>\<open>None\<close> stands for the panic of \<open>String::truncate\<close>.\<close>

definition docker_logs ::
  "'d docker_lib \<Rightarrow> (string \<Rightarrow> time option) \<Rightarrow> string \<Rightarrow> log_options \<Rightarrow> 'd \<Rightarrow> (string + string) option" where
  "docker_logs lib parse_ts cid options d =
     (let msgs = dk_logs lib (docker_strip cid) (docker_log_options False options) d in
      case first_error msgs of
        Some e \<Rightarrow> Some (Inl (''docker logs '' @ cid @ '': '' @ e))
      | None \<Rightarrow>
          let out = docker_since parse_ts options (concat (map (\<lambda>m. from_utf8_lossy (projr m)) msgs)) in
          (case lo_limit_bytes options of
             Some n \<Rightarrow> map_option Inr (if length out > i64_as_usize n then truncate_str (i64_as_usize n) out else Some out)
           | None \<Rightarrow> Some (Inr out)))"

definition docker_stream :: "'d docker_lib \<Rightarrow> string \<Rightarrow> log_options \<Rightarrow> 'd \<Rightarrow> string + chunk list" where
  "docker_stream lib cid options d =
     Inr (map (map_sum (\<lambda>e. ''docker logs stream: '' @ e) bytes_of)
            (dk_logs lib (docker_strip cid) (docker_log_options True options) d))"

text \<open>
  Polling for the exit code, at most 86400 times: the exit code is sent at the first look at which the
  process is not running; an error ends the polling.
\<close>

fun docker_poll :: "nat \<Rightarrow> (nat \<Rightarrow> string + exec_look) \<Rightarrow> nat \<Rightarrow> i32 option" where
  "docker_poll 0 looks i = None"
| "docker_poll (Suc k) looks i = (case looks i of
       Inl _ \<Rightarrow> None
     | Inr l \<Rightarrow> if xl_running l = Some False then Some (wrap_i32 (case xl_exit_code l of Some c \<Rightarrow> c | None \<Rightarrow> 0))
               else docker_poll k looks (Suc i))"

definition docker_exec :: "'d docker_lib \<Rightarrow> string \<Rightarrow> string list \<Rightarrow> bool \<Rightarrow> 'd \<Rightarrow> string + exec_session" where
  "docker_exec lib cid cmd tty d = (case dk_create_exec lib (docker_strip cid) cmd tty d of
       Inl e \<Rightarrow> Inl (''docker create_exec: '' @ e)
     | Inr eid \<Rightarrow> (case dk_start_exec lib eid d of
         Inl e \<Rightarrow> Inl (''docker start_exec: '' @ e)
       | Inr Detached \<Rightarrow> Inl ''docker exec detached unexpectedly''
       | Inr (Attached output) \<Rightarrow> Inr \<lparr>xs_output = map (map_sum (\<lambda>e. ''exec output: '' @ e) bytes_of) output,
             xs_exit = Some (docker_poll 86400 (dk_inspect_exec lib eid d) 0)\<rparr>))"

definition docker_ops :: "'d docker_lib \<Rightarrow> (string \<Rightarrow> time option) \<Rightarrow> 'd runtime_ops" where
  "docker_ops lib parse_ts = \<lparr>rt_create = docker_create lib, rt_find = docker_find lib parse_ts, rt_remove = default_remove,
     rt_logs = (\<lambda>cid options d. case docker_logs lib parse_ts cid options d of Some res \<Rightarrow> res | None \<Rightarrow> Inl ''panicked''),
     rt_stream = docker_stream lib, rt_exec = docker_exec lib, rt_name = (\<lambda>_. ''docker'')\<rparr>"

end
