(* ===== verification/Docker_Props.thy ===== *)
theory Docker_Props
  imports Docker_Runtime Agent_Sync
begin

text \<open>
  Properties of the Docker engine: created containers are found, declared ports are reported with the host ports
  the daemon chose, the exit code of an exec session, and what is never removed.
\<close>

section \<open>Creation\<close>

text \<open>What the daemon promises: a container that was created can be looked up by its name.\<close>

definition daemon_ok :: "'d docker_lib \<Rightarrow> bool" where
  "daemon_ok lib \<longleftrightarrow> (\<forall>name cfg d cid d' r d''. dk_create lib name cfg d = (Inr cid, d') \<longrightarrow> dk_start lib cid d' = (r, d'') \<longrightarrow>
     (\<exists>ins. dk_inspect lib name d'' = Inr ins \<and> di_id ins = Some cid))"

lemma docker_create_cases:
  assumes "docker_create lib uid now name c d = (res, d')" "docker_pull lib (co_image c) d = (Inr (), d1)"
    and "dk_create lib name (docker_config_of name c) d1 = (Inr cid, d2)" "dk_start lib cid d2 = (r, d3)"
  shows "d' = d3 \<and> res = (case r of Inl e \<Rightarrow> Inl (''docker start '' @ name @ '': '' @ e) | Inr _ \<Rightarrow> Inr (docker_prefix @ cid))"
  using assms by (auto simp: docker_create_def bindR_def mapE_def tryR_def returnR_def failR_def split: sum.splits)

lemma docker_create_Inr:
  assumes "docker_create lib uid now name c d = (Inr cid, d')"
  obtains d1 d2 dcid where "dk_create lib name (docker_config_of name c) d1 = (Inr dcid, d2)"
    "dk_start lib dcid d2 = (Inr (), d')" "cid = docker_prefix @ dcid"
  using assms
  by (auto simp: docker_create_def bindR_def mapE_def tryR_def returnR_def failR_def split: prod.splits sum.splits)

lemma strip_docker_prefix: "docker_strip (docker_prefix @ s) = s"
  by (simp add: docker_strip_def docker_prefix_def strip_prefix_def starts_with_def)

text \<open>
  A container created through Docker is found under the name it was given, with the identifier that the
  creation returned, and requests for its logs and for commands in it go to the daemon under the
  daemon's own identifier.
\<close>

theorem docker_created_found:
  assumes "daemon_ok lib" "docker_create lib uid now name c d = (Inr cid, d')"
  shows "\<exists>info dcid. docker_find lib parse_ts name d' = Inr (Some info) \<and> cinf_id info = cid \<and>
    cid = docker_prefix @ dcid \<and> docker_strip cid = dcid"
proof -
  obtain d1 d2 dcid where "dk_create lib name (docker_config_of name c) d1 = (Inr dcid, d2)"
    "dk_start lib dcid d2 = (Inr (), d')" and c: "cid = docker_prefix @ dcid"
    by (rule docker_create_Inr [OF assms(2)])
  then obtain ins where "dk_inspect lib name d' = Inr ins" "di_id ins = Some dcid"
    using assms(1) unfolding daemon_ok_def by blast
  with c show ?thesis by (simp add: docker_find_def docker_info_def Let_def strip_docker_prefix)
qed

text \<open>
  If the container can be created but not started, the creation fails and the container stays: the next look
  for the name finds it, so it is not created again.
\<close>

theorem docker_failed_start_found:
  assumes "daemon_ok lib" "docker_pull lib (co_image c) d = (Inr (), d1)"
    and "dk_create lib name (docker_config_of name c) d1 = (Inr dcid, d2)" "dk_start lib dcid d2 = (Inl e, d3)"
  shows "docker_create lib uid now name c d = (Inl (''docker start '' @ name @ '': '' @ e), d3) \<and>
    (\<exists>info. docker_find lib parse_ts name d3 = Inr (Some info) \<and> cinf_id info = docker_prefix @ dcid)"
proof -
  obtain res d' where r: "docker_create lib uid now name c d = (res, d')" by fastforce
  obtain ins where "dk_inspect lib name d3 = Inr ins" "di_id ins = Some dcid"
    using assms unfolding daemon_ok_def by blast
  with docker_create_cases [OF r assms(2-4)] r show ?thesis by (simp add: docker_find_def docker_info_def Let_def)
qed

section \<open>Ports\<close>

lemma splitn2_port_key: "splitn2 (CHR ''/'') (port_key p) = (show_int (cp_container_port p), Some (protocol_text (cp_protocol p)))"
proof -
  have "CHR ''/'' \<notin> set (show_nat n)" for n using digits_show_nat [of n] by (auto simp: list_all_iff is_digit_def)
  then have "CHR ''/'' \<notin> set (show_int (cp_container_port p))" by (simp add: show_int_def)
  from splitn2_append [OF this] show ?thesis by (simp add: port_key_def)
qed

lemma parse_i32_show_int: "i32_ok n \<Longrightarrow> parse_i32 (show_int n) = Some n"
  by (simp add: parse_i32_def parse_i64_show_int i32_ok_def)

lemma bindings_keys:
  "fst ` set (fold (\<lambda>p. hm_insert (port_key p) b) ports m) = fst ` set m \<union> port_key ` set ports"
proof (induction ports arbitrary: m)
  case (Cons p ports)
  have "fst ` set (hm_insert (port_key p) b m) = insert (port_key p) (fst ` set m)"
    by (simp add: hm_insert_def dom_update)
  with Cons show ?case by auto
qed simp


text \<open>What the daemon reports once it has chosen a host port \<open>h k\<close> for every key \<open>k\<close> it was asked to publish.\<close>

definition published :: "(string \<Rightarrow> nat) \<Rightarrow> container \<Rightarrow> docker_ports" where
  "published h c = map (\<lambda>(k, b). (k, Some [\<lparr>pb_host_ip = Some ''0.0.0.0'', pb_host_port = Some (show_nat (h k))\<rparr>])) (docker_bindings c)"

definition mapping_of :: "(string \<Rightarrow> nat) \<Rightarrow> container_port \<Rightarrow> port_mapping" where
  "mapping_of h p = \<lparr>pm_container_port = cp_container_port p, pm_host_port = h (port_key p), pm_protocol = protocol_text (cp_protocol p)\<rparr>"

lemma port_entry_published:
  assumes "i32_ok (cp_container_port p)" "h (port_key p) \<le> 65535"
  shows "port_entry (port_key p, Some [\<lparr>pb_host_ip = x, pb_host_port = Some (show_nat (h (port_key p)))\<rparr>]) = [mapping_of h p]"
  using assms by (simp add: port_entry_def splitn2_port_key parse_i32_show_int binding_port_def mapping_of_def map_filter_simps)

lemma docker_bindings_keys:
  assumes "co_ports c = Some ports"
  shows "fst ` set (docker_bindings c) = port_key ` set ports" "distinct (map fst (docker_bindings c))"
proof -
  show "fst ` set (docker_bindings c) = port_key ` set ports"
    using bindings_keys [of _ ports "[]"] assms by (simp add: docker_bindings_def)
  have "distinct (map fst (fold (\<lambda>p. hm_insert (port_key p) b) ports m))" if "distinct (map fst m)" for b and m :: docker_ports
    using that by (induction ports arbitrary: m) (auto simp: hm_insert_def distinct_update)
  then show "distinct (map fst (docker_bindings c))" using assms by (simp add: docker_bindings_def)
qed

lemma set_concat_singletons:
  assumes "\<And>x. x \<in> set xs \<Longrightarrow> \<exists>p \<in> A. g x = [f p]" "\<And>p. p \<in> A \<Longrightarrow> \<exists>x \<in> set xs. g x = [f p]"
  shows "set (concat (map g xs)) = f ` A"
proof (intro set_eqI iffI)
  fix y assume "y \<in> set (concat (map g xs))"
  then obtain x where "x \<in> set xs" "y \<in> set (g x)" by auto
  then show "y \<in> f ` A" using assms(1) [of x] by auto
next
  fix y assume "y \<in> f ` A"
  then obtain p where "p \<in> A" "y = f p" by blast
  then obtain x where "x \<in> set xs" "g x = [y]" using assms(2) by blast
  then show "y \<in> set (concat (map g xs))" by force
qed

lemma parse_published:
  assumes "co_ports c = Some ports" "\<forall>p \<in> set ports. i32_ok (cp_container_port p)" "\<forall>k. h k \<le> 65535"
  shows "set (parse_docker_ports (published h c)) = mapping_of h ` set ports"
    and "length (parse_docker_ports (published h c)) = card (port_key ` set ports)"
proof -
  let ?f = "\<lambda>(k, b). (k, Some [\<lparr>pb_host_ip = Some ''0.0.0.0'', pb_host_port = Some (show_nat (h k))\<rparr>])"
  note k = docker_bindings_keys [OF assms(1)]
  have f: "port_entry (?f x) = [mapping_of h p]" if "p \<in> set ports" "fst x = port_key p" for x p
    using port_entry_published [of p h "Some ''0.0.0.0''"] assms(2,3) that by (cases x) auto
  have e: "\<exists>p \<in> set ports. port_entry (?f x) = [mapping_of h p] \<and> fst x = port_key p" if "x \<in> set (docker_bindings c)" for x
  proof -
    have "fst x \<in> port_key ` set ports" unfolding k(1) [symmetric] using that by (rule imageI)
    then show ?thesis using f by blast
  qed
  have g: "\<exists>x \<in> set (docker_bindings c). port_entry (?f x) = [mapping_of h p]" if "p \<in> set ports" for p
  proof -
    have "port_key p \<in> fst ` set (docker_bindings c)" unfolding k(1) using that by blast
    then show ?thesis using f [OF that] by force
  qed
  have c: "parse_docker_ports (published h c) = concat (map (\<lambda>x. port_entry (?f x)) (docker_bindings c))"
    by (simp add: parse_docker_ports_def published_def comp_def)
  show "set (parse_docker_ports (published h c)) = mapping_of h ` set ports"
    unfolding c by (rule set_concat_singletons) (use e g in blast)+
  have "length (concat (map g xs)) = length xs" if "\<And>x. x \<in> set xs \<Longrightarrow> length (g x) = 1" for g :: "string \<times> port_binding list option \<Rightarrow> port_mapping list" and xs
    using that by (induction xs) auto
  from this [of "docker_bindings c" "port_entry \<circ> ?f"]
  have "length (parse_docker_ports (published h c)) = length (docker_bindings c)"
    using e by (fastforce simp: parse_docker_ports_def published_def comp_def)
  then show "length (parse_docker_ports (published h c)) = card (port_key ` set ports)"
    using k by (metis distinct_card length_map list.set_map)
qed

text \<open>
  C28. Ports through Docker and back: every port a container declares is published under the key of its
  number and protocol, and from what the daemon reports the engine reads exactly one mapping for each of
  them, from the declared number and protocol to the host port the daemon chose, and no others.
\<close>

theorem docker_ports_reported:
  assumes "co_ports c = Some ports" "\<forall>p \<in> set ports. i32_ok (cp_container_port p)" "\<forall>k. h k \<le> 65535"
    and "dk_inspect lib name d = Inr ins" "di_network_settings ins = Some ns" "dn_ports ns = Some (published h c)"
  shows "\<exists>info. docker_find lib parse_ts name d = Inr (Some info) \<and> set (cinf_port_mappings info) = mapping_of h ` set ports \<and>
    length (cinf_port_mappings info) = card (port_key ` set ports)"
  using parse_published [OF assms(1-3)] assms(4-6) by (simp add: docker_find_def docker_info_def Let_def)

definition sample_docker :: "(string \<times> docker_config) list docker_lib" where
  "sample_docker = \<lparr>dk_pull = (\<lambda>_ d. ([], d)), dk_create = (\<lambda>name cfg d. (Inr name, (name, cfg) # d)), dk_start = (\<lambda>_ d. (Inr (), d)),
     dk_inspect = (\<lambda>name d. case map_of d name of
         None \<Rightarrow> Inl No_Such_Container
       | Some cfg \<Rightarrow> Inr \<lparr>di_id = Some name, di_state = None, di_restart_count = None,
           di_network_settings = Some \<lparr>dn_ports = map_option (map (\<lambda>(k, b). (k, Some [\<lparr>pb_host_ip = Some ''0.0.0.0'', pb_host_port = Some ''99''\<rparr>]))) (dc_port_bindings cfg),
             dn_networks = None, dn_ip_address = None\<rparr>\<rparr>),
     dk_logs = (\<lambda>_ _ _. []), dk_create_exec = (\<lambda>_ _ _ _. Inr ''x''), dk_start_exec = (\<lambda>_ _. Inr (Attached [])),
     dk_inspect_exec = (\<lambda>_ _ _. Inr \<lparr>xl_running = Some False, xl_exit_code = Some 3\<rparr>)\<rparr>"

definition web_container :: container where
  "web_container = sample_container\<lparr>co_ports := Some [\<lparr>cp_name = None, cp_container_port = 80, cp_host_port = None, cp_protocol = None\<rparr>]\<rparr>"

lemma sample_docker_ok: "daemon_ok sample_docker"
  by (auto simp: daemon_ok_def sample_docker_def)

theorem docker_created_found_witness:
  "\<exists>cid d' info. docker_create sample_docker 1 0 ''web-c'' web_container [] = (Inr cid, d') \<and>
     docker_find sample_docker (\<lambda>_. None) ''web-c'' d' = Inr (Some info) \<and> cinf_id info = cid \<and> docker_strip cid = ''web-c''"
proof -
  have "docker_create sample_docker 1 0 ''web-c'' web_container [] =
      (Inr ''docker://web-c'', [(''web-c'', docker_config_of ''web-c'' web_container)])"
    by (simp add: docker_create_def docker_pull_def sample_docker_def bindR_def mapE_def tryR_def returnR_def docker_prefix_def)
  from this docker_created_found [OF sample_docker_ok this, of "\<lambda>_. None"] show ?thesis by (fastforce simp: docker_prefix_def)
qed

theorem docker_ports_reported_witness:
  "\<exists>info. docker_find sample_docker (\<lambda>_. None) ''web-c'' [(''web-c'', docker_config_of ''web-c'' web_container)] = Inr (Some info) \<and>
     set (cinf_port_mappings info) = {\<lparr>pm_container_port = 80, pm_host_port = 99, pm_protocol = ''tcp''\<rparr>}"
proof -
  let ?d = "[(''web-c'', docker_config_of ''web-c'' web_container)]"
  have n: "show_nat 99 = ''99''" by code_simp
  have b: "docker_bindings web_container \<noteq> []" by (simp add: docker_bindings_def web_container_def sample_container_def hm_insert_def)
  obtain ins ns where i: "dk_inspect sample_docker ''web-c'' ?d = Inr ins" "di_network_settings ins = Some ns"
    "dn_ports ns = Some (published (\<lambda>_. 99) web_container)"
    using b by (simp add: sample_docker_def docker_config_of_def Let_def published_def n)
  have "co_ports web_container = Some [\<lparr>cp_name = None, cp_container_port = 80, cp_host_port = None, cp_protocol = None\<rparr>]"
    by (simp add: web_container_def)
  from docker_ports_reported [OF this _ _ i, of "\<lambda>_. None"] show ?thesis
    by (auto simp: mapping_of_def protocol_text_def i32_ok_def)
qed

section \<open>The exit code of a session\<close>

text \<open>
  The exit code that is delivered is that of the first look at which the process is not running, if it is among
  the looks and no look before it failed.
\<close>

theorem docker_poll_exact:
  "docker_poll k looks i = Some code \<longleftrightarrow>
     (\<exists>j l. i \<le> j \<and> j < i + k \<and> looks j = Inr l \<and> xl_running l = Some False \<and>
        code = wrap_i32 (case xl_exit_code l of Some c \<Rightarrow> c | None \<Rightarrow> 0) \<and>
        (\<forall>m. i \<le> m \<and> m < j \<longrightarrow> (\<exists>l'. looks m = Inr l' \<and> xl_running l' \<noteq> Some False)))"
proof (induction k arbitrary: i)
  case (Suc k)
  let ?up = "\<lambda>m. \<exists>l'. looks m = Inr l' \<and> xl_running l' \<noteq> Some False"
  let ?fin = "\<lambda>j. \<exists>l. looks j = Inr l \<and> xl_running l = Some False \<and> code = wrap_i32 (case xl_exit_code l of Some c \<Rightarrow> c | None \<Rightarrow> 0)"
  have "docker_poll (Suc k) looks i = Some code \<longleftrightarrow> ?fin i \<or> ?up i \<and> docker_poll k looks (Suc i) = Some code"
    by (auto split: sum.split)
  also have "\<dots> \<longleftrightarrow> ?fin i \<or> (\<exists>j. Suc i \<le> j \<and> j < i + Suc k \<and> ?fin j \<and> ?up i \<and> (\<forall>m. Suc i \<le> m \<and> m < j \<longrightarrow> ?up m))"
    unfolding Suc.IH by auto
  also have "\<dots> \<longleftrightarrow> (\<exists>j. i \<le> j \<and> j < i + Suc k \<and> ?fin j \<and> (\<forall>m. i \<le> m \<and> m < j \<longrightarrow> ?up m))" (is "?l \<longleftrightarrow> ?r")
  proof
    assume ?l
    then consider "?fin i" | j where "Suc i \<le> j" "j < i + Suc k" "?fin j" "?up i" "\<forall>m. Suc i \<le> m \<and> m < j \<longrightarrow> ?up m" by blast
    then show ?r
    proof cases
      case 1
      then show ?r by (intro exI [of _ i]) auto
    next
      case (2 j)
      then have "\<forall>m. i \<le> m \<and> m < j \<longrightarrow> ?up m" by (metis Suc_leI le_neq_implies_less)
      with 2 show ?r by (intro exI [of _ j]) auto
    qed
  next
    assume ?r
    then obtain j where j: "i \<le> j" "j < i + Suc k" "?fin j" "\<forall>m. i \<le> m \<and> m < j \<longrightarrow> ?up m" by blast
    show ?l
    proof (cases "j = i")
      case False
      with j(1) have i: "Suc i \<le> j" by simp
      then have "?up i" using j(4) by simp
      moreover have "\<forall>m. Suc i \<le> m \<and> m < j \<longrightarrow> ?up m" using j(4) by simp
      ultimately show ?l using i j(2,3) by blast
    qed (use j in blast)
  qed
  finally show ?case by blast
qed auto

section \<open>Removal\<close>

lemma remove_in_default: "rt_remove rt = default_remove \<Longrightarrow> remove_in rt name l err = (err, l)"
  by (induction l arbitrary: err) (auto simp: default_remove_def split: option.split)

text \<open>
  The Docker engine removes nothing: when the agent sweeps the containers of pods that are gone, it forgets
  them, but the daemon is not asked to stop them. Each is found under its name as before, so it keeps
  running, and a new pod of the same name is given the old container.
\<close>

theorem docker_sweep_keeps_container:
  assumes "index_ok ag" "(ns, p) \<notin> set desired"
  shows "hm_get (ag_pod_containers (sweep_orphans (docker_ops lib parse_ts) desired ag)) (ns, p, c) = None \<and>
    engines_find (docker_ops lib parse_ts) (runtime_name p c) (ag_runtime (sweep_orphans (docker_ops lib parse_ts) desired ag)) =
      engines_find (docker_ops lib parse_ts) (runtime_name p c) (ag_runtime ag)"
proof -
  let ?rt = "docker_ops lib parse_ts"
  have "engines_remove ?rt name es = (Inr (), es)" for name es
    by (simp add: engines_remove_def remove_in_default docker_ops_def)
  then have "ag_runtime (remove_orphan ?rt x a) = ag_runtime a" for x a by (simp add: remove_orphan_def split: prod.split)
  then have "ag_runtime (fold (remove_orphan ?rt) xs a) = ag_runtime a" for xs a by (induction xs arbitrary: a) simp_all
  then show ?thesis using sweep_index(1) [OF assms(1)] assms(2) by (simp add: sweep_orphans_def)
qed

end
