(* ===== verification/Startup.thy ===== *)
theory Startup
  imports Server Agent File_System Utf8
begin

text \<open>
  The process (\<open>src/src/main.rs\<close>, \<open>src/src/util.rs\<close>, \<open>src/src/db/mod.rs\<close> and \<open>run\<close> of \<open>src/src/server/mod.rs\<close>):
  the options of the two commands with their defaults, the name of the host, the database file, and
  the order in which the parts of a server are started.

  clap splits the command line and is not modelled: an option record holds what was given. What the
  operating system and the database answer is the record \<open>boot\<close>. \<open>server_process\<close> is the state: the file
  system, the world of the server, the tasks spawned so far in order, and the address served, if any. The
  process serves until it is stopped, so a run that succeeds ends in the serving state.
\<close>

section \<open>Options\<close>

record server_given =
  sg_db_url :: "string option"
  sg_port :: "nat option"
  sg_host :: "string option"
  sg_pod_cidr :: "string option"
  sg_service_cidr :: "string option"
  sg_containerd_socket :: "string option"
  sg_runtime :: "string option"

record node_given =
  ng_name :: "string option"
  ng_server :: string
  ng_containerd_socket :: "string option"
  ng_runtime :: "string option"

record server_args =
  sa_db_url :: string
  sa_port :: nat
  sa_host :: string
  sa_pod_cidr :: string
  sa_service_cidr :: string
  sa_containerd_socket :: string
  sa_runtime :: string

datatype command = Server_Command server_given | Node_Command node_given

definition or_default :: "'a \<Rightarrow> 'a option \<Rightarrow> 'a" where
  "or_default d x = (case x of Some v \<Rightarrow> v | None \<Rightarrow> d)"

definition default_socket :: string where
  "default_socket = ''/run/containerd/containerd.sock''"

text \<open>\<open>database_url\<close> is the environment variable; a flag goes before it.\<close>

definition server_args_of :: "string option \<Rightarrow> server_given \<Rightarrow> server_args" where
  "server_args_of database_url g =
     \<lparr>sa_db_url = or_default (or_default ''sqlite://./superkube.db'' database_url) (sg_db_url g),
      sa_port = or_default 6443 (sg_port g), sa_host = or_default ''0.0.0.0'' (sg_host g),
      sa_pod_cidr = or_default ''10.244.0.0/16'' (sg_pod_cidr g),
      sa_service_cidr = or_default ''10.96.0.0/12'' (sg_service_cidr g),
      sa_containerd_socket = or_default default_socket (sg_containerd_socket g),
      sa_runtime = or_default ''auto'' (sg_runtime g)\<rparr>"

text \<open>The standard output of \<open>hostname\<close>, \<open>None\<close> if it could not be run.\<close>

definition detect_hostname :: "string option \<Rightarrow> string" where
  "detect_hostname out =
     (case Option.bind out from_utf8 of
        Some s \<Rightarrow> (let trimmed = trim s in
          if trimmed \<noteq> [] then hd (split_on (CHR ''.'') trimmed) else ''localhost'')
      | None \<Rightarrow> ''localhost'')"

section \<open>The database\<close>

text \<open>\<open>trim_start_matches\<close> with a string: the prefix is removed as often as it is there.\<close>

function trim_start_matches :: "string \<Rightarrow> string \<Rightarrow> string" where
  "trim_start_matches pre s =
     (if pre \<noteq> [] \<and> starts_with s pre then trim_start_matches pre (drop (length pre) s) else s)"
  by pat_completeness auto
termination
proof (relation "measure (\<lambda>(pre, s). length s)", goal_cases)
  case (2 pre s)
  then have "take (length pre) s = pre" "pre \<noteq> []" by (simp_all add: starts_with_def)
  then show ?case by (cases s) auto
qed simp

declare trim_start_matches.simps [simp del]

definition is_sqlite_url :: "string \<Rightarrow> bool" where
  "is_sqlite_url url \<longleftrightarrow> starts_with url ''sqlite:''"

definition sqlite_path :: "string \<Rightarrow> string" where
  "sqlite_path url = hd (split_on (CHR ''?'') (trim_start_matches ''//'' (trim_start_matches ''sqlite:'' url)))"

text \<open>\<open>Path::components\<close>: a dot counts only at the front of a relative path.\<close>

definition rust_comps :: "string \<Rightarrow> path" where
  "rust_comps s = (let cs = path_comps s in
     (if \<not> is_abs s \<and> cs \<noteq> [] \<and> hd cs = ''.'' then [''.''] else []) @ norm_comps s)"

definition path_parent :: "string \<Rightarrow> path option" where
  "path_parent s = (if rust_comps s = [] then None else Some (butlast (rust_comps s)))"

definition from_dir :: "path \<Rightarrow> string \<Rightarrow> path \<Rightarrow> path" where
  "from_dir cwd s cs = (if is_abs s then cs else cwd @ cs)"

text \<open>\<open>File::create\<close> on a path that ends in a slash is refused by the kernel.\<close>

definition file_create :: "path \<Rightarrow> string \<Rightarrow> fsys \<Rightarrow> (io_error + unit) \<times> fsys" where
  "file_create cwd s fs =
     (if s \<noteq> [] \<and> last s = CHR ''/'' then (Inl EISDIR, fs) else write_file (from_dir cwd s (path_comps s)) [] fs)"

definition ensure_sqlite_file :: "path \<Rightarrow> string \<Rightarrow> fsys \<Rightarrow> (io_error + unit) \<times> fsys" where
  "ensure_sqlite_file cwd url fs =
     (let path = sqlite_path url in
      if path = [] \<or> path = '':memory:'' then (Inr (), fs)
      else
        let fs' = (case path_parent path of
              Some parent \<Rightarrow> if is_abs path \<or> parent \<noteq> [] then snd (create_dir_all (from_dir cwd path parent) fs) else fs
            | None \<Rightarrow> fs)
        in if path_exists fs' (from_dir cwd path (path_comps path)) then (Inr (), fs') else file_create cwd path fs')"

section \<open>Starting\<close>

record boot =
  bt_connect :: "string \<Rightarrow> string option"
  bt_migrate :: "string option"
  bt_bind :: "string \<Rightarrow> string option"
  bt_hostname :: "string option"
  bt_cwd :: path

record node_args =
  nd_name :: string
  nd_server_url :: string
  nd_containerd_socket :: string
  nd_labels :: smap
  nd_pod_cidr :: string
  nd_runtime :: string

datatype task =
    Change_Log_Listener string string
  | Change_Log_Pruner
  | Controller_Task lease_manager
  | Scheduler_Task lease_manager
  | Node_Agent node_args

record server_process =
  pc_fs :: fsys
  pc_world :: world
  pc_tasks :: "task list"
  pc_serving :: "string option"
  pc_service_cidr :: "string option"

type_synonym 'a process_prog = "server_process \<Rightarrow> (string + 'a) \<times> server_process"

definition spawn :: "task list \<Rightarrow> unit process_prog" where
  "spawn ts pc = (Inr (), pc\<lparr>pc_tasks := pc_tasks pc @ ts\<rparr>)"

definition require :: "string option \<Rightarrow> unit process_prog" where
  "require err pc = (case err of Some m \<Rightarrow> (Inl m, pc) | None \<Rightarrow> (Inr (), pc))"

definition create_pool :: "boot \<Rightarrow> string \<Rightarrow> unit process_prog" where
  "create_pool b url =
     bindR (if is_sqlite_url url
            then (\<lambda>pc. case ensure_sqlite_file (bt_cwd b) url (pc_fs pc) of
                    (res, fs) \<Rightarrow> (case res of Inl err \<Rightarrow> Inl (io_text err) | Inr _ \<Rightarrow> Inr (), pc\<lparr>pc_fs := fs\<rparr>))
            else returnR ()) (\<lambda>_.
     require (bt_connect b url))"

definition start_server :: "env \<Rightarrow> string \<Rightarrow> lease_manager process_prog" where
  "start_server e url pc = (case server_init e url (pc_world pc) of
       (Inr leases, w) \<Rightarrow> (Inr leases, pc\<lparr>pc_world := w\<rparr>)
     | (Inl _, w) \<Rightarrow> (Inl ''server'', pc\<lparr>pc_world := w\<rparr>))"

definition embedded_node :: "boot \<Rightarrow> server_args \<Rightarrow> node_args" where
  "embedded_node b a =
     (let node_name = detect_hostname (bt_hostname b) in
      \<lparr>nd_name = node_name, nd_server_url = ''http://127.0.0.1:'' @ show_nat (sa_port a),
       nd_containerd_socket = sa_containerd_socket a,
       nd_labels = hm_insert ''kubernetes.io/hostname'' node_name
         (hm_insert ''node-role.kubernetes.io/control-plane'' [] []),
       nd_pod_cidr = sa_pod_cidr a, nd_runtime = sa_runtime a\<rparr>)"

definition server_address :: "server_args \<Rightarrow> string" where
  "server_address a = sa_host a @ '':'' @ show_nat (sa_port a)"

definition server_run :: "env \<Rightarrow> boot \<Rightarrow> server_args \<Rightarrow> unit process_prog" where
  "server_run e b a =
     bindR (create_pool b (sa_db_url a)) (\<lambda>_.
     bindR (require (bt_migrate b)) (\<lambda>_.
     bindR (start_server e (sa_db_url a)) (\<lambda>leases.
     bindR (\<lambda>pc. (Inr (), pc\<lparr>pc_service_cidr := Some (sa_service_cidr a)\<rparr>)) (\<lambda>_.
     bindR (if backend_from_url (sa_db_url a) = Postgres
            then spawn [Change_Log_Listener (sa_db_url a) (lm_holder leases), Change_Log_Pruner] else returnR ()) (\<lambda>_.
     bindR (spawn [Controller_Task leases, Scheduler_Task leases]) (\<lambda>_.
     bindR (require (bt_bind b (server_address a))) (\<lambda>_.
     bindR (spawn [Node_Agent (embedded_node b a)]) (\<lambda>_.
     (\<lambda>pc. (Inr (), pc\<lparr>pc_serving := Some (server_address a)\<rparr>))))))))))"

definition node_args_of :: "boot \<Rightarrow> node_given \<Rightarrow> node_args" where
  "node_args_of b g =
     \<lparr>nd_name = or_default (detect_hostname (bt_hostname b)) (ng_name g), nd_server_url = ng_server g,
      nd_containerd_socket = or_default default_socket (ng_containerd_socket g), nd_labels = [],
      nd_pod_cidr = ''10.244.0.0/16'', nd_runtime = or_default ''auto'' (ng_runtime g)\<rparr>"

text \<open>A node agent runs in the foreground; its task stands for the run.\<close>

definition main_run :: "env \<Rightarrow> boot \<Rightarrow> string option \<Rightarrow> command \<Rightarrow> unit process_prog" where
  "main_run e b database_url cmd = (case cmd of
       Server_Command g \<Rightarrow> server_run e b (server_args_of database_url g)
     | Node_Command g \<Rightarrow> spawn [Node_Agent (node_args_of b g)])"

text \<open>The agent of a task, as \<open>run_full\<close> builds it, before it registers.\<close>

definition run_full ::
  "'r runtime_ops \<Rightarrow> target_os \<Rightarrow> (string \<Rightarrow> string + 'r) \<Rightarrow> node_args \<Rightarrow> string + 'r agent" where
  "run_full rt os new a = agent_new rt os new (nd_name a) (nd_server_url a) (nd_labels a) (nd_pod_cidr a) (nd_runtime a)"

text \<open>
  The run of an agent: it registers once, and a registration that gets no answer ends it; then the two
  timers fire in any order, and what fails is logged.
\<close>

datatype agent_tick = Heartbeat_Tick host | Sync_Tick

definition agent_tick_run ::
  "env \<Rightarrow> network \<Rightarrow> (error \<Rightarrow> string) \<Rightarrow> 'r runtime_ops \<Rightarrow> agent_tick \<Rightarrow> ('r, unit) node_prog" where
  "agent_tick_run e net show_err rt t =
     tryR (case t of Heartbeat_Tick h \<Rightarrow> send_heartbeat e net show_err h | Sync_Tick \<Rightarrow> sync_pods e net show_err rt)
       (\<lambda>_. returnR ())"

definition agent_run ::
  "env \<Rightarrow> network \<Rightarrow> (error \<Rightarrow> string) \<Rightarrow> 'r runtime_ops \<Rightarrow> host \<Rightarrow> agent_tick list \<Rightarrow> ('r, unit) node_prog" where
  "agent_run e net show_err rt h ticks =
     bindR (register_node e net h) (\<lambda>_. foldR (\<lambda>t _. agent_tick_run e net show_err rt t) ticks ())"

section \<open>The file of a SQLite database\<close>

text \<open>Every node of one file system is in the other, unchanged.\<close>

definition fs_extends :: "fsys \<Rightarrow> fsys \<Rightarrow> bool" where
  "fs_extends fs fs' \<longleftrightarrow> (\<forall>p x. node_at fs p = Some x \<longrightarrow> node_at fs' p = Some x)"

lemma fs_extends_refl [simp]: "fs_extends fs fs"
  by (simp add: fs_extends_def)

lemma fs_extends_trans: "fs_extends a b \<Longrightarrow> fs_extends b c \<Longrightarrow> fs_extends a c"
  by (simp add: fs_extends_def)

lemma fs_extends_put: "node_at fs q = None \<Longrightarrow> fs_extends fs (put_node q x fs)"
  by (cases "q = []") (auto simp: fs_extends_def node_at_put, simp add: node_at_def)

lemma make_dirs_extends: "fs_extends fs (snd (make_dirs before cs fs))"
proof (induction before cs fs rule: make_dirs.induct)
  case (2 before c cs fs)
  show ?case
  proof (cases "metadata fs (before @ [c])")
    case None
    show ?thesis
    proof (cases "nofollow fs (before @ [c])")
      case (Inr q)
      show ?thesis
      proof (cases "node_at fs q")
        case unset: None
        with 2(1) [OF None Inr] fs_extends_put [OF unset, of FDir] show ?thesis
          by (simp add: None Inr fs_extends_trans)
      qed (simp add: None Inr)
    qed (simp add: None)
  next
    case (Some x)
    with 2(2) show ?thesis by (cases x) simp_all
  qed
qed simp

lemma create_dir_all_extends: "fs_extends fs (snd (create_dir_all cs fs))"
  by (simp add: create_dir_all_def make_dirs_extends)

text \<open>Putting a file where a path ends does not lead the path elsewhere.\<close>

lemma resolve_put:
  assumes "resolve n fs p cs = Inr q" "node_at fs q = None"
  shows "resolve n (put_node q (FFile d) fs) p cs = Inr q"
  using assms
proof (induction n fs p cs rule: resolve.induct)
  case (2 n fs p c cs)
  have ne: "q \<noteq> []" using "2.prems"(2) by (auto simp: node_at_def)
  have new: "map_of (put_node q (FFile d) fs) r = (if r = q then Some (FFile d) else map_of fs r)" for r
    by (simp add: put_node_def hm_insert_def update_conv')
  have unset: "map_of fs q = None" using "2.prems"(2) ne by (simp add: node_at_def)
  show ?case
  proof (cases "c = ''.'' \<or> c = ''..''")
    case True
    then show ?thesis using 2 by auto
  next
    case False
    show ?thesis
    proof (cases "map_of fs (p @ [c])")
      case None
      then have "cs = [] \<and> q = p @ [c]" using "2.prems"(1) False by (auto split: if_splits)
      then show ?thesis using False new [of "p @ [c]"] by simp
    next
      case (Some x)
      then have "p @ [c] \<noteq> q" using unset by auto
      show ?thesis
      proof (cases x)
        case (FLink t)
        with Some False 2 \<open>p @ [c] \<noteq> q\<close> show ?thesis by (cases n) (simp_all add: new)
      qed (use Some False 2 \<open>p @ [c] \<noteq> q\<close> in \<open>auto simp: new split: if_splits\<close>)
    qed
  qed
qed simp

lemma write_new_file:
  assumes "\<not> path_exists fs cs"
  shows "fs_extends fs (snd (write_file cs d fs))"
    and "fst (write_file cs d fs) = Inr () \<Longrightarrow> path_exists (snd (write_file cs d fs)) cs"
proof -
  show "fs_extends fs (snd (write_file cs d fs))"
    using assms fs_extends_put by (auto simp: write_file_def path_exists_def metadata_def split: sum.splits)
  assume ok: "fst (write_file cs d fs) = Inr ()"
  then obtain q where q: "follow fs cs = Inr q" by (auto simp: write_file_def split: sum.splits)
  then have unset: "node_at fs q = None" using assms by (simp add: path_exists_def metadata_def)
  then have "q \<noteq> []" by (auto simp: node_at_def)
  moreover have "follow (put_node q (FFile d) fs) cs = Inr q"
    using resolve_put [OF q [unfolded follow_def] unset] by (simp add: follow_def)
  ultimately show "path_exists (snd (write_file cs d fs)) cs"
    using q unset by (simp add: write_file_def path_exists_def metadata_def node_at_put)
qed

text \<open>
  C39. Starting on a SQLite database never harms one that is there: \<open>ensure_sqlite_file\<close>, whether it succeeds
  or fails, keeps every file, directory and link as it was, and when it succeeds and the URL
  names a file, that path exists, so that opening the database need not create it.
\<close>

theorem sqlite_file_ready:
  "fs_extends fs (snd (ensure_sqlite_file cwd url fs)) \<and>
   (fst (ensure_sqlite_file cwd url fs) = Inr () \<longrightarrow> sqlite_path url \<noteq> [] \<longrightarrow> sqlite_path url \<noteq> '':memory:'' \<longrightarrow>
    path_exists (snd (ensure_sqlite_file cwd url fs)) (from_dir cwd (sqlite_path url) (path_comps (sqlite_path url))))"
proof -
  define path where "path = sqlite_path url"
  define fs' where "fs' = (case path_parent path of
      Some parent \<Rightarrow> if is_abs path \<or> parent \<noteq> [] then snd (create_dir_all (from_dir cwd path parent) fs) else fs
    | None \<Rightarrow> fs)"
  have ext: "fs_extends fs fs'" by (simp add: fs'_def create_dir_all_extends split: option.split)
  note create = file_create_def write_new_file [of fs' "from_dir cwd path (path_comps path)" "[]"]
  have eq: "ensure_sqlite_file cwd url fs =
      (if path = [] \<or> path = '':memory:'' then (Inr (), fs)
       else if path_exists fs' (from_dir cwd path (path_comps path)) then (Inr (), fs') else file_create cwd path fs')"
    unfolding ensure_sqlite_file_def Let_def fs'_def path_def by (rule refl)
  show ?thesis
    unfolding eq path_def [symmetric]
    using ext create by (auto intro: fs_extends_trans split: if_splits)
qed

text \<open>On an empty disk the default database is created in the working directory.\<close>

definition home_fs :: fsys where
  "home_fs = [([''home''], FDir)]"

theorem sqlite_file_ready_witness:
  "path_exists (snd (ensure_sqlite_file [''home''] ''sqlite://./superkube.db'' home_fs)) [''home'', ''.'', ''superkube.db'']"
proof -
  have "fst (ensure_sqlite_file [''home''] ''sqlite://./superkube.db'' home_fs) = Inr ()"
    and "sqlite_path ''sqlite://./superkube.db'' = ''./superkube.db''"
    and "path_comps ''./superkube.db'' = [''.'', ''superkube.db'']" "\<not> is_abs ''./superkube.db''"
    by code_simp+
  then show ?thesis
    using sqlite_file_ready [of home_fs "[''home'']" "''sqlite://./superkube.db''"] by (simp add: from_dir_def)
qed

section \<open>The order of starting\<close>

lemma server_init_ok:
  "server_init e url w = (Inr leases, w') \<Longrightarrow>
     lm_backend leases = backend_from_url url \<and> w_tasks w' = [] \<and> w_bus w' = [] \<and>
     w_replicator w' = (case backend_from_url url of
        Postgres \<Rightarrow> Some \<lparr>rp_instance_id = lm_holder leases, rp_channel = default_notify_channel\<rparr> | Sqlite \<Rightarrow> None)"
  by (auto simp: server_init_def lease_manager_new_def bindR_def returnR_def new_v4_def)

lemma start_server_ok: "\<exists>leases w. start_server e url pc = (Inr leases, pc\<lparr>pc_world := w\<rparr>) \<and>
    server_init e url (pc_world pc) = (Inr leases, w)"
  by (simp add: start_server_def server_init_def lease_manager_new_def bindR_def returnR_def new_v4_def)

lemma create_pool_cases:
  obtains (failed) m fs where "create_pool b url pc = (Inl m, pc\<lparr>pc_fs := fs\<rparr>)"
  | (connected) fs where "create_pool b url pc = (Inr (), pc\<lparr>pc_fs := fs\<rparr>)" "bt_connect b url = None"
proof (cases "is_sqlite_url url")
  case True
  obtain res fs where "ensure_sqlite_file (bt_cwd b) url (pc_fs pc) = (res, fs)" by fastforce
  then show ?thesis using True that
    by (cases res; cases "bt_connect b url") (auto simp: create_pool_def bindR_def require_def)
next
  case False
  then have "create_pool b url pc = (case bt_connect b url of Some m \<Rightarrow> Inl m | None \<Rightarrow> Inr (), pc\<lparr>pc_fs := pc_fs pc\<rparr>)"
    by (simp add: create_pool_def bindR_def returnR_def require_def split: option.split)
  then show ?thesis using that(1) [of _ "pc_fs pc"] that(2) [of "pc_fs pc"] by (cases "bt_connect b url") simp_all
qed

text \<open>What a server has started when its run ends, with or without an error.\<close>

definition started :: "server_args \<Rightarrow> lease_manager \<Rightarrow> task list" where
  "started a leases =
     (if backend_from_url (sa_db_url a) = Postgres
      then [Change_Log_Listener (sa_db_url a) (lm_holder leases), Change_Log_Pruner] else []) @
     [Controller_Task leases, Scheduler_Task leases]"

lemma server_run_cases:
  obtains (no_database) m fs where "server_run e b a pc = (Inl m, pc\<lparr>pc_fs := fs\<rparr>)"
  | (no_address) m fs leases w where
      "server_run e b a pc = (Inl m, pc\<lparr>pc_fs := fs, pc_world := w, pc_service_cidr := Some (sa_service_cidr a),
         pc_tasks := pc_tasks pc @ started a leases\<rparr>)"
      "server_init e (sa_db_url a) (pc_world pc) = (Inr leases, w)" "bt_bind b (server_address a) = Some m"
      "bt_connect b (sa_db_url a) = None" "bt_migrate b = None"
  | (serving) fs leases w where
      "server_run e b a pc = (Inr (), pc\<lparr>pc_fs := fs, pc_world := w, pc_service_cidr := Some (sa_service_cidr a),
         pc_tasks := pc_tasks pc @ started a leases @ [Node_Agent (embedded_node b a)],
         pc_serving := Some (server_address a)\<rparr>)"
      "server_init e (sa_db_url a) (pc_world pc) = (Inr leases, w)" "bt_bind b (server_address a) = None"
proof (cases rule: create_pool_cases [of b "sa_db_url a" pc])
  case (failed m fs)
  then show ?thesis using no_database by (simp add: server_run_def bindR_def)
next
  case (connected fs)
  let ?pc = "pc\<lparr>pc_fs := fs\<rparr>"
  show ?thesis
  proof (cases "bt_migrate b")
    case (Some m)
    then show ?thesis using no_database connected by (simp add: server_run_def bindR_def require_def)
  next
    case None
    obtain leases w where st: "start_server e (sa_db_url a) ?pc = (Inr leases, ?pc\<lparr>pc_world := w\<rparr>)"
        "server_init e (sa_db_url a) (pc_world pc) = (Inr leases, w)"
      using start_server_ok [of e "sa_db_url a" ?pc] by auto
    note run = server_run_def bindR_def require_def spawn_def returnR_def started_def
    show ?thesis
    proof (cases "bt_bind b (server_address a)")
      case bind: (Some m)
      show ?thesis by (rule no_address [OF _ st(2) bind connected(2) None, where fs = fs])
          (simp add: run connected None st(1) bind)
    next
      case bind: None
      show ?thesis by (rule serving [OF _ st(2) bind, where fs = fs])
          (simp add: run connected None st(1) bind)
    qed
  qed
qed


definition sample_boot :: boot where
  "sample_boot = \<lparr>bt_connect = (\<lambda>_. None), bt_migrate = None, bt_bind = (\<lambda>_. None), bt_hostname = Some ''box.local'',
     bt_cwd = [''home'']\<rparr>"

definition sample_given :: server_given where
  "sample_given = \<lparr>sg_db_url = Some ''postgres://db'', sg_port = Some 80, sg_host = None, sg_pod_cidr = None,
     sg_service_cidr = None, sg_containerd_socket = None, sg_runtime = None\<rparr>"

definition sample_process :: server_process where
  "sample_process = \<lparr>pc_fs = home_fs, pc_world = empty_world, pc_tasks = [], pc_serving = None, pc_service_cidr = None\<rparr>"


section \<open>The nodes\<close>

lemma agent_tick_step:
  "\<exists>s'. agent_tick_run e net show_err rt t s = (Inr (), s') \<and> agent_step e net show_err rt s s'"
proof (cases t)
  case (Heartbeat_Tick h)
  then show ?thesis using step_heartbeat [of e net show_err rt s h]
    by (auto simp: agent_tick_run_def tryR_def returnR_def split: prod.split)
next
  case Sync_Tick
  then show ?thesis using step_sync [of e net show_err rt s]
    by (auto simp: agent_tick_run_def tryR_def returnR_def split: prod.split)
qed

lemma agent_ticks_steps:
  "\<exists>s'. foldR (\<lambda>t _. agent_tick_run e net show_err rt t) ticks () s = (Inr (), s') \<and>
     (agent_step e net show_err rt)\<^sup>*\<^sup>* s s'"
proof (induction ticks arbitrary: s)
  case (Cons t ticks)
  obtain s1 where "agent_tick_run e net show_err rt t s = (Inr (), s1)" and st: "agent_step e net show_err rt s s1"
    using agent_tick_step by blast
  moreover obtain s' where "foldR (\<lambda>t _. agent_tick_run e net show_err rt t) ticks () s1 = (Inr (), s')"
    and "(agent_step e net show_err rt)\<^sup>*\<^sup>* s1 s'" using Cons.IH by blast
  moreover from st this(2) have "(agent_step e net show_err rt)\<^sup>*\<^sup>* s s'"
    by (rule converse_rtranclp_into_rtranclp)
  ultimately show ?case by (simp add: bindR_def)
qed (simp add: returnR_def)

text \<open>
  The run of an agent is a registration followed by steps of the agent; it ends with an error exactly when the
  registration gets no answer, and no failure of a heartbeat or a pass ends it.
\<close>

theorem agent_run_steps:
  "\<exists>s1. register_node e net h s = (fst (agent_run e net show_err rt h ticks s), s1) \<and>
     (agent_step e net show_err rt)\<^sup>*\<^sup>* s1 (snd (agent_run e net show_err rt h ticks s))"
proof -
  obtain res s1 where r: "register_node e net h s = (res, s1)" by fastforce
  obtain s' where "foldR (\<lambda>t _. agent_tick_run e net show_err rt t) ticks () s1 = (Inr (), s')"
    and "(agent_step e net show_err rt)\<^sup>*\<^sup>* s1 s'" using agent_ticks_steps by blast
  with r show ?thesis by (cases res) (auto simp: agent_run_def bindR_def)
qed

text \<open>
  The host of the server shows up as the control plane, whatever it is called; the node of a separate agent
  has no role.
\<close>

theorem node_roles_of_commands:
  "node_roles (build_node_object h now1 now2 uid (nd_name (embedded_node b a)) (nd_labels (embedded_node b a))) = ''control-plane''"
  "node_roles (build_node_object h now1 now2 uid (nd_name (node_args_of b g)) (nd_labels (node_args_of b g))) = ''<none>''"
  by (simp_all add: node_roles_def build_node_object_def embedded_node_def node_args_of_def hm_insert_def
      strip_prefix_def List.map_filter_def object_meta_default_def Let_def)

text \<open>A host whose name starts with a dot gets an empty node name; any other name is its first label.\<close>

theorem detect_hostname_label:
  "(CHR ''.'' \<notin> set (detect_hostname out)) \<and> detect_hostname (Some ''.local'') = []"
proof -
  have "list_all (\<lambda>p. CHR ''.'' \<notin> set p) (split_on (CHR ''.'') s) \<and> split_on (CHR ''.'') s \<noteq> []" for s
    by (induction s) (auto split: list.splits)
  then have "CHR ''.'' \<notin> set (hd (split_on (CHR ''.'') s))" for s
    by (metis list.set_sel(1) list_all_iff)
  moreover have "detect_hostname (Some ''.local'') = []" by code_simp
  ultimately show ?thesis by (auto simp: detect_hostname_def Let_def split: option.split)
qed

end
