(* ===== verification/Listener.thy ===== *)
theory Listener
  imports Bus "HOL-Library.Multiset"
begin

text \<open>
  The LISTEN task of \<open>src/src/server/mod.rs\<close> (\<open>spawn_change_log_listener\<close>) as a state machine, and the
  task together with a server that replicates to it.

  The states are the points where the task waits: for the connection pool, for the listener's
  connection, for the answer to LISTEN, or in \<open>recv\<close> with the notifications that have arrived on the
  connection. PostgreSQL hands a notification to the sessions that listen when it is sent and to
  nobody else; \<open>PgListener::recv\<close> reconnects by itself when the connection is lost, and what is sent
  meanwhile is gone (\<open>Connection_Lost\<close>). After a failure the task sleeps and starts again.

  \<open>pair_step\<close> adds the server the events come from: its spawned replications run in any order, each
  as one step; the change log and the notifications are the shared database's.
\<close>

section \<open>The task\<close>

datatype listener_state = Opening | Attaching | Subscribing | Receiving "string list"

datatype listener_label =
    Answered bool
  | Notified string string
  | Received
  | Recv_Failed
  | Connection_Lost

text \<open>What a notification does to the task: it reaches a connection that listens on its channel.\<close>

fun deliver :: "string \<times> string \<Rightarrow> listener_state \<Rightarrow> listener_state" where
  "deliver (channel, payload) (Receiving q) =
     (if channel = default_notify_channel then Receiving (q @ [payload]) else Receiving q)"
| "deliver n s = s"

fun connect_step :: "bool \<Rightarrow> listener_state \<Rightarrow> listener_state" where
  "connect_step ok (Receiving q) = Receiving q"
| "connect_step False s = Opening"
| "connect_step True Opening = Attaching"
| "connect_step True Attaching = Subscribing"
| "connect_step True Subscribing = Receiving []"

fun listener_step :: "env \<Rightarrow> string \<Rightarrow> listener_label \<Rightarrow> listener_state \<times> world \<Rightarrow> listener_state \<times> world" where
  "listener_step e inst (Answered ok) (s, w) = (connect_step ok s, w)"
| "listener_step e inst (Notified channel payload) (s, w) = (deliver (channel, payload) s, w)"
| "listener_step e inst Received (Receiving (p # q), w) = (Receiving q, snd (listener_handle e inst p w))"
| "listener_step e inst Recv_Failed (Receiving q, w) = (Opening, w)"
| "listener_step e inst Connection_Lost (Receiving q, w) = (Receiving [], w)"
| "listener_step e inst l (s, w) = (s, w)"

section \<open>A server and its peer\<close>

record pair =
  pr_origin :: world
  pr_listener :: listener_state
  pr_peer :: world

datatype pair_label = Replicate nat | Listen listener_label

definition shared_log :: "world \<Rightarrow> world \<Rightarrow> world" where
  "shared_log a p = p\<lparr>w_change_log := w_change_log a, w_notifications := w_notifications a\<rparr>"

definition replicate_step :: "env \<Rightarrow> nat \<Rightarrow> pair \<Rightarrow> pair" where
  "replicate_step e i s =
     (let a = snd (run_replication e i (pr_origin s));
          new = drop (length (w_notifications (pr_origin s))) (w_notifications a)
      in \<lparr>pr_origin = a, pr_listener = fold deliver new (pr_listener s),
          pr_peer = shared_log a (pr_peer s)\<rparr>)"

fun pair_step :: "env \<Rightarrow> string \<Rightarrow> pair_label \<Rightarrow> pair \<Rightarrow> pair" where
  "pair_step e inst (Replicate i) s = replicate_step e i s"
| "pair_step e inst (Listen l) s =
     (case listener_step e inst l (pr_listener s, pr_peer s) of
        (ls, p) \<Rightarrow> s\<lparr>pr_listener := ls, pr_peer := p\<rparr>)"

definition pair_run :: "env \<Rightarrow> string \<Rightarrow> pair_label list \<Rightarrow> pair \<Rightarrow> pair" where
  "pair_run e inst ls s = fold (pair_step e inst) ls s"

text \<open>The labels of a listener whose connection holds.\<close>

definition steady :: "pair_label \<Rightarrow> bool" where
  "steady l \<longleftrightarrow> (\<exists>i. l = Replicate i) \<or> l = Listen Received"

definition event_of_row :: "watch_event_type \<Rightarrow> change_log_row \<Rightarrow> change_event" where
  "event_of_row et row = \<lparr>ce_kind = cl_kind row, ce_namespace = cl_namespace row, ce_name = cl_name row,
     ce_event_type = et, ce_object = cl_object row\<rparr>"

definition row_of :: "env \<Rightarrow> replicator \<Rightarrow> world \<Rightarrow> change_event \<Rightarrow> change_log_row" where
  "row_of e rep w ev = \<lparr>cl_id = env_uuid_str e (env_uuid e (w_uuids w)), cl_instance_id = rp_instance_id rep,
     cl_kind = ce_kind ev, cl_namespace = ce_namespace ev, cl_name = ce_name ev,
     cl_event_type = as_wire (ce_event_type ev), cl_object = ce_object ev, cl_created_at = env_now e (w_ticks w)\<rparr>"

text \<open>The identifiers in the log and those the pending tasks will draw are all different.\<close>

definition ids_fresh :: "env \<Rightarrow> world \<Rightarrow> bool" where
  "ids_fresh e w \<longleftrightarrow> distinct (map cl_id (w_change_log w) @
     map (\<lambda>n. env_uuid_str e (env_uuid e n)) [w_uuids w..<w_uuids w + length (w_tasks w)])"

text \<open>The event a notification will bring, when its row is in the log.\<close>

definition brings :: "string \<Rightarrow> change_log_row list \<Rightarrow> string \<Rightarrow> change_event \<Rightarrow> bool" where
  "brings inst log_rows payload ev \<longleftrightarrow> (\<exists>row. List.find (\<lambda>r. cl_id r = payload) log_rows = Some row \<and>
     cl_instance_id row \<noteq> inst \<and> cl_event_type row = as_wire (ce_event_type ev) \<and>
     cl_kind row \<in> set listener_kinds \<and> ev = event_of_row (ce_event_type ev) row)"

section \<open>Lemmas\<close>

lemma ids_fresh_after:
  assumes "ids_fresh e w" "i < length (w_tasks w)" "w_uuids w' = Suc (w_uuids w)"
    "w_change_log w' = w_change_log w @ [row]" "cl_id row = env_uuid_str e (env_uuid e (w_uuids w))"
    "w_tasks w' = take i (w_tasks w) @ drop (Suc i) (w_tasks w)"
  shows "ids_fresh e w'"
proof -
  have "Suc (length (w_tasks w')) = length (w_tasks w)" using assms(2,6) by simp
  then have "[w_uuids w..<w_uuids w + length (w_tasks w)] = w_uuids w # [w_uuids w'..<w_uuids w' + length (w_tasks w')]"
    using assms(3) by (metis add_Suc add_Suc_right less_add_Suc1 upt_conv_Cons)
  then show ?thesis using assms(1,4,5) by (simp add: ids_fresh_def)
qed

lemma ids_fresh_head:
  assumes "ids_fresh e w" "i < length (w_tasks w)"
  shows "\<not> list_ex (\<lambda>r. cl_id r = env_uuid_str e (env_uuid e (w_uuids w))) (w_change_log w)"
proof -
  have "w_uuids w \<in> set [w_uuids w..<w_uuids w + length (w_tasks w)]" using assms(2) by auto
  then show ?thesis using assms(1) by (fastforce simp: ids_fresh_def list_ex_iff)
qed

lemma run_replication_ok:
  assumes "i < length (w_tasks w)" "w_replicator w = Some rep" "no_faults e" "ids_fresh e w"
  shows "snd (run_replication e i w) =
    w\<lparr>w_tasks := take i (w_tasks w) @ drop (Suc i) (w_tasks w),
      w_change_log := w_change_log w @ [row_of e rep w (w_tasks w ! i)],
      w_notifications := w_notifications w @ [(rp_channel rep, cl_id (row_of e rep w (w_tasks w ! i)))],
      w_uuids := Suc (w_uuids w), w_ticks := Suc (w_ticks w), w_stmts := Suc (Suc (w_stmts w))\<rparr>"
proof -
  let ?w1 = "w\<lparr>w_tasks := take i (w_tasks w) @ drop (Suc i) (w_tasks w)\<rparr>"
  have "\<not> list_ex (\<lambda>r. cl_id r = env_uuid_str e (env_uuid e (w_uuids w))) (w_change_log w)"
    by (rule ids_fresh_head [OF assms(4,1)])
  then show ?thesis
    using replicate_event_ok [of e ?w1 rep] assms
    by (simp add: run_replication_def Let_def tryR_def returnR_def no_faults_def row_of_def)
qed

lemma run_replication_none: "\<not> i < length (w_tasks w) \<Longrightarrow> snd (run_replication e i w) = w"
  by (simp add: run_replication_def)

lemma find_append_other:
  "List.find P xs = Some y \<Longrightarrow> List.find P (xs @ ys) = Some y"
  by (induction xs) (auto split: if_splits)

lemma brings_append: "brings inst rows p ev \<Longrightarrow> brings inst (rows @ more_rows) p ev"
  unfolding brings_def using find_append_other by fastforce

lemma brings_new:
  assumes "ids_fresh e w" "i < length (w_tasks w)" "rp_instance_id rep \<noteq> inst" "ce_kind ev \<in> set listener_kinds"
  shows "brings inst (w_change_log w @ [row_of e rep w ev]) (cl_id (row_of e rep w ev)) ev"
proof -
  have "\<not> list_ex (\<lambda>r. cl_id r = cl_id (row_of e rep w ev)) (w_change_log w)"
    using ids_fresh_head [OF assms(1,2)] by (simp add: row_of_def)
  from find_append_fresh [OF this] show ?thesis
    using assms(3,4) by (simp add: brings_def event_of_row_def row_of_def)
qed

text \<open>Handling a notification that brings \<open>ev\<close> sends \<open>ev\<close> and changes nothing else but a counter.\<close>

lemma listener_handle_brings:
  assumes "no_faults e" "brings inst (w_change_log w) payload ev"
  shows "snd (listener_handle e inst payload w) = w\<lparr>w_bus := w_bus w @ [ev], w_stmts := Suc (w_stmts w)\<rparr>"
proof -
  from assms(2) obtain row where row: "List.find (\<lambda>r. cl_id r = payload) (w_change_log w) = Some row"
      "cl_instance_id row \<noteq> inst" "cl_event_type row = as_wire (ce_event_type ev)"
      "cl_kind row \<in> set listener_kinds" and ev: "ev = event_of_row (ce_event_type ev) row"
    unfolding brings_def by blast
  have "change_log_fetch e payload w = (Inr (Some row), w\<lparr>w_stmts := Suc (w_stmts w)\<rparr>)"
    using assms(1) row(1) by (simp add: change_log_fetch_def sql_select_def sql_stmt_def Let_def no_faults_def)
  moreover have "\<lparr>ce_kind = cl_kind row, ce_namespace = cl_namespace row, ce_name = cl_name row,
      ce_event_type = ce_event_type ev, ce_object = cl_object row\<rparr> = ev"
    using ev by (simp add: event_of_row_def)
  ultimately show ?thesis
    using row(2-4) by (simp add: listener_handle_def tryR_def republish_local_def del: event_type_of_wire.simps)
qed

text \<open>
  While the connection holds: what the peer has sent, followed by what the waiting notifications will
  bring, is what it had sent at first followed by the events whose replications have run.
\<close>

definition pair_inv ::
  "env \<Rightarrow> string \<Rightarrow> replicator \<Rightarrow> change_event list \<Rightarrow> change_event list \<Rightarrow> pair \<Rightarrow> bool" where
  "pair_inv e inst rep bus0 ts0 s \<longleftrightarrow>
     w_replicator (pr_origin s) = Some rep \<and> ids_fresh e (pr_origin s) \<and>
     w_change_log (pr_peer s) = w_change_log (pr_origin s) \<and>
     list_all (\<lambda>t. ce_kind t \<in> set listener_kinds) (w_tasks (pr_origin s)) \<and>
     (\<exists>q evs heard. pr_listener s = Receiving q \<and>
        list_all2 (brings inst (w_change_log (pr_origin s))) q evs \<and>
        w_bus (pr_peer s) @ evs = bus0 @ heard \<and>
        mset heard + mset (w_tasks (pr_origin s)) = mset ts0)"

lemma pair_invI:
  assumes "w_replicator (pr_origin s) = Some rep" "ids_fresh e (pr_origin s)"
    "w_change_log (pr_peer s) = w_change_log (pr_origin s)"
    "list_all (\<lambda>t. ce_kind t \<in> set listener_kinds) (w_tasks (pr_origin s))"
    "pr_listener s = Receiving q" "list_all2 (brings inst (w_change_log (pr_origin s))) q evs"
    "w_bus (pr_peer s) @ evs = bus0 @ heard" "mset heard + mset (w_tasks (pr_origin s)) = mset ts0"
  shows "pair_inv e inst rep bus0 ts0 s"
  using assms unfolding pair_inv_def by blast

lemma mset_take_drop_nth: "i < length xs \<Longrightarrow> add_mset (xs ! i) (mset (take i xs @ drop (Suc i) xs)) = mset xs"
  by (metis append_take_drop_id id_take_nth_drop mset_append mset.simps(2) union_mset_add_mset_right)

lemma pair_inv_replicate:
  assumes inv: "pair_inv e inst rep bus0 ts0 s" and "no_faults e"
    and rep: "rp_channel rep = default_notify_channel" "rp_instance_id rep \<noteq> inst"
  shows "pair_inv e inst rep bus0 ts0 (replicate_step e i s)"
proof (cases "i < length (w_tasks (pr_origin s))")
  case False
  then show ?thesis using inv
    by (simp add: replicate_step_def run_replication_none pair_inv_def shared_log_def Let_def)
next
  case True
  let ?w = "pr_origin s" let ?ev = "w_tasks ?w ! i" let ?row = "row_of e rep ?w ?ev"
  from inv obtain q evs heard where a: "w_replicator ?w = Some rep" "ids_fresh e ?w"
      "w_change_log (pr_peer s) = w_change_log ?w" "list_all (\<lambda>t. ce_kind t \<in> set listener_kinds) (w_tasks ?w)"
      "pr_listener s = Receiving q" "list_all2 (brings inst (w_change_log ?w)) q evs"
      "w_bus (pr_peer s) @ evs = bus0 @ heard" "mset heard + mset (w_tasks ?w) = mset ts0"
    unfolding pair_inv_def by blast
  note run = run_replication_ok [OF True a(1) assms(2) a(2)]
  have kind: "ce_kind ?ev \<in> set listener_kinds" using a(4) True by (simp add: list_all_length)
  have "list_all2 (brings inst (w_change_log ?w @ [?row])) (q @ [cl_id ?row]) (evs @ [?ev])"
    using a(6) brings_new [OF a(2) True rep(2) kind] by (auto intro: list_all2_appendI list_all2_mono brings_append)
  moreover have "w_bus (pr_peer s) @ evs @ [?ev] = bus0 @ heard @ [?ev]" using a(7) by simp
  moreover have "mset (heard @ [?ev]) + mset (take i (w_tasks ?w) @ drop (Suc i) (w_tasks ?w)) = mset ts0"
    using a(8) mset_take_drop_nth [OF True] by (metis union_mset_add_mset_left union_mset_add_mset_right mset_append mset.simps add.right_neutral)
  moreover have "ids_fresh e (snd (run_replication e i ?w))"
    by (rule ids_fresh_after [OF a(2) True, where row = ?row]) (simp_all add: run row_of_def)
  moreover have "list_all (\<lambda>t. ce_kind t \<in> set listener_kinds) (take i (w_tasks ?w) @ drop (Suc i) (w_tasks ?w))"
    using a(4) by (auto simp: list_all_iff dest: in_set_takeD in_set_dropD)
  ultimately show ?thesis
    using a(1,5) rep(1)
    by (intro pair_invI [where q = "q @ [cl_id ?row]" and evs = "evs @ [?ev]" and heard = "heard @ [?ev]"])
       (simp_all add: replicate_step_def Let_def run shared_log_def)
qed

lemma pair_inv_received:
  assumes inv: "pair_inv e inst rep bus0 ts0 s" and "no_faults e"
  shows "pair_inv e inst rep bus0 ts0 (pair_step e inst (Listen Received) s)"
proof -
  from inv obtain q evs heard where a: "w_replicator (pr_origin s) = Some rep" "ids_fresh e (pr_origin s)"
      "w_change_log (pr_peer s) = w_change_log (pr_origin s)"
      "list_all (\<lambda>t. ce_kind t \<in> set listener_kinds) (w_tasks (pr_origin s))"
      "pr_listener s = Receiving q" "list_all2 (brings inst (w_change_log (pr_origin s))) q evs"
      "w_bus (pr_peer s) @ evs = bus0 @ heard" "mset heard + mset (w_tasks (pr_origin s)) = mset ts0"
    unfolding pair_inv_def by blast
  show ?thesis
  proof (cases q)
    case Nil
    then show ?thesis using inv a(5) by (simp add: pair_inv_def)
  next
    case (Cons p q')
    with a(6) obtain ev evs' where evs: "evs = ev # evs'" "brings inst (w_change_log (pr_peer s)) p ev"
        "list_all2 (brings inst (w_change_log (pr_origin s))) q' evs'"
      by (auto simp: list_all2_Cons1 a(3))
    show ?thesis
      by (rule pair_invI [where q = q' and evs = evs' and heard = heard])
         (use a Cons evs listener_handle_brings [OF assms(2) evs(2)] in simp_all)
  qed
qed

lemma pair_inv_run:
  assumes "pair_inv e inst rep bus0 ts0 s" "no_faults e"
    "rp_channel rep = default_notify_channel" "rp_instance_id rep \<noteq> inst" "list_all steady ls"
  shows "pair_inv e inst rep bus0 ts0 (pair_run e inst ls s)"
  using assms(1,5)
proof (induction ls arbitrary: s)
  case (Cons l ls)
  have "pair_inv e inst rep bus0 ts0 (pair_step e inst l s)"
    using Cons.prems pair_inv_replicate [OF Cons.prems(1) assms(2-4)] pair_inv_received [OF Cons.prems(1) assms(2)]
    by (auto simp: steady_def)
  then show ?case using Cons.IH Cons.prems(2) by (simp add: pair_run_def)
qed (simp add: pair_run_def)

text \<open>Every state of the invariant can be drained: the tasks run, the notifications are received.\<close>

definition pending :: "pair \<Rightarrow> nat" where
  "pending s = 2 * length (w_tasks (pr_origin s)) + (case pr_listener s of Receiving q \<Rightarrow> length q | _ \<Rightarrow> 0)"

lemma pending_replicate:
  assumes "pair_inv e inst rep bus0 ts0 s" "no_faults e" "w_tasks (pr_origin s) \<noteq> []"
    "rp_channel rep = default_notify_channel"
  shows "pending (pair_step e inst (Replicate 0) s) < pending s"
proof -
  from assms obtain q where "pr_listener s = Receiving q" "w_replicator (pr_origin s) = Some rep"
      "ids_fresh e (pr_origin s)" "0 < length (w_tasks (pr_origin s))"
    by (auto simp: pair_inv_def)
  with run_replication_ok [of 0 "pr_origin s" rep e] assms(2,4) show ?thesis
    by (cases "w_tasks (pr_origin s)") (simp_all add: pending_def replicate_step_def Let_def)
qed

lemma pending_received:
  assumes "pr_listener s = Receiving q" "q \<noteq> []"
  shows "pending (pair_step e inst (Listen Received) s) < pending s"
  using assms by (cases q) (simp_all add: pending_def)

lemma pair_drain:
  assumes "pair_inv e inst rep bus0 ts0 s" "no_faults e"
    "rp_channel rep = default_notify_channel" "rp_instance_id rep \<noteq> inst"
  shows "\<exists>ls. list_all steady ls \<and> w_tasks (pr_origin (pair_run e inst ls s)) = [] \<and>
           pr_listener (pair_run e inst ls s) = Receiving []"
  using assms(1)
proof (induction "pending s" arbitrary: s rule: less_induct)
  case less
  have goes: ?case if "steady l" "pending (pair_step e inst l s) < pending s" for l
  proof -
    have "pair_inv e inst rep bus0 ts0 (pair_step e inst l s)"
      using pair_inv_run [OF less.prems assms(2-4), of "[l]"] that(1) by (simp add: pair_run_def)
    from less.hyps [OF that(2) this] obtain ls where "list_all steady ls"
      "w_tasks (pr_origin (pair_run e inst (l # ls) s)) = []" "pr_listener (pair_run e inst (l # ls) s) = Receiving []"
      by (auto simp: pair_run_def)
    with that(1) show ?thesis by (intro exI [of _ "l # ls"]) simp
  qed
  from less.prems obtain q where q: "pr_listener s = Receiving q" by (auto simp: pair_inv_def)
  consider "w_tasks (pr_origin s) \<noteq> []" | "q \<noteq> []" | "w_tasks (pr_origin s) = []" "q = []" by blast
  then show ?case
  proof cases
    case 1
    then show ?thesis using goes [OF _ pending_replicate [OF less.prems assms(2) 1 assms(3)]] by (simp add: steady_def)
  next
    case 2
    then show ?thesis using goes [OF _ pending_received [OF q 2]] by (simp add: steady_def)
  next
    case 3
    with q show ?thesis by (intro exI [of _ "[]"]) (simp add: pair_run_def)
  qed
qed

lemma pair_inv_start:
  assumes "pr_listener s = Receiving []" "w_replicator (pr_origin s) = Some rep" "ids_fresh e (pr_origin s)"
    "w_change_log (pr_peer s) = w_change_log (pr_origin s)"
    "list_all (\<lambda>t. ce_kind t \<in> set listener_kinds) (w_tasks (pr_origin s))"
  shows "pair_inv e inst rep (w_bus (pr_peer s)) (w_tasks (pr_origin s)) s"
  using assms by (auto simp: pair_inv_def)

section \<open>Properties\<close>


text \<open>
  The order is the one in which the tasks happen to run: of a pod that is created and deleted, the peer's
  watchers can see the deletion first.
\<close>

definition pod_deleted :: change_event where
  "pod_deleted = pod_added\<lparr>ce_event_type := Deleted\<rparr>"

definition pair_env :: env where
  "pair_env = \<lparr>env_uuid = word_of_nat, env_uuid_str = (\<lambda>u. replicate (unat u) CHR ''x''), env_now = int, env_fails = (\<lambda>_. False)\<rparr>"

definition pair_start :: pair where
  "pair_start = \<lparr>pr_origin = empty_world\<lparr>w_tasks := [pod_added, pod_deleted],
       w_replicator := Some \<lparr>rp_instance_id = ''a'', rp_channel = default_notify_channel\<rparr>\<rparr>,
     pr_listener = Receiving [], pr_peer = empty_world\<rparr>"


theorem peer_order_can_differ:
  "w_tasks (pr_origin pair_start) = [pod_added, pod_deleted] \<and>
   w_bus (pr_peer (pair_run pair_env ''b''
     [Replicate 1, Replicate 0, Listen Received, Listen Received] pair_start)) = [pod_deleted, pod_added]"
  by code_simp

text \<open>
  What is replicated while the peer is disconnected stays unheard: the row is in the change log, but
  after reconnecting the peer looks only at rows it is notified of. Whatever it receives or fails to
  receive from then on, short of a new notification, its watchers learn nothing.
\<close>

definition unnotified :: "pair_label \<Rightarrow> bool" where
  "unnotified l \<longleftrightarrow> (\<exists>x. l = Listen x \<and> (\<forall>channel payload. x \<noteq> Notified channel payload))"

definition idle :: "listener_state \<Rightarrow> bool" where
  "idle ls \<longleftrightarrow> (\<forall>q. ls = Receiving q \<longrightarrow> q = [])"

lemma idle_step:
  assumes "idle (pr_listener s)" "unnotified l"
  shows "idle (pr_listener (pair_step e inst l s)) \<and> pr_peer (pair_step e inst l s) = pr_peer s"
proof -
  from assms(2) obtain x where l: "l = Listen x" "\<forall>channel payload. x \<noteq> Notified channel payload"
    by (auto simp: unnotified_def)
  show ?thesis using assms(1) l
    by (cases x; cases "pr_listener s") (auto simp: idle_def split: bool.splits elim: connect_step.elims)
qed

lemma idle_run:
  assumes "idle (pr_listener s)" "list_all unnotified ls"
  shows "pr_peer (pair_run e inst ls s) = pr_peer s"
  using assms idle_step by (induction ls arbitrary: s) (auto simp: pair_run_def)

theorem disconnected_event_lost:
  assumes "i < length (w_tasks (pr_origin s))" "w_replicator (pr_origin s) = Some rep" "no_faults e"
    and "ids_fresh e (pr_origin s)" "pr_listener s = Receiving q" "list_all unnotified ls"
    and "s' = pair_run e inst ([Listen Recv_Failed, Replicate i, Listen (Answered True), Listen (Answered True),
           Listen (Answered True)] @ ls) s"
  shows "w_bus (pr_peer s') = w_bus (pr_peer s) \<and>
    row_of e rep (pr_origin s) (w_tasks (pr_origin s) ! i) \<in> set (w_change_log (pr_peer s'))"
proof -
  let ?s1 = "replicate_step e i (s\<lparr>pr_listener := Opening\<rparr>)"
  let ?ls = "[Listen (Answered True), Listen (Answered True), Listen (Answered True)] @ ls"
  note run = run_replication_ok [OF assms(1,2,3,4)]
  have "s' = pair_run e inst ?ls ?s1" using assms(5,7) by (simp add: pair_run_def)
  moreover have "idle (pr_listener ?s1)" by (simp add: replicate_step_def Let_def run idle_def)
  moreover have "list_all unnotified ?ls" using assms(6) by (simp add: unnotified_def)
  ultimately have "pr_peer s' = pr_peer ?s1" using idle_run by blast
  then show ?thesis by (simp add: replicate_step_def Let_def run shared_log_def)
qed

end
