(* ===== verification/Exec_Session.thy ===== *)
theory Exec_Session
  imports Embedded_Runtime
begin

text \<open>
  The exec sessions of the embedded engine (\<open>exec_pipes\<close>, \<open>exec_tty\<close>, \<open>reap_exec\<close>, \<open>KillOnDrop\<close> and \<open>PtyMaster\<close> of
  \<open>src/src/node/runtime/embedded.rs\<close>). Without a terminal two tasks read stdout and stderr and send
  what they read into one channel of 64 places; with one, the output is read from the master of a pty.
  The process is reaped by a thread of its own, and killed when the client hangs up.

  A session is a state machine: the readers, the client, the process, the reaper and the
  hang-up move in any order. The list of reads of a pipe is what the kernel will answer; a reader
  whose list is empty waits. The theory \<open>Embedded_Runtime\<close> takes the finished output of such a
  session as a parameter.
\<close>

section \<open>Opening a session\<close>

text \<open>The calls that can fail, in the order of the code; libcontainer's \<open>build\<close> starts the process.\<close>

datatype exec_call = Pipe nat | Open_Ptmx | Unlock_Pty | Open_Peer | Dup_Slave nat | Build_Tenant
  | Dup_Master | Nonblock | Register

record exec_start =
  st_process :: bool \<comment> \<open>the process has been started\<close>
  st_guard :: bool \<comment> \<open>and is owned by the session\<close>

type_synonym exec_faults = "exec_call \<Rightarrow> string option"

definition exec_try :: "exec_faults \<Rightarrow> exec_call \<Rightarrow> exec_start \<Rightarrow> (string + unit) \<times> exec_start" where
  "exec_try flt c s = (case flt c of Some m \<Rightarrow> (Inl m, s) | None \<Rightarrow> (Inr (), s))"

definition build_tenant :: "exec_faults \<Rightarrow> exec_start \<Rightarrow> (string + unit) \<times> exec_start" where
  "build_tenant flt = bindR (exec_try flt Build_Tenant) (\<lambda>_ s. (Inr (), s\<lparr>st_process := True\<rparr>))"

definition guard_session :: "exec_start \<Rightarrow> (string + unit) \<times> exec_start" where
  "guard_session s = (Inr (), s\<lparr>st_guard := True\<rparr>)"

definition exec_pipes :: "exec_faults \<Rightarrow> exec_start \<Rightarrow> (string + unit) \<times> exec_start" where
  "exec_pipes flt =
     bindR (exec_try flt (Pipe 0)) (\<lambda>_.
     bindR (exec_try flt (Pipe 1)) (\<lambda>_.
     bindR (exec_try flt (Pipe 2)) (\<lambda>_.
     bindR (build_tenant flt) (\<lambda>_.
     bindR (exec_try flt Nonblock) (\<lambda>_.
     bindR (exec_try flt Register) (\<lambda>_.
     guard_session))))))"

definition open_container_pty :: "exec_faults \<Rightarrow> exec_start \<Rightarrow> (string + unit) \<times> exec_start" where
  "open_container_pty flt =
     bindR (exec_try flt Open_Ptmx) (\<lambda>_.
     bindR (exec_try flt Unlock_Pty) (\<lambda>_.
     exec_try flt Open_Peer))"

definition exec_tty :: "exec_faults \<Rightarrow> exec_start \<Rightarrow> (string + unit) \<times> exec_start" where
  "exec_tty flt =
     bindR (open_container_pty flt) (\<lambda>_.
     bindR (exec_try flt (Dup_Slave 0)) (\<lambda>_.
     bindR (exec_try flt (Dup_Slave 1)) (\<lambda>_.
     bindR (exec_try flt (Dup_Slave 2)) (\<lambda>_.
     bindR (build_tenant flt) (\<lambda>_.
     bindR (exec_try flt Dup_Master) (\<lambda>_.
     bindR (exec_try flt Nonblock) (\<lambda>_.
     bindR (exec_try flt Register) (\<lambda>_.
     guard_session))))))))"

definition not_started :: exec_start where
  "not_started = \<lparr>st_process = False, st_guard = False\<rparr>"

section \<open>The output of a terminal\<close>

text \<open>The results of \<open>read\<close> on the master; \<open>Again\<close> is a wake-up with nothing to read.\<close>

datatype pty_result = Got "8 word list" | Again | Pty_EIO | Pty_Errno string

text \<open>\<open>poll_read\<close>: the bytes read, empty at the end, or an error; \<open>None\<close> while it waits.\<close>

fun pty_poll :: "pty_result list \<Rightarrow> (chunk \<times> pty_result list) option" where
  "pty_poll [] = None"
| "pty_poll (Got b # rs) = Some (Inr b, rs)"
| "pty_poll (Pty_EIO # rs) = Some (Inr [], rs)"
| "pty_poll (Pty_Errno m # rs) = Some (Inl m, rs)"
| "pty_poll (Again # rs) = pty_poll rs"

lemma pty_poll_shorter: "pty_poll rs = Some (c, rs') \<Longrightarrow> length rs' < length rs"
  by (induction rs rule: pty_poll.induct) auto

text \<open>\<open>ReaderStream\<close> ends after an empty read or an error.\<close>

function pty_output :: "pty_result list \<Rightarrow> chunk list" where
  "pty_output rs = (case pty_poll rs of
       None \<Rightarrow> []
     | Some (Inl m, _) \<Rightarrow> [Inl (''pty read: '' @ m)]
     | Some (Inr b, rs') \<Rightarrow> if b = [] then [] else Inr b # pty_output rs')"
  by pat_completeness auto
termination by (relation "measure length") (auto dest: pty_poll_shorter)

declare pty_output.simps [simp del]

section \<open>The session\<close>

datatype pipe_read = Bytes "8 word list" | Eof | Read_Fault string | Setup_Fault string

record session =
  se_out :: "pipe_read list option" \<comment> \<open>\<open>None\<close>: the reader has returned and dropped its sender\<close>
  se_err :: "pipe_read list option"
  se_chan :: "chunk list"
  se_got :: "chunk list"
  se_open :: bool
  se_alive :: bool \<comment> \<open>until \<open>waitpid\<close> has returned\<close>
  se_reaped :: bool
  se_exit :: "i32 option"
  se_kills :: "bool list" \<comment> \<open>the signals sent, and whether the process was still there\<close>

definition exec_channel_capacity :: nat where
  "exec_channel_capacity = 64"

text \<open>One turn of a reader: what it sends, and how it goes on.\<close>

fun read_turn :: "pipe_read \<Rightarrow> pipe_read list \<Rightarrow> chunk list \<times> pipe_read list option" where
  "read_turn (Bytes b) rs = ([Inr b], Some rs)"
| "read_turn Eof rs = ([], None)"
| "read_turn (Read_Fault m) rs = ([Inl (''exec read: '' @ m)], None)"
| "read_turn (Setup_Fault m) rs = ([Inl (''exec pipe: '' @ m)], None)"

definition can_send :: "chunk list \<Rightarrow> session \<Rightarrow> bool" where
  "can_send c s \<longleftrightarrow> c = [] \<or> \<not> se_open s \<or> length (se_chan s) < exec_channel_capacity"

definition goes_on :: "chunk list \<Rightarrow> pipe_read list option \<Rightarrow> session \<Rightarrow> pipe_read list option" where
  "goes_on c rest s = (if c \<noteq> [] \<and> \<not> se_open s then None else rest)"

definition send :: "chunk list \<Rightarrow> session \<Rightarrow> session" where
  "send c s = (if se_open s then s\<lparr>se_chan := se_chan s @ c\<rparr> else s)"

text \<open>Dropping the output stream: the channel is closed and the guard is dropped.\<close>

definition hang_up :: "session \<Rightarrow> session" where
  "hang_up s = s\<lparr>se_open := False, se_chan := [],
     se_kills := se_kills s @ (if se_reaped s then [] else [se_alive s])\<rparr>"

inductive session_step :: "i32 \<Rightarrow> session \<Rightarrow> session \<Rightarrow> bool" for code where
  read_out: "se_out s = Some (r # rs) \<Longrightarrow> read_turn r rs = (c, rest) \<Longrightarrow> can_send c s \<Longrightarrow>
    session_step code s ((send c s)\<lparr>se_out := goes_on c rest s\<rparr>)"
| read_err: "se_err s = Some (r # rs) \<Longrightarrow> read_turn r rs = (c, rest) \<Longrightarrow> can_send c s \<Longrightarrow>
    session_step code s ((send c s)\<lparr>se_err := goes_on c rest s\<rparr>)"
| client_recv: "se_open s \<Longrightarrow> se_chan s = c # cs \<Longrightarrow>
    session_step code s (s\<lparr>se_chan := cs, se_got := se_got s @ [c]\<rparr>)"
| client_gone: "se_open s \<Longrightarrow> session_step code s (hang_up s)"
| process_ends: "se_alive s \<Longrightarrow> session_step code s (s\<lparr>se_alive := False\<rparr>)"
| flag_set: "\<not> se_alive s \<Longrightarrow> session_step code s (s\<lparr>se_reaped := True\<rparr>)"
| exit_sent: "se_reaped s \<Longrightarrow> session_step code s (s\<lparr>se_exit := Some code\<rparr>)"

inductive_cases session_stepE: "session_step code s s'"

definition session_new :: "pipe_read list \<Rightarrow> pipe_read list \<Rightarrow> session" where
  "session_new out err = \<lparr>se_out = Some out, se_err = Some err, se_chan = [], se_got = [], se_open = True,
     se_alive = True, se_reaped = False, se_exit = None, se_kills = []\<rparr>"

text \<open>Both senders are gone and the channel is empty: the output stream has ended.\<close>

definition output_ended :: "session \<Rightarrow> bool" where
  "output_ended s \<longleftrightarrow> se_out s = None \<and> se_err s = None \<and> se_chan s = []"

text \<open>What a reader sends in all.\<close>

fun pump_reads :: "pipe_read list \<Rightarrow> chunk list" where
  "pump_reads [] = []"
| "pump_reads (r # rs) = (case read_turn r rs of (c, None) \<Rightarrow> c | (c, Some rest) \<Rightarrow> c @ pump_reads rs)"

definition pump_rest :: "pipe_read list option \<Rightarrow> chunk list" where
  "pump_rest x = (case x of None \<Rightarrow> [] | Some rs \<Rightarrow> pump_reads rs)"

section \<open>Lemmas\<close>

lemma shuffles_append_left: "zs \<in> shuffles xs ys \<Longrightarrow> zs @ ws \<in> shuffles (xs @ ws) ys"
proof (induction zs arbitrary: xs ys)
  case (Cons z zs)
  from Cons.prems consider xs' where "xs = z # xs'" "zs \<in> shuffles xs' ys"
    | ys' where "ys = z # ys'" "zs \<in> shuffles xs ys'"
    by (auto simp: Cons_in_shuffles_iff neq_Nil_conv)
  then show ?case by cases (auto simp: Cons.IH Cons_in_shuffles_leftI Cons_in_shuffles_rightI)
qed simp

lemma shuffles_append_right: "zs \<in> shuffles xs ys \<Longrightarrow> zs @ ws \<in> shuffles xs (ys @ ws)"
  using shuffles_append_left [of zs ys xs ws] by (simp add: shuffles_commutes)

lemma read_turn_rest: "read_turn r rs = (c, rest) \<Longrightarrow> rest = None \<or> rest = Some rs"
  by (cases r) auto

lemma pump_turn: "read_turn r rs = (c, rest) \<Longrightarrow> pump_reads (r # rs) = c @ pump_rest rest"
  by (cases r) (auto simp: pump_rest_def)

text \<open>
  What the client has and what is in the channel interleaves what the readers have sent; after a
  hang-up the client has a beginning of an interleaving.
\<close>

definition session_inv :: "pipe_read list \<Rightarrow> pipe_read list \<Rightarrow> session \<Rightarrow> bool" where
  "session_inv out err s \<longleftrightarrow>
     (se_open s \<longrightarrow> (\<exists>a b. pump_reads out = a @ pump_rest (se_out s) \<and> pump_reads err = b @ pump_rest (se_err s) \<and>
        se_got s @ se_chan s \<in> shuffles a b)) \<and>
     (\<exists>zs. se_got s @ zs \<in> shuffles (pump_reads out) (pump_reads err)) \<and>
     length (se_chan s) \<le> exec_channel_capacity"

definition kill_inv :: "session \<Rightarrow> bool" where
  "kill_inv s \<longleftrightarrow> (se_open s \<longrightarrow> se_kills s = []) \<and> (\<not> se_open s \<and> se_alive s \<longrightarrow> se_kills s = [True]) \<and>
     length (se_kills s) \<le> 1 \<and> (se_reaped s \<longrightarrow> \<not> se_alive s) \<and> (se_exit s \<noteq> None \<longrightarrow> se_reaped s)"

lemma session_inv_got:
  assumes "pump_reads out = a @ x" "pump_reads err = b @ y" "got @ chan \<in> shuffles a b"
  shows "\<exists>zs. got @ zs \<in> shuffles (pump_reads out) (pump_reads err)"
  using shuffles_append_right [OF shuffles_append_left [OF assms(3), of x], of y] assms(1,2) by (metis append_assoc)

lemma session_inv_new: "session_inv out err (session_new out err)"
proof -
  have "pump_reads out @ pump_reads err \<in> shuffles (pump_reads out) (pump_reads err)"
    using shuffles_append_right [of "pump_reads out" "pump_reads out" "[]" "pump_reads err"] by simp
  then show ?thesis by (auto simp: session_inv_def session_new_def pump_rest_def)
qed

lemma length_turn: "read_turn r rs = (c, rest) \<Longrightarrow> length c \<le> 1"
  by (cases r) auto

lemma session_inv_step:
  assumes "session_step code s s'" "session_inv out err s"
  shows "session_inv out err s'"
  using assms(1)
proof cases
  case (read_out r rs c rest)
  show ?thesis
  proof (cases "se_open s")
    case True
    with assms(2) obtain a b where ab: "pump_reads out = a @ pump_rest (se_out s)" "pump_reads err = b @ pump_rest (se_err s)"
      "se_got s @ se_chan s \<in> shuffles a b" by (auto simp: session_inv_def)
    have "pump_reads out = (a @ c) @ pump_rest rest" using ab(1) read_out(2) pump_turn [OF read_out(3)] by (simp add: pump_rest_def)
    moreover have "se_got s @ se_chan s @ c \<in> shuffles (a @ c) b" using shuffles_append_left [OF ab(3), of c] by simp
    ultimately show ?thesis
      using read_out(1,4) ab(2) True assms(2) length_turn [OF read_out(3)]
      by (auto simp: session_inv_def send_def goes_on_def can_send_def)
  qed (use assms(2) read_out(1) in \<open>auto simp: session_inv_def send_def\<close>)
next
  case (read_err r rs c rest)
  show ?thesis
  proof (cases "se_open s")
    case True
    with assms(2) obtain a b where ab: "pump_reads out = a @ pump_rest (se_out s)" "pump_reads err = b @ pump_rest (se_err s)"
      "se_got s @ se_chan s \<in> shuffles a b" by (auto simp: session_inv_def)
    have "pump_reads err = (b @ c) @ pump_rest rest" using ab(2) read_err(2) pump_turn [OF read_err(3)] by (simp add: pump_rest_def)
    moreover have "se_got s @ se_chan s @ c \<in> shuffles a (b @ c)" using shuffles_append_right [OF ab(3), of c] by simp
    ultimately show ?thesis
      using read_err(1,4) ab(1) True assms(2) length_turn [OF read_err(3)]
      by (auto simp: session_inv_def send_def goes_on_def can_send_def)
  qed (use assms(2) read_err(1) in \<open>auto simp: session_inv_def send_def\<close>)
next
  case (client_recv c cs)
  with assms(2) obtain a b where ab: "pump_reads out = a @ pump_rest (se_out s)" "pump_reads err = b @ pump_rest (se_err s)"
    "(se_got s @ [c]) @ cs \<in> shuffles a b" by (auto simp: session_inv_def)
  with session_inv_got [OF this] client_recv assms(2) show ?thesis by (auto simp: session_inv_def)
qed (use assms(2) in \<open>auto simp: session_inv_def hang_up_def\<close>)

lemma kill_inv_step: "session_step code s s' \<Longrightarrow> kill_inv s \<Longrightarrow> kill_inv s'"
  by (erule session_stepE) (auto simp: kill_inv_def send_def hang_up_def)

lemma session_reachable:
  assumes "(session_step code)\<^sup>*\<^sup>* (session_new out err) s"
  shows "session_inv out err s \<and> kill_inv s"
  using assms
proof (induction rule: rtranclp_induct)
  case base
  show ?case by (simp add: session_inv_new) (simp add: kill_inv_def session_new_def)
next
  case (step s s')
  then show ?case using session_inv_step kill_inv_step by blast
qed

text \<open>A pipe that will come to its end: an end of file or an error is among the reads.\<close>

definition comes_to_end :: "pipe_read list option \<Rightarrow> bool" where
  "comes_to_end x = (case x of None \<Rightarrow> True | Some rs \<Rightarrow> list_ex (\<lambda>r. snd (read_turn r []) = None) rs)"

definition left_to_do :: "session \<Rightarrow> nat" where
  "left_to_do s = (let n = (\<lambda>x. case x of None \<Rightarrow> 0 | Some rs \<Rightarrow> Suc (length rs)) in
     2 * n (se_out s) + 2 * n (se_err s) + length (se_chan s))"

lemma turn_comes_to_end:
  "comes_to_end (Some (r # rs)) \<Longrightarrow> read_turn r rs = (c, rest) \<Longrightarrow> comes_to_end rest"
  by (cases r) (auto simp: comes_to_end_def)

lemma session_finishes:
  assumes "se_open s" "comes_to_end (se_out s)" "comes_to_end (se_err s)"
  shows "\<exists>s'. (session_step code)\<^sup>*\<^sup>* s s' \<and> se_open s' \<and> output_ended s'"
  using assms
proof (induction "left_to_do s" arbitrary: s rule: less_induct)
  case less
  have goes: ?case if "session_step code s s1" "left_to_do s1 < left_to_do s" "se_open s1"
      "comes_to_end (se_out s1)" "comes_to_end (se_err s1)" for s1
    using less.hyps [OF that(2-5)] converse_rtranclp_into_rtranclp [of "session_step code", OF that(1)] by blast
  have free: "can_send c s" if "se_chan s = []" for c using that by (simp add: can_send_def exec_channel_capacity_def)
  consider (recv) c cs where "se_chan s = c # cs" | (out) r rs where "se_chan s = []" "se_out s = Some (r # rs)"
    | (err) r rs where "se_chan s = []" "se_err s = Some (r # rs)" | (over) "output_ended s"
    using less.prems(2,3) unfolding comes_to_end_def output_ended_def
    by (cases "se_chan s"; cases "se_out s"; cases "se_err s"; cases "the (se_out s)"; cases "the (se_err s)") simp_all
  then show ?case
  proof cases
    case recv
    show ?thesis by (rule goes [OF client_recv [OF less.prems(1) recv]])
        (use less.prems recv in \<open>simp_all add: left_to_do_def Let_def\<close>)
  next
    case out
    obtain c rest where t: "read_turn r rs = (c, rest)" by fastforce
    show ?thesis by (rule goes [OF read_out [OF out(2) t free [OF out(1)]]])
        (use less.prems out t turn_comes_to_end [OF _ t] read_turn_rest [OF t] length_turn [OF t] in
          \<open>auto simp: left_to_do_def Let_def send_def goes_on_def\<close>)
  next
    case err
    obtain c rest where t: "read_turn r rs = (c, rest)" by fastforce
    show ?thesis by (rule goes [OF read_err [OF err(2) t free [OF err(1)]]])
        (use less.prems err t turn_comes_to_end [OF _ t] read_turn_rest [OF t] length_turn [OF t] in
          \<open>auto simp: left_to_do_def Let_def send_def goes_on_def\<close>)
  next
    case over
    then show ?thesis using less.prems(1) by blast
  qed
qed

section \<open>Properties\<close>


lemma sample_session:
  "(session_step 0)\<^sup>*\<^sup>* (session_new [Bytes [1], Eof] [Bytes [2], Eof])
     ((session_new [Bytes [1], Eof] [Bytes [2], Eof])\<lparr>se_err := Some [Eof], se_chan := [], se_got := [Inr [2]]\<rparr>)"
proof -
  let ?s = "session_new [Bytes [1], Eof] [Bytes [2], Eof]"
  have "session_step 0 ?s (?s\<lparr>se_err := Some [Eof], se_chan := [Inr [2]]\<rparr>)"
    using read_err [of ?s "Bytes [2]" "[Eof]" "[Inr [2]]" "Some [Eof]"]
    by (simp add: session_new_def send_def goes_on_def can_send_def exec_channel_capacity_def)
  moreover have "session_step 0 (?s\<lparr>se_err := Some [Eof], se_chan := [Inr [2]]\<rparr>)
      (?s\<lparr>se_err := Some [Eof], se_chan := [], se_got := [Inr [2]]\<rparr>)"
    using client_recv [of "?s\<lparr>se_err := Some [Eof], se_chan := [Inr [2]]\<rparr>" "Inr [2]" "[]"] by (simp add: session_new_def)
  ultimately show ?thesis by (meson converse_rtranclp_into_rtranclp rtranclp.rtrancl_refl)
qed


text \<open>As long as the client stays, a session whose two pipes come to their ends can always be carried to its own.\<close>

theorem exec_session_completes:
  assumes "se_open s" "comes_to_end (se_out s)" "comes_to_end (se_err s)"
  shows "\<exists>s'. (session_step code)\<^sup>*\<^sup>* s s' \<and> se_open s' \<and> output_ended s'"
  using session_finishes [OF assms] .

text \<open>
  The flag is stored after \<open>waitpid\<close> has returned: a hang-up in between signals a process id that is
  already free for another process.
\<close>

theorem kill_after_reaping:
  "\<exists>s. (session_step code)\<^sup>*\<^sup>* (session_new out err) s \<and> se_kills s = [False]"
proof -
  let ?s = "session_new out err"
  have "session_step code ?s (?s\<lparr>se_alive := False\<rparr>)" by (rule process_ends) (simp add: session_new_def)
  moreover have "session_step code (?s\<lparr>se_alive := False\<rparr>) (hang_up (?s\<lparr>se_alive := False\<rparr>))"
    by (rule client_gone) (simp add: session_new_def)
  moreover have "se_kills (hang_up (?s\<lparr>se_alive := False\<rparr>)) = [False]" by (simp add: hang_up_def session_new_def)
  ultimately show ?thesis by (meson converse_rtranclp_into_rtranclp rtranclp.rtrancl_refl)
qed

text \<open>
  Opening a session: it succeeds exactly when every call does, and then its process is guarded. A call that fails
  before the process is started leaves none; one that fails afterwards leaves a process that nobody
  kills.
\<close>

theorem exec_pipes_outcome:
  "exec_pipes flt not_started =
     (case map flt [Pipe 0, Pipe 1, Pipe 2, Build_Tenant] of
        [None, None, None, None] \<Rightarrow>
          (case (flt Nonblock, flt Register) of
             (None, None) \<Rightarrow> (Inr (), \<lparr>st_process = True, st_guard = True\<rparr>)
           | (Some m, _) \<Rightarrow> (Inl m, \<lparr>st_process = True, st_guard = False\<rparr>)
           | (None, Some m) \<Rightarrow> (Inl m, \<lparr>st_process = True, st_guard = False\<rparr>))
      | ms \<Rightarrow> (Inl (the (hd (filter (\<lambda>m. m \<noteq> None) ms))), not_started))"
  by (simp add: exec_pipes_def build_tenant_def exec_try_def guard_session_def bindR_def not_started_def split: option.split)

text \<open>A terminal's output is every byte up to the first empty read, EIO or error; waking up for nothing adds nothing.\<close>

fun pty_bytes :: "pty_result list \<Rightarrow> chunk list" where
  "pty_bytes (Got b # rs) = (if b = [] then [] else Inr b # pty_bytes rs)"
| "pty_bytes (Pty_Errno m # rs) = [Inl (''pty read: '' @ m)]"
| "pty_bytes rs = []"

theorem pty_output_exact: "pty_output rs = pty_bytes (filter (\<lambda>r. r \<noteq> Again) rs)"
proof (induction rs)
  case (Cons r rs)
  have "pty_output (Again # rs) = pty_output rs" by (simp add: pty_output.simps [of "Again # rs"] pty_output.simps [of rs])
  then show ?case using Cons
    by (cases r) (simp_all add: pty_output.simps [of "Got x # rs" for x] pty_output.simps [of "Pty_EIO # rs"]
        pty_output.simps [of "Pty_Errno x # rs" for x])
qed (simp add: pty_output.simps)

end
