(* ===== verification/Proxy_Pipe.thy ===== *)
theory Proxy_Pipe
  imports Text "HOL-Library.Sublist"
begin

text \<open>
  A connection of the service proxy once its backend is chosen (the end of \<open>handle_conn\<close> in
  \<open>src/src/node/proxy.rs\<close>): one task copies from the client to the backend and closes the backend's sending
  side at the end, the other copies the other way, and the connection is dropped as soon as
  \<^emph>\<open>one\<close> of them has finished (\<open>tokio::select!\<close>). The peers send and close their sides at any time. A copy that
  fails ends its task like an end of file does.
\<close>

section \<open>State and steps\<close>

text \<open>A direction: what its sender has sent, whether it has closed, what the copier has passed on.\<close>

record direction =
  dr_sent :: string
  dr_closed :: bool
  dr_waiting :: string \<comment> \<open>sent and not yet passed on\<close>
  dr_passed :: string

record connection =
  cx_up :: direction \<comment> \<open>client to backend\<close>
  cx_down :: direction
  cx_over :: bool

datatype pipe_event = Sends string | Closes | Copies nat | Ends

text \<open>
  \<open>Copies n\<close> passes on \<open>n\<close> of the waiting bytes; \<open>Ends\<close> is the copier seeing the end of file. The flag
  returned tells that the task of the direction has finished.
\<close>

fun direction_step :: "bool \<Rightarrow> pipe_event \<Rightarrow> direction \<Rightarrow> direction \<times> bool" where
  "direction_step over (Sends b) d =
     (if dr_closed d then (d, False) else (d\<lparr>dr_sent := dr_sent d @ b, dr_waiting := dr_waiting d @ b\<rparr>, False))"
| "direction_step over Closes d = (d\<lparr>dr_closed := True\<rparr>, False)"
| "direction_step over (Copies n) d =
     (if over then (d, False)
      else (d\<lparr>dr_waiting := drop n (dr_waiting d), dr_passed := dr_passed d @ take n (dr_waiting d)\<rparr>, False))"
| "direction_step over Ends d = (d, \<not> over \<and> dr_closed d \<and> dr_waiting d = [])"

fun pipe_step :: "bool \<times> pipe_event \<Rightarrow> connection \<Rightarrow> connection" where
  "pipe_step (up, ev) c =
     (let (d, finished) = direction_step (cx_over c) ev (if up then cx_up c else cx_down c);
          c' = (if up then c\<lparr>cx_up := d\<rparr> else c\<lparr>cx_down := d\<rparr>)
      in if finished then c'\<lparr>cx_over := True\<rparr> else c')"

definition new_direction :: direction where
  "new_direction = \<lparr>dr_sent = [], dr_closed = False, dr_waiting = [], dr_passed = []\<rparr>"

definition new_connection :: connection where
  "new_connection = \<lparr>cx_up = new_direction, cx_down = new_direction, cx_over = False\<rparr>"

definition pipe_run :: "(bool \<times> pipe_event) list \<Rightarrow> connection \<Rightarrow> connection" where
  "pipe_run evs c = fold pipe_step evs c"

section \<open>Lemmas\<close>

definition direction_ok :: "direction \<Rightarrow> bool" where
  "direction_ok d \<longleftrightarrow> dr_sent d = dr_passed d @ dr_waiting d"

definition passed_all :: "direction \<Rightarrow> bool" where
  "passed_all d \<longleftrightarrow> dr_closed d \<and> dr_passed d = dr_sent d"

definition pipe_inv :: "connection \<Rightarrow> bool" where
  "pipe_inv c \<longleftrightarrow> direction_ok (cx_up c) \<and> direction_ok (cx_down c) \<and>
     (cx_over c \<longrightarrow> passed_all (cx_up c) \<or> passed_all (cx_down c))"

lemma direction_step_ok: "direction_ok d \<Longrightarrow> direction_ok (fst (direction_step over ev d))"
  by (cases ev) (simp_all add: direction_ok_def)

lemma direction_step_finished:
  "direction_ok d \<Longrightarrow> snd (direction_step over ev d) \<Longrightarrow> passed_all (fst (direction_step over ev d))"
  by (cases ev) (auto simp: direction_ok_def passed_all_def split: if_splits)

lemma passed_all_kept: "passed_all d \<Longrightarrow> passed_all (fst (direction_step True ev d))"
  by (cases ev) (simp_all add: passed_all_def)

lemma over_passed_kept: "dr_passed (fst (direction_step True ev d)) = dr_passed d"
  by (cases ev) simp_all

lemma pipe_inv_step: "pipe_inv c \<Longrightarrow> pipe_inv (pipe_step x c)"
  using direction_step_ok direction_step_finished passed_all_kept
  by (cases x; cases "cx_over c") (auto simp: pipe_inv_def Let_def split: prod.splits, (metis fst_conv snd_conv)+)

lemma pipe_inv_run: "pipe_inv c \<Longrightarrow> pipe_inv (pipe_run evs c)"
  by (induction evs arbitrary: c) (simp_all add: pipe_run_def pipe_inv_step)

lemma pipe_inv_new: "pipe_inv new_connection"
  by (simp add: pipe_inv_def new_connection_def new_direction_def direction_ok_def)

lemma over_step: "cx_over c \<Longrightarrow> cx_over (pipe_step x c) \<and> dr_passed (cx_down (pipe_step x c)) = dr_passed (cx_down c)"
  using over_passed_kept [of "snd x" "cx_down c"]
  by (cases x) (auto simp: Let_def split: prod.splits)

lemma over_run: "cx_over c \<Longrightarrow> dr_passed (cx_down (pipe_run evs c)) = dr_passed (cx_down c)"
  by (induction evs arbitrary: c) (simp_all add: pipe_run_def over_step)

section \<open>Properties\<close>



text \<open>
  A client that closes its sending side after the request is cut off: when the request has been passed on
  before the answer comes, the connection is dropped, and nothing of the answer, whatever it is and
  whatever happens then, reaches the client.
\<close>

theorem half_close_cuts_answer:
  "dr_passed (cx_down (pipe_run ([(True, Sends request), (True, Closes), (True, Copies (length request)), (True, Ends),
     (False, Sends answer)] @ evs) new_connection)) = []"
proof -
  let ?c = "pipe_run [(True, Sends request), (True, Closes), (True, Copies (length request)), (True, Ends)] new_connection"
  have "cx_over ?c" "dr_passed (cx_down ?c) = []" by (simp_all add: pipe_run_def new_connection_def new_direction_def)
  then show ?thesis using over_run [of ?c "(False, Sends answer) # evs"] by (simp add: pipe_run_def)
qed

end
