(* ===== verification/Spec2Isabelle.thy ===== *)
theory Spec2Isabelle
  imports Api_Props Node_Liveness Agent_Access Proxy Discovery Daemonset_Props Embedded_Agent Embedded_Log_Props Wasm_Props
    Docker_Props Startup Listener Exec_Session Proxy_Pipe
begin

text \<open>
  \<^bold>\<open>A model of superkube\<close>, a small Kubernetes control plane in Rust: an API server over a SQL database
  (SQLite, or PostgreSQL shared by several servers), controllers that drive the cluster towards what
  is declared, a scheduler that binds pods to nodes, a watch feed replicated between servers, and on
  every node an agent that runs the pods and a proxy for services. The development translates the program's own logic into executable definitions and
  proves what makes it correct, for all inputs, all interleavings of its tasks and, where stated, for
  every pattern of failing SQL statements.

  \<^bold>\<open>How the program is modelled.\<close> The state all server tasks share is the record \<open>world\<close> (theory Store):
  one list of rows per table, the leases, the change log, what was sent on the broadcast bus, and
  three counters. What the program takes from outside is the record \<open>env\<close>: random UUIDs, clock
  readings and which SQL statements fail, as functions of those counters. An async function is
  \<open>world \<Rightarrow> (error + 'a) \<times> world\<close>; \<open>bindR\<close> is the \<open>?\<close> operator (the effects so far stay), \<open>tryR\<close> a
  \<open>match\<close> on the result (theory Prelude). A SQL statement is atomic; between two statements other
  tasks may run, which \<open>server_step\<close> and the theorems about watches, leases and replication make explicit.
  A node is the record \<open>node_world\<close> (theory Agent): the server's world, the agent's state and a count
  of its requests. Each request runs the handler of theory Api after an arbitrary change of the world
  by others, and may be lost, or carried out with its answer lost, as the argument \<open>net\<close> says.
  JSON columns hold the encoded value. Strings are lists of ASCII characters (theory Text); \<open>i32\<close>,
  \<open>u64\<close> and \<open>f64\<close> arithmetic is written out with its wrap-around, saturation and rounding (theories
  Prelude and F64); a \<open>HashMap\<close> is an association list whose order stands for the iteration order.

  \<^bold>\<open>Theories and sources\<close> (all under \<open>src/src\<close>).
  \<^item> Models: every struct and enum of \<open>models/\<close>, with its defaults and methods.
  \<^item> Store, Tables: \<open>error.rs\<close>, the world, SQL statements, the shape of a repository; the locale
    \<open>table_lens\<close> is the interface between a table and the statements, interpreted by every table.
  \<^item> Repositories, Auth_Repositories: the sixteen repositories of \<open>db/repository.rs\<close>;
    Repository_Laws (locale \<open>db_table\<close>, the invariant \<open>db_inv\<close>) and Repository_Props (round trips,
    exact listings and deletions, guards, node ports, re-application) are their theorems.
  \<^item> Lease: \<open>db/lease.rs\<close>, and a step relation for several masters with clocks that are off by a
    bounded amount: mutual exclusion, and \<open>try_acquire\<close> refines that relation.
  \<^item> Bus: \<open>server/bus.rs\<close>, \<open>db/change_log.rs\<close> and the listener and pruner of \<open>server/mod.rs\<close>: an event
    published on one server reaches every other server's bus once. Listener: the LISTEN task as a state machine
    beside a server that replicates; nothing is lost or repeated while the connection holds, but the
    order can change, and what is sent during a disconnection is not made up for.
  \<^item> F64, Quantity, Scheduler: \<open>server/scheduler.rs\<close>; Scheduler_Props (fit, score, choice of node)
    and Scheduler_Pass (a whole pass never overcommits a node and only binds).
  \<^item> Recorder, Controller: \<open>server/controller.rs\<close>; Controller_Inv (the background tasks keep
    \<open>db_inv\<close>), Deployment_Props, Statefulset_Props, Daemonset_Props, Pod_Controller_Props (what each
    reconciler achieves).
  \<^item> Responses, Printers: \<open>server/table.rs\<close>, \<open>server/printers.rs\<close>, the watch middleware of
    \<open>server/routes.rs\<close>; the live watch as a state machine, and the locale \<open>row_builder\<close> that every
    printer interprets.
  \<^item> Api, Auth_Api, Pod_Access: the handlers of \<open>server/api.rs\<close>; Api_Inv (they keep \<open>db_inv\<close>) and
    Api_Props (announcements, deletions, cascades, cluster addresses, the gap of a watch).
  \<^item> Discovery: the discovery documents and the route table of \<open>server/routes.rs\<close>.
  \<^item> Server: the step relation of the whole server; this theory proves its invariant. Startup: \<open>main.rs\<close>, \<open>util.rs\<close>,
    \<open>db/mod.rs\<close> and \<open>run\<close> of \<open>server/mod.rs\<close>; the options, the database file, the order in which a server's
    tasks are started and what each of them is given, and the run of an agent.
  \<^item> Ipam: \<open>node/network/ipam.rs\<close>; distinct, stable addresses, and when they run out.
  \<^item> Engines: \<open>node/runtime/mod.rs\<close> and \<open>node/runtime/mock.rs\<close>; the trait of an engine is the record
    \<open>runtime_ops\<close> and its contract the locale \<open>container_runtime\<close>, which the in-memory, the embedded and
    the wasm engine interpret.
  \<^item> Utf8, File_System: what the engines use of the standard library, strings as UTF-8 bytes and a file system
    with symbolic links.
  \<^item> Image: \<open>node/oci/image.rs\<close>; Image_Props (layers and whiteouts stay inside the root file system of the
    image, and the entries that do not), Image_Cache (a second pull is answered from the cache; the
    search for a module ends although directories may be linked in circles).
  \<^item> Bundle: \<open>node/oci/bundle.rs\<close>; the command, environment and user a container and a session in it get.
  \<^item> Pod_Network: \<open>node/network/bridge.rs\<close>, \<open>iptables.rs\<close> and \<open>veth.rs\<close>; what a set-up connects and cuts off, and that
    a failed one leaves nothing behind.
  \<^item> Embedded_Log, Embedded_Runtime: \<open>node/runtime/embedded.rs\<close>. Embedded_Log_Props (every line once, to readers
    and followers), Embedded_Props (no address is shared or lost on a node, though nodes share them) and
    Embedded_Agent (the agent on this engine) are their theorems. Exec_Session: the pipes, terminals and
    processes of exec sessions as a state machine; the output is an interleaving of stdout and stderr.
  \<^item> Wasm_Runtime, Wasm_Props: \<open>node/runtime/wasm.rs\<close>; the ring buffer, logs and listeners.
  \<^item> Docker_Runtime, Docker_Props: \<open>node/runtime/docker.rs\<close>; created containers, ports, sessions.
  \<^item> Node_Report, Agent, Agent_Http: \<open>node/agent.rs\<close>; the probes and the node object, the sync pass, the
    requests for logs, exec and port-forward. Agent_Props (the reported status is the state of the
    containers, and pods come up), Agent_Sync (what a pass leaves in the agent's indexes),
    Agent_Access (requests arrive as they were made, output is delivered unchanged, namesakes) and
    Node_Liveness (heartbeats, dead nodes, the agent keeps \<open>db_inv\<close>) are their theorems.
  \<^item> Proxy: \<open>node/proxy.rs\<close>; its ports are those of the stored services, and its backends; Proxy_Pipe: the two
    copies of a connection, and what a half-closed connection loses.

  \<^bold>\<open>Assumptions and bounds.\<close> Theorems about what a pass achieves assume \<open>no_faults\<close> (no SQL statement
  fails) and that freshly drawn UUIDs, and the eight-digit suffixes cut from them, are new; the
  invariants and the safety of the scheduler hold for all patterns of failure. The loops of the
  modelled code run over lists, but for three: the walk over an image takes a bound on its depth, which
  is shown to be enough for every file system (\<open>find_wasm_terminates\<close>); a follower that drains its log is
  given the number of buffered lines; waiting for a process takes its successive answers. Rows with equal timestamps keep
  table order in a sorted query, where SQL leaves the order open. Release builds are modelled, so
  \<open>i32\<close> arithmetic wraps. An operation of an engine is one step, as the agent calls them one at a time; a
  teardown that was detached finishes in a step of its own. The log file, the pipes and \<open>/dev/null\<close> of a new
  container are taken to open.

  \<^bold>\<open>Not modelled.\<close> The splitting of the command line (clap), the set-up of logging, HTTP parsing and JSON
  encoding (axum, serde), the two adapters of the wasm engine that hand a socket to wasmtime once, the
  size of a terminal. The
  registry client, the tar reader, libcontainer, wasmtime, the Docker daemon, netlink and \<open>iptables\<close> are
  parameters of the definitions that use them (\<open>image_lib\<close>, \<open>em_lib\<close>, \<open>wasm_lib\<close>, \<open>docker_lib\<close>, \<open>net_op\<close>).
\<close>

section \<open>The server as a whole\<close>

lemma server_reachable_db_inv:
  assumes "(server_step e)\<^sup>*\<^sup>* w w'" "db_inv w"
  shows "db_inv w'"
  using assms by (induction rule: rtranclp_induct) (auto intro: server_step_db_inv)

text \<open>
  C3. The integrity of the database holds in every reachable state of the server: whatever
  interleaving of requests of any content, controller passes, scheduler passes, replication,
  listener and pruner turns follows the start-up, and whichever SQL statements fail on the way, in
  each of the sixteen tables no two rows share a primary key or a unique key, and no pod whose node
  column is empty has a node in its stored spec.
\<close>

theorem server_integrity:
  assumes "db_inv w0" "server_init e db_url w0 = (Inr leases, w)" "(server_step e)\<^sup>*\<^sup>* w w'"
  shows "db_ok w' \<and> pods_wf w'"
proof -
  have "db_inv w" using preservesD [OF db_inv_server_init assms(1,2)] .
  with assms(3) have "db_inv w'" by (rule server_reachable_db_inv)
  then show ?thesis by (simp add: db_inv_def)
qed

theorem server_integrity_witness:
  "\<exists>leases w w'. server_init sample_env ''postgres://db'' empty_world = (Inr leases, w) \<and>
     w_replicator w \<noteq> None \<and> w' = snd (create_pod sample_env ''default'' (named_pod ''web'') w) \<and>
     (server_step sample_env)\<^sup>*\<^sup>* w w' \<and> db_ok w' \<and> pods_wf w'"
proof -
  have "backend_from_url ''postgres://db'' = Postgres" by (simp add: backend_from_url_def starts_with_def)
  then obtain leases w where i: "server_init sample_env ''postgres://db'' empty_world = (Inr leases, w)"
    and r: "w_replicator w \<noteq> None"
    by (simp add: server_init_def lease_manager_new_def bindR_def new_v4_def returnR_def)
  let ?w' = "snd (create_pod sample_env ''default'' (named_pod ''web'') w)"
  have s: "(server_step sample_env)\<^sup>*\<^sup>* w ?w'" by (intro r_into_rtranclp step_create_pod)
  have "db_inv empty_world" by (simp add: db_inv_def)
  from server_integrity [OF this i s] i r s show ?thesis by blast
qed

section \<open>The cluster as a whole\<close>

lemma agent_step_db_inv:
  assumes "kept_meanwhile db_inv net" "agent_step e net show_err rt s s'" "db_inv (nw_world s)"
  shows "db_inv (nw_world s')"
  using assms(2)
proof cases
  case (step_heartbeat h)
  then show ?thesis using preservesD [OF kept_send_heartbeat [OF assms(1)] assms(3)] by (metis prod.collapse)
next
  case step_sync
  then show ?thesis using preservesD [OF kept_sync_pods [OF assms(1)] assms(3)] by (metis prod.collapse)
qed

text \<open>
  C4. Integrity of the cluster. A node agent runs its heartbeats and passes for as long as it likes,
  while between any two of its requests the server takes any number of steps of any kind (those of
  other agents, of users and of its own tasks) and requests or answers of the agent get lost: the
  database keeps its unique keys and well-formed pods, and the agent's indexes stay consistent.
\<close>

theorem cluster_integrity:
  assumes "\<And>i w. (server_step e)\<^sup>*\<^sup>* w (net_meanwhile net i w)" "(agent_step e net show_err rt)\<^sup>*\<^sup>* s s'"
    and "db_inv (nw_world s)" "agent_new rt os new name url labels cidr kind = Inr (nw_agent s)"
  shows "db_ok (nw_world s') \<and> pods_wf (nw_world s') \<and> index_ok (nw_agent s')"
proof -
  have kept: "kept_meanwhile db_inv net"
    using server_reachable_db_inv [OF assms(1)] by (simp add: kept_meanwhile_def)
  from assms(2) have "db_inv (nw_world s') \<and> index_ok (nw_agent s')"
    using assms(3) agent_new_index_ok [OF assms(4)]
    by (induction rule: rtranclp_induct) (auto intro: agent_step_db_inv [OF kept] agent_step_index_ok)
  then show ?thesis by (simp add: db_inv_def)
qed

theorem cluster_integrity_witness:
  "\<exists>ag s'. agent_new sample_mock Other_OS (\<lambda>n. if n = ''mock'' then Inr mock_new else Inl ''none'') ''n1'' ''http://s/'' [] ''10.244.0.0/16'' ''mock'' = Inr ag \<and>
     (agent_step sample_env quiet_network (\<lambda>_. []) sample_mock)\<^sup>*\<^sup>* (sample_node\<lparr>nw_agent := ag\<rparr>) s' \<and>
     s' = snd (sync_pods sample_env quiet_network (\<lambda>_. []) sample_mock (sample_node\<lparr>nw_agent := ag\<rparr>)) \<and>
     db_ok (nw_world s') \<and> pods_wf (nw_world s') \<and> index_ok (nw_agent s')"
proof -
  let ?new = "\<lambda>n. if n = ''mock'' then Inr mock_new else Inl ''none''"
  have "map to_lower (trim ''mock'') = ''mock''" by code_simp
  then obtain ag where a: "agent_new sample_mock Other_OS ?new ''n1'' ''http://s/'' [] ''10.244.0.0/16'' ''mock'' = Inr ag"
    by (simp add: agent_new_def engines_build_def select_engine_def sample_mock_def mock_ops_def Let_def)
  let ?s = "sample_node\<lparr>nw_agent := ag\<rparr>"
  let ?s' = "snd (sync_pods sample_env quiet_network (\<lambda>_. []) sample_mock ?s)"
  have s: "(agent_step sample_env quiet_network (\<lambda>_. []) sample_mock)\<^sup>*\<^sup>* ?s ?s'" by (intro r_into_rtranclp step_sync)
  have "db_inv (nw_world ?s)"
    by (simp add: sample_node_def db_inv_def db_ok_def pods_wf_def table_ok_def empty_world_def pod_cols_of_def node_pod_def)
  moreover have "agent_new sample_mock Other_OS ?new ''n1'' ''http://s/'' [] ''10.244.0.0/16'' ''mock'' = Inr (nw_agent ?s)"
    using a by simp
  moreover have "(server_step sample_env)\<^sup>*\<^sup>* w (net_meanwhile quiet_network i w)" for i w by (simp add: quiet_network_def)
  ultimately show ?thesis using cluster_integrity [OF _ s] a s by blast
qed

end
